(* ===== verification/Prelude.thy ===== *)
theory Prelude imports Main begin

text \<open>
  The prelude of the development: the effect type in which the Go code is written down, and the
  list and option lemmas that several components share.

  A Go function that performs I/O and returns \<open>(T, error)\<close> is a function from a state to a pair of
  an outcome and the state afterwards; the outcome is \<open>Inl err\<close> or \<open>Inr value\<close>. The state is kept on
  errors too: a failed call may have had effects. \<open>andThen\<close> is the statement sequence
  \<open>x, err := m(); if err != nil { return err }\<close>, and \<open>attempt\<close> is a call whose error is inspected
  by the caller.
\<close>

type_synonym time = int
type_synonym duration = int

named_theorems run_simps
named_theorems store_defs

subsection \<open>Effectful computations with error returns\<close>

type_synonym ('s, 'e, 'a) eff = "'s \<Rightarrow> ('e + 'a) \<times> 's"

definition ret :: "'a \<Rightarrow> ('s, 'e, 'a) eff" where
  "ret x = (\<lambda>w. (Inr x, w))"

definition fail :: "'e \<Rightarrow> ('s, 'e, 'a) eff" where
  "fail err = (\<lambda>w. (Inl err, w))"

definition andThen :: "('s, 'e, 'a) eff \<Rightarrow> ('a \<Rightarrow> ('s, 'e, 'b) eff) \<Rightarrow> ('s, 'e, 'b) eff" where
  "andThen m f = (\<lambda>w. case m w of (Inl err, w') \<Rightarrow> (Inl err, w') | (Inr x, w') \<Rightarrow> f x w')"

definition attempt :: "('s, 'e, 'a) eff \<Rightarrow> ('s, 'f, 'e + 'a) eff" where
  "attempt m = (\<lambda>w. case m w of (r, w') \<Rightarrow> (Inr r, w'))"

definition liftSum :: "'e + 'a \<Rightarrow> ('s, 'e, 'a) eff" where
  "liftSum r = (\<lambda>w. (r, w))"

definition mapError :: "('e \<Rightarrow> 'e) \<Rightarrow> ('s, 'e, 'a) eff \<Rightarrow> ('s, 'e, 'a) eff" where
  "mapError h m = (\<lambda>w. case m w of (Inl err, w') \<Rightarrow> (Inl (h err), w') | (Inr x, w') \<Rightarrow> (Inr x, w'))"

fun forEach :: "('x \<Rightarrow> ('s, 'e, unit) eff) \<Rightarrow> 'x list \<Rightarrow> ('s, 'e, unit) eff" where
  "forEach f [] = ret ()"
| "forEach f (x # xs) = andThen (f x) (\<lambda>_. forEach f xs)"

lemma ret_eq [run_simps]: "ret x w = (r, w') \<longleftrightarrow> r = Inr x \<and> w' = w"
  by (auto simp: ret_def)

lemma fail_eq [run_simps]: "fail err w = (r, w') \<longleftrightarrow> r = Inl err \<and> w' = w"
  by (auto simp: fail_def)

lemma liftSum_eq [run_simps]: "liftSum s w = (r, w') \<longleftrightarrow> r = s \<and> w' = w"
  by (auto simp: liftSum_def)

lemma andThen_Inr [run_simps]:
  "andThen m f w = (Inr y, w') \<longleftrightarrow> (\<exists>x w1. m w = (Inr x, w1) \<and> f x w1 = (Inr y, w'))"
  by (auto simp: andThen_def split: prod.splits sum.splits)

lemma andThen_Inl [run_simps]:
  "andThen m f w = (Inl err, w') \<longleftrightarrow>
     m w = (Inl err, w') \<or> (\<exists>x w1. m w = (Inr x, w1) \<and> f x w1 = (Inl err, w'))"
  by (auto simp: andThen_def split: prod.splits sum.splits)

lemma andThen_step [simp]: "m w = (Inr x, w1) \<Longrightarrow> andThen m f w = f x w1"
  by (simp add: andThen_def)

lemma andThen_stop [simp]: "m w = (Inl err, w1) \<Longrightarrow> andThen m f w = (Inl err, w1)"
  by (simp add: andThen_def)

lemma attempt_eq [run_simps]: "attempt m w = (Inr r, w') \<longleftrightarrow> m w = (r, w')"
  by (auto simp: attempt_def split: prod.splits)

lemma attempt_never_fails [run_simps]: "attempt m w = (Inl err, w') \<longleftrightarrow> False"
  by (auto simp: attempt_def split: prod.splits)

lemma mapError_Inr [run_simps]: "mapError h m w = (Inr x, w') \<longleftrightarrow> m w = (Inr x, w')"
  by (auto simp: mapError_def split: prod.splits sum.splits)

lemma mapError_Inl [run_simps]:
  "mapError h m w = (Inl err, w') \<longleftrightarrow> (\<exists>err0. m w = (Inl err0, w') \<and> err = h err0)"
  by (auto simp: mapError_def split: prod.splits sum.splits)

subsection \<open>Rows of a table\<close>

text \<open>\<open>UPDATE ... WHERE\<close> and its row count, over a table held as the list of its rows.\<close>

definition updateWhere :: "('r \<Rightarrow> bool) \<Rightarrow> ('r \<Rightarrow> 'r) \<Rightarrow> 'r list \<Rightarrow> 'r list" where
  "updateWhere P f rows = map (\<lambda>r. if P r then f r else r) rows"

definition countWhere :: "('r \<Rightarrow> bool) \<Rightarrow> 'r list \<Rightarrow> nat" where
  "countWhere P rows = length (filter P rows)"

lemma set_updateWhere:
  "set (updateWhere P f rows) = f ` {r \<in> set rows. P r} \<union> {r \<in> set rows. \<not> P r}"
  by (auto simp: updateWhere_def image_iff)

lemma in_updateWhereE:
  assumes "r' \<in> set (updateWhere P f rows)"
  obtains (changed) r where "r \<in> set rows" "P r" "r' = f r"
        | (kept) "r' \<in> set rows" "\<not> P r'"
  using assms by (auto simp: set_updateWhere)

lemma filter_updateWhere_other:
  assumes "\<And>r. P r \<Longrightarrow> \<not> Q r" and "\<And>r. P r \<Longrightarrow> \<not> Q (f r)"
  shows "filter Q (updateWhere P f rows) = filter Q rows"
  using assms by (induction rows) (auto simp: updateWhere_def)

lemma map_updateWhere_key:
  assumes "\<And>r. P r \<Longrightarrow> k (f r) = k r"
  shows "map k (updateWhere P f rows) = map k rows"
  using assms by (simp add: updateWhere_def)

lemma updateWhere_kept:
  assumes "r \<in> set rows" and "P r \<Longrightarrow> rel r (f r)" and "rel r r"
  shows "\<exists>r' \<in> set (updateWhere P f rows). rel r r'"
proof (rule bexI[of _ "if P r then f r else r"])
  show "(if P r then f r else r) \<in> set (updateWhere P f rows)"
    using assms(1) by (auto simp: updateWhere_def)
qed (use assms in auto)

lemma updateWhere_none: "\<forall>r \<in> set rows. \<not> P r \<Longrightarrow> updateWhere P f rows = rows"
  by (simp add: updateWhere_def map_idI)

lemma length_updateWhere [simp]: "length (updateWhere P f rows) = length rows"
  by (simp add: updateWhere_def)

lemma countWhere_0: "countWhere P rows = 0 \<longleftrightarrow> (\<forall>r \<in> set rows. \<not> P r)"
  by (simp add: countWhere_def filter_empty_conv)

subsection \<open>The first violated check of a list of checks\<close>

fun firstViolation :: "(bool \<times> 'e) list \<Rightarrow> 'e option" where
  "firstViolation [] = None"
| "firstViolation ((violated, err) # cs) = (if violated then Some err else firstViolation cs)"

lemma firstViolation_None [simp]: "firstViolation cs = None \<longleftrightarrow> (\<forall>(v, err) \<in> set cs. \<not> v)"
  by (induction cs rule: firstViolation.induct) auto

subsection \<open>Lists\<close>

lemma dropWhile_sorted_filter:
  assumes "sorted (xs :: 'a :: linorder list)"
  shows "dropWhile (\<lambda>x. \<not> c < x) xs = filter (\<lambda>x. c < x) xs"
  using assms
proof (induction xs)
  case Nil
  then show ?case by simp
next
  case (Cons x xs)
  show ?case
  proof (cases "c < x")
    case True
    with Cons.prems have "\<forall>y \<in> set xs. c < y" by auto
    then have "filter (\<lambda>x. c < x) xs = xs" by (simp add: filter_id_conv)
    with True show ?thesis by simp
  next
    case False
    with Cons show ?thesis by simp
  qed
qed

lemma find_Some_member: "List.find P xs = Some x \<Longrightarrow> x \<in> set xs \<and> P x"
  by (auto simp: find_Some_iff)

lemma distinct_key_unique:
  "distinct (map k xs) \<Longrightarrow> x \<in> set xs \<Longrightarrow> y \<in> set xs \<Longrightarrow> k x = k y \<Longrightarrow> x = y"
  by (auto simp: distinct_map inj_on_def)

lemma length_filter_mono:
  "(\<And>x. x \<in> set xs \<Longrightarrow> P x \<Longrightarrow> Q x) \<Longrightarrow> length (filter P xs) \<le> length (filter Q xs)"
  by (induction xs) auto

text \<open>\<^verbatim>\<open>ORDER BY\<close> with a comparison that the database supplies: insertion sort.\<close>

fun insertBy :: "('a \<Rightarrow> 'a \<Rightarrow> bool) \<Rightarrow> 'a \<Rightarrow> 'a list \<Rightarrow> 'a list" where
  "insertBy lt x [] = [x]"
| "insertBy lt x (y # ys) = (if lt y x then y # insertBy lt x ys else x # y # ys)"

fun orderBy :: "('a \<Rightarrow> 'a \<Rightarrow> bool) \<Rightarrow> 'a list \<Rightarrow> 'a list" where
  "orderBy lt [] = []"
| "orderBy lt (x # xs) = insertBy lt x (orderBy lt xs)"

lemma set_insertBy [simp]: "set (insertBy lt x ys) = insert x (set ys)"
  by (induction ys) auto

lemma set_orderBy [simp]: "set (orderBy lt xs) = set xs"
  by (induction xs) auto

lemma length_insertBy [simp]: "length (insertBy lt x ys) = Suc (length ys)"
  by (induction ys) auto

lemma length_orderBy [simp]: "length (orderBy lt xs) = length xs"
  by (induction xs) auto

lemma distinct_insertBy: "distinct (insertBy lt x ys) \<longleftrightarrow> x \<notin> set ys \<and> distinct ys"
  by (induction ys) auto

lemma distinct_orderBy [simp]: "distinct (orderBy lt xs) \<longleftrightarrow> distinct xs"
  by (induction xs) (auto simp: distinct_insertBy)

text \<open>Trimming a list at both ends, as the library's trimming functions do.\<close>

definition trimList :: "('a \<Rightarrow> bool) \<Rightarrow> 'a list \<Rightarrow> 'a list" where
  "trimList P xs = rev (dropWhile P (rev (dropWhile P xs)))"

lemma dropWhile_idem: "dropWhile P xs = [] \<or> \<not> P (hd (dropWhile P xs))"
  using hd_dropWhile by blast

lemma dropWhile_id_hd: "xs = [] \<or> \<not> P (hd xs) \<Longrightarrow> dropWhile P xs = xs"
  by (cases xs) auto

lemma hd_rev_dropWhile_rev:
  assumes "rev (dropWhile P (rev ys)) \<noteq> []"
  shows "hd (rev (dropWhile P (rev ys))) = hd ys"
proof -
  have "ys = rev (dropWhile P (rev ys)) @ rev (takeWhile P (rev ys))"
    by (metis rev_append rev_rev_ident takeWhile_dropWhile_id)
  then show ?thesis using assms by (metis hd_append2)
qed

lemma trimList_idem [simp]: "trimList P (trimList P xs) = trimList P xs"
proof -
  let ?ys = "dropWhile P xs"
  let ?zs = "rev (dropWhile P (rev ?ys))"
  have "dropWhile P ?zs = ?zs"
  proof (rule dropWhile_id_hd)
    show "?zs = [] \<or> \<not> P (hd ?zs)"
    proof (cases "?zs = []")
      case False
      then have "hd ?zs = hd ?ys" "?ys \<noteq> []" by (rule hd_rev_dropWhile_rev) (use False in \<open>auto dest: set_dropWhileD\<close>)
      then show ?thesis using dropWhile_idem[of P xs] by metis
    qed simp
  qed
  moreover have "dropWhile P (rev ?zs) = rev ?zs"
    using dropWhile_idem[of P "rev ?ys"] by (simp add: dropWhile_id_hd)
  ultimately show ?thesis by (simp add: trimList_def)
qed

lemma trimList_infix: "\<exists>i k. trimList P xs = take k (drop i xs)"
proof -
  let ?ys = "dropWhile P xs"
  have "rev (dropWhile P (rev ?ys)) = take (length (dropWhile P (rev ?ys))) ?ys"
    by (metis append_eq_conv_conj length_rev rev_append rev_rev_ident takeWhile_dropWhile_id)
  then show ?thesis unfolding trimList_def by (metis dropWhile_eq_drop)
qed

end
