(* ===== verification/GoErrors.thy ===== *)
theory GoErrors imports Prelude begin

text \<open>
  Errors of the program: \<^verbatim>\<open>server/errors.go\<close> (the public error kinds and \<^verbatim>\<open>*clinks.Error\<close>) and the
  transport classification \<^verbatim>\<open>connectCode\<close> of \<^verbatim>\<open>server/web/helpers.go\<close>.

  A Go \<open>error\<close> value is one of: a \<^verbatim>\<open>*clinks.Error\<close>, pgx's \<open>ErrNoRows\<close>, a \<^verbatim>\<open>*pgconn.PgError\<close> with its
  SQLSTATE and constraint name, any other error (\<open>OpaqueError\<close>, e.g. a lost connection), an error
  wrapped by \<^verbatim>\<open>fmt.Errorf("...: %w", err)\<close>, or the join of several. \<open>asDomain\<close> is
  \<^verbatim>\<open>errors.AsType[*Error]\<close>: it walks the wrapping chain in the order of Go's \<^verbatim>\<open>errors\<close> package.
\<close>

datatype error_kind =
    ErrorInvalidCredentials | ErrorUnauthorized | ErrorValidation | ErrorEmailTaken
  | ErrorTenantNotFound | ErrorMembershipNotFound | ErrorRoleNotFound | ErrorUserNotFound
  | ErrorConflict | ErrorInvitationInvalid | ErrorInvitationExpired | ErrorInvitationUsed
  | ErrorInviteEmailMismatch | ErrorLeaseLost | ErrorRateLimited | ErrorInternal
  | ErrorKindOther string

fun error_kind_string :: "error_kind \<Rightarrow> string" where
  "error_kind_string ErrorInvalidCredentials = ''invalid_credentials''"
| "error_kind_string ErrorUnauthorized = ''unauthorized''"
| "error_kind_string ErrorValidation = ''validation''"
| "error_kind_string ErrorEmailTaken = ''email_taken''"
| "error_kind_string ErrorTenantNotFound = ''tenant_not_found''"
| "error_kind_string ErrorMembershipNotFound = ''membership_not_found''"
| "error_kind_string ErrorRoleNotFound = ''role_not_found''"
| "error_kind_string ErrorUserNotFound = ''user_not_found''"
| "error_kind_string ErrorConflict = ''conflict''"
| "error_kind_string ErrorInvitationInvalid = ''invitation_invalid''"
| "error_kind_string ErrorInvitationExpired = ''invitation_expired''"
| "error_kind_string ErrorInvitationUsed = ''invitation_used''"
| "error_kind_string ErrorInviteEmailMismatch = ''invite_email_mismatch''"
| "error_kind_string ErrorLeaseLost = ''lease_lost''"
| "error_kind_string ErrorRateLimited = ''rate_limited''"
| "error_kind_string ErrorInternal = ''internal''"
| "error_kind_string (ErrorKindOther s) = s"

fun error_kind_valid :: "error_kind \<Rightarrow> bool" where
  "error_kind_valid (ErrorKindOther s) = False"
| "error_kind_valid _ = True"

datatype go_error =
    DomainError error_kind
  | NoRows
  | PgError string string
  | OpaqueError string
  | Wrapped string go_error
  | Joined "go_error list"

abbreviation newError :: "error_kind \<Rightarrow> go_error" where
  "newError kind \<equiv> DomainError kind"

fun asDomain :: "go_error \<Rightarrow> error_kind option"
  and asDomainFirst :: "go_error list \<Rightarrow> error_kind option" where
  "asDomain (DomainError k) = Some k"
| "asDomain (Wrapped msg err) = asDomain err"
| "asDomain (Joined errs) = asDomainFirst errs"
| "asDomain NoRows = None"
| "asDomain (PgError code constraint) = None"
| "asDomain (OpaqueError msg) = None"
| "asDomainFirst [] = None"
| "asDomainFirst (err # errs) = (case asDomain err of Some k \<Rightarrow> Some k | None \<Rightarrow> asDomainFirst errs)"

text \<open>\<^verbatim>\<open>errors.Is(err, NewError(kind))\<close>: some error of the chain is a \<^verbatim>\<open>*clinks.Error\<close> of this kind.\<close>

fun isDomain :: "error_kind \<Rightarrow> go_error \<Rightarrow> bool"
  and isDomainAny :: "error_kind \<Rightarrow> go_error list \<Rightarrow> bool" where
  "isDomain k (DomainError k') = (k' = k)"
| "isDomain k (Wrapped msg err) = isDomain k err"
| "isDomain k (Joined errs) = isDomainAny k errs"
| "isDomain k NoRows = False"
| "isDomain k (PgError code constraint) = False"
| "isDomain k (OpaqueError msg) = False"
| "isDomainAny k [] = False"
| "isDomainAny k (err # errs) = (isDomain k err \<or> isDomainAny k errs)"

text \<open>\<^verbatim>\<open>errors.Is(err, pgx.ErrNoRows)\<close>.\<close>

fun isNoRows :: "go_error \<Rightarrow> bool"
  and isNoRowsAny :: "go_error list \<Rightarrow> bool" where
  "isNoRows NoRows = True"
| "isNoRows (Wrapped msg err) = isNoRows err"
| "isNoRows (Joined errs) = isNoRowsAny errs"
| "isNoRows (DomainError k) = False"
| "isNoRows (PgError code constraint) = False"
| "isNoRows (OpaqueError msg) = False"
| "isNoRowsAny [] = False"
| "isNoRowsAny (err # errs) = (isNoRows err \<or> isNoRowsAny errs)"

text \<open>\<^verbatim>\<open>errors.As(err, &postgresError)\<close>: the first \<^verbatim>\<open>*pgconn.PgError\<close> of the chain.\<close>

fun asPg :: "go_error \<Rightarrow> (string \<times> string) option"
  and asPgFirst :: "go_error list \<Rightarrow> (string \<times> string) option" where
  "asPg (PgError code constraint) = Some (code, constraint)"
| "asPg (Wrapped msg err) = asPg err"
| "asPg (Joined errs) = asPgFirst errs"
| "asPg NoRows = None"
| "asPg (DomainError k) = None"
| "asPg (OpaqueError msg) = None"
| "asPgFirst [] = None"
| "asPgFirst (err # errs) = (case asPg err of Some c \<Rightarrow> Some c | None \<Rightarrow> asPgFirst errs)"

subsection \<open>Database errors as domain errors\<close>

text \<open>\<^verbatim>\<open>constraintConflict\<close> of \<^verbatim>\<open>server/postgres/errors.go\<close>: a violated foreign key (23503) or unique
  constraint (23505) is a conflict. \<^verbatim>\<open>mapIdentityDatabaseError\<close> of \<^verbatim>\<open>server/postgres/users.go\<close>.\<close>

definition constraintConflict :: "go_error \<Rightarrow> go_error" where
  "constraintConflict err =
     (case asPg err of
        Some (code, _) \<Rightarrow>
          if code = ''23503'' \<or> code = ''23505'' then newError ErrorConflict else err
      | None \<Rightarrow> err)"

definition usersEmailUniqueConstraint :: string where
  "usersEmailUniqueConstraint = ''users_email_unique''"

definition mapIdentityDatabaseError :: "go_error \<Rightarrow> go_error" where
  "mapIdentityDatabaseError err =
     (case asPg err of
        Some (_, constraint) \<Rightarrow>
          if constraint = usersEmailUniqueConstraint then newError ErrorEmailTaken
          else Wrapped ''postgres identity operation'' err
      | None \<Rightarrow> Wrapped ''postgres identity operation'' err)"

definition isInvalidCredentials :: "go_error \<Rightarrow> bool" where
  "isInvalidCredentials err \<longleftrightarrow> asDomain err = Some ErrorInvalidCredentials"

definition isSessionInvalid :: "go_error \<Rightarrow> bool" where
  "isSessionInvalid err \<longleftrightarrow>
     (case asDomain err of
        None \<Rightarrow> False
      | Some kind \<Rightarrow> kind = ErrorUnauthorized \<or> kind = ErrorInvalidCredentials)"

subsection \<open>Transport codes\<close>

datatype connect_code =
    CodeUnauthenticated | CodePermissionDenied | CodeInvalidArgument | CodeAlreadyExists
  | CodeNotFound | CodeFailedPrecondition | CodeAborted | CodeResourceExhausted | CodeInternal

definition connectCode :: "go_error \<Rightarrow> connect_code" where
  "connectCode err =
     (case asDomain err of
        None \<Rightarrow> CodeInternal
      | Some kind \<Rightarrow>
          (case kind of
             ErrorInvalidCredentials \<Rightarrow> CodeUnauthenticated
           | ErrorUnauthorized \<Rightarrow> CodePermissionDenied
           | ErrorMembershipNotFound \<Rightarrow> CodePermissionDenied
           | ErrorValidation \<Rightarrow> CodeInvalidArgument
           | ErrorInviteEmailMismatch \<Rightarrow> CodeInvalidArgument
           | ErrorEmailTaken \<Rightarrow> CodeAlreadyExists
           | ErrorTenantNotFound \<Rightarrow> CodeNotFound
           | ErrorInvitationInvalid \<Rightarrow> CodeNotFound
           | ErrorRoleNotFound \<Rightarrow> CodeNotFound
           | ErrorUserNotFound \<Rightarrow> CodeNotFound
           | ErrorInvitationExpired \<Rightarrow> CodeFailedPrecondition
           | ErrorInvitationUsed \<Rightarrow> CodeFailedPrecondition
           | ErrorConflict \<Rightarrow> CodeAborted
           | ErrorRateLimited \<Rightarrow> CodeResourceExhausted
           | _ \<Rightarrow> CodeInternal))"

text \<open>The error kind sent in the \<^verbatim>\<open>Clinks-Error-Kind\<close> header by \<^verbatim>\<open>localizedError\<close>.\<close>

definition errorKindHeader :: "go_error \<Rightarrow> error_kind" where
  "errorKindHeader err = (case asDomain err of Some kind \<Rightarrow> kind | None \<Rightarrow> ErrorInternal)"

subsection \<open>Lemmas\<close>

lemma asDomain_isDomain: "asDomain err = Some k \<Longrightarrow> isDomain k err"
  and asDomainFirst_isDomainAny: "asDomainFirst errs = Some k \<Longrightarrow> isDomainAny k errs"
  by (induction err and errs rule: asDomain_asDomainFirst.induct) (auto split: option.splits)

lemma asDomain_none_isDomain: "asDomain err = None \<Longrightarrow> \<not> isDomain k err"
  and asDomainFirst_none_isDomainAny: "asDomainFirst errs = None \<Longrightarrow> \<not> isDomainAny k errs"
  by (induction err and errs rule: asDomain_asDomainFirst.induct) (auto split: option.splits)

lemma constraintConflict_cases:
  "constraintConflict err = newError ErrorConflict \<or> constraintConflict err = err"
  by (auto simp: constraintConflict_def split: option.splits)

end
