(* ===== verification/GoStrings.thy ===== *)
theory GoStrings imports Prelude begin

text \<open>
  Go strings and the functions of Go's standard library that the program calls on them. A Go string
  is a sequence of bytes, so it is an Isabelle \<open>string\<close> (a list of 8-bit characters).

  \<open>nextRune\<close> and \<open>runes\<close> are Go's UTF-8 decoder (\<^verbatim>\<open>unicode/utf8\<close>): a byte that starts no valid sequence
  is one error rune of width 1. \<open>trimSpace\<close>, \<open>cut\<close>, \<open>containsSub\<close>, \<open>toLower\<close> and \<open>toUpper\<close> are
  \<^verbatim>\<open>strings.TrimSpace\<close>, \<^verbatim>\<open>strings.Cut\<close>, \<^verbatim>\<open>strings.Contains\<close>, \<^verbatim>\<open>strings.ToLower\<close> and \<^verbatim>\<open>strings.ToUpper\<close>;
  the Unicode case tables above ASCII are the parameter \<open>unicode_tables\<close>.
\<close>

definition byte :: "char \<Rightarrow> nat" where
  "byte c = of_char c"

definition contByte :: "char \<Rightarrow> bool" where
  "contByte c \<longleftrightarrow> 128 \<le> byte c \<and> byte c \<le> 191"

definition runeError :: nat where
  "runeError = 65533"

subsection \<open>UTF-8\<close>

text \<open>The rune at the front of a string and its width; \<open>None\<close> is an invalid sequence.\<close>

fun nextRune :: "string \<Rightarrow> nat option \<times> nat" where
  "nextRune [] = (None, 0)"
| "nextRune (a # s) =
     (let x = byte a in
      if x < 128 then (Some x, 1)
      else if 194 \<le> x \<and> x \<le> 223 then
        (case s of
           b # _ \<Rightarrow> if contByte b then (Some ((x - 192) * 64 + (byte b - 128)), 2) else (None, 1)
         | [] \<Rightarrow> (None, 1))
      else if 224 \<le> x \<and> x \<le> 239 then
        (case s of
           b # c # _ \<Rightarrow>
             if (if x = 224 then 160 else 128) \<le> byte b \<and> byte b \<le> (if x = 237 then 159 else 191)
                \<and> contByte c
             then (Some ((x - 224) * 4096 + (byte b - 128) * 64 + (byte c - 128)), 3) else (None, 1)
         | _ \<Rightarrow> (None, 1))
      else if 240 \<le> x \<and> x \<le> 244 then
        (case s of
           b # c # d # _ \<Rightarrow>
             if (if x = 240 then 144 else 128) \<le> byte b \<and> byte b \<le> (if x = 244 then 143 else 191)
                \<and> contByte c \<and> contByte d
             then (Some ((x - 240) * 262144 + (byte b - 128) * 4096 + (byte c - 128) * 64
                         + (byte d - 128)), 4) else (None, 1)
         | _ \<Rightarrow> (None, 1))
      else (None, 1))"

lemma nextRune_width: "0 < snd (nextRune (a # s)) \<and> snd (nextRune (a # s)) \<le> length (a # s)"
  by (auto simp: Let_def split: list.splits)

text \<open>The string as the list of its runes, each with the bytes it was read from.\<close>

function runes :: "string \<Rightarrow> (nat option \<times> string) list" where
  "runes [] = []"
| "runes (a # s) =
     (fst (nextRune (a # s)), take (snd (nextRune (a # s))) (a # s))
       # runes (drop (snd (nextRune (a # s))) (a # s))"
  by pat_completeness auto
termination
  by (relation "measure length") (use nextRune_width in \<open>auto simp del: nextRune.simps\<close>)

declare nextRune.simps(2) [simp del]

definition runeCount :: "string \<Rightarrow> nat" where
  "runeCount s = length (runes s)"

definition validUtf8 :: "string \<Rightarrow> bool" where
  "validUtf8 s \<longleftrightarrow> list_all (\<lambda>(r, _). r \<noteq> None) (runes s)"

text \<open>\<^verbatim>\<open>for index, character := range s\<close>: the byte offset and the rune, \<open>runeError\<close> for an invalid one.\<close>

fun rangeFrom :: "nat \<Rightarrow> (nat option \<times> string) list \<Rightarrow> (nat \<times> nat) list" where
  "rangeFrom i [] = []"
| "rangeFrom i ((r, bs) # ps) =
     (i, case r of None \<Rightarrow> runeError | Some x \<Rightarrow> x) # rangeFrom (i + length bs) ps"

definition range :: "string \<Rightarrow> (nat \<times> nat) list" where
  "range s = rangeFrom 0 (runes s)"

text \<open>\<^verbatim>\<open>utf8.AppendRune\<close>; surrogates and values above the Unicode range become the error rune.\<close>

definition chr :: "nat \<Rightarrow> char" where
  "chr n = char_of n"

definition encodeRune :: "nat \<Rightarrow> string" where
  "encodeRune r0 =
     (let r = (if 1114111 < r0 \<or> 55296 \<le> r0 \<and> r0 \<le> 57343 then runeError else r0) in
      if r \<le> 127 then [chr r]
      else if r \<le> 2047 then [chr (192 + r div 64), chr (128 + r mod 64)]
      else if r \<le> 65535 then [chr (224 + r div 4096), chr (128 + r div 64 mod 64), chr (128 + r mod 64)]
      else [chr (240 + r div 262144), chr (128 + r div 4096 mod 64), chr (128 + r div 64 mod 64),
            chr (128 + r mod 64)])"

subsection \<open>Trimming, cutting, searching\<close>

text \<open>\<^verbatim>\<open>unicode.IsSpace\<close>.\<close>

definition isSpace :: "nat \<Rightarrow> bool" where
  "isSpace r \<longleftrightarrow> r \<in> {9, 10, 11, 12, 13, 32, 133, 160, 5760, 8232, 8233, 8239, 8287, 12288}
                 \<or> 8192 \<le> r \<and> r \<le> 8202"

definition spacePiece :: "nat option \<times> string \<Rightarrow> bool" where
  "spacePiece p = (case fst p of None \<Rightarrow> False | Some r \<Rightarrow> isSpace r)"

definition trimSpace :: "string \<Rightarrow> string" where
  "trimSpace s = concat (map snd (trimList spacePiece (runes s)))"

text \<open>\<^verbatim>\<open>strings.Cut(s, sep)\<close> for a one-byte separator.\<close>

fun cut :: "char \<Rightarrow> string \<Rightarrow> string \<times> string \<times> bool" where
  "cut sep [] = ([], [], False)"
| "cut sep (c # s) =
     (if c = sep then ([], s, True)
      else case cut sep s of (before, after, found) \<Rightarrow> (c # before, after, found))"

fun hasPrefix :: "string \<Rightarrow> string \<Rightarrow> bool" where
  "hasPrefix s [] = True"
| "hasPrefix [] (p # ps) = False"
| "hasPrefix (c # s) (p # ps) = (c = p \<and> hasPrefix s ps)"

fun containsSub :: "string \<Rightarrow> string \<Rightarrow> bool" where
  "containsSub [] sub = (sub = [])"
| "containsSub (c # s) sub = (hasPrefix (c # s) sub \<or> containsSub s sub)"

text \<open>\<^verbatim>\<open>strings.Split(s, sep)\<close> for a one-byte separator.\<close>

fun splitOn :: "char \<Rightarrow> string \<Rightarrow> string list" where
  "splitOn sep [] = [[]]"
| "splitOn sep (c # s) =
     (if c = sep then [] # splitOn sep s
      else case splitOn sep s of [] \<Rightarrow> [[c]] | w # ws \<Rightarrow> (c # w) # ws)"

text \<open>\<^verbatim>\<open>strings.ReplaceAll(s, old, new)\<close> for a non-empty \<open>old\<close>.\<close>

function replaceAll :: "string \<Rightarrow> string \<Rightarrow> string \<Rightarrow> string" where
  "replaceAll old new [] = []"
| "replaceAll old new (c # s) =
     (if old \<noteq> [] \<and> hasPrefix (c # s) old then new @ replaceAll old new (drop (length old) (c # s))
      else c # replaceAll old new s)"
  by pat_completeness auto
termination
proof (relation "measure (\<lambda>(old, new, s). length s)")
  show "((old, new, drop (length old) (c # s)), old, new, c # s) \<in> measure (\<lambda>(old, new, s). length s)"
    if "old \<noteq> [] \<and> hasPrefix (c # s) old" for old new :: string and c s
    using that by (cases old) (auto simp: less_Suc_eq_le)
qed auto

text \<open>The byte order of strings, which is also PostgreSQL's order of \<^verbatim>\<open>uuid\<close> values.\<close>

fun bytesLess :: "string \<Rightarrow> string \<Rightarrow> bool" where
  "bytesLess s [] = False"
| "bytesLess [] (c # t) = True"
| "bytesLess (a # s) (c # t) = (byte a < byte c \<or> (a = c \<and> bytesLess s t))"

subsection \<open>Case mapping\<close>

record unicode_tables =
  unicodeLower :: "nat \<Rightarrow> nat"
  unicodeUpper :: "nat \<Rightarrow> nat"

definition lowerRune :: "unicode_tables \<Rightarrow> nat \<Rightarrow> nat" where
  "lowerRune u r = (if r < 128 then (if 65 \<le> r \<and> r \<le> 90 then r + 32 else r) else unicodeLower u r)"

definition upperRune :: "unicode_tables \<Rightarrow> nat \<Rightarrow> nat" where
  "upperRune u r = (if r < 128 then (if 97 \<le> r \<and> r \<le> 122 then r - 32 else r) else unicodeUpper u r)"

definition toLower :: "unicode_tables \<Rightarrow> string \<Rightarrow> string" where
  "toLower u s = concat (map (\<lambda>(r, _). encodeRune (lowerRune u (case r of None \<Rightarrow> runeError | Some x \<Rightarrow> x))) (runes s))"

definition toUpper :: "unicode_tables \<Rightarrow> string \<Rightarrow> string" where
  "toUpper u s = concat (map (\<lambda>(r, _). encodeRune (upperRune u (case r of None \<Rightarrow> runeError | Some x \<Rightarrow> x))) (runes s))"

subsection \<open>Decoding lemmas\<close>

lemma byte_bound: "byte c < 256"
  by (simp add: byte_def)

lemma byte_inject [simp]: "byte a = byte b \<longleftrightarrow> a = b"
  by (simp add: byte_def)

lemma chr_byte [simp]: "chr (byte c) = c"
  by (simp add: chr_def byte_def)

lemma byte_chr: "n < 256 \<Longrightarrow> byte (chr n) = n"
  by (simp add: byte_def chr_def)

lemma concat_runes: "concat (map snd (runes s)) = s"
  by (induction s rule: runes.induct) auto

lemma nextRune_take:
  assumes "nextRune s = (Some r, n)"
  shows "nextRune (take n s @ rest) = (Some r, n)"
  using assms
  by (cases s) (auto simp: nextRune.simps(2) Let_def split: list.splits if_splits)

lemma nextRune_None_width: "nextRune (a # s) = (None, n) \<Longrightarrow> n = 1"
  by (auto simp: nextRune.simps(2) Let_def split: list.splits if_splits)

lemma nextRune_invalid_prefix:
  assumes "nextRune (a # p @ rest) = (None, n)"
  shows "nextRune (a # p) = (None, n)"
proof (cases "fst (nextRune (a # p))")
  case None
  then show ?thesis
    using nextRune_None_width[of a p] nextRune_None_width[OF assms] by (metis prod.collapse)
next
  case (Some r)
  let ?m = "snd (nextRune (a # p))"
  have "nextRune (take ?m (a # p) @ (drop ?m (a # p) @ rest)) = (Some r, ?m)"
    by (rule nextRune_take) (metis Some prod.collapse)
  then have "nextRune (a # p @ rest) = (Some r, ?m)" by (metis append_Cons append_assoc append_take_drop_id)
  then show ?thesis using assms by simp
qed

lemma runes_append_step:
  assumes "p \<in> set (runes s)"
  shows "snd p \<noteq> []"
  using assms
proof (induction s rule: runes.induct)
  case (2 a s)
  then show ?case using nextRune_width[of a s] by auto
qed simp

text \<open>Cutting whole runes off the end of a string leaves the remaining runes as they were.\<close>

lemma runes_prefix:
  "runes (concat (map snd (take k (runes s)))) = take k (runes s)"
proof (induction s arbitrary: k rule: runes.induct)
  case 1
  then show ?case by simp
next
  case (2 a s)
  let ?n = "snd (nextRune (a # s))"
  let ?rest = "drop ?n (a # s)"
  show ?case
  proof (cases k)
    case 0
    then show ?thesis by simp
  next
    case (Suc k')
    let ?tail = "concat (map snd (take k' (runes ?rest)))"
    have tail: "runes ?tail = take k' (runes ?rest)" by (rule "2.IH")
    have split: "?rest = ?tail @ concat (map snd (drop k' (runes ?rest)))"
      by (metis append_take_drop_id concat_append concat_runes map_append)
    obtain m where m: "?n = Suc m" using nextRune_width[of a s] by (cases ?n) auto
    have str: "concat (map snd (take k (runes (a # s)))) = take ?n (a # s) @ ?tail"
      by (simp add: Suc)
    have front: "nextRune (take ?n (a # s) @ ?tail) = nextRune (a # s)"
    proof (cases "fst (nextRune (a # s))")
      case (Some r)
      then show ?thesis using nextRune_take[of "a # s" r ?n ?tail] by (metis prod.collapse)
    next
      case None
      then have n1: "?n = 1" using nextRune_None_width by (metis prod.collapse)
      then have whole: "a # s = a # ?tail @ concat (map snd (drop k' (runes ?rest)))"
        using split by simp
      have "nextRune (a # ?tail @ concat (map snd (drop k' (runes ?rest)))) = (None, ?n)"
        using None whole by (metis prod.collapse)
      then have "nextRune (a # ?tail) = (None, ?n)" by (rule nextRune_invalid_prefix)
      then show ?thesis using None n1 by (metis append_Cons append_Nil prod.collapse take_Suc_Cons take0 One_nat_def)
    qed
    have len: "length (take ?n (a # s)) = ?n" using nextRune_width[of a s] by simp
    have "take ?n (a # s) @ ?tail = a # take m s @ ?tail" using m by simp
    then have "runes (take ?n (a # s) @ ?tail)
        = (fst (nextRune (a # s)), take ?n (a # s)) # runes ?tail"
      using front len by (metis append_eq_conv_conj runes.simps(2))
    then show ?thesis using str tail Suc by simp
  qed
qed

lemma runes_suffix:
  "runes (concat (map snd (drop k (runes s)))) = drop k (runes s)"
proof (induction s arbitrary: k rule: runes.induct)
  case 1
  then show ?case by simp
next
  case (2 a s)
  then show ?case by (cases k) (use concat_runes[of "a # s"] in auto)
qed

lemma runes_trimSpace [simp]: "runes (trimSpace s) = trimList spacePiece (runes s)"
proof -
  obtain i k where t: "trimList spacePiece (runes s) = take k (drop i (runes s))"
    using trimList_infix by blast
  let ?m = "concat (map snd (drop i (runes s)))"
  have "runes (concat (map snd (take k (runes ?m)))) = take k (runes ?m)" by (rule runes_prefix)
  then show ?thesis by (simp add: trimSpace_def t runes_suffix)
qed

lemma trimSpace_idem [simp]: "trimSpace (trimSpace s) = trimSpace s"
proof -
  have "trimSpace (trimSpace s) = concat (map snd (trimList spacePiece (runes (trimSpace s))))"
    by (rule trimSpace_def)
  also have "\<dots> = concat (map snd (trimList spacePiece (runes s)))" by simp
  also have "\<dots> = trimSpace s" by (simp add: trimSpace_def)
  finally show ?thesis .
qed

lemma trimSpace_Nil [simp]: "trimSpace [] = []"
  by (simp add: trimSpace_def trimList_def)

lemma runeCount_le_length: "runeCount s \<le> length s"
proof (induction s rule: runes.induct)
  case (2 a s)
  have "0 < snd (nextRune (a # s)) \<and> snd (nextRune (a # s)) \<le> length (a # s)" by (rule nextRune_width)
  moreover have "length (runes (drop (snd (nextRune (a # s))) (a # s)))
      \<le> Suc (length s) - snd (nextRune (a # s))" using 2 by (simp add: runeCount_def)
  ultimately show ?case unfolding runeCount_def runes.simps(2) list.size by linarith
qed (simp add: runeCount_def)

subsection \<open>ASCII strings\<close>

definition ascii :: "string \<Rightarrow> bool" where
  "ascii s \<longleftrightarrow> list_all (\<lambda>c. byte c < 128) s"

lemma ascii_simps [simp]: "ascii []" "ascii (c # s) \<longleftrightarrow> byte c < 128 \<and> ascii s"
  "ascii (s @ t) \<longleftrightarrow> ascii s \<and> ascii t"
  by (auto simp: ascii_def)

lemma runes_ascii: "ascii s \<Longrightarrow> runes s = map (\<lambda>c. (Some (byte c), [c])) s"
  by (induction s) (auto simp: nextRune.simps(2) Let_def)

lemma trimSpace_ascii:
  assumes "ascii s" and "s = [] \<or> \<not> isSpace (byte (hd s))" and "s = [] \<or> \<not> isSpace (byte (last s))"
  shows "trimSpace s = s"
proof -
  let ?rs = "map (\<lambda>c. (Some (byte c), [c])) s"
  have "dropWhile spacePiece ?rs = ?rs"
    using assms(2) by (cases s) (simp_all add: spacePiece_def)
  moreover have "dropWhile spacePiece (rev ?rs) = rev ?rs"
    using assms(3) by (cases s rule: rev_cases) (simp_all add: spacePiece_def)
  ultimately have "trimList spacePiece ?rs = ?rs" by (simp add: trimList_def)
  then show ?thesis using assms(1) by (simp add: trimSpace_def runes_ascii o_def)
qed

lemma runeCount_ascii: "ascii s \<Longrightarrow> runeCount s = length s"
  by (simp add: runeCount_def runes_ascii)

lemma validUtf8_ascii: "ascii s \<Longrightarrow> validUtf8 s"
  by (simp add: validUtf8_def runes_ascii list_all_iff)

lemma rangeFrom_ascii:
  "rangeFrom i (map (\<lambda>c. (Some (byte c), [c])) s) = map (\<lambda>(j, c). (j, byte c)) (enumerate i s)"
  by (induction s arbitrary: i) auto

lemma range_ascii: "ascii s \<Longrightarrow> range s = map (\<lambda>(j, c). (j, byte c)) (enumerate 0 s)"
  by (simp add: range_def runes_ascii rangeFrom_ascii)

lemma list_all_range_ascii:
  "ascii s \<Longrightarrow> list_all (\<lambda>(_, r). P r) (range s) \<longleftrightarrow> list_all (\<lambda>c. P (byte c)) s"
proof -
  have "list_all (\<lambda>(_, r). P r) (map (\<lambda>(j, c). (j, byte c)) (enumerate i s)) \<longleftrightarrow> list_all (\<lambda>c. P (byte c)) s"
    for i by (induction s arbitrary: i) auto
  then show "ascii s \<Longrightarrow> ?thesis" by (simp add: range_ascii)
qed

lemma nextRune_high: "128 \<le> byte a \<Longrightarrow> fst (nextRune (a # s)) = Some r \<Longrightarrow> 128 \<le> r"
  by (auto simp: nextRune.simps(2) Let_def contByte_def split: list.splits if_splits)

text \<open>A test that holds for no rune above ASCII rejects every string that is not ASCII.\<close>

lemma range_ascii_only:
  assumes "list_all (\<lambda>(_, r). P r) (rangeFrom i (runes s))" and "\<And>r. P r \<Longrightarrow> r < 128"
  shows "ascii s"
  using assms(1)
proof (induction s arbitrary: i rule: runes.induct)
  case 1
  then show ?case by simp
next
  case (2 a s)
  have "P (case fst (nextRune (a # s)) of None \<Rightarrow> runeError | Some x \<Rightarrow> x)" using "2.prems" by simp
  then have small: "(case fst (nextRune (a # s)) of None \<Rightarrow> runeError | Some x \<Rightarrow> x) < 128"
    by (rule assms(2))
  have "byte a < 128"
  proof (rule ccontr)
    assume "\<not> byte a < 128"
    then show False using small nextRune_high[of a s]
      by (cases "fst (nextRune (a # s))") (auto simp: runeError_def)
  qed
  then have "nextRune (a # s) = (Some (byte a), 1)" by (simp add: nextRune.simps(2) Let_def)
  then show ?case using "2.IH" "2.prems" \<open>byte a < 128\<close> by auto
qed

lemma encodeRune_ascii: "r < 128 \<Longrightarrow> encodeRune r = [chr r]"
  by (simp add: encodeRune_def Let_def)

lemma lowerRune_ascii: "r < 128 \<Longrightarrow> lowerRune u r < 128"
  and upperRune_ascii: "r < 128 \<Longrightarrow> upperRune u r < 128"
  by (auto simp: lowerRune_def upperRune_def)

lemma toLower_ascii: "ascii s \<Longrightarrow> toLower u s = map (\<lambda>c. chr (lowerRune u (byte c))) s"
  by (simp add: toLower_def runes_ascii o_def ascii_def list_all_iff
      encodeRune_ascii lowerRune_ascii cong: map_cong)

lemma toUpper_ascii: "ascii s \<Longrightarrow> toUpper u s = map (\<lambda>c. chr (upperRune u (byte c))) s"
  by (simp add: toUpper_def runes_ascii o_def ascii_def list_all_iff
      encodeRune_ascii upperRune_ascii cong: map_cong)

end
