(* ===== verification/Values.thy ===== *)
theory Values imports GoErrors GoStrings begin

text \<open>
  The validated values of the domain: \<^verbatim>\<open>server/validation.go\<close>, \<^verbatim>\<open>server/localization.go\<close>,
  \<^verbatim>\<open>server/permission.go\<close>, the string-typed enumerations of \<^verbatim>\<open>server/role.go\<close>, \<^verbatim>\<open>server/user.go\<close>,
  \<^verbatim>\<open>server/membership.go\<close>, and \<^verbatim>\<open>server/pagination.go\<close>'s limits.

  Identifiers are Go strings. An enumeration such as \<^verbatim>\<open>RoleKind\<close> is a Go string type with named
  constants; its datatype has one constructor per constant and one, \<open>...Other\<close>, for the strings
  that are none of them, which a client can send.
\<close>

type_synonym 'a result = "go_error + 'a"

abbreviation validationError :: "'a result" where
  "validationError \<equiv> Inl (newError ErrorValidation)"

subsection \<open>Limits\<close>

definition MinimumPasswordRunes :: nat where "MinimumPasswordRunes = 12"
definition MaximumPasswordBytes :: nat where "MaximumPasswordBytes = 72"
definition MaximumSearchRunes :: nat where "MaximumSearchRunes = 200"
definition MaximumTranslationKeyRunes :: nat where "MaximumTranslationKeyRunes = 255"
definition MaximumTranslationValueBytes :: nat where "MaximumTranslationValueBytes = 16 * 1024"
definition DefaultPageSize :: int where "DefaultPageSize = 20"
definition MaxPageSize :: int where "MaxPageSize = 100"

definition effectiveLimit :: "int \<Rightarrow> int" where
  "effectiveLimit lim =
     (if lim \<le> 0 then DefaultPageSize else if lim > MaxPageSize then MaxPageSize else lim)"

lemma effectiveLimit_bounds: "1 \<le> effectiveLimit lim \<and> effectiveLimit lim \<le> MaxPageSize"
  by (simp add: effectiveLimit_def DefaultPageSize_def MaxPageSize_def)

lemma effectiveLimit_idem [simp]: "effectiveLimit (effectiveLimit lim) = effectiveLimit lim"
  by (simp add: effectiveLimit_def DefaultPageSize_def MaxPageSize_def)

subsection \<open>Validation\<close>

definition validatePassword :: "string \<Rightarrow> unit result" where
  "validatePassword password =
     (if \<not> validUtf8 password \<or> runeCount password < MinimumPasswordRunes
         \<or> length password > MaximumPasswordBytes
      then validationError else Inr ())"

definition validPassword :: "string \<Rightarrow> bool" where
  "validPassword password \<longleftrightarrow> validatePassword password = Inr ()"

definition normalizeName :: "string \<Rightarrow> nat \<Rightarrow> nat \<Rightarrow> string result" where
  "normalizeName name0 minimumRunes maximumRunes =
     (let name = trimSpace name0; rs = runeCount name in
      if \<not> validUtf8 name \<or> rs < minimumRunes \<or> rs > maximumRunes
      then validationError else Inr name)"

definition normalizeTenantName :: "string \<Rightarrow> string result" where
  "normalizeTenantName name = normalizeName name 2 120"

definition normalizeRoleName :: "string \<Rightarrow> string result" where
  "normalizeRoleName name = normalizeName name 2 80"

definition normalizeSearch :: "string \<Rightarrow> string result" where
  "normalizeSearch search0 =
     (let search = trimSpace search0 in
      if \<not> validUtf8 search \<or> runeCount search > MaximumSearchRunes
      then validationError else Inr search)"

definition validateTranslation :: "string \<Rightarrow> string \<Rightarrow> unit result" where
  "validateTranslation key0 val =
     (let key = trimSpace key0 in
      if key = [] \<or> \<not> validUtf8 key \<or> runeCount key > MaximumTranslationKeyRunes
         \<or> \<not> validUtf8 val \<or> length val > MaximumTranslationValueBytes
      then validationError else Inr ())"

text \<open>The loop of \<^verbatim>\<open>validUUID\<close>, with its flag \<open>nonzero\<close>.\<close>

fun uuidLoop :: "(nat \<times> nat) list \<Rightarrow> bool \<Rightarrow> bool" where
  "uuidLoop [] nonzero = nonzero"
| "uuidLoop ((index, character) # rest) nonzero =
     (if index = 8 \<or> index = 13 \<or> index = 18 \<or> index = 23 then uuidLoop rest nonzero
      else if (character < 48 \<or> character > 57) \<and> (character < 97 \<or> character > 102) then False
      else uuidLoop rest (nonzero \<or> character \<noteq> 48))"

definition validUUID :: "string \<Rightarrow> bool" where
  "validUUID s =
     (if length s \<noteq> 36 \<or> s ! 8 \<noteq> CHR ''-'' \<or> s ! 13 \<noteq> CHR ''-'' \<or> s ! 18 \<noteq> CHR ''-'' \<or> s ! 23 \<noteq> CHR ''-''
      then False else uuidLoop (range s) False)"

definition tenantID_validate :: "string \<Rightarrow> unit result" where
  "tenantID_validate tenantID = (if \<not> validUUID tenantID then validationError else Inr ())"

subsection \<open>Locales and application scopes\<close>

definition newLocale :: "unicode_tables \<Rightarrow> string \<Rightarrow> string" where
  "newLocale u value0 =
     (case cut (CHR ''-'') (trimSpace value0) of (language0, region, hasRegion) \<Rightarrow>
        let language = toLower u language0 in
        if \<not> hasRegion then language else language @ ''-'' @ toUpper u region)"

definition lowerASCIILetters :: "string \<Rightarrow> nat \<Rightarrow> nat \<Rightarrow> bool" where
  "lowerASCIILetters s minimumLength maximumLength =
     (if length s < minimumLength \<or> length s > maximumLength then False
      else list_all (\<lambda>(_, character). \<not> (character < 97 \<or> character > 122)) (range s))"

definition upperASCIILetters :: "string \<Rightarrow> nat \<Rightarrow> bool" where
  "upperASCIILetters s len =
     (if length s \<noteq> len then False
      else list_all (\<lambda>(_, character). \<not> (character < 65 \<or> character > 90)) (range s))"

definition locale_isValid :: "string \<Rightarrow> bool" where
  "locale_isValid loc =
     (case cut (CHR ''-'') loc of (language, region, hasRegion) \<Rightarrow>
        if \<not> lowerASCIILetters language 2 3 then False
        else if \<not> hasRegion then True
        else upperASCIILetters region 2)"

definition parseLocale :: "unicode_tables \<Rightarrow> string \<Rightarrow> string result" where
  "parseLocale u val =
     (let loc = newLocale u val in if \<not> locale_isValid loc then validationError else Inr loc)"

datatype application_scope = ScopeShared | ScopeAdmin | ScopePlanerLink | ScopeInfraLink | ScopeOther string

fun scope_isValid :: "application_scope \<Rightarrow> bool" where
  "scope_isValid (ScopeOther s) = False"
| "scope_isValid _ = True"

definition scopeOf :: "string \<Rightarrow> application_scope" where
  "scopeOf s =
     (if s = ''shared'' then ScopeShared else if s = ''admin'' then ScopeAdmin
      else if s = ''planer_link'' then ScopePlanerLink else if s = ''infra_link'' then ScopeInfraLink
      else ScopeOther s)"

definition parseApplicationScope :: "unicode_tables \<Rightarrow> string \<Rightarrow> application_scope result" where
  "parseApplicationScope u value0 =
     (let val = toLower u (trimSpace value0) in
      if val = [] then Inr ScopeShared
      else if \<not> scope_isValid (scopeOf val) then validationError
      else Inr (scopeOf val))"

subsection \<open>Permissions, roles, memberships\<close>

datatype permission =
    PermissionTenantRead | PermissionTenantManage | PermissionUserRead | PermissionUserManage
  | PermissionProjectRead | PermissionProjectCreate | PermissionProjectEdit | PermissionProjectDelete
  | PermissionRoleRead | PermissionRoleManage | PermissionOther string

fun permission_isValid :: "permission \<Rightarrow> bool" where
  "permission_isValid (PermissionOther s) = False"
| "permission_isValid _ = True"

definition allPermissions :: "permission list" where
  "allPermissions =
     [PermissionTenantRead, PermissionTenantManage, PermissionUserRead, PermissionUserManage,
      PermissionProjectRead, PermissionProjectCreate, PermissionProjectEdit, PermissionProjectDelete,
      PermissionRoleRead, PermissionRoleManage]"

definition defaultUserPermissions :: "permission list" where
  "defaultUserPermissions = [PermissionTenantRead, PermissionUserRead, PermissionProjectRead]"

text \<open>The loop of \<^verbatim>\<open>ValidPermissions\<close>; \<open>seen\<close> is the Go map used as a set.\<close>

fun validPermissionsLoop :: "permission set \<Rightarrow> permission list \<Rightarrow> bool" where
  "validPermissionsLoop seen [] = True"
| "validPermissionsLoop seen (p # ps) =
     (if \<not> permission_isValid p then False
      else if p \<in> seen then False
      else validPermissionsLoop (insert p seen) ps)"

definition validPermissions :: "permission list \<Rightarrow> bool" where
  "validPermissions ps = validPermissionsLoop {} ps"

datatype role_kind = RoleKindAdministrator | RoleKindUser | RoleKindCustom | RoleKindOther string

fun roleKind_isValid :: "role_kind \<Rightarrow> bool" where
  "roleKind_isValid (RoleKindOther s) = False"
| "roleKind_isValid _ = True"

datatype global_role = GlobalRoleUser | GlobalRoleSuperAdministrator | GlobalRoleOther string

fun globalRole_isValid :: "global_role \<Rightarrow> bool" where
  "globalRole_isValid (GlobalRoleOther s) = False"
| "globalRole_isValid _ = True"

definition isSuperAdministrator :: "global_role \<Rightarrow> bool" where
  "isSuperAdministrator role \<longleftrightarrow> role = GlobalRoleSuperAdministrator"

datatype membership_status = MembershipActive | MembershipInactive | MembershipStatusOther string

fun membershipStatus_isValid :: "membership_status \<Rightarrow> bool" where
  "membershipStatus_isValid (MembershipStatusOther s) = False"
| "membershipStatus_isValid _ = True"

datatype sort_direction = SortAscending | SortDescending | SortDirectionOther string

fun sortDirection_isValid :: "sort_direction \<Rightarrow> bool" where
  "sortDirection_isValid (SortDirectionOther s) = False"
| "sortDirection_isValid _ = True"

subsection \<open>Names and searches\<close>

lemma normalizeName_Inr:
  "normalizeName name lo hi = Inr n \<longleftrightarrow>
     n = trimSpace name \<and> validUtf8 n \<and> lo \<le> runeCount n \<and> runeCount n \<le> hi"
  by (auto simp: normalizeName_def Let_def)

lemma normalizeName_idem: "normalizeName name lo hi = Inr n \<Longrightarrow> normalizeName n lo hi = Inr n"
  by (auto simp: normalizeName_Inr)

lemma normalizeSearch_Inr:
  "normalizeSearch s0 = Inr s \<longleftrightarrow> s = trimSpace s0 \<and> validUtf8 s \<and> runeCount s \<le> MaximumSearchRunes"
  by (auto simp: normalizeSearch_def Let_def)

lemma normalizeSearch_idem: "normalizeSearch s0 = Inr s \<Longrightarrow> normalizeSearch s = Inr s"
  by (auto simp: normalizeSearch_Inr)

subsection \<open>Permissions\<close>

lemma validPermissionsLoop_iff:
  "validPermissionsLoop seen ps \<longleftrightarrow>
     distinct ps \<and> (\<forall>p \<in> set ps. permission_isValid p) \<and> set ps \<inter> seen = {}"
  by (induction seen ps rule: validPermissionsLoop.induct) auto

lemma permission_valid_iff: "permission_isValid p \<longleftrightarrow> p \<in> set allPermissions"
  by (cases p) (auto simp: allPermissions_def)

subsection \<open>UUIDs\<close>

definition uuidDash :: "nat \<Rightarrow> bool" where
  "uuidDash i \<longleftrightarrow> i = 8 \<or> i = 13 \<or> i = 18 \<or> i = 23"

definition hexRune :: "nat \<Rightarrow> bool" where
  "hexRune r \<longleftrightarrow> 48 \<le> r \<and> r \<le> 57 \<or> 97 \<le> r \<and> r \<le> 102"

lemma uuidLoop_step:
  "uuidLoop ((i, r) # rest) nonzero =
     (if uuidDash i then uuidLoop rest nonzero
      else hexRune r \<and> uuidLoop rest (nonzero \<or> r \<noteq> 48))"
  by (simp add: uuidDash_def hexRune_def not_less) linarith

lemma uuidLoop_iff:
  "uuidLoop ps nonzero \<longleftrightarrow>
     (\<forall>(i, r) \<in> set ps. uuidDash i \<or> hexRune r) \<and>
     (nonzero \<or> (\<exists>(i, r) \<in> set ps. \<not> uuidDash i \<and> r \<noteq> 48))"
proof (induction ps arbitrary: nonzero)
  case Nil
  then show ?case by simp
next
  case (Cons p ps)
  obtain i r where p: "p = (i, r)" by fastforce
  show ?case unfolding p uuidLoop_step Cons by auto
qed

declare uuidLoop.simps(2) [simp del]

lemma byte_dash: "byte (CHR ''-'') = 45"
  by (simp add: byte_def)

text \<open>An accepted string is ASCII: a longer rune would have to start on a digit position.\<close>

lemma uuid_range_ascii:
  assumes "\<forall>(j, r) \<in> set (rangeFrom i (runes s)). uuidDash j \<or> hexRune r"
    and "\<forall>j < length s. uuidDash (i + j) \<longrightarrow> s ! j = CHR ''-''"
  shows "ascii s"
  using assms
proof (induction s arbitrary: i rule: runes.induct)
  case 1
  then show ?case by simp
next
  case (2 a s)
  let ?r = "case fst (nextRune (a # s)) of None \<Rightarrow> runeError | Some x \<Rightarrow> x"
  have "uuidDash i \<or> hexRune ?r" using "2.prems"(1) by simp
  moreover have "uuidDash i \<Longrightarrow> a = CHR ''-''" using "2.prems"(2) by force
  ultimately have small: "\<not> byte a < 128 \<Longrightarrow> hexRune ?r" by (auto simp: byte_dash)
  have a: "byte a < 128"
  proof (rule ccontr)
    assume high: "\<not> byte a < 128"
    show False
    proof (cases "fst (nextRune (a # s))")
      case None
      then show False using small[OF high] by (simp add: hexRune_def runeError_def)
    next
      case (Some r)
      then have "128 \<le> r" using high nextRune_high[of a s r] by simp
      then show False using small[OF high] Some by (simp add: hexRune_def)
    qed
  qed
  then have n: "nextRune (a # s) = (Some (byte a), 1)" by (simp add: nextRune.simps(2) Let_def)
  have "\<forall>j < length s. uuidDash (Suc i + j) \<longrightarrow> s ! j = CHR ''-''"
    using "2.prems"(2) by (metis Suc_less_eq add_Suc_shift length_Cons nth_Cons_Suc)
  then show ?case using "2.IH"[of "Suc i"] "2.prems"(1) a n by simp
qed

lemma validUUID_unfold:
  "validUUID s \<longleftrightarrow>
     length s = 36 \<and> (\<forall>i < 36. uuidDash i \<longrightarrow> s ! i = CHR ''-'') \<and> uuidLoop (range s) False"
proof -
  have dashes: "(\<forall>i < 36. uuidDash i \<longrightarrow> P i) \<longleftrightarrow> P 8 \<and> P 13 \<and> P 18 \<and> P 23" for P
  proof
    assume all: "\<forall>i < 36. uuidDash i \<longrightarrow> P i"
    show "P 8 \<and> P 13 \<and> P 18 \<and> P 23"
      using all[rule_format, of 8] all[rule_format, of 13] all[rule_format, of 18]
        all[rule_format, of 23] by (simp add: uuidDash_def)
  qed (auto simp: uuidDash_def)
  show ?thesis unfolding validUUID_def dashes by (simp split: if_split) blast
qed

lemma validUUID_ascii:
  assumes "validUUID s"
  shows "ascii s"
proof -
  have len: "length s = 36" and d: "\<forall>j < length s. uuidDash (0 + j) \<longrightarrow> s ! j = CHR ''-''"
    and "uuidLoop (range s) False"
    using assms by (auto simp: validUUID_def uuidDash_def split: if_splits)
  then have "\<forall>(j, r) \<in> set (rangeFrom 0 (runes s)). uuidDash j \<or> hexRune r"
    by (auto simp: uuidLoop_iff range_def)
  then show ?thesis using d by (rule uuid_range_ascii)
qed

lemma validUUID_nonempty: "validUUID s \<Longrightarrow> s \<noteq> []"
  by (auto simp: validUUID_def)

lemma validUUID_iff:
  "validUUID s \<longleftrightarrow>
     length s = 36 \<and> (\<forall>i < 36. if uuidDash i then s ! i = CHR ''-'' else hexRune (byte (s ! i)))
     \<and> (\<exists>i < 36. \<not> uuidDash i \<and> s ! i \<noteq> CHR ''0'')" (is "_ \<longleftrightarrow> ?shape")
proof -
  have zero: "byte c \<noteq> 48 \<longleftrightarrow> c \<noteq> CHR ''0''" for c
    using byte_inject[of c "CHR ''0''"] by (simp add: byte_def)
  have en: "set (range s) = {(i, byte (s ! i)) | i. i < length s}" if "ascii s"
    by (auto simp: range_ascii[OF that] in_set_enumerate_eq image_iff) 
  have sh: "ascii s" if ?shape
  proof -
    have len: "length s = 36"
      and all: "\<forall>i < 36. if uuidDash i then s ! i = CHR ''-'' else hexRune (byte (s ! i))"
      using \<open>?shape\<close> by auto
    have "byte (s ! i) < 128" if "i < length s" for i
    proof -
      have "if uuidDash i then s ! i = CHR ''-'' else hexRune (byte (s ! i))" using all that len by simp
      then show ?thesis by (cases "uuidDash i") (auto simp: hexRune_def byte_dash)
    qed
    then show ?thesis by (simp add: ascii_def list_all_length)
  qed
  have "validUUID s \<longleftrightarrow> ?shape" if "ascii s"
  proof (cases "length s = 36 \<and> (\<forall>i < 36. uuidDash i \<longrightarrow> s ! i = CHR ''-'')")
    case True
    then have len: "length s = 36" by simp
    have loop: "uuidLoop (range s) False \<longleftrightarrow>
        (\<forall>i < 36. uuidDash i \<or> hexRune (byte (s ! i))) \<and> (\<exists>i < 36. \<not> uuidDash i \<and> s ! i \<noteq> CHR ''0'')"
      unfolding uuidLoop_iff en[OF that] zero[symmetric] using len by auto
    have "validUUID s \<longleftrightarrow> uuidLoop (range s) False" using True by (simp add: validUUID_unfold)
    then show ?thesis using True loop by (metis (no_types, lifting))
  next
    case False
    then show ?thesis unfolding validUUID_unfold by metis
  qed
  then show ?thesis using sh validUUID_ascii by blast
qed

end
