(* ===== verification/Domain.thy ===== *)
theory Domain imports Values begin

text \<open>
  The domain types of the root Go package: \<^verbatim>\<open>Tenant\<close>, \<^verbatim>\<open>User\<close>, \<^verbatim>\<open>Role\<close>, \<^verbatim>\<open>Membership\<close>, \<^verbatim>\<open>Invitation\<close>,
  \<^verbatim>\<open>Session\<close>, \<^verbatim>\<open>AuditEvent\<close>, \<^verbatim>\<open>Language\<close>, \<^verbatim>\<open>Translation\<close>, the list filters with their
  \<^verbatim>\<open>Normalized\<close> methods, and the status of an invitation.

  A Go pointer that may be nil is an \<open>option\<close>; a time is the number of nanoseconds since Go's zero
  time, so \<^verbatim>\<open>time.Time{}\<close> is \<open>zeroTime = 0\<close>. Revisions (\<^verbatim>\<open>uint64\<close>) are natural numbers.
\<close>

definition zeroTime :: time where "zeroTime = 0"

definition nanosecondsPerSecond :: int where "nanosecondsPerSecond = 1000000000"
definition nanosecondsPerDay :: int where "nanosecondsPerDay = 86400 * nanosecondsPerSecond"

subsection \<open>Structs\<close>

record tenant =
  tenantID :: string
  tenantName :: string
  tenantRevision :: nat
  tenantCreatedAt :: time
  tenantUpdatedAt :: time

record user =
  userID :: string
  userEmail :: string
  globalRole :: global_role
  userLocale :: string
  sessionVersion :: int

record role =
  roleID :: string
  roleTenantID :: string
  roleName :: string
  roleKind :: role_kind
  rolePermissions :: "permission list"
  roleRevision :: nat
  roleCreatedAt :: time
  roleUpdatedAt :: time

definition zeroRole :: role where
  "zeroRole = \<lparr>roleID = [], roleTenantID = [], roleName = [], roleKind = RoleKindOther [],
     rolePermissions = [], roleRevision = 0, roleCreatedAt = zeroTime, roleUpdatedAt = zeroTime\<rparr>"

definition role_isProtected :: "role \<Rightarrow> bool" where
  "role_isProtected role \<longleftrightarrow> roleKind role = RoleKindAdministrator \<or> roleKind role = RoleKindUser"

definition role_isValid :: "role \<Rightarrow> bool" where
  "role_isValid role \<longleftrightarrow> validUUID (roleID role) \<and> validUUID (roleTenantID role)
     \<and> trimSpace (roleName role) \<noteq> [] \<and> roleKind_isValid (roleKind role)"

record membership =
  membershipID :: string
  membershipUserID :: string
  membershipUserEmail :: string
  membershipTenant :: tenant
  membershipRoleID :: string
  membershipRole :: role
  membershipStatus :: membership_status
  membershipRevision :: nat
  membershipCreatedAt :: time
  membershipUpdatedAt :: time

datatype delivery_status = DeliveryQueued | DeliveryRetrying | DeliverySent | DeliveryFailed

record invitation =
  invitationID :: string
  invitationTenantID :: string
  invitationEmail :: string
  invitationRoleID :: string
  invitationRole :: role
  tokenHash :: string
  expiresAt :: time
  usedAt :: "time option"
  revokedAt :: "time option"
  createdBy :: string
  acceptanceURL :: string
  deliveryStatus :: delivery_status
  invitationLocale :: string
  invitationCreatedAt :: time

record session =
  sessionToken :: string
  sessionUser :: user
  activeTenant :: "tenant option"
  sessionMemberships :: "membership list"

record session_claim =
  claimUserID :: string
  claimActiveTenantID :: "string option"
  claimSessionVersion :: int

record external_identity =
  identityIssuer :: string
  identitySubject :: string
  identityEmail :: string
  identityUserID :: string

record audit_event =
  eventID :: string
  occurredAt :: time
  actorID :: "string option"
  actorEmail :: string
  eventTenantID :: "string option"
  eventTenantName :: string
  eventAction :: string
  eventTarget :: string
  eventMetadata :: "(string \<times> string) list"

record language =
  languageCode :: string
  languageName :: string
  isDefaultLanguage :: bool
  isActiveLanguage :: bool
  languageRevision :: nat
  languageCreatedAt :: time
  languageUpdatedAt :: time

record translation =
  translationLocale :: string
  translationScope :: application_scope
  translationKey :: string
  translationValue :: string
  translationRevision :: nat
  translationCreatedAt :: time
  translationUpdatedAt :: time

record outbox_job =
  jobID :: string
  jobTenantID :: string
  jobInvitationID :: string
  jobAttempts :: int
  jobLeaseToken :: string

record invitation_message =
  messageRecipient :: string
  messageSubject :: string
  messageBody :: string

subsection \<open>Invitation status\<close>

datatype invitation_status =
  InvitationStatusPending | InvitationStatusUsed | InvitationStatusExpired | InvitationStatusRevoked

definition invitation_isUsed :: "invitation \<Rightarrow> bool" where
  "invitation_isUsed i \<longleftrightarrow> usedAt i \<noteq> None"

definition invitation_isExpired :: "invitation \<Rightarrow> time \<Rightarrow> bool" where
  "invitation_isExpired i now \<longleftrightarrow> \<not> now < expiresAt i"

definition invitation_status_at :: "invitation \<Rightarrow> time \<Rightarrow> invitation_status" where
  "invitation_status_at i now =
     (if invitation_isUsed i then InvitationStatusUsed
      else if revokedAt i \<noteq> None then InvitationStatusRevoked
      else if invitation_isExpired i now then InvitationStatusExpired
      else InvitationStatusPending)"

subsection \<open>List filters\<close>

datatype tenant_sort = TenantSortName | TenantSortCreatedAt | TenantSortOther string
datatype membership_sort = MembershipSortEmail | MembershipSortCreatedAt | MembershipSortOther string
datatype role_sort = RoleSortName | RoleSortCreatedAt | RoleSortOther string
datatype language_sort = LanguageSortName | LanguageSortCode | LanguageSortOther string
datatype translation_sort = TranslationSortKey | TranslationSortUpdatedAt | TranslationSortOther string
datatype user_sort = UserSortEmail | UserSortCreatedAt | UserSortOther string
datatype invitation_sort =
  InvitationSortCreatedAt | InvitationSortEmail | InvitationSortExpiresAt | InvitationSortOther string
datatype invitation_status_filter =
    InvitationStatusFilterAll | InvitationStatusFilterPending | InvitationStatusFilterUsed
  | InvitationStatusFilterExpired | InvitationStatusFilterRevoked | InvitationStatusFilterOther string

definition tenantSort_isValid :: "tenant_sort \<Rightarrow> bool" where
  "tenantSort_isValid s \<longleftrightarrow> s = TenantSortName \<or> s = TenantSortCreatedAt"
definition membershipSort_isValid :: "membership_sort \<Rightarrow> bool" where
  "membershipSort_isValid s \<longleftrightarrow> s = MembershipSortEmail \<or> s = MembershipSortCreatedAt"
definition roleSort_isValid :: "role_sort \<Rightarrow> bool" where
  "roleSort_isValid s \<longleftrightarrow> s = RoleSortName \<or> s = RoleSortCreatedAt"
definition languageSort_isValid :: "language_sort \<Rightarrow> bool" where
  "languageSort_isValid s \<longleftrightarrow> s = LanguageSortName \<or> s = LanguageSortCode"
definition translationSort_isValid :: "translation_sort \<Rightarrow> bool" where
  "translationSort_isValid s \<longleftrightarrow> s = TranslationSortKey \<or> s = TranslationSortUpdatedAt"
definition userSort_isValid :: "user_sort \<Rightarrow> bool" where
  "userSort_isValid s \<longleftrightarrow> s = UserSortEmail \<or> s = UserSortCreatedAt"
definition invitationSort_isValid :: "invitation_sort \<Rightarrow> bool" where
  "invitationSort_isValid s \<longleftrightarrow>
     s = InvitationSortCreatedAt \<or> s = InvitationSortEmail \<or> s = InvitationSortExpiresAt"

fun invitationStatusFilter_isValid :: "invitation_status_filter \<Rightarrow> bool" where
  "invitationStatusFilter_isValid (InvitationStatusFilterOther s) = False"
| "invitationStatusFilter_isValid _ = True"

record tenant_filter =
  tfSearch :: string
  tfSort :: tenant_sort
  tfDirection :: sort_direction
  tfCursor :: string
  tfLimit :: int

record membership_filter =
  mfSearch :: string
  mfRoleID :: "string option"
  mfStatus :: "membership_status option"
  mfSort :: membership_sort
  mfDirection :: sort_direction
  mfCursor :: string
  mfLimit :: int

record role_filter =
  rfSearch :: string
  rfKind :: "role_kind option"
  rfSort :: role_sort
  rfDirection :: sort_direction
  rfCursor :: string
  rfLimit :: int

record language_filter =
  lfSearch :: string
  lfActive :: "bool option"
  lfSort :: language_sort
  lfDirection :: sort_direction
  lfCursor :: string
  lfLimit :: int

record translation_filter =
  xfSearch :: string
  xfLocale :: "string option"
  xfScope :: "application_scope option"
  xfSort :: translation_sort
  xfDirection :: sort_direction
  xfCursor :: string
  xfLimit :: int

record user_filter =
  ufSearch :: string
  ufGlobalRole :: "global_role option"
  ufSort :: user_sort
  ufDirection :: sort_direction
  ufCursor :: string
  ufLimit :: int

record invitation_filter =
  ifSearch :: string
  ifTenantID :: "string option"
  ifStatus :: invitation_status_filter
  ifSort :: invitation_sort
  ifDirection :: sort_direction
  ifCursor :: string
  ifLimit :: int

record audit_filter =
  afFrom :: time
  afTo :: time
  afActorID :: "string option"
  afTenantID :: "string option"
  afAction :: string
  afSearch :: string
  afDirection :: sort_direction
  afCursor :: string
  afPageSize :: int

definition optionalValid :: "('a \<Rightarrow> bool) \<Rightarrow> 'a option \<Rightarrow> bool" where
  "optionalValid valid x = (case x of None \<Rightarrow> True | Some v \<Rightarrow> valid v)"

definition tenantFilter_normalized :: "tenant_filter \<Rightarrow> tenant_filter result" where
  "tenantFilter_normalized f =
     (case normalizeSearch (tfSearch f) of
        Inl _ \<Rightarrow> validationError
      | Inr search \<Rightarrow>
          if \<not> tenantSort_isValid (tfSort f) \<or> \<not> sortDirection_isValid (tfDirection f)
          then validationError
          else Inr (f\<lparr>tfSearch := search, tfLimit := effectiveLimit (tfLimit f)\<rparr>))"

definition membershipFilter_normalized :: "membership_filter \<Rightarrow> membership_filter result" where
  "membershipFilter_normalized f =
     (case normalizeSearch (mfSearch f) of
        Inl _ \<Rightarrow> validationError
      | Inr search \<Rightarrow>
          if \<not> membershipSort_isValid (mfSort f) \<or> \<not> sortDirection_isValid (mfDirection f)
             \<or> \<not> optionalValid validUUID (mfRoleID f)
             \<or> \<not> optionalValid membershipStatus_isValid (mfStatus f)
          then validationError
          else Inr (f\<lparr>mfSearch := search, mfLimit := effectiveLimit (mfLimit f)\<rparr>))"

definition roleFilter_normalized :: "role_filter \<Rightarrow> role_filter result" where
  "roleFilter_normalized f =
     (case normalizeSearch (rfSearch f) of
        Inl _ \<Rightarrow> validationError
      | Inr search \<Rightarrow>
          if \<not> roleSort_isValid (rfSort f) \<or> \<not> sortDirection_isValid (rfDirection f)
             \<or> \<not> optionalValid roleKind_isValid (rfKind f)
          then validationError
          else Inr (f\<lparr>rfSearch := search, rfLimit := effectiveLimit (rfLimit f)\<rparr>))"

definition languageFilter_normalized :: "language_filter \<Rightarrow> language_filter result" where
  "languageFilter_normalized f =
     (case normalizeSearch (lfSearch f) of
        Inl _ \<Rightarrow> validationError
      | Inr search \<Rightarrow>
          if \<not> languageSort_isValid (lfSort f) \<or> \<not> sortDirection_isValid (lfDirection f)
          then validationError
          else Inr (f\<lparr>lfSearch := search, lfLimit := effectiveLimit (lfLimit f)\<rparr>))"

definition translationFilter_normalized :: "translation_filter \<Rightarrow> translation_filter result" where
  "translationFilter_normalized f =
     (case normalizeSearch (xfSearch f) of
        Inl _ \<Rightarrow> validationError
      | Inr search \<Rightarrow>
          if \<not> translationSort_isValid (xfSort f) \<or> \<not> sortDirection_isValid (xfDirection f)
             \<or> \<not> optionalValid locale_isValid (xfLocale f)
             \<or> \<not> optionalValid scope_isValid (xfScope f)
          then validationError
          else Inr (f\<lparr>xfSearch := search, xfLimit := effectiveLimit (xfLimit f)\<rparr>))"

definition userFilter_normalized :: "user_filter \<Rightarrow> user_filter result" where
  "userFilter_normalized f =
     (case normalizeSearch (ufSearch f) of
        Inl _ \<Rightarrow> validationError
      | Inr search \<Rightarrow>
          if \<not> userSort_isValid (ufSort f) \<or> \<not> sortDirection_isValid (ufDirection f)
             \<or> \<not> optionalValid globalRole_isValid (ufGlobalRole f)
          then validationError
          else Inr (f\<lparr>ufSearch := search, ufLimit := effectiveLimit (ufLimit f)\<rparr>))"

definition invitationFilter_normalized :: "invitation_filter \<Rightarrow> invitation_filter result" where
  "invitationFilter_normalized f =
     (case normalizeSearch (ifSearch f) of
        Inl _ \<Rightarrow> validationError
      | Inr search \<Rightarrow>
          if \<not> invitationSort_isValid (ifSort f) \<or> \<not> sortDirection_isValid (ifDirection f)
             \<or> \<not> optionalValid validUUID (ifTenantID f)
          then validationError
          else
            let status = (if ifStatus f = InvitationStatusFilterOther [] then InvitationStatusFilterAll
                          else ifStatus f) in
            if \<not> invitationStatusFilter_isValid status then validationError
            else Inr (f\<lparr>ifStatus := status, ifSearch := search, ifLimit := effectiveLimit (ifLimit f)\<rparr>))"

definition auditFilter_normalized :: "audit_filter \<Rightarrow> audit_filter result" where
  "auditFilter_normalized f =
     (case normalizeSearch (afSearch f) of
        Inl _ \<Rightarrow> validationError
      | Inr search \<Rightarrow>
          if \<not> sortDirection_isValid (afDirection f)
             \<or> (afFrom f \<noteq> zeroTime \<and> afTo f \<noteq> zeroTime \<and> afTo f < afFrom f)
             \<or> \<not> optionalValid validUUID (afActorID f) \<or> \<not> optionalValid validUUID (afTenantID f)
          then validationError
          else Inr (f\<lparr>afAction := trimSpace (afAction f), afSearch := search,
                     afPageSize := effectiveLimit (afPageSize f)\<rparr>))"

subsection \<open>What every filter's normalisation promises\<close>

text \<open>The store's list operations rely on two facts about a normalised filter: its limit is a page
  size and normalising again changes nothing.\<close>

locale normalizer =
  fixes normalized :: "'f \<Rightarrow> 'f result" and limit :: "'f \<Rightarrow> int" and search :: "'f \<Rightarrow> string"
  assumes limit_effective: "normalized f = Inr g \<Longrightarrow> limit g = effectiveLimit (limit f)"
    and search_normalised: "normalized f = Inr g \<Longrightarrow> normalizeSearch (search f) = Inr (search g)"
    and stable: "normalized f = Inr g \<Longrightarrow> normalized g = Inr g"
    and fails_validation: "normalized f = Inl err \<Longrightarrow> err = newError ErrorValidation"
begin

lemma limit_bounds: "normalized f = Inr g \<Longrightarrow> 1 \<le> limit g \<and> limit g \<le> MaxPageSize"
  using effectiveLimit_bounds by (simp add: limit_effective)

lemma limit_fixed: "normalized f = Inr g \<Longrightarrow> effectiveLimit (limit g) = limit g"
  by (simp add: limit_effective)

lemma search_trimmed: "normalized f = Inr g \<Longrightarrow> trimSpace (search g) = search g"
  using search_normalised by (auto simp: normalizeSearch_Inr)

end

lemmas filter_normalized_defs =
  tenantFilter_normalized_def membershipFilter_normalized_def roleFilter_normalized_def
  languageFilter_normalized_def translationFilter_normalized_def userFilter_normalized_def
  invitationFilter_normalized_def auditFilter_normalized_def

lemmas normalized_splits = sum.splits if_splits

lemma normalizeSearch_Inl: "normalizeSearch s = Inl err \<Longrightarrow> err = newError ErrorValidation"
  by (auto simp: normalizeSearch_def Let_def split: if_splits)

lemma normalizeSearch_again: "normalizeSearch s0 = Inr s \<Longrightarrow> normalizeSearch s = Inr s"
  by (rule normalizeSearch_idem)

interpretation tenant_filters: normalizer tenantFilter_normalized tfLimit tfSearch
  by unfold_locales
    (auto simp: tenantFilter_normalized_def normalizeSearch_again split: normalized_splits)

interpretation membership_filters: normalizer membershipFilter_normalized mfLimit mfSearch
  by unfold_locales
    (auto simp: membershipFilter_normalized_def normalizeSearch_again split: normalized_splits)

interpretation role_filters: normalizer roleFilter_normalized rfLimit rfSearch
  by unfold_locales
    (auto simp: roleFilter_normalized_def normalizeSearch_again split: normalized_splits)

interpretation language_filters: normalizer languageFilter_normalized lfLimit lfSearch
  by unfold_locales
    (auto simp: languageFilter_normalized_def normalizeSearch_again split: normalized_splits)

interpretation translation_filters: normalizer translationFilter_normalized xfLimit xfSearch
  by unfold_locales
    (auto simp: translationFilter_normalized_def normalizeSearch_again split: normalized_splits)

interpretation user_filters: normalizer userFilter_normalized ufLimit ufSearch
  by unfold_locales
    (auto simp: userFilter_normalized_def normalizeSearch_again split: normalized_splits)

interpretation invitation_filters: normalizer invitationFilter_normalized ifLimit ifSearch
  by unfold_locales
    (auto simp: invitationFilter_normalized_def normalizeSearch_again Let_def split: normalized_splits)

interpretation audit_filters: normalizer auditFilter_normalized afPageSize afSearch
  by unfold_locales
    (auto simp: auditFilter_normalized_def normalizeSearch_again split: normalized_splits)

end
