(* ===== verification/Schema.thy ===== *)
theory Schema imports Domain begin

text \<open>
  The database of the program: the tables of \<^verbatim>\<open>server/migrations/000001_schema.sql\<close> as lists of rows,
  their primary keys, unique indexes, foreign keys and CHECK constraints, and the row-level security
  policy of each table.

  The world a store operation runs in holds the database, the two transaction settings
  \<^verbatim>\<open>app.bypass_rls\<close> and \<^verbatim>\<open>app.current_tenant\<close> that the policies read, the transaction's \<^verbatim>\<open>now()\<close>, the mails
  handed to the SMTP server and a counter of the calls made so far. What the environment decides is the record \<open>env\<close>, indexed by
  that counter: the clock, the generated UUIDs, which calls fail, how a commit ends, and which rows another
  transaction holds locked when a statement skips locked rows.
  PostgreSQL's \<^verbatim>\<open>lower\<close>, \<^verbatim>\<open>ILIKE\<close> and text collation are parameters too.
\<close>

subsection \<open>Rows\<close>

record user_row =
  u_user :: user
  u_password_hash :: "string option"
  u_created_at :: time
  u_updated_at :: time

record role_row =
  r_id :: string
  r_tenant :: string
  r_name :: string
  r_kind :: role_kind
  r_revision :: nat
  r_created_at :: time
  r_updated_at :: time

record permission_row =
  p_tenant :: string
  p_role :: string
  p_permission :: permission

record membership_row =
  m_id :: string
  m_tenant :: string
  m_user :: string
  m_role :: string
  m_status :: membership_status
  m_revision :: nat
  m_created_at :: time
  m_updated_at :: time

record invitation_row =
  i_id :: string
  i_tenant :: string
  i_email :: string
  i_role :: string
  i_token_hash :: "string option"
  i_expires_at :: time
  i_used_at :: "time option"
  i_revoked_at :: "time option"
  i_created_by :: string
  i_delivery_status :: delivery_status
  i_delivery_locale :: string
  i_anonymized_at :: "time option"
  i_created_at :: time

record identity_row =
  x_issuer :: string
  x_subject :: string
  x_user :: string
  x_email :: string
  x_created_at :: time

datatype outbox_status = OutboxPending | OutboxProcessing | OutboxCompleted | OutboxDeadLetter

record outbox_row =
  o_id :: string
  o_tenant :: string
  o_kind :: string
  o_invitation :: string
  o_status :: outbox_status
  o_attempts :: int
  o_available_at :: time
  o_locked_at :: "time option"
  o_lease_token :: "string option"
  o_completed_at :: "time option"
  o_dead_lettered_at :: "time option"
  o_last_error :: "string option"
  o_created_at :: time
  o_updated_at :: time

record audit_row =
  a_id :: string
  a_occurred_at :: time
  a_actor :: "string option"
  a_tenant :: "string option"
  a_action :: string
  a_target :: string
  a_metadata :: "(string \<times> string) list"

record db =
  tenants :: "tenant list"
  users :: "user_row list"
  roles :: "role_row list"
  role_permissions :: "permission_row list"
  memberships :: "membership_row list"
  invitations :: "invitation_row list"
  identities :: "identity_row list"
  outbox :: "outbox_row list"
  languages :: "language list"
  overrides :: "translation list"
  audit_events :: "audit_row list"

abbreviation u_id :: "user_row \<Rightarrow> string" where "u_id r \<equiv> userID (u_user r)"
abbreviation u_email :: "user_row \<Rightarrow> string" where "u_email r \<equiv> userEmail (u_user r)"
abbreviation u_session_version :: "user_row \<Rightarrow> int" where
  "u_session_version r \<equiv> sessionVersion (u_user r)"

subsection \<open>The world and its environment\<close>

record world =
  w_db :: db
  w_bypass_rls :: string
  w_current_tenant :: string
  w_now :: time
  w_tick :: nat
  w_mail :: "invitation_message list"

datatype fault = LostConnection string | DataException string

datatype commit_outcome = Committed | CommitRefused string | CommitUnacknowledged string

record env =
  e_clock :: "nat \<Rightarrow> time"
  e_uuid :: "nat \<Rightarrow> string option"
  e_fault :: "nat \<Rightarrow> fault option"
  e_commit :: "nat \<Rightarrow> commit_outcome"
  e_row_locked :: "nat \<Rightarrow> string \<Rightarrow> bool"
  pgLower :: "string \<Rightarrow> string"
  pgILike :: "string \<Rightarrow> string \<Rightarrow> bool"
  pgTextLess :: "string \<Rightarrow> string \<Rightarrow> bool"
  unicode :: unicode_tables

fun faultError :: "fault \<Rightarrow> go_error" where
  "faultError (LostConnection msg) = OpaqueError msg"
| "faultError (DataException code) = PgError code []"

subsection \<open>Row-level security\<close>

definition bypassesRLS :: "world \<Rightarrow> bool" where
  "bypassesRLS w \<longleftrightarrow> w_bypass_rls w = ''true''"

definition currentTenant :: "world \<Rightarrow> string option" where
  "currentTenant w = (if w_current_tenant w = [] then None else Some (w_current_tenant w))"

definition tenantVisible :: "world \<Rightarrow> string \<Rightarrow> bool" where
  "tenantVisible w t \<longleftrightarrow> bypassesRLS w \<or> currentTenant w = Some t"

definition userVisible :: "world \<Rightarrow> user_row \<Rightarrow> bool" where
  "userVisible w r \<longleftrightarrow>
     bypassesRLS w \<or>
     list_ex (\<lambda>m. m_user m = u_id r \<and> currentTenant w = Some (m_tenant m)) (memberships (w_db w))"

definition auditVisible :: "world \<Rightarrow> audit_row \<Rightarrow> bool" where
  "auditVisible w r \<longleftrightarrow>
     bypassesRLS w \<or> (case a_tenant r of None \<Rightarrow> False | Some t \<Rightarrow> currentTenant w = Some t)"

subsection \<open>Constraints\<close>

definition btrim :: "string \<Rightarrow> string" where
  "btrim s = trimList (\<lambda>c. c = CHR '' '') s"

definition charLengthBetween :: "string \<Rightarrow> nat \<Rightarrow> nat \<Rightarrow> bool" where
  "charLengthBetween s lo hi \<longleftrightarrow> lo \<le> runeCount s \<and> runeCount s \<le> hi"

definition emailNormalized :: "env \<Rightarrow> string \<Rightarrow> bool" where
  "emailNormalized env email \<longleftrightarrow> email = pgLower env (btrim email)"

text \<open>\<^verbatim>\<open>languages_code_format\<close>: \<^verbatim>\<open>^[a-z]{2}(-[A-Z]{2})?$\<close>.\<close>

definition languageCodeFormat :: "string \<Rightarrow> bool" where
  "languageCodeFormat code \<longleftrightarrow>
     (case code of
        [a, b] \<Rightarrow> lowerASCIILetters [a, b] 2 2
      | [a, b, d, x, y] \<Rightarrow> lowerASCIILetters [a, b] 2 2 \<and> d = CHR ''-'' \<and> upperASCIILetters [x, y] 2
      | _ \<Rightarrow> False)"

abbreviation checkViolation :: "string \<Rightarrow> go_error" where "checkViolation c \<equiv> PgError ''23514'' c"
abbreviation uniqueViolation :: "string \<Rightarrow> go_error" where "uniqueViolation c \<equiv> PgError ''23505'' c"
abbreviation foreignKeyViolation :: "string \<Rightarrow> go_error" where
  "foreignKeyViolation c \<equiv> PgError ''23503'' c"

definition tenantExists :: "db \<Rightarrow> string \<Rightarrow> bool" where
  "tenantExists d t \<longleftrightarrow> list_ex (\<lambda>r. tenantID r = t) (tenants d)"

definition userExists :: "db \<Rightarrow> string \<Rightarrow> bool" where
  "userExists d u \<longleftrightarrow> list_ex (\<lambda>r. u_id r = u) (users d)"

definition roleExists :: "db \<Rightarrow> string \<Rightarrow> string \<Rightarrow> bool" where
  "roleExists d role t \<longleftrightarrow> list_ex (\<lambda>r. r_id r = role \<and> r_tenant r = t) (roles d)"

definition languageExists :: "db \<Rightarrow> string \<Rightarrow> bool" where
  "languageExists d code \<longleftrightarrow> list_ex (\<lambda>r. languageCode r = code) (languages d)"

definition invitationExists :: "db \<Rightarrow> string \<Rightarrow> bool" where
  "invitationExists d i0 \<longleftrightarrow> list_ex (\<lambda>r. i_id r = i0) (invitations d)"

text \<open>The largest value of PostgreSQL's \<^verbatim>\<open>integer\<close>.\<close>

definition maxInt4 :: int where "maxInt4 = 2147483647"

subsection \<open>Tables\<close>

text \<open>
  A table: how its rows are read from and written to the database, its primary key, its policy, the
  checks a new or changed row must pass (given the other rows of the table), the rows of other tables that
  forbid a delete and those a delete removes.
\<close>

record 'r table =
  rowsOf :: "db \<Rightarrow> 'r list"
  putRows :: "'r list \<Rightarrow> db \<Rightarrow> db"
  keyOf :: "'r \<Rightarrow> string list"
  keyName :: string
  policy :: "world \<Rightarrow> 'r \<Rightarrow> bool"
  constraints :: "env \<Rightarrow> db \<Rightarrow> 'r list \<Rightarrow> 'r \<Rightarrow> (bool \<times> go_error) list"
  referenced :: "db \<Rightarrow> 'r \<Rightarrow> bool"
  cascade :: "'r list \<Rightarrow> db \<Rightarrow> db"

definition tenantsTable :: "tenant table" where
  "tenantsTable = \<lparr>
     rowsOf = tenants, putRows = (\<lambda>rs d. d\<lparr>tenants := rs\<rparr>),
     keyOf = (\<lambda>r. [tenantID r]), keyName = ''tenants_pkey'',
     policy = (\<lambda>w r. tenantVisible w (tenantID r)),
     constraints = (\<lambda>env d others r.
       [(\<not> charLengthBetween (btrim (tenantName r)) 2 120, checkViolation ''tenants_name_check'')]),
     referenced = (\<lambda>d r. False), cascade = (\<lambda>rs d. d)\<rparr>"

definition usersTable :: "user_row table" where
  "usersTable = \<lparr>
     rowsOf = users, putRows = (\<lambda>rs d. d\<lparr>users := rs\<rparr>),
     keyOf = (\<lambda>r. [u_id r]), keyName = ''users_pkey'',
     policy = userVisible,
     constraints = (\<lambda>env d others r.
       [(maxInt4 < u_session_version r, PgError ''22003'' []),
        (\<not> globalRole_isValid (globalRole (u_user r)), checkViolation ''users_global_role_check''),
        (u_session_version r \<le> 0, checkViolation ''users_session_version_check''),
        (\<not> emailNormalized env (u_email r), checkViolation ''users_email_normalized''),
        (u_email r \<in> u_email ` set others, uniqueViolation usersEmailUniqueConstraint),
        (\<not> languageExists d (userLocale (u_user r)), foreignKeyViolation ''users_locale_fkey'')]),
     referenced = (\<lambda>d r. False), cascade = (\<lambda>rs d. d)\<rparr>"

definition rolesTable :: "role_row table" where
  "rolesTable = \<lparr>
     rowsOf = roles, putRows = (\<lambda>rs d. d\<lparr>roles := rs\<rparr>),
     keyOf = (\<lambda>r. [r_id r]), keyName = ''tenant_roles_pkey'',
     policy = (\<lambda>w r. tenantVisible w (r_tenant r)),
     constraints = (\<lambda>env d others r.
       [(\<not> charLengthBetween (btrim (r_name r)) 2 80, checkViolation ''tenant_roles_name_check''),
        (\<not> roleKind_isValid (r_kind r), checkViolation ''tenant_roles_kind_check''),
        (list_ex (\<lambda>o'. r_tenant o' = r_tenant r \<and> pgLower env (r_name o') = pgLower env (r_name r)) others,
          uniqueViolation ''tenant_roles_name_unique''),
        (r_kind r \<noteq> RoleKindCustom \<and> list_ex (\<lambda>o'. r_tenant o' = r_tenant r \<and> r_kind o' = r_kind r) others,
          uniqueViolation ''tenant_roles_protected_kind_unique''),
        (\<not> tenantExists d (r_tenant r), foreignKeyViolation ''tenant_roles_tenant_id_fkey'')]),
     referenced = (\<lambda>d r. list_ex (\<lambda>m. m_role m = r_id r) (memberships d)
                        \<or> list_ex (\<lambda>i. i_role i = r_id r) (invitations d)),
     cascade = (\<lambda>rs d. d\<lparr>role_permissions := filter (\<lambda>p. p_role p \<notin> r_id ` set rs) (role_permissions d)\<rparr>)\<rparr>"

definition permissionKey :: "permission \<Rightarrow> string" where
  "permissionKey p =
     (case p of
        PermissionTenantRead \<Rightarrow> ''tenant.read'' | PermissionTenantManage \<Rightarrow> ''tenant.manage''
      | PermissionUserRead \<Rightarrow> ''user.read'' | PermissionUserManage \<Rightarrow> ''user.manage''
      | PermissionProjectRead \<Rightarrow> ''project.read'' | PermissionProjectCreate \<Rightarrow> ''project.create''
      | PermissionProjectEdit \<Rightarrow> ''project.edit'' | PermissionProjectDelete \<Rightarrow> ''project.delete''
      | PermissionRoleRead \<Rightarrow> ''role.read'' | PermissionRoleManage \<Rightarrow> ''role.manage''
      | PermissionOther s \<Rightarrow> s)"

definition rolePermissionsTable :: "permission_row table" where
  "rolePermissionsTable = \<lparr>
     rowsOf = role_permissions, putRows = (\<lambda>rs d. d\<lparr>role_permissions := rs\<rparr>),
     keyOf = (\<lambda>r. [p_role r, permissionKey (p_permission r)]), keyName = ''tenant_role_permissions_pkey'',
     policy = (\<lambda>w r. tenantVisible w (p_tenant r)),
     constraints = (\<lambda>env d others r.
       [(\<not> permission_isValid (p_permission r), checkViolation ''tenant_role_permissions_permission_check''),
        (\<not> roleExists d (p_role r) (p_tenant r), foreignKeyViolation ''tenant_role_permissions_role_id_fkey'')]),
     referenced = (\<lambda>d r. False), cascade = (\<lambda>rs d. d)\<rparr>"

definition membershipsTable :: "membership_row table" where
  "membershipsTable = \<lparr>
     rowsOf = memberships, putRows = (\<lambda>rs d. d\<lparr>memberships := rs\<rparr>),
     keyOf = (\<lambda>r. [m_id r]), keyName = ''tenant_memberships_pkey'',
     policy = (\<lambda>w r. tenantVisible w (m_tenant r)),
     constraints = (\<lambda>env d others r.
       [(\<not> membershipStatus_isValid (m_status r), checkViolation ''tenant_memberships_status_check''),
        (list_ex (\<lambda>o'. m_tenant o' = m_tenant r \<and> m_user o' = m_user r) others,
          uniqueViolation ''tenant_memberships_tenant_id_user_id_key''),
        (\<not> tenantExists d (m_tenant r), foreignKeyViolation ''tenant_memberships_tenant_id_fkey''),
        (\<not> userExists d (m_user r), foreignKeyViolation ''tenant_memberships_user_id_fkey''),
        (\<not> roleExists d (m_role r) (m_tenant r), foreignKeyViolation ''tenant_memberships_role_id_fkey'')]),
     referenced = (\<lambda>d r. False), cascade = (\<lambda>rs d. d)\<rparr>"

definition invitationsTable :: "invitation_row table" where
  "invitationsTable = \<lparr>
     rowsOf = invitations, putRows = (\<lambda>rs d. d\<lparr>invitations := rs\<rparr>),
     keyOf = (\<lambda>r. [i_id r]), keyName = ''invitations_pkey'',
     policy = (\<lambda>w r. tenantVisible w (i_tenant r)),
     constraints = (\<lambda>env d others r.
       [(\<not> emailNormalized env (i_email r), checkViolation ''invitations_email_check''),
        (i_token_hash r \<noteq> None \<and> i_token_hash r \<in> i_token_hash ` set others,
          uniqueViolation ''invitations_token_hash_key''),
        (\<not> tenantExists d (i_tenant r), foreignKeyViolation ''invitations_tenant_id_fkey''),
        (\<not> userExists d (i_created_by r), foreignKeyViolation ''invitations_created_by_fkey''),
        (\<not> languageExists d (i_delivery_locale r), foreignKeyViolation ''invitations_delivery_locale_fkey''),
        (\<not> roleExists d (i_role r) (i_tenant r), foreignKeyViolation ''invitations_role_id_fkey'')]),
     referenced = (\<lambda>d r. False), cascade = (\<lambda>rs d. d)\<rparr>"

definition identitiesTable :: "identity_row table" where
  "identitiesTable = \<lparr>
     rowsOf = identities, putRows = (\<lambda>rs d. d\<lparr>identities := rs\<rparr>),
     keyOf = (\<lambda>r. [x_issuer r, x_subject r]), keyName = ''external_identities_pkey'',
     policy = (\<lambda>w r. bypassesRLS w),
     constraints = (\<lambda>env d others r.
       [(\<not> emailNormalized env (x_email r), checkViolation ''external_identities_email_check''),
        (list_ex (\<lambda>o'. x_issuer o' = x_issuer r \<and> x_user o' = x_user r) others,
          uniqueViolation ''external_identities_issuer_user_id_key''),
        (\<not> userExists d (x_user r), foreignKeyViolation ''external_identities_user_id_fkey'')]),
     referenced = (\<lambda>d r. False), cascade = (\<lambda>rs d. d)\<rparr>"

text \<open>\<^verbatim>\<open>outbox_processing_lease\<close>: a job is being processed exactly when it holds a lease.\<close>

definition leaseConsistent :: "outbox_row \<Rightarrow> bool" where
  "leaseConsistent r \<longleftrightarrow>
     (o_status r = OutboxProcessing) = (o_locked_at r \<noteq> None \<and> o_lease_token r \<noteq> None)"

definition outboxTable :: "outbox_row table" where
  "outboxTable = \<lparr>
     rowsOf = outbox, putRows = (\<lambda>rs d. d\<lparr>outbox := rs\<rparr>),
     keyOf = (\<lambda>r. [o_id r]), keyName = ''outbox_jobs_pkey'',
     policy = (\<lambda>w r. tenantVisible w (o_tenant r)),
     constraints = (\<lambda>env d others r.
       [(maxInt4 < o_attempts r, PgError ''22003'' []),
        (o_kind r \<noteq> ''invitation.email'', checkViolation ''outbox_jobs_kind_check''),
        (o_attempts r < 0, checkViolation ''outbox_jobs_attempts_check''),
        (\<not> leaseConsistent r, checkViolation ''outbox_processing_lease''),
        (\<not> tenantExists d (o_tenant r), foreignKeyViolation ''outbox_jobs_tenant_id_fkey''),
        (\<not> invitationExists d (o_invitation r), foreignKeyViolation ''outbox_jobs_invitation_id_fkey'')]),
     referenced = (\<lambda>d r. False), cascade = (\<lambda>rs d. d)\<rparr>"

definition languagesTable :: "language table" where
  "languagesTable = \<lparr>
     rowsOf = languages, putRows = (\<lambda>rs d. d\<lparr>languages := rs\<rparr>),
     keyOf = (\<lambda>r. [languageCode r]), keyName = ''languages_pkey'',
     policy = (\<lambda>w r. True),
     constraints = (\<lambda>env d others r.
       [(\<not> charLengthBetween (languageName r) 2 80, checkViolation ''languages_name_check''),
        (\<not> languageCodeFormat (languageCode r), checkViolation ''languages_code_format''),
        (isDefaultLanguage r \<and> list_ex isDefaultLanguage others, uniqueViolation ''languages_single_default'')]),
     referenced = (\<lambda>d r. False), cascade = (\<lambda>rs d. d)\<rparr>"

definition scopeKey :: "application_scope \<Rightarrow> string" where
  "scopeKey s =
     (case s of ScopeShared \<Rightarrow> ''shared'' | ScopeAdmin \<Rightarrow> ''admin'' | ScopePlanerLink \<Rightarrow> ''planer_link''
      | ScopeInfraLink \<Rightarrow> ''infra_link'' | ScopeOther x \<Rightarrow> x)"

definition overridesTable :: "translation table" where
  "overridesTable = \<lparr>
     rowsOf = overrides, putRows = (\<lambda>rs d. d\<lparr>overrides := rs\<rparr>),
     keyOf = (\<lambda>r. [translationLocale r, scopeKey (translationScope r), translationKey r]),
     keyName = ''translation_overrides_pkey'',
     policy = (\<lambda>w r. True),
     constraints = (\<lambda>env d others r.
       [(\<not> scope_isValid (translationScope r), checkViolation ''translation_overrides_application_scope_check''),
        (\<not> charLengthBetween (translationKey r) 1 255, checkViolation ''translation_overrides_key_check''),
        (16384 < length (translationValue r), checkViolation ''translation_overrides_value_check''),
        (\<not> languageExists d (translationLocale r), foreignKeyViolation ''translation_overrides_locale_fkey'')]),
     referenced = (\<lambda>d r. False), cascade = (\<lambda>rs d. d)\<rparr>"

definition auditTable :: "audit_row table" where
  "auditTable = \<lparr>
     rowsOf = audit_events, putRows = (\<lambda>rs d. d\<lparr>audit_events := rs\<rparr>),
     keyOf = (\<lambda>r. [a_id r]), keyName = ''audit_events_pkey'',
     policy = auditVisible,
     constraints = (\<lambda>env d others r.
       [(case a_actor r of None \<Rightarrow> False | Some u \<Rightarrow> \<not> userExists d u,
          foreignKeyViolation ''audit_events_actor_id_fkey''),
        (case a_tenant r of None \<Rightarrow> False | Some t \<Rightarrow> \<not> tenantExists d t,
          foreignKeyViolation ''audit_events_tenant_id_fkey'')]),
     referenced = (\<lambda>d r. False), cascade = (\<lambda>rs d. d)\<rparr>"

lemmas table_defs =
  tenantsTable_def usersTable_def rolesTable_def rolePermissionsTable_def membershipsTable_def
  invitationsTable_def identitiesTable_def outboxTable_def languagesTable_def overridesTable_def
  auditTable_def

lemma rowsOf_simps [simp]:
  "rowsOf tenantsTable = tenants"
  "rowsOf usersTable = users"
  "rowsOf rolesTable = roles"
  "rowsOf rolePermissionsTable = role_permissions"
  "rowsOf membershipsTable = memberships"
  "rowsOf invitationsTable = invitations"
  "rowsOf identitiesTable = identities"
  "rowsOf outboxTable = outbox"
  "rowsOf languagesTable = languages"
  "rowsOf overridesTable = overrides"
  "rowsOf auditTable = audit_events"
  by (simp_all add: table_defs)

lemma putRows_simps [simp]:
  "putRows tenantsTable = (\<lambda>rs d. d\<lparr>tenants := rs\<rparr>)"
  "putRows usersTable = (\<lambda>rs d. d\<lparr>users := rs\<rparr>)"
  "putRows rolesTable = (\<lambda>rs d. d\<lparr>roles := rs\<rparr>)"
  "putRows rolePermissionsTable = (\<lambda>rs d. d\<lparr>role_permissions := rs\<rparr>)"
  "putRows membershipsTable = (\<lambda>rs d. d\<lparr>memberships := rs\<rparr>)"
  "putRows invitationsTable = (\<lambda>rs d. d\<lparr>invitations := rs\<rparr>)"
  "putRows identitiesTable = (\<lambda>rs d. d\<lparr>identities := rs\<rparr>)"
  "putRows outboxTable = (\<lambda>rs d. d\<lparr>outbox := rs\<rparr>)"
  "putRows languagesTable = (\<lambda>rs d. d\<lparr>languages := rs\<rparr>)"
  "putRows overridesTable = (\<lambda>rs d. d\<lparr>overrides := rs\<rparr>)"
  "putRows auditTable = (\<lambda>rs d. d\<lparr>audit_events := rs\<rparr>)"
  by (simp_all add: table_defs)

lemma keyOf_simps [simp]:
  "keyOf tenantsTable = (\<lambda>r. [tenantID r])"
  "keyOf usersTable = (\<lambda>r. [u_id r])"
  "keyOf rolesTable = (\<lambda>r. [r_id r])"
  "keyOf rolePermissionsTable = (\<lambda>r. [p_role r, permissionKey (p_permission r)])"
  "keyOf membershipsTable = (\<lambda>r. [m_id r])"
  "keyOf invitationsTable = (\<lambda>r. [i_id r])"
  "keyOf identitiesTable = (\<lambda>r. [x_issuer r, x_subject r])"
  "keyOf outboxTable = (\<lambda>r. [o_id r])"
  "keyOf languagesTable = (\<lambda>r. [languageCode r])"
  "keyOf overridesTable = (\<lambda>r. [translationLocale r, scopeKey (translationScope r), translationKey r])"
  "keyOf auditTable = (\<lambda>r. [a_id r])"
  by (simp_all add: table_defs)

lemma policy_simps [simp]:
  "policy tenantsTable = (\<lambda>w r. tenantVisible w (tenantID r))"
  "policy usersTable = userVisible"
  "policy rolesTable = (\<lambda>w r. tenantVisible w (r_tenant r))"
  "policy rolePermissionsTable = (\<lambda>w r. tenantVisible w (p_tenant r))"
  "policy membershipsTable = (\<lambda>w r. tenantVisible w (m_tenant r))"
  "policy invitationsTable = (\<lambda>w r. tenantVisible w (i_tenant r))"
  "policy identitiesTable = (\<lambda>w r. bypassesRLS w)"
  "policy outboxTable = (\<lambda>w r. tenantVisible w (o_tenant r))"
  "policy languagesTable = (\<lambda>w r. True)"
  "policy overridesTable = (\<lambda>w r. True)"
  "policy auditTable = auditVisible"
  by (simp_all add: table_defs)

lemma cascade_simps [simp]:
  "cascade rolesTable =
     (\<lambda>rs d. d\<lparr>role_permissions := filter (\<lambda>p. p_role p \<notin> r_id ` set rs) (role_permissions d)\<rparr>)"
  "cascade rolePermissionsTable = (\<lambda>rs d. d)" "cascade overridesTable = (\<lambda>rs d. d)"
  by (simp_all add: table_defs)

lemma referenced_simps [simp]:
  "referenced rolesTable = (\<lambda>d r. list_ex (\<lambda>m. m_role m = r_id r) (memberships d)
                               \<or> list_ex (\<lambda>i. i_role i = r_id r) (invitations d))"
  "referenced rolePermissionsTable = (\<lambda>d r. False)" "referenced overridesTable = (\<lambda>d r. False)"
  by (simp_all add: table_defs)

text \<open>The laws of a table: reading after writing, and rows kept by writes.\<close>

locale stored_table =
  fixes tbl :: "'r table"
  assumes get_put: "rowsOf tbl (putRows tbl rs d) = rs"
    and put_get: "putRows tbl (rowsOf tbl d) d = d"
    and put_put: "putRows tbl rs (putRows tbl rs' d) = putRows tbl rs d"
begin

lemma put_inject: "putRows tbl rs d = putRows tbl rs' d \<longleftrightarrow> rs = rs'"
  by (metis get_put)

end

interpretation tenants: stored_table tenantsTable by unfold_locales (simp_all add: tenantsTable_def)
interpretation users: stored_table usersTable by unfold_locales (simp_all add: usersTable_def)
interpretation roles: stored_table rolesTable by unfold_locales (simp_all add: rolesTable_def)
interpretation role_permissions: stored_table rolePermissionsTable
  by unfold_locales (simp_all add: rolePermissionsTable_def)
interpretation memberships: stored_table membershipsTable
  by unfold_locales (simp_all add: membershipsTable_def)
interpretation invitations: stored_table invitationsTable
  by unfold_locales (simp_all add: invitationsTable_def)
interpretation identities: stored_table identitiesTable
  by unfold_locales (simp_all add: identitiesTable_def)
interpretation outbox: stored_table outboxTable by unfold_locales (simp_all add: outboxTable_def)
interpretation languages: stored_table languagesTable
  by unfold_locales (simp_all add: languagesTable_def)
interpretation overrides: stored_table overridesTable
  by unfold_locales (simp_all add: overridesTable_def)
interpretation audit_events: stored_table auditTable by unfold_locales (simp_all add: auditTable_def)

end
