(* ===== verification/Transactions.thy ===== *)
theory Transactions imports Schema begin

text \<open>
  SQL statements and transactions: \<^verbatim>\<open>server/postgres/pool.go\<close> and \<^verbatim>\<open>server/postgres/ids.go\<close>.

  A statement is one step of the world. It may fail (the environment's \<open>e_fault\<close>), it sees only the
  rows the policies make visible, and it is refused when a constraint is violated. \<open>beginFunc\<close> is
  pgx's \<^verbatim>\<open>BeginFunc\<close>: the database is rolled back when the operation fails, and a commit may be
  refused or, when its acknowledgement is lost, report an error although it took effect.
\<close>

subsection \<open>Statements\<close>

definition tick :: "world \<Rightarrow> world" where
  "tick w = w\<lparr>w_tick := Suc (w_tick w)\<rparr>"

definition statement :: "env \<Rightarrow> (world \<Rightarrow> go_error + ('a \<times> db)) \<Rightarrow> (world, go_error, 'a) eff" where
  "statement env f = (\<lambda>w.
     case e_fault env (w_tick w) of
       Some flt \<Rightarrow> (Inl (faultError flt), tick w)
     | None \<Rightarrow>
         (case f w of
            Inl err \<Rightarrow> (Inl err, tick w)
          | Inr (x, d) \<Rightarrow> (Inr x, (tick w)\<lparr>w_db := d\<rparr>)))"

text \<open>\<^verbatim>\<open>tx.QueryRow(...).Scan(...)\<close> and \<^verbatim>\<open>tx.Query(...)\<close> with \<^verbatim>\<open>pgx.CollectRows\<close>.\<close>

definition queryRow :: "env \<Rightarrow> (world \<Rightarrow> 'a option) \<Rightarrow> (world, go_error, 'a) eff" where
  "queryRow env q = statement env (\<lambda>w. case q w of None \<Rightarrow> Inl NoRows | Some x \<Rightarrow> Inr (x, w_db w))"

definition query :: "env \<Rightarrow> (world \<Rightarrow> 'a list) \<Rightarrow> (world, go_error, 'a list) eff" where
  "query env q = statement env (\<lambda>w. Inr (q w, w_db w))"

text \<open>The rows of a table that the policy shows to the current transaction.\<close>

definition visibleRows :: "'r table \<Rightarrow> world \<Rightarrow> 'r list" where
  "visibleRows tbl w = filter (policy tbl w) (rowsOf tbl (w_db w))"

definition rowViolation :: "env \<Rightarrow> 'r table \<Rightarrow> db \<Rightarrow> 'r list \<Rightarrow> 'r \<Rightarrow> go_error option" where
  "rowViolation env tbl d others r =
     firstViolation ((keyOf tbl r \<in> keyOf tbl ` set others, uniqueViolation (keyName tbl))
       # constraints tbl env d others r)"

definition rlsViolation :: go_error where
  "rlsViolation = PgError ''42501'' []"

text \<open>\<^verbatim>\<open>INSERT INTO\<close>; the new row may use \<^verbatim>\<open>now()\<close>.\<close>

definition insertInto :: "env \<Rightarrow> 'r table \<Rightarrow> (time \<Rightarrow> 'r) \<Rightarrow> (world, go_error, 'r) eff" where
  "insertInto env tbl mk = statement env (\<lambda>w.
     let r = mk (w_now w) in
     if \<not> policy tbl w r then Inl rlsViolation
     else (case rowViolation env tbl (w_db w) (rowsOf tbl (w_db w)) r of
             Some err \<Rightarrow> Inl err
           | None \<Rightarrow> Inr (r, putRows tbl (rowsOf tbl (w_db w) @ [r]) (w_db w))))"

fun firstRowViolation :: "('r \<Rightarrow> go_error option) \<Rightarrow> 'r list \<Rightarrow> go_error option" where
  "firstRowViolation check [] = None"
| "firstRowViolation check (r # rs) =
     (case check r of Some err \<Rightarrow> Some err | None \<Rightarrow> firstRowViolation check rs)"

text \<open>\<^verbatim>\<open>UPDATE ... SET ... WHERE\<close>; the result is the list of the changed rows, which \<^verbatim>\<open>RowsAffected\<close>
  counts and \<^verbatim>\<open>RETURNING\<close> reads.\<close>

definition updateTable ::
  "env \<Rightarrow> 'r table \<Rightarrow> (time \<Rightarrow> 'r \<Rightarrow> bool) \<Rightarrow> (time \<Rightarrow> 'r \<Rightarrow> 'r) \<Rightarrow> (world, go_error, 'r list) eff" where
  "updateTable env tbl P f = statement env (\<lambda>w.
     let rows = rowsOf tbl (w_db w);
         hit = (\<lambda>r. policy tbl w r \<and> P (w_now w) r);
         rows' = updateWhere hit (f (w_now w)) rows;
         changed = map (f (w_now w)) (filter hit rows) in
     if list_ex (\<lambda>r. \<not> policy tbl w r) changed then Inl rlsViolation
     else (case firstRowViolation
              (\<lambda>r. rowViolation env tbl (w_db w) (filter (\<lambda>r'. keyOf tbl r' \<noteq> keyOf tbl r) rows') r) changed of
             Some err \<Rightarrow> Inl err
           | None \<Rightarrow> Inr (changed, putRows tbl rows' (w_db w))))"

text \<open>\<^verbatim>\<open>UPDATE ... RETURNING\<close> read with \<^verbatim>\<open>Scan\<close>: \<^verbatim>\<open>ErrNoRows\<close> when no row was changed.\<close>

definition updateReturning ::
  "env \<Rightarrow> 'r table \<Rightarrow> (time \<Rightarrow> 'r \<Rightarrow> bool) \<Rightarrow> (time \<Rightarrow> 'r \<Rightarrow> 'r) \<Rightarrow> (world, go_error, 'r) eff" where
  "updateReturning env tbl P f =
     andThen (updateTable env tbl P f) (\<lambda>rows. case rows of [] \<Rightarrow> fail NoRows | r # _ \<Rightarrow> ret r)"

text \<open>\<^verbatim>\<open>DELETE FROM ... WHERE\<close>; the result is the number of deleted rows.\<close>

definition deleteFrom :: "env \<Rightarrow> 'r table \<Rightarrow> ('r \<Rightarrow> bool) \<Rightarrow> (world, go_error, nat) eff" where
  "deleteFrom env tbl P = statement env (\<lambda>w.
     let rows = rowsOf tbl (w_db w);
         hit = (\<lambda>r. policy tbl w r \<and> P r) in
     if list_ex (referenced tbl (w_db w)) (filter hit rows)
     then Inl (foreignKeyViolation (keyName tbl))
     else Inr (length (filter hit rows),
               cascade tbl (filter hit rows) (putRows tbl (filter (\<lambda>r. \<not> hit r) rows) (w_db w))))"

subsection \<open>Identifiers and clocks\<close>

definition newUUID :: "env \<Rightarrow> (world, go_error, string) eff" where
  "newUUID env = (\<lambda>w.
     case e_uuid env (w_tick w) of
       None \<Rightarrow> (Inl (Wrapped ''generate UUIDv7'' (OpaqueError ''entropy'')), tick w)
     | Some i \<Rightarrow> (Inr i, tick w))"

definition goNow :: "env \<Rightarrow> (world, go_error, time) eff" where
  "goNow env = (\<lambda>w. (Inr (e_clock env (w_tick w)), tick w))"

text \<open>A \<^verbatim>\<open>timestamptz\<close> holds microseconds; pgx sends a Go time truncated to them.\<close>

definition pgTime :: "time \<Rightarrow> time" where
  "pgTime t = t div 1000 * 1000"

subsection \<open>Transactions\<close>

definition tenantSettingKey :: string where "tenantSettingKey = ''app.current_tenant''"
definition systemSettingKey :: string where "systemSettingKey = ''app.bypass_rls''"

definition setConfig :: "env \<Rightarrow> string \<Rightarrow> string \<Rightarrow> (world, go_error, unit) eff" where
  "setConfig env key value0 = (\<lambda>w.
     case e_fault env (w_tick w) of
       Some flt \<Rightarrow> (Inl (faultError flt), tick w)
     | None \<Rightarrow>
         (Inr (), if key = systemSettingKey then (tick w)\<lparr>w_bypass_rls := value0\<rparr>
                  else if key = tenantSettingKey then (tick w)\<lparr>w_current_tenant := value0\<rparr>
                  else tick w))"

text \<open>The settings are local to the transaction: after it they are what they were before.\<close>

definition leaveTx :: "world \<Rightarrow> db \<Rightarrow> world \<Rightarrow> world" where
  "leaveTx w0 d w = (tick w)\<lparr>w_db := d, w_bypass_rls := w_bypass_rls w0,
     w_current_tenant := w_current_tenant w0, w_now := w_now w0\<rparr>"

definition beginFunc :: "env \<Rightarrow> (world, go_error, 'a) eff \<Rightarrow> (world, go_error, 'a) eff" where
  "beginFunc env operation = (\<lambda>w0.
     case e_fault env (w_tick w0) of
       Some flt \<Rightarrow> (Inl (faultError flt), tick w0)
     | None \<Rightarrow>
         (case operation ((tick w0)\<lparr>w_now := pgTime (e_clock env (w_tick w0))\<rparr>) of
            (Inl err, w) \<Rightarrow> (Inl err, leaveTx w0 (w_db w0) w)
          | (Inr x, w) \<Rightarrow>
              (case e_commit env (w_tick w) of
                 Committed \<Rightarrow> (Inr x, leaveTx w0 (w_db w) w)
               | CommitRefused msg \<Rightarrow> (Inl (OpaqueError msg), leaveTx w0 (w_db w0) w)
               | CommitUnacknowledged msg \<Rightarrow> (Inl (OpaqueError msg), leaveTx w0 (w_db w) w))))"

definition withSettingTx ::
  "env \<Rightarrow> string \<Rightarrow> string \<Rightarrow> (world, go_error, 'a) eff \<Rightarrow> (world, go_error, 'a) eff" where
  "withSettingTx env key value0 operation =
     beginFunc env
       (andThen (mapError (Wrapped ''set transaction context'') (setConfig env key value0))
         (\<lambda>_. operation))"

definition withSystemTx :: "env \<Rightarrow> (world, go_error, 'a) eff \<Rightarrow> (world, go_error, 'a) eff" where
  "withSystemTx env operation = withSettingTx env systemSettingKey ''true'' operation"

definition WithTenantTx :: "env \<Rightarrow> string \<Rightarrow> (world, go_error, 'a) eff \<Rightarrow> (world, go_error, 'a) eff" where
  "WithTenantTx env tid operation =
     andThen (liftSum (tenantID_validate tid)) (\<lambda>_.
       beginFunc env
         (andThen (mapError (Wrapped ''disable system transaction context'')
                    (setConfig env systemSettingKey ''false'')) (\<lambda>_.
          andThen (mapError (Wrapped ''set tenant transaction context'')
                    (setConfig env tenantSettingKey tid)) (\<lambda>_.
          operation))))"

definition Ready :: "env \<Rightarrow> (world, go_error, unit) eff" where
  "Ready env = mapError (Wrapped ''ping postgres'') (statement env (\<lambda>w. Inr ((), w_db w)))"

subsection \<open>What a statement does\<close>

lemma tick_simps [simp]:
  "w_db (tick w) = w_db w" "w_bypass_rls (tick w) = w_bypass_rls w" "w_now (tick w) = w_now w"
  "w_current_tenant (tick w) = w_current_tenant w" "w_tick (tick w) = Suc (w_tick w)"
  "w_mail (tick w) = w_mail w"
  by (simp_all add: tick_def)

definition sameSession :: "world \<Rightarrow> world \<Rightarrow> bool" where
  "sameSession w w' \<longleftrightarrow>
     w_bypass_rls w' = w_bypass_rls w \<and> w_current_tenant w' = w_current_tenant w \<and> w_now w' = w_now w
     \<and> w_mail w' = w_mail w"

lemma sameSession_refl [simp]: "sameSession w w" "sameSession w (tick w)"
  "sameSession w ((tick w)\<lparr>w_db := d\<rparr>)"
  by (simp_all add: sameSession_def)

lemma sameSession_trans: "sameSession w w1 \<Longrightarrow> sameSession w1 w2 \<Longrightarrow> sameSession w w2"
  by (simp add: sameSession_def)

lemma statement_Inr:
  "statement env f w = (Inr x, w') \<longleftrightarrow>
     e_fault env (w_tick w) = None \<and> (\<exists>d. f w = Inr (x, d) \<and> w' = (tick w)\<lparr>w_db := d\<rparr>)"
  by (auto simp: statement_def split: option.splits sum.splits prod.splits)

lemma statement_Inl:
  "statement env f w = (Inl err, w') \<longleftrightarrow>
     w' = tick w \<and>
     ((\<exists>flt. e_fault env (w_tick w) = Some flt \<and> err = faultError flt) \<or>
      (e_fault env (w_tick w) = None \<and> f w = Inl err))"
  by (auto simp: statement_def split: option.splits sum.splits prod.splits)

lemma queryRow_Inr [run_simps]:
  "queryRow env q w = (Inr x, w') \<longleftrightarrow>
     e_fault env (w_tick w) = None \<and> q w = Some x \<and> w' = tick w"
  by (auto simp: queryRow_def statement_Inr tick_def split: option.splits)

lemma queryRow_Inl:
  "queryRow env q w = (Inl err, w') \<longleftrightarrow>
     w' = tick w \<and>
     ((\<exists>flt. e_fault env (w_tick w) = Some flt \<and> err = faultError flt) \<or>
      (e_fault env (w_tick w) = None \<and> q w = None \<and> err = NoRows))"
  by (auto simp: queryRow_def statement_Inl split: option.splits)

lemma query_Inr [run_simps]:
  "query env q w = (Inr x, w') \<longleftrightarrow> e_fault env (w_tick w) = None \<and> x = q w \<and> w' = tick w"
  by (auto simp: query_def statement_Inr tick_def)

lemma query_Inl:
  "query env q w = (Inl err, w') \<longleftrightarrow>
     w' = tick w \<and> (\<exists>flt. e_fault env (w_tick w) = Some flt \<and> err = faultError flt)"
  by (auto simp: query_def statement_Inl)

lemma insertInto_Inr [run_simps]:
  "insertInto env tbl mk w = (Inr r, w') \<longleftrightarrow>
     e_fault env (w_tick w) = None \<and> r = mk (w_now w) \<and> policy tbl w r
     \<and> rowViolation env tbl (w_db w) (rowsOf tbl (w_db w)) r = None
     \<and> w' = (tick w)\<lparr>w_db := putRows tbl (rowsOf tbl (w_db w) @ [r]) (w_db w)\<rparr>"
  by (auto simp: insertInto_def statement_Inr Let_def split: if_splits option.splits)

lemma insertInto_Inl:
  "insertInto env tbl mk w = (Inl err, w') \<Longrightarrow> w' = tick w"
  by (auto simp: insertInto_def statement_Inl)

lemma updateTable_Inr [run_simps]:
  "updateTable env tbl P f w = (Inr rs, w') \<longleftrightarrow>
     e_fault env (w_tick w) = None
     \<and> rs = map (f (w_now w)) (filter (\<lambda>r. policy tbl w r \<and> P (w_now w) r) (rowsOf tbl (w_db w)))
     \<and> (\<forall>r \<in> set rs. policy tbl w r)
     \<and> firstRowViolation
          (\<lambda>r. rowViolation env tbl (w_db w)
             (filter (\<lambda>r'. keyOf tbl r' \<noteq> keyOf tbl r)
                (updateWhere (\<lambda>r. policy tbl w r \<and> P (w_now w) r) (f (w_now w)) (rowsOf tbl (w_db w)))) r) rs = None
     \<and> w' = (tick w)\<lparr>w_db := putRows tbl
          (updateWhere (\<lambda>r. policy tbl w r \<and> P (w_now w) r) (f (w_now w)) (rowsOf tbl (w_db w))) (w_db w)\<rparr>"
  unfolding updateTable_def statement_Inr Let_def
  by (auto simp: list_ex_iff split: if_splits option.splits)

lemma updateTable_Inl: "updateTable env tbl P f w = (Inl err, w') \<Longrightarrow> w' = tick w"
  by (auto simp: updateTable_def statement_Inl)

lemma scanFirst_Inr:
  "(case rs of [] \<Rightarrow> fail NoRows | r0 # _ \<Rightarrow> ret r0) w = (Inr r, w') \<longleftrightarrow> w' = w \<and> (\<exists>rs'. rs = r # rs')"
  by (cases rs) (auto simp: fail_def ret_def)

lemma scanFirst_Inl:
  "(case rs of [] \<Rightarrow> fail NoRows | r0 # _ \<Rightarrow> ret r0) w = (Inl err, w') \<longleftrightarrow>
     w' = w \<and> rs = [] \<and> err = NoRows"
  by (cases rs) (auto simp: fail_def ret_def)

lemma updateReturning_Inr:
  "updateReturning env tbl P f w = (Inr r, w') \<longleftrightarrow>
     (\<exists>rs. updateTable env tbl P f w = (Inr (r # rs), w'))"
  by (auto simp: updateReturning_def andThen_Inr scanFirst_Inr)

lemma updateReturning_NoRows:
  "updateReturning env tbl P f w = (Inl err, w') \<longleftrightarrow>
     updateTable env tbl P f w = (Inl err, w') \<or> (updateTable env tbl P f w = (Inr [], w') \<and> err = NoRows)"
  by (auto simp: updateReturning_def andThen_Inl scanFirst_Inl)

lemma deleteFrom_Inr [run_simps]:
  "deleteFrom env tbl P w = (Inr n, w') \<longleftrightarrow>
     e_fault env (w_tick w) = None
     \<and> n = length (filter (\<lambda>r. policy tbl w r \<and> P r) (rowsOf tbl (w_db w)))
     \<and> (\<forall>r \<in> set (rowsOf tbl (w_db w)). policy tbl w r \<and> P r \<longrightarrow> \<not> referenced tbl (w_db w) r)
     \<and> w' = (tick w)\<lparr>w_db := cascade tbl (filter (\<lambda>r. policy tbl w r \<and> P r) (rowsOf tbl (w_db w)))
               (putRows tbl (filter (\<lambda>r. \<not> (policy tbl w r \<and> P r)) (rowsOf tbl (w_db w))) (w_db w))\<rparr>"
  unfolding deleteFrom_def statement_Inr Let_def
  by (auto simp: list_ex_iff split: if_splits)

lemma deleteFrom_Inl: "deleteFrom env tbl P w = (Inl err, w') \<Longrightarrow> w' = tick w"
  by (auto simp: deleteFrom_def statement_Inl)

lemma newUUID_Inr [run_simps]:
  "newUUID env w = (Inr i, w') \<longleftrightarrow> e_uuid env (w_tick w) = Some i \<and> w' = tick w"
  by (auto simp: newUUID_def split: option.splits)

lemma newUUID_Inl: "newUUID env w = (Inl err, w') \<Longrightarrow> w' = tick w"
  by (auto simp: newUUID_def split: option.splits)

lemma goNow_Inr [run_simps]: "goNow env w = (Inr t, w') \<longleftrightarrow> t = e_clock env (w_tick w) \<and> w' = tick w"
  by (auto simp: goNow_def)

lemma goNow_Inl [run_simps]: "goNow env w = (Inl err, w') \<longleftrightarrow> False"
  by (simp add: goNow_def)

lemma firstRowViolation_None [simp]:
  "firstRowViolation check rs = None \<longleftrightarrow> (\<forall>r \<in> set rs. check r = None)"
  by (induction rs) (auto split: option.splits)

lemma rowViolation_None:
  "rowViolation env tbl d others r = None \<longleftrightarrow>
     keyOf tbl r \<notin> keyOf tbl ` set others \<and> (\<forall>(v, err) \<in> set (constraints tbl env d others r). \<not> v)"
  by (auto simp: rowViolation_def)

end
