(* ===== verification/Base64.thy ===== *)
theory Base64 imports GoStrings begin

text \<open>
  The encoding \<^verbatim>\<open>base64.RawURLEncoding\<close> of Go's standard library, which the program uses for
  invitation hashes, invitation tokens and page cursors: the URL-safe alphabet without padding. The
  decoder skips line breaks and, as Go's non-strict decoder does, ignores the unused bits of the last digit.
\<close>

subsection \<open>Digits\<close>

definition base64Digit :: "nat \<Rightarrow> char" where
  "base64Digit n =
     (if n < 26 then chr (65 + n) else if n < 52 then chr (71 + n) else if n < 62 then chr (n - 4)
      else if n = 62 then CHR ''-'' else CHR ''_'')"

definition base64Value :: "char \<Rightarrow> nat option" where
  "base64Value c =
     (let b = byte c in
      if 65 \<le> b \<and> b \<le> 90 then Some (b - 65) else if 97 \<le> b \<and> b \<le> 122 then Some (b - 71)
      else if 48 \<le> b \<and> b \<le> 57 then Some (b + 4) else if b = 45 then Some 62
      else if b = 95 then Some 63 else None)"

fun sextets :: "nat list \<Rightarrow> nat list" where
  "sextets [] = []"
| "sextets [a] = [a div 4, a mod 4 * 16]"
| "sextets [a, b] = [a div 4, a mod 4 * 16 + b div 16, b mod 16 * 4]"
| "sextets (a # b # c # bs) =
     [a div 4, a mod 4 * 16 + b div 16, b mod 16 * 4 + c div 64, c mod 64] @ sextets bs"

fun octets :: "nat list \<Rightarrow> nat list option" where
  "octets [] = Some []"
| "octets [a] = None"
| "octets [a, b] = Some [a * 4 + b div 16]"
| "octets [a, b, c] = Some [a * 4 + b div 16, b mod 16 * 16 + c div 4]"
| "octets (a # b # c # d # ds) =
     map_option (\<lambda>bs. [a * 4 + b div 16, b mod 16 * 16 + c div 4, c mod 4 * 64 + d] @ bs) (octets ds)"

fun base64Values :: "string \<Rightarrow> nat list option" where
  "base64Values [] = Some []"
| "base64Values (c # cs) =
     (case base64Value c of None \<Rightarrow> None | Some v \<Rightarrow> map_option (\<lambda>vs. v # vs) (base64Values cs))"

definition lineBreak :: "char \<Rightarrow> bool" where
  "lineBreak c \<longleftrightarrow> byte c = 10 \<or> byte c = 13"

definition base64Encode :: "string \<Rightarrow> string" where
  "base64Encode s = map base64Digit (sextets (map byte s))"

definition base64Decode :: "string \<Rightarrow> string option" where
  "base64Decode s =
     (case base64Values (filter (\<lambda>c. \<not> lineBreak c) s) of
        None \<Rightarrow> None
      | Some vs \<Rightarrow> map_option (map chr) (octets vs))"

subsection \<open>Decoding what was encoded\<close>

lemma byte_less: "byte c < 256"
  by (simp add: byte_def)

lemma sextets_less: "\<forall>b \<in> set bs. b < 256 \<Longrightarrow> \<forall>v \<in> set (sextets bs). v < 64"
  by (induction bs rule: sextets.induct) auto

text \<open>Cutting a digit out of the two pieces it was put together from.\<close>

lemma pieces:
  fixes x y k m :: nat
  assumes "y < m"
  shows "(x * m + y) div m = x" "(x * m + y) mod m = y"
  using assms by simp_all

lemma octets_sextets: "\<forall>b \<in> set bs. b < 256 \<Longrightarrow> octets (sextets bs) = Some bs"
proof (induction bs rule: sextets.induct)
  case (2 a)
  have "(a mod 4 * 16) div 16 = a mod 4" by simp
  then show ?case by simp
next
  case (3 a b)
  then have "b div 16 < 16" by auto
  note p = pieces[OF this, of "a mod 4"]
  have "(b mod 16 * 4) div 4 = b mod 16" "b div 16 * 16 + b mod 16 = b" by simp_all
  then show ?case unfolding sextets.simps octets.simps p by simp
next
  case (4 a b c bs)
  then have "b div 16 < 16" "c div 64 < 4" by auto
  note p = pieces[OF this(1), of "a mod 4"] pieces[OF this(2), of "b mod 16"]
  have "a div 4 * 4 + a mod 4 = a" "b div 16 * 16 + b mod 16 = b" "c div 64 * 64 + c mod 64 = c"
    by simp_all
  moreover have "octets (sextets bs) = Some bs" by (rule 4(1)) (use 4(2) in simp)
  ultimately show ?case unfolding sextets.simps append.simps octets.simps p by simp
qed simp

lemma byte_base64Digit:
  "n < 64 \<Longrightarrow> byte (base64Digit n) =
     (if n < 26 then 65 + n else if n < 52 then 71 + n else if n < 62 then n - 4 else if n = 62 then 45 else 95)"
proof -
  have "byte (CHR ''-'') = 45" "byte (CHR ''_'') = 95" by (simp_all add: byte_def)
  then show "n < 64 \<Longrightarrow> ?thesis" by (simp add: base64Digit_def byte_chr)
qed

lemma base64Digit_value: "n < 64 \<Longrightarrow> base64Value (base64Digit n) = Some n \<and> \<not> lineBreak (base64Digit n)"
  unfolding base64Value_def lineBreak_def Let_def byte_base64Digit by auto

lemma base64Values_digits: "\<forall>v \<in> set vs. v < 64 \<Longrightarrow> base64Values (map base64Digit vs) = Some vs"
  by (induction vs) (simp_all add: base64Digit_value)

lemma base64Decode_encode [simp]: "base64Decode (base64Encode s) = Some s"
proof -
  let ?vs = "sextets (map byte s)"
  have vs: "\<forall>v \<in> set ?vs. v < 64" by (rule sextets_less) (auto simp: byte_less)
  then have "filter (\<lambda>c. \<not> lineBreak c) (base64Encode s) = base64Encode s"
    by (auto simp: base64Encode_def filter_id_conv base64Digit_value)
  moreover have "base64Values (base64Encode s) = Some ?vs"
    using vs by (simp add: base64Encode_def base64Values_digits)
  moreover have "octets ?vs = Some (map byte s)" by (rule octets_sextets) (auto simp: byte_less)
  ultimately show ?thesis by (simp add: base64Decode_def comp_def map_idI)
qed

lemma base64Encode_inject [simp]: "base64Encode s = base64Encode t \<longleftrightarrow> s = t"
  by (metis base64Decode_encode option.inject)

end
