(* ===== verification/Sha256.thy ===== *)
theory Sha256 imports GoStrings "HOL-Library.Word" begin

text \<open>
  SHA-256 (\<^verbatim>\<open>crypto/sha256\<close>) and HMAC-SHA-256 (\<^verbatim>\<open>crypto/hmac\<close>) of Go's standard library, on 32-bit words.
  The program hashes invitation tokens, cursor filters and signs invitation tokens with them.
\<close>

unbundle bit_operations_syntax

type_synonym w32 = "32 word"

definition sha256K :: "w32 list" where
  "sha256K =
    [0x428A2F98, 0x71374491, 0xB5C0FBCF, 0xE9B5DBA5, 0x3956C25B, 0x59F111F1,
     0x923F82A4, 0xAB1C5ED5, 0xD807AA98, 0x12835B01, 0x243185BE, 0x550C7DC3,
     0x72BE5D74, 0x80DEB1FE, 0x9BDC06A7, 0xC19BF174, 0xE49B69C1, 0xEFBE4786,
     0x0FC19DC6, 0x240CA1CC, 0x2DE92C6F, 0x4A7484AA, 0x5CB0A9DC, 0x76F988DA,
     0x983E5152, 0xA831C66D, 0xB00327C8, 0xBF597FC7, 0xC6E00BF3, 0xD5A79147,
     0x06CA6351, 0x14292967, 0x27B70A85, 0x2E1B2138, 0x4D2C6DFC, 0x53380D13,
     0x650A7354, 0x766A0ABB, 0x81C2C92E, 0x92722C85, 0xA2BFE8A1, 0xA81A664B,
     0xC24B8B70, 0xC76C51A3, 0xD192E819, 0xD6990624, 0xF40E3585, 0x106AA070,
     0x19A4C116, 0x1E376C08, 0x2748774C, 0x34B0BCB5, 0x391C0CB3, 0x4ED8AA4A,
     0x5B9CCA4F, 0x682E6FF3, 0x748F82EE, 0x78A5636F, 0x84C87814, 0x8CC70208,
     0x90BEFFFA, 0xA4506CEB, 0xBEF9A3F7, 0xC67178F2]"

definition sha256Start :: "w32 list" where
  "sha256Start =
    [0x6A09E667, 0xBB67AE85, 0x3C6EF372, 0xA54FF53A, 0x510E527F, 0x9B05688C,
     0x1F83D9AB, 0x5BE0CD19]"

subsection \<open>Bytes and words\<close>

definition bytesOfWord :: "w32 \<Rightarrow> string" where
  "bytesOfWord w = map (\<lambda>n. chr (unat (drop_bit n w AND 0xFF))) [24, 16, 8, 0]"

fun wordsOfBytes :: "string \<Rightarrow> w32 list" where
  "wordsOfBytes (a # b # c # d # s) =
     word_of_nat (((byte a * 256 + byte b) * 256 + byte c) * 256 + byte d) # wordsOfBytes s"
| "wordsOfBytes _ = []"

text \<open>The message, a one bit, zeros up to 56 bytes modulo 64, and the length in bits as 64-bit big endian.\<close>

definition lengthBytes :: "nat \<Rightarrow> string" where
  "lengthBytes n = map (\<lambda>k. chr (n * 8 div 256 ^ k mod 256)) [7, 6, 5, 4, 3, 2, 1, 0]"

definition sha256Pad :: "string \<Rightarrow> string" where
  "sha256Pad m =
     m @ [chr 128] @ replicate ((119 - length m mod 64) mod 64) (chr 0) @ lengthBytes (length m)"

function sha256Blocks :: "w32 list \<Rightarrow> w32 list list" where
  "sha256Blocks ws = (if ws = [] then [] else take 16 ws # sha256Blocks (drop 16 ws))"
  by auto
termination by (relation "measure length") auto

declare sha256Blocks.simps [simp del]

subsection \<open>Compression\<close>

fun sha256Schedule :: "nat \<Rightarrow> w32 list \<Rightarrow> w32 list" where
  "sha256Schedule 0 ws = ws"
| "sha256Schedule (Suc n) ws =
     (let i = length ws; x = ws ! (i - 15); y = ws ! (i - 2);
          s0 = word_rotr 7 x XOR word_rotr 18 x XOR drop_bit 3 x;
          s1 = word_rotr 17 y XOR word_rotr 19 y XOR drop_bit 10 y
      in sha256Schedule n (ws @ [ws ! (i - 16) + s0 + ws ! (i - 7) + s1]))"

fun sha256Round :: "w32 list \<Rightarrow> w32 \<times> w32 \<Rightarrow> w32 list" where
  "sha256Round [a, b, c, d, e, f, g, h] (k, w) =
     (let s1 = word_rotr 6 e XOR word_rotr 11 e XOR word_rotr 25 e;
          ch = (e AND f) XOR (NOT e AND g);
          t1 = h + s1 + ch + k + w;
          s0 = word_rotr 2 a XOR word_rotr 13 a XOR word_rotr 22 a;
          maj = (a AND b) XOR (a AND c) XOR (b AND c)
      in [t1 + s0 + maj, a, b, c, d + t1, e, f, g])"
| "sha256Round s kw = s"

definition sha256Compress :: "w32 list \<Rightarrow> w32 list \<Rightarrow> w32 list" where
  "sha256Compress s block = map2 (+) s (foldl sha256Round s (zip sha256K (sha256Schedule 48 block)))"

definition sha256 :: "string \<Rightarrow> string" where
  "sha256 m = concat (map bytesOfWord (foldl sha256Compress sha256Start (sha256Blocks (wordsOfBytes (sha256Pad m)))))"

subsection \<open>HMAC\<close>

definition hmacPad :: "string \<Rightarrow> nat \<Rightarrow> string" where
  "hmacPad key x =
     (let key' = (if 64 < length key then sha256 key else key);
          block = key' @ replicate (64 - length key') (chr 0)
      in map (\<lambda>c. chr (unat ((word_of_nat (byte c) :: 8 word) XOR word_of_nat x))) block)"

definition hmacSha256 :: "string \<Rightarrow> string \<Rightarrow> string" where
  "hmacSha256 key m = sha256 (hmacPad key 92 @ sha256 (hmacPad key 54 @ m))"

subsection \<open>A digest has 32 bytes\<close>

lemma length_sha256Round: "length s = 8 \<Longrightarrow> length (sha256Round s kw) = 8"
  by (cases "(s, kw)" rule: sha256Round.cases) (auto simp: Let_def)

lemma length_rounds: "length s = 8 \<Longrightarrow> length (foldl sha256Round s kws) = 8"
  by (induction kws arbitrary: s) (simp_all add: length_sha256Round)

lemma length_compress: "length s = 8 \<Longrightarrow> length (foldl sha256Compress s blocks) = 8"
  by (induction blocks arbitrary: s) (simp_all add: sha256Compress_def length_rounds)

lemma length_concat_words: "length (concat (map bytesOfWord ws)) = 4 * length ws"
  by (induction ws) (simp_all add: bytesOfWord_def)

lemma length_sha256 [simp]: "length (sha256 m) = 32"
  by (simp add: sha256_def length_concat_words length_compress sha256Start_def)

lemma length_hmacSha256 [simp]: "length (hmacSha256 key m) = 32"
  by (simp add: hmacSha256_def)

end
