(* ===== verification/GoUrl.thy ===== *)
theory GoUrl imports GoStrings begin

text \<open>
  What the program uses of Go's package \<^verbatim>\<open>net/url\<close>: a parsed URL, percent encoding, query strings and
  \<^verbatim>\<open>URL.String\<close>. The parser \<^verbatim>\<open>url.Parse\<close> is a parameter of the definitions that call it.
\<close>

record url =
  urlScheme :: string
  urlUser :: "string option"
  urlHost :: string
  urlPath :: string
  urlRawQuery :: string
  urlFragment :: string

subsection \<open>Percent encoding\<close>

datatype encoding = EncodePath | EncodeHost | EncodeQueryComponent | EncodeFragment

definition asciiLetter :: "char \<Rightarrow> bool" where
  "asciiLetter c \<longleftrightarrow> (97 \<le> byte c \<and> byte c \<le> 122) \<or> (65 \<le> byte c \<and> byte c \<le> 90)"

definition asciiDigit :: "char \<Rightarrow> bool" where
  "asciiDigit c \<longleftrightarrow> 48 \<le> byte c \<and> byte c \<le> 57"

definition shouldEscape :: "encoding \<Rightarrow> char \<Rightarrow> bool" where
  "shouldEscape mode c =
     (if asciiLetter c \<or> asciiDigit c then False
      else if mode = EncodeHost \<and> c \<in> set ''!$&'' \<union> {chr 39} \<union> set ''()*+,;=:[]<>'' \<union> {chr 34} then False
      else if c \<in> set ''-_.~'' then False
      else if c \<in> set ''$&+,/:;=?@'' then
        (case mode of EncodePath \<Rightarrow> c = CHR ''?'' | EncodeQueryComponent \<Rightarrow> True | EncodeFragment \<Rightarrow> False | EncodeHost \<Rightarrow> True)
      else if mode = EncodeFragment \<and> c \<in> set ''!()*'' then False
      else True)"

definition upperHex :: "nat \<Rightarrow> char" where
  "upperHex n = (if n < 10 then chr (48 + n) else chr (55 + n))"

definition escapeByte :: "encoding \<Rightarrow> char \<Rightarrow> string" where
  "escapeByte mode c =
     (if \<not> shouldEscape mode c then [c]
      else if c = CHR '' '' \<and> mode = EncodeQueryComponent then ''+''
      else [CHR ''%'', upperHex (byte c div 16), upperHex (byte c mod 16)])"

definition escape :: "encoding \<Rightarrow> string \<Rightarrow> string" where
  "escape mode s = concat (map (escapeByte mode) s)"

definition unhex :: "char \<Rightarrow> nat option" where
  "unhex c =
     (if asciiDigit c then Some (byte c - 48)
      else if 97 \<le> byte c \<and> byte c \<le> 102 then Some (byte c - 87)
      else if 65 \<le> byte c \<and> byte c \<le> 70 then Some (byte c - 55)
      else None)"

text \<open>\<^verbatim>\<open>url.QueryUnescape\<close>: \<open>None\<close> is an \<^verbatim>\<open>EscapeError\<close>.\<close>

fun queryUnescape :: "string \<Rightarrow> string option" where
  "queryUnescape [] = Some []"
| "queryUnescape (c # s) =
     (if c = CHR ''%'' then
        (case s of
           a # b # rest \<Rightarrow>
             (case (unhex a, unhex b) of
                (Some x, Some y) \<Rightarrow> map_option (Cons (chr (16 * x + y))) (queryUnescape rest)
              | _ \<Rightarrow> None)
         | _ \<Rightarrow> None)
      else map_option (Cons (if c = CHR ''+'' then CHR '' '' else c)) (queryUnescape s))"

subsection \<open>Query strings\<close>

text \<open>The values of a query in the order of the string, a key as often as it occurs. \<^verbatim>\<open>Query()\<close> drops the
  pieces that are malformed: a semicolon, or an escape that does not decode.\<close>

type_synonym query = "(string \<times> string) list"

definition queryPiece :: "string \<Rightarrow> query" where
  "queryPiece piece =
     (if piece = [] \<or> CHR '';'' \<in> set piece then []
      else case cut (CHR ''='') piece of (key, val, _) \<Rightarrow>
        (case (queryUnescape key, queryUnescape val) of
           (Some k, Some v) \<Rightarrow> [(k, v)]
         | _ \<Rightarrow> []))"

definition parseQuery :: "string \<Rightarrow> query" where
  "parseQuery raw = concat (map queryPiece (splitOn (CHR ''&'') raw))"

text \<open>\<^verbatim>\<open>Values.Get\<close>, \<^verbatim>\<open>Values.Set\<close> and \<^verbatim>\<open>Values.Encode\<close>, which sorts by key and keeps the order of a key's values.\<close>

definition queryGet :: "query \<Rightarrow> string \<Rightarrow> string" where
  "queryGet q key = (case map_of q key of None \<Rightarrow> [] | Some v \<Rightarrow> v)"

definition querySet :: "query \<Rightarrow> string \<Rightarrow> string \<Rightarrow> query" where
  "querySet q key val = filter (\<lambda>p. fst p \<noteq> key) q @ [(key, val)]"

definition queryPair :: "string \<times> string \<Rightarrow> string" where
  "queryPair p = escape EncodeQueryComponent (fst p) @ ''='' @ escape EncodeQueryComponent (snd p)"

fun joinPieces :: "string \<Rightarrow> string list \<Rightarrow> string" where
  "joinPieces sep [] = []"
| "joinPieces sep [x] = x"
| "joinPieces sep (x # y # ys) = x @ sep @ joinPieces sep (y # ys)"

definition queryEncode :: "query \<Rightarrow> string" where
  "queryEncode q = joinPieces ''&'' (map queryPair (orderBy (\<lambda>a b. bytesLess (fst a) (fst b)) q))"

subsection \<open>The text of a URL\<close>

definition urlString :: "url \<Rightarrow> string" where
  "urlString u =
     (let path = escape EncodePath (urlPath u) in
      (if urlScheme u \<noteq> [] then urlScheme u @ '':'' else [])
      @ (if (urlScheme u \<noteq> [] \<or> urlHost u \<noteq> [] \<or> urlUser u \<noteq> None)
            \<and> (urlHost u \<noteq> [] \<or> urlPath u \<noteq> [] \<or> urlUser u \<noteq> None)
         then ''//'' @ (case urlUser u of None \<Rightarrow> [] | Some user \<Rightarrow> user @ ''@'') @ escape EncodeHost (urlHost u) else [])
      @ (if path \<noteq> [] \<and> hd path \<noteq> CHR ''/'' \<and> urlHost u \<noteq> [] then ''/'' else []) @ path
      @ (if urlRawQuery u \<noteq> [] then ''?'' @ urlRawQuery u else [])
      @ (if urlFragment u \<noteq> [] then ''#'' @ escape EncodeFragment (urlFragment u) else []))"

subsection \<open>Escaping and reading back\<close>

lemma unhex_upperHex: "n < 16 \<Longrightarrow> unhex (upperHex n) = Some n"
  by (auto simp: unhex_def upperHex_def asciiDigit_def byte_chr)

lemma queryUnescape_escapeByte:
  "queryUnescape (escapeByte EncodeQueryComponent c @ s) = map_option (Cons c) (queryUnescape s)"
proof -
  have bytes: "byte c div 16 < 16" "byte c mod 16 < 16" using byte_bound[of c] by auto
  show ?thesis
  proof (cases "shouldEscape EncodeQueryComponent c")
    case True
    then show ?thesis using bytes by (simp add: escapeByte_def unhex_upperHex)
  next
    case False
    then have "c \<noteq> CHR ''%'' \<and> c \<noteq> CHR ''+''" by (auto simp: shouldEscape_def asciiLetter_def asciiDigit_def byte_def)
    then show ?thesis using False by (simp add: escapeByte_def)
  qed
qed

lemma queryUnescape_escape [simp]: "queryUnescape (escape EncodeQueryComponent s) = Some s"
  by (induction s) (simp_all add: escape_def queryUnescape_escapeByte)

text \<open>Escaped text contains none of the characters that structure a query.\<close>

lemma escapeByte_plain: "d \<in> set (escapeByte EncodeQueryComponent c) \<Longrightarrow> d \<notin> {CHR ''&'', CHR ''='', CHR '';'', CHR ''#'', CHR ''/''}"
proof -
  have hex: "upperHex n \<notin> {CHR ''&'', CHR ''='', CHR '';'', CHR ''#'', CHR ''/''}" if "n < 16" for n
    using that unhex_upperHex[of n] by (auto simp: unhex_def asciiDigit_def byte_def)
  have bytes: "byte c div 16 < 16" "byte c mod 16 < 16" using byte_bound[of c] by auto
  assume d: "d \<in> set (escapeByte EncodeQueryComponent c)"
  have same: "shouldEscape EncodeQueryComponent x" if "x \<in> {CHR ''&'', CHR ''='', CHR '';'', CHR ''#'', CHR ''/''}" for x
    using that by (elim insertE emptyE; hypsubst; code_simp)
  from d consider "d = CHR ''+''" | "d = CHR ''%''" | "d = upperHex (byte c div 16)" | "d = upperHex (byte c mod 16)"
    | "d = c" "\<not> shouldEscape EncodeQueryComponent c"
    unfolding escapeByte_def by (auto split: if_splits)
  then show ?thesis using hex[OF bytes(1)] hex[OF bytes(2)] same by cases auto
qed

lemma escape_plain: "d \<in> set (escape EncodeQueryComponent s) \<Longrightarrow> d \<notin> {CHR ''&'', CHR ''='', CHR '';'', CHR ''#'', CHR ''/''}"
  unfolding escape_def using escapeByte_plain by fastforce

lemma cut_append: "c \<notin> set xs \<Longrightarrow> cut c (xs @ c # ys) = (xs, ys, True)"
  by (induction xs) auto

lemma splitOn_none: "c \<notin> set xs \<Longrightarrow> splitOn c xs = [xs]"
  by (induction xs) auto

lemma splitOn_append: "c \<notin> set xs \<Longrightarrow> splitOn c (xs @ c # ys) = xs # splitOn c ys"
  by (induction xs) auto

lemma queryPiece_queryPair [simp]: "queryPiece (queryPair p) = [p]"
proof -
  have "cut (CHR ''='') (queryPair p) = (escape EncodeQueryComponent (fst p), escape EncodeQueryComponent (snd p), True)"
    unfolding queryPair_def using cut_append escape_plain by fastforce
  moreover have "CHR '';'' \<notin> set (queryPair p)" using escape_plain by (fastforce simp: queryPair_def)
  ultimately show ?thesis by (simp add: queryPiece_def queryPair_def)
qed

lemma queryPair_plain: "CHR ''&'' \<notin> set (queryPair p)"
  using escape_plain by (fastforce simp: queryPair_def)

lemma parseQuery_join: "parseQuery (joinPieces ''&'' (map queryPair q)) = q"
proof (induction q rule: induct_list012)
  case 1
  then show ?case by (simp add: parseQuery_def queryPiece_def)
next
  case (2 p)
  then show ?case by (simp add: parseQuery_def splitOn_none queryPair_plain)
next
  case (3 p p' ps)
  then show ?case by (simp add: parseQuery_def splitOn_append queryPair_plain)
qed

text \<open>Encoding a query and parsing it gives its values back, sorted by key.\<close>

lemma parseQuery_queryEncode: "parseQuery (queryEncode q) = orderBy (\<lambda>a b. bytesLess (fst a) (fst b)) q"
  by (simp add: queryEncode_def parseQuery_join)

end
