(* ===== verification/Credentials.thy ===== *)
theory Credentials imports Transactions Base64 Sha256 GoUrl begin

text \<open>
  Package \<^verbatim>\<open>server/auth\<close>: password hashes (\<^verbatim>\<open>password.go\<close>), session tokens (\<^verbatim>\<open>jwt.go\<close>) and invitation
  tokens (\<^verbatim>\<open>invitation_token.go\<close>), with \<^verbatim>\<open>invitationHash\<close> of \<^verbatim>\<open>server/auth_invitation.go\<close>.

  The libraries these call that are not part of the repository are fields of the record \<open>ports\<close>: bcrypt,
  the JWT library, \<^verbatim>\<open>uuid.Validate\<close>, the parsers \<^verbatim>\<open>mail.ParseAddress\<close> and \<^verbatim>\<open>url.Parse\<close>, the lenient time
  parser and the reading of a \<^verbatim>\<open>uuid\<close> by the database.
  The randomness of bcrypt is indexed by the counter of the world's calls.
\<close>

subsection \<open>The libraries used\<close>

record token_claims =
  tcTenantID :: string
  tcVersion :: int
  tcSubject :: string
  tcIssuer :: string
  tcAudience :: string
  tcExpiresAt :: "int option"
  tcIssuedAt :: "int option"
  tcID :: string

text \<open>\<^verbatim>\<open>mail.Address\<close>.\<close>

record mail_address =
  addressName :: string
  addressSpec :: string

record ports =
  bcryptGenerate :: "nat \<Rightarrow> int \<Rightarrow> string \<Rightarrow> string option"
  bcryptCompare :: "string \<Rightarrow> string \<Rightarrow> bool"
  bcryptCost :: "string \<Rightarrow> int option"
  jwtSign :: "string \<Rightarrow> token_claims \<Rightarrow> string option"
  jwtParse :: "string \<Rightarrow> string \<Rightarrow> string \<Rightarrow> time \<Rightarrow> string \<Rightarrow> token_claims option"
  uuidValidate :: "string \<Rightarrow> bool"
  parseAddress :: "string \<Rightarrow> mail_address option"
  urlParse :: "string \<Rightarrow> url option"
  parseTimeLenient :: "string \<Rightarrow> time option"
  pgUuid :: "string \<Rightarrow> string option"

subsection \<open>Passwords\<close>

record password_hasher =
  hasherCost :: int
  rejectedHash :: string

definition defaultPasswordHashCost :: int where "defaultPasswordHashCost = 10"
definition bcryptMinCost :: int where "bcryptMinCost = 4"
definition bcryptMaxCost :: int where "bcryptMaxCost = 31"
definition rejectedPassword :: string where "rejectedPassword = ''clinks-rejected-password''"

text \<open>\<^verbatim>\<open>bcrypt.GenerateFromPassword\<close>, one call of the environment.\<close>

definition generateHash :: "ports \<Rightarrow> int \<Rightarrow> string \<Rightarrow> (world, go_error, string) eff" where
  "generateHash p cost password = (\<lambda>w.
     case bcryptGenerate p (w_tick w) cost password of
       None \<Rightarrow> (Inl (OpaqueError ''bcrypt''), tick w)
     | Some h \<Rightarrow> (Inr h, tick w))"

definition NewPasswordHasherWithConfig :: "ports \<Rightarrow> int \<Rightarrow> (world, go_error, password_hasher) eff" where
  "NewPasswordHasherWithConfig p configured =
     (let cost = (if configured = 0 then defaultPasswordHashCost else configured) in
      if cost < bcryptMinCost \<or> bcryptMaxCost < cost
      then fail (OpaqueError ''password hasher: bcrypt cost must be between 4 and 31'')
      else
        andThen (mapError (Wrapped ''password hasher: generate rejected password hash'')
          (generateHash p cost rejectedPassword)) (\<lambda>rejected.
        ret \<lparr>hasherCost = cost, rejectedHash = rejected\<rparr>))"

definition NewPasswordHasher :: "ports \<Rightarrow> (world, go_error, password_hasher) eff" where
  "NewPasswordHasher p = NewPasswordHasherWithConfig p defaultPasswordHashCost"

definition hashPassword :: "ports \<Rightarrow> password_hasher \<Rightarrow> string \<Rightarrow> (world, go_error, string) eff" where
  "hashPassword p hasher password =
     (if 72 < length password then fail (Wrapped ''hash password'' (OpaqueError ''bcrypt: password length exceeds 72 bytes''))
      else mapError (Wrapped ''hash password'') (generateHash p (hasherCost hasher) password))"

definition verifyPassword :: "ports \<Rightarrow> password_hasher \<Rightarrow> string \<Rightarrow> string \<Rightarrow> bool" where
  "verifyPassword p hasher password hash =
     (let targetHash = (if hash = [] then rejectedHash hasher else hash);
          matches = bcryptCompare p targetHash password
      in hash \<noteq> [] \<and> matches)"

definition NeedsRehash :: "ports \<Rightarrow> password_hasher \<Rightarrow> string \<Rightarrow> bool" where
  "NeedsRehash p hasher hash =
     (if hash = [] then False
      else case bcryptCost p hash of None \<Rightarrow> False | Some cost \<Rightarrow> cost \<noteq> hasherCost hasher)"

subsection \<open>Session tokens\<close>

record session_issuer =
  issuerSecret :: string
  issuerName :: string
  issuerAudience :: string
  issuerTTL :: duration

record session_config =
  configSecret :: string
  configIssuer :: string
  configAudience :: string
  configTTL :: duration

definition defaultSessionTTL :: duration where "defaultSessionTTL = 24 * 60 * 60 * nanosecondsPerSecond"
definition minimumSessionSecretBytes :: nat where "minimumSessionSecretBytes = 32"

definition NewSessionIssuer :: "session_config \<Rightarrow> session_issuer result" where
  "NewSessionIssuer config =
     (if length (configSecret config) < minimumSessionSecretBytes
      then Inl (OpaqueError ''session issuer secret must contain at least 32 bytes'')
      else let name = trimSpace (configIssuer config) in
      if name = [] then Inl (OpaqueError ''session issuer is required'')
      else let audience = trimSpace (configAudience config) in
      if audience = [] then Inl (OpaqueError ''session audience is required'')
      else Inr \<lparr>issuerSecret = configSecret config, issuerName = name, issuerAudience = audience,
                issuerTTL = (if configTTL config \<le> 0 then defaultSessionTTL else configTTL config)\<rparr>)"

text \<open>\<^verbatim>\<open>jwt.NewNumericDate\<close> keeps whole Unix seconds; Go's zero time is 62135596800 seconds before 1970.\<close>

definition unixSeconds :: "time \<Rightarrow> int" where
  "unixSeconds t = t div nanosecondsPerSecond - 62135596800"

definition validateSessionClaim :: "session_claim \<Rightarrow> unit result" where
  "validateSessionClaim claim =
     (if \<not> validUUID (claimUserID claim) then Inl (OpaqueError ''issue session token: user id is required'')
      else if \<not> optionalValid validUUID (claimActiveTenantID claim)
      then Inl (OpaqueError ''issue session token: active tenant id is invalid'')
      else if claimSessionVersion claim < 1
      then Inl (OpaqueError ''issue session token: session version must be positive'')
      else Inr ())"

definition newTokenID :: "env \<Rightarrow> (world, go_error, string) eff" where
  "newTokenID env = (\<lambda>w.
     case e_uuid env (w_tick w) of None \<Rightarrow> (Inl (OpaqueError ''entropy''), tick w) | Some i \<Rightarrow> (Inr i, tick w))"

definition IssueToken :: "env \<Rightarrow> ports \<Rightarrow> session_issuer \<Rightarrow> session_claim \<Rightarrow> (world, go_error, string) eff" where
  "IssueToken env p issuer claim =
     andThen (liftSum (validateSessionClaim claim)) (\<lambda>_.
     andThen (goNow env) (\<lambda>now.
     andThen (mapError (Wrapped ''generate session token id'') (newTokenID env)) (\<lambda>tokenID.
     let claims =
       \<lparr>tcTenantID = (case claimActiveTenantID claim of None \<Rightarrow> [] | Some t \<Rightarrow> t),
        tcVersion = claimSessionVersion claim, tcSubject = claimUserID claim,
        tcIssuer = issuerName issuer, tcAudience = issuerAudience issuer,
        tcExpiresAt = Some (unixSeconds (now + issuerTTL issuer)), tcIssuedAt = Some (unixSeconds now),
        tcID = tokenID\<rparr> in
     case jwtSign p (issuerSecret issuer) claims of
       None \<Rightarrow> fail (Wrapped ''sign session token'' (OpaqueError ''jwt''))
     | Some token \<Rightarrow> ret token)))"

definition validSessionClaims :: "ports \<Rightarrow> token_claims \<Rightarrow> bool" where
  "validSessionClaims p c \<longleftrightarrow>
     \<not> (\<not> uuidValidate p (tcSubject c) \<or> \<not> uuidValidate p (tcID c)
        \<or> (tcTenantID c \<noteq> [] \<and> \<not> uuidValidate p (tcTenantID c)))
     \<and> tcSubject c \<noteq> [] \<and> tcID c \<noteq> [] \<and> 0 < tcVersion c \<and> tcIssuedAt c \<noteq> None \<and> tcExpiresAt c \<noteq> None"

definition VerifyToken :: "env \<Rightarrow> ports \<Rightarrow> session_issuer \<Rightarrow> string \<Rightarrow> (world, go_error, session_claim) eff" where
  "VerifyToken env p issuer rawToken =
     (if trimSpace rawToken = [] then fail (newError ErrorInvalidCredentials)
      else
        andThen (goNow env) (\<lambda>now.
        case jwtParse p (issuerSecret issuer) (issuerName issuer) (issuerAudience issuer) now rawToken of
          None \<Rightarrow> fail (newError ErrorInvalidCredentials)
        | Some c \<Rightarrow>
            if \<not> validSessionClaims p c then fail (newError ErrorInvalidCredentials)
            else ret \<lparr>claimUserID = tcSubject c,
                      claimActiveTenantID = (if tcTenantID c \<noteq> [] then Some (tcTenantID c) else None),
                      claimSessionVersion = tcVersion c\<rparr>))"

subsection \<open>Invitation tokens\<close>

text \<open>\<^verbatim>\<open>strconv.FormatInt(i, 10)\<close>.\<close>

fun decimal :: "nat \<Rightarrow> string" where
  "decimal n = (if n < 10 then [chr (48 + n)] else decimal (n div 10) @ [chr (48 + n mod 10)])"

declare decimal.simps [simp del]

definition formatInt :: "int \<Rightarrow> string" where
  "formatInt i = (if i < 0 then CHR ''-'' # decimal (nat (- i)) else decimal (nat i))"

definition minimumInvitationTokenSecretBytes :: nat where "minimumInvitationTokenSecretBytes = 32"

definition NewInvitationTokenSigner :: "string \<Rightarrow> string result" where
  "NewInvitationTokenSigner secret =
     (if length secret < minimumInvitationTokenSecretBytes
      then Inl (OpaqueError ''invitation token secret must contain at least 32 bytes'')
      else Inr secret)"

definition NewInvitationID :: "env \<Rightarrow> (world, go_error, string) eff" where
  "NewInvitationID env = mapError (Wrapped ''generate invitation id'') (newTokenID env)"

definition invitationToken :: "string \<Rightarrow> invitation \<Rightarrow> string result" where
  "invitationToken secret i =
     (if \<not> validUUID (invitationID i) then Inl (OpaqueError ''sign invitation token: invitation id is required'')
      else if expiresAt i = zeroTime then Inl (OpaqueError ''sign invitation token: invitation expiry is required'')
      else
        let payload = invitationID i @ ''.'' @ formatInt (unixSeconds (expiresAt i));
            signature = base64Encode (hmacSha256 secret payload)
        in Inr (payload @ ''.'' @ signature))"

definition invitationHash :: "string \<Rightarrow> string" where
  "invitationHash token = base64Encode (sha256 (trimSpace token))"

subsection \<open>What the libraries promise\<close>

text \<open>
  bcrypt: a generated hash is not empty and matches its password. The JWT library: a signed token is not
  blank, and it parses back under the same secret to the same claims while it has not expired and was not
  issued in the future. \<^verbatim>\<open>uuid.Validate\<close> accepts the canonical form, which \<^verbatim>\<open>uuid.NewV7\<close> generates.
\<close>

definition bcryptCorrect :: "ports \<Rightarrow> bool" where
  "bcryptCorrect p \<longleftrightarrow>
     (\<forall>n cost pw h. bcryptGenerate p n cost pw = Some h \<longrightarrow> h \<noteq> [] \<and> bcryptCompare p h pw)"

definition jwtCorrect :: "ports \<Rightarrow> bool" where
  "jwtCorrect p \<longleftrightarrow>
     (\<forall>secret c token. jwtSign p secret c = Some token \<longrightarrow>
        trimSpace token \<noteq> [] \<and>
        (\<forall>now issued expires. tcIssuedAt c = Some issued \<longrightarrow> tcExpiresAt c = Some expires \<longrightarrow>
           issued \<le> unixSeconds now \<longrightarrow> unixSeconds now < expires \<longrightarrow>
           jwtParse p secret (tcIssuer c) (tcAudience c) now token = Some c))"

definition uuidsCanonical :: "env \<Rightarrow> ports \<Rightarrow> bool" where
  "uuidsCanonical env p \<longleftrightarrow>
     (\<forall>s. validUUID s \<longrightarrow> uuidValidate p s) \<and> (\<forall>n i. e_uuid env n = Some i \<longrightarrow> validUUID i)"

subsection \<open>Lemmas\<close>

lemma verify_empty_hash [simp]: "\<not> verifyPassword p hasher password []"
  by (simp add: verifyPassword_def)

lemma generateHash_Inr [run_simps]:
  "generateHash p cost password w = (Inr h, w') \<longleftrightarrow>
     bcryptGenerate p (w_tick w) cost password = Some h \<and> w' = tick w"
  by (auto simp: generateHash_def split: option.splits)

lemma hashPassword_verifies:
  assumes "bcryptCorrect p" and "hashPassword p hasher password w = (Inr h, w')"
  shows "verifyPassword p hasher password h"
  using assms by (auto simp: hashPassword_def verifyPassword_def bcryptCorrect_def run_simps split: if_splits)

lemma validateSessionClaim_Inr:
  "validateSessionClaim claim = Inr u \<longleftrightarrow>
     validUUID (claimUserID claim) \<and> optionalValid validUUID (claimActiveTenantID claim)
     \<and> 1 \<le> claimSessionVersion claim"
  by (auto simp: validateSessionClaim_def)

lemma newTokenID_Inr [run_simps]:
  "newTokenID env w = (Inr i, w') \<longleftrightarrow> e_uuid env (w_tick w) = Some i \<and> w' = tick w"
  by (auto simp: newTokenID_def split: option.splits)

lemma IssueToken_Inr:
  assumes "IssueToken env p issuer claim w = (Inr token, w')"
  obtains tokenID c where
    "validateSessionClaim claim = Inr ()" "e_uuid env (Suc (w_tick w)) = Some tokenID"
    "c = \<lparr>tcTenantID = (case claimActiveTenantID claim of None \<Rightarrow> [] | Some t \<Rightarrow> t),
          tcVersion = claimSessionVersion claim, tcSubject = claimUserID claim,
          tcIssuer = issuerName issuer, tcAudience = issuerAudience issuer,
          tcExpiresAt = Some (unixSeconds (e_clock env (w_tick w) + issuerTTL issuer)),
          tcIssuedAt = Some (unixSeconds (e_clock env (w_tick w))), tcID = tokenID\<rparr>"
    "jwtSign p (issuerSecret issuer) c = Some token" "w' = tick (tick w)"
  using assms
  by (auto simp: IssueToken_def run_simps Let_def split: option.splits)

lemma IssueToken_db: "IssueToken env p issuer claim w = (r, w') \<Longrightarrow> w_db w' = w_db w"
  by (cases r)
    (auto simp: IssueToken_def run_simps Let_def newTokenID_def goNow_def andThen_def mapError_def liftSum_def
       ret_def fail_def split: option.splits sum.splits prod.splits)

lemma jwtCorrectD:
  "jwtCorrect p \<Longrightarrow> jwtSign p secret c = Some token \<Longrightarrow> tcIssuedAt c = Some issued \<Longrightarrow>
     tcExpiresAt c = Some expires \<Longrightarrow> issued \<le> unixSeconds now \<Longrightarrow> unixSeconds now < expires \<Longrightarrow>
     jwtParse p secret (tcIssuer c) (tcAudience c) now token = Some c"
  unfolding jwtCorrect_def by blast

text \<open>A token is accepted, and gives back the claim it was issued for, from the second it was issued in
  until its lifetime is over.\<close>

lemma issued_token_verifies:
  assumes lib: "jwtCorrect p" "uuidsCanonical env p"
    and issued: "IssueToken env p issuer claim w = (Inr token, w1)"
    and young: "unixSeconds (e_clock env (w_tick w)) \<le> unixSeconds (e_clock env (w_tick w2))"
      "unixSeconds (e_clock env (w_tick w2)) < unixSeconds (e_clock env (w_tick w) + issuerTTL issuer)"
  shows "VerifyToken env p issuer token w2 = (Inr claim, tick w2)"
proof -
  obtain tokenID c where *: "validateSessionClaim claim = Inr ()" "e_uuid env (Suc (w_tick w)) = Some tokenID"
    and c: "c = \<lparr>tcTenantID = (case claimActiveTenantID claim of None \<Rightarrow> [] | Some t \<Rightarrow> t),
          tcVersion = claimSessionVersion claim, tcSubject = claimUserID claim,
          tcIssuer = issuerName issuer, tcAudience = issuerAudience issuer,
          tcExpiresAt = Some (unixSeconds (e_clock env (w_tick w) + issuerTTL issuer)),
          tcIssuedAt = Some (unixSeconds (e_clock env (w_tick w))), tcID = tokenID\<rparr>"
    and sign: "jwtSign p (issuerSecret issuer) c = Some token"
    using issued by (rule IssueToken_Inr)
  have nonblank: "trimSpace token \<noteq> []" using lib(1) sign by (auto simp: jwtCorrect_def)
  have parse: "jwtParse p (issuerSecret issuer) (issuerName issuer) (issuerAudience issuer)
      (e_clock env (w_tick w2)) token = Some c"
    using jwtCorrectD[OF lib(1) sign, of _ _ "e_clock env (w_tick w2)"] young by (simp add: c)
  have ids: "validUUID (claimUserID claim)" "optionalValid validUUID (claimActiveTenantID claim)"
    "1 \<le> claimSessionVersion claim" "validUUID tokenID"
    using *(1,2) lib(2) by (auto simp: validateSessionClaim_Inr uuidsCanonical_def)
  have claims: "validSessionClaims p c"
    using ids lib(2) validUUID_nonempty
    by (auto simp: validSessionClaims_def c uuidsCanonical_def optionalValid_def split: option.splits)
  have "\<lparr>claimUserID = tcSubject c,
       claimActiveTenantID = (if tcTenantID c \<noteq> [] then Some (tcTenantID c) else None),
       claimSessionVersion = tcVersion c\<rparr> = claim"
    using ids(2) validUUID_nonempty
    by (cases claim) (auto simp: c optionalValid_def split: option.splits)
  then show ?thesis unfolding VerifyToken_def andThen_def goNow_def using nonblank parse claims
    by (simp add: ret_def)
qed

lemma unixSeconds_pgTime [simp]: "unixSeconds (pgTime t) = unixSeconds t"
proof -
  have "t div 1000 * 1000 div 1000000000 = t div 1000000000"
    using zdiv_zmult2_eq[of 1000000 t 1000] zdiv_zmult2_eq[of 1000000 "t div 1000 * 1000" 1000] by simp
  then show ?thesis by (simp add: unixSeconds_def pgTime_def nanosecondsPerSecond_def)
qed

text \<open>The token of an invitation depends on its identifier and the second it expires in, so the worker
  recomputes it from the stored row, whose expiry has been cut to microseconds.\<close>

lemma invitationToken_stored:
  assumes "invitationToken secret i = Inr token" and "1000 \<le> expiresAt i"
    and "invitationID j = invitationID i" and "expiresAt j = pgTime (expiresAt i)"
  shows "invitationToken secret j = Inr token"
proof -
  have "pgTime (expiresAt i) \<noteq> zeroTime"
  proof -
    have "1 \<le> expiresAt i div 1000" using assms(2) by simp
    then show ?thesis by (simp add: pgTime_def zeroTime_def)
  qed
  then show ?thesis using assms by (auto simp: invitationToken_def Let_def split: if_splits)
qed

lemma length_sextets: "length (sextets bs) = (length bs * 4 + 2) div 3"
  by (induction bs rule: sextets.induct) auto

lemma length_base64Encode: "length (base64Encode s) = (length s * 4 + 2) div 3"
  by (simp add: base64Encode_def length_sextets)

lemma length_invitationHash [simp]: "length (invitationHash token) = 43"
  by (simp add: invitationHash_def length_base64Encode)

lemma invitationHash_trim [simp]: "invitationHash (trimSpace token) = invitationHash token"
  by (simp add: invitationHash_def)

end
