(* ===== verification/GoTime.thy ===== *)
theory GoTime imports Domain begin

text \<open>
  The two functions of Go's package \<^verbatim>\<open>time\<close> that page cursors are written and read with: a UTC time as
  \<^verbatim>\<open>RFC3339Nano\<close>, and the parser of that layout. A \<open>time\<close> counts nanoseconds from the midnight that starts
  1 January of the year 1, Go's zero time. \<^verbatim>\<open>time.Parse\<close> tries the strict parser first, which is
  \<open>parseRFC3339\<close>; what its lenient parser makes of other strings is the parameter of \<open>parseTime\<close>.
\<close>

subsection \<open>The calendar\<close>

definition leapYear :: "int \<Rightarrow> bool" where
  "leapYear y \<longleftrightarrow> y mod 4 = 0 \<and> (y mod 100 \<noteq> 0 \<or> y mod 400 = 0)"

definition monthLengths :: "int \<Rightarrow> int list" where
  "monthLengths y = [31, if leapYear y then 29 else 28, 31, 30, 31, 30, 31, 31, 30, 31, 30, 31]"

definition daysIn :: "int \<Rightarrow> int \<Rightarrow> int" where
  "daysIn month year = monthLengths year ! nat (month - 1)"

text \<open>The days before a year, and a day number as its year and the day of that year (from 0).\<close>

definition daysBeforeYear :: "int \<Rightarrow> int" where
  "daysBeforeYear year = (let y = year - 1 in 365 * y + y div 4 - y div 100 + y div 400)"

definition yearAndDay :: "int \<Rightarrow> int \<times> int" where
  "yearAndDay days =
     (let a = days div 146097; d1 = days mod 146097;
          b = min 3 (d1 div 36524); d2 = d1 - 36524 * b;
          c = d2 div 1461; d3 = d2 mod 1461;
          e = min 3 (d3 div 365)
      in (400 * a + 100 * b + 4 * c + e + 1, d3 - 365 * e))"

fun monthAndDay :: "int list \<Rightarrow> int \<Rightarrow> int \<Rightarrow> int \<times> int" where
  "monthAndDay [] m d = (m, d + 1)"
| "monthAndDay (n # ns) m d = (if d < n then (m, d + 1) else monthAndDay ns (m + 1) (d - n))"

definition dateOf :: "int \<Rightarrow> int \<times> int \<times> int" where
  "dateOf days =
     (case yearAndDay days of (year, yday) \<Rightarrow>
        (case monthAndDay (monthLengths year) 1 yday of (month, day) \<Rightarrow> (year, month, day)))"

definition dayNumber :: "int \<Rightarrow> int \<Rightarrow> int \<Rightarrow> int" where
  "dayNumber year month day =
     daysBeforeYear year + sum_list (take (nat (month - 1)) (monthLengths year)) + (day - 1)"

subsection \<open>Numbers\<close>

fun digits :: "nat \<Rightarrow> nat \<Rightarrow> string" where
  "digits 0 n = []"
| "digits (Suc k) n = digits k (n div 10) @ [chr (48 + n mod 10)]"

definition isDigit :: "char \<Rightarrow> bool" where
  "isDigit c \<longleftrightarrow> 48 \<le> byte c \<and> byte c \<le> 57"

definition digitValue :: "nat \<Rightarrow> char \<Rightarrow> nat" where
  "digitValue x c = x * 10 + (byte c - 48)"

definition numberOf :: "string \<Rightarrow> nat" where
  "numberOf s = foldl digitValue 0 s"

definition parseUint :: "string \<Rightarrow> int \<Rightarrow> int \<Rightarrow> int option" where
  "parseUint s low high =
     (if list_all isDigit s \<and> low \<le> int (numberOf s) \<and> int (numberOf s) \<le> high
      then Some (int (numberOf s)) else None)"

subsection \<open>Writing and reading RFC 3339\<close>

definition fraction :: "nat \<Rightarrow> string" where
  "fraction ns =
     (let ds = rev (dropWhile (\<lambda>c. c = CHR ''0'') (rev (digits 9 ns))) in
      if ds = [] then [] else CHR ''.'' # ds)"

definition formatTime :: "time \<Rightarrow> string" where
  "formatTime t =
     (let secs = t div nanosecondsPerSecond; sod = secs mod 86400 in
      case dateOf (secs div 86400) of (year, month, day) \<Rightarrow>
        digits 4 (nat year) @ ''-'' @ digits 2 (nat month) @ ''-'' @ digits 2 (nat day) @ ''T''
        @ digits 2 (nat (sod div 3600)) @ '':'' @ digits 2 (nat (sod div 60 mod 60)) @ '':''
        @ digits 2 (nat (sod mod 60)) @ fraction (nat (t mod nanosecondsPerSecond)) @ ''Z'')"

text \<open>\<^verbatim>\<open>parseNanoseconds\<close>: the digits after the point, the first nine of them.\<close>

definition nanosOf :: "string \<Rightarrow> nat" where
  "nanosOf ds = (let ds' = take 9 ds in numberOf ds' * 10 ^ (9 - length ds'))"

definition parseFraction :: "string \<Rightarrow> nat \<times> string" where
  "parseFraction s =
     (case s of
        point # c # rest \<Rightarrow>
          if point = CHR ''.'' \<and> isDigit c then (nanosOf (takeWhile isDigit (c # rest)), dropWhile isDigit (c # rest)) else (0, s)
      | _ \<Rightarrow> (0, s))"

definition parseZone :: "string \<Rightarrow> int option" where
  "parseZone s =
     (if s = ''Z'' then Some 0
      else case s of
        [g, a, b, c, d, e] \<Rightarrow>
          (case (parseUint [a, b] 0 23, parseUint [d, e] 0 59) of
             (Some hr, Some mm) \<Rightarrow>
               if (g = CHR ''-'' \<or> g = CHR ''+'') \<and> c = CHR '':''
               then Some ((if g = CHR ''-'' then -1 else 1) * (hr * 60 + mm) * 60) else None
           | _ \<Rightarrow> None)
      | _ \<Rightarrow> None)"

definition parseRFC3339 :: "string \<Rightarrow> time option" where
  "parseRFC3339 s =
     (if length s < 19 then None
      else case parseUint (take 4 s) 0 9999 of None \<Rightarrow> None | Some year \<Rightarrow>
      (case parseUint (take 2 (drop 5 s)) 1 12 of None \<Rightarrow> None | Some month \<Rightarrow>
      (case parseUint (take 2 (drop 8 s)) 1 (daysIn month year) of None \<Rightarrow> None | Some day \<Rightarrow>
      (case parseUint (take 2 (drop 11 s)) 0 23 of None \<Rightarrow> None | Some hour \<Rightarrow>
      (case parseUint (take 2 (drop 14 s)) 0 59 of None \<Rightarrow> None | Some minute \<Rightarrow>
      (case parseUint (take 2 (drop 17 s)) 0 59 of None \<Rightarrow> None | Some second \<Rightarrow>
      if s ! 4 \<noteq> CHR ''-'' \<or> s ! 7 \<noteq> CHR ''-'' \<or> s ! 10 \<noteq> CHR ''T'' \<or> s ! 13 \<noteq> CHR '':'' \<or> s ! 16 \<noteq> CHR '':''
      then None
      else case parseFraction (drop 19 s) of (nanos, zone) \<Rightarrow>
        (case parseZone zone of
           None \<Rightarrow> None
         | Some offset \<Rightarrow>
             Some ((dayNumber year month day * 86400 + hour * 3600 + minute * 60 + second - offset)
                   * nanosecondsPerSecond + int nanos))))))))"

definition parseTime :: "(string \<Rightarrow> time option) \<Rightarrow> string \<Rightarrow> time option" where
  "parseTime lenient s = (case parseRFC3339 s of Some t \<Rightarrow> Some t | None \<Rightarrow> lenient s)"

subsection \<open>The calendar is right\<close>

lemma yearAndDay_inverse:
  assumes "yearAndDay days = (year, yday)"
  shows "daysBeforeYear year + yday = days" "0 \<le> yday" "yday < (if leapYear year then 366 else 365)"
proof -
  define a where "a = days div 146097"
  define d1 where "d1 = days mod 146097"
  define b where "b = min 3 (d1 div 36524)"
  define d2 where "d2 = d1 - 36524 * b"
  define c where "c = d2 div 1461"
  define d3 where "d3 = d2 mod 1461"
  define e where "e = min 3 (d3 div 365)"
  have "yearAndDay days = (400 * a + 100 * b + 4 * c + e + 1, d3 - 365 * e)"
    unfolding yearAndDay_def Let_def a_def d1_def b_def d2_def c_def d3_def e_def by (rule refl)
  then have eq: "year = 400 * a + 100 * b + 4 * c + e + 1" "yday = d3 - 365 * e"
    using assms by simp_all
  have a: "days = 146097 * a + d1" "0 \<le> d1" "d1 < 146097" by (simp_all add: a_def d1_def)
  have b: "0 \<le> b" "b \<le> 3" "0 \<le> d2" "b < 3 \<Longrightarrow> d2 < 36524" "d2 \<le> 36524"
    using a by (auto simp: b_def d2_def min_def)
  have c: "d2 = 1461 * c + d3" "0 \<le> c" "c \<le> 24" "0 \<le> d3" "d3 < 1461" using b by (auto simp: c_def d3_def)
  have e: "0 \<le> e" "e \<le> 3" "0 \<le> yday" "e < 3 \<Longrightarrow> yday < 365" "yday \<le> 365"
    using c unfolding eq(2) by (auto simp: e_def min_def)
  have y: "year - 1 = 4 * (100 * a + 25 * b + c) + e" "year - 1 = 100 * (4 * a + b) + (4 * c + e)"
    "year - 1 = 400 * a + (100 * b + 4 * c + e)" using eq(1) by simp_all
  have div: "(year - 1) div 4 = 100 * a + 25 * b + c" "(year - 1) div 100 = 4 * a + b" "(year - 1) div 400 = a"
    subgoal unfolding y(1) using e by simp
    subgoal unfolding y(2) using e c by (simp add: div_pos_pos_trivial)
    subgoal
    proof -
      have "0 \<le> 100 * b + 4 * c + e" "100 * b + 4 * c + e < 400" using e(1,2) b(1,2) c(2,3) by linarith+
      then show ?thesis unfolding y(3) by (simp add: div_pos_pos_trivial)
    qed
    done
  show "daysBeforeYear year + yday = days"
    unfolding daysBeforeYear_def Let_def div using eq a(1) c(1) d2_def by simp
  show "0 \<le> yday" by (rule e(3))
  have leap: "leapYear year" if "yday = 365"
  proof -
    have "e = 3" using that e(2,4) by linarith
    then have y4: "year = 4 * (100 * a + 25 * b + c + 1)" and "d3 = 1460" using that eq by auto
    have mod: "year mod 100 = 4 * (c + 1)" if "c \<noteq> 24"
    proof -
      have "year = 4 * (c + 1) + 100 * (4 * a + b)" using y4 by simp
      then have "year mod 100 = 4 * (c + 1) mod 100" by (metis mod_mult_self2)
      also have "\<dots> = 4 * (c + 1)"
      proof (rule mod_pos_pos_trivial)
        have "c < 24" using that c(3) by simp
        then show "0 \<le> 4 * (c + 1)" "4 * (c + 1) < 100" using c(2) by simp_all
      qed
      finally show ?thesis .
    qed
    have "b = 3 \<or> c \<noteq> 24" using b(4) b(2) c(1) \<open>d3 = 1460\<close> by (cases "b = 3") auto
    then show ?thesis
    proof
      assume "c \<noteq> 24"
      then have "year mod 100 = 4 * (c + 1)" by (rule mod)
      then show ?thesis using y4 c \<open>c \<noteq> 24\<close> by (simp add: leapYear_def)
    next
      assume "b = 3"
      show ?thesis
      proof (cases "c = 24")
        case True
        then have "year = 400 * (a + 1)" using y4 \<open>b = 3\<close> by simp
        then show ?thesis by (simp add: leapYear_def)
      next
        case False
        then have "year mod 100 = 4 * (c + 1)" by (rule mod)
        then show ?thesis using y4 c False by (simp add: leapYear_def)
      qed
    qed
  qed
  show "yday < (if leapYear year then 366 else 365)"
    using leap e by (cases "yday = 365") auto
qed

lemma monthAndDay_inverse:
  assumes "monthAndDay ns m d = (month, day)" and "0 \<le> d" and "d < sum_list ns" and "\<forall>n \<in> set ns. 0 < n"
  shows "m \<le> month \<and> nat (month - m) < length ns \<and> sum_list (take (nat (month - m)) ns) + (day - 1) = d
     \<and> 1 \<le> day \<and> day \<le> ns ! nat (month - m)"
  using assms
proof (induction ns m d rule: monthAndDay.induct)
  case (2 n ns m d)
  show ?case
  proof (cases "d < n")
    case True
    then show ?thesis using 2 by auto
  next
    case False
    then have ih: "m + 1 \<le> month \<and> nat (month - (m + 1)) < length ns
        \<and> sum_list (take (nat (month - (m + 1))) ns) + (day - 1) = d - n
        \<and> 1 \<le> day \<and> day \<le> ns ! nat (month - (m + 1))"
      using 2 by auto
    moreover from this have "nat (month - m) = Suc (nat (month - (m + 1)))" by linarith
    ultimately show ?thesis by auto
  qed
qed auto

lemma sum_monthLengths: "sum_list (monthLengths y) = (if leapYear y then 366 else 365)"
  by (simp add: monthLengths_def)

lemma dateOf_inverse:
  assumes "dateOf days = (year, month, day)"
  shows "dayNumber year month day = days" "1 \<le> month" "month \<le> 12" "1 \<le> day" "day \<le> daysIn month year" "day \<le> 31"
proof -
  obtain yday where y: "yearAndDay days = (year, yday)"
    and m: "monthAndDay (monthLengths year) 1 yday = (month, day)"
    using assms by (auto simp: dateOf_def split: prod.splits)
  note yd = yearAndDay_inverse[OF y]
  have pos: "\<forall>n \<in> set (monthLengths year). 0 < n" by (auto simp: monthLengths_def)
  have md: "1 \<le> month \<and> nat (month - 1) < length (monthLengths year)
     \<and> sum_list (take (nat (month - 1)) (monthLengths year)) + (day - 1) = yday
     \<and> 1 \<le> day \<and> day \<le> monthLengths year ! nat (month - 1)"
    by (rule monthAndDay_inverse[OF m yd(2) _ pos]) (use yd(3) in \<open>simp add: sum_monthLengths\<close>)
  have len: "length (monthLengths year) = 12" by (simp add: monthLengths_def)
  show "dayNumber year month day = days" using md yd(1) by (simp add: dayNumber_def)
  show "1 \<le> month" "1 \<le> day" "day \<le> daysIn month year" using md by (simp_all add: daysIn_def)
  have "nat (month - 1) < 12" using md len by metis
  then show "month \<le> 12" by linarith
  have "monthLengths year ! nat (month - 1) \<in> set (monthLengths year)" using md by simp
  then show "day \<le> 31" using md by (auto simp: monthLengths_def split: if_splits)
qed

subsection \<open>Numbers read back\<close>

lemma length_digits [simp]: "length (digits k n) = k"
  by (induction k arbitrary: n) auto

lemma isDigit_digits [simp]: "list_all isDigit (digits k n)"
proof (induction k arbitrary: n)
  case (Suc k)
  have "byte (chr (48 + n mod 10)) = 48 + n mod 10" by (rule byte_chr) (simp add: less_imp_le_nat trans_less_add2)
  then show ?case using Suc by (simp add: isDigit_def)
qed simp

lemma numberOf_snoc: "numberOf (s @ [c]) = numberOf s * 10 + (byte c - 48)"
  by (simp add: numberOf_def digitValue_def)

lemma numberOf_Nil [simp]: "numberOf [] = 0"
  by (simp add: numberOf_def)

lemma numberOf_digits: "n < 10 ^ k \<Longrightarrow> numberOf (digits k n) = n"
proof (induction k arbitrary: n)
  case (Suc k)
  have "byte (chr (48 + n mod 10)) = 48 + n mod 10" by (rule byte_chr) (simp add: less_imp_le_nat trans_less_add2)
  moreover have "numberOf (digits k (n div 10)) = n div 10" by (rule Suc.IH) (use Suc.prems in \<open>simp add: less_mult_imp_div_less mult.commute\<close>)
  ultimately show ?case by (simp add: numberOf_snoc)
qed simp

lemma parseUint_digits:
  assumes "0 \<le> x" and "x < 10 ^ k" and "low \<le> x" and "x \<le> high"
  shows "parseUint (digits k (nat x)) low high = Some x"
proof -
  have "nat x < 10 ^ k" using assms(1,2) by (simp add: nat_less_iff)
  then show ?thesis using assms by (simp add: parseUint_def numberOf_digits)
qed

lemma twoDigits: "0 \<le> x \<Longrightarrow> x \<le> 99 \<Longrightarrow> low \<le> x \<Longrightarrow> x \<le> high \<Longrightarrow> parseUint (digits 2 (nat x)) low high = Some x"
  by (rule parseUint_digits) simp_all

lemma fourDigits: "0 \<le> x \<Longrightarrow> x \<le> 9999 \<Longrightarrow> low \<le> x \<Longrightarrow> x \<le> high \<Longrightarrow> parseUint (digits 4 (nat x)) low high = Some x"
  by (rule parseUint_digits) simp_all

lemma numberOf_zeros: "numberOf (s @ replicate k (CHR ''0'')) = numberOf s * 10 ^ k"
proof (induction k)
  case (Suc k)
  have "s @ replicate (Suc k) (CHR ''0'') = (s @ replicate k (CHR ''0'')) @ [CHR ''0'']"
    by (simp add: replicate_append_same)
  then show ?case using Suc by (simp only: numberOf_snoc) (simp add: byte_def)
qed simp

subsection \<open>The round trip\<close>

lemma drop_zeros:
  "\<exists>k. ds = rev (dropWhile (\<lambda>c. c = CHR ''0'') (rev ds)) @ replicate k (CHR ''0'')"
proof -
  let ?z = "takeWhile (\<lambda>c. c = CHR ''0'') (rev ds)"
  have "?z = replicate (length ?z) (CHR ''0'')"
    by (rule replicate_length_same[symmetric]) (auto dest: set_takeWhileD)
  then have "rev ?z = replicate (length ?z) (CHR ''0'')" by (metis rev_replicate)
  moreover have "ds = rev (dropWhile (\<lambda>c. c = CHR ''0'') (rev ds)) @ rev ?z"
    by (metis rev_append rev_rev_ident takeWhile_dropWhile_id)
  ultimately show ?thesis by metis
qed

lemma takeWhile_stop:
  assumes "list_all P ds" and "rest = [] \<or> \<not> P (hd rest)"
  shows "takeWhile P (ds @ rest) = ds \<and> dropWhile P (ds @ rest) = rest"
  using assms by (induction ds) (cases rest; auto)+

lemma parseFraction_point:
  "isDigit c \<Longrightarrow> parseFraction (CHR ''.'' # c # s) = (nanosOf (takeWhile isDigit (c # s)), dropWhile isDigit (c # s))"
  by (simp add: parseFraction_def)

lemma parseFraction_fraction:
  assumes "ns < 10 ^ 9" and "rest = [] \<or> \<not> isDigit (hd rest)" and "rest = [] \<or> hd rest \<noteq> CHR ''.''"
  shows "parseFraction (fraction ns @ rest) = (ns, rest)"
proof -
  let ?ds = "rev (dropWhile (\<lambda>c. c = CHR ''0'') (rev (digits 9 ns)))"
  obtain k where split: "digits 9 ns = ?ds @ replicate k (CHR ''0'')" using drop_zeros by blast
  then have len: "length ?ds + k = 9" by (metis length_append length_digits length_replicate)
  have dig: "list_all isDigit ?ds" using split isDigit_digits[of 9 ns] by (metis list_all_append)
  have num: "numberOf ?ds * 10 ^ k = ns" using numberOf_zeros[of ?ds k] numberOf_digits[OF assms(1)] split by metis
  show ?thesis
  proof (cases ?ds)
    case Nil
    then have "ns = 0" using num numberOf_Nil by (metis mult_0)
    have "parseFraction rest = (0, rest)"
      using assms(3) by (auto simp: parseFraction_def split: list.splits char.splits)
    then show ?thesis using Nil \<open>ns = 0\<close> by (simp add: fraction_def)
  next
    case (Cons c cs)
    have take: "takeWhile isDigit (?ds @ rest) = ?ds" "dropWhile isDigit (?ds @ rest) = rest"
      using takeWhile_stop[OF dig assms(2)] by blast+
    have "nanosOf ?ds = ns" using len num by (simp add: nanosOf_def Let_def) (metis diff_add_inverse)
    moreover have f: "fraction ns @ rest = CHR ''.'' # c # (cs @ rest)" using Cons by (simp add: fraction_def Let_def)
    moreover have "isDigit c" using dig Cons by simp
    moreover have cs: "c # (cs @ rest) = ?ds @ rest" using Cons by simp
    moreover have "parseFraction (CHR ''.'' # c # (cs @ rest)) = (nanosOf ?ds, rest)"
      using parseFraction_point[OF \<open>isDigit c\<close>, of "cs @ rest"] unfolding cs take .
    ultimately show ?thesis by metis
  qed
qed

text \<open>The times whose year has four digits.\<close>

definition fourDigitYear :: "time \<Rightarrow> bool" where
  "fourDigitYear t \<longleftrightarrow> 0 \<le> fst (dateOf (t div nanosecondsPerDay)) \<and> fst (dateOf (t div nanosecondsPerDay)) \<le> 9999"

lemma splitTime:
  fixes t :: time
  defines "secs \<equiv> t div nanosecondsPerSecond"
  defines "sod \<equiv> secs mod 86400"
  shows "t = (secs div 86400 * 86400 + sod div 3600 * 3600 + sod div 60 mod 60 * 60 + sod mod 60)
             * nanosecondsPerSecond + t mod nanosecondsPerSecond"
    and "0 \<le> sod div 3600" "sod div 3600 \<le> 23" "0 \<le> sod div 60 mod 60" "sod div 60 mod 60 \<le> 59"
    "0 \<le> sod mod 60" "sod mod 60 \<le> 59"
    "secs div 86400 = t div nanosecondsPerDay"
proof -
  have "sod div 60 div 60 = sod div 3600" using zdiv_zmult2_eq[of 60 sod 60] by simp
  then have "sod = sod div 3600 * 3600 + sod div 60 mod 60 * 60 + sod mod 60" by presburger
  moreover have "secs = secs div 86400 * 86400 + sod" by (simp add: sod_def)
  moreover have "t = secs * nanosecondsPerSecond + t mod nanosecondsPerSecond" by (simp add: secs_def)
  ultimately show "t = (secs div 86400 * 86400 + sod div 3600 * 3600 + sod div 60 mod 60 * 60 + sod mod 60)
             * nanosecondsPerSecond + t mod nanosecondsPerSecond" by (metis add.assoc)
  have "0 \<le> sod" "sod < 86400" by (simp_all add: sod_def)
  then show "0 \<le> sod div 3600" "sod div 3600 \<le> 23" by simp_all
  show "0 \<le> sod div 60 mod 60" "sod div 60 mod 60 \<le> 59" "0 \<le> sod mod 60" "sod mod 60 \<le> 59" by simp_all
  show "secs div 86400 = t div nanosecondsPerDay"
    unfolding secs_def nanosecondsPerDay_def nanosecondsPerSecond_def
    using zdiv_zmult2_eq[of 86400 t 1000000000] by simp
qed

lemma timeLayout:
  assumes "length y = 4" and "length mo = 2" and "length d = 2" and "length h = 2" and "length mi = 2" and "length se = 2"
    and "s = y @ ''-'' @ mo @ ''-'' @ d @ ''T'' @ h @ '':'' @ mi @ '':'' @ se @ rest"
  shows "take 4 s = y" "take 2 (drop 5 s) = mo" "take 2 (drop 8 s) = d" "take 2 (drop 11 s) = h"
    "take 2 (drop 14 s) = mi" "take 2 (drop 17 s) = se" "drop 19 s = rest" "19 \<le> length s"
    "s ! 4 = CHR ''-''" "s ! 7 = CHR ''-''" "s ! 10 = CHR ''T''" "s ! 13 = CHR '':''" "s ! 16 = CHR '':''"
proof -
  obtain y1 y2 y3 y4 mo1 mo2 d1 d2 h1 h2 mi1 mi2 se1 se2 where
    "y = [y1, y2, y3, y4]" "mo = [mo1, mo2]" "d = [d1, d2]" "h = [h1, h2]" "mi = [mi1, mi2]" "se = [se1, se2]"
    using assms(1-6) by (auto simp: numeral_eq_Suc length_Suc_conv)
  then have s: "s = [y1, y2, y3, y4, CHR ''-'', mo1, mo2, CHR ''-'', d1, d2, CHR ''T'', h1, h2, CHR '':'', mi1, mi2,
      CHR '':'', se1, se2] @ rest" using assms(7) by simp
  show "take 4 s = y" "take 2 (drop 5 s) = mo" "take 2 (drop 8 s) = d" "take 2 (drop 11 s) = h"
    "take 2 (drop 14 s) = mi" "take 2 (drop 17 s) = se" "drop 19 s = rest" "19 \<le> length s"
    "s ! 4 = CHR ''-''" "s ! 7 = CHR ''-''" "s ! 10 = CHR ''T''" "s ! 13 = CHR '':''" "s ! 16 = CHR '':''"
    unfolding s \<open>y = _\<close> \<open>mo = _\<close> \<open>d = _\<close> \<open>h = _\<close> \<open>mi = _\<close> \<open>se = _\<close> by simp_all
qed

lemma parse_formatTime [simp]:
  assumes "fourDigitYear t"
  shows "parseRFC3339 (formatTime t) = Some t"
proof -
  let ?secs = "t div nanosecondsPerSecond"
  let ?sod = "?secs mod 86400"
  let ?ns = "nat (t mod nanosecondsPerSecond)"
  obtain year month day where date: "dateOf (?secs div 86400) = (year, month, day)" by (metis prod_cases3)
  note d = dateOf_inverse[OF date] and t = splitTime[of t]
  have year: "0 \<le> year" "year \<le> 9999" using assms date by (simp_all add: fourDigitYear_def t(8)[symmetric])
  have ns: "?ns < 10 ^ 9" "int ?ns = t mod nanosecondsPerSecond"
    by (simp_all add: nanosecondsPerSecond_def nat_less_iff)
  have p: "parseUint (digits 4 (nat year)) 0 9999 = Some year" "parseUint (digits 2 (nat month)) 1 12 = Some month"
    "parseUint (digits 2 (nat day)) 1 (daysIn month year) = Some day"
    "parseUint (digits 2 (nat (?sod div 3600))) 0 23 = Some (?sod div 3600)"
    "parseUint (digits 2 (nat (?sod div 60 mod 60))) 0 59 = Some (?sod div 60 mod 60)"
    "parseUint (digits 2 (nat (?sod mod 60))) 0 59 = Some (?sod mod 60)"
    by (rule fourDigits twoDigits; use year d t(2-7) in linarith)+
  have f: "parseFraction (fraction ?ns @ ''Z'') = (?ns, ''Z'')"
    by (rule parseFraction_fraction[OF ns(1)]) (simp_all add: isDigit_def byte_def)
  let ?s = "formatTime t"
  have s: "?s = digits 4 (nat year) @ ''-'' @ digits 2 (nat month) @ ''-'' @ digits 2 (nat day) @ ''T''
        @ digits 2 (nat (?sod div 3600)) @ '':'' @ digits 2 (nat (?sod div 60 mod 60)) @ '':''
        @ digits 2 (nat (?sod mod 60)) @ fraction ?ns @ ''Z''"
    by (simp add: formatTime_def Let_def date)
  note cuts = timeLayout[OF length_digits length_digits length_digits length_digits length_digits length_digits s]
  have zone: "parseZone ''Z'' = Some 0" by (simp add: parseZone_def)
  have "parseRFC3339 ?s = Some ((dayNumber year month day * 86400 + ?sod div 3600 * 3600 + ?sod div 60 mod 60 * 60
      + ?sod mod 60 - 0) * nanosecondsPerSecond + int ?ns)"
    unfolding parseRFC3339_def cuts p option.case f prod.case zone using cuts(8) by simp
  then show ?thesis unfolding d(1) ns(2) diff_0_right t(1)[symmetric] .
qed

end
