(* ===== verification/GoJson.thy ===== *)
theory GoJson imports GoStrings begin

text \<open>
  The part of Go's package \<^verbatim>\<open>encoding/json\<close> that page cursors use: \<^verbatim>\<open>json.Marshal\<close> of strings, numbers,
  booleans, arrays and flat structs, and the parser behind \<^verbatim>\<open>json.Unmarshal\<close>, which reads any JSON value. Strings
  are escaped as Go escapes them (with HTML escaping on), bytes that are not UTF-8 become U+FFFD, and
  values nest at most 10000 deep. The parser's fuel is twice the length of the input, which is more than
  the number of its calls.
\<close>

datatype json =
    JNull | JBool bool | JNumber string | JString string | JArray "json list" | JObject "(string \<times> json) list"

abbreviation "quote \<equiv> CHR 0x22"
abbreviation "backslash \<equiv> CHR 0x5C"

subsection \<open>Writing\<close>

definition hexDigit :: "nat \<Rightarrow> char" where
  "hexDigit n = (if n < 10 then chr (48 + n) else chr (87 + n))"

definition hex4 :: "nat \<Rightarrow> string" where
  "hex4 n = [hexDigit (n div 4096 mod 16), hexDigit (n div 256 mod 16), hexDigit (n div 16 mod 16), hexDigit (n mod 16)]"

definition jsonRune :: "nat option \<times> string \<Rightarrow> string" where
  "jsonRune p =
     (case fst p of
        None \<Rightarrow> [backslash, CHR ''u''] @ hex4 runeError
      | Some r \<Rightarrow>
          if r = 34 \<or> r = 92 then [backslash, chr r]
          else if r = 8 then [backslash, CHR ''b'']
          else if r = 12 then [backslash, CHR ''f'']
          else if r = 10 then [backslash, CHR ''n'']
          else if r = 13 then [backslash, CHR ''r'']
          else if r = 9 then [backslash, CHR ''t'']
          else if r < 32 \<or> r = 60 \<or> r = 62 \<or> r = 38 \<or> r = 8232 \<or> r = 8233
          then [backslash, CHR ''u''] @ hex4 r
          else snd p)"

definition jsonText :: "string \<Rightarrow> string" where
  "jsonText s = [quote] @ concat (map jsonRune (runes s)) @ [quote]"

fun joinWith :: "string \<Rightarrow> string list \<Rightarrow> string" where
  "joinWith sep [] = []"
| "joinWith sep [s] = s"
| "joinWith sep (s # ss) = s @ sep @ joinWith sep ss"

fun writeJson :: "json \<Rightarrow> string" where
  "writeJson JNull = ''null''"
| "writeJson (JBool b) = (if b then ''true'' else ''false'')"
| "writeJson (JNumber lit) = lit"
| "writeJson (JString s) = jsonText s"
| "writeJson (JArray vs) = ''['' @ joinWith '','' (map writeJson vs) @ '']''"
| "writeJson (JObject ms) = ''{'' @ joinWith '','' (map (\<lambda>(k, v). jsonText k @ '':'' @ writeJson v) ms) @ ''}''"

subsection \<open>Reading strings\<close>

definition hexValue :: "char \<Rightarrow> nat option" where
  "hexValue c =
     (let b = byte c in
      if 48 \<le> b \<and> b \<le> 57 then Some (b - 48) else if 97 \<le> b \<and> b \<le> 102 then Some (b - 87)
      else if 65 \<le> b \<and> b \<le> 70 then Some (b - 55) else None)"

definition readHex4 :: "string \<Rightarrow> nat option" where
  "readHex4 s =
     (case s of
        a # b # c # d # _ \<Rightarrow>
          (case (hexValue a, hexValue b, hexValue c, hexValue d) of
             (Some x, Some y, Some z, Some u) \<Rightarrow> Some (((x * 16 + y) * 16 + z) * 16 + u)
           | _ \<Rightarrow> None)
      | _ \<Rightarrow> None)"

definition simpleEscape :: "char \<Rightarrow> char option" where
  "simpleEscape c =
     (if c = quote \<or> c = backslash \<or> c = CHR ''/'' then Some c
      else if c = CHR ''b'' then Some (chr 8) else if c = CHR ''f'' then Some (chr 12)
      else if c = CHR ''n'' then Some (chr 10) else if c = CHR ''r'' then Some (chr 13)
      else if c = CHR ''t'' then Some (chr 9) else None)"

text \<open>The second half of a surrogate pair, when it follows.\<close>

definition lowSurrogate :: "nat \<Rightarrow> string \<Rightarrow> nat option" where
  "lowSurrogate x s =
     (if x < 56320 \<and> take 2 s = [backslash, CHR ''u''] then
        (case readHex4 (drop 2 s) of
           Some y \<Rightarrow> if 56320 \<le> y \<and> y \<le> 57343 then Some ((x - 55296) * 1024 + (y - 56320) + 65536) else None
         | None \<Rightarrow> None)
      else None)"

definition prepend :: "string \<Rightarrow> (string \<times> 'a) option \<Rightarrow> (string \<times> 'a) option" where
  "prepend p q = (case q of None \<Rightarrow> None | Some (s, x) \<Rightarrow> Some (p @ s, x))"

text \<open>The string after its opening quote: its value and what follows the closing quote.\<close>

function unquote :: "string \<Rightarrow> (string \<times> string) option" where
  "unquote [] = None"
| "unquote (a # s) =
     (if a = quote then Some ([], s)
      else if a = backslash then
        (if s = [] then None
         else case simpleEscape (hd s) of
           Some c \<Rightarrow> prepend [c] (unquote (tl s))
         | None \<Rightarrow>
             if hd s \<noteq> CHR ''u'' then None
             else case readHex4 (tl s) of
               None \<Rightarrow> None
             | Some x \<Rightarrow>
                 if 55296 \<le> x \<and> x \<le> 57343 then
                   (case lowSurrogate x (drop 5 s) of
                      Some r \<Rightarrow> prepend (encodeRune r) (unquote (drop 11 s))
                    | None \<Rightarrow> prepend (encodeRune runeError) (unquote (drop 5 s)))
                 else prepend (encodeRune x) (unquote (drop 5 s)))
      else if byte a < 32 then None
      else case fst (nextRune (a # s)) of
        None \<Rightarrow> prepend (encodeRune runeError) (unquote s)
      | Some r \<Rightarrow> prepend (take (snd (nextRune (a # s))) (a # s)) (unquote (drop (snd (nextRune (a # s))) (a # s))))"
  by pat_completeness auto
termination
  by (relation "measure length") (use nextRune_width in \<open>auto simp del: nextRune.simps simp: diff_less_Suc\<close>)

declare unquote.simps(2) [simp del]

subsection \<open>Reading values\<close>

definition skipSpace :: "string \<Rightarrow> string" where
  "skipSpace s = dropWhile (\<lambda>c. byte c = 32 \<or> byte c = 9 \<or> byte c = 10 \<or> byte c = 13) s"

definition digit :: "char \<Rightarrow> bool" where
  "digit c \<longleftrightarrow> 48 \<le> byte c \<and> byte c \<le> 57"

text \<open>The number at the front: an integer part without leading zeros, a fraction and an exponent.\<close>

definition readDigits :: "string \<Rightarrow> (string \<times> string) option" where
  "readDigits s = (let ds = takeWhile digit s in if ds = [] then None else Some (ds, dropWhile digit s))"

definition readFraction :: "string \<Rightarrow> (string \<times> string) option" where
  "readFraction s =
     (if take 1 s = ''.'' then prepend ''.'' (readDigits (drop 1 s)) else Some ([], s))"

definition readExponent :: "string \<Rightarrow> (string \<times> string) option" where
  "readExponent s =
     (if take 1 s = ''e'' \<or> take 1 s = ''E'' then
        (let t = drop 1 s in
         if take 1 t = ''+'' \<or> take 1 t = ''-'' then prepend (take 1 s @ take 1 t) (readDigits (drop 1 t))
         else prepend (take 1 s) (readDigits t))
      else Some ([], s))"

definition readNumber :: "string \<Rightarrow> (string \<times> string) option" where
  "readNumber s =
     (let sign = (if take 1 s = ''-'' then ''-'' else []); s1 = drop (length sign) s in
      case (if take 1 s1 = ''0'' then Some (''0'', drop 1 s1) else readDigits s1) of
        None \<Rightarrow> None
      | Some (whole, s2) \<Rightarrow>
          (case readFraction s2 of
             None \<Rightarrow> None
           | Some (frac, s3) \<Rightarrow>
               (case readExponent s3 of
                  None \<Rightarrow> None
                | Some (expo, s4) \<Rightarrow> Some (sign @ whole @ frac @ expo, s4))))"

fun readValue :: "nat \<Rightarrow> nat \<Rightarrow> string \<Rightarrow> (json \<times> string) option"
  and readElements :: "nat \<Rightarrow> nat \<Rightarrow> string \<Rightarrow> (json list \<times> string) option"
  and readMembers :: "nat \<Rightarrow> nat \<Rightarrow> string \<Rightarrow> ((string \<times> json) list \<times> string) option" where
  "readValue 0 depth s = None"
| "readValue (Suc fuel) depth s =
     (case skipSpace s of
        [] \<Rightarrow> None
      | c # r \<Rightarrow>
          if c = quote then map_option (\<lambda>(v, r'). (JString v, r')) (unquote r)
          else if c = CHR ''['' then
            (if depth = 0 then None
             else if take 1 (skipSpace r) = '']'' then Some (JArray [], drop 1 (skipSpace r))
             else map_option (\<lambda>(vs, r'). (JArray vs, r')) (readElements fuel (depth - 1) r))
          else if c = CHR ''{'' then
            (if depth = 0 then None
             else if take 1 (skipSpace r) = ''}'' then Some (JObject [], drop 1 (skipSpace r))
             else map_option (\<lambda>(ms, r'). (JObject ms, r')) (readMembers fuel (depth - 1) r))
          else if hasPrefix (c # r) ''null'' then Some (JNull, drop 3 r)
          else if hasPrefix (c # r) ''true'' then Some (JBool True, drop 3 r)
          else if hasPrefix (c # r) ''false'' then Some (JBool False, drop 4 r)
          else map_option (\<lambda>(lit, r'). (JNumber lit, r')) (readNumber (c # r)))"
| "readElements 0 depth s = None"
| "readElements (Suc fuel) depth s =
     (case readValue fuel depth s of
        None \<Rightarrow> None
      | Some (v, r) \<Rightarrow>
          (let r' = skipSpace r in
           if take 1 r' = '','' then map_option (\<lambda>(vs, t). (v # vs, t)) (readElements fuel depth (drop 1 r'))
           else if take 1 r' = '']'' then Some ([v], drop 1 r') else None))"
| "readMembers 0 depth s = None"
| "readMembers (Suc fuel) depth s =
     (if take 1 (skipSpace s) \<noteq> [quote] then None
      else case unquote (drop 1 (skipSpace s)) of
        None \<Rightarrow> None
      | Some (k, r) \<Rightarrow>
          if take 1 (skipSpace r) \<noteq> '':'' then None
          else case readValue fuel depth (drop 1 (skipSpace r)) of
            None \<Rightarrow> None
          | Some (v, r1) \<Rightarrow>
              (let r' = skipSpace r1 in
               if take 1 r' = '','' then map_option (\<lambda>(ms, t). ((k, v) # ms, t)) (readMembers fuel depth (drop 1 r'))
               else if take 1 r' = ''}'' then Some ([(k, v)], drop 1 r') else None))"

definition maxNestingDepth :: nat where "maxNestingDepth = 10000"

definition parseJson :: "string \<Rightarrow> json option" where
  "parseJson s =
     (case readValue (2 * length s + 2) maxNestingDepth s of
        Some (v, r) \<Rightarrow> if skipSpace r = [] then Some v else None
      | None \<Rightarrow> None)"

subsection \<open>A written string reads back\<close>

lemma prepend_simps [simp]: "prepend p None = None" "prepend p (Some (s, x)) = Some (p @ s, x)"
  by (simp_all add: prepend_def)

lemma hexValue_digit: "n < 16 \<Longrightarrow> hexValue (hexDigit n) = Some n"
  by (auto simp: hexDigit_def hexValue_def Let_def byte_chr)

lemma readHex4_hex4:
  assumes "n < 65536"
  shows "readHex4 (hex4 n @ s) = Some n"
proof -
  have "((n div 4096 mod 16 * 16 + n div 256 mod 16) * 16 + n div 16 mod 16) * 16 + n mod 16 = n"
  proof -
    have "n div 16 div 16 = n div 256" "n div 256 div 16 = n div 4096"
      using div_mult2_eq[of n 16 16] div_mult2_eq[of n 256 16] by simp_all
    then have "n div 256 = n div 4096 * 16 + n div 256 mod 16" "n div 16 = n div 256 * 16 + n div 16 mod 16"
      by (metis div_mult_mod_eq)+
    moreover have "n div 4096 mod 16 = n div 4096" using assms by simp
    moreover have "n = n div 16 * 16 + n mod 16" by simp
    ultimately show ?thesis by metis
  qed
  then show ?thesis by (simp add: readHex4_def hex4_def hexValue_digit) (use assms in simp)
qed

lemma length_hex4 [simp]: "length (hex4 n) = 4"
  by (simp add: hex4_def)

lemma bytes_quote: "byte quote = 34" "byte backslash = 92" "byte (CHR ''u'') = 117"
  by (simp_all add: byte_def)

lemma unquote_hex4:
  assumes "n < 55296"
  shows "unquote ([backslash, CHR ''u''] @ hex4 n @ s) = prepend (encodeRune n) (unquote s)"
proof -
  have "drop 5 (CHR ''u'' # hex4 n @ s) = s" by (simp add: hex4_def)
  moreover have "simpleEscape (CHR ''u'') = None" by (simp add: simpleEscape_def)
  ultimately show ?thesis using assms by (simp add: unquote.simps(2) readHex4_hex4)
qed

lemma chr_34: "chr 34 = quote" "chr 92 = backslash"
  using byte_inject[of "chr 34" quote] byte_inject[of "chr 92" backslash] by (simp_all add: byte_chr bytes_quote)

lemma unquote_ascii:
  assumes "byte a < 128"
  shows "unquote (jsonRune (Some (byte a), [a]) @ s) = prepend [a] (unquote s)"
proof -
  have a: "chr (byte a) = a" by simp
  have first: "nextRune (a # t) = (Some (byte a), 1)" for t using assms by (simp add: nextRune.simps(2))
  have simple: "unquote (backslash # e # s) = prepend [c] (unquote s)" if "simpleEscape e = Some c" for e c
    using that by (simp add: unquote.simps(2))
  consider "byte a = 34" | "byte a = 92" | "byte a = 8" | "byte a = 12" | "byte a = 10" | "byte a = 13" | "byte a = 9"
    | (hex) "byte a \<notin> {34, 92, 8, 12, 10, 13, 9}" "byte a < 32 \<or> byte a = 60 \<or> byte a = 62 \<or> byte a = 38"
    | (raw) "byte a \<notin> {34, 92}" "\<not> byte a < 32" "byte a \<notin> {60, 62, 38}"
    by auto
  then show ?thesis
  proof cases
    case hex
    then have "jsonRune (Some (byte a), [a]) = [backslash, CHR ''u''] @ hex4 (byte a)" by (auto simp: jsonRune_def)
    moreover have "encodeRune (byte a) = [a]" using assms by (simp add: encodeRune_ascii)
    ultimately show ?thesis using unquote_hex4[of "byte a" s] assms by simp
  next
    case raw
    then have "jsonRune (Some (byte a), [a]) = [a]" using assms by (simp add: jsonRune_def)
    moreover have "a \<noteq> quote" "a \<noteq> backslash" using raw(1) bytes_quote by auto
    ultimately show ?thesis using raw(2) first by (simp add: unquote.simps(2))
  qed (use a in \<open>auto simp: jsonRune_def chr_34 simpleEscape_def intro!: simple\<close>)
qed

lemma three_bytes:
  fixes x b c k :: nat
  assumes "x * 4096 + b * 64 + c = k" and "b < 64" and "c < 64"
  shows "x = k div 4096 \<and> b = k div 64 mod 64 \<and> c = k mod 64"
proof -
  have "k = (x * 64 + b) * 64 + c" using assms(1) by simp
  moreover have "((x * 64 + b) * 64 + c) mod 64 = c" "((x * 64 + b) * 64 + c) div 64 = x * 64 + b"
    using assms(3) by (simp_all only: mod_mult_self3 mod_less div_mult_self3 div_less)
  ultimately have "k mod 64 = c" "k div 64 = x * 64 + b" by metis+
  moreover have "(x * 64 + b) mod 64 = b" "(x * 64 + b) div 64 = x" using assms by simp_all
  moreover have "k div 4096 = k div 64 div 64" using div_mult2_eq[of k 64 64] by simp
  ultimately show ?thesis by simp
qed

text \<open>The bytes a rune above U+07FF and below U+D800 is read from are its UTF-8 encoding.\<close>

lemma nextRune_three:
  assumes "nextRune (a # s) = (Some r, n)" and "2048 \<le> r" and "r < 55296"
  shows "take n (a # s) = encodeRune r \<and> n = 3"
proof -
  obtain b c s' where s: "s = b # c # s'" and x: "224 \<le> byte a" "byte a \<le> 239"
    and cont: "128 \<le> byte b" "byte b \<le> 191" "contByte c"
    and r: "r = (byte a - 224) * 4096 + (byte b - 128) * 64 + (byte c - 128)" and n: "n = 3"
    using assms by (auto simp: nextRune.simps(2) Let_def contByte_def split: list.splits if_splits)
  have c: "128 \<le> byte c" "byte c \<le> 191" using cont(3) by (auto simp: contByte_def)
  have parts: "byte a - 224 = r div 4096 \<and> byte b - 128 = r div 64 mod 64 \<and> byte c - 128 = r mod 64"
    by (rule three_bytes[of _ _ _ r]) (use r cont c in auto)
  then have "byte a = 224 + r div 4096" "byte b = 128 + r div 64 mod 64" "byte c = 128 + r mod 64"
    using x cont c by auto
  then have "a = chr (224 + r div 4096)" "b = chr (128 + r div 64 mod 64)" "c = chr (128 + r mod 64)"
    by (metis chr_byte)+
  then show ?thesis using s n assms by (simp add: encodeRune_def Let_def)
qed

lemma unquote_rune:
  assumes "nextRune (a # t) = (Some r, n)"
  shows "unquote (jsonRune (Some r, take n (a # t)) @ s) = prepend (take n (a # t)) (unquote s)"
proof (cases "byte a < 128")
  case True
  then have "r = byte a" "n = 1" using assms by (simp_all add: nextRune.simps(2))
  then show ?thesis using unquote_ascii[OF True] by simp
next
  case False
  then have r: "128 \<le> r" using nextRune_high[of a t r] assms by simp
  show ?thesis
  proof (cases "r = 8232 \<or> r = 8233")
    case True
    then have "take n (a # t) = encodeRune r" using nextRune_three[OF assms] by auto
    moreover have "jsonRune (Some r, take n (a # t)) = [backslash, CHR ''u''] @ hex4 r" using True by (auto simp: jsonRune_def)
    ultimately show ?thesis using unquote_hex4[of r s] True by auto
  next
    case other: False
    then have raw: "jsonRune (Some r, take n (a # t)) = take n (a # t)" using r by (simp add: jsonRune_def)
    have width: "0 < n" "n \<le> length (a # t)" using nextRune_width[of a t] assms by simp_all
    then obtain p where p: "take n (a # t) = a # p" by (cases n) auto
    have len: "length (a # p) = n" using p width by (metis length_take min.absorb2)
    have again: "nextRune ((a # p) @ s) = (Some r, n)" using nextRune_take[OF assms, of s] p by simp
    have "a \<noteq> quote" "a \<noteq> backslash" using False bytes_quote by auto
    then show ?thesis unfolding p raw[unfolded p] using again len False
      by (auto simp: unquote.simps(2))
  qed
qed

lemma unquote_runes:
  "validUtf8 s \<Longrightarrow> unquote (concat (map jsonRune (runes s)) @ quote # t) = Some (s, t)"
proof (induction s rule: runes.induct)
  case 1
  then show ?case by (simp add: unquote.simps(2))
next
  case (2 a s)
  obtain r n where n: "nextRune (a # s) = (Some r, n)"
    using 2(2) by (cases "nextRune (a # s)") (auto simp: validUtf8_def)
  have "validUtf8 (drop n (a # s))" using 2(2) n by (simp add: validUtf8_def)
  then have "unquote (concat (map jsonRune (runes (drop n (a # s)))) @ quote # t) = Some (drop n (a # s), t)"
    using 2(1) n by simp
  moreover have "runes (a # s) = (Some r, take n (a # s)) # runes (drop n (a # s))" using n by simp
  ultimately show ?case using unquote_rune[OF n] by simp
qed

lemma unquote_jsonText:
  "validUtf8 s \<Longrightarrow> \<exists>u. jsonText s @ t = quote # u \<and> unquote u = Some (s, t)"
  using unquote_runes[of s t] by (simp add: jsonText_def)

end
