(* ===== verification/Cursors.thy ===== *)
theory Cursors imports Credentials GoTime GoJson begin

text \<open>
  Page cursors: \<^verbatim>\<open>server/postgres/cursor.go\<close>. A cursor is the base64 form of a JSON object with the kind of
  list, a fingerprint of the filter, and the sort value and identifier of the last row of a page.
\<close>

record keyset_cursor =
  cursorVersion :: int
  cursorKind :: string
  cursorFingerprint :: string
  cursorSortValue :: string
  cursorID :: string

subsection \<open>Reading a JSON object into the struct\<close>

text \<open>\<^verbatim>\<open>encoding/json\<close> matches keys exactly or, failing that, up to Unicode case folding, in which the Kelvin sign
  is a \<open>K\<close> and the long s an \<open>S\<close>.\<close>

definition foldPiece :: "nat option \<times> string \<Rightarrow> string" where
  "foldPiece p =
     (case fst p of
        None \<Rightarrow> encodeRune runeError
      | Some r \<Rightarrow>
          if r < 128 then [chr (if 97 \<le> r \<and> r \<le> 122 then r - 32 else r)]
          else if r = 8490 then ''K'' else if r = 383 then ''S'' else snd p)"

definition foldName :: "string \<Rightarrow> string" where
  "foldName s = concat (map foldPiece (runes s))"

definition cursorFields :: "string list" where
  "cursorFields = [''v'', ''kind'', ''filter'', ''sort_value'', ''id'']"

definition matchField :: "string list \<Rightarrow> string \<Rightarrow> string option" where
  "matchField names k = (if k \<in> set names then Some k else List.find (\<lambda>f. foldName f = foldName k) names)"

definition cursorField :: "string \<Rightarrow> string option" where
  "cursorField k = matchField cursorFields k"

definition parseInt64 :: "string \<Rightarrow> int option" where
  "parseInt64 lit =
     (let negative = (take 1 lit = ''-''); ds = (if negative then drop 1 lit else lit);
          n = (if negative then - int (numberOf ds) else int (numberOf ds)) in
      if ds \<noteq> [] \<and> list_all isDigit ds \<and> - (2 ^ 63) \<le> n \<and> n < 2 ^ 63 then Some n else None)"

definition setField :: "string \<Rightarrow> json \<Rightarrow> keyset_cursor \<Rightarrow> keyset_cursor option" where
  "setField f v c =
     (case v of
        JNull \<Rightarrow> Some c
      | JNumber lit \<Rightarrow>
          if f = ''v'' then map_option (\<lambda>n. c\<lparr>cursorVersion := n\<rparr>) (parseInt64 lit) else None
      | JString s \<Rightarrow>
          if f = ''kind'' then Some (c\<lparr>cursorKind := s\<rparr>)
          else if f = ''filter'' then Some (c\<lparr>cursorFingerprint := s\<rparr>)
          else if f = ''sort_value'' then Some (c\<lparr>cursorSortValue := s\<rparr>)
          else if f = ''id'' then Some (c\<lparr>cursorID := s\<rparr>)
          else None
      | _ \<Rightarrow> None)"

definition zeroCursor :: keyset_cursor where
  "zeroCursor = \<lparr>cursorVersion = 0, cursorKind = [], cursorFingerprint = [], cursorSortValue = [], cursorID = []\<rparr>"

fun setFields :: "(string \<times> json) list \<Rightarrow> keyset_cursor \<Rightarrow> keyset_cursor option" where
  "setFields [] c = Some c"
| "setFields ((k, v) # ms) c =
     (case cursorField k of
        None \<Rightarrow> setFields ms c
      | Some f \<Rightarrow> (case setField f v c of None \<Rightarrow> None | Some c' \<Rightarrow> setFields ms c'))"

definition unmarshalCursor :: "string \<Rightarrow> keyset_cursor option" where
  "unmarshalCursor value0 =
     (case parseJson value0 of
        Some (JObject ms) \<Rightarrow> setFields ms zeroCursor
      | Some JNull \<Rightarrow> Some zeroCursor
      | _ \<Rightarrow> None)"

subsection \<open>Cursors\<close>

definition marshalCursor :: "keyset_cursor \<Rightarrow> string" where
  "marshalCursor c =
     writeJson (JObject
       [(''v'', JNumber (formatInt (cursorVersion c))), (''kind'', JString (cursorKind c)),
        (''filter'', JString (cursorFingerprint c)), (''sort_value'', JString (cursorSortValue c)),
        (''id'', JString (cursorID c))])"

definition encodeKeysetCursor :: "string \<Rightarrow> string \<Rightarrow> string \<Rightarrow> string \<Rightarrow> string" where
  "encodeKeysetCursor kind fingerprint sortValue i =
     base64Encode (marshalCursor
       \<lparr>cursorVersion = 1, cursorKind = kind, cursorFingerprint = fingerprint, cursorSortValue = sortValue,
        cursorID = i\<rparr>)"

definition decodeKeysetCursor :: "string \<Rightarrow> string \<Rightarrow> string \<Rightarrow> keyset_cursor result" where
  "decodeKeysetCursor cursor kind fingerprint =
     (case base64Decode cursor of
        None \<Rightarrow> Inl (OpaqueError ''illegal base64 data'')
      | Some value0 \<Rightarrow>
          (case unmarshalCursor value0 of
             None \<Rightarrow> Inl (OpaqueError ''json'')
           | Some decoded \<Rightarrow>
               if cursorVersion decoded \<noteq> 1 \<or> cursorKind decoded \<noteq> kind \<or> cursorFingerprint decoded \<noteq> fingerprint
                  \<or> cursorSortValue decoded = [] \<or> cursorID decoded = []
               then Inl (OpaqueError ''invalid cursor'') else Inr decoded))"

definition decodeUUIDKeysetCursor ::
  "env \<Rightarrow> ports \<Rightarrow> string \<Rightarrow> string \<Rightarrow> string \<Rightarrow> keyset_cursor result" where
  "decodeUUIDKeysetCursor env p cursor kind fingerprint =
     (case decodeKeysetCursor cursor kind fingerprint of
        Inl err \<Rightarrow> Inl err
      | Inr decoded \<Rightarrow>
          if \<not> uuidValidate p (toLower (unicode env) (cursorID decoded))
          then Inl (OpaqueError ''invalid cursor ID'') else Inr decoded)"

definition hexEncode :: "string \<Rightarrow> string" where
  "hexEncode s = concat (map (\<lambda>c. [hexDigit (byte c div 16), hexDigit (byte c mod 16)]) s)"

definition keysetFingerprint :: "json list \<Rightarrow> string" where
  "keysetFingerprint vals = hexEncode (take 16 (sha256 (writeJson (JArray vals))))"

definition optionalString :: "('a \<Rightarrow> string) \<Rightarrow> 'a option \<Rightarrow> string" where
  "optionalString text x = (case x of None \<Rightarrow> [] | Some v \<Rightarrow> text v)"

subsection \<open>A cursor decodes to what it was made of\<close>

lemma skipSpace_stop [simp]:
  "skipSpace (quote # s) = quote # s" "skipSpace (CHR '':'' # s) = CHR '':'' # s"
  "skipSpace (CHR '','' # s) = CHR '','' # s" "skipSpace (CHR ''}'' # s) = CHR ''}'' # s"
  "skipSpace (CHR ''{'' # s) = CHR ''{'' # s" "skipSpace [] = []"
  "skipSpace (CHR ''1'' # s) = CHR ''1'' # s"
  by (simp_all add: skipSpace_def byte_def)

lemma readMembers_string:
  assumes "validUtf8 k" and "validUtf8 v"
  shows "readMembers (Suc (Suc n)) d (jsonText k @ '':'' @ jsonText v @ '','' @ r)
       = map_option (\<lambda>(ms, t). ((k, JString v) # ms, t)) (readMembers (Suc n) d r)"
    and "readMembers (Suc (Suc n)) d (jsonText k @ '':'' @ jsonText v @ ''}'' @ r) = Some ([(k, JString v)], r)"
proof -
  have member: "\<exists>u. jsonText k @ '':'' @ jsonText v @ t = quote # u
     \<and> unquote u = Some (k, '':'' @ jsonText v @ t)" for t
    by (rule unquote_jsonText[OF assms(1)])
  have str: "readValue (Suc n) d (jsonText v @ t) = Some (JString v, t)" for t
  proof -
    obtain u where u: "jsonText v @ t = quote # u" "unquote u = Some (v, t)"
      using unquote_jsonText[OF assms(2)] by blast
    then show ?thesis by simp
  qed
  show "readMembers (Suc (Suc n)) d (jsonText k @ '':'' @ jsonText v @ '','' @ r)
       = map_option (\<lambda>(ms, t). ((k, JString v) # ms, t)) (readMembers (Suc n) d r)"
  proof -
    obtain u where u: "jsonText k @ '':'' @ jsonText v @ '','' @ r = quote # u"
      "unquote u = Some (k, '':'' @ jsonText v @ '','' @ r)" using member by blast
    show ?thesis unfolding u(1) by (simp add: u(2) str Let_def del: readValue.simps)
  qed
  show "readMembers (Suc (Suc n)) d (jsonText k @ '':'' @ jsonText v @ ''}'' @ r) = Some ([(k, JString v)], r)"
  proof -
    obtain u where u: "jsonText k @ '':'' @ jsonText v @ ''}'' @ r = quote # u"
      "unquote u = Some (k, '':'' @ jsonText v @ ''}'' @ r)" using member by blast
    show ?thesis unfolding u(1) by (simp add: u(2) str Let_def del: readValue.simps)
  qed
qed

lemma validUtf8_names [simp]:
  "validUtf8 ''v''" "validUtf8 ''kind''" "validUtf8 ''filter''" "validUtf8 ''sort_value''" "validUtf8 ''id''"
  by (simp_all add: validUtf8_ascii byte_def)

lemma readMembers_version:
  "readMembers (Suc (Suc n)) d (jsonText ''v'' @ '':'' @ ''1'' @ '','' @ r)
     = map_option (\<lambda>(ms, t). ((''v'', JNumber ''1'') # ms, t)) (readMembers (Suc n) d r)"
proof -
  obtain u where u: "jsonText ''v'' @ '':'' @ ''1'' @ '','' @ r = quote # u"
    "unquote u = Some (''v'', '':'' @ ''1'' @ '','' @ r)"
    using unquote_jsonText[of "''v''" "'':'' @ ''1'' @ '','' @ r"] by auto
  have "readValue (Suc n) d (CHR ''1'' # CHR '','' # r) = Some (JNumber ''1'', CHR '','' # r)"
    by (simp add: readNumber_def readDigits_def readFraction_def readExponent_def digit_def byte_def Let_def)
  then show ?thesis unfolding u(1) by (simp add: u(2) Let_def del: readValue.simps)
qed

definition cursorMembers :: "string \<Rightarrow> string \<Rightarrow> string \<Rightarrow> string \<Rightarrow> (string \<times> json) list" where
  "cursorMembers kind fingerprint sortValue i =
     [(''v'', JNumber ''1''), (''kind'', JString kind), (''filter'', JString fingerprint),
      (''sort_value'', JString sortValue), (''id'', JString i)]"

lemma formatInt_1: "formatInt 1 = ''1''"
  using byte_inject[of "chr 49" "CHR ''1''"] by (simp add: formatInt_def decimal.simps byte_chr) (simp add: byte_def)

lemma readMembers_cursor:
  assumes "validUtf8 kind" and "validUtf8 fp" and "validUtf8 sv" and "validUtf8 i"
  shows "readMembers (6 + n) d (joinWith '','' (map (\<lambda>(k, v). jsonText k @ '':'' @ writeJson v) (cursorMembers kind fp sv i)) @ ''}'')
     = Some (cursorMembers kind fp sv i, [])"
proof -
  have six: "6 + n = Suc (Suc (Suc (Suc (Suc (Suc n)))))" by simp
  have printed: "joinWith '','' (map (\<lambda>(k, v). jsonText k @ '':'' @ writeJson v) (cursorMembers kind fp sv i)) @ ''}''
     = jsonText ''v'' @ '':'' @ ''1'' @ '','' @ jsonText ''kind'' @ '':'' @ jsonText kind @ '','' @ jsonText ''filter'' @ '':'' @
       jsonText fp @ '','' @ jsonText ''sort_value'' @ '':'' @ jsonText sv @ '','' @ jsonText ''id'' @ '':'' @ jsonText i @ ''}'' @ []"
    by (simp add: cursorMembers_def)
  show ?thesis unfolding printed six readMembers_version
    readMembers_string(1)[OF validUtf8_names(2) assms(1)] readMembers_string(1)[OF validUtf8_names(3) assms(2)]
    readMembers_string(1)[OF validUtf8_names(4) assms(3)] readMembers_string(2)[OF validUtf8_names(5) assms(4)]
    by (simp add: cursorMembers_def)
qed

lemma readValue_object:
  "take 1 (skipSpace r) \<noteq> ''}'' \<Longrightarrow> 0 < d \<Longrightarrow> readMembers n (d - 1) r = Some (ms, t) \<Longrightarrow>
     readValue (Suc n) d (CHR ''{'' # r) = Some (JObject ms, t)"
  by simp

lemma unmarshal_marshal:
  assumes "validUtf8 kind" and "validUtf8 fp" and "validUtf8 sv" and "validUtf8 i"
  defines "c \<equiv> \<lparr>cursorVersion = 1, cursorKind = kind, cursorFingerprint = fp, cursorSortValue = sv, cursorID = i\<rparr>"
  shows "unmarshalCursor (marshalCursor c) = Some c"
proof -
  let ?body = "joinWith '','' (map (\<lambda>(k, v). jsonText k @ '':'' @ writeJson v) (cursorMembers kind fp sv i))"
  have printed: "marshalCursor c = CHR ''{'' # ?body @ ''}''"
    by (simp add: marshalCursor_def c_def cursorMembers_def formatInt_1)
  have "\<exists>m. length (marshalCursor c) = Suc (Suc (Suc m))"
    unfolding printed by (simp add: cursorMembers_def jsonText_def)
  then obtain m where "length (marshalCursor c) = Suc (Suc (Suc m))" by blast
  then have fuel: "2 * length (marshalCursor c) + 2 = Suc (6 + (2 * m + 1))" by simp
  have first: "take 1 (skipSpace (?body @ ''}'')) \<noteq> ''}''"
    by (simp add: cursorMembers_def jsonText_def)
  have "parseJson (marshalCursor c) = Some (JObject (cursorMembers kind fp sv i))"
    unfolding parseJson_def fuel unfolding printed
    using readValue_object[OF first _ readMembers_cursor[OF assms(1-4), of "2 * m + 1"], of maxNestingDepth]
    by (simp add: maxNestingDepth_def del: readValue.simps)
  moreover have "cursorField k = Some k" if "k \<in> set cursorFields" for k using that by (simp add: cursorField_def matchField_def)
  ultimately show ?thesis
    by (simp add: unmarshalCursor_def cursorMembers_def cursorFields_def setField_def zeroCursor_def c_def
        parseInt64_def Let_def isDigit_def numberOf_def digitValue_def byte_def)
qed

lemma decode_encodeKeysetCursor:
  assumes "validUtf8 kind" and "validUtf8 fp" and "validUtf8 sv" and "validUtf8 i" and "sv \<noteq> []" and "i \<noteq> []"
  shows "decodeKeysetCursor (encodeKeysetCursor kind fp sv i) kind fp
     = Inr \<lparr>cursorVersion = 1, cursorKind = kind, cursorFingerprint = fp, cursorSortValue = sv, cursorID = i\<rparr>"
  using assms unmarshal_marshal[OF assms(1-4)] by (simp add: decodeKeysetCursor_def encodeKeysetCursor_def)

lemma encodeKeysetCursor_nonempty [simp]: "encodeKeysetCursor kind fp sv i \<noteq> []"
proof -
  have "base64Encode [] = []" by (simp add: base64Encode_def)
  moreover have "marshalCursor c \<noteq> []" for c by (simp add: marshalCursor_def)
  ultimately show ?thesis unfolding encodeKeysetCursor_def by (metis base64Encode_inject)
qed

end
