(* ===== verification/Keyset.thy ===== *)
theory Keyset imports Prelude begin

text \<open>
  Keyset pagination, independent of what is listed: rows are ordered by a key, a page is the first rows after
  the key of a cursor. The locale states what the order of the keys has to satisfy; in it, the pages
  that a client gets by following the cursors are exactly the rows in order, each once.
\<close>

definition pageRows :: "('k \<Rightarrow> 'k \<Rightarrow> bool) \<Rightarrow> ('r \<Rightarrow> 'k) \<Rightarrow> nat \<Rightarrow> 'k option \<Rightarrow> 'r list \<Rightarrow> 'r list" where
  "pageRows before key n after rows =
     take n (orderBy (\<lambda>a b. before (key a) (key b))
       (filter (\<lambda>r. case after of None \<Rightarrow> True | Some c \<Rightarrow> before c (key r)) rows))"

text \<open>Following the cursors with pages of \<open>len\<close> rows.\<close>

fun followPages :: "('k \<Rightarrow> 'k \<Rightarrow> bool) \<Rightarrow> ('r \<Rightarrow> 'k) \<Rightarrow> nat \<Rightarrow> nat \<Rightarrow> 'k option \<Rightarrow> 'r list \<Rightarrow> 'r list" where
  "followPages before key len 0 after rows = []"
| "followPages before key len (Suc n) after rows =
     (let items = pageRows before key (Suc len) after rows in
      if len < length items
      then take len items @ followPages before key len n (Some (key (last (take len items)))) rows
      else items)"

lemma sorted_wrt_drop_filter:
  assumes "sorted_wrt lt xs" and "k < length xs" and "\<And>x y. lt x y \<Longrightarrow> \<not> lt y x" and "\<And>x. \<not> lt x x"
  shows "filter (\<lambda>x. lt (xs ! k) x) xs = drop (Suc k) xs"
proof -
  have split: "xs = take (Suc k) xs @ drop (Suc k) xs" by simp
  have "\<not> lt (xs ! k) x" if front: "x \<in> set (take (Suc k) xs)" for x
  proof -
    have "length (take (Suc k) xs) = Suc k" using assms(2) by simp
    then obtain i where "i < Suc k" "take (Suc k) xs ! i = x" using front unfolding in_set_conv_nth by metis
    then have "i \<le> k" "x = xs ! i" by auto
    then show ?thesis using assms sorted_wrt_nth_less[OF assms(1), of i k] by (cases "i = k") auto
  qed
  then have "filter (\<lambda>x. lt (xs ! k) x) (take (Suc k) xs) = []" by (simp add: filter_empty_conv)
  moreover have "lt (xs ! k) x" if "x \<in> set (drop (Suc k) xs)" for x
  proof -
    obtain i where i: "i < length xs - Suc k" "x = drop (Suc k) xs ! i" using \<open>x \<in> _\<close> by (auto simp: in_set_conv_nth)
    then have "x = xs ! (Suc k + i)" "Suc k + i < length xs" by auto
    then show ?thesis using sorted_wrt_nth_less[OF assms(1), of k "Suc k + i"] by simp
  qed
  then have "filter (\<lambda>x. lt (xs ! k) x) (drop (Suc k) xs) = drop (Suc k) xs" by (simp add: filter_id_conv)
  ultimately show ?thesis by (metis append_Nil filter_append split)
qed

locale key_order =
  fixes before :: "'k \<Rightarrow> 'k \<Rightarrow> bool"
  assumes irrefl: "\<not> before x x"
    and trans: "before x y \<Longrightarrow> before y z \<Longrightarrow> before x z"
    and total: "x \<noteq> y \<Longrightarrow> before x y \<or> before y x"
begin

lemma asym: "before x y \<Longrightarrow> \<not> before y x"
  using irrefl trans by blast

lemma sorted_insertBy:
  assumes "sorted_wrt (\<lambda>a b. before (key a) (key b)) ys" and "key x \<notin> key ` set ys"
  shows "sorted_wrt (\<lambda>a b. before (key a) (key b)) (insertBy (\<lambda>a b. before (key a) (key b)) x ys)"
  using assms
proof (induction ys)
  case (Cons y ys)
  then show ?case using total[of "key x" "key y"] trans by (auto; blast)
qed simp

lemma sorted_orderBy:
  "distinct (map key xs) \<Longrightarrow> sorted_wrt (\<lambda>a b. before (key a) (key b)) (orderBy (\<lambda>a b. before (key a) (key b)) xs)"
  by (induction xs) (auto intro: sorted_insertBy)

lemma filter_insertBy:
  assumes "sorted_wrt (\<lambda>a b. before (key a) (key b)) ys" and "key x \<notin> key ` set ys"
  shows "filter P (insertBy (\<lambda>a b. before (key a) (key b)) x ys)
       = (if P x then insertBy (\<lambda>a b. before (key a) (key b)) x (filter P ys) else filter P ys)"
  using assms
proof (induction ys)
  case (Cons y ys)
  have front: "insertBy (\<lambda>a b. before (key a) (key b)) x zs = x # zs"
    if "\<forall>z \<in> set zs. before (key x) (key z)" for zs
    using that asym by (cases zs) auto
  show ?case
  proof (cases "before (key y) (key x)")
    case True
    then show ?thesis using Cons by auto
  next
    case False
    then have "before (key x) (key y)" using total[of "key x" "key y"] Cons.prems(2) by auto
    then have "\<forall>z \<in> set (filter P (y # ys)). before (key x) (key z)" using Cons.prems(1) trans by auto
    then show ?thesis using False front by simp
  qed
qed simp

lemma orderBy_filter:
  "distinct (map key xs) \<Longrightarrow>
     orderBy (\<lambda>a b. before (key a) (key b)) (filter P xs) = filter P (orderBy (\<lambda>a b. before (key a) (key b)) xs)"
  by (induction xs) (auto simp: filter_insertBy sorted_orderBy)

lemma pageRows_from:
  assumes "distinct (map key rows)" and "k < length rows"
  defines "ordered \<equiv> orderBy (\<lambda>a b. before (key a) (key b)) rows"
  shows "pageRows before key n (Some (key (ordered ! k))) rows = take n (drop (Suc k) ordered)"
proof -
  have "filter (\<lambda>r. before (key (ordered ! k)) (key r)) ordered = drop (Suc k) ordered"
    unfolding ordered_def
    by (rule sorted_wrt_drop_filter[of "\<lambda>a b. before (key a) (key b)"])
      (use assms sorted_orderBy asym irrefl in auto)
  then show ?thesis using assms(1) by (simp add: pageRows_def orderBy_filter ordered_def)
qed

lemma pageRows_first: "pageRows before key n None rows = take n (orderBy (\<lambda>a b. before (key a) (key b)) rows)"
  by (simp add: pageRows_def)

text \<open>After \<open>k\<close> rows, the cursor is the key of the last of them.\<close>

definition cursorAt :: "('r \<Rightarrow> 'k) \<Rightarrow> 'r list \<Rightarrow> nat \<Rightarrow> 'k option" where
  "cursorAt key rows k =
     (if k = 0 then None else Some (key (orderBy (\<lambda>a b. before (key a) (key b)) rows ! (k - 1))))"

lemma pageRows_at:
  assumes "distinct (map key rows)" and "k \<le> length rows"
  shows "pageRows before key n (cursorAt key rows k) rows
       = take n (drop k (orderBy (\<lambda>a b. before (key a) (key b)) rows))"
proof (cases k)
  case (Suc j)
  then have "j < length rows" using assms(2) by simp
  from pageRows_from[OF assms(1) this, of n] show ?thesis using Suc by (simp add: cursorAt_def)
qed (simp add: pageRows_first cursorAt_def)

lemma last_of_page:
  assumes "0 < len" and "k + len \<le> length xs"
  shows "last (take len (drop k xs)) = xs ! (k + len - 1)"
proof -
  have n: "length (take len (drop k xs)) = len" using assms(2) by simp
  then have "take len (drop k xs) \<noteq> []" using assms(1) by (metis length_0_conv less_numeral_extra(3))
  then have "last (take len (drop k xs)) = take len (drop k xs) ! (len - 1)" using last_conv_nth n by metis
  also have "\<dots> = xs ! (k + (len - 1))" using assms by simp
  also have "k + (len - 1) = k + len - 1" using assms(1) by simp
  finally show ?thesis .
qed

lemma followPages_at:
  assumes "distinct (map key rows)" and "0 < len" and "k \<le> length rows" and "length rows - k < n"
  shows "followPages before key len n (cursorAt key rows k) rows
       = drop k (orderBy (\<lambda>a b. before (key a) (key b)) rows)"
  using assms(3,4)
proof (induction n arbitrary: k)
  case (Suc n)
  let ?xs = "orderBy (\<lambda>a b. before (key a) (key b)) rows"
  let ?items = "take (Suc len) (drop k ?xs)"
  have step: "followPages before key len (Suc n) (cursorAt key rows k) rows
     = (if len < length ?items
        then take len ?items @ followPages before key len n (Some (key (last (take len ?items)))) rows
        else ?items)"
    unfolding followPages.simps Let_def pageRows_at[OF assms(1) Suc.prems(1)] ..
  show ?case
  proof (cases "len < length ?items")
    case True
    then have room: "k + len < length rows" by simp
    have taken: "take len ?items = take len (drop k ?xs)" by simp
    have last: "last (take len (drop k ?xs)) = ?xs ! (k + len - 1)" by (rule last_of_page) (use assms(2) room in auto)
    have cursor: "Some (key (?xs ! (k + len - 1))) = cursorAt key rows (k + len)"
      using assms(2) by (simp add: cursorAt_def)
    have rest: "followPages before key len n (cursorAt key rows (k + len)) rows = drop (k + len) ?xs"
    proof (rule Suc.IH)
      show "k + len \<le> length rows" using room by simp
      show "length rows - (k + len) < n" using room Suc.prems(2) assms(2) by simp
    qed
    have "take len (drop k ?xs) @ drop (k + len) ?xs = drop k ?xs"
      using append_take_drop_id[of len "drop k ?xs"] by (simp add: add.commute[of k len] del: append_take_drop_id)
    then show ?thesis unfolding step if_P[OF True] taken last cursor rest .
  next
    case False
    then have "?items = drop k ?xs" by simp
    then show ?thesis unfolding step using False by simp
  qed
qed simp

lemma followPages_all:
  "distinct (map key rows) \<Longrightarrow> 0 < len \<Longrightarrow> length rows < n \<Longrightarrow>
     followPages before key len n None rows = orderBy (\<lambda>a b. before (key a) (key b)) rows"
  using followPages_at[of key rows len 0 n] by (simp add: cursorAt_def)

end

text \<open>An order read from its end is an order.\<close>

lemma key_order_converse: "key_order lt \<Longrightarrow> key_order (\<lambda>x y. lt y x)"
  unfolding key_order_def by blast

end
