(* ===== verification/AuditStore.thy ===== *)
theory AuditStore imports Transactions begin

text \<open>
  The audit log's writes: \<^verbatim>\<open>insertAuditEvent\<close>, \<^verbatim>\<open>sanitizeMetadata\<close>, \<^verbatim>\<open>Append\<close> and the defaults of an audit
  query of \<^verbatim>\<open>server/postgres/audit.go\<close>. Every store operation that changes data ends with
  \<open>insertAuditEvent\<close> inside its transaction.

  The metadata of an event is a Go map; it is held as its list of key/value pairs.
\<close>

subsection \<open>Operations\<close>

definition nullableTime :: "time \<Rightarrow> time option" where
  "nullableTime t = (if t = zeroTime then None else Some (pgTime t))"

definition secretKey :: "env \<Rightarrow> string \<Rightarrow> bool" where
  "secretKey env key =
     (let lower = toLower (unicode env) key in
      containsSub lower ''password'' \<or> containsSub lower ''token''
      \<or> containsSub lower ''hash'' \<or> containsSub lower ''secret'')"

definition sanitizeMetadata :: "env \<Rightarrow> (string \<times> string) list \<Rightarrow> (string \<times> string) list" where
  "sanitizeMetadata env metadata =
     (if length metadata = 0 then [] else filter (\<lambda>(key, _). \<not> secretKey env key) metadata)"

definition insertAuditEvent :: "env \<Rightarrow> audit_event \<Rightarrow> (world, go_error, unit) eff" where
  "insertAuditEvent env event =
     andThen (if eventID event = [] then newUUID env else ret (eventID event)) (\<lambda>newID.
     andThen (mapError (Wrapped ''append audit event'')
       (insertInto env auditTable (\<lambda>now.
          \<lparr>a_id = newID,
           a_occurred_at = (case nullableTime (occurredAt event) of None \<Rightarrow> now | Some t \<Rightarrow> t),
           a_actor = actorID event, a_tenant = eventTenantID event,
           a_action = eventAction event, a_target = eventTarget event,
           a_metadata = sanitizeMetadata env (eventMetadata event)\<rparr>))) (\<lambda>_.
     ret ()))"

definition Append :: "env \<Rightarrow> audit_event \<Rightarrow> (world, go_error, unit) eff" where
  "Append env event = withSystemTx env (insertAuditEvent env event)"

text \<open>The composite literal \<^verbatim>\<open>clinks.AuditEvent{ActorID: ..., TenantID: ..., Action: ..., Target: ...}\<close>.\<close>

definition auditEvent :: "string option \<Rightarrow> string option \<Rightarrow> string \<Rightarrow> string \<Rightarrow> audit_event" where
  "auditEvent actor tid action target =
     \<lparr>eventID = [], occurredAt = zeroTime, actorID = actor, actorEmail = [], eventTenantID = tid,
      eventTenantName = [], eventAction = action, eventTarget = target, eventMetadata = []\<rparr>"

text \<open>\<^verbatim>\<open>normalizeAuditFilter\<close>: without an end the window closes at the next midnight (UTC), without a
  start it opens 30 days before its end.\<close>

definition defaultAuditDays :: int where "defaultAuditDays = 30"

definition normalizeAuditFilter :: "time \<Rightarrow> audit_filter \<Rightarrow> audit_filter" where
  "normalizeAuditFilter now f0 =
     (let f1 = f0\<lparr>afPageSize := effectiveLimit (afPageSize f0)\<rparr>;
          f2 = (if \<not> sortDirection_isValid (afDirection f1) then f1\<lparr>afDirection := SortDescending\<rparr> else f1);
          f3 = (if afTo f2 = zeroTime
                then f2\<lparr>afTo := (now div nanosecondsPerDay + 1) * nanosecondsPerDay\<rparr> else f2);
          f4 = (if afFrom f3 = zeroTime
                then f3\<lparr>afFrom := afTo f3 - defaultAuditDays * nanosecondsPerDay\<rparr> else f3)
      in f4)"

subsection \<open>Lemmas\<close>

lemma sanitize_set:
  "set (sanitizeMetadata env metadata) = {(k, v) \<in> set metadata. \<not> secretKey env k}"
  by (auto simp: sanitizeMetadata_def)

lemma insertAuditEvent_Inr:
  assumes "insertAuditEvent env event w = (Inr u, w')"
  shows "\<exists>r. w_db w' = (w_db w)\<lparr>audit_events := audit_events (w_db w) @ [r]\<rparr>
     \<and> a_actor r = actorID event \<and> a_tenant r = eventTenantID event
     \<and> a_action r = eventAction event \<and> a_target r = eventTarget event
     \<and> a_metadata r = sanitizeMetadata env (eventMetadata event)
     \<and> (occurredAt event = zeroTime \<longrightarrow> a_occurred_at r = w_now w)
     \<and> sameSession w w'"
  using assms
  by (cases "eventID event = []")
     (auto simp: insertAuditEvent_def run_simps auditTable_def nullableTime_def sameSession_def)

lemma auditEvent_simps [simp]:
  "actorID (auditEvent a t c g) = a" "eventTenantID (auditEvent a t c g) = t"
  "eventAction (auditEvent a t c g) = c" "eventTarget (auditEvent a t c g) = g"
  "eventMetadata (auditEvent a t c g) = []" "eventID (auditEvent a t c g) = []"
  "occurredAt (auditEvent a t c g) = zeroTime"
  by (simp_all add: auditEvent_def)

text \<open>A defaulted audit window is not empty and ends after the present.\<close>

lemma normalizeAuditFilter_default_window:
  assumes "afTo f = zeroTime" and "afFrom f = zeroTime" and "0 \<le> now"
  shows "afFrom (normalizeAuditFilter now f) < afTo (normalizeAuditFilter now f)"
    and "now < afTo (normalizeAuditFilter now f)"
    and "afTo (normalizeAuditFilter now f) \<le> now + nanosecondsPerDay"
proof -
  have d: "0 < nanosecondsPerDay" by (simp add: nanosecondsPerDay_def nanosecondsPerSecond_def)
  have to: "afTo (normalizeAuditFilter now f) = (now div nanosecondsPerDay + 1) * nanosecondsPerDay"
    using assms by (simp add: normalizeAuditFilter_def Let_def)
  have "now div nanosecondsPerDay * nanosecondsPerDay + now mod nanosecondsPerDay = now"
    by (rule div_mult_mod_eq)
  moreover have "0 \<le> now mod nanosecondsPerDay" "now mod nanosecondsPerDay < nanosecondsPerDay"
    using d by simp_all
  ultimately show "now < afTo (normalizeAuditFilter now f)"
    and "afTo (normalizeAuditFilter now f) \<le> now + nanosecondsPerDay"
    unfolding to distrib_right mult_1 by linarith+
  have "0 \<le> now div nanosecondsPerDay" using assms(3) d by (simp add: pos_imp_zdiv_nonneg_iff)
  then have "0 < (now div nanosecondsPerDay + 1) * nanosecondsPerDay" using d by simp
  then show "afFrom (normalizeAuditFilter now f) < afTo (normalizeAuditFilter now f)"
    using assms d by (simp add: normalizeAuditFilter_def Let_def zeroTime_def defaultAuditDays_def)
qed

end
