(* ===== verification/RoleStore.thy ===== *)
theory RoleStore imports AuditStore begin

text \<open>
  Roles in the database: \<^verbatim>\<open>server/postgres/roles.go\<close> without its paged listing. A role is its row in
  \<^verbatim>\<open>tenant_roles\<close> with the permissions of \<^verbatim>\<open>tenant_role_permissions\<close>; the two protected roles of a tenant
  are created with it and only custom roles are updated or deleted.
\<close>

subsection \<open>Reading\<close>

definition permissionsOfRole :: "env \<Rightarrow> world \<Rightarrow> string \<Rightarrow> permission list" where
  "permissionsOfRole env w rid =
     orderBy (\<lambda>p q. pgTextLess env (permissionKey p) (permissionKey q))
       (map p_permission (filter (\<lambda>p. p_role p = rid) (visibleRows rolePermissionsTable w)))"

definition scanRole :: "env \<Rightarrow> world \<Rightarrow> role_row \<Rightarrow> role" where
  "scanRole env w r =
     \<lparr>roleID = r_id r, roleTenantID = r_tenant r, roleName = r_name r, roleKind = r_kind r,
      rolePermissions = permissionsOfRole env w (r_id r), roleRevision = r_revision r,
      roleCreatedAt = r_created_at r, roleUpdatedAt = r_updated_at r\<rparr>"

definition findRoleTx :: "env \<Rightarrow> string \<Rightarrow> string \<Rightarrow> (world, go_error, role) eff" where
  "findRoleTx env tid rid =
     mapError (\<lambda>err. if err = NoRows then newError ErrorRoleNotFound else Wrapped ''find role'' err)
       (queryRow env (\<lambda>w.
          map_option (scanRole env w)
            (List.find (\<lambda>r. r_tenant r = tid \<and> r_id r = rid) (visibleRows rolesTable w))))"

definition FindRole :: "env \<Rightarrow> string \<Rightarrow> string \<Rightarrow> (world, go_error, role) eff" where
  "FindRole env tid rid = WithTenantTx env tid (findRoleTx env tid rid)"

definition PermissionsForRole :: "env \<Rightarrow> string \<Rightarrow> string \<Rightarrow> (world, go_error, permission list) eff" where
  "PermissionsForRole env tid rid =
     andThen (FindRole env tid rid) (\<lambda>role. ret (rolePermissions role))"

subsection \<open>Writing\<close>

definition insertRole :: "env \<Rightarrow> role \<Rightarrow> (world, go_error, unit) eff" where
  "insertRole env role =
     mapError (Wrapped ''insert role'')
       (andThen (insertInto env rolesTable (\<lambda>now.
          \<lparr>r_id = roleID role, r_tenant = roleTenantID role, r_name = roleName role, r_kind = roleKind role,
           r_revision = 1, r_created_at = now, r_updated_at = now\<rparr>)) (\<lambda>_. ret ()))"

text \<open>The loop of \<^verbatim>\<open>insertRolePermissions\<close>; \<open>seen\<close> is the Go map used as a set.\<close>

fun insertRolePermissionsLoop ::
  "env \<Rightarrow> string \<Rightarrow> string \<Rightarrow> permission set \<Rightarrow> permission list \<Rightarrow> (world, go_error, unit) eff" where
  "insertRolePermissionsLoop env tid rid seen [] = ret ()"
| "insertRolePermissionsLoop env tid rid seen (p # ps) =
     (if \<not> permission_isValid p then fail (newError ErrorValidation)
      else if p \<in> seen then insertRolePermissionsLoop env tid rid seen ps
      else andThen (mapError (Wrapped ''insert role permission'')
             (insertInto env rolePermissionsTable
               (\<lambda>now. \<lparr>p_tenant = tid, p_role = rid, p_permission = p\<rparr>)))
             (\<lambda>_. insertRolePermissionsLoop env tid rid (insert p seen) ps))"

definition insertRolePermissions ::
  "env \<Rightarrow> string \<Rightarrow> string \<Rightarrow> permission list \<Rightarrow> (world, go_error, unit) eff" where
  "insertRolePermissions env tid rid ps = insertRolePermissionsLoop env tid rid {} ps"

definition createRoleTx :: "env \<Rightarrow> role \<Rightarrow> string \<Rightarrow> (world, go_error, role) eff" where
  "createRoleTx env role actor =
     andThen (mapError constraintConflict (insertRole env role)) (\<lambda>_.
     andThen (insertRolePermissions env (roleTenantID role) (roleID role) (rolePermissions role)) (\<lambda>_.
     andThen (findRoleTx env (roleTenantID role) (roleID role)) (\<lambda>stored.
     andThen (insertAuditEvent env
       (auditEvent (Some actor) (Some (roleTenantID stored)) ''role.created'' (roleName stored))) (\<lambda>_.
     ret stored))))"

definition CreateRole :: "env \<Rightarrow> role \<Rightarrow> string \<Rightarrow> (world, go_error, role) eff" where
  "CreateRole env role0 actor =
     (let role1 = role0\<lparr>roleName := trimSpace (roleName role0), roleKind := RoleKindCustom\<rparr> in
      andThen (if roleID role1 = [] then newUUID env else ret (roleID role1)) (\<lambda>newID.
      let role = role1\<lparr>roleID := newID\<rparr> in
      WithTenantTx env (roleTenantID role) (createRoleTx env role actor)))"

definition renameRole :: "string \<Rightarrow> time \<Rightarrow> role_row \<Rightarrow> role_row" where
  "renameRole name now r = r\<lparr>r_name := name, r_revision := r_revision r + 1, r_updated_at := now\<rparr>"

definition updateRoleTx :: "env \<Rightarrow> role \<Rightarrow> string \<Rightarrow> (world, go_error, role) eff" where
  "updateRoleTx env role actor =
     andThen (mapError (\<lambda>err. constraintConflict (Wrapped ''update role'' err))
       (updateTable env rolesTable
         (\<lambda>now r. r_id r = roleID role \<and> r_tenant r = roleTenantID role
            \<and> r_revision r = roleRevision role \<and> r_kind r = RoleKindCustom)
         (renameRole (roleName role)))) (\<lambda>changed.
     if length changed \<noteq> 1 then fail (newError ErrorConflict) else
     andThen (mapError (Wrapped ''replace role permissions'')
       (deleteFrom env rolePermissionsTable
         (\<lambda>p. p_tenant p = roleTenantID role \<and> p_role p = roleID role))) (\<lambda>_.
     andThen (insertRolePermissions env (roleTenantID role) (roleID role) (rolePermissions role)) (\<lambda>_.
     andThen (findRoleTx env (roleTenantID role) (roleID role)) (\<lambda>stored.
     andThen (insertAuditEvent env
       (auditEvent (Some actor) (Some (roleTenantID stored)) ''role.updated'' (roleName stored))) (\<lambda>_.
     ret stored)))))"

definition UpdateRole :: "env \<Rightarrow> role \<Rightarrow> string \<Rightarrow> (world, go_error, role) eff" where
  "UpdateRole env role0 actor =
     (let role = role0\<lparr>roleName := trimSpace (roleName role0)\<rparr> in
      WithTenantTx env (roleTenantID role) (updateRoleTx env role actor))"

definition deleteRoleTx :: "env \<Rightarrow> string \<Rightarrow> string \<Rightarrow> nat \<Rightarrow> string \<Rightarrow> (world, go_error, unit) eff" where
  "deleteRoleTx env tid rid revision actor =
     andThen (mapError (\<lambda>err. constraintConflict (Wrapped ''delete role'' err))
       (deleteFrom env rolesTable
         (\<lambda>r. r_id r = rid \<and> r_tenant r = tid \<and> r_revision r = revision \<and> r_kind r = RoleKindCustom)))
     (\<lambda>affected.
     if affected \<noteq> 1 then fail (newError ErrorConflict)
     else insertAuditEvent env (auditEvent (Some actor) (Some tid) ''role.deleted'' rid))"

definition DeleteRole :: "env \<Rightarrow> string \<Rightarrow> string \<Rightarrow> nat \<Rightarrow> string \<Rightarrow> (world, go_error, unit) eff" where
  "DeleteRole env tid rid revision actor =
     WithTenantTx env tid (deleteRoleTx env tid rid revision actor)"

subsection \<open>The protected roles of a new tenant\<close>

definition administratorRoleName :: string where "administratorRoleName = ''Administrator''"
definition userRoleName :: string where "userRoleName = ''User''"

record default_roles =
  administratorRole :: role
  userRole :: role

definition newRole ::
  "env \<Rightarrow> string \<Rightarrow> string \<Rightarrow> role_kind \<Rightarrow> permission list \<Rightarrow> (world, go_error, role) eff" where
  "newRole env tid name kind ps =
     andThen (newUUID env) (\<lambda>i.
     ret \<lparr>roleID = i, roleTenantID = tid, roleName = name, roleKind = kind, rolePermissions = ps,
          roleRevision = 1, roleCreatedAt = zeroTime, roleUpdatedAt = zeroTime\<rparr>)"

definition createDefaultRoles :: "env \<Rightarrow> string \<Rightarrow> (world, go_error, default_roles) eff" where
  "createDefaultRoles env tid =
     andThen (newRole env tid administratorRoleName RoleKindAdministrator allPermissions) (\<lambda>administrator.
     andThen (newRole env tid userRoleName RoleKindUser defaultUserPermissions) (\<lambda>usr.
     andThen (forEach (\<lambda>role.
         andThen (insertRole env role) (\<lambda>_.
         insertRolePermissions env tid (roleID role) (rolePermissions role))) [administrator, usr]) (\<lambda>_.
     ret \<lparr>administratorRole = administrator, userRole = usr\<rparr>)))"

subsection \<open>Lemmas\<close>

lemma scanRole_simps [simp]:
  "roleID (scanRole env w r) = r_id r" "roleTenantID (scanRole env w r) = r_tenant r"
  "roleName (scanRole env w r) = r_name r" "roleKind (scanRole env w r) = r_kind r"
  "roleRevision (scanRole env w r) = r_revision r"
  "rolePermissions (scanRole env w r) = permissionsOfRole env w (r_id r)"
  by (simp_all add: scanRole_def)

lemma set_permissionsOfRole:
  "set (permissionsOfRole env w rid) =
     {p_permission p | p. p \<in> set (role_permissions (w_db w)) \<and> p_role p = rid \<and> tenantVisible w (p_tenant p)}"
  by (auto simp: permissionsOfRole_def visibleRows_def rolePermissionsTable_def)

lemma findRoleTx_Inr:
  assumes "findRoleTx env tid rid w = (Inr role, w')"
  shows "w' = tick w \<and> (\<exists>r \<in> set (roles (w_db w)). r_id r = rid \<and> r_tenant r = tid \<and> role = scanRole env w r)"
  using assms
  by (auto simp: findRoleTx_def run_simps visibleRows_def rolesTable_def dest!: find_Some_member)

end
