(* ===== verification/MembershipStore.thy ===== *)
theory MembershipStore imports RoleStore begin

text \<open>
  Memberships in the database: \<^verbatim>\<open>server/postgres/memberships.go\<close> without its paged listing. \<open>updateMembershipTx\<close>
  locks the tenant, refuses to take away the tenant's last active administrator, checks the
  revision and ends the user's sessions.
\<close>

subsection \<open>Reading\<close>

text \<open>The join of \<^verbatim>\<open>membershipQuery\<close>, restricted to the memberships that satisfy \<open>P\<close>.\<close>

definition scanMembership ::
  "env \<Rightarrow> world \<Rightarrow> membership_row \<Rightarrow> tenant \<Rightarrow> role_row \<Rightarrow> user_row \<Rightarrow> membership" where
  "scanMembership env w m t r u =
     \<lparr>membershipID = m_id m, membershipUserID = m_user m, membershipUserEmail = u_email u,
      membershipTenant = t\<lparr>tenantCreatedAt := zeroTime, tenantUpdatedAt := zeroTime\<rparr>,
      membershipRoleID = r_id r, membershipRole = scanRole env w r,
      membershipStatus = m_status m, membershipRevision = m_revision m,
      membershipCreatedAt = m_created_at m, membershipUpdatedAt = m_updated_at m\<rparr>"

definition membershipQuery :: "env \<Rightarrow> world \<Rightarrow> (membership_row \<Rightarrow> bool) \<Rightarrow> membership list" where
  "membershipQuery env w P =
     [scanMembership env w m t r u.
        m \<leftarrow> visibleRows membershipsTable w, P m,
        t \<leftarrow> visibleRows tenantsTable w, tenantID t = m_tenant m,
        r \<leftarrow> visibleRows rolesTable w, r_id r = m_role m,
        u \<leftarrow> visibleRows usersTable w, u_id u = m_user m]"

definition firstRow :: "'a list \<Rightarrow> 'a option" where
  "firstRow rows = (case rows of [] \<Rightarrow> None | r # _ \<Rightarrow> Some r)"

definition byTenantName :: "env \<Rightarrow> membership \<Rightarrow> membership \<Rightarrow> bool" where
  "byTenantName env a b =
     (let x = tenantName (membershipTenant a); y = tenantName (membershipTenant b) in
      pgTextLess env x y \<or> (\<not> pgTextLess env y x \<and> bytesLess (membershipID a) (membershipID b)))"

definition MembershipsForUser :: "env \<Rightarrow> string \<Rightarrow> (world, go_error, membership list) eff" where
  "MembershipsForUser env uid =
     withSystemTx env
       (mapError (Wrapped ''list memberships'')
         (query env (\<lambda>w. orderBy (byTenantName env)
            (membershipQuery env w (\<lambda>m. m_user m = uid \<and> m_status m = MembershipActive)))))"

definition FindActiveMembership :: "env \<Rightarrow> string \<Rightarrow> string \<Rightarrow> (world, go_error, membership) eff" where
  "FindActiveMembership env uid tid =
     mapError (\<lambda>err. if isNoRows err then newError ErrorMembershipNotFound else err)
       (WithTenantTx env tid
         (queryRow env (\<lambda>w. firstRow (membershipQuery env w
            (\<lambda>m. m_user m = uid \<and> m_tenant m = tid \<and> m_status m = MembershipActive)))))"

subsection \<open>Updating\<close>

definition lockMembershipTenant :: "env \<Rightarrow> string \<Rightarrow> (world, go_error, unit) eff" where
  "lockMembershipTenant env tid =
     mapError (\<lambda>err. if err = NoRows then newError ErrorConflict else Wrapped ''lock membership tenant'' err)
       (andThen (queryRow env (\<lambda>w. List.find (\<lambda>t. tenantID t = tid) (visibleRows tenantsTable w)))
         (\<lambda>_. ret ()))"

definition lockMembership :: "env \<Rightarrow> string \<Rightarrow> string \<Rightarrow> (world, go_error, string \<times> role_kind) eff" where
  "lockMembership env mid tid =
     mapError (\<lambda>err. if err = NoRows then newError ErrorMembershipNotFound else Wrapped ''lock membership'' err)
       (queryRow env (\<lambda>w. firstRow
          [(m_user m, r_kind r).
             m \<leftarrow> visibleRows membershipsTable w, m_id m = mid \<and> m_tenant m = tid,
             r \<leftarrow> visibleRows rolesTable w, r_id r = m_role m]))"

definition membershipRoleKind :: "env \<Rightarrow> string \<Rightarrow> string \<Rightarrow> (world, go_error, role_kind) eff" where
  "membershipRoleKind env rid tid =
     mapError (\<lambda>err. if err = NoRows then newError ErrorRoleNotFound
                     else Wrapped ''find target membership role'' err)
       (queryRow env (\<lambda>w. map_option r_kind
          (List.find (\<lambda>r. r_id r = rid \<and> r_tenant r = tid) (visibleRows rolesTable w))))"

definition removesAdministrator :: "membership_status \<Rightarrow> role_kind \<Rightarrow> role_kind \<Rightarrow> bool" where
  "removesAdministrator status currentKind targetKind \<longleftrightarrow>
     currentKind = RoleKindAdministrator
     \<and> (status \<noteq> MembershipActive \<or> targetKind \<noteq> RoleKindAdministrator)"

definition protectFinalAdministrator ::
  "env \<Rightarrow> membership \<Rightarrow> role_kind \<Rightarrow> role_kind \<Rightarrow> (world, go_error, unit) eff" where
  "protectFinalAdministrator env membership currentKind targetKind =
     (if \<not> removesAdministrator (membershipStatus membership) currentKind targetKind then ret ()
      else
        andThen (mapError (Wrapped ''count tenant administrators'')
          (queryRow env (\<lambda>w. Some (length
             [other. other \<leftarrow> visibleRows membershipsTable w,
                m_tenant other = tenantID (membershipTenant membership)
                  \<and> m_id other \<noteq> membershipID membership \<and> m_status other = MembershipActive,
                r \<leftarrow> visibleRows rolesTable w, r_id r = m_role other \<and> r_kind r = RoleKindAdministrator]))))
        (\<lambda>otherAdministrators.
        if otherAdministrators = 0 then fail (newError ErrorConflict) else ret ()))"

definition changeMembership :: "string \<Rightarrow> membership_status \<Rightarrow> time \<Rightarrow> membership_row \<Rightarrow> membership_row" where
  "changeMembership rid status now m =
     m\<lparr>m_role := rid, m_status := status, m_revision := m_revision m + 1, m_updated_at := now\<rparr>"

definition persistMembershipUpdate :: "env \<Rightarrow> membership \<Rightarrow> (world, go_error, unit) eff" where
  "persistMembershipUpdate env membership =
     andThen (mapError (Wrapped ''update membership'')
       (updateTable env membershipsTable
         (\<lambda>now m. m_id m = membershipID membership \<and> m_tenant m = tenantID (membershipTenant membership)
            \<and> m_revision m = membershipRevision membership)
         (changeMembership (membershipRoleID membership) (membershipStatus membership)))) (\<lambda>changed.
     if length changed \<noteq> 1 then fail (newError ErrorConflict) else ret ())"

definition bumpSession :: "time \<Rightarrow> user_row \<Rightarrow> user_row" where
  "bumpSession now r =
     r\<lparr>u_user := (u_user r)\<lparr>sessionVersion := sessionVersion (u_user r) + 1\<rparr>, u_updated_at := now\<rparr>"

definition invalidateUserSession :: "env \<Rightarrow> string \<Rightarrow> (world, go_error, unit) eff" where
  "invalidateUserSession env uid =
     andThen (mapError (Wrapped ''invalidate changed membership session'')
       (updateTable env usersTable (\<lambda>now r. u_id r = uid) bumpSession)) (\<lambda>_. ret ())"

definition updateMembershipTx :: "env \<Rightarrow> membership \<Rightarrow> string \<Rightarrow> (world, go_error, membership) eff" where
  "updateMembershipTx env membership0 actor =
     (let tid = tenantID (membershipTenant membership0) in
      andThen (lockMembershipTenant env tid) (\<lambda>_.
      andThen (lockMembership env (membershipID membership0) tid) (\<lambda>(uid, currentKind).
      let membership = membership0\<lparr>membershipUserID := uid\<rparr> in
      andThen (membershipRoleKind env (membershipRoleID membership) tid) (\<lambda>targetKind.
      andThen (protectFinalAdministrator env membership currentKind targetKind) (\<lambda>_.
      andThen (persistMembershipUpdate env membership) (\<lambda>_.
      andThen (invalidateUserSession env (membershipUserID membership)) (\<lambda>_.
      andThen (mapError (Wrapped ''reload membership'')
        (queryRow env (\<lambda>w. firstRow (membershipQuery env w
           (\<lambda>m. m_id m = membershipID membership \<and> m_tenant m = tid))))) (\<lambda>updated.
      andThen (insertAuditEvent env
        (auditEvent (Some actor) (Some (tenantID (membershipTenant updated))) ''membership.updated''
          (membershipUserEmail updated))) (\<lambda>_.
      ret updated)))))))))"

definition UpdateMembership :: "env \<Rightarrow> membership \<Rightarrow> string \<Rightarrow> (world, go_error, membership) eff" where
  "UpdateMembership env membership actor =
     WithTenantTx env (tenantID (membershipTenant membership)) (updateMembershipTx env membership actor)"

subsection \<open>Lemmas\<close>

lemma firstRow_Some: "firstRow rows = Some r \<Longrightarrow> r \<in> set rows"
  by (auto simp: firstRow_def split: list.splits)

lemma firstRow_None [simp]: "firstRow rows = None \<longleftrightarrow> rows = []"
  by (auto simp: firstRow_def split: list.splits)

lemma set_membershipQuery:
  "set (membershipQuery env w P) =
     {scanMembership env w m t r u | m t r u.
        m \<in> set (visibleRows membershipsTable w) \<and> P m \<and>
        t \<in> set (visibleRows tenantsTable w) \<and> tenantID t = m_tenant m \<and>
        r \<in> set (visibleRows rolesTable w) \<and> r_id r = m_role m \<and>
        u \<in> set (visibleRows usersTable w) \<and> u_id u = m_user m}"
  by (auto simp: membershipQuery_def split: if_splits)

lemma bumpSession_simps [simp]:
  "u_id (bumpSession now r) = u_id r" "u_email (bumpSession now r) = u_email r"
  "u_session_version (bumpSession now r) = u_session_version r + 1"
  "u_password_hash (bumpSession now r) = u_password_hash r"
  "u_created_at (bumpSession now r) = u_created_at r"
  "globalRole (u_user (bumpSession now r)) = globalRole (u_user r)"
  "userLocale (u_user (bumpSession now r)) = userLocale (u_user r)"
  by (simp_all add: bumpSession_def)

lemma changeMembership_simps [simp]:
  "m_id (changeMembership rid st now m) = m_id m" "m_tenant (changeMembership rid st now m) = m_tenant m"
  "m_user (changeMembership rid st now m) = m_user m" "m_role (changeMembership rid st now m) = rid"
  "m_status (changeMembership rid st now m) = st"
  "m_revision (changeMembership rid st now m) = m_revision m + 1"
  by (simp_all add: changeMembership_def)

end
