(* ===== verification/UserStore.thy ===== *)
theory UserStore imports MembershipStore begin

text \<open>
  Users and their external identities in the database: \<^verbatim>\<open>server/postgres/users.go\<close>,
  \<^verbatim>\<open>server/postgres/external_identities.go\<close>, \<^verbatim>\<open>GetUser\<close> of \<^verbatim>\<open>server/postgres/user_directory.go\<close> and the counters of
  \<^verbatim>\<open>server/postgres/stats.go\<close>.

  The column \<^verbatim>\<open>password_hash\<close> may be NULL. \<^verbatim>\<open>FindByEmail\<close> scans it into a Go string, which pgx refuses for
  a NULL with an error of its own.
\<close>

subsection \<open>Reading\<close>

definition scanNullError :: go_error where
  "scanNullError = OpaqueError ''cannot scan NULL into *clinks.PasswordHash''"

definition FindByEmail :: "env \<Rightarrow> string \<Rightarrow> (world, go_error, user \<times> string) eff" where
  "FindByEmail env email =
     withSystemTx env
       (mapError (\<lambda>err. if err = NoRows then newError ErrorInvalidCredentials
                       else Wrapped ''find user by email'' err)
         (andThen (queryRow env (\<lambda>w. List.find (\<lambda>r. u_email r = email) (visibleRows usersTable w))) (\<lambda>r.
          case u_password_hash r of
            None \<Rightarrow> fail scanNullError
          | Some h \<Rightarrow> ret (u_user r, h))))"

definition FindByID :: "env \<Rightarrow> string \<Rightarrow> (world, go_error, user) eff" where
  "FindByID env uid =
     withSystemTx env
       (mapError (\<lambda>err. if err = NoRows then newError ErrorInvalidCredentials
                       else Wrapped ''find user by ID'' err)
         (queryRow env (\<lambda>w. map_option u_user (List.find (\<lambda>r. u_id r = uid) (visibleRows usersTable w)))))"

definition scanUser :: "env \<Rightarrow> string \<Rightarrow> (world, go_error, user) eff" where
  "scanUser env uid =
     mapError (\<lambda>err. if err = NoRows then newError ErrorUserNotFound else Wrapped ''find user'' err)
       (queryRow env (\<lambda>w. map_option u_user (List.find (\<lambda>r. u_id r = uid) (visibleRows usersTable w))))"

definition listUserMemberships :: "env \<Rightarrow> string \<Rightarrow> (world, go_error, membership list) eff" where
  "listUserMemberships env uid =
     mapError (Wrapped ''list user memberships'')
       (query env (\<lambda>w. orderBy (byTenantName env)
          (membershipQuery env w (\<lambda>m. m_user m = uid \<and> m_status m = MembershipActive))))"

definition GetUser :: "env \<Rightarrow> string \<Rightarrow> (world, go_error, user \<times> membership list) eff" where
  "GetUser env uid =
     withSystemTx env
       (andThen (scanUser env uid) (\<lambda>usr.
        andThen (listUserMemberships env uid) (\<lambda>ms. ret (usr, ms))))"

definition FindUser :: "env \<Rightarrow> string \<Rightarrow> string \<Rightarrow> (world, go_error, user) eff" where
  "FindUser env issuer subject =
     withSystemTx env
       (mapError (\<lambda>err. if err = NoRows then newError ErrorInvalidCredentials
                       else Wrapped ''find external identity'' err)
         (queryRow env (\<lambda>w. firstRow
            [u_user u. x \<leftarrow> visibleRows identitiesTable w, x_issuer x = issuer \<and> x_subject x = subject,
                       u \<leftarrow> visibleRows usersTable w, u_id u = x_user x])))"

subsection \<open>Writing\<close>

definition InvalidateSession :: "env \<Rightarrow> string \<Rightarrow> (world, go_error, unit) eff" where
  "InvalidateSession env uid =
     withSystemTx env
       (andThen (mapError (\<lambda>err. if err = NoRows then newError ErrorInvalidCredentials
                               else Wrapped ''invalidate session'' err)
          (updateReturning env usersTable (\<lambda>now r. u_id r = uid) bumpSession)) (\<lambda>r.
        insertAuditEvent env (auditEvent (Some uid) None ''session.logout'' (u_email r))))"

definition RotateTenantSession :: "env \<Rightarrow> string \<Rightarrow> string \<Rightarrow> string \<Rightarrow> (world, go_error, int) eff" where
  "RotateTenantSession env uid tid name =
     withSystemTx env
       (andThen (mapError (\<lambda>err. if isNoRows err then newError ErrorInvalidCredentials
                               else Wrapped ''rotate tenant session'' err)
          (updateReturning env usersTable (\<lambda>now r. u_id r = uid) bumpSession)) (\<lambda>r.
        andThen (insertAuditEvent env (auditEvent (Some uid) (Some tid) ''tenant.switch'' name)) (\<lambda>_.
        ret (u_session_version r))))"

definition insertUser :: "env \<Rightarrow> user \<Rightarrow> string option \<Rightarrow> (world, go_error, user_row) eff" where
  "insertUser env usr hash =
     insertInto env usersTable (\<lambda>now.
       \<lparr>u_user = usr, u_password_hash = hash, u_created_at = now, u_updated_at = now\<rparr>)"

record super_admin_bootstrap =
  bootstrapEmail :: string
  bootstrapPasswordHash :: string
  bootstrapLocale :: string

definition ensureSuperAdminTx :: "env \<Rightarrow> super_admin_bootstrap \<Rightarrow> (world, go_error, unit) eff" where
  "ensureSuperAdminTx env bootstrap =
     andThen (attempt (queryRow env (\<lambda>w. map_option (\<lambda>r. globalRole (u_user r))
        (List.find (\<lambda>r. u_email r = bootstrapEmail bootstrap) (visibleRows usersTable w))))) (\<lambda>found.
     case found of
       Inr role \<Rightarrow> if isSuperAdministrator role then ret () else fail (newError ErrorEmailTaken)
     | Inl err \<Rightarrow>
         if err \<noteq> NoRows then fail (Wrapped ''look up bootstrap administrator'' err)
         else
           andThen (newUUID env) (\<lambda>i.
           mapError mapIdentityDatabaseError
             (andThen (insertUser env
                \<lparr>userID = i, userEmail = bootstrapEmail bootstrap,
                 globalRole = GlobalRoleSuperAdministrator, userLocale = bootstrapLocale bootstrap,
                 sessionVersion = 1\<rparr> (Some (bootstrapPasswordHash bootstrap))) (\<lambda>_. ret ()))))"

definition EnsureSuperAdmin :: "env \<Rightarrow> super_admin_bootstrap \<Rightarrow> (world, go_error, unit) eff" where
  "EnsureSuperAdmin env bootstrap = withSystemTx env (ensureSuperAdminTx env bootstrap)"

definition insertIdentity :: "env \<Rightarrow> string \<Rightarrow> external_identity \<Rightarrow> (world, go_error, unit) eff" where
  "insertIdentity env uid identity =
     andThen (insertInto env identitiesTable (\<lambda>now.
       \<lparr>x_issuer = identityIssuer identity, x_subject = identitySubject identity, x_user = uid,
        x_email = identityEmail identity, x_created_at = now\<rparr>)) (\<lambda>_. ret ())"

definition LinkWithAudit ::
  "env \<Rightarrow> string \<Rightarrow> external_identity \<Rightarrow> string option \<Rightarrow> (world, go_error, unit) eff" where
  "LinkWithAudit env uid identity tid =
     withSystemTx env
       (andThen (mapError (\<lambda>err. constraintConflict (Wrapped ''link external identity'' err))
          (insertIdentity env uid identity)) (\<lambda>_.
        insertAuditEvent env (auditEvent (Some uid) tid ''identity.oidc_linked'' (identityIssuer identity))))"

subsection \<open>Counters\<close>

record system_stats =
  userCount :: nat
  tenantCount :: nat
  pendingInvitationCount :: nat
  activeLanguageCount :: nat

definition Stats :: "env \<Rightarrow> (world, go_error, system_stats) eff" where
  "Stats env =
     mapError (Wrapped ''fetch system stats'')
       (withSystemTx env
         (queryRow env (\<lambda>w. Some
           \<lparr>userCount = length (visibleRows usersTable w),
            tenantCount = length (visibleRows tenantsTable w),
            pendingInvitationCount =
              countWhere (\<lambda>i. i_used_at i = None \<and> w_now w < i_expires_at i) (visibleRows invitationsTable w),
            activeLanguageCount = countWhere isActiveLanguage (visibleRows languagesTable w)\<rparr>)))"

end
