(* ===== verification/TenantStore.thy ===== *)
theory TenantStore imports UserStore begin

text \<open>
  Tenants in the database: \<^verbatim>\<open>server/postgres/tenants.go\<close> without its paged listing, and the registration of a
  tenant with its owner, \<^verbatim>\<open>server/postgres/tenant_provisioner.go\<close>.
\<close>

definition insertTenantRow :: "env \<Rightarrow> tenant \<Rightarrow> (world, go_error, unit) eff" where
  "insertTenantRow env ten =
     mapError (Wrapped ''create tenant'')
       (andThen (insertInto env tenantsTable (\<lambda>now.
          \<lparr>tenantID = tenantID ten, tenantName = tenantName ten, tenantRevision = 1,
           tenantCreatedAt = now, tenantUpdatedAt = now\<rparr>)) (\<lambda>_. ret ()))"

definition createTenantTx :: "env \<Rightarrow> tenant \<Rightarrow> string \<Rightarrow> (world, go_error, unit) eff" where
  "createTenantTx env ten actor =
     andThen (insertTenantRow env ten) (\<lambda>_.
     andThen (createDefaultRoles env (tenantID ten)) (\<lambda>_.
     insertAuditEvent env (auditEvent (Some actor) (Some (tenantID ten)) ''tenant.created'' (tenantName ten))))"

definition newTenant :: "string \<Rightarrow> string \<Rightarrow> tenant" where
  "newTenant i name =
     \<lparr>tenantID = i, tenantName = trimSpace name, tenantRevision = 1,
      tenantCreatedAt = zeroTime, tenantUpdatedAt = zeroTime\<rparr>"

definition Create :: "env \<Rightarrow> string \<Rightarrow> string \<Rightarrow> (world, go_error, tenant) eff" where
  "Create env name actor =
     andThen (newUUID env) (\<lambda>i.
     let ten = newTenant i name in
     andThen (withSystemTx env (createTenantTx env ten actor)) (\<lambda>_. ret ten))"

definition renameTenant :: "string \<Rightarrow> time \<Rightarrow> tenant \<Rightarrow> tenant" where
  "renameTenant name now r =
     r\<lparr>tenantName := name, tenantRevision := tenantRevision r + 1, tenantUpdatedAt := now\<rparr>"

definition updateTenantTx :: "env \<Rightarrow> tenant \<Rightarrow> string \<Rightarrow> (world, go_error, tenant) eff" where
  "updateTenantTx env ten actor =
     andThen (mapError (\<lambda>err. if err = NoRows then newError ErrorConflict else Wrapped ''update tenant'' err)
       (updateReturning env tenantsTable
         (\<lambda>now r. tenantID r = tenantID ten \<and> tenantRevision r = tenantRevision ten)
         (renameTenant (tenantName ten)))) (\<lambda>r.
     let ten' = ten\<lparr>tenantRevision := tenantRevision r\<rparr> in
     andThen (insertAuditEvent env
       (auditEvent (Some actor) (Some (tenantID ten')) ''tenant.updated'' (tenantName ten'))) (\<lambda>_.
     ret ten'))"

definition UpdateSystem :: "env \<Rightarrow> tenant \<Rightarrow> string \<Rightarrow> (world, go_error, tenant) eff" where
  "UpdateSystem env ten actor = withSystemTx env (updateTenantTx env ten actor)"

definition UpdateTenant :: "env \<Rightarrow> tenant \<Rightarrow> string \<Rightarrow> (world, go_error, tenant) eff" where
  "UpdateTenant env ten actor = WithTenantTx env (tenantID ten) (updateTenantTx env ten actor)"

subsection \<open>Registration of a tenant and its owner\<close>

record tenant_owner_registration =
  registrationEmail :: string
  registrationPasswordHash :: string
  registrationLocale :: string
  registrationTenantName :: string

record tenant_owner =
  ownerTenant :: tenant
  ownerUser :: user
  ownerMembership :: membership

definition newTenantOwner ::
  "env \<Rightarrow> tenant_owner_registration \<Rightarrow> (world, go_error, tenant_owner) eff" where
  "newTenantOwner env registration =
     andThen (newUUID env) (\<lambda>tid.
     andThen (newUUID env) (\<lambda>uid.
     andThen (newUUID env) (\<lambda>mid.
     let ten = newTenant tid (registrationTenantName registration);
         usr = \<lparr>userID = uid, userEmail = registrationEmail registration, globalRole = GlobalRoleUser,
                userLocale = registrationLocale registration, sessionVersion = 1\<rparr> in
     ret \<lparr>ownerTenant = ten, ownerUser = usr,
          ownerMembership =
            \<lparr>membershipID = mid, membershipUserID = uid, membershipUserEmail = [], membershipTenant = ten,
             membershipRoleID = [], membershipRole = zeroRole, membershipStatus = MembershipActive,
             membershipRevision = 1, membershipCreatedAt = zeroTime, membershipUpdatedAt = zeroTime\<rparr>\<rparr>)))"

definition insertTenantOwnerUser :: "env \<Rightarrow> user \<Rightarrow> string \<Rightarrow> (world, go_error, unit) eff" where
  "insertTenantOwnerUser env usr hash =
     mapError mapIdentityDatabaseError
       (andThen (insertUser env (usr\<lparr>sessionVersion := 1\<rparr>) (Some hash)) (\<lambda>_. ret ()))"

definition insertMembershipRow :: "env \<Rightarrow> membership \<Rightarrow> (world, go_error, unit) eff" where
  "insertMembershipRow env membership =
     andThen (insertInto env membershipsTable (\<lambda>now.
       \<lparr>m_id = membershipID membership, m_tenant = tenantID (membershipTenant membership),
        m_user = membershipUserID membership, m_role = membershipRoleID membership,
        m_status = membershipStatus membership, m_revision = 1, m_created_at = now, m_updated_at = now\<rparr>))
     (\<lambda>_. ret ())"

definition insertOwnerMembership :: "env \<Rightarrow> membership \<Rightarrow> (world, go_error, unit) eff" where
  "insertOwnerMembership env membership =
     mapError (Wrapped ''create owner membership'') (insertMembershipRow env membership)"

definition provisionTenantOwner ::
  "env \<Rightarrow> string \<Rightarrow> tenant_owner \<Rightarrow> (world, go_error, tenant_owner) eff" where
  "provisionTenantOwner env hash owner =
     andThen (insertTenantRow env (ownerTenant owner)) (\<lambda>_.
     andThen (insertTenantOwnerUser env (ownerUser owner) hash) (\<lambda>_.
     andThen (createDefaultRoles env (tenantID (ownerTenant owner))) (\<lambda>rs.
     let membership = (ownerMembership owner)
           \<lparr>membershipRoleID := roleID (administratorRole rs), membershipRole := administratorRole rs\<rparr> in
     andThen (insertOwnerMembership env membership) (\<lambda>_.
     andThen (insertAuditEvent env
       (auditEvent (Some (userID (ownerUser owner))) (Some (tenantID (ownerTenant owner)))
          ''tenant.registered'' (tenantName (ownerTenant owner)))) (\<lambda>_.
     ret (owner\<lparr>ownerMembership := membership\<rparr>))))))"

definition CreateTenantOwner ::
  "env \<Rightarrow> tenant_owner_registration \<Rightarrow> (world, go_error, session) eff" where
  "CreateTenantOwner env registration =
     andThen (newTenantOwner env registration) (\<lambda>owner0.
     andThen (mapError (Wrapped ''provision tenant owner'')
       (withSystemTx env
         (provisionTenantOwner env (registrationPasswordHash registration) owner0))) (\<lambda>owner.
     ret \<lparr>sessionToken = [], sessionUser = ownerUser owner, activeTenant = Some (ownerTenant owner),
          sessionMemberships = [ownerMembership owner]\<rparr>))"

end
