(* ===== verification/InvitationStore.thy ===== *)
theory InvitationStore imports TenantStore begin

text \<open>
  Invitations in the database: \<^verbatim>\<open>server/postgres/invitations.go\<close> and the revocations of
  \<^verbatim>\<open>server/postgres/invitation_administration.go\<close>. An invitation is created together with the outbox job
  that mails it, and accepted in one transaction that locks it, resolves or creates the user, links the
  external identity when there is one, creates or reactivates the membership and marks it used.
\<close>

subsection \<open>Creating\<close>

definition insertInvitation :: "env \<Rightarrow> invitation \<Rightarrow> (world, go_error, unit) eff" where
  "insertInvitation env i =
     mapError (Wrapped ''create invitation'')
       (andThen (insertInto env invitationsTable (\<lambda>now.
          \<lparr>i_id = invitationID i, i_tenant = invitationTenantID i, i_email = invitationEmail i,
           i_role = invitationRoleID i, i_token_hash = Some (tokenHash i),
           i_expires_at = pgTime (expiresAt i), i_used_at = None, i_revoked_at = None,
           i_created_by = createdBy i, i_delivery_status = DeliveryQueued,
           i_delivery_locale = invitationLocale i, i_anonymized_at = None, i_created_at = now\<rparr>)) (\<lambda>_. ret ()))"

definition outboxJobInvitationEmail :: string where
  "outboxJobInvitationEmail = ''invitation.email''"

definition enqueueInvitationEmail :: "env \<Rightarrow> invitation \<Rightarrow> (world, go_error, unit) eff" where
  "enqueueInvitationEmail env i =
     andThen (newUUID env) (\<lambda>job.
     mapError (Wrapped ''enqueue invitation email'')
       (andThen (insertInto env outboxTable (\<lambda>now.
          \<lparr>o_id = job, o_tenant = invitationTenantID i, o_kind = outboxJobInvitationEmail,
           o_invitation = invitationID i, o_status = OutboxPending, o_attempts = 0, o_available_at = now,
           o_locked_at = None, o_lease_token = None, o_completed_at = None, o_dead_lettered_at = None,
           o_last_error = None, o_created_at = now, o_updated_at = now\<rparr>)) (\<lambda>_. ret ())))"

definition createInvitationTx :: "env \<Rightarrow> invitation \<Rightarrow> (world, go_error, unit) eff" where
  "createInvitationTx env i =
     andThen (insertInvitation env i) (\<lambda>_.
     andThen (insertAuditEvent env
       (auditEvent (Some (createdBy i)) (Some (invitationTenantID i)) ''invitation.created'' (invitationEmail i)))
     (\<lambda>_. enqueueInvitationEmail env i))"

definition CreateInvitation :: "env \<Rightarrow> invitation \<Rightarrow> (world, go_error, invitation) eff" where
  "CreateInvitation env i =
     (if \<not> validUUID (invitationID i) \<or> \<not> validUUID (invitationTenantID i)
         \<or> \<not> validUUID (invitationRoleID i) \<or> \<not> validUUID (createdBy i)
         \<or> \<not> locale_isValid (invitationLocale i)
      then fail (newError ErrorValidation)
      else andThen (WithTenantTx env (invitationTenantID i) (createInvitationTx env i)) (\<lambda>_.
           ret (i\<lparr>deliveryStatus := DeliveryQueued\<rparr>)))"

subsection \<open>Reading\<close>

definition scanInvitation :: "invitation_row \<Rightarrow> invitation" where
  "scanInvitation r =
     \<lparr>invitationID = i_id r, invitationTenantID = i_tenant r, invitationEmail = i_email r,
      invitationRoleID = i_role r, invitationRole = zeroRole,
      tokenHash = (case i_token_hash r of None \<Rightarrow> [] | Some h \<Rightarrow> h),
      expiresAt = i_expires_at r, usedAt = i_used_at r, revokedAt = i_revoked_at r,
      createdBy = i_created_by r, acceptanceURL = [], deliveryStatus = i_delivery_status r,
      invitationLocale = i_delivery_locale r, invitationCreatedAt = zeroTime\<rparr>"

definition FindInvitation :: "env \<Rightarrow> string \<Rightarrow> (world, go_error, invitation) eff" where
  "FindInvitation env hash =
     withSystemTx env
       (mapError (\<lambda>err. if err = NoRows then newError ErrorInvitationInvalid else Wrapped ''find invitation'' err)
         (queryRow env (\<lambda>w. map_option scanInvitation
            (List.find (\<lambda>r. i_token_hash r = Some hash) (visibleRows invitationsTable w)))))"

subsection \<open>Accepting\<close>

definition lockedInvitation :: "env \<Rightarrow> string \<Rightarrow> (world, go_error, invitation) eff" where
  "lockedInvitation env hash =
     andThen (mapError (\<lambda>err. if err = NoRows then newError ErrorInvitationInvalid
                              else Wrapped ''lock invitation'' err)
       (queryRow env (\<lambda>w. map_option (\<lambda>r. (scanInvitation r, i_expires_at r \<le> w_now w))
          (List.find (\<lambda>r. i_token_hash r = Some hash) (visibleRows invitationsTable w))))) (\<lambda>(i, expired).
     if usedAt i \<noteq> None then fail (newError ErrorInvitationUsed)
     else if revokedAt i \<noteq> None then fail (newError ErrorInvitationInvalid)
     else if expired then fail (newError ErrorInvitationExpired)
     else ret i)"

definition acceptIdentity :: "env \<Rightarrow> user \<Rightarrow> string \<Rightarrow> bool \<Rightarrow> (world, go_error, user) eff" where
  "acceptIdentity env usr hash existingUser =
     (if existingUser then
        (if \<not> validUUID (userID usr) then fail (newError ErrorValidation)
         else
           andThen (mapError (\<lambda>err. if isNoRows err then newError ErrorUserNotFound
                                    else Wrapped ''resolve accepted user'' err)
             (queryRow env (\<lambda>w. map_option u_user
                (List.find (\<lambda>r. u_id r = userID usr) (visibleRows usersTable w))))) (\<lambda>stored.
           if userEmail stored \<noteq> userEmail usr \<or> isSuperAdministrator (globalRole stored)
           then fail (newError ErrorUnauthorized)
           else ret stored))
      else
        andThen (newUUID env) (\<lambda>i.
        let usr' = usr\<lparr>userID := i, globalRole := GlobalRoleUser\<rparr> in
        andThen (mapError mapIdentityDatabaseError
          (insertUser env usr' (if hash \<noteq> [] then Some hash else None))) (\<lambda>_.
        ret usr')))"

definition linkInvitationIdentity :: "env \<Rightarrow> user \<Rightarrow> external_identity \<Rightarrow> (world, go_error, unit) eff" where
  "linkInvitationIdentity env usr identity =
     (if identityEmail identity \<noteq> userEmail usr then fail (newError ErrorInviteEmailMismatch)
      else mapError (\<lambda>err. constraintConflict (Wrapped ''link invitation external identity'' err))
             (insertIdentity env (userID usr) identity))"

definition invitationMembership :: "env \<Rightarrow> invitation \<Rightarrow> string \<Rightarrow> (world, go_error, membership) eff" where
  "invitationMembership env i uid =
     mapError (\<lambda>err. if err = NoRows then newError ErrorRoleNotFound
                     else Wrapped ''find invitation tenant role'' err)
       (queryRow env (\<lambda>w. firstRow
          [\<lparr>membershipID = [], membershipUserID = uid, membershipUserEmail = [],
            membershipTenant = t\<lparr>tenantCreatedAt := zeroTime, tenantUpdatedAt := zeroTime\<rparr>,
            membershipRoleID = invitationRoleID i, membershipRole = scanRole env w r,
            membershipStatus = MembershipActive, membershipRevision = 0,
            membershipCreatedAt = zeroTime, membershipUpdatedAt = zeroTime\<rparr>.
             t \<leftarrow> visibleRows tenantsTable w, tenantID t = invitationTenantID i,
             r \<leftarrow> visibleRows rolesTable w, r_tenant r = tenantID t \<and> r_id r = invitationRoleID i]))"

definition insertInvitationMembership :: "env \<Rightarrow> membership \<Rightarrow> (world, go_error, unit) eff" where
  "insertInvitationMembership env membership =
     mapError (\<lambda>err. constraintConflict (Wrapped ''create invitation membership'' err))
       (insertMembershipRow env membership)"

definition createMembership :: "env \<Rightarrow> invitation \<Rightarrow> string \<Rightarrow> (world, go_error, membership) eff" where
  "createMembership env i uid =
     andThen (invitationMembership env i uid) (\<lambda>membership.
     andThen (attempt (queryRow env (\<lambda>w. List.find
        (\<lambda>m. m_tenant m = invitationTenantID i \<and> m_user m = uid) (visibleRows membershipsTable w)))) (\<lambda>found.
     case found of
       Inr m \<Rightarrow>
         if m_status m = MembershipActive then fail (newError ErrorConflict)
         else
           andThen (mapError (\<lambda>err. if isNoRows err then newError ErrorConflict
                                    else Wrapped ''reactivate invitation membership'' err)
             (updateReturning env membershipsTable
               (\<lambda>now r. m_tenant r = invitationTenantID i \<and> m_user r = uid \<and> m_status r = MembershipInactive)
               (changeMembership (invitationRoleID i) MembershipActive))) (\<lambda>r.
           ret (membership\<lparr>membershipID := m_id m, membershipRevision := m_revision r,
                  membershipCreatedAt := m_created_at m, membershipUpdatedAt := m_updated_at r,
                  membershipStatus := MembershipActive\<rparr>))
     | Inl err \<Rightarrow>
         if \<not> isNoRows err then fail (Wrapped ''find invitation membership'' err)
         else
           andThen (newUUID env) (\<lambda>newID.
           let membership' = membership\<lparr>membershipID := newID, membershipStatus := MembershipActive\<rparr> in
           andThen (insertInvitationMembership env membership') (\<lambda>_.
           ret (membership'\<lparr>membershipRevision := 1\<rparr>)))))"

definition useInvitation :: "time \<Rightarrow> invitation_row \<Rightarrow> invitation_row" where
  "useInvitation now r = r\<lparr>i_used_at := Some now\<rparr>"

definition markInvitationUsed :: "env \<Rightarrow> string \<Rightarrow> (world, go_error, unit) eff" where
  "markInvitationUsed env iid =
     andThen (mapError (Wrapped ''mark invitation as used'')
       (updateTable env invitationsTable (\<lambda>now r. i_id r = iid \<and> i_used_at r = None) useInvitation)) (\<lambda>changed.
     if length changed \<noteq> 1 then fail (newError ErrorInvitationUsed) else ret ())"

record invitation_acceptance =
  acceptedInvitation :: invitation
  acceptedUser :: user
  acceptedPasswordHash :: string
  acceptedExistingUser :: bool
  acceptedIdentity :: "external_identity option"

definition acceptInvitationTx ::
  "env \<Rightarrow> invitation_acceptance \<Rightarrow> (world, go_error, user \<times> membership) eff" where
  "acceptInvitationTx env a =
     andThen (lockedInvitation env (tokenHash (acceptedInvitation a))) (\<lambda>i.
     if invitationEmail i \<noteq> userEmail (acceptedUser a) then fail (newError ErrorInviteEmailMismatch) else
     andThen (acceptIdentity env (acceptedUser a) (acceptedPasswordHash a) (acceptedExistingUser a)) (\<lambda>usr.
     andThen (case acceptedIdentity a of
                None \<Rightarrow> ret ()
              | Some identity \<Rightarrow> linkInvitationIdentity env usr identity) (\<lambda>_.
     andThen (createMembership env i (userID usr)) (\<lambda>membership.
     andThen (if acceptedExistingUser a
              then andThen (mapError (Wrapped ''rotate accepted user session'')
                     (updateReturning env usersTable (\<lambda>now r. u_id r = userID usr) bumpSession)) (\<lambda>r.
                   ret (usr\<lparr>sessionVersion := u_session_version r\<rparr>))
              else ret usr) (\<lambda>usr'.
     andThen (markInvitationUsed env (invitationID i)) (\<lambda>_.
     andThen (insertAuditEvent env
       (auditEvent (Some (userID usr')) (Some (invitationTenantID i)) ''invitation.accepted'' (userEmail usr')))
     (\<lambda>_. ret (usr', membership))))))))"

definition acceptInvitation ::
  "env \<Rightarrow> invitation_acceptance \<Rightarrow> (world, go_error, user \<times> membership) eff" where
  "acceptInvitation env a = withSystemTx env (acceptInvitationTx env a)"

text \<open>\<^verbatim>\<open>Store.AcceptInvitation\<close> and \<^verbatim>\<open>Store.AcceptExternalInvitation\<close>.\<close>

definition AcceptPasswordInvitation ::
  "env \<Rightarrow> invitation \<Rightarrow> user \<Rightarrow> string \<Rightarrow> bool \<Rightarrow> (world, go_error, user \<times> membership) eff" where
  "AcceptPasswordInvitation env i usr hash existing =
     acceptInvitation env
       \<lparr>acceptedInvitation = i, acceptedUser = usr, acceptedPasswordHash = hash,
        acceptedExistingUser = existing, acceptedIdentity = None\<rparr>"

definition AcceptExternalInvitation ::
  "env \<Rightarrow> invitation \<Rightarrow> user \<Rightarrow> external_identity \<Rightarrow> bool \<Rightarrow> (world, go_error, user \<times> membership) eff" where
  "AcceptExternalInvitation env i usr identity existing =
     acceptInvitation env
       \<lparr>acceptedInvitation = i, acceptedUser = usr, acceptedPasswordHash = [],
        acceptedExistingUser = existing, acceptedIdentity = Some identity\<rparr>"

subsection \<open>Revoking\<close>

definition revokeRow :: "time \<Rightarrow> invitation_row \<Rightarrow> invitation_row" where
  "revokeRow now r = r\<lparr>i_revoked_at := Some now\<rparr>"

definition cancelJob :: "time \<Rightarrow> outbox_row \<Rightarrow> outbox_row" where
  "cancelJob now r =
     r\<lparr>o_status := OutboxDeadLetter, o_locked_at := None, o_lease_token := None,
       o_dead_lettered_at := Some now, o_updated_at := now, o_last_error := Some ''invitation revoked''\<rparr>"

definition revokeInvitationTx :: "env \<Rightarrow> string \<Rightarrow> string \<Rightarrow> (world, go_error, unit) eff" where
  "revokeInvitationTx env iid actor =
     andThen (mapError (\<lambda>err. if err = NoRows then newError ErrorInvitationInvalid
                              else Wrapped ''revoke invitation'' err)
       (updateReturning env invitationsTable
         (\<lambda>now r. i_id r = iid \<and> i_used_at r = None \<and> i_revoked_at r = None) revokeRow)) (\<lambda>r.
     andThen (mapError (Wrapped ''cancel revoked invitation delivery'')
       (updateTable env outboxTable
         (\<lambda>now j. o_invitation j = iid \<and> (o_status j = OutboxPending \<or> o_status j = OutboxProcessing))
         cancelJob)) (\<lambda>_.
     insertAuditEvent env
       (auditEvent (Some actor) (Some (i_tenant r)) ''invitation.revoked'' (i_email r))))"

definition RevokeInvitation :: "env \<Rightarrow> string \<Rightarrow> string \<Rightarrow> (world, go_error, unit) eff" where
  "RevokeInvitation env iid actor = withSystemTx env (revokeInvitationTx env iid actor)"

definition RevokeTenantInvitation :: "env \<Rightarrow> string \<Rightarrow> string \<Rightarrow> string \<Rightarrow> (world, go_error, unit) eff" where
  "RevokeTenantInvitation env tid iid actor = WithTenantTx env tid (revokeInvitationTx env iid actor)"

subsection \<open>Lemmas\<close>

lemma scanInvitation_simps [simp]:
  "invitationID (scanInvitation r) = i_id r" "invitationTenantID (scanInvitation r) = i_tenant r"
  "invitationEmail (scanInvitation r) = i_email r" "invitationRoleID (scanInvitation r) = i_role r"
  "expiresAt (scanInvitation r) = i_expires_at r" "usedAt (scanInvitation r) = i_used_at r"
  "revokedAt (scanInvitation r) = i_revoked_at r" "createdBy (scanInvitation r) = i_created_by r"
  "invitationLocale (scanInvitation r) = i_delivery_locale r"
  by (simp_all add: scanInvitation_def)

lemma invitation_row_simps [simp]:
  "i_id (useInvitation now r) = i_id r" "i_tenant (useInvitation now r) = i_tenant r"
  "i_role (useInvitation now r) = i_role r" "i_revoked_at (useInvitation now r) = i_revoked_at r"
  "i_used_at (useInvitation now r) = Some now" "i_token_hash (useInvitation now r) = i_token_hash r"
  "i_created_by (useInvitation now r) = i_created_by r" "i_email (useInvitation now r) = i_email r"
  "i_id (revokeRow now r) = i_id r" "i_tenant (revokeRow now r) = i_tenant r"
  "i_role (revokeRow now r) = i_role r" "i_revoked_at (revokeRow now r) = Some now"
  "i_used_at (revokeRow now r) = i_used_at r" "i_token_hash (revokeRow now r) = i_token_hash r"
  "i_created_by (revokeRow now r) = i_created_by r" "i_email (revokeRow now r) = i_email r"
  by (simp_all add: useInvitation_def revokeRow_def)

end
