(* ===== verification/OutboxStore.thy ===== *)
theory OutboxStore imports InvitationStore begin

text \<open>
  The outbox of invitation mails: \<^verbatim>\<open>server/postgres/outbox.go\<close>. A job is pending, processing under a
  lease, completed or dead-lettered. Claiming takes the oldest job that is due or whose lease has
  expired; completing, retrying and dead-lettering need the lease token the claim handed out.
\<close>

definition outboxMaximumAttempts :: int where "outboxMaximumAttempts = 5"
definition outboxLockSeconds :: int where "outboxLockSeconds = 10 * 60"

subsection \<open>Claiming\<close>

definition claimable :: "time \<Rightarrow> outbox_row \<Rightarrow> bool" where
  "claimable now r \<longleftrightarrow>
     o_kind r = outboxJobInvitationEmail \<and>
     ((o_status r = OutboxPending \<and> o_available_at r \<le> now)
      \<or> (o_status r = OutboxProcessing
         \<and> (case o_locked_at r of None \<Rightarrow> False
             | Some t \<Rightarrow> t < now - outboxLockSeconds * nanosecondsPerSecond)))"

definition claimOrder :: "outbox_row \<Rightarrow> outbox_row \<Rightarrow> bool" where
  "claimOrder a b \<longleftrightarrow>
     o_available_at a < o_available_at b
     \<or> (o_available_at a = o_available_at b
        \<and> (o_created_at a < o_created_at b
           \<or> (o_created_at a = o_created_at b \<and> bytesLess (o_id a) (o_id b))))"

definition claimCandidate :: "env \<Rightarrow> world \<Rightarrow> outbox_row option" where
  "claimCandidate env w =
     firstRow (orderBy claimOrder
       (filter (\<lambda>r. claimable (w_now w) r \<and> \<not> e_row_locked env (w_tick w) (o_id r))
         (visibleRows outboxTable w)))"

definition leaseJob :: "string \<Rightarrow> time \<Rightarrow> outbox_row \<Rightarrow> outbox_row" where
  "leaseJob token now r =
     r\<lparr>o_status := OutboxProcessing, o_attempts := o_attempts r + 1, o_locked_at := Some now,
       o_lease_token := Some token, o_updated_at := now\<rparr>"

definition scanJob :: "outbox_row \<Rightarrow> outbox_job" where
  "scanJob r =
     \<lparr>jobID = o_id r, jobTenantID = o_tenant r, jobInvitationID = o_invitation r,
      jobAttempts = o_attempts r,
      jobLeaseToken = (case o_lease_token r of None \<Rightarrow> [] | Some t \<Rightarrow> t)\<rparr>"

definition zeroJob :: outbox_job where
  "zeroJob = \<lparr>jobID = [], jobTenantID = [], jobInvitationID = [], jobAttempts = 0, jobLeaseToken = []\<rparr>"

definition zeroInvitation :: invitation where
  "zeroInvitation =
     \<lparr>invitationID = [], invitationTenantID = [], invitationEmail = [], invitationRoleID = [],
      invitationRole = zeroRole, tokenHash = [], expiresAt = zeroTime, usedAt = None, revokedAt = None,
      createdBy = [], acceptanceURL = [], deliveryStatus = DeliveryQueued, invitationLocale = [],
      invitationCreatedAt = zeroTime\<rparr>"

text \<open>The \<^verbatim>\<open>WITH candidate ... UPDATE ... RETURNING\<close> statement is one statement: the candidate is chosen in
  the state the update starts from.\<close>

definition claimJob :: "env \<Rightarrow> string \<Rightarrow> (world, go_error, outbox_row) eff" where
  "claimJob env token = (\<lambda>w.
     updateReturning env outboxTable
       (\<lambda>now r. case claimCandidate env w of None \<Rightarrow> False | Some c \<Rightarrow> o_id r = o_id c)
       (leaseJob token) w)"

definition claimInvitationTx :: "env \<Rightarrow> (world, go_error, outbox_job \<times> invitation) eff" where
  "claimInvitationTx env =
     andThen (newUUID env) (\<lambda>token.
     andThen (claimJob env token) (\<lambda>r.
     andThen (queryRow env (\<lambda>w. map_option scanInvitation
       (List.find (\<lambda>i. i_id i = jobInvitationID (scanJob r)) (visibleRows invitationsTable w)))) (\<lambda>i.
     ret (scanJob r, i))))"

definition ClaimInvitationEmail :: "env \<Rightarrow> (world, go_error, outbox_job \<times> invitation) eff" where
  "ClaimInvitationEmail env =
     andThen (attempt (withSystemTx env (claimInvitationTx env))) (\<lambda>outcome.
     case outcome of
       Inr claimed \<Rightarrow> ret claimed
     | Inl err \<Rightarrow>
         if isNoRows err then ret (zeroJob, zeroInvitation)
         else fail (Wrapped ''claim invitation email'' err))"

subsection \<open>Finishing\<close>

definition leasedJob :: "outbox_job \<Rightarrow> time \<Rightarrow> outbox_row \<Rightarrow> bool" where
  "leasedJob job now r \<longleftrightarrow>
     o_id r = jobID job \<and> o_lease_token r = Some (jobLeaseToken job) \<and> o_status r = OutboxProcessing"

definition completeJob :: "time \<Rightarrow> outbox_row \<Rightarrow> outbox_row" where
  "completeJob now r =
     r\<lparr>o_status := OutboxCompleted, o_completed_at := Some now, o_locked_at := None, o_lease_token := None,
       o_last_error := None, o_updated_at := now\<rparr>"

definition retryJob :: "time \<Rightarrow> string \<Rightarrow> time \<Rightarrow> outbox_row \<Rightarrow> outbox_row" where
  "retryJob availableAt msg now r =
     r\<lparr>o_status := OutboxPending, o_available_at := pgTime availableAt, o_locked_at := None,
       o_lease_token := None, o_last_error := Some msg, o_updated_at := now\<rparr>"

definition deadLetterJob :: "string \<Rightarrow> time \<Rightarrow> outbox_row \<Rightarrow> outbox_row" where
  "deadLetterJob msg now r =
     r\<lparr>o_status := OutboxDeadLetter, o_dead_lettered_at := Some now, o_locked_at := None,
       o_lease_token := None, o_last_error := Some msg, o_updated_at := now\<rparr>"

definition setDelivery :: "delivery_status \<Rightarrow> time \<Rightarrow> invitation_row \<Rightarrow> invitation_row" where
  "setDelivery status now r = r\<lparr>i_delivery_status := status\<rparr>"

definition updateDelivery :: "env \<Rightarrow> string \<Rightarrow> delivery_status \<Rightarrow> (world, go_error, unit) eff" where
  "updateDelivery env iid status =
     andThen (updateTable env invitationsTable (\<lambda>now r. i_id r = iid) (setDelivery status)) (\<lambda>_. ret ())"

definition leaseLost :: "string \<Rightarrow> go_error \<Rightarrow> go_error" where
  "leaseLost msg err = (if isNoRows err then newError ErrorLeaseLost else Wrapped msg err)"

definition completeTx :: "env \<Rightarrow> outbox_job \<Rightarrow> (world, go_error, unit) eff" where
  "completeTx env job =
     andThen (mapError (leaseLost ''complete outbox job'')
       (updateReturning env outboxTable (leasedJob job) completeJob)) (\<lambda>r.
     updateDelivery env (o_invitation r) DeliverySent)"

definition Complete :: "env \<Rightarrow> outbox_job \<Rightarrow> (world, go_error, unit) eff" where
  "Complete env job =
     (if \<not> validUUID (jobID job) \<or> \<not> validUUID (jobLeaseToken job) then fail (newError ErrorValidation)
      else withSystemTx env (completeTx env job))"

definition deadLetter :: "env \<Rightarrow> outbox_job \<Rightarrow> string \<Rightarrow> (world, go_error, unit) eff" where
  "deadLetter env job msg =
     withSystemTx env
       (andThen (mapError (leaseLost ''dead-letter outbox job'')
          (updateReturning env outboxTable (leasedJob job) (deadLetterJob msg))) (\<lambda>r.
        andThen (mapError (Wrapped ''mark invitation delivery failed'')
          (updateDelivery env (o_invitation r) DeliveryFailed)) (\<lambda>_.
        insertAuditEvent env (auditEvent None (Some (o_tenant r)) ''outbox.dead_letter'' (jobID job)))))"

definition nanosecondsPerMinute :: int where "nanosecondsPerMinute = 60 * nanosecondsPerSecond"
definition nanosecondsPerHour :: int where "nanosecondsPerHour = 60 * nanosecondsPerMinute"

definition retryDelay :: "int \<Rightarrow> duration" where
  "retryDelay attempts0 =
     (let attempts = max attempts0 1;
          exponent = min (attempts - 1) 6;
          delay = nanosecondsPerMinute * 2 ^ nat exponent
      in min delay nanosecondsPerHour)"

definition retryTx :: "env \<Rightarrow> outbox_job \<Rightarrow> time \<Rightarrow> string \<Rightarrow> (world, go_error, unit) eff" where
  "retryTx env job availableAt msg =
     andThen (mapError (leaseLost ''schedule outbox retry'')
       (updateReturning env outboxTable (leasedJob job) (retryJob availableAt msg))) (\<lambda>r.
     updateDelivery env (o_invitation r) DeliveryRetrying)"

text \<open>The cause of a retry is \<open>None\<close> for a nil error, or the text of the error.\<close>

definition Retry :: "env \<Rightarrow> outbox_job \<Rightarrow> string option \<Rightarrow> (world, go_error, unit) eff" where
  "Retry env job cause =
     (case cause of
        None \<Rightarrow> fail (OpaqueError ''retry outbox job: cause is required'')
      | Some msg \<Rightarrow>
          if \<not> validUUID (jobID job) \<or> \<not> validUUID (jobLeaseToken job) then fail (newError ErrorValidation)
          else if outboxMaximumAttempts \<le> jobAttempts job then deadLetter env job msg
          else
            andThen (goNow env) (\<lambda>now.
            withSystemTx env (retryTx env job (now + retryDelay (jobAttempts job)) msg)))"

subsection \<open>Retention\<close>

definition anonymizable :: "time \<Rightarrow> invitation_row \<Rightarrow> bool" where
  "anonymizable before r \<longleftrightarrow>
     i_anonymized_at r = None
     \<and> (i_expires_at r < before \<or> (case i_used_at r of None \<Rightarrow> False | Some t \<Rightarrow> t < before))"

definition anonymizeRow :: "time \<Rightarrow> invitation_row \<Rightarrow> invitation_row" where
  "anonymizeRow now r = r\<lparr>i_email := [], i_token_hash := None, i_anonymized_at := Some now\<rparr>"

definition AnonymizeExpiredInvitations :: "env \<Rightarrow> time \<Rightarrow> (world, go_error, nat) eff" where
  "AnonymizeExpiredInvitations env before =
     withSystemTx env
       (andThen (mapError (Wrapped ''anonymize invitations'')
          (updateTable env invitationsTable (\<lambda>now r. anonymizable (pgTime before) r) anonymizeRow)) (\<lambda>changed.
        ret (length changed)))"

subsection \<open>The retry delay\<close>

lemma retryDelay_cases:
  "retryDelay a = (if a \<le> 1 then nanosecondsPerMinute
                   else if a \<le> 6 then nanosecondsPerMinute * 2 ^ nat (a - 1)
                   else nanosecondsPerHour)"
proof -
  have pos: "0 < nanosecondsPerMinute" by (simp add: nanosecondsPerMinute_def nanosecondsPerSecond_def)
  consider "a \<le> 1" | "1 < a \<and> a \<le> 6" | "6 < a" by linarith
  then show ?thesis
  proof cases
    case 1
    then show ?thesis using pos by (simp add: retryDelay_def Let_def nanosecondsPerHour_def)
  next
    case 2
    have "(2::int) ^ nat (a - 1) \<le> 2 ^ 5" by (rule power_increasing) (use 2 in auto)
    then have "nanosecondsPerMinute * 2 ^ nat (a - 1) \<le> nanosecondsPerHour"
      using pos by (simp add: nanosecondsPerHour_def)
    then show ?thesis using 2 by (simp add: retryDelay_def Let_def min_def max_def)
  next
    case 3
    then have "min (max a 1 - 1) 6 = 6" by simp
    then show ?thesis using 3 pos by (simp add: retryDelay_def Let_def nanosecondsPerHour_def)
  qed
qed

lemma retryDelay_mono: "a \<le> b \<Longrightarrow> retryDelay a \<le> retryDelay b"
proof -
  assume "a \<le> b"
  then have "min (max a 1 - 1) 6 \<le> min (max b 1 - 1) 6" by simp
  then have "(2::int) ^ nat (min (max a 1 - 1) 6) \<le> 2 ^ nat (min (max b 1 - 1) 6)"
    by (intro power_increasing) auto
  then have "nanosecondsPerMinute * 2 ^ nat (min (max a 1 - 1) 6)
      \<le> nanosecondsPerMinute * 2 ^ nat (min (max b 1 - 1) 6)"
    by (intro mult_left_mono) (auto simp: nanosecondsPerMinute_def nanosecondsPerSecond_def)
  then show "retryDelay a \<le> retryDelay b" unfolding retryDelay_def Let_def by linarith
qed

end
