(* ===== verification/LocalizationStore.thy ===== *)
theory LocalizationStore imports AuditStore begin

text \<open>
  Languages and translation overrides in the database: \<^verbatim>\<open>server/postgres/localization.go\<close> without its paged
  listings. A record with revision 0 is inserted, any other updated when its revision still matches.
\<close>

subsection \<open>Reading\<close>

definition byNameThenCode :: "env \<Rightarrow> language \<Rightarrow> language \<Rightarrow> bool" where
  "byNameThenCode env a b \<longleftrightarrow>
     pgTextLess env (languageName a) (languageName b)
     \<or> (\<not> pgTextLess env (languageName b) (languageName a)
        \<and> pgTextLess env (languageCode a) (languageCode b))"

definition listLanguages :: "env \<Rightarrow> bool \<Rightarrow> (world, go_error, language list) eff" where
  "listLanguages env activeOnly =
     mapError (Wrapped ''collect languages'')
       (withSystemTx env
         (mapError (Wrapped ''list languages'')
           (query env (\<lambda>w. orderBy (byNameThenCode env)
              (filter (\<lambda>l. activeOnly \<longrightarrow> isActiveLanguage l) (visibleRows languagesTable w))))))"

definition ActiveLanguages :: "env \<Rightarrow> (world, go_error, language list) eff" where
  "ActiveLanguages env = listLanguages env True"

definition AllLanguages :: "env \<Rightarrow> (world, go_error, language list) eff" where
  "AllLanguages env = listLanguages env False"

text \<open>The Go map \<^verbatim>\<open>merged\<close>, held as the list of its values: a later translation replaces the earlier one of its key.\<close>

fun putByKey :: "translation list \<Rightarrow> translation \<Rightarrow> translation list" where
  "putByKey [] t = [t]"
| "putByKey (x # xs) t = (if translationKey x = translationKey t then t # xs else x # putByKey xs t)"

definition mergeByKey :: "translation list \<Rightarrow> translation list" where
  "mergeByKey ts = foldl putByKey [] ts"

definition byKeyThenScope :: "env \<Rightarrow> application_scope \<Rightarrow> translation \<Rightarrow> translation \<Rightarrow> bool" where
  "byKeyThenScope env first a b \<longleftrightarrow>
     pgTextLess env (translationKey a) (translationKey b)
     \<or> (\<not> pgTextLess env (translationKey b) (translationKey a)
        \<and> translationScope a = first \<and> translationScope b \<noteq> first)"

text \<open>The query of \<^verbatim>\<open>Translations\<close> does not select the two times of a row, so they stay zero.\<close>

definition scanTranslation :: "translation \<Rightarrow> translation" where
  "scanTranslation t = t\<lparr>translationCreatedAt := zeroTime, translationUpdatedAt := zeroTime\<rparr>"

definition StoredTranslations :: "env \<Rightarrow> string \<Rightarrow> application_scope \<Rightarrow> (world, go_error, translation list) eff" where
  "StoredTranslations env loc scope =
     andThen (mapError (Wrapped ''collect translation overrides'')
       (withSystemTx env
         (mapError (Wrapped ''list translation overrides'')
           (query env (\<lambda>w. map scanTranslation (orderBy (byKeyThenScope env ScopeShared)
              (filter (\<lambda>t. translationLocale t = loc
                   \<and> (translationScope t = scope \<or> translationScope t = ScopeShared))
                (visibleRows overridesTable w)))))))) (\<lambda>vals.
     ret (orderBy (\<lambda>a b. bytesLess (translationKey a) (translationKey b)) (mergeByKey vals)))"

subsection \<open>Writing\<close>

definition changeLanguage :: "language \<Rightarrow> time \<Rightarrow> language \<Rightarrow> language" where
  "changeLanguage l now r =
     r\<lparr>languageName := languageName l, isActiveLanguage := isActiveLanguage l,
       languageRevision := languageRevision r + 1, languageUpdatedAt := now\<rparr>"

definition upsertLanguageTx :: "env \<Rightarrow> language \<Rightarrow> string \<Rightarrow> (world, go_error, language) eff" where
  "upsertLanguageTx env l actor =
     andThen (mapError (\<lambda>err. if err = NoRows then newError ErrorConflict
                              else constraintConflict (Wrapped ''upsert language'' err))
       (if languageRevision l = 0
        then insertInto env languagesTable (\<lambda>now.
               \<lparr>languageCode = languageCode l, languageName = languageName l,
                isDefaultLanguage = isDefaultLanguage l, isActiveLanguage = isActiveLanguage l,
                languageRevision = 1, languageCreatedAt = now, languageUpdatedAt = now\<rparr>)
        else updateReturning env languagesTable
               (\<lambda>now r. languageCode r = languageCode l \<and> languageRevision r = languageRevision l)
               (changeLanguage l))) (\<lambda>r.
     andThen (insertAuditEvent env
       (auditEvent (Some actor) None ''localization.language_saved'' (languageCode l))) (\<lambda>_.
     ret (l\<lparr>languageRevision := languageRevision r\<rparr>)))"

definition UpsertLanguage :: "env \<Rightarrow> language \<Rightarrow> string \<Rightarrow> (world, go_error, language) eff" where
  "UpsertLanguage env l actor = withSystemTx env (upsertLanguageTx env l actor)"

definition changeOverride :: "translation \<Rightarrow> time \<Rightarrow> translation \<Rightarrow> translation" where
  "changeOverride t now r =
     r\<lparr>translationValue := translationValue t, translationRevision := translationRevision r + 1,
       translationUpdatedAt := now\<rparr>"

definition sameOverride :: "translation \<Rightarrow> translation \<Rightarrow> bool" where
  "sameOverride t r \<longleftrightarrow>
     translationLocale r = translationLocale t \<and> translationScope r = translationScope t
     \<and> translationKey r = translationKey t \<and> translationRevision r = translationRevision t"

definition upsertTranslationOverrideTx :: "env \<Rightarrow> translation \<Rightarrow> string \<Rightarrow> (world, go_error, translation) eff" where
  "upsertTranslationOverrideTx env t actor =
     andThen (mapError (\<lambda>err. if err = NoRows then newError ErrorConflict
                              else constraintConflict (Wrapped ''upsert translation override'' err))
       (if translationRevision t = 0
        then insertInto env overridesTable (\<lambda>now.
               \<lparr>translationLocale = translationLocale t, translationScope = translationScope t,
                translationKey = translationKey t, translationValue = translationValue t,
                translationRevision = 1, translationCreatedAt = now, translationUpdatedAt = now\<rparr>)
        else updateReturning env overridesTable (\<lambda>now r. sameOverride t r) (changeOverride t))) (\<lambda>r.
     andThen (insertAuditEvent env
       (auditEvent (Some actor) None ''localization.translation_override_saved'' (translationKey t))) (\<lambda>_.
     ret (t\<lparr>translationRevision := translationRevision r\<rparr>)))"

definition UpsertTranslationOverride :: "env \<Rightarrow> translation \<Rightarrow> string \<Rightarrow> (world, go_error, translation) eff" where
  "UpsertTranslationOverride env t actor = withSystemTx env (upsertTranslationOverrideTx env t actor)"

definition DeleteTranslationOverride :: "env \<Rightarrow> translation \<Rightarrow> string \<Rightarrow> (world, go_error, unit) eff" where
  "DeleteTranslationOverride env t actor =
     withSystemTx env
       (andThen (mapError (Wrapped ''delete translation override'')
          (deleteFrom env overridesTable (sameOverride t))) (\<lambda>affected.
        if affected \<noteq> 1 then fail (newError ErrorConflict)
        else insertAuditEvent env
               (auditEvent (Some actor) None ''localization.translation_override_deleted'' (translationKey t))))"

subsection \<open>Merging by key\<close>

lemma putByKey_keys:
  "translationKey ` set (putByKey xs t) = insert (translationKey t) (translationKey ` set xs)"
  by (induction xs) auto

lemma putByKey_distinct:
  "distinct (map translationKey xs) \<Longrightarrow> distinct (map translationKey (putByKey xs t))"
proof (induction xs)
  case (Cons x xs)
  then show ?case using putByKey_keys[of xs t] by (auto simp: image_iff)
qed simp

lemma in_putByKey:
  "distinct (map translationKey xs) \<Longrightarrow>
     x \<in> set (putByKey xs t) \<longleftrightarrow> x = t \<or> (x \<in> set xs \<and> translationKey x \<noteq> translationKey t)"
  by (induction xs) (auto simp: image_iff)

lemma mergeByKey_snoc: "mergeByKey (ts @ [t]) = putByKey (mergeByKey ts) t"
  by (simp add: mergeByKey_def)

lemma mergeByKey_distinct: "distinct (map translationKey (mergeByKey ts))"
  by (induction ts rule: rev_induct) (simp_all add: mergeByKey_snoc putByKey_distinct, simp add: mergeByKey_def)

text \<open>The merge keeps, for every key, the last translation of the list with that key.\<close>

definition lastOfKey :: "translation list \<Rightarrow> translation \<Rightarrow> bool" where
  "lastOfKey ts x \<longleftrightarrow>
     (\<exists>before after. ts = before @ x # after \<and> (\<forall>y \<in> set after. translationKey y \<noteq> translationKey x))"

lemma lastOfKey_snoc:
  "lastOfKey (ts @ [t]) x \<longleftrightarrow> x = t \<or> (lastOfKey ts x \<and> translationKey x \<noteq> translationKey t)"
proof
  assume "lastOfKey (ts @ [t]) x"
  then obtain before after where *: "ts @ [t] = before @ x # after"
    "\<forall>y \<in> set after. translationKey y \<noteq> translationKey x" by (auto simp: lastOfKey_def)
  show "x = t \<or> (lastOfKey ts x \<and> translationKey x \<noteq> translationKey t)"
  proof (cases after rule: rev_cases)
    case Nil
    then show ?thesis using * by simp
  next
    case (snoc after' y)
    then have "ts = before @ x # after'" "y = t" using *(1) by simp_all
    then show ?thesis using *(2) snoc unfolding lastOfKey_def by auto
  qed
next
  assume "x = t \<or> (lastOfKey ts x \<and> translationKey x \<noteq> translationKey t)"
  then show "lastOfKey (ts @ [t]) x"
  proof
    assume "x = t"
    then show ?thesis unfolding lastOfKey_def by (intro exI[of _ ts] exI[of _ "[]"]) simp
  next
    assume "lastOfKey ts x \<and> translationKey x \<noteq> translationKey t"
    then obtain before after where *: "ts = before @ x # after"
      "\<forall>y \<in> set after. translationKey y \<noteq> translationKey x" "translationKey x \<noteq> translationKey t"
      by (auto simp: lastOfKey_def)
    then show ?thesis unfolding lastOfKey_def
      by (intro exI[of _ before] exI[of _ "after @ [t]"]) auto
  qed
qed

lemma set_mergeByKey: "x \<in> set (mergeByKey ts) \<longleftrightarrow> lastOfKey ts x"
proof (induction ts rule: rev_induct)
  case Nil
  then show ?case by (simp add: mergeByKey_def lastOfKey_def)
next
  case (snoc t ts)
  then show ?case
    unfolding mergeByKey_snoc lastOfKey_snoc in_putByKey[OF mergeByKey_distinct] by auto
qed

end
