(* ===== verification/Listings.thy ===== *)
theory Listings imports Cursors Keyset OutboxStore LocalizationStore begin

text \<open>
  The paged listings of the store: \<^verbatim>\<open>ListTenants\<close>, \<^verbatim>\<open>ListRoles\<close>, \<^verbatim>\<open>ListMemberships\<close>, \<^verbatim>\<open>ListUsers\<close>,
  \<^verbatim>\<open>ListInvitations\<close>, \<^verbatim>\<open>ListAuditEvents\<close>, \<^verbatim>\<open>ListLanguages\<close> and \<^verbatim>\<open>ListTranslationOverrides\<close>. Each builds a
  statement \<^verbatim>\<open>WHERE ... AND (sort, id) > (@cursor_sort, @cursor_id) ORDER BY sort, id LIMIT pageSize + 1\<close>
  and makes the cursor of the next page from the last row it keeps.

  The message prefixes of wrapped database errors are those of the calls of \<^verbatim>\<open>Query\<close>.
\<close>

subsection \<open>Sort keys\<close>

text \<open>A column of a sort key. A statement compares columns of one type only; the last clauses, between types,
  make the comparison total.\<close>

datatype sort_value = TextValue string | TimeValue time | UuidValue string

fun valueLess :: "(string \<Rightarrow> string \<Rightarrow> bool) \<Rightarrow> sort_value \<Rightarrow> sort_value \<Rightarrow> bool" where
  "valueLess textLess (TextValue a) (TextValue b) = textLess a b"
| "valueLess textLess (TimeValue a) (TimeValue b) = (a < b)"
| "valueLess textLess (UuidValue a) (UuidValue b) = bytesLess a b"
| "valueLess textLess (TextValue a) y = True"
| "valueLess textLess (TimeValue a) (UuidValue b) = True"
| "valueLess textLess x y = False"

text \<open>The comparison of rows, \<^verbatim>\<open>(a, b) < (c, d)\<close>.\<close>

fun keyLess :: "(string \<Rightarrow> string \<Rightarrow> bool) \<Rightarrow> sort_value list \<Rightarrow> sort_value list \<Rightarrow> bool" where
  "keyLess textLess xs [] = False"
| "keyLess textLess [] (y # ys) = True"
| "keyLess textLess (x # xs) (y # ys) = (valueLess textLess x y \<or> (x = y \<and> keyLess textLess xs ys))"

definition keysetDirection ::
  "sort_direction \<Rightarrow> ('k \<Rightarrow> 'k \<Rightarrow> bool) \<Rightarrow> 'k \<Rightarrow> 'k \<Rightarrow> bool" where
  "keysetDirection direction lt = (if direction = SortDescending then (\<lambda>x y. lt y x) else lt)"

definition keyBefore :: "env \<Rightarrow> sort_direction \<Rightarrow> sort_value list \<Rightarrow> sort_value list \<Rightarrow> bool" where
  "keyBefore env direction = keysetDirection direction (keyLess (pgTextLess env))"

subsection \<open>Pages\<close>

record 'a page =
  pageItems :: "'a list"
  pageNextCursor :: string

definition matchesSearch :: "env \<Rightarrow> string \<Rightarrow> string \<Rightarrow> bool" where
  "matchesSearch env search column \<longleftrightarrow> search = [] \<or> pgILike env column (''%'' @ search @ ''%'')"

definition keysetPage :: "nat \<Rightarrow> ('a \<Rightarrow> string) \<Rightarrow> 'a list \<Rightarrow> 'a page" where
  "keysetPage pageSize cursorOf items =
     (if pageSize < length items
      then \<lparr>pageItems = take pageSize items, pageNextCursor = cursorOf (last (take pageSize items))\<rparr>
      else \<lparr>pageItems = items, pageNextCursor = []\<rparr>)"

text \<open>The arguments \<^verbatim>\<open>cursor_sort\<close> and \<^verbatim>\<open>cursor_id\<close>; \<open>timed\<close> tells that the list is sorted by a time.\<close>

definition cursorSort :: "ports \<Rightarrow> bool \<Rightarrow> string \<Rightarrow> sort_value result" where
  "cursorSort p timed s =
     (if timed
      then (case parseTime (parseTimeLenient p) s of None \<Rightarrow> validationError | Some t \<Rightarrow> Inr (TimeValue (pgTime t)))
      else Inr (TextValue s))"

definition uuidCursor ::
  "env \<Rightarrow> ports \<Rightarrow> string \<Rightarrow> string \<Rightarrow> bool \<Rightarrow> string \<Rightarrow> (sort_value \<times> string) option result" where
  "uuidCursor env p kind fingerprint timed cursor =
     (if cursor = [] then Inr None
      else case decodeUUIDKeysetCursor env p cursor kind fingerprint of
        Inl _ \<Rightarrow> validationError
      | Inr decoded \<Rightarrow>
          (case cursorSort p timed (cursorSortValue decoded) of
             Inl err \<Rightarrow> Inl err
           | Inr v \<Rightarrow> Inr (Some (v, cursorID decoded))))"

text \<open>The statement; PostgreSQL refuses an identifier that it cannot read as a \<^verbatim>\<open>uuid\<close>.\<close>

definition uuidArgument :: "ports \<Rightarrow> (sort_value \<times> string) option \<Rightarrow> sort_value list option result" where
  "uuidArgument p after =
     (case after of
        None \<Rightarrow> Inr None
      | Some (v, i) \<Rightarrow>
          (case pgUuid p i of None \<Rightarrow> Inl (PgError ''22P02'' []) | Some u \<Rightarrow> Inr (Some [v, UuidValue u])))"

definition keysetQuery ::
  "env \<Rightarrow> sort_direction \<Rightarrow> ('r \<Rightarrow> sort_value list) \<Rightarrow> nat \<Rightarrow> sort_value list option result
     \<Rightarrow> (world \<Rightarrow> 'r list) \<Rightarrow> (world, go_error, 'r list) eff" where
  "keysetQuery env direction key limit after rows =
     statement env (\<lambda>w. case after of
        Inl err \<Rightarrow> Inl err
      | Inr c \<Rightarrow> Inr (pageRows (keyBefore env direction) key limit c (rows w), w_db w))"

subsection \<open>The names of the enumerations\<close>

fun sortDirectionName :: "sort_direction \<Rightarrow> string" where
  "sortDirectionName SortAscending = ''ascending''"
| "sortDirectionName SortDescending = ''descending''"
| "sortDirectionName (SortDirectionOther s) = s"

fun tenantSortName :: "tenant_sort \<Rightarrow> string" where
  "tenantSortName TenantSortName = ''name''"
| "tenantSortName TenantSortCreatedAt = ''created_at''"
| "tenantSortName (TenantSortOther s) = s"

fun membershipSortName :: "membership_sort \<Rightarrow> string" where
  "membershipSortName MembershipSortEmail = ''email''"
| "membershipSortName MembershipSortCreatedAt = ''created_at''"
| "membershipSortName (MembershipSortOther s) = s"

fun roleSortName :: "role_sort \<Rightarrow> string" where
  "roleSortName RoleSortName = ''name''"
| "roleSortName RoleSortCreatedAt = ''created_at''"
| "roleSortName (RoleSortOther s) = s"

fun languageSortName :: "language_sort \<Rightarrow> string" where
  "languageSortName LanguageSortName = ''name''"
| "languageSortName LanguageSortCode = ''code''"
| "languageSortName (LanguageSortOther s) = s"

fun translationSortName :: "translation_sort \<Rightarrow> string" where
  "translationSortName TranslationSortKey = ''key''"
| "translationSortName TranslationSortUpdatedAt = ''updated_at''"
| "translationSortName (TranslationSortOther s) = s"

fun userSortName :: "user_sort \<Rightarrow> string" where
  "userSortName UserSortEmail = ''email''"
| "userSortName UserSortCreatedAt = ''created_at''"
| "userSortName (UserSortOther s) = s"

fun invitationSortName :: "invitation_sort \<Rightarrow> string" where
  "invitationSortName InvitationSortCreatedAt = ''created_at''"
| "invitationSortName InvitationSortEmail = ''email''"
| "invitationSortName InvitationSortExpiresAt = ''expires_at''"
| "invitationSortName (InvitationSortOther s) = s"

fun invitationStatusFilterName :: "invitation_status_filter \<Rightarrow> string" where
  "invitationStatusFilterName InvitationStatusFilterAll = ''all''"
| "invitationStatusFilterName InvitationStatusFilterPending = ''pending''"
| "invitationStatusFilterName InvitationStatusFilterUsed = ''used''"
| "invitationStatusFilterName InvitationStatusFilterExpired = ''expired''"
| "invitationStatusFilterName InvitationStatusFilterRevoked = ''revoked''"
| "invitationStatusFilterName (InvitationStatusFilterOther s) = s"

fun roleKindName :: "role_kind \<Rightarrow> string" where
  "roleKindName RoleKindAdministrator = ''administrator''"
| "roleKindName RoleKindUser = ''user''"
| "roleKindName RoleKindCustom = ''custom''"
| "roleKindName (RoleKindOther s) = s"

fun globalRoleName :: "global_role \<Rightarrow> string" where
  "globalRoleName GlobalRoleUser = ''user''"
| "globalRoleName GlobalRoleSuperAdministrator = ''super_administrator''"
| "globalRoleName (GlobalRoleOther s) = s"

fun membershipStatusName :: "membership_status \<Rightarrow> string" where
  "membershipStatusName MembershipActive = ''active''"
| "membershipStatusName MembershipInactive = ''inactive''"
| "membershipStatusName (MembershipStatusOther s) = s"

subsection \<open>Tenants\<close>

definition tenantFingerprint :: "env \<Rightarrow> tenant_filter \<Rightarrow> string" where
  "tenantFingerprint env f =
     keysetFingerprint [JString (toLower (unicode env) (trimSpace (tfSearch f))),
       JString (tenantSortName (tfSort f)), JString (sortDirectionName (tfDirection f))]"

definition tenantKey :: "tenant_sort \<Rightarrow> tenant \<Rightarrow> sort_value list" where
  "tenantKey sorting t =
     [if sorting = TenantSortCreatedAt then TimeValue (tenantCreatedAt t) else TextValue (tenantName t),
      UuidValue (tenantID t)]"

definition tenantCursor :: "env \<Rightarrow> tenant_filter \<Rightarrow> tenant \<Rightarrow> string" where
  "tenantCursor env f t =
     encodeKeysetCursor ''tenants'' (tenantFingerprint env f)
       (if tfSort f = TenantSortCreatedAt then formatTime (tenantCreatedAt t) else tenantName t) (tenantID t)"

definition tenantRows :: "env \<Rightarrow> tenant_filter \<Rightarrow> world \<Rightarrow> tenant list" where
  "tenantRows env f w =
     filter (\<lambda>t. matchesSearch env (trimSpace (tfSearch f)) (tenantName t)) (visibleRows tenantsTable w)"

definition ListTenants :: "env \<Rightarrow> ports \<Rightarrow> tenant_filter \<Rightarrow> (world, go_error, tenant page) eff" where
  "ListTenants env p f =
     (let pageSize = nat (effectiveLimit (tfLimit f)) in
      andThen (liftSum (uuidCursor env p ''tenants'' (tenantFingerprint env f)
        (tfSort f = TenantSortCreatedAt) (tfCursor f))) (\<lambda>after.
      andThen (withSystemTx env (mapError (Wrapped ''list tenants'')
        (keysetQuery env (tfDirection f) (tenantKey (tfSort f)) (Suc pageSize) (uuidArgument p after)
          (tenantRows env f)))) (\<lambda>items.
      ret (keysetPage pageSize (tenantCursor env f) items))))"

subsection \<open>Roles\<close>

definition roleFingerprint :: "env \<Rightarrow> role_filter \<Rightarrow> string" where
  "roleFingerprint env f =
     keysetFingerprint [JString (toLower (unicode env) (trimSpace (rfSearch f))),
       JString (optionalString roleKindName (rfKind f)), JString (roleSortName (rfSort f)),
       JString (sortDirectionName (rfDirection f))]"

definition roleKey :: "role_sort \<Rightarrow> role \<Rightarrow> sort_value list" where
  "roleKey sorting r =
     [if sorting = RoleSortCreatedAt then TimeValue (roleCreatedAt r) else TextValue (roleName r), UuidValue (roleID r)]"

definition roleCursor :: "env \<Rightarrow> role_filter \<Rightarrow> role \<Rightarrow> string" where
  "roleCursor env f r =
     encodeKeysetCursor ''roles'' (roleFingerprint env f)
       (if rfSort f = RoleSortCreatedAt then formatTime (roleCreatedAt r) else roleName r) (roleID r)"

definition roleRows :: "env \<Rightarrow> string \<Rightarrow> role_filter \<Rightarrow> world \<Rightarrow> role list" where
  "roleRows env tid f w =
     map (scanRole env w)
       (filter (\<lambda>r. r_tenant r = tid \<and> matchesSearch env (trimSpace (rfSearch f)) (r_name r)
          \<and> (case rfKind f of None \<Rightarrow> True | Some k \<Rightarrow> r_kind r = k)) (visibleRows rolesTable w))"

definition ListRoles :: "env \<Rightarrow> ports \<Rightarrow> string \<Rightarrow> role_filter \<Rightarrow> (world, go_error, role page) eff" where
  "ListRoles env p tid f =
     (let pageSize = nat (effectiveLimit (rfLimit f)) in
      andThen (liftSum (uuidCursor env p ''roles'' (roleFingerprint env f)
        (rfSort f = RoleSortCreatedAt) (rfCursor f))) (\<lambda>after.
      andThen (WithTenantTx env tid (mapError (Wrapped ''list roles'')
        (keysetQuery env (rfDirection f) (roleKey (rfSort f)) (Suc pageSize) (uuidArgument p after)
          (roleRows env tid f)))) (\<lambda>items.
      ret (keysetPage pageSize (roleCursor env f) items))))"

subsection \<open>Memberships\<close>

definition membershipFingerprint :: "env \<Rightarrow> membership_filter \<Rightarrow> string" where
  "membershipFingerprint env f =
     keysetFingerprint [JString (toLower (unicode env) (trimSpace (mfSearch f))),
       JString (optionalString (\<lambda>r. r) (mfRoleID f)), JString (optionalString membershipStatusName (mfStatus f)),
       JString (membershipSortName (mfSort f)), JString (sortDirectionName (mfDirection f))]"

definition membershipKey :: "membership_sort \<Rightarrow> membership \<Rightarrow> sort_value list" where
  "membershipKey sorting m =
     [if sorting = MembershipSortCreatedAt then TimeValue (membershipCreatedAt m)
      else TextValue (membershipUserEmail m), UuidValue (membershipID m)]"

definition membershipCursor :: "env \<Rightarrow> membership_filter \<Rightarrow> membership \<Rightarrow> string" where
  "membershipCursor env f m =
     encodeKeysetCursor ''memberships'' (membershipFingerprint env f)
       (if mfSort f = MembershipSortCreatedAt then formatTime (membershipCreatedAt m)
        else toLower (unicode env) (membershipUserEmail m)) (membershipID m)"

definition membershipRows :: "env \<Rightarrow> string \<Rightarrow> membership_filter \<Rightarrow> world \<Rightarrow> membership list" where
  "membershipRows env tid f w =
     filter (\<lambda>m. matchesSearch env (trimSpace (mfSearch f)) (membershipUserEmail m))
       (membershipQuery env w (\<lambda>m. m_tenant m = tid
          \<and> (case mfRoleID f of None \<Rightarrow> True | Some r \<Rightarrow> m_role m = r)
          \<and> (case mfStatus f of None \<Rightarrow> True | Some s \<Rightarrow> m_status m = s)))"

definition ListMemberships ::
  "env \<Rightarrow> ports \<Rightarrow> string \<Rightarrow> membership_filter \<Rightarrow> (world, go_error, membership page) eff" where
  "ListMemberships env p tid f =
     (let pageSize = nat (effectiveLimit (mfLimit f)) in
      andThen (liftSum (uuidCursor env p ''memberships'' (membershipFingerprint env f)
        (mfSort f = MembershipSortCreatedAt) (mfCursor f))) (\<lambda>after.
      andThen (WithTenantTx env tid (mapError (Wrapped ''list tenant memberships'')
        (keysetQuery env (mfDirection f) (membershipKey (mfSort f)) (Suc pageSize) (uuidArgument p after)
          (membershipRows env tid f)))) (\<lambda>items.
      ret (keysetPage pageSize (membershipCursor env f) items))))"

subsection \<open>Users\<close>

record user_summary =
  summaryID :: string
  summaryEmail :: string
  summaryLocale :: string
  summaryGlobalRole :: global_role
  summaryMembershipCount :: nat
  summaryCreatedAt :: time

definition scanUserSummary :: "world \<Rightarrow> user_row \<Rightarrow> user_summary" where
  "scanUserSummary w u =
     \<lparr>summaryID = u_id u, summaryEmail = u_email u, summaryLocale = userLocale (u_user u),
      summaryGlobalRole = globalRole (u_user u),
      summaryMembershipCount =
        countWhere (\<lambda>m. m_user m = u_id u \<and> m_status m = MembershipActive) (visibleRows membershipsTable w),
      summaryCreatedAt = u_created_at u\<rparr>"

definition userFingerprint :: "env \<Rightarrow> user_filter \<Rightarrow> string" where
  "userFingerprint env f =
     keysetFingerprint [JString (toLower (unicode env) (trimSpace (ufSearch f))),
       JString (optionalString globalRoleName (ufGlobalRole f)), JString (userSortName (ufSort f)),
       JString (sortDirectionName (ufDirection f))]"

definition userKey :: "user_sort \<Rightarrow> user_summary \<Rightarrow> sort_value list" where
  "userKey sorting u =
     [if sorting = UserSortCreatedAt then TimeValue (summaryCreatedAt u) else TextValue (summaryEmail u),
      UuidValue (summaryID u)]"

definition userCursor :: "env \<Rightarrow> user_filter \<Rightarrow> user_summary \<Rightarrow> string" where
  "userCursor env f u =
     encodeKeysetCursor ''users'' (userFingerprint env f)
       (if ufSort f = UserSortCreatedAt then formatTime (summaryCreatedAt u) else summaryEmail u) (summaryID u)"

definition userRows :: "env \<Rightarrow> user_filter \<Rightarrow> world \<Rightarrow> user_summary list" where
  "userRows env f w =
     map (scanUserSummary w)
       (filter (\<lambda>u. matchesSearch env (trimSpace (ufSearch f)) (u_email u)
          \<and> (case ufGlobalRole f of None \<Rightarrow> True | Some g \<Rightarrow> globalRole (u_user u) = g))
        (visibleRows usersTable w))"

definition listUsersTx :: "env \<Rightarrow> ports \<Rightarrow> user_filter \<Rightarrow> (world, go_error, user_summary page) eff" where
  "listUsersTx env p f =
     (let pageSize = nat (effectiveLimit (ufLimit f)) in
      andThen (liftSum (uuidCursor env p ''users'' (userFingerprint env f)
        (ufSort f = UserSortCreatedAt) (ufCursor f))) (\<lambda>after.
      andThen (mapError (Wrapped ''list users'')
        (keysetQuery env (ufDirection f) (userKey (ufSort f)) (Suc pageSize) (uuidArgument p after)
          (userRows env f))) (\<lambda>items.
      ret (keysetPage pageSize (userCursor env f) items))))"

definition ListUsers :: "env \<Rightarrow> ports \<Rightarrow> user_filter \<Rightarrow> (world, go_error, user_summary page) eff" where
  "ListUsers env p f = withSystemTx env (listUsersTx env p f)"

end
