(* ===== verification/AdminListings.thy ===== *)
theory AdminListings imports Listings begin

text \<open>
  The listings of the administration: invitations, audit events, languages and translation overrides.
\<close>

subsection \<open>Invitations\<close>

definition invitationFingerprint :: "env \<Rightarrow> invitation_filter \<Rightarrow> string" where
  "invitationFingerprint env f =
     keysetFingerprint [JString (toLower (unicode env) (trimSpace (ifSearch f))),
       JString (optionalString (\<lambda>t. t) (ifTenantID f)), JString (invitationStatusFilterName (ifStatus f)),
       JString (invitationSortName (ifSort f)), JString (sortDirectionName (ifDirection f))]"

text \<open>The condition that a status filter adds; \<open>None\<close> is the default case of the switch, an error.\<close>

fun invitationStatusCondition :: "invitation_status_filter \<Rightarrow> (time \<Rightarrow> invitation_row \<Rightarrow> bool) option" where
  "invitationStatusCondition InvitationStatusFilterAll = Some (\<lambda>now i. True)"
| "invitationStatusCondition InvitationStatusFilterPending =
     Some (\<lambda>now i. i_used_at i = None \<and> i_revoked_at i = None \<and> now < i_expires_at i)"
| "invitationStatusCondition InvitationStatusFilterUsed = Some (\<lambda>now i. i_used_at i \<noteq> None)"
| "invitationStatusCondition InvitationStatusFilterExpired =
     Some (\<lambda>now i. i_used_at i = None \<and> i_revoked_at i = None \<and> i_expires_at i \<le> now)"
| "invitationStatusCondition InvitationStatusFilterRevoked = Some (\<lambda>now i. i_revoked_at i \<noteq> None)"
| "invitationStatusCondition (InvitationStatusFilterOther s) = None"

definition scanAdminInvitation :: "env \<Rightarrow> world \<Rightarrow> invitation_row \<Rightarrow> role_row \<Rightarrow> invitation" where
  "scanAdminInvitation env w i r =
     (scanInvitation i)\<lparr>invitationRole := scanRole env w r, invitationCreatedAt := i_created_at i\<rparr>"

definition invitationKey :: "invitation_sort \<Rightarrow> invitation \<Rightarrow> sort_value list" where
  "invitationKey sorting i =
     [if sorting = InvitationSortEmail then TextValue (invitationEmail i)
      else if sorting = InvitationSortExpiresAt then TimeValue (expiresAt i)
      else TimeValue (invitationCreatedAt i), UuidValue (invitationID i)]"

definition invitationCursor :: "env \<Rightarrow> invitation_filter \<Rightarrow> invitation \<Rightarrow> string" where
  "invitationCursor env f i =
     encodeKeysetCursor ''invitations'' (invitationFingerprint env f)
       (if ifSort f = InvitationSortEmail then invitationEmail i
        else if ifSort f = InvitationSortExpiresAt then formatTime (expiresAt i)
        else formatTime (invitationCreatedAt i)) (invitationID i)"

definition invitationRows ::
  "env \<Rightarrow> invitation_filter \<Rightarrow> (time \<Rightarrow> invitation_row \<Rightarrow> bool) \<Rightarrow> world \<Rightarrow> invitation list" where
  "invitationRows env f cond w =
     [scanAdminInvitation env w i r.
        i \<leftarrow> visibleRows invitationsTable w,
        matchesSearch env (trimSpace (ifSearch f)) (i_email i)
        \<and> (case ifTenantID f of None \<Rightarrow> True | Some t \<Rightarrow> i_tenant i = t) \<and> cond (w_now w) i,
        r \<leftarrow> visibleRows rolesTable w, r_id r = i_role i]"

definition listInvitationsTx :: "env \<Rightarrow> ports \<Rightarrow> invitation_filter \<Rightarrow> (world, go_error, invitation page) eff" where
  "listInvitationsTx env p f =
     (let pageSize = nat (effectiveLimit (ifLimit f)) in
      case invitationStatusCondition (ifStatus f) of
        None \<Rightarrow> fail (newError ErrorValidation)
      | Some cond \<Rightarrow>
          andThen (liftSum (uuidCursor env p ''invitations'' (invitationFingerprint env f)
            (ifSort f \<noteq> InvitationSortEmail) (ifCursor f))) (\<lambda>after.
          andThen (mapError (Wrapped ''list invitations'')
            (keysetQuery env (ifDirection f) (invitationKey (ifSort f)) (Suc pageSize) (uuidArgument p after)
              (invitationRows env f cond))) (\<lambda>items.
          ret (keysetPage pageSize (invitationCursor env f) items))))"

definition ListInvitations :: "env \<Rightarrow> ports \<Rightarrow> invitation_filter \<Rightarrow> (world, go_error, invitation page) eff" where
  "ListInvitations env p f = withSystemTx env (listInvitationsTx env p f)"

definition ListTenantInvitations ::
  "env \<Rightarrow> ports \<Rightarrow> string \<Rightarrow> invitation_filter \<Rightarrow> (world, go_error, invitation page) eff" where
  "ListTenantInvitations env p tid f =
     WithTenantTx env tid (listInvitationsTx env p (f\<lparr>ifTenantID := Some tid\<rparr>))"

subsection \<open>Audit events\<close>

definition auditFilterFingerprint :: "env \<Rightarrow> audit_filter \<Rightarrow> string" where
  "auditFilterFingerprint env f =
     keysetFingerprint [JString (formatTime (afFrom f)), JString (formatTime (afTo f)),
       JString (optionalString (\<lambda>u. u) (afActorID f)), JString (optionalString (\<lambda>t. t) (afTenantID f)),
       JString (afAction f), JString (toLower (unicode env) (trimSpace (afSearch f))),
       JString (sortDirectionName (afDirection f))]"

definition auditKey :: "audit_event \<Rightarrow> sort_value list" where
  "auditKey event = [TimeValue (occurredAt event), UuidValue (eventID event)]"

definition auditCursor :: "env \<Rightarrow> audit_filter \<Rightarrow> audit_event \<Rightarrow> string" where
  "auditCursor env f event =
     encodeKeysetCursor ''audit'' (auditFilterFingerprint env f) (formatTime (occurredAt event)) (eventID event)"

text \<open>The two left joins give the email and the name, or \<^verbatim>\<open>COALESCE\<close>'s empty string.\<close>

definition joinedEmail :: "world \<Rightarrow> string option \<Rightarrow> string" where
  "joinedEmail w actor =
     (case actor of
        None \<Rightarrow> []
      | Some uid \<Rightarrow>
          (case List.find (\<lambda>u. u_id u = uid) (visibleRows usersTable w) of None \<Rightarrow> [] | Some u \<Rightarrow> u_email u))"

definition joinedTenantName :: "world \<Rightarrow> string option \<Rightarrow> string" where
  "joinedTenantName w tenant0 =
     (case tenant0 of
        None \<Rightarrow> []
      | Some tid \<Rightarrow>
          (case List.find (\<lambda>t. tenantID t = tid) (visibleRows tenantsTable w) of None \<Rightarrow> [] | Some t \<Rightarrow> tenantName t))"

definition scanAuditEvent :: "world \<Rightarrow> audit_row \<Rightarrow> audit_event" where
  "scanAuditEvent w a =
     \<lparr>eventID = a_id a, occurredAt = a_occurred_at a, actorID = a_actor a, actorEmail = joinedEmail w (a_actor a),
      eventTenantID = a_tenant a, eventTenantName = joinedTenantName w (a_tenant a), eventAction = a_action a,
      eventTarget = a_target a, eventMetadata = a_metadata a\<rparr>"

definition auditMatches :: "env \<Rightarrow> audit_filter \<Rightarrow> audit_event \<Rightarrow> bool" where
  "auditMatches env f event \<longleftrightarrow>
     pgTime (afFrom f) \<le> occurredAt event \<and> occurredAt event \<le> pgTime (afTo f)
     \<and> (case afActorID f of None \<Rightarrow> True | Some u \<Rightarrow> actorID event = Some u)
     \<and> (case afTenantID f of None \<Rightarrow> True | Some t \<Rightarrow> eventTenantID event = Some t)
     \<and> (afAction f = [] \<or> eventAction event = afAction f)
     \<and> (let search = trimSpace (afSearch f) in
        matchesSearch env search (actorEmail event) \<or> matchesSearch env search (eventTenantName event)
        \<or> matchesSearch env search (eventAction event) \<or> matchesSearch env search (eventTarget event))"

definition auditRows :: "env \<Rightarrow> audit_filter \<Rightarrow> world \<Rightarrow> audit_event list" where
  "auditRows env f w = filter (auditMatches env f) (map (scanAuditEvent w) (visibleRows auditTable w))"

definition ListAuditEvents :: "env \<Rightarrow> ports \<Rightarrow> audit_filter \<Rightarrow> (world, go_error, audit_event page) eff" where
  "ListAuditEvents env p f0 =
     andThen (goNow env) (\<lambda>now.
     let f = normalizeAuditFilter now f0 in
     andThen (liftSum (uuidCursor env p ''audit'' (auditFilterFingerprint env f) True (afCursor f))) (\<lambda>after.
     andThen (withSystemTx env (mapError (Wrapped ''list audit events'')
       (keysetQuery env (afDirection f) auditKey (Suc (nat (afPageSize f))) (uuidArgument p after)
         (auditRows env f)))) (\<lambda>events.
     ret (keysetPage (nat (afPageSize f)) (auditCursor env f) events))))"

subsection \<open>Languages\<close>

definition optionalBool :: "bool option \<Rightarrow> json" where
  "optionalBool b = (case b of None \<Rightarrow> JNull | Some v \<Rightarrow> JBool v)"

definition languageFingerprint :: "env \<Rightarrow> language_filter \<Rightarrow> string" where
  "languageFingerprint env f =
     keysetFingerprint [JString (toLower (unicode env) (trimSpace (lfSearch f))), optionalBool (lfActive f),
       JString (languageSortName (lfSort f)), JString (sortDirectionName (lfDirection f))]"

definition languageKey :: "language_sort \<Rightarrow> language \<Rightarrow> sort_value list" where
  "languageKey sorting l =
     [TextValue (if sorting = LanguageSortCode then languageCode l else languageName l), TextValue (languageCode l)]"

definition languageCursor :: "env \<Rightarrow> language_filter \<Rightarrow> language \<Rightarrow> string" where
  "languageCursor env f l =
     encodeKeysetCursor ''languages'' (languageFingerprint env f)
       (if lfSort f = LanguageSortCode then languageCode l else languageName l) (languageCode l)"

definition languageRows :: "env \<Rightarrow> language_filter \<Rightarrow> world \<Rightarrow> language list" where
  "languageRows env f w =
     filter (\<lambda>l. (matchesSearch env (trimSpace (lfSearch f)) (languageName l)
                \<or> matchesSearch env (trimSpace (lfSearch f)) (languageCode l))
          \<and> (case lfActive f of None \<Rightarrow> True | Some b \<Rightarrow> isActiveLanguage l = b)) (visibleRows languagesTable w)"

definition textCursor :: "string \<Rightarrow> string \<Rightarrow> string \<Rightarrow> sort_value list option result" where
  "textCursor kind fingerprint cursor =
     (if cursor = [] then Inr None
      else case decodeKeysetCursor cursor kind fingerprint of
        Inl _ \<Rightarrow> validationError
      | Inr decoded \<Rightarrow> Inr (Some [TextValue (cursorSortValue decoded), TextValue (cursorID decoded)]))"

definition ListLanguages :: "env \<Rightarrow> language_filter \<Rightarrow> (world, go_error, language page) eff" where
  "ListLanguages env f =
     (let pageSize = nat (effectiveLimit (lfLimit f)) in
      andThen (liftSum (textCursor ''languages'' (languageFingerprint env f) (lfCursor f))) (\<lambda>after.
      andThen (withSystemTx env (mapError (Wrapped ''list managed languages'')
        (keysetQuery env (lfDirection f) (languageKey (lfSort f)) (Suc pageSize) (Inr after)
          (languageRows env f)))) (\<lambda>items.
      ret (keysetPage pageSize (languageCursor env f) items))))"

subsection \<open>Translation overrides\<close>

text \<open>The identifier of an override in a cursor is its primary key, joined with zero bytes.\<close>

definition overrideID :: "translation \<Rightarrow> string" where
  "overrideID t =
     translationLocale t @ [CHR 0x00] @ scopeKey (translationScope t) @ [CHR 0x00] @ translationKey t"

definition overrideFingerprint :: "env \<Rightarrow> translation_filter \<Rightarrow> string" where
  "overrideFingerprint env f =
     keysetFingerprint [JString (toLower (unicode env) (trimSpace (xfSearch f))),
       JString (optionalString (\<lambda>l. l) (xfLocale f)), JString (optionalString scopeKey (xfScope f)),
       JString (translationSortName (xfSort f)), JString (sortDirectionName (xfDirection f))]"

definition overrideKey :: "translation_sort \<Rightarrow> translation \<Rightarrow> sort_value list" where
  "overrideKey sorting t =
     [if sorting = TranslationSortUpdatedAt then TimeValue (translationUpdatedAt t) else TextValue (translationKey t),
      TextValue (translationLocale t), TextValue (scopeKey (translationScope t)), TextValue (translationKey t)]"

definition overrideCursor :: "env \<Rightarrow> translation_filter \<Rightarrow> translation \<Rightarrow> string" where
  "overrideCursor env f t =
     encodeKeysetCursor ''translation-overrides'' (overrideFingerprint env f)
       (if xfSort f = TranslationSortUpdatedAt then formatTime (translationUpdatedAt t) else translationKey t)
       (overrideID t)"

definition overrideAfter ::
  "ports \<Rightarrow> bool \<Rightarrow> string \<Rightarrow> string \<Rightarrow> sort_value list option result" where
  "overrideAfter p timed fingerprint cursor =
     (if cursor = [] then Inr None
      else case decodeKeysetCursor cursor ''translation-overrides'' fingerprint of
        Inl _ \<Rightarrow> validationError
      | Inr decoded \<Rightarrow>
          (let parts = splitOn (CHR 0x00) (cursorID decoded) in
           if length parts \<noteq> 3 then validationError
           else case cursorSort p timed (cursorSortValue decoded) of
             Inl err \<Rightarrow> Inl err
           | Inr v \<Rightarrow> Inr (Some (v # map TextValue parts))))"

definition overrideRows :: "env \<Rightarrow> translation_filter \<Rightarrow> world \<Rightarrow> translation list" where
  "overrideRows env f w =
     filter (\<lambda>t. matchesSearch env (trimSpace (xfSearch f)) (translationKey t)
          \<and> (case xfLocale f of None \<Rightarrow> True | Some l \<Rightarrow> translationLocale t = l)
          \<and> (case xfScope f of None \<Rightarrow> True | Some s \<Rightarrow> translationScope t = s)) (visibleRows overridesTable w)"

definition ListTranslationOverrides ::
  "env \<Rightarrow> ports \<Rightarrow> translation_filter \<Rightarrow> (world, go_error, translation page) eff" where
  "ListTranslationOverrides env p f =
     (let pageSize = nat (effectiveLimit (xfLimit f)) in
      andThen (liftSum (overrideAfter p (xfSort f = TranslationSortUpdatedAt) (overrideFingerprint env f) (xfCursor f)))
        (\<lambda>after.
      andThen (withSystemTx env (mapError (Wrapped ''list translation overrides'')
        (keysetQuery env (xfDirection f) (overrideKey (xfSort f)) (Suc pageSize) (Inr after)
          (overrideRows env f)))) (\<lambda>items.
      ret (keysetPage pageSize (overrideCursor env f) items))))"

end
