(* ===== verification/InvitationLink.thy ===== *)
theory InvitationLink imports Credentials begin

text \<open>
  The link of an invitation, \<^verbatim>\<open>server/invitation_link.go\<close>: the configured base URL, checked once, with the path
  \<^verbatim>\<open>/invite\<close> and the token as its query.
\<close>

text \<open>\<^verbatim>\<open>strings.TrimRight(s, "/")\<close>.\<close>

definition trimRightSlash :: "string \<Rightarrow> string" where
  "trimRightSlash s = rev (dropWhile (\<lambda>c. c = CHR ''/'') (rev s))"

definition newInvitationLinkBuilder :: "ports \<Rightarrow> string \<Rightarrow> url result" where
  "newInvitationLinkBuilder p raw =
     (case urlParse p (trimSpace raw) of
        None \<Rightarrow> Inl (Wrapped ''parse invitation base URL'' (OpaqueError ''url''))
      | Some u \<Rightarrow>
          if urlScheme u \<noteq> ''http'' \<and> urlScheme u \<noteq> ''https''
          then Inl (OpaqueError ''invitation base URL must use http or https'')
          else if urlHost u = [] then Inl (OpaqueError ''invitation base URL must be absolute'')
          else if urlUser u \<noteq> None
          then Inl (OpaqueError ''invitation base URL must not contain user information'')
          else if urlRawQuery u \<noteq> []
          then Inl (OpaqueError ''invitation base URL must not contain query parameters'')
          else if urlFragment u \<noteq> []
          then Inl (OpaqueError ''invitation base URL must not contain a fragment'')
          else Inr (u\<lparr>urlPath := trimRightSlash (urlPath u)\<rparr>))"

definition invitationTarget :: "url \<Rightarrow> string \<Rightarrow> url" where
  "invitationTarget base token =
     (let target = base\<lparr>urlPath := trimRightSlash (urlPath base) @ ''/invite''\<rparr>
      in target\<lparr>urlRawQuery := queryEncode (querySet (parseQuery (urlRawQuery target)) ''token'' token)\<rparr>)"

definition invitationURL :: "url \<Rightarrow> string \<Rightarrow> string" where
  "invitationURL base token = urlString (invitationTarget base token)"

subsection \<open>What a link carries\<close>

lemma newInvitationLinkBuilder_Inr:
  "newInvitationLinkBuilder p raw = Inr u \<Longrightarrow>
     (urlScheme u = ''http'' \<or> urlScheme u = ''https'') \<and> urlHost u \<noteq> [] \<and> urlUser u = None \<and> urlRawQuery u = []
     \<and> urlFragment u = [] \<and> trimRightSlash (urlPath u) = urlPath u"
  by (auto simp: newInvitationLinkBuilder_def trimRightSlash_def split: option.splits if_splits)

lemma parseQuery_Nil [simp]: "parseQuery [] = []"
  by (simp add: parseQuery_def queryPiece_def)

lemma invitationTarget_token:
  "urlRawQuery base = [] \<Longrightarrow> parseQuery (urlRawQuery (invitationTarget base token)) = [(''token'', token)]"
  by (simp add: invitationTarget_def Let_def querySet_def parseQuery_queryEncode)

lemma escape_append [simp]: "escape mode (xs @ ys) = escape mode xs @ escape mode ys"
  by (simp add: escape_def)

lemma escape_slash: "s \<noteq> [] \<Longrightarrow> hd s = CHR ''/'' \<Longrightarrow> escape EncodePath s \<noteq> [] \<and> hd (escape EncodePath s) = CHR ''/''"
  by (cases s) (simp_all add: escape_def escapeByte_def shouldEscape_def asciiLetter_def asciiDigit_def byte_def)

lemma escape_words: "escape EncodePath ''/invite'' = ''/invite''" "escape EncodeQueryComponent ''token'' = ''token''"
  by code_simp+

lemma trimRightSlash_hd: "trimRightSlash s \<noteq> [] \<Longrightarrow> hd (trimRightSlash s) = hd s"
proof -
  have "s = trimRightSlash s @ rev (takeWhile (\<lambda>c. c = CHR ''/'') (rev s))"
    unfolding trimRightSlash_def by (metis rev_append rev_rev_ident takeWhile_dropWhile_id)
  then show "trimRightSlash s \<noteq> [] \<Longrightarrow> hd (trimRightSlash s) = hd s" by (metis hd_append2)
qed

text \<open>What \<^verbatim>\<open>url.Parse\<close> promises: the path of a URL with a host is empty or starts with a slash.\<close>

definition urlParseRooted :: "ports \<Rightarrow> bool" where
  "urlParseRooted p \<longleftrightarrow>
     (\<forall>s u. urlParse p s = Some u \<longrightarrow> urlHost u \<noteq> [] \<longrightarrow> urlPath u = [] \<or> hd (urlPath u) = CHR ''/'')"

lemma invitationURL_text:
  assumes "newInvitationLinkBuilder p raw = Inr base" and "urlParseRooted p"
  shows "invitationURL base token
    = urlScheme base @ ''://'' @ escape EncodeHost (urlHost base) @ escape EncodePath (urlPath base) @ ''/invite?token=''
      @ escape EncodeQueryComponent token"
proof -
  note base = newInvitationLinkBuilder_Inr[OF assms(1)]
  obtain u where u: "urlParse p (trimSpace raw) = Some u" "base = u\<lparr>urlPath := trimRightSlash (urlPath u)\<rparr>"
    using assms(1) by (auto simp: newInvitationLinkBuilder_def split: option.splits if_splits)
  have "urlPath u = [] \<or> hd (urlPath u) = CHR ''/''"
    using assms(2) u base by (auto simp: urlParseRooted_def)
  moreover have "trimRightSlash [] = []" by (simp add: trimRightSlash_def)
  ultimately have "urlPath base = [] \<or> hd (urlPath base) = CHR ''/''"
    using u(2) trimRightSlash_hd[of "urlPath u"] by (cases "urlPath u = []") auto
  then have "escape EncodePath (urlPath base) = [] \<or> hd (escape EncodePath (urlPath base)) = CHR ''/''"
    using escape_slash by (cases "urlPath base = []") (auto simp: escape_def)
  then have rooted: "hd (escape EncodePath (urlPath base) @ ''/invite'') = CHR ''/''"
    by (cases "escape EncodePath (urlPath base) = []") auto
  have "queryEncode [(''token'', token)] = ''token='' @ escape EncodeQueryComponent token"
    by (simp add: queryEncode_def queryPair_def escape_words)
  then show ?thesis using base rooted
    by (auto simp: invitationURL_def urlString_def invitationTarget_def Let_def querySet_def escape_words)
qed

end
