(* ===== verification/StoreSteps.thy ===== *)
theory StoreSteps imports OutboxStore LocalizationStore begin

text \<open>
  An abstract account of what the store may do to the database: the relation \<open>step\<close> lists every kind
  of write the SQL of \<^verbatim>\<open>server/postgres\<close> performs, with the conditions under which it happens and the
  scope (a tenant's rows, or the whole system) it is confined to. The store's operations are then shown
  to be sequences of such steps, and the properties of the data that every operation keeps are proved
  once, by induction over the steps.
\<close>

subsection \<open>Scopes and accepted writes\<close>

datatype scope = System | Tenant string

fun inScope :: "scope \<Rightarrow> string \<Rightarrow> bool" where
  "inScope System t = True"
| "inScope (Tenant t') t = (t = t')"

fun userInScope :: "scope \<Rightarrow> db \<Rightarrow> user_row \<Rightarrow> bool" where
  "userInScope System d r = True"
| "userInScope (Tenant t) d r = (\<exists>m \<in> set (memberships d). m_user m = u_id r \<and> m_tenant m = t)"

fun auditInScope :: "scope \<Rightarrow> audit_row \<Rightarrow> bool" where
  "auditInScope System r = True"
| "auditInScope (Tenant t) r = (a_tenant r = Some t)"

definition accepts :: "env \<Rightarrow> 'r table \<Rightarrow> db \<Rightarrow> 'r \<Rightarrow> bool" where
  "accepts env tbl d r \<longleftrightarrow> rowViolation env tbl d (rowsOf tbl d) r = None"

definition acceptsUpdate :: "env \<Rightarrow> 'r table \<Rightarrow> db \<Rightarrow> ('r \<Rightarrow> bool) \<Rightarrow> ('r \<Rightarrow> 'r) \<Rightarrow> bool" where
  "acceptsUpdate env tbl d hit f \<longleftrightarrow>
     (\<forall>r \<in> set (rowsOf tbl d). hit r \<longrightarrow>
        rowViolation env tbl d
          (filter (\<lambda>r'. keyOf tbl r' \<noteq> keyOf tbl (f r)) (updateWhere hit f (rowsOf tbl d))) (f r) = None)"

lemma updateTable_accepts:
  assumes "updateTable env tbl P f w = (Inr rs, w')"
  shows "acceptsUpdate env tbl (w_db w) (\<lambda>r. policy tbl w r \<and> P (w_now w) r) (f (w_now w))"
proof -
  let ?hit = "\<lambda>r. policy tbl w r \<and> P (w_now w) r"
  let ?rows = "updateWhere ?hit (f (w_now w)) (rowsOf tbl (w_db w))"
  note run = assms[unfolded updateTable_Inr firstRowViolation_None]
  have rs: "rs = map (f (w_now w)) (filter ?hit (rowsOf tbl (w_db w)))" using run by blast
  have ok: "\<forall>r \<in> set rs. rowViolation env tbl (w_db w) (filter (\<lambda>r'. keyOf tbl r' \<noteq> keyOf tbl r) ?rows) r = None"
    using run by blast
  show ?thesis unfolding acceptsUpdate_def
  proof (intro ballI impI)
    fix r
    assume "r \<in> set (rowsOf tbl (w_db w))" "?hit r"
    then have "f (w_now w) r \<in> set rs" using rs by simp
    then show "rowViolation env tbl (w_db w)
        (filter (\<lambda>r'. keyOf tbl r' \<noteq> keyOf tbl (f (w_now w) r)) ?rows) (f (w_now w) r) = None"
      by (rule ok[rule_format])
  qed
qed

text \<open>An active membership whose role is an administrator role, and a tenant that has one.\<close>

definition adminMembership :: "db \<Rightarrow> membership_row \<Rightarrow> bool" where
  "adminMembership d m \<longleftrightarrow>
     m_status m = MembershipActive
     \<and> (\<exists>r \<in> set (roles d). r_id r = m_role m \<and> r_kind r = RoleKindAdministrator)"

definition hasAdministrator :: "db \<Rightarrow> string \<Rightarrow> bool" where
  "hasAdministrator d t \<longleftrightarrow> (\<exists>m \<in> set (memberships d). m_tenant m = t \<and> adminMembership d m)"

subsection \<open>The steps\<close>

inductive step :: "env \<Rightarrow> scope \<Rightarrow> db \<Rightarrow> db \<Rightarrow> bool" for env s where
  tenant_inserted:
    "accepts env tenantsTable d r \<Longrightarrow> inScope s (tenantID r) \<Longrightarrow>
     step env s d (d\<lparr>tenants := tenants d @ [r]\<rparr>)"
| tenant_renamed:
    "\<forall>r \<in> set (tenants d). hit r \<longrightarrow> inScope s (tenantID r) \<Longrightarrow>
     step env s d (d\<lparr>tenants := updateWhere hit (renameTenant name now) (tenants d)\<rparr>)"
| user_inserted:
    "accepts env usersTable d r \<Longrightarrow> s = System \<Longrightarrow>
     step env s d (d\<lparr>users := users d @ [r]\<rparr>)"
| session_bumped:
    "\<forall>r \<in> set (users d). hit r \<longrightarrow> userInScope s d r \<Longrightarrow>
     step env s d (d\<lparr>users := updateWhere hit (bumpSession now) (users d)\<rparr>)"
| role_inserted:
    "accepts env rolesTable d r \<Longrightarrow> inScope s (r_tenant r) \<Longrightarrow>
     step env s d (d\<lparr>roles := roles d @ [r]\<rparr>)"
| role_renamed:
    "\<forall>r \<in> set (roles d). hit r \<longrightarrow> inScope s (r_tenant r) \<and> r_kind r = RoleKindCustom \<Longrightarrow>
     acceptsUpdate env rolesTable d hit (renameRole name now) \<Longrightarrow>
     step env s d (d\<lparr>roles := updateWhere hit (renameRole name now) (roles d)\<rparr>)"
| role_deleted:
    "\<forall>r \<in> set (roles d). hit r \<longrightarrow>
        inScope s (r_tenant r) \<and> r_kind r = RoleKindCustom \<and> \<not> referenced rolesTable d r \<Longrightarrow>
     step env s d (cascade rolesTable (filter hit (roles d)) (d\<lparr>roles := filter (\<lambda>r. \<not> hit r) (roles d)\<rparr>))"
| permission_inserted:
    "accepts env rolePermissionsTable d r \<Longrightarrow> inScope s (p_tenant r) \<Longrightarrow>
     step env s d (d\<lparr>role_permissions := role_permissions d @ [r]\<rparr>)"
| permissions_deleted:
    "\<forall>r \<in> set (role_permissions d). hit r \<longrightarrow> inScope s (p_tenant r) \<Longrightarrow>
     step env s d (d\<lparr>role_permissions := filter (\<lambda>r. \<not> hit r) (role_permissions d)\<rparr>)"
| membership_inserted:
    "accepts env membershipsTable d r \<Longrightarrow> inScope s (m_tenant r) \<Longrightarrow>
     step env s d (d\<lparr>memberships := memberships d @ [r]\<rparr>)"
| membership_changed:
    "\<forall>m \<in> set (memberships d). hit m \<longrightarrow> inScope s (m_tenant m) \<Longrightarrow>
     \<forall>m \<in> set (memberships d). hit m \<and> adminMembership d m \<longrightarrow>
        adminMembership d (changeMembership rid status now m)
        \<or> (\<exists>other \<in> set (memberships d). m_tenant other = m_tenant m \<and> \<not> hit other \<and> adminMembership d other) \<Longrightarrow>
     acceptsUpdate env membershipsTable d hit (changeMembership rid status now) \<Longrightarrow>
     step env s d (d\<lparr>memberships := updateWhere hit (changeMembership rid status now) (memberships d)\<rparr>)"
| invitation_inserted:
    "accepts env invitationsTable d r \<Longrightarrow> inScope s (i_tenant r) \<Longrightarrow>
     i_used_at r = None \<Longrightarrow> i_revoked_at r = None \<Longrightarrow>
     step env s d (d\<lparr>invitations := invitations d @ [r]\<rparr>)"
| invitation_used:
    "\<forall>r \<in> set (invitations d). hit r \<longrightarrow>
        inScope s (i_tenant r) \<and> i_used_at r = None \<and> i_revoked_at r = None \<and> now < i_expires_at r \<Longrightarrow>
     step env s d (d\<lparr>invitations := updateWhere hit (useInvitation now) (invitations d)\<rparr>)"
| invitation_revoked:
    "\<forall>r \<in> set (invitations d). hit r \<longrightarrow>
        inScope s (i_tenant r) \<and> i_used_at r = None \<and> i_revoked_at r = None \<Longrightarrow>
     step env s d (d\<lparr>invitations := updateWhere hit (revokeRow now) (invitations d)\<rparr>)"
| delivery_changed:
    "\<forall>r \<in> set (invitations d). hit r \<longrightarrow> inScope s (i_tenant r) \<Longrightarrow>
     step env s d (d\<lparr>invitations := updateWhere hit (setDelivery status now) (invitations d)\<rparr>)"
| invitations_anonymized:
    "\<forall>r \<in> set (invitations d). hit r \<longrightarrow> inScope s (i_tenant r) \<and> i_anonymized_at r = None \<Longrightarrow>
     step env s d (d\<lparr>invitations := updateWhere hit (anonymizeRow now) (invitations d)\<rparr>)"
| identity_inserted:
    "accepts env identitiesTable d r \<Longrightarrow> s = System \<Longrightarrow>
     step env s d (d\<lparr>identities := identities d @ [r]\<rparr>)"
| job_inserted:
    "accepts env outboxTable d r \<Longrightarrow> inScope s (o_tenant r) \<Longrightarrow> o_status r = OutboxPending \<Longrightarrow>
     step env s d (d\<lparr>outbox := outbox d @ [r]\<rparr>)"
| job_leased:
    "\<forall>r \<in> set (outbox d). hit r \<longrightarrow> inScope s (o_tenant r) \<and> claimable now r \<Longrightarrow>
     step env s d (d\<lparr>outbox := updateWhere hit (leaseJob token now) (outbox d)\<rparr>)"
| job_completed:
    "\<forall>r \<in> set (outbox d). hit r \<longrightarrow> inScope s (o_tenant r) \<and> leasedJob job now r \<Longrightarrow>
     step env s d (d\<lparr>outbox := updateWhere hit (completeJob now) (outbox d)\<rparr>)"
| job_retried:
    "\<forall>r \<in> set (outbox d). hit r \<longrightarrow> inScope s (o_tenant r) \<and> leasedJob job now r \<Longrightarrow>
     step env s d (d\<lparr>outbox := updateWhere hit (retryJob availableAt msg now) (outbox d)\<rparr>)"
| job_dead_lettered:
    "\<forall>r \<in> set (outbox d). hit r \<longrightarrow> inScope s (o_tenant r) \<and> leasedJob job now r \<Longrightarrow>
     step env s d (d\<lparr>outbox := updateWhere hit (deadLetterJob msg now) (outbox d)\<rparr>)"
| jobs_cancelled:
    "\<forall>r \<in> set (outbox d). hit r \<longrightarrow>
        inScope s (o_tenant r) \<and> (o_status r = OutboxPending \<or> o_status r = OutboxProcessing) \<Longrightarrow>
     step env s d (d\<lparr>outbox := updateWhere hit (cancelJob now) (outbox d)\<rparr>)"
| language_inserted:
    "accepts env languagesTable d r \<Longrightarrow> s = System \<Longrightarrow>
     step env s d (d\<lparr>languages := languages d @ [r]\<rparr>)"
| language_changed:
    "acceptsUpdate env languagesTable d hit (changeLanguage l now) \<Longrightarrow> s = System \<Longrightarrow>
     step env s d (d\<lparr>languages := updateWhere hit (changeLanguage l now) (languages d)\<rparr>)"
| override_inserted:
    "accepts env overridesTable d r \<Longrightarrow> s = System \<Longrightarrow>
     step env s d (d\<lparr>overrides := overrides d @ [r]\<rparr>)"
| override_changed:
    "s = System \<Longrightarrow> step env s d (d\<lparr>overrides := updateWhere hit (changeOverride t now) (overrides d)\<rparr>)"
| override_deleted:
    "s = System \<Longrightarrow> step env s d (d\<lparr>overrides := filter (\<lambda>r. \<not> hit r) (overrides d)\<rparr>)"
| audit_inserted:
    "accepts env auditTable d r \<Longrightarrow> auditInScope s r \<Longrightarrow>
     step env s d (d\<lparr>audit_events := audit_events d @ [r]\<rparr>)"

abbreviation steps :: "env \<Rightarrow> scope \<Rightarrow> db \<Rightarrow> db \<Rightarrow> bool" where
  "steps env s \<equiv> (step env s)\<^sup>*\<^sup>*"

lemma steps_step: "step env s d d' \<Longrightarrow> steps env s d d'"
  by blast

text \<open>An invariant of the steps is an invariant of the sequences of steps.\<close>

lemma steps_invariant:
  assumes "steps env s d d'" and "I d" and "\<And>x y. step env s x y \<Longrightarrow> I x \<Longrightarrow> I y"
  shows "I d'"
  using assms(1,2) by (induction rule: rtranclp_induct) (auto intro: assms(3))

subsection \<open>Primary keys\<close>

definition keysDistinct :: "db \<Rightarrow> bool" where
  "keysDistinct d \<longleftrightarrow>
     distinct (map tenantID (tenants d)) \<and> distinct (map u_id (users d)) \<and> distinct (map r_id (roles d))
     \<and> distinct (map m_id (memberships d)) \<and> distinct (map i_id (invitations d))
     \<and> distinct (map o_id (outbox d)) \<and> distinct (map languageCode (languages d))
     \<and> distinct (map a_id (audit_events d))"

lemma distinct_snoc_key:
  "distinct (map k xs) \<Longrightarrow> k x \<notin> k ` set xs \<Longrightarrow> distinct (map k (xs @ [x]))"
  by simp

lemma distinct_filter_key: "distinct (map k xs) \<Longrightarrow> distinct (map k (filter P xs))"
  by (rule distinct_map_filter)

lemma accepts_key: "accepts env tbl d r \<Longrightarrow> keyOf tbl r \<notin> keyOf tbl ` set (rowsOf tbl d)"
  by (simp add: accepts_def rowViolation_None)

lemma accepts_keys:
  "accepts env tenantsTable d t \<Longrightarrow> tenantID t \<notin> tenantID ` set (tenants d)"
  "accepts env usersTable d u \<Longrightarrow> u_id u \<notin> u_id ` set (users d)"
  "accepts env rolesTable d r \<Longrightarrow> r_id r \<notin> r_id ` set (roles d)"
  "accepts env membershipsTable d m \<Longrightarrow> m_id m \<notin> m_id ` set (memberships d)"
  "accepts env invitationsTable d i \<Longrightarrow> i_id i \<notin> i_id ` set (invitations d)"
  "accepts env outboxTable d j \<Longrightarrow> o_id j \<notin> o_id ` set (outbox d)"
  "accepts env languagesTable d l \<Longrightarrow> languageCode l \<notin> languageCode ` set (languages d)"
  "accepts env auditTable d a \<Longrightarrow> a_id a \<notin> a_id ` set (audit_events d)"
  by (auto dest!: accepts_key)

lemma job_row_simps [simp]:
  "o_id (leaseJob token now r) = o_id r" "o_id (completeJob now r) = o_id r"
  "o_id (retryJob t msg now r) = o_id r" "o_id (deadLetterJob msg now r) = o_id r"
  "o_id (cancelJob now r) = o_id r"
  "o_tenant (leaseJob token now r) = o_tenant r" "o_tenant (completeJob now r) = o_tenant r"
  "o_tenant (retryJob t msg now r) = o_tenant r" "o_tenant (deadLetterJob msg now r) = o_tenant r"
  "o_tenant (cancelJob now r) = o_tenant r"
  "o_invitation (leaseJob token now r) = o_invitation r" "o_invitation (completeJob now r) = o_invitation r"
  "o_invitation (retryJob t msg now r) = o_invitation r" "o_invitation (deadLetterJob msg now r) = o_invitation r"
  "o_invitation (cancelJob now r) = o_invitation r"
  by (simp_all add: leaseJob_def completeJob_def retryJob_def deadLetterJob_def cancelJob_def)

lemma changed_row_simps [simp]:
  "tenantID (renameTenant name now t) = tenantID t"
  "r_id (renameRole name now r) = r_id r" "r_tenant (renameRole name now r) = r_tenant r"
  "r_kind (renameRole name now r) = r_kind r"
  "i_id (setDelivery st now i) = i_id i" "i_tenant (setDelivery st now i) = i_tenant i"
  "i_used_at (setDelivery st now i) = i_used_at i" "i_revoked_at (setDelivery st now i) = i_revoked_at i"
  "i_role (setDelivery st now i) = i_role i" "i_email (setDelivery st now i) = i_email i"
  "i_token_hash (setDelivery st now i) = i_token_hash i"
  "i_id (anonymizeRow now i) = i_id i" "i_tenant (anonymizeRow now i) = i_tenant i"
  "i_used_at (anonymizeRow now i) = i_used_at i" "i_revoked_at (anonymizeRow now i) = i_revoked_at i"
  "i_role (anonymizeRow now i) = i_role i"
  "languageCode (changeLanguage l now x) = languageCode x"
  by (simp_all add: renameTenant_def renameRole_def setDelivery_def anonymizeRow_def changeLanguage_def)

lemma keysDistinct_step:
  assumes "step env s d d'" and "keysDistinct d"
  shows "keysDistinct d'"
  using assms
  by (cases rule: step.cases)
    (auto simp: keysDistinct_def map_updateWhere_key distinct_map_filter
       dest: accepts_keys)

end
