(* ===== verification/StoreRuns.thy ===== *)
theory StoreRuns imports StoreSteps begin

text \<open>
  Every operation of the store is a sequence of steps of \<open>StoreSteps\<close> within its scope: an operation
  under \<^verbatim>\<open>WithTenantTx\<close> changes only what belongs to its tenant. The rules for sequencing, branching and
  statements are stated once for a preorder on worlds (the locale \<open>world_relation\<close>) and used twice:
  inside a transaction and for whole operations.
\<close>

named_theorems keeps_rules

subsection \<open>Computations that stay within a relation on worlds\<close>

definition keeps ::
  "(world \<Rightarrow> bool) \<Rightarrow> (world \<Rightarrow> world \<Rightarrow> bool) \<Rightarrow> (world, go_error, 'a) eff \<Rightarrow> bool" where
  "keeps ctx R m \<longleftrightarrow> (\<forall>w r w'. ctx w \<longrightarrow> m w = (r, w') \<longrightarrow> R w w')"

lemma keepsI: "(\<And>w r w'. ctx w \<Longrightarrow> m w = (r, w') \<Longrightarrow> R w w') \<Longrightarrow> keeps ctx R m"
  by (simp add: keeps_def)

lemma keepsD: "keeps ctx R m \<Longrightarrow> ctx w \<Longrightarrow> m w = (r, w') \<Longrightarrow> R w w'"
  by (simp add: keeps_def)

lemma keeps_if [keeps_rules]:
  "(b \<Longrightarrow> keeps ctx R m) \<Longrightarrow> (\<not> b \<Longrightarrow> keeps ctx R n) \<Longrightarrow> keeps ctx R (if b then m else n)"
  by simp

lemma keeps_let [keeps_rules]: "(\<And>x. x = e \<Longrightarrow> keeps ctx R (m x)) \<Longrightarrow> keeps ctx R (let x = e in m x)"
  by simp

lemma keeps_case_option [keeps_rules]:
  "keeps ctx R m \<Longrightarrow> (\<And>x. keeps ctx R (n x)) \<Longrightarrow> keeps ctx R (case e of None \<Rightarrow> m | Some x \<Rightarrow> n x)"
  by (cases e) auto

lemma keeps_case_sum [keeps_rules]:
  "(\<And>x. keeps ctx R (m x)) \<Longrightarrow> (\<And>x. keeps ctx R (n x)) \<Longrightarrow>
     keeps ctx R (case e of Inl x \<Rightarrow> m x | Inr x \<Rightarrow> n x)"
  by (cases e) auto

lemma keeps_case_prod [keeps_rules]:
  "(\<And>x y. keeps ctx R (m x y)) \<Longrightarrow> keeps ctx R (case e of (x, y) \<Rightarrow> m x y)"
  by (cases e) auto

locale world_relation =
  fixes ctx :: "world \<Rightarrow> bool" and R :: "world \<Rightarrow> world \<Rightarrow> bool"
  assumes refl: "R w w"
    and trans: "R w w1 \<Longrightarrow> R w1 w2 \<Longrightarrow> R w w2"
    and stable: "ctx w \<Longrightarrow> R w w' \<Longrightarrow> ctx w'"
    and ticks: "R w (tick w)"
begin

lemma ret: "keeps ctx R (ret x)"
  by (auto simp: keeps_def ret_def refl)

lemma fail: "keeps ctx R (fail err)"
  by (auto simp: keeps_def fail_def refl)

lemma liftSum: "keeps ctx R (liftSum r)"
  by (auto simp: keeps_def liftSum_def refl)

lemma andThen:
  assumes "keeps ctx R m" and "\<And>x. keeps ctx R (f x)"
  shows "keeps ctx R (andThen m f)"
proof (rule keepsI)
  fix w r w'
  assume ctx: "ctx w" and run: "andThen m f w = (r, w')"
  obtain q w1 where m: "m w = (q, w1)" by fastforce
  have R1: "R w w1" using assms(1) ctx m by (rule keepsD)
  show "R w w'"
  proof (cases q)
    case (Inl err)
    then show ?thesis using run m R1 by (simp add: andThen_def)
  next
    case (Inr x)
    then have "f x w1 = (r, w')" using run m by (simp add: andThen_def)
    then have "R w1 w'" by (rule keepsD[OF assms(2) stable[OF ctx R1]])
    with R1 show ?thesis by (rule trans)
  qed
qed

lemma attempt: "keeps ctx R m \<Longrightarrow> keeps ctx R (attempt m)"
  by (auto simp: keeps_def attempt_def split: prod.splits)

lemma mapError: "keeps ctx R m \<Longrightarrow> keeps ctx R (mapError h m)"
  by (auto simp: keeps_def mapError_def split: prod.splits sum.splits)

lemma forEach: "(\<And>x. keeps ctx R (f x)) \<Longrightarrow> keeps ctx R (forEach f xs)"
  by (induction xs) (simp_all add: ret andThen)

lemma queryRow: "keeps ctx R (queryRow env q)"
proof (rule keepsI)
  fix w r w'
  assume "queryRow env q w = (r, w')"
  then have "w' = tick w" by (cases r) (auto simp: queryRow_Inr queryRow_Inl)
  then show "R w w'" by (simp add: ticks)
qed

lemma query: "keeps ctx R (query env q)"
proof (rule keepsI)
  fix w r w'
  assume "query env q w = (r, w')"
  then have "w' = tick w" by (cases r) (auto simp: query_Inr query_Inl)
  then show "R w w'" by (simp add: ticks)
qed

lemma newUUID: "keeps ctx R (newUUID env)"
  by (rule keepsI) (auto simp: newUUID_def ticks split: option.splits)

lemma goNow: "keeps ctx R (goNow env)"
  by (rule keepsI) (auto simp: goNow_def ticks)

lemma insertInto:
  assumes "\<And>w r. ctx w \<Longrightarrow> policy tbl w r \<Longrightarrow> accepts env tbl (w_db w) r \<Longrightarrow> r = mk (w_now w) \<Longrightarrow>
      R w ((tick w)\<lparr>w_db := putRows tbl (rowsOf tbl (w_db w) @ [r]) (w_db w)\<rparr>)"
  shows "keeps ctx R (insertInto env tbl mk)"
proof (rule keepsI)
  fix w r w'
  assume ctx: "ctx w" and run: "insertInto env tbl mk w = (r, w')"
  show "R w w'"
  proof (cases r)
    case (Inl err)
    then show ?thesis using run ticks by (auto dest: insertInto_Inl)
  next
    case (Inr x)
    then show ?thesis using run assms[OF ctx] by (auto simp: insertInto_Inr accepts_def)
  qed
qed

lemma updateTable:
  assumes "\<And>w hit. ctx w \<Longrightarrow> hit = (\<lambda>r. policy tbl w r \<and> P (w_now w) r) \<Longrightarrow>
      acceptsUpdate env tbl (w_db w) hit (f (w_now w)) \<Longrightarrow>
      R w ((tick w)\<lparr>w_db := putRows tbl (updateWhere hit (f (w_now w)) (rowsOf tbl (w_db w))) (w_db w)\<rparr>)"
  shows "keeps ctx R (updateTable env tbl P f)"
proof (rule keepsI)
  fix w r w'
  assume ctx: "ctx w" and run: "updateTable env tbl P f w = (r, w')"
  show "R w w'"
  proof (cases r)
    case (Inl err)
    then show ?thesis using run ticks by (auto dest: updateTable_Inl)
  next
    case (Inr rs)
    let ?hit = "\<lambda>r. policy tbl w r \<and> P (w_now w) r"
    have "acceptsUpdate env tbl (w_db w) ?hit (f (w_now w))"
      using run unfolding Inr by (rule updateTable_accepts)
    then have "R w ((tick w)\<lparr>w_db := putRows tbl (updateWhere ?hit (f (w_now w)) (rowsOf tbl (w_db w))) (w_db w)\<rparr>)"
      by (rule assms[OF ctx HOL.refl])
    moreover have "w' = (tick w)\<lparr>w_db := putRows tbl (updateWhere ?hit (f (w_now w)) (rowsOf tbl (w_db w))) (w_db w)\<rparr>"
      using run unfolding Inr updateTable_Inr by blast
    ultimately show ?thesis by (rule back_subst[OF _ sym])
  qed
qed

lemma updateReturning:
  "keeps ctx R (updateTable env tbl P f) \<Longrightarrow> keeps ctx R (updateReturning env tbl P f)"
  unfolding updateReturning_def
  by (rule andThen) (auto simp: fail ret split: list.splits)

lemma deleteFrom:
  assumes "\<And>w hit. ctx w \<Longrightarrow> hit = (\<lambda>r. policy tbl w r \<and> P r) \<Longrightarrow>
      \<forall>r \<in> set (rowsOf tbl (w_db w)). hit r \<longrightarrow> \<not> referenced tbl (w_db w) r \<Longrightarrow>
      R w ((tick w)\<lparr>w_db := cascade tbl (filter hit (rowsOf tbl (w_db w)))
              (putRows tbl (filter (\<lambda>r. \<not> hit r) (rowsOf tbl (w_db w))) (w_db w))\<rparr>)"
  shows "keeps ctx R (deleteFrom env tbl P)"
proof (rule keepsI)
  fix w r w'
  assume ctx: "ctx w" and run: "deleteFrom env tbl P w = (r, w')"
  show "R w w'"
  proof (cases r)
    case (Inl err)
    then show ?thesis using run ticks by (auto dest: deleteFrom_Inl)
  next
    case (Inr n)
    then show ?thesis using run assms[OF ctx] by (auto simp: deleteFrom_Inr)
  qed
qed

lemmas control = ret fail liftSum andThen attempt mapError forEach queryRow query newUUID goNow
  updateReturning

end

subsection \<open>Inside a transaction\<close>

fun scopeSettings :: "scope \<Rightarrow> world \<Rightarrow> bool" where
  "scopeSettings System w = (w_bypass_rls w = ''true'')"
| "scopeSettings (Tenant t) w = (w_bypass_rls w = ''false'' \<and> w_current_tenant w = t \<and> t \<noteq> [])"

definition txCtx :: "scope \<Rightarrow> world \<Rightarrow> bool" where
  "txCtx s w \<longleftrightarrow> scopeSettings s w \<and> keysDistinct (w_db w)"

definition inTx :: "env \<Rightarrow> scope \<Rightarrow> world \<Rightarrow> world \<Rightarrow> bool" where
  "inTx env s w w' \<longleftrightarrow> sameSession w w' \<and> steps env s (w_db w) (w_db w')"

lemma keysDistinct_steps: "steps env s d d' \<Longrightarrow> keysDistinct d \<Longrightarrow> keysDistinct d'"
  by (rule steps_invariant) (auto intro: keysDistinct_step)

lemma scopeSettings_same: "sameSession w w' \<Longrightarrow> scopeSettings s w \<Longrightarrow> scopeSettings s w'"
  by (cases s) (auto simp: sameSession_def)

interpretation inTx: world_relation "txCtx s" "inTx env s" for env s
  by unfold_locales
    (auto simp: inTx_def txCtx_def intro: sameSession_trans rtranclp_trans keysDistinct_steps
        scopeSettings_same)

declare inTx.control [keeps_rules]

lemma tenantVisible_inScope: "txCtx s w \<Longrightarrow> tenantVisible w t \<longleftrightarrow> inScope s t"
  by (cases s) (auto simp: txCtx_def tenantVisible_def bypassesRLS_def currentTenant_def)

lemma userVisible_inScope: "txCtx s w \<Longrightarrow> userVisible w r \<longleftrightarrow> userInScope s (w_db w) r"
  by (cases s)
    (auto simp: txCtx_def userVisible_def bypassesRLS_def currentTenant_def list_ex_iff)

lemma auditVisible_inScope: "txCtx s w \<Longrightarrow> auditVisible w r \<longleftrightarrow> auditInScope s r"
  by (cases s)
    (auto simp: txCtx_def auditVisible_def bypassesRLS_def currentTenant_def split: option.splits)

lemma bypassesRLS_scope: "txCtx s w \<Longrightarrow> bypassesRLS w \<longleftrightarrow> s = System"
  by (cases s) (auto simp: txCtx_def bypassesRLS_def)

lemma inTx_step:
  "step env s (w_db w) d' \<Longrightarrow> inTx env s w ((tick w)\<lparr>w_db := d'\<rparr>)"
  by (auto simp: inTx_def)

lemmas scope_simps = tenantVisible_inScope userVisible_inScope auditVisible_inScope bypassesRLS_scope

subsection \<open>The statements of the store\<close>

lemma keeps_insertAudit [keeps_rules]: "keeps (txCtx s) (inTx env s) (insertInto env auditTable mk)"
  by (rule inTx.insertInto) (auto simp: scope_simps intro!: inTx_step step.audit_inserted)

lemma keeps_insertTenant [keeps_rules]:
  "keeps (txCtx s) (inTx env s) (insertInto env tenantsTable mk)"
  by (rule inTx.insertInto) (auto simp: scope_simps intro!: inTx_step step.tenant_inserted)

lemma keeps_insertUser [keeps_rules]: "keeps (txCtx System) (inTx env System) (insertInto env usersTable mk)"
  by (rule inTx.insertInto) (auto intro!: inTx_step step.user_inserted)

lemma keeps_insertRole [keeps_rules]: "keeps (txCtx s) (inTx env s) (insertInto env rolesTable mk)"
  by (rule inTx.insertInto) (auto simp: scope_simps intro!: inTx_step step.role_inserted)

lemma keeps_insertPermission [keeps_rules]:
  "keeps (txCtx s) (inTx env s) (insertInto env rolePermissionsTable mk)"
  by (rule inTx.insertInto) (auto simp: scope_simps intro!: inTx_step step.permission_inserted)

lemma keeps_insertMembership [keeps_rules]:
  "keeps (txCtx s) (inTx env s) (insertInto env membershipsTable mk)"
  by (rule inTx.insertInto) (auto simp: scope_simps intro!: inTx_step step.membership_inserted)

lemma keeps_insertInvitation:
  "(\<And>now. i_used_at (mk now) = None \<and> i_revoked_at (mk now) = None) \<Longrightarrow>
     keeps (txCtx s) (inTx env s) (insertInto env invitationsTable mk)"
  by (rule inTx.insertInto) (auto simp: scope_simps intro!: inTx_step step.invitation_inserted)

lemma keeps_insertIdentity [keeps_rules]:
  "keeps (txCtx s) (inTx env s) (insertInto env identitiesTable mk)"
  by (rule inTx.insertInto) (auto simp: scope_simps intro!: inTx_step step.identity_inserted)

lemma keeps_insertJob:
  "(\<And>now. o_status (mk now) = OutboxPending) \<Longrightarrow>
     keeps (txCtx s) (inTx env s) (insertInto env outboxTable mk)"
  by (rule inTx.insertInto) (auto simp: scope_simps intro!: inTx_step step.job_inserted)

lemma keeps_insertLanguage [keeps_rules]:
  "keeps (txCtx System) (inTx env System) (insertInto env languagesTable mk)"
  by (rule inTx.insertInto) (auto intro!: inTx_step step.language_inserted)

lemma keeps_insertOverride [keeps_rules]:
  "keeps (txCtx System) (inTx env System) (insertInto env overridesTable mk)"
  by (rule inTx.insertInto) (auto intro!: inTx_step step.override_inserted)

lemma keeps_renameTenant [keeps_rules]:
  "keeps (txCtx s) (inTx env s) (updateTable env tenantsTable P (renameTenant name))"
  by (rule inTx.updateTable) (auto simp: scope_simps intro!: inTx_step step.tenant_renamed)

lemma keeps_bumpSession [keeps_rules]:
  "keeps (txCtx s) (inTx env s) (updateTable env usersTable P bumpSession)"
  by (rule inTx.updateTable) (auto simp: scope_simps intro!: inTx_step step.session_bumped)

lemma keeps_renameRole:
  "(\<And>now r. P now r \<Longrightarrow> r_kind r = RoleKindCustom) \<Longrightarrow>
     keeps (txCtx s) (inTx env s) (updateTable env rolesTable P (renameRole name))"
  by (rule inTx.updateTable) (auto simp: scope_simps intro!: inTx_step step.role_renamed)

lemma keeps_deleteRole:
  assumes "\<And>r. P r \<Longrightarrow> r_kind r = RoleKindCustom"
  shows "keeps (txCtx s) (inTx env s) (deleteFrom env rolesTable P)"
proof (rule inTx.deleteFrom)
  fix w hit
  assume ctx: "txCtx s w" and hit: "hit = (\<lambda>r. policy rolesTable w r \<and> P r)"
    and ref: "\<forall>r \<in> set (rowsOf rolesTable (w_db w)). hit r \<longrightarrow> \<not> referenced rolesTable (w_db w) r"
  have "step env s (w_db w) (cascade rolesTable (filter hit (roles (w_db w)))
      ((w_db w)\<lparr>roles := filter (\<lambda>r. \<not> hit r) (roles (w_db w))\<rparr>))"
    by (rule step.role_deleted) (use ctx hit ref assms in \<open>auto simp: scope_simps\<close>)
  then show "inTx env s w ((tick w)\<lparr>w_db := cascade rolesTable (filter hit (rowsOf rolesTable (w_db w)))
      (putRows rolesTable (filter (\<lambda>r. \<not> hit r) (rowsOf rolesTable (w_db w))) (w_db w))\<rparr>)"
    by (simp add: inTx_step)
qed

lemma keeps_deletePermissions [keeps_rules]:
  "keeps (txCtx s) (inTx env s) (deleteFrom env rolePermissionsTable P)"
proof (rule inTx.deleteFrom)
  fix w hit
  assume ctx: "txCtx s w" and hit: "hit = (\<lambda>r. policy rolePermissionsTable w r \<and> P r)"
  have "step env s (w_db w) ((w_db w)\<lparr>role_permissions := filter (\<lambda>r. \<not> hit r) (role_permissions (w_db w))\<rparr>)"
    by (rule step.permissions_deleted) (use ctx hit in \<open>auto simp: scope_simps\<close>)
  then show "inTx env s w ((tick w)\<lparr>w_db := cascade rolePermissionsTable (filter hit (rowsOf rolePermissionsTable (w_db w)))
      (putRows rolePermissionsTable (filter (\<lambda>r. \<not> hit r) (rowsOf rolePermissionsTable (w_db w))) (w_db w))\<rparr>)"
    by (simp add: inTx_step)
qed

lemma keeps_reactivate:
  assumes "\<And>now m. P now m \<Longrightarrow> m_status m \<noteq> MembershipActive"
  shows "keeps (txCtx s) (inTx env s) (updateTable env membershipsTable P (changeMembership rid st))"
  by (rule inTx.updateTable)
    (auto simp: scope_simps adminMembership_def dest: assms intro!: inTx_step step.membership_changed)

lemma keeps_revoke:
  assumes "\<And>now r. P now r \<Longrightarrow> i_used_at r = None \<and> i_revoked_at r = None"
  shows "keeps (txCtx s) (inTx env s) (updateTable env invitationsTable P revokeRow)"
  by (rule inTx.updateTable)
    (use assms in \<open>auto simp: scope_simps intro!: inTx_step step.invitation_revoked\<close>)

lemma keeps_delivery [keeps_rules]:
  "keeps (txCtx s) (inTx env s) (updateTable env invitationsTable P (setDelivery st))"
  by (rule inTx.updateTable) (auto simp: scope_simps intro!: inTx_step step.delivery_changed)

lemma keeps_anonymize:
  assumes "\<And>now r. P now r \<Longrightarrow> i_anonymized_at r = None"
  shows "keeps (txCtx s) (inTx env s) (updateTable env invitationsTable P anonymizeRow)"
  by (rule inTx.updateTable)
    (use assms in \<open>auto simp: scope_simps intro!: inTx_step step.invitations_anonymized\<close>)

lemma keeps_complete [keeps_rules]:
  "keeps (txCtx s) (inTx env s) (updateTable env outboxTable (leasedJob job) completeJob)"
  by (rule inTx.updateTable) (auto simp: scope_simps intro!: inTx_step step.job_completed)

lemma keeps_retryJob [keeps_rules]:
  "keeps (txCtx s) (inTx env s) (updateTable env outboxTable (leasedJob job) (retryJob t msg))"
  by (rule inTx.updateTable) (auto simp: scope_simps intro!: inTx_step step.job_retried)

lemma keeps_deadLetterJob [keeps_rules]:
  "keeps (txCtx s) (inTx env s) (updateTable env outboxTable (leasedJob job) (deadLetterJob msg))"
  by (rule inTx.updateTable) (auto simp: scope_simps intro!: inTx_step step.job_dead_lettered)

lemma keeps_cancelJobs:
  assumes "\<And>now r. P now r \<Longrightarrow> o_status r = OutboxPending \<or> o_status r = OutboxProcessing"
  shows "keeps (txCtx s) (inTx env s) (updateTable env outboxTable P cancelJob)"
  by (rule inTx.updateTable) (use assms in \<open>auto simp: scope_simps intro!: inTx_step step.jobs_cancelled\<close>)

lemma keeps_changeLanguage [keeps_rules]:
  "keeps (txCtx System) (inTx env System) (updateTable env languagesTable P (changeLanguage l))"
  by (rule inTx.updateTable) (auto intro!: inTx_step step.language_changed)

lemma keeps_changeOverride [keeps_rules]:
  "keeps (txCtx System) (inTx env System) (updateTable env overridesTable P (changeOverride t))"
  by (rule inTx.updateTable) (auto intro!: inTx_step step.override_changed)

lemma keeps_deleteOverride [keeps_rules]:
  "keeps (txCtx System) (inTx env System) (deleteFrom env overridesTable P)"
  by (rule inTx.deleteFrom) (auto intro!: inTx_step step.override_deleted)

end
