(* ===== verification/StoreOperations.thy ===== *)
theory StoreOperations imports StoreRuns begin

text \<open>
  The operations of the store as sequences of steps: transactions, and one lemma for every operation
  of \<^verbatim>\<open>server/postgres\<close> that writes. Three need the whole transaction, not only its statements:
  the final-administrator check, the lock on an accepted invitation, and the claim of a job.
\<close>

subsection \<open>Transactions\<close>

definition outCtx :: "world \<Rightarrow> bool" where
  "outCtx w \<longleftrightarrow> keysDistinct (w_db w)"

definition outTx :: "env \<Rightarrow> scope \<Rightarrow> world \<Rightarrow> world \<Rightarrow> bool" where
  "outTx env s w w' \<longleftrightarrow> steps env s (w_db w) (w_db w')"

interpretation outTx: world_relation outCtx "outTx env s" for env s
  by unfold_locales
    (auto simp: outTx_def outCtx_def intro: rtranclp_trans keysDistinct_steps)

declare outTx.control [keeps_rules]

lemma setConfig_cases:
  "setConfig env key v w = (r, w') \<Longrightarrow>
     (\<exists>err. r = Inl err \<and> w' = tick w) \<or>
     (r = Inr () \<and> w' = (if key = systemSettingKey then (tick w)\<lparr>w_bypass_rls := v\<rparr>
        else if key = tenantSettingKey then (tick w)\<lparr>w_current_tenant := v\<rparr> else tick w))"
  by (auto simp: setConfig_def split: option.splits)

lemma leaveTx_simps [simp]:
  "w_db (leaveTx w0 d w) = d" "w_bypass_rls (leaveTx w0 d w) = w_bypass_rls w0"
  "w_current_tenant (leaveTx w0 d w) = w_current_tenant w0" "w_now (leaveTx w0 d w) = w_now w0"
  "w_mail (leaveTx w0 d w) = w_mail w"
  by (simp_all add: leaveTx_def)

text \<open>What a transaction leaves behind: nothing when it fails, unless only the acknowledgement of its
  commit was lost.\<close>

lemma beginFunc_cases:
  assumes "beginFunc env operation w = (r, w')"
  obtains (failed) err where "r = Inl err" "w_db w' = w_db w"
  | (committed) x w1 where
      "operation ((tick w)\<lparr>w_now := pgTime (e_clock env (w_tick w))\<rparr>) = (Inr x, w1)"
      "w_db w' = w_db w1" "r = Inr x"
  | (unacknowledged) x msg w1 where
      "operation ((tick w)\<lparr>w_now := pgTime (e_clock env (w_tick w))\<rparr>) = (Inr x, w1)"
      "w_db w' = w_db w1" "r = Inl (OpaqueError msg)"
  using assms
  by (auto simp: beginFunc_def split: option.splits prod.splits sum.splits commit_outcome.splits)

definition enteredTx :: "env \<Rightarrow> scope \<Rightarrow> world \<Rightarrow> world \<Rightarrow> bool" where
  "enteredTx env s w w1 \<longleftrightarrow>
     w_db w1 = w_db w \<and> scopeSettings s w1 \<and> w_now w1 = pgTime (e_clock env (w_tick w))
     \<and> w_mail w1 = w_mail w"

lemma tenantTx_cases:
  assumes "WithTenantTx env t operation w = (r, w')"
  obtains (failed) err where "r = Inl err" "w_db w' = w_db w"
  | (committed) x w1 w2 where "enteredTx env (Tenant t) w w1" "operation w1 = (Inr x, w2)"
      "w_db w' = w_db w2" "r = Inr x"
  | (unacknowledged) x msg w1 w2 where "enteredTx env (Tenant t) w w1" "operation w1 = (Inr x, w2)"
      "w_db w' = w_db w2" "r = Inl (OpaqueError msg)"
proof (cases "validUUID t")
  case False
  then show ?thesis using assms failed
    by (auto simp: WithTenantTx_def tenantID_validate_def andThen_def liftSum_def)
next
  case True
  let ?op = "andThen (mapError (Wrapped ''disable system transaction context'')
                    (setConfig env systemSettingKey ''false'')) (\<lambda>_.
          andThen (mapError (Wrapped ''set tenant transaction context'')
                    (setConfig env tenantSettingKey t)) (\<lambda>_. operation))"
  have run: "beginFunc env ?op w = (r, w')"
    using assms True by (simp add: WithTenantTx_def tenantID_validate_def andThen_def liftSum_def)
  have enter: "\<exists>w1. enteredTx env (Tenant t) w w1 \<and> operation w1 = (Inr x, w2)"
    if "?op ((tick w)\<lparr>w_now := pgTime (e_clock env (w_tick w))\<rparr>) = (Inr x, w2)" for x w2
    using that validUUID_nonempty[OF True]
    by (intro exI[of _ "(tick ((tick ((tick w)\<lparr>w_now := pgTime (e_clock env (w_tick w))\<rparr>))
            \<lparr>w_bypass_rls := ''false''\<rparr>))\<lparr>w_current_tenant := t\<rparr>"])
      (auto simp: andThen_Inr mapError_Inr enteredTx_def systemSettingKey_def tenantSettingKey_def
        dest!: setConfig_cases)
  from run show ?thesis
  proof (cases rule: beginFunc_cases)
    case failed
    then show ?thesis by (rule that(1))
  next
    case committed
    then show ?thesis using enter that(2) by metis
  next
    case unacknowledged
    then show ?thesis using enter that(3) by metis
  qed
qed

lemma systemTx_cases:
  assumes "withSystemTx env operation w = (r, w')"
  obtains (failed) err where "r = Inl err" "w_db w' = w_db w"
  | (committed) x w1 w2 where "enteredTx env System w w1" "operation w1 = (Inr x, w2)"
      "w_db w' = w_db w2" "r = Inr x"
  | (unacknowledged) x msg w1 w2 where "enteredTx env System w w1" "operation w1 = (Inr x, w2)"
      "w_db w' = w_db w2" "r = Inl (OpaqueError msg)"
proof -
  let ?op = "andThen (mapError (Wrapped ''set transaction context'') (setConfig env systemSettingKey ''true''))
         (\<lambda>_. operation)"
  have run: "beginFunc env ?op w = (r, w')"
    using assms by (simp add: withSystemTx_def withSettingTx_def)
  have enter: "\<exists>w1. enteredTx env System w w1 \<and> operation w1 = (Inr x, w2)"
    if "?op ((tick w)\<lparr>w_now := pgTime (e_clock env (w_tick w))\<rparr>) = (Inr x, w2)" for x w2
    using that
    by (intro exI[of _ "(tick ((tick w)\<lparr>w_now := pgTime (e_clock env (w_tick w))\<rparr>))\<lparr>w_bypass_rls := ''true''\<rparr>"])
      (auto simp: andThen_Inr mapError_Inr enteredTx_def systemSettingKey_def dest!: setConfig_cases)
  from run show ?thesis
  proof (cases rule: beginFunc_cases)
    case failed
    then show ?thesis by (rule that(1))
  next
    case committed
    then show ?thesis using enter that(2) by metis
  next
    case unacknowledged
    then show ?thesis using enter that(3) by metis
  qed
qed

lemma enteredTx_ctx: "enteredTx env s w w1 \<Longrightarrow> outCtx w \<Longrightarrow> txCtx s w1"
  by (simp add: enteredTx_def txCtx_def outCtx_def)

lemma keeps_tenantTx [keeps_rules]:
  assumes "keeps (txCtx (Tenant t)) (inTx env (Tenant t)) operation"
  shows "keeps outCtx (outTx env (Tenant t)) (WithTenantTx env t operation)"
proof (rule keepsI)
  fix w r w'
  assume ctx: "outCtx w" and run: "WithTenantTx env t operation w = (r, w')"
  have "steps env (Tenant t) (w_db w) (w_db w2)"
    if "enteredTx env (Tenant t) w w1" "operation w1 = (Inr x, w2)" for x w1 w2
    using keepsD[OF assms enteredTx_ctx[OF that(1) ctx] that(2)] that(1)
    by (simp add: inTx_def enteredTx_def)
  with run show "outTx env (Tenant t) w w'"
    by (cases rule: tenantTx_cases) (auto simp: outTx_def)
qed

lemma keeps_systemTx [keeps_rules]:
  assumes "keeps (txCtx System) (inTx env System) operation"
  shows "keeps outCtx (outTx env System) (withSystemTx env operation)"
proof (rule keepsI)
  fix w r w'
  assume ctx: "outCtx w" and run: "withSystemTx env operation w = (r, w')"
  have "steps env System (w_db w) (w_db w2)"
    if "enteredTx env System w w1" "operation w1 = (Inr x, w2)" for x w1 w2
    using keepsD[OF assms enteredTx_ctx[OF that(1) ctx] that(2)] that(1)
    by (simp add: inTx_def enteredTx_def)
  with run show "outTx env System w w'"
    by (cases rule: systemTx_cases) (auto simp: outTx_def)
qed

subsection \<open>Audit events, roles, users and tenants\<close>

lemma keeps_insertAuditEvent [keeps_rules]: "keeps (txCtx s) (inTx env s) (insertAuditEvent env event)"
  unfolding insertAuditEvent_def by (intro keeps_rules)

lemma keeps_findRoleTx [keeps_rules]: "keeps (txCtx s) (inTx env s) (findRoleTx env t rid)"
  unfolding findRoleTx_def by (intro keeps_rules)

lemma keeps_insertRole' [keeps_rules]: "keeps (txCtx s) (inTx env s) (insertRole env role)"
  unfolding insertRole_def by (intro keeps_rules)

lemma keeps_insertRolePermissionsLoop:
  "keeps (txCtx s) (inTx env s) (insertRolePermissionsLoop env t rid seen ps)"
  by (induction ps arbitrary: seen) (auto intro!: keeps_rules)

lemma keeps_insertRolePermissions [keeps_rules]:
  "keeps (txCtx s) (inTx env s) (insertRolePermissions env t rid ps)"
  unfolding insertRolePermissions_def by (rule keeps_insertRolePermissionsLoop)

lemma keeps_createDefaultRoles [keeps_rules]: "keeps (txCtx s) (inTx env s) (createDefaultRoles env t)"
  unfolding createDefaultRoles_def newRole_def by (intro keeps_rules)

lemma CreateRole_steps: "keeps outCtx (outTx env (Tenant (roleTenantID role))) (CreateRole env role actor)"
  unfolding CreateRole_def createRoleTx_def Let_def
  by (intro keeps_rules) (use keeps_tenantTx in simp, intro keeps_rules)

lemma UpdateRole_steps: "keeps outCtx (outTx env (Tenant (roleTenantID role))) (UpdateRole env role actor)"
proof -
  let ?role = "role\<lparr>roleName := trimSpace (roleName role)\<rparr>"
  have "keeps (txCtx (Tenant (roleTenantID ?role))) (inTx env (Tenant (roleTenantID ?role)))
      (updateRoleTx env ?role actor)"
    unfolding updateRoleTx_def by (intro keeps_rules keeps_renameRole) auto
  then have "keeps outCtx (outTx env (Tenant (roleTenantID ?role)))
      (WithTenantTx env (roleTenantID ?role) (updateRoleTx env ?role actor))"
    by (rule keeps_tenantTx)
  then show ?thesis by (simp add: UpdateRole_def)
qed

lemma DeleteRole_steps: "keeps outCtx (outTx env (Tenant t)) (DeleteRole env t rid revision actor)"
  unfolding DeleteRole_def deleteRoleTx_def by (intro keeps_rules keeps_deleteRole) auto

lemma keeps_insertUser' [keeps_rules]: "keeps (txCtx System) (inTx env System) (insertUser env usr h)"
  unfolding insertUser_def by (intro keeps_rules)

lemma keeps_insertIdentity' [keeps_rules]: "keeps (txCtx s) (inTx env s) (insertIdentity env u x)"
  unfolding insertIdentity_def by (intro keeps_rules)

lemma InvalidateSession_steps: "keeps outCtx (outTx env System) (InvalidateSession env u)"
  unfolding InvalidateSession_def by (intro keeps_rules)

lemma RotateTenantSession_steps: "keeps outCtx (outTx env System) (RotateTenantSession env u t name)"
  unfolding RotateTenantSession_def by (intro keeps_rules)

lemma EnsureSuperAdmin_steps: "keeps outCtx (outTx env System) (EnsureSuperAdmin env bootstrap)"
  unfolding EnsureSuperAdmin_def ensureSuperAdminTx_def by (intro keeps_rules)

lemma LinkWithAudit_steps: "keeps outCtx (outTx env System) (LinkWithAudit env u x t)"
  unfolding LinkWithAudit_def by (intro keeps_rules)

lemma Append_steps: "keeps outCtx (outTx env System) (Append env event)"
  unfolding Append_def by (intro keeps_rules)

lemma keeps_insertTenantRow [keeps_rules]: "keeps (txCtx s) (inTx env s) (insertTenantRow env t)"
  unfolding insertTenantRow_def by (intro keeps_rules)

lemma Create_steps: "keeps outCtx (outTx env System) (Create env name actor)"
  unfolding Create_def createTenantTx_def by (intro keeps_rules)

lemma keeps_updateTenantTx [keeps_rules]: "keeps (txCtx s) (inTx env s) (updateTenantTx env t actor)"
  unfolding updateTenantTx_def by (intro keeps_rules)

lemma UpdateSystem_steps: "keeps outCtx (outTx env System) (UpdateSystem env t actor)"
  unfolding UpdateSystem_def by (intro keeps_rules)

lemma UpdateTenant_steps: "keeps outCtx (outTx env (Tenant (tenantID t))) (UpdateTenant env t actor)"
  unfolding UpdateTenant_def by (intro keeps_rules)

lemma keeps_insertMembershipRow [keeps_rules]: "keeps (txCtx s) (inTx env s) (insertMembershipRow env m)"
  unfolding insertMembershipRow_def by (intro keeps_rules)

lemma CreateTenantOwner_steps: "keeps outCtx (outTx env System) (CreateTenantOwner env registration)"
  unfolding CreateTenantOwner_def newTenantOwner_def provisionTenantOwner_def insertTenantOwnerUser_def
    insertOwnerMembership_def
  by (intro keeps_rules)

subsection \<open>Localization\<close>

lemma UpsertLanguage_steps: "keeps outCtx (outTx env System) (UpsertLanguage env l actor)"
  unfolding UpsertLanguage_def upsertLanguageTx_def by (intro keeps_rules)

lemma UpsertTranslationOverride_steps:
  "keeps outCtx (outTx env System) (UpsertTranslationOverride env t actor)"
  unfolding UpsertTranslationOverride_def upsertTranslationOverrideTx_def by (intro keeps_rules)

lemma DeleteTranslationOverride_steps:
  "keeps outCtx (outTx env System) (DeleteTranslationOverride env t actor)"
  unfolding DeleteTranslationOverride_def by (intro keeps_rules)

subsection \<open>Reading operations\<close>

definition reads :: "world \<Rightarrow> world \<Rightarrow> bool" where
  "reads w w' \<longleftrightarrow> sameSession w w' \<and> w_db w' = w_db w"

interpretation reads: world_relation "\<lambda>_. True" reads
  by unfold_locales (auto simp: reads_def intro: sameSession_trans)

declare reads.control [keeps_rules]

lemma readsD: "keeps (\<lambda>_. True) reads m \<Longrightarrow> m w = (r, w') \<Longrightarrow> sameSession w w' \<and> w_db w' = w_db w"
  by (auto simp: keeps_def reads_def)

lemma reads_inTx: "keeps (\<lambda>_. True) reads m \<Longrightarrow> m w = (r, w') \<Longrightarrow> inTx env s w w'"
  by (auto simp: inTx_def dest: readsD)

lemma andThen_cases:
  assumes "andThen m f w = (r, w')"
  obtains (stop) err where "m w = (Inl err, w')" "r = Inl err"
  | (go) x w1 where "m w = (Inr x, w1)" "f x w1 = (r, w')"
  using assms by (auto simp: andThen_def split: prod.splits sum.splits)

subsection \<open>The final-administrator check\<close>

lemma keeps_invalidateUserSession [keeps_rules]: "keeps (txCtx s) (inTx env s) (invalidateUserSession env u)"
  unfolding invalidateUserSession_def by (intro keeps_rules)

lemma reads_lockMembershipTenant: "keeps (\<lambda>_. True) reads (lockMembershipTenant env t)"
  unfolding lockMembershipTenant_def by (intro keeps_rules)

lemma reads_lockMembership: "keeps (\<lambda>_. True) reads (lockMembership env m t)"
  unfolding lockMembership_def by (intro keeps_rules)

lemma reads_membershipRoleKind: "keeps (\<lambda>_. True) reads (membershipRoleKind env rid t)"
  unfolding membershipRoleKind_def by (intro keeps_rules)

lemma reads_protectFinalAdministrator: "keeps (\<lambda>_. True) reads (protectFinalAdministrator env m ck tk)"
  unfolding protectFinalAdministrator_def by (intro keeps_rules)

lemma lockMembership_Inr:
  assumes "lockMembership env mid t w = (Inr (uid, kind), w')"
  shows "\<exists>m \<in> set (memberships (w_db w)). \<exists>r \<in> set (roles (w_db w)).
     m_id m = mid \<and> m_tenant m = t \<and> m_user m = uid \<and> r_id r = m_role m \<and> r_kind r = kind
     \<and> tenantVisible w t \<and> tenantVisible w (r_tenant r)"
  using assms
  by (auto simp: lockMembership_def run_simps visibleRows_def dest!: firstRow_Some split: if_splits) blast

lemma membershipRoleKind_Inr:
  assumes "membershipRoleKind env rid t w = (Inr kind, w')"
  shows "\<exists>r \<in> set (roles (w_db w)). r_id r = rid \<and> r_tenant r = t \<and> r_kind r = kind"
  using assms
  by (auto simp: membershipRoleKind_def run_simps visibleRows_def dest!: find_Some_member)

lemma protectFinalAdministrator_Inr:
  assumes "protectFinalAdministrator env m currentKind targetKind w = (Inr u, w')"
    and "removesAdministrator (membershipStatus m) currentKind targetKind"
  shows "\<exists>other \<in> set (memberships (w_db w)).
     m_tenant other = tenantID (membershipTenant m) \<and> m_id other \<noteq> membershipID m
     \<and> adminMembership (w_db w) other"
proof -
  let ?rows = "[other. other \<leftarrow> visibleRows membershipsTable w,
      m_tenant other = tenantID (membershipTenant m) \<and> m_id other \<noteq> membershipID m \<and> m_status other = MembershipActive,
      r \<leftarrow> visibleRows rolesTable w, r_id r = m_role other \<and> r_kind r = RoleKindAdministrator]"
  have "length ?rows \<noteq> 0"
    using assms by (auto simp: protectFinalAdministrator_def run_simps split: if_splits)
  then obtain other where "other \<in> set ?rows" by fastforce
  then show ?thesis by (auto simp: visibleRows_def adminMembership_def split: if_splits)
qed

lemma persistMembershipUpdate_step:
  assumes ctx: "txCtx s w" and run: "persistMembershipUpdate env membership w = (r, w')"
    and guard: "\<And>m. m \<in> set (memberships (w_db w)) \<Longrightarrow> m_id m = membershipID membership \<Longrightarrow>
      m_tenant m = tenantID (membershipTenant membership) \<Longrightarrow> adminMembership (w_db w) m \<Longrightarrow>
      adminMembership (w_db w) (changeMembership (membershipRoleID membership) (membershipStatus membership) (w_now w) m)
      \<or> (\<exists>other \<in> set (memberships (w_db w)). m_tenant other = tenantID (membershipTenant membership)
            \<and> m_id other \<noteq> membershipID membership \<and> adminMembership (w_db w) other)"
  shows "inTx env s w w'"
proof -
  let ?P = "\<lambda>now m. m_id m = membershipID membership \<and> m_tenant m = tenantID (membershipTenant membership)
            \<and> m_revision m = membershipRevision membership"
  let ?f = "changeMembership (membershipRoleID membership) (membershipStatus membership)"
  let ?hit = "\<lambda>m. policy membershipsTable w m \<and> ?P (w_now w) m"
  obtain q w1 where upd: "updateTable env membershipsTable ?P ?f w = (q, w1)" by fastforce
  have "w' = w1"
    using run upd by (auto simp: persistMembershipUpdate_def andThen_def mapError_def fail_def ret_def
        split: sum.splits prod.splits if_splits)
  show ?thesis
  proof (cases q)
    case (Inl err)
    then show ?thesis using upd \<open>w' = w1\<close> inTx.ticks by (auto dest: updateTable_Inl)
  next
    case (Inr rs)
    note upd' = upd[unfolded Inr]
    have "step env s (w_db w) ((w_db w)\<lparr>memberships := updateWhere ?hit (?f (w_now w)) (memberships (w_db w))\<rparr>)"
    proof (rule step.membership_changed)
      show "\<forall>m \<in> set (memberships (w_db w)). ?hit m \<longrightarrow> inScope s (m_tenant m)"
        using ctx by (auto simp: scope_simps)
      show "\<forall>m \<in> set (memberships (w_db w)). ?hit m \<and> adminMembership (w_db w) m \<longrightarrow>
          adminMembership (w_db w) (?f (w_now w) m)
          \<or> (\<exists>other \<in> set (memberships (w_db w)). m_tenant other = m_tenant m \<and> \<not> ?hit other
               \<and> adminMembership (w_db w) other)"
        using guard by auto
      show "acceptsUpdate env membershipsTable (w_db w) ?hit (?f (w_now w))"
        using upd' by (rule updateTable_accepts)
    qed
    moreover have "w1 = (tick w)\<lparr>w_db := putRows membershipsTable
        (updateWhere ?hit (?f (w_now w)) (rowsOf membershipsTable (w_db w))) (w_db w)\<rparr>"
      using upd' unfolding updateTable_Inr by blast
    ultimately show ?thesis using \<open>w' = w1\<close> by (simp add: inTx_step)
  qed
qed

text \<open>What the reads before the update establish: a lookup of the current and the target role, and, when
  the update takes administration away, another active administrator.\<close>

lemma updateMembership_guard:
  assumes keys: "keysDistinct d"
    and lock: "\<exists>m \<in> set (memberships d). \<exists>r \<in> set (roles d).
       m_id m = mid \<and> m_tenant m = t \<and> r_id r = m_role m \<and> r_kind r = currentKind"
    and target: "\<exists>r \<in> set (roles d). r_id r = rid \<and> r_tenant r = t \<and> r_kind r = targetKind"
    and other: "removesAdministrator status currentKind targetKind \<Longrightarrow>
       \<exists>other \<in> set (memberships d). m_tenant other = t \<and> m_id other \<noteq> mid \<and> adminMembership d other"
    and m: "m \<in> set (memberships d)" "m_id m = mid" "adminMembership d m"
  shows "adminMembership d (changeMembership rid status now m)
     \<or> (\<exists>other \<in> set (memberships d). m_tenant other = t \<and> m_id other \<noteq> mid \<and> adminMembership d other)"
proof -
  obtain m0 r0 where m0: "m0 \<in> set (memberships d)" "r0 \<in> set (roles d)" "m_id m0 = mid"
    "r_id r0 = m_role m0" "r_kind r0 = currentKind" using lock by blast
  have "m = m0" using keys m m0 by (auto simp: keysDistinct_def intro: distinct_key_unique)
  obtain r1 where r1: "r1 \<in> set (roles d)" "r_id r1 = m_role m" "r_kind r1 = RoleKindAdministrator"
    using m(3) by (auto simp: adminMembership_def)
  have "distinct (map r_id (roles d))" using keys by (simp add: keysDistinct_def)
  then have "r1 = r0" using r1 m0 \<open>m = m0\<close> by (auto intro: distinct_key_unique)
  then have current: "currentKind = RoleKindAdministrator" using r1 m0 by simp
  show ?thesis
  proof (cases "removesAdministrator status currentKind targetKind")
    case True
    then show ?thesis using other by blast
  next
    case False
    then have "status = MembershipActive" "targetKind = RoleKindAdministrator"
      using current by (auto simp: removesAdministrator_def)
    then show ?thesis using target by (auto simp: adminMembership_def)
  qed
qed

text \<open>After a read, what it established of the database may be used by what follows.\<close>

definition knows :: "scope \<Rightarrow> (time \<Rightarrow> db \<Rightarrow> bool) \<Rightarrow> world \<Rightarrow> bool" where
  "knows s C w \<longleftrightarrow> txCtx s w \<and> C (w_now w) (w_db w)"

lemma keeps_after_read:
  assumes reads: "keeps (\<lambda>_. True) reads m"
    and post: "\<And>w x w1. m w = (Inr x, w1) \<Longrightarrow> P x (w_now w) (w_db w)"
    and rest: "\<And>x. keeps (knows s (\<lambda>now d. C now d \<and> P x now d)) (inTx env s) (f x)"
  shows "keeps (knows s C) (inTx env s) (andThen m f)"
proof (rule keepsI)
  fix w r w'
  assume "knows s C w" and run: "andThen m f w = (r, w')"
  then have ctx: "txCtx s w" "C (w_now w) (w_db w)" by (auto simp: knows_def)
  from run show "inTx env s w w'"
  proof (cases rule: andThen_cases)
    case stop
    then show ?thesis using reads by (auto intro: reads_inTx)
  next
    case (go x w1)
    have same: "sameSession w w1" "w_db w1 = w_db w" using readsD[OF reads go(1)] by auto
    then have "txCtx s w1" using ctx by (auto simp: txCtx_def scopeSettings_same)
    then have "inTx env s w1 w'"
      using keepsD[OF rest _ go(2)] ctx post[OF go(1)] same by (simp add: knows_def sameSession_def)
    then show ?thesis using same by (auto simp: inTx_def intro: sameSession_trans)
  qed
qed

lemma keeps_then:
  assumes "\<And>w q w1. txCtx s w \<Longrightarrow> C (w_now w) (w_db w) \<Longrightarrow> m w = (q, w1) \<Longrightarrow> inTx env s w w1"
    and "\<And>x. keeps (txCtx s) (inTx env s) (f x)"
  shows "keeps (knows s C) (inTx env s) (andThen m f)"
proof (rule keepsI)
  fix w r w'
  assume "knows s C w" and run: "andThen m f w = (r, w')"
  then have ctx: "txCtx s w" "C (w_now w) (w_db w)" by (auto simp: knows_def)
  from run show "inTx env s w w'"
  proof (cases rule: andThen_cases)
    case stop
    then show ?thesis using assms(1) ctx by blast
  next
    case (go x w1)
    have R: "inTx env s w w1" using ctx go(1) by (rule assms(1))
    have "inTx env s w1 w'" by (rule keepsD[OF assms(2) inTx.stable[OF ctx(1) R] go(2)])
    with R show ?thesis by (rule inTx.trans)
  qed
qed

definition lockedRole :: "string \<Rightarrow> string \<Rightarrow> role_kind \<Rightarrow> db \<Rightarrow> bool" where
  "lockedRole mid t kind d \<longleftrightarrow> (\<exists>m \<in> set (memberships d). \<exists>r \<in> set (roles d).
     m_id m = mid \<and> m_tenant m = t \<and> r_id r = m_role m \<and> r_kind r = kind)"

definition targetRole :: "string \<Rightarrow> string \<Rightarrow> role_kind \<Rightarrow> db \<Rightarrow> bool" where
  "targetRole rid t kind d \<longleftrightarrow> (\<exists>r \<in> set (roles d). r_id r = rid \<and> r_tenant r = t \<and> r_kind r = kind)"

definition otherAdministrator :: "string \<Rightarrow> string \<Rightarrow> db \<Rightarrow> bool" where
  "otherAdministrator mid t d \<longleftrightarrow>
     (\<exists>other \<in> set (memberships d). m_tenant other = t \<and> m_id other \<noteq> mid \<and> adminMembership d other)"

lemma persistMembershipUpdate_guarded:
  assumes "txCtx s w" and "lockedRole (membershipID m) (tenantID (membershipTenant m)) ck (w_db w)"
    and "targetRole (membershipRoleID m) (tenantID (membershipTenant m)) tk (w_db w)"
    and "removesAdministrator (membershipStatus m) ck tk \<longrightarrow>
           otherAdministrator (membershipID m) (tenantID (membershipTenant m)) (w_db w)"
    and "persistMembershipUpdate env m w = (q, w1)"
  shows "inTx env s w w1"
  using assms(1,5)
proof (rule persistMembershipUpdate_step)
  fix x
  assume "x \<in> set (memberships (w_db w))" "m_id x = membershipID m" "adminMembership (w_db w) x"
  with assms(1-4) show "adminMembership (w_db w)
        (changeMembership (membershipRoleID m) (membershipStatus m) (w_now w) x)
      \<or> (\<exists>other \<in> set (memberships (w_db w)). m_tenant other = tenantID (membershipTenant m)
           \<and> m_id other \<noteq> membershipID m \<and> adminMembership (w_db w) other)"
    by (intro updateMembership_guard)
      (auto simp: txCtx_def lockedRole_def targetRole_def otherAdministrator_def)
qed

lemma updateMembershipTx_steps: "keeps (txCtx s) (inTx env s) (updateMembershipTx env membership actor)"
proof -
  let ?t = "tenantID (membershipTenant membership)" and ?mid = "membershipID membership"
    and ?rid = "membershipRoleID membership" and ?st = "membershipStatus membership"
  have "keeps (knows s (\<lambda>_ _. True)) (inTx env s) (updateMembershipTx env membership actor)"
    unfolding updateMembershipTx_def Let_def
  proof (rule keeps_after_read[where P = "\<lambda>_ _ _. True"], rule reads_lockMembershipTenant, simp,
      rule keeps_after_read[where P = "\<lambda>x _. lockedRole ?mid ?t (snd x)"],
      rule reads_lockMembership, goal_cases)
    case (1 u w x w1)
    then show ?case using lockMembership_Inr[of env ?mid ?t w "fst x" "snd x" w1]
      by (auto simp: lockedRole_def)
  next
    case (2 u x)
    obtain uid ck where x: "x = (uid, ck)" by fastforce
    show ?case unfolding x prod.case
    proof (rule keeps_after_read[where P = "\<lambda>tk _. targetRole ?rid ?t tk"], rule reads_membershipRoleKind,
        goal_cases)
      case (1 w tk w1)
      then show ?case using membershipRoleKind_Inr by (auto simp: targetRole_def)
    next
      case (2 tk)
      let ?m = "membership\<lparr>membershipUserID := uid\<rparr>"
      show ?case
      proof (rule keeps_after_read[where P = "\<lambda>_ _ d. removesAdministrator ?st ck tk \<longrightarrow> otherAdministrator ?mid ?t d"],
          rule reads_protectFinalAdministrator, goal_cases)
        case (1 w v w1)
        then show ?case using protectFinalAdministrator_Inr[OF 1] by (auto simp: otherAdministrator_def)
      next
        case (2 v)
        show ?case
          by (rule keeps_then, elim conjE, rule persistMembershipUpdate_guarded[of s _ ?m ck tk])
            (simp_all, intro keeps_rules)
      qed
    qed
  qed
  then show ?thesis by (simp add: knows_def[abs_def])
qed

lemma UpdateMembership_steps:
  "keeps outCtx (outTx env (Tenant (tenantID (membershipTenant membership)))) (UpdateMembership env membership actor)"
  unfolding UpdateMembership_def by (intro keeps_tenantTx updateMembershipTx_steps)

subsection \<open>Invitations\<close>

lemma keeps_createInvitationTx: "keeps (txCtx s) (inTx env s) (createInvitationTx env i)"
  unfolding createInvitationTx_def insertInvitation_def enqueueInvitationEmail_def
  by (intro keeps_rules keeps_insertInvitation keeps_insertJob) auto

lemma CreateInvitation_steps:
  "keeps outCtx (outTx env (Tenant (invitationTenantID i))) (CreateInvitation env i)"
  unfolding CreateInvitation_def by (intro keeps_rules keeps_createInvitationTx)

lemma keeps_revokeInvitationTx: "keeps (txCtx s) (inTx env s) (revokeInvitationTx env iid actor)"
  unfolding revokeInvitationTx_def by (intro keeps_rules keeps_revoke keeps_cancelJobs) auto

lemma RevokeInvitation_steps: "keeps outCtx (outTx env System) (RevokeInvitation env iid actor)"
  unfolding RevokeInvitation_def by (intro keeps_rules keeps_revokeInvitationTx)

lemma RevokeTenantInvitation_steps:
  "keeps outCtx (outTx env (Tenant t)) (RevokeTenantInvitation env t iid actor)"
  unfolding RevokeTenantInvitation_def by (intro keeps_rules keeps_revokeInvitationTx)

text \<open>Between the lock on the invitation and the mark, the transaction leaves the invitations alone.\<close>

definition sameInvitations :: "world \<Rightarrow> world \<Rightarrow> bool" where
  "sameInvitations w w' \<longleftrightarrow> sameSession w w' \<and> invitations (w_db w') = invitations (w_db w)"

interpretation sameInvitations: world_relation "\<lambda>_. True" sameInvitations
  by unfold_locales (auto simp: sameInvitations_def intro: sameSession_trans)

lemma sameInvitations_insert:
  "(\<And>rs d. invitations (putRows tbl rs d) = invitations d) \<Longrightarrow>
     keeps (\<lambda>_. True) sameInvitations (insertInto env tbl mk)"
  by (rule sameInvitations.insertInto) (simp add: sameInvitations_def)

lemma sameInvitations_update:
  "(\<And>rs d. invitations (putRows tbl rs d) = invitations d) \<Longrightarrow>
     keeps (\<lambda>_. True) sameInvitations (updateTable env tbl P f)"
  by (rule sameInvitations.updateTable) (simp add: sameInvitations_def)

lemmas sameInvitations_rules =
  sameInvitations.control keeps_if keeps_let keeps_case_option keeps_case_sum keeps_case_prod
  sameInvitations_insert sameInvitations_update

lemma sameInvitations_acceptIdentity: "keeps (\<lambda>_. True) sameInvitations (acceptIdentity env u h b)"
  unfolding acceptIdentity_def insertUser_def by (intro sameInvitations_rules) simp_all

lemma sameInvitations_link: "keeps (\<lambda>_. True) sameInvitations (linkInvitationIdentity env u x)"
  unfolding linkInvitationIdentity_def insertIdentity_def by (intro sameInvitations_rules) simp_all

lemma sameInvitations_createMembership: "keeps (\<lambda>_. True) sameInvitations (createMembership env i u)"
  unfolding createMembership_def invitationMembership_def insertInvitationMembership_def
    insertMembershipRow_def
  by (intro sameInvitations_rules) simp_all

lemma keeps_framed:
  assumes m: "keeps (txCtx s) (inTx env s) m" and same: "keeps (\<lambda>_. True) sameInvitations m"
    and frame: "\<And>now d d'. C now d \<Longrightarrow> invitations d' = invitations d \<Longrightarrow> C now d'"
    and rest: "\<And>x. keeps (knows s C) (inTx env s) (f x)"
  shows "keeps (knows s C) (inTx env s) (andThen m f)"
proof (rule keepsI)
  fix w r w'
  assume "knows s C w" and run: "andThen m f w = (r, w')"
  then have ctx: "txCtx s w" "C (w_now w) (w_db w)" by (auto simp: knows_def)
  from run show "inTx env s w w'"
  proof (cases rule: andThen_cases)
    case stop
    then show ?thesis using keepsD[OF m ctx(1)] by blast
  next
    case (go x w1)
    have R: "inTx env s w w1" using keepsD[OF m ctx(1) go(1)] .
    have I: "sameInvitations w w1" using keepsD[OF same _ go(1)] by simp
    have "knows s C w1"
      using frame[OF ctx(2)] I inTx.stable[OF ctx(1) R]
      by (simp add: knows_def sameInvitations_def sameSession_def)
    then have "inTx env s w1 w'" using keepsD[OF rest _ go(2)] by blast
    with R show ?thesis by (rule inTx.trans)
  qed
qed

definition openInvitation :: "string \<Rightarrow> time \<Rightarrow> db \<Rightarrow> bool" where
  "openInvitation iid now d \<longleftrightarrow>
     (\<exists>r \<in> set (invitations d). i_id r = iid \<and> i_used_at r = None \<and> i_revoked_at r = None \<and> now < i_expires_at r)"

lemma reads_lockedInvitation: "keeps (\<lambda>_. True) reads (lockedInvitation env hash)"
  unfolding lockedInvitation_def by (intro keeps_rules)

lemma lockedInvitation_Inr:
  assumes "lockedInvitation env hash w = (Inr i, w')"
  shows "\<exists>r \<in> set (invitations (w_db w)). i = scanInvitation r \<and> i_token_hash r = Some hash
     \<and> i_used_at r = None \<and> i_revoked_at r = None \<and> w_now w < i_expires_at r"
  using assms
  by (auto simp: lockedInvitation_def run_simps visibleRows_def split: if_splits dest!: find_Some_member)

lemma markInvitationUsed_steps:
  assumes ctx: "txCtx s w" and inv_open: "openInvitation iid (w_now w) (w_db w)"
    and run: "markInvitationUsed env iid w = (q, w1)"
  shows "inTx env s w w1"
proof -
  let ?P = "\<lambda>now r. i_id r = iid \<and> i_used_at r = None"
  let ?hit = "\<lambda>r. policy invitationsTable w r \<and> ?P (w_now w) r"
  obtain q' w2 where upd: "updateTable env invitationsTable ?P useInvitation w = (q', w2)" by fastforce
  have "w1 = w2"
    using run upd by (auto simp: markInvitationUsed_def andThen_def mapError_def fail_def ret_def
        split: sum.splits prod.splits if_splits)
  show ?thesis
  proof (cases q')
    case (Inl err)
    then show ?thesis using upd \<open>w1 = w2\<close> inTx.ticks by (auto dest: updateTable_Inl)
  next
    case (Inr rs)
    obtain r0 where r0: "r0 \<in> set (invitations (w_db w))" "i_id r0 = iid" "i_used_at r0 = None"
      "i_revoked_at r0 = None" "w_now w < i_expires_at r0" using inv_open by (auto simp: openInvitation_def)
    have dist: "distinct (map i_id (invitations (w_db w)))" using ctx by (simp add: txCtx_def keysDistinct_def)
    have "step env s (w_db w) ((w_db w)\<lparr>invitations := updateWhere ?hit (useInvitation (w_now w)) (invitations (w_db w))\<rparr>)"
    proof (rule step.invitation_used, intro ballI impI)
      fix r
      assume r: "r \<in> set (invitations (w_db w))" "?hit r"
      then have "r = r0" using r0 dist by (auto intro: distinct_key_unique)
      then show "inScope s (i_tenant r) \<and> i_used_at r = None \<and> i_revoked_at r = None \<and> w_now w < i_expires_at r"
        using r0 r ctx by (auto simp: scope_simps)
    qed
    moreover have "w2 = (tick w)\<lparr>w_db := putRows invitationsTable
        (updateWhere ?hit (useInvitation (w_now w)) (rowsOf invitationsTable (w_db w))) (w_db w)\<rparr>"
      using upd[unfolded Inr] unfolding updateTable_Inr by blast
    ultimately show ?thesis using \<open>w1 = w2\<close> by (simp add: inTx_step)
  qed
qed

lemma keeps_acceptIdentity: "keeps (txCtx System) (inTx env System) (acceptIdentity env u h b)"
  unfolding acceptIdentity_def by (intro keeps_rules)

lemma keeps_link: "keeps (txCtx s) (inTx env s) (linkInvitationIdentity env u x)"
  unfolding linkInvitationIdentity_def by (intro keeps_rules)

lemma keeps_createMembership: "keeps (txCtx s) (inTx env s) (createMembership env i u)"
  unfolding createMembership_def invitationMembership_def insertInvitationMembership_def
  by (intro keeps_rules keeps_reactivate) auto

lemma keeps_knows: "keeps (txCtx s) (inTx env s) m \<Longrightarrow> keeps (knows s C) (inTx env s) m"
  by (simp add: keeps_def knows_def)

lemma acceptInvitationTx_steps: "keeps (txCtx System) (inTx env System) (acceptInvitationTx env a)"
proof -
  have frame: "True \<and> openInvitation iid now d'" if "True \<and> openInvitation iid now d"
    "invitations d' = invitations d" for iid now d d'
    using that by (simp add: openInvitation_def)
  have "keeps (knows System (\<lambda>_ _. True)) (inTx env System) (acceptInvitationTx env a)"
    unfolding acceptInvitationTx_def
  proof (rule keeps_after_read[where P = "\<lambda>i. openInvitation (invitationID i)"],
      rule reads_lockedInvitation, goal_cases)
    case (1 w i w1)
    then show ?case by (auto simp: openInvitation_def dest!: lockedInvitation_Inr)
  next
    case (2 i)
    show ?case
      apply (rule keeps_if)
       apply (rule keeps_knows, rule inTx.fail)
      apply (rule keeps_framed, rule keeps_acceptIdentity, rule sameInvitations_acceptIdentity, erule (1) frame)
      apply (rule keeps_framed)
         apply (intro keeps_rules keeps_link)
        apply (intro sameInvitations_rules sameInvitations_link)
       apply (erule (1) frame)
      apply (rule keeps_framed, rule keeps_createMembership, rule sameInvitations_createMembership, erule (1) frame)
      apply (rule keeps_framed)
         apply (intro keeps_rules)
        apply (intro sameInvitations_rules, simp)
       apply (erule (1) frame)
      apply (rule keeps_then)
       apply (rule markInvitationUsed_steps, assumption, simp, assumption)
      by (intro keeps_rules)
  qed
  then show ?thesis by (simp add: knows_def[abs_def])
qed

lemma acceptInvitation_steps: "keeps outCtx (outTx env System) (acceptInvitation env a)"
  unfolding acceptInvitation_def by (intro keeps_systemTx acceptInvitationTx_steps)

subsection \<open>The outbox\<close>

lemma claimJob_steps: "keeps (txCtx s) (inTx env s) (claimJob env token)"
proof (rule keepsI)
  fix w r w'
  let ?P = "\<lambda>now r. case claimCandidate env w of None \<Rightarrow> False | Some c \<Rightarrow> o_id r = o_id c"
  let ?hit = "\<lambda>r. policy outboxTable w r \<and> ?P (w_now w) r"
  assume ctx: "txCtx s w" and run: "claimJob env token w = (r, w')"
  obtain q w1 where upd: "updateTable env outboxTable ?P (leaseJob token) w = (q, w1)" by fastforce
  have "w' = w1"
    using run upd by (auto simp: claimJob_def updateReturning_def andThen_def fail_def ret_def
        split: sum.splits prod.splits list.splits)
  show "inTx env s w w'"
  proof (cases q)
    case (Inl err)
    then show ?thesis using upd \<open>w' = w1\<close> inTx.ticks by (auto dest: updateTable_Inl)
  next
    case (Inr rs)
    have dist: "distinct (map o_id (outbox (w_db w)))" using ctx by (simp add: txCtx_def keysDistinct_def)
    have "step env s (w_db w) ((w_db w)\<lparr>outbox := updateWhere ?hit (leaseJob token (w_now w)) (outbox (w_db w))\<rparr>)"
    proof (rule step.job_leased, intro ballI impI)
      fix j
      assume j: "j \<in> set (outbox (w_db w))" "?hit j"
      then obtain c where c: "claimCandidate env w = Some c" "o_id j = o_id c" by (auto split: option.splits)
      then have "c \<in> set (outbox (w_db w))" "claimable (w_now w) c"
        by (auto simp: claimCandidate_def visibleRows_def dest!: firstRow_Some)
      then have "j = c" using c(2) j(1) dist by (auto intro: distinct_key_unique)
      then show "inScope s (o_tenant j) \<and> claimable (w_now w) j"
        using j ctx \<open>claimable (w_now w) c\<close> by (auto simp: scope_simps)
    qed
    moreover have "w1 = (tick w)\<lparr>w_db := putRows outboxTable
        (updateWhere ?hit (leaseJob token (w_now w)) (rowsOf outboxTable (w_db w))) (w_db w)\<rparr>"
      using upd[unfolded Inr] unfolding updateTable_Inr by blast
    ultimately show ?thesis using \<open>w' = w1\<close> by (simp add: inTx_step)
  qed
qed

lemma ClaimInvitationEmail_steps: "keeps outCtx (outTx env System) (ClaimInvitationEmail env)"
  unfolding ClaimInvitationEmail_def claimInvitationTx_def by (intro keeps_rules claimJob_steps)

lemma keeps_updateDelivery [keeps_rules]: "keeps (txCtx s) (inTx env s) (updateDelivery env iid st)"
  unfolding updateDelivery_def by (intro keeps_rules)

lemma Complete_steps: "keeps outCtx (outTx env System) (Complete env job)"
  unfolding Complete_def completeTx_def by (intro keeps_rules)

lemma Retry_steps: "keeps outCtx (outTx env System) (Retry env job cause)"
  unfolding Retry_def deadLetter_def retryTx_def by (intro keeps_rules)

lemma AnonymizeExpiredInvitations_steps:
  "keeps outCtx (outTx env System) (AnonymizeExpiredInvitations env before)"
  unfolding AnonymizeExpiredInvitations_def
  by (intro keeps_rules keeps_anonymize) (auto simp: anonymizable_def)

end
