(* ===== verification/StoreInvariants.thy ===== *)
theory StoreInvariants imports StoreOperations begin

text \<open>
  What every sequence of store operations keeps: the tenants' administrators, the separation of the
  tenants' data, the audit log, the protected roles, the life cycle of invitations, users and outbox jobs.
  Each is proved for the steps of \<open>StoreSteps\<close> and carried to the operations, which \<open>serve\<close> collects.
\<close>

subsection \<open>The operations of the store that write\<close>

datatype store_request =
    ReqAppend audit_event
  | ReqCreateRole role string | ReqUpdateRole role string | ReqDeleteRole string string nat string
  | ReqUpdateMembership membership string
  | ReqInvalidateSession string | ReqRotateTenantSession string string string
  | ReqEnsureSuperAdmin super_admin_bootstrap
  | ReqLinkWithAudit string external_identity "string option"
  | ReqCreate string string | ReqUpdateSystem tenant string | ReqUpdateTenant tenant string
  | ReqCreateTenantOwner tenant_owner_registration
  | ReqUpsertLanguage language string
  | ReqUpsertTranslationOverride translation string | ReqDeleteTranslationOverride translation string
  | ReqCreateInvitation invitation | ReqAcceptInvitation invitation_acceptance
  | ReqRevokeInvitation string string | ReqRevokeTenantInvitation string string string
  | ReqClaimInvitationEmail | ReqComplete outbox_job | ReqRetry outbox_job "string option"
  | ReqAnonymizeExpiredInvitations time

definition discard :: "(world, go_error, 'a) eff \<Rightarrow> (world, go_error, unit) eff" where
  "discard m = andThen m (\<lambda>_. ret ())"

fun serve :: "env \<Rightarrow> store_request \<Rightarrow> (world, go_error, unit) eff" where
  "serve env (ReqAppend event) = Append env event"
| "serve env (ReqCreateRole role actor) = discard (CreateRole env role actor)"
| "serve env (ReqUpdateRole role actor) = discard (UpdateRole env role actor)"
| "serve env (ReqDeleteRole t rid revision actor) = DeleteRole env t rid revision actor"
| "serve env (ReqUpdateMembership m actor) = discard (UpdateMembership env m actor)"
| "serve env (ReqInvalidateSession u) = InvalidateSession env u"
| "serve env (ReqRotateTenantSession u t name) = discard (RotateTenantSession env u t name)"
| "serve env (ReqEnsureSuperAdmin b) = EnsureSuperAdmin env b"
| "serve env (ReqLinkWithAudit u x t) = LinkWithAudit env u x t"
| "serve env (ReqCreate name actor) = discard (Create env name actor)"
| "serve env (ReqUpdateSystem t actor) = discard (UpdateSystem env t actor)"
| "serve env (ReqUpdateTenant t actor) = discard (UpdateTenant env t actor)"
| "serve env (ReqCreateTenantOwner r) = discard (CreateTenantOwner env r)"
| "serve env (ReqUpsertLanguage l actor) = discard (UpsertLanguage env l actor)"
| "serve env (ReqUpsertTranslationOverride t actor) = discard (UpsertTranslationOverride env t actor)"
| "serve env (ReqDeleteTranslationOverride t actor) = DeleteTranslationOverride env t actor"
| "serve env (ReqCreateInvitation i) = discard (CreateInvitation env i)"
| "serve env (ReqAcceptInvitation a) = discard (acceptInvitation env a)"
| "serve env (ReqRevokeInvitation i actor) = RevokeInvitation env i actor"
| "serve env (ReqRevokeTenantInvitation t i actor) = RevokeTenantInvitation env t i actor"
| "serve env ReqClaimInvitationEmail = discard (ClaimInvitationEmail env)"
| "serve env (ReqComplete job) = Complete env job"
| "serve env (ReqRetry job cause) = Retry env job cause"
| "serve env (ReqAnonymizeExpiredInvitations before) = discard (AnonymizeExpiredInvitations env before)"

text \<open>The tenant a request is confined to by \<^verbatim>\<open>WithTenantTx\<close>.\<close>

fun requestScope :: "store_request \<Rightarrow> scope" where
  "requestScope (ReqCreateRole role actor) = Tenant (roleTenantID role)"
| "requestScope (ReqUpdateRole role actor) = Tenant (roleTenantID role)"
| "requestScope (ReqDeleteRole t rid revision actor) = Tenant t"
| "requestScope (ReqUpdateMembership m actor) = Tenant (tenantID (membershipTenant m))"
| "requestScope (ReqUpdateTenant t actor) = Tenant (tenantID t)"
| "requestScope (ReqCreateInvitation i) = Tenant (invitationTenantID i)"
| "requestScope (ReqRevokeTenantInvitation t i actor) = Tenant t"
| "requestScope _ = System"

lemma keeps_discard: "keeps outCtx (outTx env s) m \<Longrightarrow> keeps outCtx (outTx env s) (discard m)"
  unfolding discard_def by (intro keeps_rules)

lemmas operation_steps =
  Append_steps CreateRole_steps UpdateRole_steps DeleteRole_steps UpdateMembership_steps
  InvalidateSession_steps RotateTenantSession_steps EnsureSuperAdmin_steps LinkWithAudit_steps
  Create_steps UpdateSystem_steps UpdateTenant_steps CreateTenantOwner_steps UpsertLanguage_steps
  UpsertTranslationOverride_steps DeleteTranslationOverride_steps CreateInvitation_steps
  acceptInvitation_steps RevokeInvitation_steps RevokeTenantInvitation_steps
  ClaimInvitationEmail_steps Complete_steps Retry_steps AnonymizeExpiredInvitations_steps

lemma serve_keeps: "keeps outCtx (outTx env (requestScope req)) (serve env req)"
  by (cases req) (auto intro!: keeps_discard operation_steps)

lemma serve_steps:
  "keysDistinct (w_db w) \<Longrightarrow> serve env req w = (r, w') \<Longrightarrow>
     steps env (requestScope req) (w_db w) (w_db w')"
  using serve_keeps[of env req] by (auto simp: keeps_def outCtx_def outTx_def)

subsection \<open>Administrators\<close>

lemma adminMembership_cong:
  "roles d' = roles d \<Longrightarrow> adminMembership d' m = adminMembership d m"
  by (simp add: adminMembership_def)

lemma hasAdministrator_same:
  "roles d' = roles d \<Longrightarrow> memberships d' = memberships d \<Longrightarrow> hasAdministrator d' t = hasAdministrator d t"
  by (simp add: hasAdministrator_def adminMembership_def)

lemma renamed_role:
  assumes "r \<in> set rows"
  shows "\<exists>r' \<in> set (updateWhere hit (renameRole name now) rows).
     r_id r' = r_id r \<and> r_tenant r' = r_tenant r \<and> r_kind r' = r_kind r"
proof (rule bexI[of _ "if hit r then renameRole name now r else r"])
  show "(if hit r then renameRole name now r else r) \<in> set (updateWhere hit (renameRole name now) rows)"
    using assms by (auto simp: updateWhere_def)
qed simp

lemma hasAdministrator_step:
  assumes "step env s d d'" and "hasAdministrator d t"
  shows "hasAdministrator d' t"
  using assms
proof (cases rule: step.cases)
  case (role_inserted r)
  then show ?thesis using assms(2) by (auto simp: hasAdministrator_def adminMembership_def)
next
  case (role_renamed hit name now)
  obtain m r where m: "m \<in> set (memberships d)" "m_tenant m = t" "m_status m = MembershipActive"
    "r \<in> set (roles d)" "r_id r = m_role m" "r_kind r = RoleKindAdministrator"
    using assms(2) by (auto simp: hasAdministrator_def adminMembership_def)
  then show ?thesis using role_renamed(1) renamed_role[OF m(4), of hit name now]
    by (fastforce simp: hasAdministrator_def adminMembership_def)
next
  case (role_deleted hit)
  then show ?thesis using assms(2) by (fastforce simp: hasAdministrator_def adminMembership_def)
next
  case (membership_inserted r)
  then show ?thesis using assms(2) by (auto simp: hasAdministrator_def adminMembership_def)
next
  case (membership_changed hit rid st now)
  let ?d' = "d\<lparr>memberships := updateWhere hit (changeMembership rid st now) (memberships d)\<rparr>"
  have kept: "hasAdministrator ?d' (m_tenant m)"
    if "m \<in> set (memberships d)" "\<not> hit m" "adminMembership d m" for m
    using that by (auto simp: hasAdministrator_def adminMembership_def set_updateWhere)
  obtain m where m: "m \<in> set (memberships d)" "m_tenant m = t" "adminMembership d m"
    using assms(2) by (auto simp: hasAdministrator_def)
  have "hasAdministrator ?d' t"
  proof (cases "hit m")
    case False
    then show ?thesis using kept m by auto
  next
    case True
    then consider "adminMembership d (changeMembership rid st now m)"
      | other where "other \<in> set (memberships d)" "m_tenant other = t" "\<not> hit other" "adminMembership d other"
      using membership_changed(3) m by blast
    then show ?thesis
    proof cases
      case 1
      then have "changeMembership rid st now m \<in> set (memberships ?d') \<and>
          adminMembership ?d' (changeMembership rid st now m)"
        using m True by (auto simp: adminMembership_def set_updateWhere)
      then show ?thesis unfolding hasAdministrator_def using m(2) by (metis changeMembership_simps(2))
    next
      case 2
      then show ?thesis using kept by auto
    qed
  qed
  then show ?thesis using membership_changed by simp
qed (auto simp: hasAdministrator_def adminMembership_def)

subsection \<open>Separation of tenants\<close>

text \<open>A role's permissions belong to the tenant of the role.\<close>

definition permissionsOwned :: "db \<Rightarrow> bool" where
  "permissionsOwned d \<longleftrightarrow>
     (\<forall>p \<in> set (role_permissions d). \<exists>r \<in> set (roles d). r_id r = p_role p \<and> r_tenant r = p_tenant p)"

definition wellFormed :: "db \<Rightarrow> bool" where
  "wellFormed d \<longleftrightarrow> keysDistinct d \<and> permissionsOwned d"

lemma accepts_permission:
  "accepts env rolePermissionsTable d p \<Longrightarrow> \<exists>r \<in> set (roles d). r_id r = p_role p \<and> r_tenant r = p_tenant p"
  by (auto simp: accepts_def rowViolation_None rolePermissionsTable_def roleExists_def list_ex_iff)

lemma permissionsOwned_step:
  assumes "step env s d d'" and "keysDistinct d" and "permissionsOwned d"
  shows "permissionsOwned d'"
  using assms(1)
proof (cases rule: step.cases)
  case (role_renamed hit name now)
  show ?thesis unfolding permissionsOwned_def
  proof
    fix p
    assume "p \<in> set (role_permissions d')"
    then obtain r where "r \<in> set (roles d)" "r_id r = p_role p" "r_tenant r = p_tenant p"
      using assms(3) role_renamed(1) by (auto simp: permissionsOwned_def)
    then show "\<exists>r \<in> set (roles d'). r_id r = p_role p \<and> r_tenant r = p_tenant p"
      using renamed_role[of r "roles d" hit name now] role_renamed(1) by auto
  qed
next
  case (role_deleted hit)
  show ?thesis unfolding permissionsOwned_def
  proof
    fix p
    assume "p \<in> set (role_permissions d')"
    then have p: "p \<in> set (role_permissions d)" "p_role p \<notin> r_id ` set (filter hit (roles d))"
      using role_deleted(1) by auto
    then obtain r where r: "r \<in> set (roles d)" "r_id r = p_role p" "r_tenant r = p_tenant p"
      using assms(3) by (auto simp: permissionsOwned_def)
    then have "\<not> hit r" using p(2) by (auto simp: image_iff)
    then show "\<exists>r \<in> set (roles d'). r_id r = p_role p \<and> r_tenant r = p_tenant p"
      using r role_deleted(1) by auto
  qed
next
  case (permission_inserted r)
  then show ?thesis using assms(3) accepts_permission by (auto simp: permissionsOwned_def)
qed (use assms(3) in \<open>auto simp: permissionsOwned_def\<close>)

lemma wellFormed_step: "step env s d d' \<Longrightarrow> wellFormed d \<Longrightarrow> wellFormed d'"
  by (auto simp: wellFormed_def intro: keysDistinct_step permissionsOwned_step)

text \<open>Everything the database holds for one tenant.\<close>

record tenant_view =
  v_tenants :: "tenant list"
  v_roles :: "role_row list"
  v_permissions :: "permission_row list"
  v_memberships :: "membership_row list"
  v_invitations :: "invitation_row list"
  v_outbox :: "outbox_row list"
  v_audit :: "audit_row list"

definition tenantView :: "string \<Rightarrow> db \<Rightarrow> tenant_view" where
  "tenantView t d =
     \<lparr>v_tenants = filter (\<lambda>r. tenantID r = t) (tenants d),
      v_roles = filter (\<lambda>r. r_tenant r = t) (roles d),
      v_permissions = filter (\<lambda>r. p_tenant r = t) (role_permissions d),
      v_memberships = filter (\<lambda>r. m_tenant r = t) (memberships d),
      v_invitations = filter (\<lambda>r. i_tenant r = t) (invitations d),
      v_outbox = filter (\<lambda>r. o_tenant r = t) (outbox d),
      v_audit = filter (\<lambda>r. a_tenant r = Some t) (audit_events d)\<rparr>"

lemma filter_updateWhere_others:
  assumes "\<And>r. r \<in> set rows \<Longrightarrow> hit r \<Longrightarrow> \<not> Q r" and "\<And>r. Q (f r) = Q r"
  shows "filter Q (updateWhere hit f rows) = filter Q rows"
  using assms(1) by (induction rows) (auto simp: updateWhere_def assms(2))

lemma filter_filter_others:
  assumes "\<And>r. r \<in> set rows \<Longrightarrow> hit r \<Longrightarrow> \<not> Q r"
  shows "filter Q (filter (\<lambda>r. \<not> hit r) rows) = filter Q rows"
  using assms by (induction rows) auto

lemma tenantView_step:
  assumes "step env (Tenant t) d d'" and "wellFormed d" and "t' \<noteq> t"
  shows "tenantView t' d' = tenantView t' d"
  using assms(1)
proof (cases rule: step.cases)
  case (role_deleted hit)
  have "p_tenant p \<noteq> t'" if p: "p \<in> set (role_permissions d)" "p_role p \<in> r_id ` set (filter hit (roles d))" for p
  proof -
    obtain r0 where r0: "r0 \<in> set (roles d)" "hit r0" "r_id r0 = p_role p" using p(2) by auto
    obtain r1 where r1: "r1 \<in> set (roles d)" "r_id r1 = p_role p" "r_tenant r1 = p_tenant p"
      using p(1) assms(2) by (auto simp: wellFormed_def permissionsOwned_def)
    have "distinct (map r_id (roles d))" using assms(2) by (simp add: wellFormed_def keysDistinct_def)
    then have "r0 = r1" using r0 r1 by (auto intro: distinct_key_unique)
    then show ?thesis using role_deleted(2) r0 r1 assms(3) by auto
  qed
  then have "filter (\<lambda>r. p_tenant r = t')
      (filter (\<lambda>p. \<not> p_role p \<in> r_id ` set (filter hit (roles d))) (role_permissions d))
      = filter (\<lambda>r. p_tenant r = t') (role_permissions d)"
    by (intro filter_filter_others) auto
  moreover have "filter (\<lambda>r. r_tenant r = t') (filter (\<lambda>r. \<not> hit r) (roles d)) = filter (\<lambda>r. r_tenant r = t') (roles d)"
    by (intro filter_filter_others) (use role_deleted(2) assms(3) in auto)
  ultimately show ?thesis using role_deleted(1) by (simp add: tenantView_def)
next
  case (permissions_deleted hit)
  have "filter (\<lambda>r. p_tenant r = t') (filter (\<lambda>r. \<not> hit r) (role_permissions d))
      = filter (\<lambda>r. p_tenant r = t') (role_permissions d)"
    by (intro filter_filter_others) (use permissions_deleted(2) assms(3) in auto)
  then show ?thesis using permissions_deleted(1) by (simp add: tenantView_def)
qed (use assms(3) in \<open>auto simp: tenantView_def intro!: filter_updateWhere_others\<close>)

lemma tenantView_steps:
  assumes "steps env (Tenant t) d d'" and "wellFormed d" and "t' \<noteq> t"
  shows "tenantView t' d' = tenantView t' d"
proof -
  have "wellFormed d' \<and> tenantView t' d' = tenantView t' d"
    using assms(1)
  proof (induction rule: rtranclp_induct)
    case base
    then show ?case using assms(2) by simp
  next
    case (step x y)
    then show ?case using wellFormed_step tenantView_step[OF _ _ assms(3)] by metis
  qed
  then show ?thesis by simp
qed

subsection \<open>The audit log\<close>

lemma audit_step:
  "step env s d d' \<Longrightarrow> \<exists>news. audit_events d' = audit_events d @ news"
  by (cases rule: step.cases) auto

lemma audit_steps:
  assumes "steps env s d d'"
  shows "\<exists>news. audit_events d' = audit_events d @ news"
  using assms
proof (induction rule: rtranclp_induct)
  case (step x y)
  then show ?case by (metis append.assoc audit_step)
qed simp

subsection \<open>Protected roles\<close>

lemma protectedRole_step:
  assumes "step env s d d'" and "r \<in> set (roles d)" and "r_kind r \<noteq> RoleKindCustom"
  shows "r \<in> set (roles d')"
  using assms by (cases rule: step.cases) (auto simp: set_updateWhere)

subsection \<open>Invitations\<close>

definition invitationKept :: "invitation_row \<Rightarrow> invitation_row \<Rightarrow> bool" where
  "invitationKept r r' \<longleftrightarrow>
     i_id r' = i_id r \<and> i_tenant r' = i_tenant r \<and> i_role r' = i_role r
     \<and> (i_used_at r \<noteq> None \<longrightarrow> i_used_at r' = i_used_at r)
     \<and> (i_revoked_at r \<noteq> None \<longrightarrow> i_revoked_at r' = i_revoked_at r)
     \<and> (i_revoked_at r \<noteq> None \<and> i_used_at r = None \<longrightarrow> i_used_at r' = None)"

lemma invitationKept_refl [simp]: "invitationKept r r"
  by (simp add: invitationKept_def)

lemma invitationKept_trans: "invitationKept r r1 \<Longrightarrow> invitationKept r1 r2 \<Longrightarrow> invitationKept r r2"
  by (auto simp: invitationKept_def)

lemma invitation_step:
  assumes "step env s d d'" and "r \<in> set (invitations d)"
  shows "\<exists>r' \<in> set (invitations d'). invitationKept r r'"
  using assms(1)
proof (cases rule: step.cases)
  case (invitation_used hit now)
  have "\<exists>r' \<in> set (updateWhere hit (useInvitation now) (invitations d)). invitationKept r r'"
    by (rule updateWhere_kept[OF assms(2)]) (use invitation_used(2) assms(2) in \<open>auto simp: invitationKept_def\<close>)
  then show ?thesis using invitation_used(1) by simp
next
  case (invitation_revoked hit now)
  have "\<exists>r' \<in> set (updateWhere hit (revokeRow now) (invitations d)). invitationKept r r'"
    by (rule updateWhere_kept[OF assms(2)]) (use invitation_revoked(2) assms(2) in \<open>auto simp: invitationKept_def\<close>)
  then show ?thesis using invitation_revoked(1) by simp
next
  case (delivery_changed hit st now)
  have "\<exists>r' \<in> set (updateWhere hit (setDelivery st now) (invitations d)). invitationKept r r'"
    by (rule updateWhere_kept[OF assms(2)]) (auto simp: invitationKept_def)
  then show ?thesis using delivery_changed(1) by simp
next
  case (invitations_anonymized hit now)
  have "\<exists>r' \<in> set (updateWhere hit (anonymizeRow now) (invitations d)). invitationKept r r'"
    by (rule updateWhere_kept[OF assms(2)]) (auto simp: invitationKept_def)
  then show ?thesis using invitations_anonymized(1) by simp
qed (use assms(2) in \<open>auto intro!: bexI[of _ r]\<close>)

text \<open>No invitation is both used and revoked.\<close>

definition usedOrRevoked :: "invitation_row \<Rightarrow> bool" where
  "usedOrRevoked r \<longleftrightarrow> i_used_at r = None \<or> i_revoked_at r = None"

lemma usedOrRevoked_changes [simp]:
  "usedOrRevoked (setDelivery st now r) = usedOrRevoked r"
  "usedOrRevoked (anonymizeRow now r) = usedOrRevoked r"
  "i_revoked_at r = None \<Longrightarrow> usedOrRevoked (useInvitation now r)"
  "i_used_at r = None \<Longrightarrow> usedOrRevoked (revokeRow now r)"
  "i_used_at r = None \<Longrightarrow> usedOrRevoked r"
  by (simp_all add: usedOrRevoked_def)

definition invitationsUsedOrRevoked :: "db \<Rightarrow> bool" where
  "invitationsUsedOrRevoked d \<longleftrightarrow> (\<forall>r \<in> set (invitations d). usedOrRevoked r)"

lemma invitationsUsedOrRevoked_step:
  "step env s d d' \<Longrightarrow> invitationsUsedOrRevoked d \<Longrightarrow> invitationsUsedOrRevoked d'"
  by (cases rule: step.cases) (auto simp: invitationsUsedOrRevoked_def set_updateWhere)

subsection \<open>Users\<close>

definition userKept :: "user_row \<Rightarrow> user_row \<Rightarrow> bool" where
  "userKept r r' \<longleftrightarrow>
     u_id r' = u_id r \<and> u_email r' = u_email r \<and> globalRole (u_user r') = globalRole (u_user r)
     \<and> u_password_hash r' = u_password_hash r \<and> u_session_version r \<le> u_session_version r'"

lemma userKept_refl [simp]: "userKept r r"
  by (simp add: userKept_def)

lemma userKept_trans: "userKept r r1 \<Longrightarrow> userKept r1 r2 \<Longrightarrow> userKept r r2"
  by (auto simp: userKept_def)

lemma user_step:
  assumes "step env s d d'" and "r \<in> set (users d)"
  shows "\<exists>r' \<in> set (users d'). userKept r r'"
  using assms(1)
proof (cases rule: step.cases)
  case (session_bumped hit now)
  have "\<exists>r' \<in> set (updateWhere hit (bumpSession now) (users d)). userKept r r'"
    by (rule updateWhere_kept[OF assms(2)]) (auto simp: userKept_def)
  then show ?thesis using session_bumped(1) by simp
qed (use assms(2) in \<open>auto intro!: bexI[of _ r]\<close>)

subsection \<open>Outbox jobs\<close>

definition jobFinished :: "outbox_row \<Rightarrow> bool" where
  "jobFinished r \<longleftrightarrow> o_status r = OutboxCompleted \<or> o_status r = OutboxDeadLetter"

lemma finishedJob_step:
  assumes "step env s d d'" and "r \<in> set (outbox d)" and "jobFinished r"
  shows "r \<in> set (outbox d')"
  using assms
  by (cases rule: step.cases) (auto simp: set_updateWhere jobFinished_def claimable_def leasedJob_def)

definition leasesConsistent :: "db \<Rightarrow> bool" where
  "leasesConsistent d \<longleftrightarrow> (\<forall>r \<in> set (outbox d). leaseConsistent r)"

lemma leaseConsistent_changes [simp]:
  "leaseConsistent (leaseJob token now r)" "leaseConsistent (completeJob now r)"
  "leaseConsistent (retryJob t msg now r)" "leaseConsistent (deadLetterJob msg now r)"
  "leaseConsistent (cancelJob now r)"
  by (simp_all add: leaseConsistent_def leaseJob_def completeJob_def retryJob_def deadLetterJob_def
      cancelJob_def)

lemma accepts_job: "accepts env outboxTable d r \<Longrightarrow> leaseConsistent r"
  by (auto simp: accepts_def rowViolation_None outboxTable_def)

lemma leasesConsistent_step: "step env s d d' \<Longrightarrow> leasesConsistent d \<Longrightarrow> leasesConsistent d'"
  by (cases rule: step.cases) (auto simp: leasesConsistent_def set_updateWhere accepts_job)

subsection \<open>Reachable states\<close>

text \<open>The database after the migration has only the languages its seed inserts; the store serves any
  requests in any order.\<close>

definition emptyDb :: "language list \<Rightarrow> db" where
  "emptyDb ls = \<lparr>tenants = [], users = [], roles = [], role_permissions = [], memberships = [],
     invitations = [], identities = [], outbox = [], languages = ls, overrides = [], audit_events = []\<rparr>"

inductive reachable :: "env \<Rightarrow> world \<Rightarrow> bool" for env where
  start: "w_db w = emptyDb ls \<Longrightarrow> distinct (map languageCode ls) \<Longrightarrow> reachable env w"
| served: "reachable env w \<Longrightarrow> serve env req w = (r, w') \<Longrightarrow> reachable env w'"

inductive_cases reachable_servedE: "reachable env w'"

lemma reachable_invariant:
  assumes "reachable env w" and "\<And>ls. distinct (map languageCode ls) \<Longrightarrow> I (emptyDb ls)"
    and "\<And>s d d'. step env s d d' \<Longrightarrow> keysDistinct d \<Longrightarrow> I d \<Longrightarrow> I d'"
  shows "I (w_db w) \<and> keysDistinct (w_db w)"
  using assms(1)
proof (induction rule: reachable.induct)
  case (start w ls)
  then show ?case using assms(2) by (simp add: keysDistinct_def emptyDb_def)
next
  case (served w req r w')
  let ?J = "\<lambda>d. I d \<and> keysDistinct d"
  have "steps env (requestScope req) (w_db w) (w_db w')" using served by (blast intro: serve_steps)
  then show ?case
    by (rule steps_invariant[where I = ?J]) (use served assms(3) keysDistinct_step in blast)+
qed

lemma reachable_wellFormed: "reachable env w \<Longrightarrow> wellFormed (w_db w)"
  unfolding wellFormed_def
  using reachable_invariant[of env w permissionsOwned] permissionsOwned_step
  by (simp add: permissionsOwned_def emptyDb_def)

lemma reachable_keysDistinct: "reachable env w \<Longrightarrow> keysDistinct (w_db w)"
  using reachable_wellFormed by (simp add: wellFormed_def)

end
