(* ===== verification/ServiceRuns.thy ===== *)
theory ServiceRuns imports StoreInvariants begin

text \<open>
  What the store's reading operations give to the services that call them: they leave the database as it
  is, and what they return is in it.
\<close>

subsection \<open>Calls that leave the database untouched\<close>

definition untouched :: "world \<Rightarrow> world \<Rightarrow> bool" where
  "untouched w w' \<longleftrightarrow> w_db w' = w_db w \<and> w_mail w' = w_mail w"

interpretation untouched: world_relation "\<lambda>_. True" untouched
  by unfold_locales (auto simp: untouched_def)

named_theorems untouched_rules

declare untouched.control [untouched_rules]
declare keeps_if [untouched_rules] keeps_let [untouched_rules] keeps_case_option [untouched_rules]
  keeps_case_sum [untouched_rules] keeps_case_prod [untouched_rules]

lemma untouchedD: "keeps (\<lambda>_. True) untouched m \<Longrightarrow> m w = (r, w') \<Longrightarrow> w_db w' = w_db w"
  by (auto simp: keeps_def untouched_def)

definition sameMail :: "world \<Rightarrow> world \<Rightarrow> bool" where
  "sameMail w w' \<longleftrightarrow> w_mail w' = w_mail w"

interpretation sameMail: world_relation "\<lambda>_. True" sameMail
  by unfold_locales (auto simp: sameMail_def)

lemma sameMail_setConfig: "keeps (\<lambda>_. True) sameMail (setConfig env key v)"
  by (rule keepsI) (auto simp: sameMail_def dest!: setConfig_cases)

lemma sameMail_reads: "keeps (\<lambda>_. True) reads m \<Longrightarrow> keeps (\<lambda>_. True) sameMail m"
  by (auto simp: keeps_def reads_def sameMail_def sameSession_def)

lemma sameMail_beginFunc:
  assumes "keeps (\<lambda>_. True) sameMail m"
  shows "keeps (\<lambda>_. True) sameMail (beginFunc env m)"
proof (rule keepsI)
  fix w r w'
  assume run: "beginFunc env m w = (r, w')"
  have inner: "w_mail w2 = w_mail w1" if "m w1 = (q, w2)" for q w1 w2
    using keepsD[OF assms _ that] by (simp add: sameMail_def)
  show "sameMail w w'" unfolding sameMail_def
    using run by (auto simp: beginFunc_def split: option.splits prod.splits sum.splits commit_outcome.splits dest!: inner)
qed

lemma untouched_systemTx [untouched_rules]:
  assumes "keeps (\<lambda>_. True) reads m"
  shows "keeps (\<lambda>_. True) untouched (withSystemTx env m)"
proof (rule keepsI)
  fix w r w'
  assume run: "withSystemTx env m w = (r, w')"
  have inner: "w_db w2 = w_db w" if "enteredTx env System w w1" "m w1 = (Inr x, w2)" for x w1 w2
    using that(1) readsD[OF assms that(2)] by (simp add: enteredTx_def)
  have "w_db w' = w_db w" using run
    by (cases rule: systemTx_cases) (simp, (metis inner)+)
  moreover have "keeps (\<lambda>_. True) sameMail (withSystemTx env m)"
    unfolding withSystemTx_def withSettingTx_def
    by (intro sameMail_beginFunc sameMail.andThen sameMail.mapError sameMail_setConfig sameMail_reads assms)
  then have "sameMail w w'" using TrueI run by (rule keepsD)
  ultimately show "untouched w w'" by (simp add: untouched_def sameMail_def)
qed

lemma untouched_tenantTx [untouched_rules]:
  assumes "keeps (\<lambda>_. True) reads m"
  shows "keeps (\<lambda>_. True) untouched (WithTenantTx env t m)"
proof (rule keepsI)
  fix w r w'
  assume run: "WithTenantTx env t m w = (r, w')"
  have inner: "w_db w2 = w_db w" if "enteredTx env (Tenant t) w w1" "m w1 = (Inr x, w2)" for x w1 w2
    using that(1) readsD[OF assms that(2)] by (simp add: enteredTx_def)
  have "w_db w' = w_db w" using run
    by (cases rule: tenantTx_cases) (simp, (metis inner)+)
  moreover have "keeps (\<lambda>_. True) sameMail (WithTenantTx env t m)"
    unfolding WithTenantTx_def
    by (intro sameMail_beginFunc sameMail.andThen sameMail.liftSum sameMail.mapError sameMail_setConfig
        sameMail_reads assms)
  then have "sameMail w w'" using TrueI run by (rule keepsD)
  ultimately show "untouched w w'" by (simp add: untouched_def sameMail_def)
qed

declare reads.control [untouched_rules]

lemma untouched_reading [untouched_rules]:
  "keeps (\<lambda>_. True) untouched (FindByEmail env email)"
  "keeps (\<lambda>_. True) untouched (FindByID env uid)"
  "keeps (\<lambda>_. True) untouched (FindUser env issuer subject)"
  "keeps (\<lambda>_. True) untouched (MembershipsForUser env uid)"
  "keeps (\<lambda>_. True) untouched (FindActiveMembership env uid tid)"
  "keeps (\<lambda>_. True) untouched (FindRole env tid rid)"
  "keeps (\<lambda>_. True) untouched (PermissionsForRole env tid rid)"
  "keeps (\<lambda>_. True) untouched (FindInvitation env hash)"
  unfolding FindByEmail_def FindByID_def FindUser_def MembershipsForUser_def FindActiveMembership_def
    PermissionsForRole_def FindRole_def findRoleTx_def FindInvitation_def
  by (intro untouched_rules)+

subsection \<open>What a read returns\<close>

lemma systemRead:
  assumes "withSystemTx env m w = (Inr x, w')"
  obtains w1 w2 where "enteredTx env System w w1" "m w1 = (Inr x, w2)" "w_db w' = w_db w2"
  using assms by (cases rule: systemTx_cases) auto

lemma tenantRead:
  assumes "WithTenantTx env t m w = (Inr x, w')"
  obtains w1 w2 where "enteredTx env (Tenant t) w w1" "m w1 = (Inr x, w2)" "w_db w' = w_db w2"
  using assms by (cases rule: tenantTx_cases) auto

lemma FindByEmail_Inr:
  assumes "FindByEmail env email w = (Inr (usr, h), w')"
  shows "\<exists>r \<in> set (users (w_db w)). u_email r = email \<and> u_user r = usr \<and> u_password_hash r = Some h"
  using assms unfolding FindByEmail_def
  by (rule systemRead)
    (auto simp: run_simps visibleRows_def enteredTx_def split: option.splits dest!: find_Some_member, blast)

lemma FindByID_Inr:
  assumes "FindByID env uid w = (Inr usr, w')"
  shows "\<exists>r \<in> set (users (w_db w)). u_id r = uid \<and> u_user r = usr"
  using assms unfolding FindByID_def
  by (rule systemRead) (auto simp: run_simps visibleRows_def enteredTx_def dest!: find_Some_member)

lemma FindInvitation_Inr:
  assumes "FindInvitation env hash w = (Inr i, w')"
  shows "\<exists>r \<in> set (invitations (w_db w)). i_token_hash r = Some hash \<and> i = scanInvitation r"
  using assms unfolding FindInvitation_def
  by (rule systemRead) (auto simp: run_simps visibleRows_def enteredTx_def dest!: find_Some_member)

text \<open>A user's active membership of a tenant, and a permission its role grants.\<close>

definition activeMembership :: "db \<Rightarrow> string \<Rightarrow> string \<Rightarrow> string \<Rightarrow> bool" where
  "activeMembership d uid tid rid \<longleftrightarrow>
     (\<exists>m \<in> set (memberships d). m_user m = uid \<and> m_tenant m = tid \<and> m_role m = rid \<and> m_status m = MembershipActive)"

definition roleGrants :: "db \<Rightarrow> string \<Rightarrow> string \<Rightarrow> permission \<Rightarrow> bool" where
  "roleGrants d tid rid perm \<longleftrightarrow>
     (\<exists>q \<in> set (role_permissions d). p_tenant q = tid \<and> p_role q = rid \<and> p_permission q = perm)"

definition holdsPermission :: "db \<Rightarrow> string \<Rightarrow> string \<Rightarrow> permission \<Rightarrow> bool" where
  "holdsPermission d uid tid perm \<longleftrightarrow> (\<exists>rid. activeMembership d uid tid rid \<and> roleGrants d tid rid perm)"

lemma FindActiveMembership_Inr:
  assumes "FindActiveMembership env uid tid w = (Inr m, w')"
  shows "activeMembership (w_db w) uid tid (membershipRoleID m) \<and> tenantID (membershipTenant m) = tid"
proof -
  have "WithTenantTx env tid (queryRow env (\<lambda>w. firstRow (membershipQuery env w
      (\<lambda>m. m_user m = uid \<and> m_tenant m = tid \<and> m_status m = MembershipActive)))) w = (Inr m, w')"
    using assms by (simp add: FindActiveMembership_def mapError_Inr)
  then show ?thesis
    by (rule tenantRead)
      (auto simp: run_simps membershipQuery_def scanMembership_def visibleRows_def enteredTx_def activeMembership_def
        dest!: firstRow_Some split: if_splits, blast)
qed

lemma PermissionsForRole_Inr:
  assumes "PermissionsForRole env tid rid w = (Inr perms, w')"
  shows "\<forall>perm \<in> set perms. roleGrants (w_db w) tid rid perm"
proof -
  obtain role where "FindRole env tid rid w = (Inr role, w')" and perms: "perms = rolePermissions role"
    using assms by (auto simp: PermissionsForRole_def run_simps)
  then have "WithTenantTx env tid (findRoleTx env tid rid) w = (Inr role, w')" by (simp add: FindRole_def)
  then show ?thesis
  proof (rule tenantRead)
    fix w1 w2
    assume entered: "enteredTx env (Tenant tid) w w1" and "findRoleTx env tid rid w1 = (Inr role, w2)"
    then obtain r where "r \<in> set (roles (w_db w1))" "r_id r = rid" "role = scanRole env w1 r"
      by (auto dest: findRoleTx_Inr)
    moreover have "tenantVisible w1 t \<longleftrightarrow> t = tid" for t
      using entered by (auto simp: enteredTx_def tenantVisible_def bypassesRLS_def currentTenant_def)
    ultimately show ?thesis using entered perms
      by (auto simp: roleGrants_def set_permissionsOfRole enteredTx_def)
  qed
qed

subsection \<open>When nothing fails\<close>

text \<open>A quiet environment: no statement fails and every commit is acknowledged.\<close>

definition quiet :: "env \<Rightarrow> bool" where
  "quiet env \<longleftrightarrow> (\<forall>n. e_fault env n = None) \<and> (\<forall>n. e_commit env n = Committed)"

lemma quietD [simp]: "quiet env \<Longrightarrow> e_fault env n = None" "quiet env \<Longrightarrow> e_commit env n = Committed"
  by (simp_all add: quiet_def)

lemma quiet_systemTx:
  assumes "quiet env"
  obtains w1 where "enteredTx env System w w1"
    "\<And>x w2. m w1 = (Inr x, w2) \<Longrightarrow> \<exists>w'. withSystemTx env m w = (Inr x, w') \<and> w_db w' = w_db w2"
    "\<And>err w2. m w1 = (Inl err, w2) \<Longrightarrow> \<exists>w'. withSystemTx env m w = (Inl err, w') \<and> w_db w' = w_db w"
proof (rule that)
  let ?w0 = "(tick w)\<lparr>w_now := pgTime (e_clock env (w_tick w))\<rparr>"
  let ?w1 = "(tick ?w0)\<lparr>w_bypass_rls := ''true''\<rparr>"
  have set: "setConfig env systemSettingKey ''true'' ?w0 = (Inr (), ?w1)"
    using assms by (simp add: setConfig_def)
  show "enteredTx env System w ?w1" by (simp add: enteredTx_def)
  show "\<exists>w'. withSystemTx env m w = (Inr x, w') \<and> w_db w' = w_db w2" if "m ?w1 = (Inr x, w2)" for x w2
    using assms that set
    by (simp add: withSystemTx_def withSettingTx_def beginFunc_def mapError_def leaveTx_def)
  show "\<exists>w'. withSystemTx env m w = (Inl err, w') \<and> w_db w' = w_db w" if "m ?w1 = (Inl err, w2)" for err w2
    using assms that set
    by (simp add: withSystemTx_def withSettingTx_def beginFunc_def mapError_def leaveTx_def)
qed

end
