(* ===== verification/AuthService.thy ===== *)
theory AuthService imports Credentials InvitationLink ServiceRuns begin

text \<open>
  The service \<^verbatim>\<open>Auth\<close>: \<^verbatim>\<open>server/auth.go\<close>, \<^verbatim>\<open>server/auth_credentials.go\<close>, \<^verbatim>\<open>server/auth_external.go\<close>,
  \<^verbatim>\<open>server/auth_invitation.go\<close>, \<^verbatim>\<open>server/email.go\<close> and the validation of \<^verbatim>\<open>server/authentication.go\<close>. Its
  dependencies are wired as \<^verbatim>\<open>server/cmd/server\<close> wires them: every store interface is the PostgreSQL store,
  the password hasher, session issuer and token signer are those of package \<^verbatim>\<open>auth\<close>.

  The methods carry the prefix of their receiver, \<open>Auth_\<close>, since the store has methods of the same names.
\<close>

record auth =
  authPasswords :: password_hasher
  authSessions :: session_issuer
  authTokenSecret :: string
  authLinks :: url
  authInviteTTL :: duration

definition NewAuth ::
  "ports \<Rightarrow> password_hasher \<Rightarrow> session_issuer \<Rightarrow> string \<Rightarrow> string \<Rightarrow> duration \<Rightarrow> auth result" where
  "NewAuth p passwords sessions tokens inviteBaseURL inviteTTL =
     (if inviteTTL \<le> 0 then Inl (OpaqueError ''auth service: invitation TTL must be positive'')
      else
        case newInvitationLinkBuilder p inviteBaseURL of
          Inl err \<Rightarrow> Inl err
        | Inr links \<Rightarrow>
            Inr \<lparr>authPasswords = passwords, authSessions = sessions, authTokenSecret = tokens, authLinks = links,
                 authInviteTTL = inviteTTL\<rparr>)"

subsection \<open>E-mail addresses and external identities\<close>

definition ParseEmail :: "env \<Rightarrow> ports \<Rightarrow> string \<Rightarrow> string result" where
  "ParseEmail env p raw =
     (let normalized = toLower (unicode env) (trimSpace raw) in
      if normalized = [] then validationError
      else case parseAddress p normalized of
        None \<Rightarrow> validationError
      | Some address \<Rightarrow> if addressSpec address \<noteq> normalized then validationError else Inr normalized)"

definition externalIdentity_validate :: "env \<Rightarrow> ports \<Rightarrow> external_identity \<Rightarrow> unit result" where
  "externalIdentity_validate env p identity =
     (let issuer = trimSpace (identityIssuer identity); subject = trimSpace (identitySubject identity) in
      if issuer = [] \<or> subject = [] \<or> \<not> validUtf8 issuer \<or> \<not> validUtf8 subject
         \<or> (case ParseEmail env p (identityEmail identity) of Inl _ \<Rightarrow> True | Inr _ \<Rightarrow> False)
      then validationError else Inr ())"

subsection \<open>Sessions\<close>

definition Auth_sessionForUser :: "env \<Rightarrow> user \<Rightarrow> string option \<Rightarrow> (world, go_error, session) eff" where
  "Auth_sessionForUser env usr activeTenantID =
     (let s = \<lparr>sessionToken = [], sessionUser = usr, activeTenant = None, sessionMemberships = []\<rparr> in
      if isSuperAdministrator (globalRole usr) then ret s
      else
        andThen (MembershipsForUser env (userID usr)) (\<lambda>ms.
        let activeMemberships = filter (\<lambda>m. membershipStatus m = MembershipActive) ms in
        if activeMemberships = [] then fail (newError ErrorUnauthorized)
        else
          let s' = s\<lparr>sessionMemberships := activeMemberships\<rparr> in
          case activeTenantID of
            None \<Rightarrow> ret (s'\<lparr>activeTenant := Some (membershipTenant (hd activeMemberships))\<rparr>)
          | Some tid \<Rightarrow>
              (case List.find (\<lambda>m. tenantID (membershipTenant m) = tid) activeMemberships of
                 Some m \<Rightarrow> ret (s'\<lparr>activeTenant := Some (membershipTenant m)\<rparr>)
               | None \<Rightarrow> fail (newError ErrorUnauthorized))))"

definition sessionClaim :: "session \<Rightarrow> session_claim" where
  "sessionClaim s =
     \<lparr>claimUserID = userID (sessionUser s), claimActiveTenantID = map_option tenantID (activeTenant s),
      claimSessionVersion = sessionVersion (sessionUser s)\<rparr>"

definition Auth_issue :: "env \<Rightarrow> ports \<Rightarrow> auth \<Rightarrow> session \<Rightarrow> (world, go_error, session) eff" where
  "Auth_issue env p a s =
     andThen (mapError (\<lambda>_. newError ErrorInternal) (IssueToken env p (authSessions a) (sessionClaim s))) (\<lambda>token.
     ret (s\<lparr>sessionToken := token\<rparr>))"

definition Auth_requireTenantPermission ::
  "env \<Rightarrow> string \<Rightarrow> string \<Rightarrow> permission \<Rightarrow> (world, go_error, membership) eff" where
  "Auth_requireTenantPermission env uid tid permission =
     andThen (FindActiveMembership env uid tid) (\<lambda>membership.
     andThen (PermissionsForRole env tid (membershipRoleID membership)) (\<lambda>permissions.
     if permission \<notin> set permissions then fail (newError ErrorUnauthorized) else ret membership))"

definition Auth_appendAudit ::
  "env \<Rightarrow> string \<Rightarrow> string option \<Rightarrow> string \<Rightarrow> string \<Rightarrow> (world, go_error, unit) eff" where
  "Auth_appendAudit env actor tid action target =
     andThen (goNow env) (\<lambda>now.
     Append env ((auditEvent (Some actor) tid (trimSpace action) (trimSpace target))\<lparr>occurredAt := now\<rparr>))"

definition sameUserSession :: "session_claim \<Rightarrow> user \<Rightarrow> bool" where
  "sameUserSession claim usr \<longleftrightarrow>
     claimUserID claim = userID usr \<and> claimSessionVersion claim = sessionVersion usr"

subsection \<open>Credentials\<close>

definition Auth_login ::
  "env \<Rightarrow> ports \<Rightarrow> auth \<Rightarrow> string \<Rightarrow> string \<Rightarrow> bool \<Rightarrow> (world, go_error, session) eff" where
  "Auth_login env p a rawEmail password requireSuperAdmin =
     (case ParseEmail env p rawEmail of
        Inl _ \<Rightarrow> fail (newError ErrorInvalidCredentials)
      | Inr email \<Rightarrow>
          andThen (attempt (FindByEmail env email)) (\<lambda>found.
          case found of
            Inl _ \<Rightarrow> fail (newError ErrorInvalidCredentials)
          | Inr (usr, passwordHash) \<Rightarrow>
              if \<not> verifyPassword p (authPasswords a) password passwordHash
              then fail (newError ErrorInvalidCredentials)
              else if requireSuperAdmin \<noteq> isSuperAdministrator (globalRole usr)
              then fail (newError ErrorInvalidCredentials)
              else
                andThen (Auth_sessionForUser env usr None) (\<lambda>s0.
                andThen (Auth_issue env p a s0) (\<lambda>s.
                andThen (Auth_appendAudit env (userID usr) (map_option tenantID (activeTenant s))
                           ''session.login'' (userEmail usr)) (\<lambda>_.
                ret s)))))"

definition Auth_Login :: "env \<Rightarrow> ports \<Rightarrow> auth \<Rightarrow> string \<Rightarrow> string \<Rightarrow> (world, go_error, session) eff" where
  "Auth_Login env p a email password = Auth_login env p a email password False"

definition Auth_LoginSuperAdmin :: "env \<Rightarrow> ports \<Rightarrow> auth \<Rightarrow> string \<Rightarrow> string \<Rightarrow> (world, go_error, session) eff" where
  "Auth_LoginSuperAdmin env p a email password = Auth_login env p a email password True"

definition Auth_Register ::
  "env \<Rightarrow> ports \<Rightarrow> auth \<Rightarrow> string \<Rightarrow> string \<Rightarrow> string \<Rightarrow> string \<Rightarrow> (world, go_error, session) eff" where
  "Auth_Register env p a rawEmail password tenantName0 locale0 =
     (case ParseEmail env p rawEmail of
        Inl _ \<Rightarrow> fail (newError ErrorValidation)
      | Inr email \<Rightarrow>
          let loc = newLocale (unicode env) locale0 in
          case normalizeTenantName tenantName0 of
            Inl _ \<Rightarrow> fail (newError ErrorValidation)
          | Inr name \<Rightarrow>
              if \<not> validPassword password \<or> \<not> locale_isValid loc then fail (newError ErrorValidation)
              else
                andThen (mapError (\<lambda>_. newError ErrorInternal) (hashPassword p (authPasswords a) password)) (\<lambda>h.
                andThen (CreateTenantOwner env
                  \<lparr>registrationEmail = email, registrationPasswordHash = h, registrationLocale = loc,
                   registrationTenantName = name\<rparr>) (\<lambda>s.
                Auth_issue env p a s)))"

definition Auth_CurrentSession :: "env \<Rightarrow> ports \<Rightarrow> auth \<Rightarrow> string \<Rightarrow> (world, go_error, session) eff" where
  "Auth_CurrentSession env p a token =
     andThen (mapError (\<lambda>_. newError ErrorInvalidCredentials) (VerifyToken env p (authSessions a) token)) (\<lambda>claim.
     andThen (attempt (FindByID env (claimUserID claim))) (\<lambda>found.
     case found of
       Inl _ \<Rightarrow> fail (newError ErrorInvalidCredentials)
     | Inr usr \<Rightarrow>
         if \<not> sameUserSession claim usr then fail (newError ErrorInvalidCredentials)
         else
           andThen (Auth_sessionForUser env usr (claimActiveTenantID claim)) (\<lambda>s.
           ret (s\<lparr>sessionToken := token\<rparr>))))"

definition Auth_Logout :: "env \<Rightarrow> session \<Rightarrow> (world, go_error, unit) eff" where
  "Auth_Logout env s =
     (if \<not> validUUID (userID (sessionUser s)) then fail (newError ErrorInvalidCredentials)
      else InvalidateSession env (userID (sessionUser s)))"

definition Auth_SwitchTenant ::
  "env \<Rightarrow> ports \<Rightarrow> auth \<Rightarrow> session \<Rightarrow> string \<Rightarrow> (world, go_error, session) eff" where
  "Auth_SwitchTenant env p a s requestedTenantID =
     andThen (liftSum (tenantID_validate requestedTenantID)) (\<lambda>_.
     if isSuperAdministrator (globalRole (sessionUser s)) then fail (newError ErrorUnauthorized)
     else
       andThen (FindActiveMembership env (userID (sessionUser s)) requestedTenantID) (\<lambda>membership.
       andThen (RotateTenantSession env (userID (sessionUser s)) requestedTenantID
                  (tenantName (membershipTenant membership))) (\<lambda>version.
       Auth_issue env p a
         (s\<lparr>activeTenant := Some (membershipTenant membership),
            sessionUser := (sessionUser s)\<lparr>sessionVersion := version\<rparr>\<rparr>))))"

subsection \<open>External identities\<close>

definition Auth_LoginExternal ::
  "env \<Rightarrow> ports \<Rightarrow> auth \<Rightarrow> external_identity \<Rightarrow> (world, go_error, session) eff" where
  "Auth_LoginExternal env p a identity =
     andThen (liftSum (externalIdentity_validate env p identity)) (\<lambda>_.
     andThen (mapError (\<lambda>err. if isInvalidCredentials err then newError ErrorInvalidCredentials else err)
                (FindUser env (identityIssuer identity) (identitySubject identity))) (\<lambda>usr.
     if isSuperAdministrator (globalRole usr) then fail (newError ErrorUnauthorized)
     else
       andThen (Auth_sessionForUser env usr None) (\<lambda>s0.
       andThen (Auth_issue env p a s0) (\<lambda>s.
       andThen (Auth_appendAudit env (userID usr) (map_option tenantID (activeTenant s))
                  ''session.oidc_login'' (userEmail usr)) (\<lambda>_.
       ret s)))))"

definition Auth_LinkExternalIdentity ::
  "env \<Rightarrow> ports \<Rightarrow> session \<Rightarrow> external_identity \<Rightarrow> (world, go_error, unit) eff" where
  "Auth_LinkExternalIdentity env p s identity =
     andThen (liftSum (externalIdentity_validate env p identity)) (\<lambda>_.
     if isSuperAdministrator (globalRole (sessionUser s)) \<or> userEmail (sessionUser s) \<noteq> identityEmail identity
     then fail (newError ErrorUnauthorized)
     else LinkWithAudit env (userID (sessionUser s)) identity (map_option tenantID (activeTenant s)))"

subsection \<open>Invitations\<close>

definition Auth_findInvitation :: "env \<Rightarrow> string \<Rightarrow> (world, go_error, invitation) eff" where
  "Auth_findInvitation env token0 =
     (let token = trimSpace token0 in
      if token = [] then fail (newError ErrorInvitationInvalid)
      else
        andThen (FindInvitation env (invitationHash token)) (\<lambda>i.
        if invitation_isUsed i then fail (newError ErrorInvitationUsed)
        else
          andThen (goNow env) (\<lambda>now.
          if invitation_isExpired i now then fail (newError ErrorInvitationExpired) else ret i)))"

definition Auth_newInvitation ::
  "env \<Rightarrow> auth \<Rightarrow> string \<Rightarrow> string \<Rightarrow> string \<Rightarrow> string \<Rightarrow> string \<Rightarrow> (world, go_error, invitation \<times> string) eff" where
  "Auth_newInvitation env a actor tid email rid loc =
     andThen (mapError (\<lambda>_. newError ErrorInternal) (NewInvitationID env)) (\<lambda>newID.
     andThen (goNow env) (\<lambda>now.
     let i = \<lparr>invitationID = newID, invitationTenantID = tid, invitationEmail = email, invitationRoleID = rid,
              invitationRole = zeroRole, tokenHash = [], expiresAt = now + authInviteTTL a, usedAt = None,
              revokedAt = None, createdBy = actor, acceptanceURL = [], deliveryStatus = DeliveryQueued,
              invitationLocale = loc, invitationCreatedAt = zeroTime\<rparr> in
     case invitationToken (authTokenSecret a) i of
       Inl _ \<Rightarrow> fail (newError ErrorInternal)
     | Inr rawToken \<Rightarrow> ret (i\<lparr>tokenHash := invitationHash rawToken\<rparr>, rawToken)))"

definition Auth_CreateInvitation ::
  "env \<Rightarrow> ports \<Rightarrow> auth \<Rightarrow> session \<Rightarrow> string \<Rightarrow> string \<Rightarrow> (world, go_error, invitation) eff" where
  "Auth_CreateInvitation env p a s rawEmail rid =
     (if \<not> validUUID rid then fail (newError ErrorValidation)
      else if isSuperAdministrator (globalRole (sessionUser s)) then fail (newError ErrorUnauthorized)
      else case activeTenant s of
        None \<Rightarrow> fail (newError ErrorUnauthorized)
      | Some tenant0 \<Rightarrow>
          let tid = tenantID tenant0; uid = userID (sessionUser s) in
          andThen (Auth_requireTenantPermission env uid tid PermissionUserManage) (\<lambda>_.
          andThen (FindRole env tid rid) (\<lambda>role.
          andThen (liftSum (ParseEmail env p rawEmail)) (\<lambda>email.
          andThen (Auth_newInvitation env a uid tid email rid (userLocale (sessionUser s))) (\<lambda>(i, rawToken).
          andThen (CreateInvitation env (i\<lparr>invitationRole := role\<rparr>)) (\<lambda>i'.
          ret (i'\<lparr>acceptanceURL := invitationURL (authLinks a) rawToken\<rparr>)))))))"

definition newInvitedUser :: "string \<Rightarrow> string \<Rightarrow> user" where
  "newInvitedUser email loc =
     \<lparr>userID = [], userEmail = email, globalRole = GlobalRoleUser, userLocale = loc, sessionVersion = 1\<rparr>"

definition acceptedSession :: "user \<Rightarrow> membership \<Rightarrow> session" where
  "acceptedSession usr membership =
     \<lparr>sessionToken = [], sessionUser = usr, activeTenant = Some (membershipTenant membership),
      sessionMemberships = [membership]\<rparr>"

definition Auth_AcceptInvitation ::
  "env \<Rightarrow> ports \<Rightarrow> auth \<Rightarrow> string \<Rightarrow> string \<Rightarrow> string \<Rightarrow> string \<Rightarrow> (world, go_error, session) eff" where
  "Auth_AcceptInvitation env p a token rawEmail password locale0 =
     (case ParseEmail env p rawEmail of
        Inl _ \<Rightarrow> fail (newError ErrorValidation)
      | Inr email \<Rightarrow>
          if \<not> validPassword password then fail (newError ErrorValidation)
          else
            let loc = newLocale (unicode env) locale0 in
            if \<not> locale_isValid loc then fail (newError ErrorValidation)
            else
              andThen (Auth_findInvitation env token) (\<lambda>i.
              if invitationEmail i \<noteq> email then fail (newError ErrorInviteEmailMismatch)
              else
                andThen (attempt (FindByEmail env email)) (\<lambda>found.
                andThen
                  (case found of
                     Inr (usr, currentHash) \<Rightarrow>
                       if isSuperAdministrator (globalRole usr) then fail (newError ErrorUnauthorized)
                       else if \<not> verifyPassword p (authPasswords a) password currentHash
                       then fail (newError ErrorInvalidCredentials)
                       else ret (usr, [], True)
                   | Inl findErr \<Rightarrow>
                       if isInvalidCredentials findErr then
                         andThen (mapError (\<lambda>_. newError ErrorInternal)
                                    (hashPassword p (authPasswords a) password)) (\<lambda>h.
                         ret (newInvitedUser email loc, h, False))
                       else fail findErr) (\<lambda>(usr, h, existingUser).
                andThen (AcceptPasswordInvitation env i usr h existingUser) (\<lambda>(accepted, membership).
                Auth_issue env p a (acceptedSession accepted membership))))))"

definition Auth_AcceptExternalInvitation ::
  "env \<Rightarrow> ports \<Rightarrow> auth \<Rightarrow> string \<Rightarrow> external_identity \<Rightarrow> string \<Rightarrow> (world, go_error, session) eff" where
  "Auth_AcceptExternalInvitation env p a token identity locale0 =
     andThen (liftSum (externalIdentity_validate env p identity)) (\<lambda>_.
     let loc = newLocale (unicode env) locale0 in
     if \<not> locale_isValid loc then fail (newError ErrorValidation)
     else
       andThen (Auth_findInvitation env token) (\<lambda>i.
       if invitationEmail i \<noteq> identityEmail identity then fail (newError ErrorInviteEmailMismatch)
       else
         andThen (attempt (FindByEmail env (identityEmail identity))) (\<lambda>found.
         andThen
           (case found of
              Inr (usr, _) \<Rightarrow>
                if isSuperAdministrator (globalRole usr) then fail (newError ErrorUnauthorized)
                else ret (usr, True)
            | Inl findErr \<Rightarrow>
                if \<not> isInvalidCredentials findErr then fail findErr
                else ret (newInvitedUser (identityEmail identity) loc, False)) (\<lambda>(usr, existingUser).
         andThen (AcceptExternalInvitation env i usr identity existingUser) (\<lambda>(accepted, membership).
         Auth_issue env p a (acceptedSession accepted membership))))))"

end
