(* ===== verification/AdminServices.thy ===== *)
theory AdminServices imports AdminListings AuthService begin

text \<open>
  The administration services on the PostgreSQL store: \<^verbatim>\<open>server/tenant_admin.go\<close>, \<^verbatim>\<open>server/users.go\<close>,
  \<^verbatim>\<open>server/invitation_admin.go\<close>, \<^verbatim>\<open>server/audit_log.go\<close> and \<^verbatim>\<open>server/localization_admin.go\<close>. Each validates and
  normalises its input and calls the store.
\<close>

definition Admin_CreateTenant :: "env \<Rightarrow> string \<Rightarrow> string \<Rightarrow> (world, go_error, tenant) eff" where
  "Admin_CreateTenant env name0 actor =
     (case normalizeTenantName name0 of
        Inl _ \<Rightarrow> fail (newError ErrorValidation)
      | Inr name \<Rightarrow>
          if \<not> validUUID actor then fail (newError ErrorValidation) else Create env name actor)"

definition Admin_Tenants :: "env \<Rightarrow> ports \<Rightarrow> tenant_filter \<Rightarrow> (world, go_error, tenant page) eff" where
  "Admin_Tenants env p f0 = andThen (liftSum (tenantFilter_normalized f0)) (\<lambda>f. ListTenants env p f)"

definition Admin_UpdateTenant :: "env \<Rightarrow> tenant \<Rightarrow> string \<Rightarrow> (world, go_error, tenant) eff" where
  "Admin_UpdateTenant env t actor =
     (case normalizeTenantName (tenantName t) of
        Inl _ \<Rightarrow> fail (newError ErrorValidation)
      | Inr name \<Rightarrow>
          if \<not> validUUID (tenantID t) \<or> tenantRevision t = 0 \<or> \<not> validUUID actor
          then fail (newError ErrorValidation)
          else UpdateSystem env (t\<lparr>tenantName := name\<rparr>) actor)"

definition Users_ListUsers :: "env \<Rightarrow> ports \<Rightarrow> user_filter \<Rightarrow> (world, go_error, user_summary page) eff" where
  "Users_ListUsers env p f0 = andThen (liftSum (userFilter_normalized f0)) (\<lambda>f. ListUsers env p f)"

definition Users_GetUser :: "env \<Rightarrow> string \<Rightarrow> (world, go_error, user \<times> membership list) eff" where
  "Users_GetUser env uid = (if \<not> validUUID uid then fail (newError ErrorValidation) else GetUser env uid)"

definition Admin_ListInvitations ::
  "env \<Rightarrow> ports \<Rightarrow> invitation_filter \<Rightarrow> (world, go_error, invitation page) eff" where
  "Admin_ListInvitations env p f0 =
     andThen (liftSum (invitationFilter_normalized f0)) (\<lambda>f. ListInvitations env p f)"

definition Admin_RevokeInvitation :: "env \<Rightarrow> string \<Rightarrow> string \<Rightarrow> (world, go_error, unit) eff" where
  "Admin_RevokeInvitation env i actor =
     (if \<not> validUUID i \<or> \<not> validUUID actor then fail (newError ErrorValidation)
      else RevokeInvitation env i actor)"

definition defaultAuditFilter :: audit_filter where
  "defaultAuditFilter =
     \<lparr>afFrom = zeroTime, afTo = zeroTime, afActorID = None, afTenantID = None, afAction = [], afSearch = [],
      afDirection = SortDescending, afCursor = [], afPageSize = DefaultPageSize\<rparr>"

definition Admin_AuditEvents ::
  "env \<Rightarrow> ports \<Rightarrow> audit_filter option \<Rightarrow> (world, go_error, audit_event page) eff" where
  "Admin_AuditEvents env p f0 =
     andThen (liftSum (auditFilter_normalized (case f0 of None \<Rightarrow> defaultAuditFilter | Some f \<Rightarrow> f))) (\<lambda>f.
     ListAuditEvents env p f)"

definition Admin_Languages :: "env \<Rightarrow> language_filter \<Rightarrow> (world, go_error, language page) eff" where
  "Admin_Languages env f0 = andThen (liftSum (languageFilter_normalized f0)) (\<lambda>f. ListLanguages env f)"

text \<open>The catalog's default locale is the constant of the product catalog.\<close>

definition productDefaultLocale :: string where "productDefaultLocale = ''de-CH''"

definition Admin_SaveLanguage :: "env \<Rightarrow> language \<Rightarrow> string \<Rightarrow> (world, go_error, language) eff" where
  "Admin_SaveLanguage env l0 actor =
     (let l = l0\<lparr>languageCode := newLocale (unicode env) (languageCode l0), languageName := trimSpace (languageName l0)\<rparr> in
      if \<not> locale_isValid (languageCode l) \<or> languageName l = [] \<or> \<not> validUUID actor
      then fail (newError ErrorValidation)
      else if languageCode l = productDefaultLocale then
        (if \<not> isActiveLanguage l then fail (newError ErrorValidation)
         else UpsertLanguage env (l\<lparr>isDefaultLanguage := True\<rparr>) actor)
      else UpsertLanguage env (l\<lparr>isDefaultLanguage := False\<rparr>) actor)"

definition normalizedOverride :: "env \<Rightarrow> translation \<Rightarrow> translation result" where
  "normalizedOverride env t =
     (case parseApplicationScope (unicode env) (scopeKey (translationScope t)) of
        Inl err \<Rightarrow> Inl err
      | Inr scope \<Rightarrow>
          Inr (t\<lparr>translationLocale := newLocale (unicode env) (translationLocale t), translationScope := scope,
                 translationKey := trimSpace (translationKey t)\<rparr>))"

definition Admin_SaveTranslationOverride ::
  "env \<Rightarrow> translation \<Rightarrow> string \<Rightarrow> (world, go_error, translation) eff" where
  "Admin_SaveTranslationOverride env t0 actor =
     andThen (liftSum (normalizedOverride env t0)) (\<lambda>t.
     if \<not> locale_isValid (translationLocale t)
        \<or> (case validateTranslation (translationKey t) (translationValue t) of Inl _ \<Rightarrow> True | Inr _ \<Rightarrow> False)
        \<or> \<not> validUUID actor
     then fail (newError ErrorValidation)
     else UpsertTranslationOverride env t actor)"

definition Admin_TranslationOverrides ::
  "env \<Rightarrow> ports \<Rightarrow> translation_filter \<Rightarrow> (world, go_error, translation page) eff" where
  "Admin_TranslationOverrides env p f0 =
     andThen (liftSum (translationFilter_normalized f0)) (\<lambda>f. ListTranslationOverrides env p f)"

definition Admin_DeleteTranslationOverride :: "env \<Rightarrow> translation \<Rightarrow> string \<Rightarrow> (world, go_error, unit) eff" where
  "Admin_DeleteTranslationOverride env t0 actor =
     andThen (liftSum (normalizedOverride env t0)) (\<lambda>t.
     if \<not> locale_isValid (translationLocale t) \<or> translationKey t = [] \<or> translationRevision t = 0
        \<or> \<not> validUUID actor
     then fail (newError ErrorValidation)
     else DeleteTranslationOverride env t actor)"

end
