(* ===== verification/TenantAccess.thy ===== *)
theory TenantAccess imports AdminListings AuthService begin

text \<open>
  The tenant control plane: \<^verbatim>\<open>server/tenant_access.go\<close> on the PostgreSQL store. Every method takes the
  tenant from the caller's session, checks the caller's permission in that tenant afresh and then calls the
  store. The methods carry the prefix \<open>Access_\<close> of their receiver.
\<close>

definition sessionTenant :: "session \<Rightarrow> tenant result" where
  "sessionTenant s =
     (case activeTenant s of
        None \<Rightarrow> Inl (newError ErrorUnauthorized)
      | Some t \<Rightarrow>
          if \<not> validUUID (tenantID t) \<or> \<not> validUUID (userID (sessionUser s))
          then Inl (newError ErrorUnauthorized) else Inr t)"

definition Access_require :: "env \<Rightarrow> string \<Rightarrow> string \<Rightarrow> permission \<Rightarrow> (world, go_error, unit) eff" where
  "Access_require env uid tid permission =
     andThen (FindActiveMembership env uid tid) (\<lambda>membership.
     andThen (PermissionsForRole env tid (membershipRoleID membership)) (\<lambda>permissions.
     if permission \<notin> set permissions then fail (newError ErrorUnauthorized) else ret ()))"

text \<open>The common beginning of every method.\<close>

definition guarded ::
  "env \<Rightarrow> session \<Rightarrow> permission \<Rightarrow> (tenant \<Rightarrow> (world, go_error, 'a) eff) \<Rightarrow> (world, go_error, 'a) eff" where
  "guarded env s permission operation =
     andThen (liftSum (sessionTenant s)) (\<lambda>t.
     andThen (Access_require env (userID (sessionUser s)) (tenantID t) permission) (\<lambda>_.
     operation t))"

definition Access_UpdateCurrentTenant ::
  "env \<Rightarrow> session \<Rightarrow> string \<Rightarrow> nat \<Rightarrow> (world, go_error, tenant) eff" where
  "Access_UpdateCurrentTenant env s name0 revision =
     guarded env s PermissionTenantManage (\<lambda>t.
     case normalizeTenantName name0 of
       Inl _ \<Rightarrow> fail (newError ErrorValidation)
     | Inr name \<Rightarrow>
         if revision = 0 then fail (newError ErrorValidation)
         else UpdateTenant env (t\<lparr>tenantName := name, tenantRevision := revision\<rparr>) (userID (sessionUser s)))"

definition Access_ListMemberships ::
  "env \<Rightarrow> ports \<Rightarrow> session \<Rightarrow> membership_filter \<Rightarrow> (world, go_error, membership page) eff" where
  "Access_ListMemberships env p s f0 =
     guarded env s PermissionUserRead (\<lambda>t.
     andThen (liftSum (membershipFilter_normalized f0)) (\<lambda>f. ListMemberships env p (tenantID t) f))"

definition Access_UpdateMembership :: "env \<Rightarrow> session \<Rightarrow> membership \<Rightarrow> (world, go_error, membership) eff" where
  "Access_UpdateMembership env s m =
     guarded env s PermissionUserManage (\<lambda>t.
     if \<not> validUUID (membershipID m) \<or> \<not> validUUID (membershipRoleID m)
        \<or> \<not> membershipStatus_isValid (membershipStatus m) \<or> membershipRevision m = 0
     then fail (newError ErrorValidation)
     else UpdateMembership env (m\<lparr>membershipTenant := t\<rparr>) (userID (sessionUser s)))"

definition Access_ListRoles ::
  "env \<Rightarrow> ports \<Rightarrow> session \<Rightarrow> role_filter \<Rightarrow> (world, go_error, role page) eff" where
  "Access_ListRoles env p s f0 =
     guarded env s PermissionRoleRead (\<lambda>t.
     andThen (liftSum (roleFilter_normalized f0)) (\<lambda>f. ListRoles env p (tenantID t) f))"

definition Access_CreateRole ::
  "env \<Rightarrow> session \<Rightarrow> string \<Rightarrow> permission list \<Rightarrow> (world, go_error, role) eff" where
  "Access_CreateRole env s name0 permissions =
     guarded env s PermissionRoleManage (\<lambda>t.
     case normalizeRoleName name0 of
       Inl _ \<Rightarrow> fail (newError ErrorValidation)
     | Inr name \<Rightarrow>
         if \<not> validPermissions permissions then fail (newError ErrorValidation)
         else CreateRole env
           (zeroRole\<lparr>roleTenantID := tenantID t, roleName := name, roleKind := RoleKindCustom,
                     rolePermissions := permissions\<rparr>) (userID (sessionUser s)))"

definition Access_UpdateRole :: "env \<Rightarrow> session \<Rightarrow> role \<Rightarrow> (world, go_error, role) eff" where
  "Access_UpdateRole env s role0 =
     guarded env s PermissionRoleManage (\<lambda>t.
     case normalizeRoleName (roleName role0) of
       Inl _ \<Rightarrow> fail (newError ErrorValidation)
     | Inr name \<Rightarrow>
         if \<not> validUUID (roleID role0) \<or> roleRevision role0 = 0 \<or> \<not> validPermissions (rolePermissions role0)
         then fail (newError ErrorValidation)
         else
           andThen (FindRole env (tenantID t) (roleID role0)) (\<lambda>current.
           if role_isProtected current then fail (newError ErrorConflict)
           else UpdateRole env (role0\<lparr>roleName := name, roleTenantID := tenantID t\<rparr>) (userID (sessionUser s))))"

definition Access_DeleteRole :: "env \<Rightarrow> session \<Rightarrow> string \<Rightarrow> nat \<Rightarrow> (world, go_error, unit) eff" where
  "Access_DeleteRole env s rid revision =
     guarded env s PermissionRoleManage (\<lambda>t.
     if \<not> validUUID rid \<or> revision = 0 then fail (newError ErrorValidation)
     else
       andThen (FindRole env (tenantID t) rid) (\<lambda>role.
       if role_isProtected role then fail (newError ErrorConflict)
       else DeleteRole env (tenantID t) rid revision (userID (sessionUser s))))"

definition Access_ListInvitations ::
  "env \<Rightarrow> ports \<Rightarrow> session \<Rightarrow> invitation_filter \<Rightarrow> (world, go_error, invitation page) eff" where
  "Access_ListInvitations env p s f0 =
     guarded env s PermissionUserRead (\<lambda>t.
     andThen (liftSum (invitationFilter_normalized f0)) (\<lambda>f. ListTenantInvitations env p (tenantID t) f))"

definition Access_RevokeInvitation :: "env \<Rightarrow> session \<Rightarrow> string \<Rightarrow> (world, go_error, unit) eff" where
  "Access_RevokeInvitation env s i =
     guarded env s PermissionUserManage (\<lambda>t.
     if \<not> validUUID i then fail (newError ErrorValidation)
     else RevokeTenantInvitation env (tenantID t) i (userID (sessionUser s)))"

end
