(* ===== verification/ProductMessages.thy ===== *)
theory ProductMessages imports AdminServices begin

text \<open>
  The texts of the product: the entries of \<^verbatim>\<open>server/localization/product_catalog.generated.go\<close>, in the order of the
  file. Every key has a German and an English text, which are UTF-8 byte strings here.
\<close>

definition catalogEntry :: "string \<Rightarrow> string \<Rightarrow> string \<Rightarrow> translation" where
  "catalogEntry loc key message =
     \<lparr>translationLocale = loc, translationScope = ScopeShared, translationKey = key, translationValue = message,
      translationRevision = 0, translationCreatedAt = zeroTime, translationUpdatedAt = zeroTime\<rparr>"

definition catalogAudit :: "(string \<times> string \<times> string) list" where
  "catalogAudit =
     [(''audit.invitation.accepted'', ''Einladung angenommen: {target}'',
         ''Invitation accepted: {target}''),
      (''audit.invitation.created'', ''Einladung erstellt: {target}'',
         ''Invitation created: {target}''),
      (''audit.localization.language_saved'', ''Sprache ge'' @ [CHR 0xC3, CHR 0xA4] @ ''ndert: {target}'',
         ''Language changed: {target}''),
      (''audit.localization.translation_override_saved'', [CHR 0xC3, CHR 0x9C] @ ''bersetzungs-Override ge'' @ [CHR 0xC3, CHR 0xA4] @ ''ndert: {target}'',
         ''Translation override changed: {target}''),
      (''audit.localization.translation_saved'', [CHR 0xC3, CHR 0x9C] @ ''bersetzung ge'' @ [CHR 0xC3, CHR 0xA4] @ ''ndert: {target}'',
         ''Translation changed: {target}''),
      (''audit.session.login'', ''Anmeldung erfolgreich: {target}'',
         ''Successful sign-in: {target}''),
      (''audit.session.logout'', ''Abmeldung: {target}'',
         ''Sign-out: {target}''),
      (''audit.tenant.created'', ''Mandant erstellt: {target}'',
         ''Tenant created: {target}''),
      (''audit.tenant.registered'', ''Mandant registriert: {target}'',
         ''Tenant registered: {target}''),
      (''audit.tenant.switch'', ''Mandant gewechselt: {target}'',
         ''Tenant switched: {target}'')]"

definition catalogErrors :: "(string \<times> string \<times> string) list" where
  "catalogErrors =
     [(''error.conflict'', ''Die Daten wurden zwischenzeitlich ge'' @ [CHR 0xC3, CHR 0xA4] @ ''ndert. Bitte lade sie neu und versuche es erneut.'',
         ''The data changed in the meantime. Reload it and try again.''),
      (''error.email_taken'', ''Diese E-Mail-Adresse wird bereits verwendet.'',
         ''This email address is already in use.''),
      (''error.internal'', ''Ein interner Fehler ist aufgetreten. Bitte versuche es erneut.'',
         ''An internal error occurred. Please try again.''),
      (''error.invalid_credentials'', ''E-Mail oder Passwort ist ung'' @ [CHR 0xC3, CHR 0xBC] @ ''ltig.'',
         ''Email or password is invalid.''),
      (''error.invitation_expired'', ''Die Einladung ist abgelaufen.'',
         ''The invitation has expired.''),
      (''error.invitation_invalid'', ''Die Einladung ist ung'' @ [CHR 0xC3, CHR 0xBC] @ ''ltig.'',
         ''The invitation is invalid.''),
      (''error.invitation_used'', ''Die Einladung wurde bereits verwendet.'',
         ''The invitation has already been used.''),
      (''error.invite_email_mismatch'', ''Diese Einladung geh'' @ [CHR 0xC3, CHR 0xB6] @ ''rt zu einer anderen E-Mail-Adresse.'',
         ''This invitation belongs to a different email address.''),
      (''error.membership_not_found'', ''Die Mitgliedschaft wurde nicht gefunden.'',
         ''The membership was not found.''),
      (''error.rate_limited'', ''Zu viele Anmeldeversuche. Bitte versuche es sp'' @ [CHR 0xC3, CHR 0xA4] @ ''ter erneut.'',
         ''Too many authentication attempts. Please try again later.''),
      (''error.role_not_found'', ''Die Rolle wurde nicht gefunden.'',
         ''The role was not found.''),
      (''error.tenant_not_found'', ''Der Mandant wurde nicht gefunden.'',
         ''The tenant was not found.''),
      (''error.unauthorized'', ''F'' @ [CHR 0xC3, CHR 0xBC] @ ''r diese Aktion fehlen die erforderlichen Rechte.'',
         ''You do not have permission to perform this action.''),
      (''error.user_not_found'', ''Der Benutzer wurde nicht gefunden.'',
         ''The user was not found.''),
      (''error.validation'', ''Bitte '' @ [CHR 0xC3, CHR 0xBC] @ ''berpr'' @ [CHR 0xC3, CHR 0xBC] @ ''fe die eingegebenen Daten.'',
         ''Please check the submitted values.'')]"

definition catalogMail :: "(string \<times> string \<times> string) list" where
  "catalogMail =
     [(''mail.invitation.body'', ''Du wurdest zu einem Clinks-Mandanten eingeladen.'' @ [CHR 0x0A, CHR 0x0A] @ ''Einladung annehmen: {url}'',
         ''You have been invited to a Clinks tenant.'' @ [CHR 0x0A, CHR 0x0A] @ ''Accept the invitation: {url}''),
      (''mail.invitation.subject'', ''Clinks-Einladung'',
         ''Clinks invitation'')]"

definition catalogUI1 :: "(string \<times> string \<times> string) list" where
  "catalogUI1 =
     [(''ui.action'', ''Aktion'',
         ''Action''),
      (''ui.active_tenant'', ''Aktiver Mandant'',
         ''Active tenant''),
      (''ui.actor_id'', ''Benutzer-ID'',
         ''User ID''),
      (''ui.add_translation'', ''Override speichern'',
         ''Save override''),
      (''ui.admin_login'', ''Admin-Anmeldung'',
         ''Administrator sign in''),
      (''ui.application_infra_link'', ''Infrastruktur'',
         ''Infrastructure''),
      (''ui.application_planer_link'', ''Planung'',
         ''Planning''),
      (''ui.audit_default_range'', ''Standard: letzte 30 Tage.'',
         ''Default: last 30 days.''),
      (''ui.audit_description'', ''Beschreibung'',
         ''Description''),
      (''ui.audit_immutable'', ''Ereignisse sind unver'' @ [CHR 0xC3, CHR 0xA4] @ ''nderbar.'',
         ''Events cannot be changed.''),
      (''ui.audit_log'', ''Audit-Protokoll'',
         ''Audit log''),
      (''ui.back_to_home'', ''Zur'' @ [CHR 0xC3, CHR 0xBC] @ ''ck zur Startseite'',
         ''Back to Home''),
      (''ui.connected_to_tenant'', ''ist mit dem Mandanten verbunden.'',
         ''is connected to the tenant.''),
      (''ui.copy'', ''Kopieren'',
         ''Copy''),
      (''ui.create_tenant'', ''Mandant erstellen'',
         ''Create tenant''),
      (''ui.dashboard'', ''Dashboard'',
         ''Dashboard''),
      (''ui.default'', ''Standard'',
         ''Default''),
      (''ui.email'', ''E-Mail-Adresse'',
         ''Email address''),
      (''ui.error_forbidden_desc'', ''Du verf'' @ [CHR 0xC3, CHR 0xBC] @ ''gst nicht '' @ [CHR 0xC3, CHR 0xBC] @ ''ber die erforderlichen Rechte f'' @ [CHR 0xC3, CHR 0xBC] @ ''r diesen Bereich.'',
         ''You do not have permission to access this area.''),
      (''ui.error_forbidden_title'', ''Zugriff verweigert'',
         ''Access denied''),
      (''ui.error_generic_desc'', ''Ein unerwarteter Fehler ist aufgetreten. Bitte versuche es erneut.'',
         ''An unexpected error occurred. Please try again.''),
      (''ui.error_generic_title'', ''Unerwarteter Fehler'',
         ''Unexpected error'')]"

definition catalogUI2 :: "(string \<times> string \<times> string) list" where
  "catalogUI2 =
     [(''ui.error_not_found_desc'', ''Die angeforderte Seite existiert nicht oder wurde verschoben.'',
         ''The requested page does not exist or has been moved.''),
      (''ui.error_not_found_title'', ''Seite nicht gefunden'',
         ''Page not found''),
      (''ui.error_server_desc'', ''Beim Verarbeiten der Anfrage ist ein interner Serverfehler aufgetreten.'',
         ''An internal server error occurred while processing the request.''),
      (''ui.error_server_title'', ''Serverfehler'',
         ''Server error''),
      (''ui.filter'', ''Filtern'',
         ''Filter''),
      (''ui.from'', ''Von'',
         ''From''),
      (''ui.invitation_link'', ''Einladungslink'',
         ''Invitation link''),
      (''ui.invite_user'', ''Benutzer einladen'',
         ''Invite user''),
      (''ui.languages'', ''Sprachen'',
         ''Languages''),
      (''ui.load_more'', ''Mehr laden'',
         ''Load more''),
      (''ui.loading'', ''Wird geladen '' @ [CHR 0xE2, CHR 0x80, CHR 0xA6],
         ''Loading '' @ [CHR 0xE2, CHR 0x80, CHR 0xA6]),
      (''ui.locale'', ''Gebietsschema'',
         ''Locale''),
      (''ui.no_tenants'', ''Noch keine Mandanten vorhanden.'',
         ''No tenants yet.''),
      (''ui.occurred_at'', ''Zeitpunkt'',
         ''Occurred at''),
      (''ui.password'', ''Passwort'',
         ''Password''),
      (''ui.register'', ''Registrieren'',
         ''Register''),
      (''ui.role'', ''Rolle'',
         ''Role''),
      (''ui.role_tenant_admin'', ''Mandantenadministrator'',
         ''Tenant administrator''),
      (''ui.role_user'', ''Benutzer'',
         ''User''),
      (''ui.save'', ''Speichern'',
         ''Save''),
      (''ui.scope_admin'', ''Administration'',
         ''Administration''),
      (''ui.scope_infra_link'', ''Infrastruktur'',
         ''Infrastructure'')]"

definition catalogUI3 :: "(string \<times> string \<times> string) list" where
  "catalogUI3 =
     [(''ui.scope_planer_link'', ''Planung'',
         ''Planning''),
      (''ui.scope_shared'', [CHR 0xC3, CHR 0x9C] @ ''bergreifend'',
         ''Shared''),
      (''ui.sign_in'', ''Anmelden'',
         ''Sign in''),
      (''ui.sign_out'', ''Abmelden'',
         ''Sign out''),
      (''ui.status_code'', ''Status {code}'',
         ''Status {code}''),
      (''ui.super_administrator'', ''Super-Administrator'',
         ''Super administrator''),
      (''ui.tenant_id'', ''Mandanten-ID'',
         ''Tenant ID''),
      (''ui.tenant_name'', ''Mandantenname'',
         ''Tenant name''),
      (''ui.tenants'', ''Mandanten'',
         ''Tenants''),
      (''ui.theme'', ''Darstellung'',
         ''Theme''),
      (''ui.theme_dark'', ''Dunkel'',
         ''Dark''),
      (''ui.theme_light'', ''Hell'',
         ''Light''),
      (''ui.theme_system'', ''System'',
         ''System''),
      (''ui.to'', ''Bis'',
         ''To''),
      (''ui.translation_key'', [CHR 0xC3, CHR 0x9C] @ ''bersetzungsschl'' @ [CHR 0xC3, CHR 0xBC] @ ''ssel'',
         ''Translation key''),
      (''ui.translation_scope'', ''Bereich'',
         ''Scope''),
      (''ui.translation_value'', ''Override-Text'',
         ''Override text''),
      (''ui.translations'', [CHR 0xC3, CHR 0x9C] @ ''bersetzungs-Overrides'',
         ''Translation overrides''),
      (''ui.try_again'', ''Erneut versuchen'',
         ''Try Again''),
      (''ui.welcome'', ''Willkommen'',
         ''Welcome'')]"

definition productTranslationEntries :: "translation list" where
  "productTranslationEntries =
     concat (map (\<lambda>(key, german, english). [catalogEntry ''de-CH'' key german, catalogEntry ''en-US'' key english])
       (catalogAudit @ catalogErrors @ catalogMail @ catalogUI1 @ catalogUI2 @ catalogUI3))"

end
