(* ===== verification/ProductCatalog.thy ===== *)
theory ProductCatalog imports ProductMessages begin

text \<open>
  Localization: the product catalog combined with the stored overrides (\<^verbatim>\<open>server/localization/product_catalog.go\<close>), the
  translator of errors and audit events (\<^verbatim>\<open>server/localization/translator.go\<close>) and the service \<^verbatim>\<open>Translations\<close>
  (\<^verbatim>\<open>server/translations.go\<close>). The overrides come from the PostgreSQL store. A Go map from keys to translations is
  the list of its values, one per key, as in \<open>mergeByKey\<close>.
\<close>

subsection \<open>The product catalog\<close>

definition internalErrorMessageKey :: string where "internalErrorMessageKey = ''error.internal''"

definition translationNotFound :: go_error where
  "translationNotFound = Wrapped ''message'' (OpaqueError ''translation not found'')"

definition sortedTranslations :: "translation list \<Rightarrow> translation list" where
  "sortedTranslations byKey = orderBy (\<lambda>l r. bytesLess (translationKey l) (translationKey r)) byKey"

definition productTranslations :: "string \<Rightarrow> application_scope \<Rightarrow> translation list" where
  "productTranslations loc scope =
     (let shared = filter (\<lambda>t. translationLocale t = loc \<and> translationScope t = ScopeShared) productTranslationEntries;
          scoped = (if scope \<noteq> ScopeShared
            then filter (\<lambda>t. translationLocale t = loc \<and> translationScope t = scope) productTranslationEntries else [])
      in sortedTranslations (mergeByKey (shared @ scoped)))"

fun productMessageLoop ::
  "translation list \<Rightarrow> string \<Rightarrow> application_scope \<Rightarrow> string \<Rightarrow> string \<Rightarrow> string option" where
  "productMessageLoop [] loc scope key shared = (if shared \<noteq> [] then Some shared else None)"
| "productMessageLoop (t # ts) loc scope key shared =
     (if translationLocale t \<noteq> loc \<or> translationKey t \<noteq> key then productMessageLoop ts loc scope key shared
      else if translationScope t = scope then Some (translationValue t)
      else if translationScope t = ScopeShared then productMessageLoop ts loc scope key (translationValue t)
      else productMessageLoop ts loc scope key shared)"

definition productMessage :: "string \<Rightarrow> application_scope \<Rightarrow> string \<Rightarrow> string option" where
  "productMessage loc scope key = productMessageLoop productTranslationEntries loc scope key []"

definition NewProductCatalog :: "unit result" where
  "NewProductCatalog =
     (if \<not> locale_isValid productDefaultLocale then Inl (OpaqueError ''invalid product default locale'')
      else case productMessage productDefaultLocale ScopeShared internalErrorMessageKey of
        None \<Rightarrow> Inl translationNotFound
      | Some _ \<Rightarrow> Inr ())"

definition Catalog_DefaultLocale :: string where
  "Catalog_DefaultLocale = productDefaultLocale"

definition Catalog_FallbackMessage :: string where
  "Catalog_FallbackMessage =
     (case productMessage productDefaultLocale ScopeShared internalErrorMessageKey of
        None \<Rightarrow> internalErrorMessageKey
      | Some message \<Rightarrow> message)"

definition mergeOverrides :: "translation list \<Rightarrow> translation list \<Rightarrow> translation list" where
  "mergeOverrides baseline stored = sortedTranslations (mergeByKey (baseline @ stored))"

definition Catalog_Translations ::
  "env \<Rightarrow> string \<Rightarrow> application_scope \<Rightarrow> (world, go_error, translation list) eff" where
  "Catalog_Translations env loc scope =
     andThen (mapError (Wrapped ''load translation overrides'') (StoredTranslations env loc scope)) (\<lambda>stored.
     ret (mergeOverrides (productTranslations loc scope) stored))"

definition translationMessage :: "translation list \<Rightarrow> string \<Rightarrow> string option" where
  "translationMessage ts key = map_option translationValue (List.find (\<lambda>t. translationKey t = key) ts)"

definition Catalog_Message :: "env \<Rightarrow> string \<Rightarrow> string \<Rightarrow> (world, go_error, string) eff" where
  "Catalog_Message env loc key =
     andThen (mapError (Wrapped ''load translation overrides'') (StoredTranslations env loc ScopeShared)) (\<lambda>stored.
     case translationMessage stored key of
       Some message \<Rightarrow> ret message
     | None \<Rightarrow>
         (case productMessage loc ScopeShared key of
            Some message \<Rightarrow> ret message
          | None \<Rightarrow> fail translationNotFound))"

subsection \<open>The translator\<close>

definition resolveMessage :: "env \<Rightarrow> string \<Rightarrow> string \<Rightarrow> (world, go_error, string) eff" where
  "resolveMessage env loc key =
     andThen (attempt (Catalog_Message env loc key)) (\<lambda>found.
     case found of
       Inr message \<Rightarrow> ret message
     | Inl err \<Rightarrow>
         if Catalog_DefaultLocale = loc then fail err
         else mapError (\<lambda>fallbackErr. Joined [err, Wrapped ''resolve fallback message'' fallbackErr])
                (Catalog_Message env Catalog_DefaultLocale key))"

definition errorKey :: "go_error \<Rightarrow> string" where
  "errorKey err =
     (case asDomain err of
        None \<Rightarrow> internalErrorMessageKey
      | Some kind \<Rightarrow>
          if \<not> error_kind_valid kind then internalErrorMessageKey else ''error.'' @ error_kind_string kind)"

definition Translator_ErrorMessage :: "env \<Rightarrow> string \<Rightarrow> go_error option \<Rightarrow> (world, go_error, string) eff" where
  "Translator_ErrorMessage env loc err0 =
     (case err0 of
        None \<Rightarrow> ret []
      | Some err \<Rightarrow>
          andThen (attempt (resolveMessage env loc (errorKey err))) (\<lambda>found.
          case found of
            Inr message \<Rightarrow> ret message
          | Inl _ \<Rightarrow>
              let fallback = trimSpace Catalog_FallbackMessage in
              ret (if fallback \<noteq> [] then fallback else internalErrorMessageKey)))"

definition auditFallback :: "audit_event \<Rightarrow> string" where
  "auditFallback event =
     (if eventTarget event = [] then eventAction event else eventAction event @ '': '' @ eventTarget event)"

definition Translator_AuditDescription :: "env \<Rightarrow> string \<Rightarrow> audit_event \<Rightarrow> (world, go_error, string) eff" where
  "Translator_AuditDescription env loc event =
     andThen (attempt (resolveMessage env loc (''audit.'' @ eventAction event))) (\<lambda>found.
     case found of
       Inl _ \<Rightarrow> ret (auditFallback event)
     | Inr message \<Rightarrow> ret (replaceAll ''{target}'' (eventTarget event) message))"

subsection \<open>Translation bundles\<close>

record translation_bundle =
  bundleLocale :: string
  bundleTranslations :: "translation list"

text \<open>\<^verbatim>\<open>mergeTranslations\<close> of package \<^verbatim>\<open>clinks\<close>: \<open>index\<close> is the Go map \<^verbatim>\<open>indexByKey\<close>.\<close>

fun mergeLoop :: "translation list \<Rightarrow> (string \<Rightarrow> nat option) \<Rightarrow> translation list \<Rightarrow> translation list" where
  "mergeLoop [] index result0 = result0"
| "mergeLoop (t # ts) index result0 =
     (case index (translationKey t) of
        Some i \<Rightarrow> mergeLoop ts index (result0[i := t])
      | None \<Rightarrow> mergeLoop ts (index(translationKey t \<mapsto> length result0)) (result0 @ [t]))"

definition indexByKey :: "translation list \<Rightarrow> string \<Rightarrow> nat option" where
  "indexByKey ts = map_of (rev (zip (map translationKey ts) [0..<length ts]))"

definition mergeTranslations :: "translation list \<Rightarrow> translation list \<Rightarrow> translation list" where
  "mergeTranslations fallback stored = mergeLoop stored (indexByKey fallback) fallback"

definition Translations_ActiveLanguages :: "env \<Rightarrow> (world, go_error, language list) eff" where
  "Translations_ActiveLanguages env = ActiveLanguages env"

definition Translations_TranslationBundle ::
  "env \<Rightarrow> string \<Rightarrow> application_scope \<Rightarrow> (world, go_error, translation_bundle) eff" where
  "Translations_TranslationBundle env loc0 scope =
     (if \<not> scope_isValid scope then fail (newError ErrorValidation)
      else
        let loc = newLocale (unicode env) loc0 in
        if \<not> locale_isValid loc then fail (newError ErrorValidation)
        else
          andThen (Catalog_Translations env loc scope) (\<lambda>ts.
          if loc = Catalog_DefaultLocale then ret \<lparr>bundleLocale = loc, bundleTranslations = ts\<rparr>
          else
            andThen (Catalog_Translations env Catalog_DefaultLocale scope) (\<lambda>fallback.
            if ts = [] then ret \<lparr>bundleLocale = Catalog_DefaultLocale, bundleTranslations = fallback\<rparr>
            else ret \<lparr>bundleLocale = loc, bundleTranslations = mergeTranslations fallback ts\<rparr>)))"

end
