(* ===== verification/WebMessages.thy ===== *)
theory WebMessages imports AdminServices TenantAccess ProductCatalog begin

text \<open>
  The messages of the RPC interface and how domain values are written into them and read from them:
  \<^verbatim>\<open>server/web/mapping.go\<close> and the mapping functions of \<^verbatim>\<open>server/web/tenant_management_handlers.go\<close>. The records are
  the message types of \<^verbatim>\<open>server/proto/clinks/v1/clinks.pb.go\<close>, a nil message is \<open>None\<close>. An enumeration of the
  protocol is open: a value without a name is kept as its number.
\<close>

subsection \<open>Enumerations\<close>

datatype pb_direction = DirectionUnspecified | DirectionAscending | DirectionDescending | DirectionOther int
datatype pb_sort2 = SortUnspecified | SortFirst | SortSecond | SortOther int
datatype pb_invitation_sort =
  InvSortUnspecified | InvSortCreatedAt | InvSortEmail | InvSortExpiresAt | InvSortOther int
datatype pb_audit_sort = AuditSortUnspecified | AuditSortOccurredAt | AuditSortOther int
datatype pb_global_role = PbRoleUnspecified | PbRoleUser | PbRoleSuperAdministrator | PbRoleOther int
datatype pb_role_kind = PbKindUnspecified | PbKindAdministrator | PbKindUser | PbKindCustom | PbKindOther int
datatype pb_membership_status = PbStatusUnspecified | PbStatusActive | PbStatusInactive | PbStatusOther int
datatype pb_invitation_status =
  PbInvUnspecified | PbInvPending | PbInvUsed | PbInvExpired | PbInvRevoked | PbInvOther int

fun sortDirection :: "pb_direction \<Rightarrow> sort_direction \<Rightarrow> sort_direction option" where
  "sortDirection DirectionUnspecified dflt = Some dflt"
| "sortDirection DirectionAscending dflt = Some SortAscending"
| "sortDirection DirectionDescending dflt = Some SortDescending"
| "sortDirection (DirectionOther n) dflt = None"

text \<open>
  Five enumerations have the same shape: an unspecified value, which means the first sort key, and two sort keys,
  \<^verbatim>\<open>NAME\<close> and \<^verbatim>\<open>CREATED_AT\<close> of tenants and roles, \<^verbatim>\<open>EMAIL\<close> and \<^verbatim>\<open>CREATED_AT\<close> of users and memberships, \<^verbatim>\<open>NAME\<close> and
  \<^verbatim>\<open>CODE\<close> of languages, \<^verbatim>\<open>KEY\<close> and \<^verbatim>\<open>UPDATED_AT\<close> of translations.
\<close>

fun pbSort :: "'s \<Rightarrow> 's \<Rightarrow> pb_sort2 \<Rightarrow> 's option" where
  "pbSort first second SortUnspecified = Some first"
| "pbSort first second SortFirst = Some first"
| "pbSort first second SortSecond = Some second"
| "pbSort first second (SortOther n) = None"

definition tenantSort :: "pb_sort2 \<Rightarrow> tenant_sort option" where
  "tenantSort = pbSort TenantSortName TenantSortCreatedAt"

definition userSort :: "pb_sort2 \<Rightarrow> user_sort option" where
  "userSort = pbSort UserSortEmail UserSortCreatedAt"

definition membershipSort :: "pb_sort2 \<Rightarrow> membership_sort option" where
  "membershipSort = pbSort MembershipSortEmail MembershipSortCreatedAt"

definition roleSort :: "pb_sort2 \<Rightarrow> role_sort option" where
  "roleSort = pbSort RoleSortName RoleSortCreatedAt"

definition languageSort :: "pb_sort2 \<Rightarrow> language_sort option" where
  "languageSort = pbSort LanguageSortName LanguageSortCode"

definition translationSort :: "pb_sort2 \<Rightarrow> translation_sort option" where
  "translationSort = pbSort TranslationSortKey TranslationSortUpdatedAt"

fun invitationSort :: "pb_invitation_sort \<Rightarrow> invitation_sort option" where
  "invitationSort InvSortUnspecified = Some InvitationSortCreatedAt"
| "invitationSort InvSortCreatedAt = Some InvitationSortCreatedAt"
| "invitationSort InvSortEmail = Some InvitationSortEmail"
| "invitationSort InvSortExpiresAt = Some InvitationSortExpiresAt"
| "invitationSort (InvSortOther n) = None"

fun domainGlobalRole :: "pb_global_role \<Rightarrow> global_role" where
  "domainGlobalRole PbRoleUser = GlobalRoleUser"
| "domainGlobalRole PbRoleSuperAdministrator = GlobalRoleSuperAdministrator"
| "domainGlobalRole _ = GlobalRoleOther []"

fun domainMembershipStatus :: "pb_membership_status \<Rightarrow> membership_status" where
  "domainMembershipStatus PbStatusActive = MembershipActive"
| "domainMembershipStatus PbStatusInactive = MembershipInactive"
| "domainMembershipStatus _ = MembershipStatusOther []"

fun domainRoleKind :: "pb_role_kind \<Rightarrow> role_kind" where
  "domainRoleKind PbKindAdministrator = RoleKindAdministrator"
| "domainRoleKind PbKindUser = RoleKindUser"
| "domainRoleKind PbKindCustom = RoleKindCustom"
| "domainRoleKind _ = RoleKindOther []"

fun domainInvitationStatus :: "pb_invitation_status \<Rightarrow> invitation_status_filter" where
  "domainInvitationStatus PbInvPending = InvitationStatusFilterPending"
| "domainInvitationStatus PbInvUsed = InvitationStatusFilterUsed"
| "domainInvitationStatus PbInvExpired = InvitationStatusFilterExpired"
| "domainInvitationStatus PbInvRevoked = InvitationStatusFilterRevoked"
| "domainInvitationStatus PbInvUnspecified = InvitationStatusFilterAll"
| "domainInvitationStatus (PbInvOther n) = InvitationStatusFilterOther []"

definition globalRoleMessage :: "global_role \<Rightarrow> pb_global_role" where
  "globalRoleMessage role = (if isSuperAdministrator role then PbRoleSuperAdministrator else PbRoleUser)"

fun roleKindMessage :: "role_kind \<Rightarrow> pb_role_kind" where
  "roleKindMessage RoleKindAdministrator = PbKindAdministrator"
| "roleKindMessage RoleKindUser = PbKindUser"
| "roleKindMessage RoleKindCustom = PbKindCustom"
| "roleKindMessage _ = PbKindUnspecified"

fun membershipStatusMessage :: "membership_status \<Rightarrow> pb_membership_status" where
  "membershipStatusMessage MembershipActive = PbStatusActive"
| "membershipStatusMessage MembershipInactive = PbStatusInactive"
| "membershipStatusMessage _ = PbStatusUnspecified"

fun invitationStatusCode :: "invitation_status \<Rightarrow> pb_invitation_status" where
  "invitationStatusCode InvitationStatusPending = PbInvPending"
| "invitationStatusCode InvitationStatusUsed = PbInvUsed"
| "invitationStatusCode InvitationStatusExpired = PbInvExpired"
| "invitationStatusCode InvitationStatusRevoked = PbInvRevoked"

subsection \<open>The texts of domain values\<close>

definition permissionOf :: "string \<Rightarrow> permission" where
  "permissionOf s =
     (case List.find (\<lambda>perm. permissionKey perm = s) allPermissions of Some perm \<Rightarrow> perm | None \<Rightarrow> PermissionOther s)"

definition domainPermissions :: "string list \<Rightarrow> permission list" where
  "domainPermissions values = map permissionOf values"

fun deliveryStatusName :: "delivery_status \<Rightarrow> string" where
  "deliveryStatusName DeliveryQueued = ''queued''"
| "deliveryStatusName DeliveryRetrying = ''retrying''"
| "deliveryStatusName DeliverySent = ''sent''"
| "deliveryStatusName DeliveryFailed = ''failed''"

text \<open>\<^verbatim>\<open>t.UTC().Format(time.RFC3339)\<close>: to the second.\<close>

definition formatSecond :: "time \<Rightarrow> string" where
  "formatSecond t = formatTime (t div nanosecondsPerSecond * nanosecondsPerSecond)"

subsection \<open>Messages\<close>

record pb_user =
  pbUserId :: string
  pbUserEmail :: string
  pbUserLocale :: string
  pbUserGlobalRole :: pb_global_role

record pb_user_summary = pb_user + pbMembershipCount :: nat

record pb_tenant =
  pbTenantId :: string
  pbTenantName :: string
  pbTenantRevision :: nat

record pb_role_summary =
  pbRoleId :: string
  pbRoleName :: string
  pbRoleKind :: pb_role_kind
  pbRolePermissions :: "string list"
  pbRoleRevision :: nat

record pb_role = pb_role_summary +
  pbRoleTenantId :: string
  pbRoleCreatedAt :: string
  pbRoleUpdatedAt :: string

record pb_membership =
  pbMembershipId :: string
  pbMembershipUserId :: string
  pbMembershipUserEmail :: string
  pbMembershipTenant :: pb_tenant
  pbMembershipRole :: pb_role_summary
  pbMembershipStatus :: pb_membership_status
  pbMembershipRevision :: nat

record pb_user_detail =
  pbDetailUser :: pb_user_summary
  pbDetailMemberships :: "pb_membership list"

record pb_session =
  pbSessionUser :: pb_user
  pbActiveTenant :: "pb_tenant option"
  pbSessionMemberships :: "pb_membership list"

record pb_invitation =
  pbInvitationId :: string
  pbInvitationTenantId :: string
  pbInvitationEmail :: string
  pbInvitationRole :: pb_role_summary
  pbInvitationStatus :: pb_invitation_status
  pbExpiresAt :: string
  pbAcceptanceUrl :: string
  pbDeliveryStatus :: string
  pbUsedAt :: string
  pbRevokedAt :: string

record pb_language =
  pbLanguageCode :: string
  pbLanguageName :: string
  pbIsDefault :: bool
  pbIsActive :: bool
  pbLanguageRevision :: nat

record pb_translation =
  pbTranslationLocale :: string
  pbTranslationScope :: string
  pbTranslationKey :: string
  pbTranslationValue :: string

record pb_override = pb_translation + pbOverrideRevision :: nat

record pb_audit_event =
  pbEventId :: string
  pbOccurredAt :: string
  pbActorId :: string
  pbActorEmail :: string
  pbEventTenantId :: string
  pbEventTenantName :: string
  pbAction :: string
  pbTarget :: string
  pbDescription :: string

subsection \<open>Writing messages\<close>

text \<open>A Go \<open>int\<close> converted to \<^verbatim>\<open>uint32\<close>.\<close>

definition uint32 :: "nat \<Rightarrow> nat" where "uint32 n = n mod 2 ^ 32"

definition userMessage :: "user \<Rightarrow> pb_user" where
  "userMessage u =
     \<lparr>pbUserId = userID u, pbUserEmail = userEmail u, pbUserLocale = userLocale u,
      pbUserGlobalRole = globalRoleMessage (globalRole u)\<rparr>"

definition userSummaryMessages :: "user_summary list \<Rightarrow> pb_user_summary list" where
  "userSummaryMessages summaries =
     map (\<lambda>s. \<lparr>pbUserId = summaryID s, pbUserEmail = summaryEmail s, pbUserLocale = summaryLocale s,
                pbUserGlobalRole = globalRoleMessage (summaryGlobalRole s),
                pbMembershipCount = uint32 (summaryMembershipCount s)\<rparr>) summaries"

definition tenantMessage :: "tenant \<Rightarrow> pb_tenant" where
  "tenantMessage t = \<lparr>pbTenantId = tenantID t, pbTenantName = tenantName t, pbTenantRevision = tenantRevision t\<rparr>"

definition roleSummaryMessage :: "role \<Rightarrow> pb_role_summary" where
  "roleSummaryMessage r =
     \<lparr>pbRoleId = roleID r, pbRoleName = roleName r, pbRoleKind = roleKindMessage (roleKind r),
      pbRolePermissions = map permissionKey (rolePermissions r), pbRoleRevision = roleRevision r\<rparr>"

definition roleMessage :: "role \<Rightarrow> pb_role" where
  "roleMessage r =
     \<lparr>pbRoleId = roleID r, pbRoleName = roleName r, pbRoleKind = roleKindMessage (roleKind r),
      pbRolePermissions = map permissionKey (rolePermissions r), pbRoleRevision = roleRevision r,
      pbRoleTenantId = roleTenantID r, pbRoleCreatedAt = formatSecond (roleCreatedAt r),
      pbRoleUpdatedAt = formatSecond (roleUpdatedAt r)\<rparr>"

definition membershipMessages :: "membership list \<Rightarrow> pb_membership list" where
  "membershipMessages ms =
     map (\<lambda>m. \<lparr>pbMembershipId = membershipID m, pbMembershipUserId = membershipUserID m,
                pbMembershipUserEmail = membershipUserEmail m, pbMembershipTenant = tenantMessage (membershipTenant m),
                pbMembershipRole = roleSummaryMessage (membershipRole m),
                pbMembershipStatus = membershipStatusMessage (membershipStatus m),
                pbMembershipRevision = membershipRevision m\<rparr>) ms"

definition userDetailMessage :: "user \<times> membership list \<Rightarrow> pb_user_detail" where
  "userDetailMessage d =
     \<lparr>pbDetailUser = \<lparr>pbUserId = userID (fst d), pbUserEmail = userEmail (fst d), pbUserLocale = userLocale (fst d),
        pbUserGlobalRole = globalRoleMessage (globalRole (fst d)), pbMembershipCount = 0\<rparr>,
      pbDetailMemberships = membershipMessages (snd d)\<rparr>"

definition sessionMessage :: "session \<Rightarrow> pb_session" where
  "sessionMessage s =
     \<lparr>pbSessionUser = userMessage (sessionUser s), pbActiveTenant = map_option tenantMessage (activeTenant s),
      pbSessionMemberships = membershipMessages (sessionMemberships s)\<rparr>"

text \<open>The status of an invitation is read off the clock, once for each message.\<close>

definition invitationStatusMessage :: "env \<Rightarrow> invitation \<Rightarrow> (world, go_error, pb_invitation_status) eff" where
  "invitationStatusMessage env i = andThen (goNow env) (\<lambda>now. ret (invitationStatusCode (invitation_status_at i now)))"

definition pbInvitationMessage :: "env \<Rightarrow> invitation \<Rightarrow> (world, go_error, pb_invitation) eff" where
  "pbInvitationMessage env i =
     andThen (invitationStatusMessage env i) (\<lambda>status.
     let summary = roleSummaryMessage (invitationRole i) in
     ret \<lparr>pbInvitationId = invitationID i, pbInvitationTenantId = invitationTenantID i,
          pbInvitationEmail = invitationEmail i,
          pbInvitationRole = (if pbRoleId summary = [] then summary\<lparr>pbRoleId := invitationRoleID i\<rparr> else summary),
          pbInvitationStatus = status, pbExpiresAt = formatSecond (expiresAt i), pbAcceptanceUrl = acceptanceURL i,
          pbDeliveryStatus = deliveryStatusName (deliveryStatus i),
          pbUsedAt = (case usedAt i of None \<Rightarrow> [] | Some t \<Rightarrow> formatSecond t),
          pbRevokedAt = (case revokedAt i of None \<Rightarrow> [] | Some t \<Rightarrow> formatSecond t)\<rparr>)"

fun mapEff :: "('a \<Rightarrow> ('s, 'e, 'b) eff) \<Rightarrow> 'a list \<Rightarrow> ('s, 'e, 'b list) eff" where
  "mapEff f [] = ret []"
| "mapEff f (x # xs) = andThen (f x) (\<lambda>y. andThen (mapEff f xs) (\<lambda>ys. ret (y # ys)))"

definition languageMessages :: "language list \<Rightarrow> pb_language list" where
  "languageMessages ls =
     map (\<lambda>l. \<lparr>pbLanguageCode = languageCode l, pbLanguageName = languageName l, pbIsDefault = isDefaultLanguage l,
                pbIsActive = isActiveLanguage l, pbLanguageRevision = languageRevision l\<rparr>) ls"

definition translationMessages :: "translation list \<Rightarrow> pb_translation list" where
  "translationMessages ts =
     map (\<lambda>t. \<lparr>pbTranslationLocale = translationLocale t, pbTranslationScope = scopeKey (translationScope t),
                pbTranslationKey = translationKey t, pbTranslationValue = translationValue t\<rparr>) ts"

definition translationOverrideMessage :: "translation \<Rightarrow> pb_override" where
  "translationOverrideMessage t =
     \<lparr>pbTranslationLocale = translationLocale t, pbTranslationScope = scopeKey (translationScope t),
      pbTranslationKey = translationKey t, pbTranslationValue = translationValue t,
      pbOverrideRevision = translationRevision t\<rparr>"

definition auditMessage :: "env \<Rightarrow> string \<Rightarrow> audit_event \<Rightarrow> (world, go_error, pb_audit_event) eff" where
  "auditMessage env loc event =
     andThen (Translator_AuditDescription env loc event) (\<lambda>description.
     ret \<lparr>pbEventId = eventID event, pbOccurredAt = formatSecond (occurredAt event),
          pbActorId = (case actorID event of None \<Rightarrow> [] | Some a \<Rightarrow> a), pbActorEmail = actorEmail event,
          pbEventTenantId = (case eventTenantID event of None \<Rightarrow> [] | Some t \<Rightarrow> t),
          pbEventTenantName = eventTenantName event, pbAction = eventAction event, pbTarget = eventTarget event,
          pbDescription = description\<rparr>)"

subsection \<open>Reading the request of the audit log\<close>

record pb_list_audit_events =
  laCursor :: string
  laPageSize :: nat
  laFrom :: string
  laTo :: string
  laActorId :: string
  laTenantId :: string
  laAction :: string
  laSearch :: string
  laSort :: pb_audit_sort
  laDirection :: pb_direction

text \<open>An error of \<^verbatim>\<open>time.Parse\<close> is not an error of the program.\<close>

definition parseOptionalTime :: "ports \<Rightarrow> string \<Rightarrow> time result" where
  "parseOptionalTime p val =
     (if val = [] then Inr zeroTime
      else case parseTime (parseTimeLenient p) val of
        None \<Rightarrow> Inl (OpaqueError ''parsing time'')
      | Some t \<Rightarrow> Inr t)"

definition optionalText :: "string \<Rightarrow> string option" where
  "optionalText s = (if s = [] then None else Some s)"

definition auditFilter :: "ports \<Rightarrow> pb_list_audit_events \<Rightarrow> audit_filter result" where
  "auditFilter p req =
     (case parseOptionalTime p (laFrom req) of
        Inl err \<Rightarrow> Inl err
      | Inr from_time \<Rightarrow>
          (case parseOptionalTime p (laTo req) of
             Inl err \<Rightarrow> Inl err
           | Inr to_time \<Rightarrow>
               Inr \<lparr>afFrom = from_time, afTo = to_time, afActorID = optionalText (laActorId req),
                    afTenantID = optionalText (laTenantId req), afAction = laAction req, afSearch = [],
                    afDirection = SortDirectionOther [], afCursor = laCursor req, afPageSize = int (laPageSize req)\<rparr>))"

end
