(* ===== verification/BrowserPolicy.thy ===== *)
theory BrowserPolicy imports WebMessages begin

text \<open>
  Which browser origins may use the server: \<^verbatim>\<open>server/web/browser_policy.go\<close>, with the two types of
  \<^verbatim>\<open>net/http\<close> it is built on, headers and \<^verbatim>\<open>CrossOriginProtection\<close>.
\<close>

subsection \<open>Requests and answers\<close>

text \<open>The headers of a request by their canonical name, in their order.\<close>

type_synonym header = "(string \<times> string) list"

definition headerGet :: "header \<Rightarrow> string \<Rightarrow> string" where
  "headerGet h name = (case map_of h name of None \<Rightarrow> [] | Some v \<Rightarrow> v)"

definition headerValues :: "header \<Rightarrow> string \<Rightarrow> string list" where
  "headerValues h name = map snd (filter (\<lambda>p. fst p = name) h)"

record http_request =
  requestMethod :: string
  requestHost :: string
  requestPath :: string
  requestQuery :: string
  requestHeader :: header

text \<open>What a handler makes of a request: the headers it adds and whether it answers or the next handler runs. The text of an
  answer and the \<^verbatim>\<open>Content-Type\<close> of \<^verbatim>\<open>http.Error\<close> are left out.\<close>

datatype verdict = Forward header | Answer int header

subsection \<open>Cross-origin protection\<close>

text \<open>\<^verbatim>\<open>http.CrossOriginProtection\<close>: \<^verbatim>\<open>AddTrustedOrigin\<close> and \<^verbatim>\<open>Check\<close>.\<close>

definition addTrustedOrigin :: "ports \<Rightarrow> string \<Rightarrow> unit result" where
  "addTrustedOrigin p origin =
     (case urlParse p origin of
        None \<Rightarrow> Inl (OpaqueError ''invalid origin'')
      | Some u \<Rightarrow>
          if urlScheme u = [] then Inl (OpaqueError ''invalid origin: scheme is required'')
          else if urlHost u = [] then Inl (OpaqueError ''invalid origin: host is required'')
          else if urlPath u \<noteq> [] \<or> urlRawQuery u \<noteq> [] \<or> urlFragment u \<noteq> []
          then Inl (OpaqueError ''invalid origin: path, query, and fragment are not allowed'')
          else Inr ())"

definition csrfAllows :: "ports \<Rightarrow> string list \<Rightarrow> http_request \<Rightarrow> bool" where
  "csrfAllows p trusted r =
     (let fetchSite = headerGet (requestHeader r) ''Sec-Fetch-Site'';
          origin = headerGet (requestHeader r) ''Origin'';
          exempt = (origin \<noteq> [] \<and> origin \<in> set trusted) in
      if requestMethod r \<in> {''GET'', ''HEAD'', ''OPTIONS''} then True
      else if fetchSite = ''same-origin'' \<or> fetchSite = ''none'' then True
      else if fetchSite \<noteq> [] then exempt
      else if origin = [] then True
      else (case urlParse p origin of Some u \<Rightarrow> urlHost u = requestHost r | None \<Rightarrow> False) \<or> exempt)"

subsection \<open>The policy\<close>

definition corsAllowedMethods :: string where "corsAllowedMethods = ''GET, POST''"
definition corsAllowedHeaders :: string where
  "corsAllowedHeaders =
     ''Content-Type, Connect-Protocol-Version, Connect-Timeout-Ms, Grpc-Timeout, X-Grpc-Web, X-User-Agent, Accept-Language''"
definition corsExposedHeaders :: string where
  "corsExposedHeaders =
     ''Grpc-Status, Grpc-Message, Grpc-Status-Details-Bin, Clinks-Locale, Clinks-Error-Kind, Retry-After''"
definition corsMaxAgeSeconds :: string where "corsMaxAgeSeconds = ''7200''"

text \<open>\<^verbatim>\<open>strings.TrimSuffix(s, "/")\<close>: one slash.\<close>

definition trimSuffixSlash :: "string \<Rightarrow> string" where
  "trimSuffixSlash s = (if s \<noteq> [] \<and> last s = CHR ''/'' then butlast s else s)"

definition canonicalOrigin :: "env \<Rightarrow> ports \<Rightarrow> string \<Rightarrow> string result" where
  "canonicalOrigin env p raw0 =
     (let raw = trimSuffixSlash (trimSpace raw0) in
      if raw = [] then Inl (OpaqueError ''origin is empty'')
      else
        case urlParse p raw of
          None \<Rightarrow> Inl (OpaqueError ''url'')
        | Some u \<Rightarrow>
            let scheme = toLower (unicode env) (urlScheme u) in
            if scheme \<noteq> ''http'' \<and> scheme \<noteq> ''https'' then Inl (OpaqueError ''unsupported scheme'')
            else if urlHost u = [] then Inl (OpaqueError ''host is required'')
            else if urlUser u \<noteq> None \<or> urlPath u \<noteq> [] \<or> urlRawQuery u \<noteq> [] \<or> urlFragment u \<noteq> []
            then Inl (OpaqueError ''origin must contain only scheme and host'')
            else Inr (scheme @ ''://'' @ toLower (unicode env) (urlHost u)))"

text \<open>The map \<^verbatim>\<open>origins\<close> is the list of its keys, which are the trusted origins of the protection as well.\<close>

record browser_policy =
  policyOrigins :: "string list"

fun addOrigins :: "env \<Rightarrow> ports \<Rightarrow> string list \<Rightarrow> browser_policy \<Rightarrow> browser_policy result" where
  "addOrigins env p [] bp = Inr bp"
| "addOrigins env p (rawOrigin # rest) bp =
     (case canonicalOrigin env p rawOrigin of
        Inl err \<Rightarrow> Inl (Wrapped ''invalid origin'' err)
      | Inr origin \<Rightarrow>
          (case addTrustedOrigin p origin of
             Inl err \<Rightarrow> Inl (Wrapped ''trust origin'' err)
           | Inr _ \<Rightarrow> addOrigins env p rest (bp\<lparr>policyOrigins := policyOrigins bp @ [origin]\<rparr>)))"

definition newBrowserPolicy :: "env \<Rightarrow> ports \<Rightarrow> string list \<Rightarrow> browser_policy result" where
  "newBrowserPolicy env p origins = addOrigins env p origins \<lparr>policyOrigins = []\<rparr>"

definition policyAllows :: "browser_policy \<Rightarrow> string \<Rightarrow> bool" where
  "policyAllows bp origin \<longleftrightarrow> origin \<in> set (policyOrigins bp)"

definition varyHeaders :: header where
  "varyHeaders =
     [(''Vary'', ''Origin''), (''Vary'', ''Access-Control-Request-Method''), (''Vary'', ''Access-Control-Request-Headers'')]"

definition allowHeaders :: "string \<Rightarrow> header" where
  "allowHeaders origin =
     [(''Access-Control-Allow-Origin'', origin), (''Access-Control-Allow-Credentials'', ''true''),
      (''Access-Control-Allow-Methods'', corsAllowedMethods), (''Access-Control-Allow-Headers'', corsAllowedHeaders),
      (''Access-Control-Expose-Headers'', corsExposedHeaders), (''Access-Control-Max-Age'', corsMaxAgeSeconds)]"

text \<open>\<^verbatim>\<open>cors\<close>, the outer handler.\<close>

definition cors :: "env \<Rightarrow> ports \<Rightarrow> browser_policy \<Rightarrow> http_request \<Rightarrow> verdict" where
  "cors env p bp r =
     (let originHeader = headerGet (requestHeader r) ''Origin''; preflight = (requestMethod r = ''OPTIONS'') in
      if originHeader = [] then Forward []
      else
        let refused = (if preflight then Answer 403 varyHeaders else Forward varyHeaders) in
        case canonicalOrigin env p originHeader of
          Inl _ \<Rightarrow> refused
        | Inr origin \<Rightarrow>
            if \<not> policyAllows bp origin then refused
            else if preflight then Answer 204 (varyHeaders @ allowHeaders origin)
            else Forward (varyHeaders @ allowHeaders origin))"

text \<open>\<^verbatim>\<open>protect\<close>: the protection is the inner handler and answers 403.\<close>

definition protect :: "env \<Rightarrow> ports \<Rightarrow> browser_policy \<Rightarrow> http_request \<Rightarrow> verdict" where
  "protect env p bp r =
     (case cors env p bp r of
        Answer status h \<Rightarrow> Answer status h
      | Forward h \<Rightarrow> if csrfAllows p (policyOrigins bp) r then Forward h else Answer 403 h)"

end
