(* ===== verification/RateLimiter.thy ===== *)
theory RateLimiter imports Prelude begin

text \<open>
  The login rate limiter, \<^verbatim>\<open>server/web/rate_limit.go\<close>: a map from keys to the times of the attempts
  still remembered, with a periodic cleanup of the whole map. The time is in nanoseconds since Go's
  zero time, so \<open>IsZero\<close> is \<open>= 0\<close>; a missing key and an empty slice are different values of the map,
  as in Go. The mutex makes each operation one step.
\<close>

record rate_limiter =
  entries :: "string \<Rightarrow> time list option"
  limit :: int
  window :: duration
  nextCleanup :: time

definition defaultRateLimit :: int where
  "defaultRateLimit = 5"

definition defaultRateWindow :: duration where
  "defaultRateWindow = 10 * 60 * 1000000000"

definition newRateLimiter :: "int \<Rightarrow> duration \<Rightarrow> rate_limiter" where
  "newRateLimiter lim win =
     \<lparr>entries = (\<lambda>_. None),
      limit = (if lim \<le> 0 then defaultRateLimit else lim),
      window = (if win \<le> 0 then defaultRateWindow else win),
      nextCleanup = 0\<rparr>"

fun trimExpired :: "time list \<Rightarrow> time \<Rightarrow> time list" where
  "trimExpired [] cutoff = []"
| "trimExpired (entry # es) cutoff = (if entry > cutoff then entry # es else trimExpired es cutoff)"

text \<open>Reading a missing key of a Go map gives the nil slice.\<close>

definition entriesAt :: "rate_limiter \<Rightarrow> string \<Rightarrow> time list" where
  "entriesAt l key = (case entries l key of None \<Rightarrow> [] | Some es \<Rightarrow> es)"

definition cleanupLocked :: "rate_limiter \<Rightarrow> time \<Rightarrow> rate_limiter" where
  "cleanupLocked l cutoff =
     l\<lparr>entries := (\<lambda>key. case entries l key of
        None \<Rightarrow> None
      | Some es \<Rightarrow> (let es' = trimExpired es cutoff in if length es' = 0 then None else Some es'))\<rparr>"

definition allow :: "rate_limiter \<Rightarrow> time \<Rightarrow> string \<Rightarrow> (bool \<times> duration) \<times> rate_limiter" where
  "allow l0 now key =
     (let cutoff = now - window l0;
          l = (if nextCleanup l0 = 0 \<or> \<not> now < nextCleanup l0
               then (cleanupLocked l0 cutoff)\<lparr>nextCleanup := now + window l0 div 2\<rparr>
               else l0);
          es = trimExpired (entriesAt l key) cutoff
      in if int (length es) \<ge> limit l
         then ((False, max (es ! 0 + window l - now) 0), l\<lparr>entries := (entries l)(key := Some es)\<rparr>)
         else ((True, 0), l\<lparr>entries := (entries l)(key := Some (es @ [now]))\<rparr>))"

definition reset :: "rate_limiter \<Rightarrow> string \<Rightarrow> rate_limiter" where
  "reset l key = l\<lparr>entries := (entries l)(key := None)\<rparr>"

subsection \<open>Runs of the limiter and the reference they implement\<close>

text \<open>
  The reference is the contract of a sliding-window limiter: the whole history of the allowed
  attempts of a key since its last reset is kept, and an attempt is allowed when fewer than \<open>limit\<close>
  of them lie in the window that ends now.
\<close>

datatype event = Attempt time string | ResetKey string

definition allowSpec :: "int \<Rightarrow> duration \<Rightarrow> time list \<Rightarrow> time \<Rightarrow> bool" where
  "allowSpec lim win history now \<longleftrightarrow> int (length (filter (\<lambda>s. now - win < s) history)) < lim"

fun runLimiter :: "rate_limiter \<Rightarrow> event list \<Rightarrow> bool list" where
  "runLimiter l [] = []"
| "runLimiter l (Attempt now key # evs) =
     (let r = allow l now key in fst (fst r) # runLimiter (snd r) evs)"
| "runLimiter l (ResetKey key # evs) = runLimiter (reset l key) evs"

fun runSpec :: "int \<Rightarrow> duration \<Rightarrow> (string \<Rightarrow> time list) \<Rightarrow> event list \<Rightarrow> bool list" where
  "runSpec lim win h [] = []"
| "runSpec lim win h (Attempt now key # evs) =
     (if allowSpec lim win (h key) now
      then True # runSpec lim win (h(key := h key @ [now])) evs
      else False # runSpec lim win h evs)"
| "runSpec lim win h (ResetKey key # evs) = runSpec lim win (h(key := [])) evs"

text \<open>The clock does not run backwards: no attempt is earlier than the one before it.\<close>

fun monotoneFrom :: "time \<Rightarrow> event list \<Rightarrow> bool" where
  "monotoneFrom t [] = True"
| "monotoneFrom t (Attempt now key # evs) = (t \<le> now \<and> monotoneFrom now evs)"
| "monotoneFrom t (ResetKey key # evs) = monotoneFrom t evs"

subsection \<open>Trimming\<close>

lemma trimExpired_dropWhile: "trimExpired es cutoff = dropWhile (\<lambda>t. \<not> cutoff < t) es"
  by (induction es) auto

lemma trimExpired_sorted: "sorted es \<Longrightarrow> trimExpired es cutoff = filter (\<lambda>t. cutoff < t) es"
  by (simp add: trimExpired_dropWhile dropWhile_sorted_filter)

lemma sorted_trimExpired: "sorted es \<Longrightarrow> sorted (trimExpired es cutoff)"
  by (simp add: trimExpired_sorted sorted_filter[of "\<lambda>x. x", simplified])

lemma set_trimExpired: "set (trimExpired es cutoff) \<subseteq> set es"
  by (auto simp: trimExpired_dropWhile dest: set_dropWhileD)

subsection \<open>The simulation\<close>

text \<open>
  At time \<open>t\<close> the limiter keeps, for every key, a sorted list whose entries inside the window are
  exactly those of the reference's history; what it forgot can never count again.
\<close>

definition sim :: "rate_limiter \<Rightarrow> (string \<Rightarrow> time list) \<Rightarrow> time \<Rightarrow> bool" where
  "sim l h t \<longleftrightarrow>
     (\<forall>key. sorted (entriesAt l key) \<and> sorted (h key) \<and>
        (\<forall>s \<in> set (entriesAt l key). s \<le> t) \<and> (\<forall>s \<in> set (h key). s \<le> t) \<and>
        filter (\<lambda>s. t - window l < s) (entriesAt l key) = filter (\<lambda>s. t - window l < s) (h key))"

lemma filter_later_window:
  assumes "filter (\<lambda>s. c < s) xs = filter (\<lambda>s. c < s) ys" and "c \<le> (c' :: int)"
  shows "filter (\<lambda>s. c' < s) xs = filter (\<lambda>s. c' < s) ys"
proof -
  have later: "filter (\<lambda>s. c' < s) (filter (\<lambda>s. c < s) zs) = filter (\<lambda>s. c' < s) zs" for zs
    using assms(2) by (auto simp: filter_filter intro!: filter_cong)
  from assms(1) show ?thesis using later[of xs] later[of ys] by simp
qed

lemma sim_later: "sim l h t \<Longrightarrow> t \<le> t' \<Longrightarrow> sim l h t'"
  unfolding sim_def by (meson diff_right_mono filter_later_window order.trans)

lemma entriesAt_cleanup: "entriesAt (cleanupLocked l cutoff) key = trimExpired (entriesAt l key) cutoff"
  by (simp add: entriesAt_def cleanupLocked_def Let_def split: option.splits)

lemma window_cleanup [simp]: "window (cleanupLocked l cutoff) = window l"
  and limit_cleanup [simp]: "limit (cleanupLocked l cutoff) = limit l"
  by (simp_all add: cleanupLocked_def)

lemma entriesAt_update [simp]:
  "entriesAt (l\<lparr>entries := (entries l)(key := v)\<rparr>) k =
     (if k = key then (case v of None \<Rightarrow> [] | Some es \<Rightarrow> es) else entriesAt l k)"
  "entriesAt (l\<lparr>nextCleanup := n\<rparr>) k = entriesAt l k"
  by (simp_all add: entriesAt_def)

lemma sim_cleanup:
  assumes "sim l h t"
  shows "sim ((cleanupLocked l (t - window l))\<lparr>nextCleanup := n\<rparr>) h t"
  using assms unfolding sim_def
  by (auto simp: entriesAt_cleanup trimExpired_sorted sorted_filter[of "\<lambda>x. x", simplified] filter_filter)

text \<open>\<open>allow\<close> without the cleanup, which the simulation shows to be invisible.\<close>

definition cleaned :: "rate_limiter \<Rightarrow> time \<Rightarrow> rate_limiter" where
  "cleaned l now =
     (if nextCleanup l = 0 \<or> \<not> now < nextCleanup l
      then (cleanupLocked l (now - window l))\<lparr>nextCleanup := now + window l div 2\<rparr> else l)"

lemma window_cleaned [simp]: "window (cleaned l now) = window l"
  and limit_cleaned [simp]: "limit (cleaned l now) = limit l"
  by (simp_all add: cleaned_def)

lemma sim_cleaned: "sim l h now \<Longrightarrow> sim (cleaned l now) h now"
  by (simp add: cleaned_def sim_cleanup)

lemma allow_unfold:
  "allow l now key =
     (let es = trimExpired (entriesAt (cleaned l now) key) (now - window l)
      in if int (length es) \<ge> limit l
         then ((False, max (es ! 0 + window l - now) 0),
               (cleaned l now)\<lparr>entries := (entries (cleaned l now))(key := Some es)\<rparr>)
         else ((True, 0),
               (cleaned l now)\<lparr>entries := (entries (cleaned l now))(key := Some (es @ [now]))\<rparr>))"
  by (simp add: allow_def cleaned_def Let_def)

lemma trim_is_history:
  assumes "sim l h now"
  shows "trimExpired (entriesAt (cleaned l now) key) (now - window l)
         = filter (\<lambda>s. now - window l < s) (h key)"
  using sim_cleaned[OF assms] by (simp add: sim_def trimExpired_sorted)

lemma allow_decides:
  assumes "sim l h now"
  shows "fst (fst (allow l now key)) = allowSpec (limit l) (window l) (h key) now"
  by (simp add: allow_unfold allowSpec_def trim_is_history[OF assms] Let_def)

lemma allow_keeps [simp]:
  "window (snd (allow l now key)) = window l" "limit (snd (allow l now key)) = limit l"
  by (simp_all add: allow_unfold Let_def)

lemma allow_sim:
  assumes s: "sim l h now"
  shows "sim (snd (allow l now key))
             (if allowSpec (limit l) (window l) (h key) now then h(key := h key @ [now]) else h) now"
proof -
  let ?es = "filter (\<lambda>s. now - window l < s) (h key)"
  have c: "sim (cleaned l now) h now" by (rule sim_cleaned[OF s])
  then have h: "sorted (h key)" "\<forall>s \<in> set (h key). s \<le> now" by (auto simp: sim_def)
  then have es: "sorted ?es" "\<forall>s \<in> set ?es. s \<le> now"
    by (auto simp: sorted_filter[of "\<lambda>x. x", simplified])
  show ?thesis
    using c h es unfolding sim_def
    by (auto simp: allow_unfold allowSpec_def trim_is_history[OF s] Let_def sorted_append)
qed

lemma reset_sim: "sim l h t \<Longrightarrow> sim (reset l key) (h(key := [])) t"
  by (auto simp: sim_def reset_def)

lemma run_refines:
  assumes "sim l h t" and "monotoneFrom t evs"
  shows "runLimiter l evs = runSpec (limit l) (window l) h evs"
  using assms
proof (induction evs arbitrary: l h t)
  case Nil
  then show ?case by simp
next
  case (Cons ev evs)
  show ?case
  proof (cases ev)
    case (Attempt now key)
    with Cons.prems have s: "sim l h now" and m: "monotoneFrom now evs"
      by (auto intro: sim_later)
    show ?thesis
      using Cons.IH[OF allow_sim[OF s] m] Attempt allow_decides[OF s, of key]
      by (cases "allowSpec (limit l) (window l) (h key) now") (simp_all add: Let_def fun_upd_def)
  next
    case (ResetKey key)
    then show ?thesis
      using Cons.IH[OF reset_sim[OF Cons.prems(1)]] Cons.prems(2) by (simp add: reset_def fun_upd_def)
  qed
qed

lemma sim_new: "sim (newRateLimiter lim win) (\<lambda>_. []) t"
  by (simp add: sim_def entriesAt_def newRateLimiter_def)


subsection \<open>What a reachable limiter guarantees\<close>

fun stateAfter :: "rate_limiter \<Rightarrow> event list \<Rightarrow> rate_limiter" where
  "stateAfter l [] = l"
| "stateAfter l (Attempt now key # evs) = stateAfter (snd (allow l now key)) evs"
| "stateAfter l (ResetKey key # evs) = stateAfter (reset l key) evs"

text \<open>The times of the attempts on \<open>key\<close> that the limiter allowed, in order.\<close>

fun allowedTimes :: "string \<Rightarrow> rate_limiter \<Rightarrow> event list \<Rightarrow> time list" where
  "allowedTimes k l [] = []"
| "allowedTimes k l (Attempt now key # evs) =
     (let r = allow l now key
      in (if key = k \<and> fst (fst r) then [now] else []) @ allowedTimes k (snd r) evs)"
| "allowedTimes k l (ResetKey key # evs) = allowedTimes k (reset l key) evs"

fun historyAfter :: "int \<Rightarrow> duration \<Rightarrow> (string \<Rightarrow> time list) \<Rightarrow> event list \<Rightarrow> (string \<Rightarrow> time list)" where
  "historyAfter lim win h [] = h"
| "historyAfter lim win h (Attempt now key # evs) =
     historyAfter lim win
       (if allowSpec lim win (h key) now then h(key := h key @ [now]) else h) evs"
| "historyAfter lim win h (ResetKey key # evs) = historyAfter lim win (h(key := [])) evs"

definition inWindow :: "duration \<Rightarrow> time list \<Rightarrow> time \<Rightarrow> int" where
  "inWindow win ts t = int (length (filter (\<lambda>s. t - win < s \<and> s \<le> t) ts))"

definition bounded :: "int \<Rightarrow> duration \<Rightarrow> (string \<Rightarrow> time list) \<Rightarrow> bool" where
  "bounded lim win h \<longleftrightarrow> (\<forall>key t. inWindow win (h key) t \<le> lim)"

lemma bounded_append:
  assumes b: "bounded lim win h" and old: "\<forall>s \<in> set (h key). s \<le> now"
    and ok: "allowSpec lim win (h key) now"
  shows "bounded lim win (h(key := h key @ [now]))"
  unfolding bounded_def
proof (intro allI)
  fix k t
  show "inWindow win ((h(key := h key @ [now])) k) t \<le> lim"
  proof (cases "k = key \<and> t - win < now \<and> now \<le> t")
    case True
    then have "length (filter (\<lambda>s. t - win < s \<and> s \<le> t) (h key))
               \<le> length (filter (\<lambda>s. now - win < s) (h key))"
      by (intro length_filter_mono) auto
    then show ?thesis using True ok by (simp add: inWindow_def allowSpec_def)
  next
    case False
    then show ?thesis using b by (auto simp: inWindow_def bounded_def)
  qed
qed


lemma historyAfter_bounded:
  assumes "bounded lim win h" and "monotoneFrom t evs" and "\<forall>key. \<forall>s \<in> set (h key). s \<le> t"
  shows "bounded lim win (historyAfter lim win h evs)"
  using assms
proof (induction evs arbitrary: h t)
  case Nil
  then show ?case by simp
next
  case (Cons ev evs)
  show ?case
  proof (cases ev)
    case (Attempt now key)
    with Cons.prems have old: "\<forall>k. \<forall>s \<in> set (h k). s \<le> now" and m: "monotoneFrom now evs"
      by force+
    let ?h = "if allowSpec lim win (h key) now then h(key := h key @ [now]) else h"
    have "bounded lim win ?h" using Cons.prems(1) old by (simp add: bounded_append)
    moreover have "\<forall>k. \<forall>s \<in> set (?h k). s \<le> now" using old by auto
    ultimately show ?thesis using Cons.IH m Attempt by simp
  next
    case (ResetKey key)
    have "bounded lim win (h(key := []))" 
      using Cons.prems(1) by (fastforce simp: bounded_def inWindow_def dest: spec[of _ key])
    moreover have "\<forall>k. \<forall>s \<in> set ((h(key := [])) k). s \<le> t" using Cons.prems(3) by auto
    moreover have "monotoneFrom t evs" using Cons.prems(2) ResetKey by simp
    ultimately have "bounded lim win (historyAfter lim win (h(key := [])) evs)"
      by (intro Cons.IH)
    then show ?thesis using ResetKey by simp
  qed
qed

lemma stateAfter_sim:
  assumes "sim l h t" and "monotoneFrom t evs"
  shows "\<exists>t' \<ge> t. sim (stateAfter l evs) (historyAfter (limit l) (window l) h evs) t' \<and>
           (\<forall>rest. monotoneFrom t (evs @ rest) \<longrightarrow> monotoneFrom t' rest) \<and>
           limit (stateAfter l evs) = limit l \<and> window (stateAfter l evs) = window l"
  using assms
proof (induction evs arbitrary: l h t)
  case Nil
  then show ?case by auto
next
  case (Cons ev evs)
  show ?case
  proof (cases ev)
    case (Attempt now key)
    with Cons.prems have s: "sim l h now" and m: "monotoneFrom now evs" and le: "t \<le> now"
      by (auto intro: sim_later)
    let ?h = "if allowSpec (limit l) (window l) (h key) now then h(key := h key @ [now]) else h"
    let ?l = "snd (allow l now key)"
    obtain t' where t': "now \<le> t'"
      "sim (stateAfter ?l evs) (historyAfter (limit l) (window l) ?h evs) t'"
      "\<forall>rest. monotoneFrom now (evs @ rest) \<longrightarrow> monotoneFrom t' rest"
      "limit (stateAfter ?l evs) = limit l" "window (stateAfter ?l evs) = window l"
      using Cons.IH[OF allow_sim[OF s, of key] m] by auto
    then have "t \<le> t'" using le by simp
    then show ?thesis using t' Attempt by (intro exI[of _ t']) simp
  next
    case (ResetKey key)
    from Cons.IH[OF reset_sim[OF Cons.prems(1), of key]] Cons.prems(2) ResetKey show ?thesis
      by (simp add: reset_def fun_upd_def)
  qed
qed

lemma allowedTimes_history:
  assumes "sim l h t" and "monotoneFrom t evs" and "ResetKey k \<notin> set evs"
  shows "historyAfter (limit l) (window l) h evs k = h k @ allowedTimes k l evs"
  using assms
proof (induction evs arbitrary: l h t)
  case Nil
  then show ?case by simp
next
  case (Cons ev evs)
  show ?case
  proof (cases ev)
    case (Attempt now key)
    with Cons.prems have s: "sim l h now" and m: "monotoneFrom now evs" 
      and nr: "ResetKey k \<notin> set evs"
      by (auto intro: sim_later)
    from Cons.IH[OF allow_sim[OF s, of key] m nr] Attempt allow_decides[OF s, of key] show ?thesis
      by (cases "allowSpec (limit l) (window l) (h key) now") (auto simp: Let_def fun_upd_def)
  next
    case (ResetKey key)
    from Cons.IH[OF reset_sim[OF Cons.prems(1), of key]] Cons.prems(2,3) ResetKey show ?thesis
      by (simp add: reset_def fun_upd_def)
  qed
qed

lemma monotone_prefix: "monotoneFrom t (evs @ rest) \<Longrightarrow> monotoneFrom t evs"
  by (induction t evs rule: monotoneFrom.induct) auto

lemma bounded_window_length:
  assumes "bounded lim win h" and "\<forall>s \<in> set (h key). s \<le> now"
  shows "int (length (filter (\<lambda>s. now - win < s) (h key))) \<le> lim"
proof -
  have "filter (\<lambda>s. now - win < s \<and> s \<le> now) (h key) = filter (\<lambda>s. now - win < s) (h key)"
    using assms(2) by (auto intro: filter_cong)
  then show ?thesis using assms(1) by (metis bounded_def inWindow_def)
qed

lemma denied_then_allowed:
  assumes s: "sim l h now" and b: "bounded (limit l) (window l) h"
    and pos: "0 < limit l" and "0 < window l"
    and denied: "allow l now key = ((False, retryAfter), l')"
  shows "0 < retryAfter \<and> retryAfter \<le> window l \<and> fst (fst (allow l' (now + retryAfter) key))"
proof -
  let ?es = "filter (\<lambda>s. now - window l < s) (h key)"
  have h: "sorted (h key)" "\<forall>s \<in> set (h key). s \<le> now" using s by (auto simp: sim_def)
  have no: "\<not> allowSpec (limit l) (window l) (h key) now"
    using allow_decides[OF s, of key] denied by simp
  then have full: "int (length ?es) = limit l"
    using bounded_window_length[OF b h(2)] by (simp add: allowSpec_def)
  with pos obtain e rest where es: "?es = e # rest" by (cases ?es) auto
  have e: "now - window l < e" "e \<le> now"
    using h(2) arg_cong[OF es, of set] by auto
  have "retryAfter = max (?es ! 0 + window l - now) 0"
    using denied no by (simp add: allow_unfold trim_is_history[OF s] Let_def full allowSpec_def)
  then have r: "retryAfter = e + window l - now" using es e by simp
  have s': "sim l' h now" using allow_sim[OF s, of key] no denied by simp
  have l': "limit l' = limit l" "window l' = window l"
    using allow_keeps[of l now key] denied by auto
  have "sim l' h (now + retryAfter)" using s' r e by (auto intro: sim_later)
  moreover have "allowSpec (limit l) (window l) (h key) (now + retryAfter)"
  proof -
    have "filter (\<lambda>s. e < s) (h key) = filter (\<lambda>s. e < s) ?es"
      using e(1) by (auto simp: filter_filter intro: filter_cong)
    also have "length \<dots> < length ?es" using es by (simp add: le_imp_less_Suc)
    finally show ?thesis using full r by (simp add: allowSpec_def)
  qed
  ultimately show ?thesis
    using allow_decides[of l' h "now + retryAfter" key] l' r e by simp
qed

lemma new_limits [simp]: "limit (newRateLimiter lim win) > 0" "window (newRateLimiter lim win) > 0"
  by (simp_all add: newRateLimiter_def defaultRateLimit_def defaultRateWindow_def)

lemma bounded_empty: "0 \<le> lim \<Longrightarrow> bounded lim win (\<lambda>_. [])"
  by (simp add: bounded_def inWindow_def)

subsection \<open>Properties\<close>

text \<open>C9: \<^bold>\<open>The rate limiter is a sliding-window limiter.\<close> On every sequence of attempts and resets
  with a clock that does not run backwards, the limiter, which trims the entries of a key and
  periodically sweeps the whole map, takes exactly the decisions of the reference that remembers
  every allowed attempt since the key's last reset: forgetting expired entries and cleaning up
  never changes a decision.\<close>

theorem limiter_refines_sliding_window:
  assumes "monotoneFrom t evs"
  shows "runLimiter (newRateLimiter lim win) evs
         = runSpec (limit (newRateLimiter lim win)) (window (newRateLimiter lim win)) (\<lambda>_. []) evs"
  by (rule run_refines[OF sim_new assms])

theorem limiter_refines_sliding_window_witness:
  "runLimiter (newRateLimiter 1 10) [Attempt 100 ''k'', Attempt 105 ''k'', Attempt 110 ''k'']
     = runSpec (limit (newRateLimiter 1 10)) (window (newRateLimiter 1 10)) (\<lambda>_. [])
         [Attempt 100 ''k'', Attempt 105 ''k'', Attempt 110 ''k'']
   \<and> runSpec 1 10 (\<lambda>_. []) [Attempt 100 ''k'', Attempt 105 ''k'', Attempt 110 ''k'']
     = [True, False, True]"
  using limiter_refines_sliding_window
    [of 0 "[Attempt 100 ''k'', Attempt 105 ''k'', Attempt 110 ''k'']" 1 10]
  by (simp add: allowSpec_def)

text \<open>\<^bold>\<open>No window of the configured length ever holds more than \<open>limit\<close> allowed attempts\<close> on a
  key that was not reset meanwhile, whatever the other keys do, wherever the window lies and
  whenever the periodic cleanup runs.\<close>

theorem limiter_bounds_every_window:
  assumes "monotoneFrom t0 evs" and "ResetKey key \<notin> set evs"
  shows "inWindow (window (newRateLimiter lim win))
           (allowedTimes key (newRateLimiter lim win) evs) t
         \<le> limit (newRateLimiter lim win)"
proof -
  let ?l = "newRateLimiter lim win"
  let ?h = "historyAfter (limit ?l) (window ?l) (\<lambda>_. []) evs"
  have "bounded (limit ?l) (window ?l) ?h"
    by (rule historyAfter_bounded[OF bounded_empty assms(1)]) (simp_all add: less_imp_le)
  moreover have "?h key = allowedTimes key ?l evs"
    using allowedTimes_history[OF sim_new assms] by simp
  ultimately show ?thesis unfolding bounded_def by metis
qed

theorem limiter_bounds_every_window_witness:
  "inWindow (window (newRateLimiter 1 10))
     (allowedTimes ''k'' (newRateLimiter 1 10) [Attempt 100 ''k'', Attempt 105 ''k'', ResetKey ''j'']) 109
   \<le> limit (newRateLimiter 1 10)"
  using limiter_bounds_every_window[of 0 "[Attempt 100 ''k'', Attempt 105 ''k'', ResetKey ''j'']" "''k''" 1 10 109]
  by simp

text \<open>\<^bold>\<open>The retry delay is exact and useful.\<close> When a reachable limiter denies an attempt, the delay
  it reports is positive and at most one window, and an attempt on the same key after exactly that
  delay is allowed.\<close>

theorem limiter_retry_after_suffices:
  assumes m: "monotoneFrom t0 (evs @ [Attempt now key])"
    and l: "l = stateAfter (newRateLimiter lim win) evs"
    and denied: "allow l now key = ((False, retryAfter), l')"
  shows "0 < retryAfter \<and> retryAfter \<le> window l \<and> fst (fst (allow l' (now + retryAfter) key))"
proof -
  let ?n = "newRateLimiter lim win"
  let ?h = "historyAfter (limit ?n) (window ?n) (\<lambda>_. []) evs"
  have pre: "monotoneFrom t0 evs" by (rule monotone_prefix[OF m])
  from stateAfter_sim[OF sim_new pre] obtain t' where
    t': "sim l ?h t'" "\<forall>rest. monotoneFrom t0 (evs @ rest) \<longrightarrow> monotoneFrom t' rest"
      "limit l = limit ?n" "window l = window ?n"
    unfolding l by blast
  have "monotoneFrom t' [Attempt now key]" using t'(2) m by blast
  then have s: "sim l ?h now" using t'(1) by (auto intro: sim_later)
  have b: "bounded (limit l) (window l) ?h"
    using historyAfter_bounded[OF bounded_empty pre] t' by (simp add: less_imp_le)
  show ?thesis
    using denied_then_allowed[OF s b _ _ denied] t' by simp
qed

theorem limiter_retry_after_suffices_witness:
  "0 < (5 :: int) \<and> 5 \<le> window (stateAfter (newRateLimiter 1 10) [Attempt 100 ''k''])
   \<and> fst (fst (allow (snd (allow (stateAfter (newRateLimiter 1 10) [Attempt 100 ''k'']) 105 ''k''))
        (105 + 5) ''k''))"
  by (rule limiter_retry_after_suffices
      [of 0 "[Attempt 100 ''k'']" 105 "''k''" "stateAfter (newRateLimiter 1 10) [Attempt 100 ''k'']" 1 10 5])
     (simp_all add: newRateLimiter_def allow_def cleanupLocked_def entriesAt_def Let_def)

end
