(* ===== verification/WebServer.thy ===== *)
theory WebServer imports WebMessages BrowserPolicy RateLimiter begin

text \<open>
  The frame of the RPC server: headers and cookies as \<^verbatim>\<open>net/http\<close> reads them, the session of a request
  (\<^verbatim>\<open>server/web/session_interceptor.go\<close>), errors as the client sees them (\<^verbatim>\<open>server/web/helpers.go\<close>), and the cookies the
  server sets. A request is served in a state of its own: the world, the rate limiter, which outlives the request,
  and the session once it has been resolved.
\<close>

subsection \<open>Headers and cookies\<close>

text \<open>\<^verbatim>\<open>textproto.TrimString\<close>, \<^verbatim>\<open>httpguts.ValidHeaderFieldName\<close> and the cookie parser of \<^verbatim>\<open>net/http\<close>.\<close>

definition trimASCII :: "string \<Rightarrow> string" where
  "trimASCII s = trimList (\<lambda>c. byte c \<in> {32, 9, 10, 13}) s"

definition tokenChar :: "char \<Rightarrow> bool" where
  "tokenChar c \<longleftrightarrow> asciiLetter c \<or> asciiDigit c \<or> c \<in> set ''!#$%&*+-.^_|~'' \<or> byte c = 39 \<or> byte c = 96"

definition isToken :: "string \<Rightarrow> bool" where
  "isToken s \<longleftrightarrow> s \<noteq> [] \<and> list_all tokenChar s"

definition cookieValueChar :: "char \<Rightarrow> bool" where
  "cookieValueChar c \<longleftrightarrow> 32 \<le> byte c \<and> byte c < 127 \<and> byte c \<notin> {34, 59, 92}"

definition cookieValue :: "string \<Rightarrow> string option" where
  "cookieValue raw =
     (let s = (if 1 < length raw \<and> byte (hd raw) = 34 \<and> byte (last raw) = 34 then butlast (tl raw) else raw) in
      if list_all cookieValueChar s then Some s else None)"

definition cookiePiece :: "string \<Rightarrow> (string \<times> string) list" where
  "cookiePiece piece =
     (case cut (CHR ''='') (trimASCII piece) of (name, val, _) \<Rightarrow>
        if \<not> isToken (trimASCII name) then []
        else case cookieValue val of None \<Rightarrow> [] | Some v \<Rightarrow> [(trimASCII name, v)])"

definition readCookies :: "header \<Rightarrow> (string \<times> string) list" where
  "readCookies h = concat (map (\<lambda>line. concat (map cookiePiece (splitOn (CHR '';'') (trimASCII line)))) (headerValues h ''Cookie''))"

text \<open>\<^verbatim>\<open>request.Cookie(name)\<close>.\<close>

definition requestCookie :: "header \<Rightarrow> string \<Rightarrow> string option" where
  "requestCookie h name = (if name = [] then None else map_of (readCookies h) name)"

record cookie =
  cookieName :: string
  cookieText :: string
  cookiePath :: string
  cookieDomain :: string
  cookieHttpOnly :: bool
  cookieSecure :: bool
  cookieSameSiteLax :: bool
  cookieMaxAge :: int
  cookieExpires :: "time option"

subsection \<open>The server\<close>

record cookie_config =
  configCookieName :: string
  configCookieSecure :: bool
  configCookieMaxAge :: duration
  configCookieDomain :: string

record server =
  serverAuth :: auth
  serverOIDCSecret :: string
  serverCookie :: cookie_config
  serverDefaultLocale :: string
  serverReadinessTimeout :: duration
  serverPolicy :: browser_policy

definition sessionCookieName :: string where "sessionCookieName = ''clinks_session''"
definition defaultReadinessTimeout :: duration where "defaultReadinessTimeout = 5 * nanosecondsPerSecond"

record server_config =
  configCORSOrigins :: "string list"
  configReadinessTimeout :: duration
  configCookie :: cookie_config
  configDefaultLocale :: string

definition NewServer :: "env \<Rightarrow> ports \<Rightarrow> auth \<Rightarrow> server_config \<Rightarrow> (server \<times> rate_limiter) result" where
  "NewServer env p auth config =
     (case newBrowserPolicy env p (configCORSOrigins config) of
        Inl err \<Rightarrow> Inl (Wrapped ''http: browser policy'' err)
      | Inr bp \<Rightarrow>
          let cookie = configCookie config;
              name = (if configCookieName cookie = [] then sessionCookieName else configCookieName cookie);
              timeout = (if configReadinessTimeout config \<le> 0 then defaultReadinessTimeout else configReadinessTimeout config) in
          if \<not> locale_isValid (configDefaultLocale config) then Inl (OpaqueError ''http: default locale is invalid'')
          else Inr (\<lparr>serverAuth = auth, serverOIDCSecret = [], serverCookie = cookie\<lparr>configCookieName := name\<rparr>,
                     serverDefaultLocale = configDefaultLocale config, serverReadinessTimeout = timeout,
                     serverPolicy = bp\<rparr>,
                    newRateLimiter 5 (10 * nanosecondsPerMinute)))"

record served =
  servedWorld :: world
  servedLimiter :: rate_limiter
  servedSession :: "(go_error + session) option"

definition onWorld :: "(world, 'e, 'a) eff \<Rightarrow> (served, 'e, 'a) eff" where
  "onWorld m = (\<lambda>s. case m (servedWorld s) of (r, w) \<Rightarrow> (r, s\<lparr>servedWorld := w\<rparr>))"

text \<open>A call that always returns a text, such as a translation.\<close>

definition plainText :: "(world, go_error, string) eff \<Rightarrow> world \<Rightarrow> string \<times> world" where
  "plainText m = (\<lambda>w. case m w of (Inr s, w') \<Rightarrow> (s, w') | (Inl err, w') \<Rightarrow> ([], w'))"

definition cookieToken :: "server \<Rightarrow> header \<Rightarrow> string" where
  "cookieToken srv h = (case requestCookie h (configCookieName (serverCookie srv)) of None \<Rightarrow> [] | Some v \<Rightarrow> v)"

text \<open>Whole seconds of a duration, \<^verbatim>\<open>int(d.Seconds())\<close>.\<close>

definition wholeSeconds :: "duration \<Rightarrow> int" where "wholeSeconds d = d div nanosecondsPerSecond"

text \<open>\<^verbatim>\<open>time.Unix(1, 0)\<close>, an instant of the past.\<close>

definition unixOne :: time where "unixOne = (62135596800 + 1) * nanosecondsPerSecond"

definition sessionCookie :: "env \<Rightarrow> server \<Rightarrow> string \<Rightarrow> (world, go_error, cookie) eff" where
  "sessionCookie env srv token =
     (let config = serverCookie srv;
          c = \<lparr>cookieName = configCookieName config, cookieText = token, cookiePath = ''/'',
               cookieDomain = configCookieDomain config, cookieHttpOnly = True, cookieSecure = configCookieSecure config,
               cookieSameSiteLax = True, cookieMaxAge = 0, cookieExpires = None\<rparr> in
      if token = [] then ret (c\<lparr>cookieMaxAge := -1, cookieExpires := Some unixOne\<rparr>)
      else if 0 < configCookieMaxAge config then
        andThen (goNow env) (\<lambda>now.
        ret (c\<lparr>cookieMaxAge := wholeSeconds (configCookieMaxAge config), cookieExpires := Some (now + configCookieMaxAge config)\<rparr>))
      else ret c)"

definition requestLocale :: "env \<Rightarrow> server \<Rightarrow> header \<Rightarrow> string" where
  "requestLocale env srv h =
     (let rawHeader = headerGet h ''Accept-Language'';
          cleanTag = trimSpace (hd (splitOn (CHR '';'') (hd (splitOn (CHR '','') rawHeader)))) in
      if rawHeader = [] \<or> cleanTag = [] then serverDefaultLocale srv
      else case parseLocale (unicode env) cleanTag of Inl _ \<Rightarrow> serverDefaultLocale srv | Inr loc \<Rightarrow> loc)"

definition requestMessageLocale :: "env \<Rightarrow> server \<Rightarrow> string \<Rightarrow> header \<Rightarrow> string" where
  "requestMessageLocale env srv val h =
     (let loc = newLocale (unicode env) val in if locale_isValid loc then loc else requestLocale env srv h)"

subsection \<open>Errors\<close>

record connect_error =
  errorCode :: connect_code
  errorMessage :: string
  errorLocale :: string
  errorKindName :: string
  errorRetryAfter :: "string option"

definition localizedError :: "env \<Rightarrow> server \<Rightarrow> header \<Rightarrow> go_error \<Rightarrow> (served, connect_error, 'a) eff" where
  "localizedError env srv h err = (\<lambda>s.
     let loc = requestLocale env srv h in
     case plainText (Translator_ErrorMessage env loc (Some err)) (servedWorld s) of (message, w) \<Rightarrow>
       (Inl \<lparr>errorCode = connectCode err, errorMessage = message, errorLocale = loc,
             errorKindName = error_kind_string (errorKindHeader err), errorRetryAfter = None\<rparr>,
        s\<lparr>servedWorld := w\<rparr>))"

definition transportErrorRateLimited :: string where "transportErrorRateLimited = ''rate_limited''"

definition rateLimitError :: "env \<Rightarrow> server \<Rightarrow> header \<Rightarrow> duration \<Rightarrow> (served, connect_error, 'a) eff" where
  "rateLimitError env srv h retryAfter = (\<lambda>s.
     let loc = requestLocale env srv h in
     case plainText (Translator_ErrorMessage env loc (Some (newError ErrorRateLimited))) (servedWorld s) of (message, w) \<Rightarrow>
       (Inl \<lparr>errorCode = CodeResourceExhausted, errorMessage = message, errorLocale = loc,
             errorKindName = transportErrorRateLimited,
             errorRetryAfter = (if 0 < retryAfter
               then Some (formatInt ((retryAfter + nanosecondsPerSecond - 1) div nanosecondsPerSecond)) else None)\<rparr>,
        s\<lparr>servedWorld := w\<rparr>))"

text \<open>A call of a service; its error goes to the client in the client's language.\<close>

definition localized :: "env \<Rightarrow> server \<Rightarrow> header \<Rightarrow> (served, go_error, 'a) eff \<Rightarrow> (served, connect_error, 'a) eff" where
  "localized env srv h m = (\<lambda>s.
     case m s of (Inr x, s') \<Rightarrow> (Inr x, s') | (Inl err, s') \<Rightarrow> localizedError env srv h err s')"

subsection \<open>The session of a request\<close>

text \<open>
  The interceptor resolves the session at most once and only when a handler asks for it; the result is kept for the
  rest of the request, an error too.
\<close>

definition requireSession :: "env \<Rightarrow> ports \<Rightarrow> server \<Rightarrow> header \<Rightarrow> (served, go_error, session) eff" where
  "requireSession env p srv h = (\<lambda>s.
     let token = cookieToken srv h in
     if token = [] then (Inl (newError ErrorInvalidCredentials), s)
     else case servedSession s of
       Some r \<Rightarrow> (r, s)
     | None \<Rightarrow>
         (case Auth_CurrentSession env p (serverAuth srv) token (servedWorld s) of
            (r, w) \<Rightarrow> (r, s\<lparr>servedWorld := w, servedSession := Some r\<rparr>)))"

definition requireSuperAdmin :: "env \<Rightarrow> ports \<Rightarrow> server \<Rightarrow> header \<Rightarrow> (served, go_error, user) eff" where
  "requireSuperAdmin env p srv h =
     andThen (requireSession env p srv h) (\<lambda>session.
     if \<not> isSuperAdministrator (globalRole (sessionUser session)) then fail (newError ErrorUnauthorized)
     else ret (sessionUser session))"

definition authenticateSession :: "env \<Rightarrow> ports \<Rightarrow> server \<Rightarrow> header \<Rightarrow> (served, connect_error, session) eff" where
  "authenticateSession env p srv h = localized env srv h (requireSession env p srv h)"

definition authorizeSuperAdmin :: "env \<Rightarrow> ports \<Rightarrow> server \<Rightarrow> header \<Rightarrow> (served, connect_error, user) eff" where
  "authorizeSuperAdmin env p srv h = localized env srv h (requireSuperAdmin env p srv h)"

subsection \<open>Responses\<close>

record 'm response =
  responseMessage :: 'm
  responseCookies :: "cookie list"

definition newResponse :: "'m \<Rightarrow> 'm response" where
  "newResponse m = \<lparr>responseMessage = m, responseCookies = []\<rparr>"

text \<open>The error of a service comes first, then the session cookie is set.\<close>

definition sessionResponse ::
  "env \<Rightarrow> server \<Rightarrow> header \<Rightarrow> (world, go_error, session) eff \<Rightarrow> (served, connect_error, pb_session response) eff" where
  "sessionResponse env srv h call =
     andThen (localized env srv h (onWorld call)) (\<lambda>session.
     andThen (localized env srv h (onWorld (sessionCookie env srv (sessionToken session)))) (\<lambda>c.
     ret \<lparr>responseMessage = sessionMessage session, responseCookies = [c]\<rparr>))"

text \<open>The time that the limiter reads, and its two operations.\<close>

definition limiterAllow :: "env \<Rightarrow> string \<Rightarrow> (served, connect_error, bool \<times> duration) eff" where
  "limiterAllow env key = (\<lambda>s.
     case allow (servedLimiter s) (e_clock env (w_tick (servedWorld s))) key of
       (r, l) \<Rightarrow> (Inr r, s\<lparr>servedLimiter := l, servedWorld := tick (servedWorld s)\<rparr>))"

definition limiterReset :: "string \<Rightarrow> (served, connect_error, unit) eff" where
  "limiterReset key = (\<lambda>s. (Inr (), s\<lparr>servedLimiter := reset (servedLimiter s) key\<rparr>))"

definition passwordRateLimitKey :: "env \<Rightarrow> string \<Rightarrow> string \<Rightarrow> string" where
  "passwordRateLimitKey env scope email = ''password:'' @ scope @ '':'' @ toLower (unicode env) (trimSpace email)"

end
