(* ===== verification/PasswordProof.thy ===== *)
theory PasswordProof imports WebServer begin

text \<open>
  The proof that a session was begun with a password, a cookie that linking an external identity asks for:
  \<^verbatim>\<open>passwordVerifiedCookie\<close>, \<^verbatim>\<open>hasPasswordVerified\<close> and \<^verbatim>\<open>passwordVerificationMAC\<close> of \<^verbatim>\<open>server/web/oidc.go\<close>.
\<close>

definition passwordVerifiedCookieName :: string where "passwordVerifiedCookieName = ''clinks_password_verified''"
definition passwordVerificationTTL :: duration where "passwordVerificationTTL = 10 * nanosecondsPerMinute"

definition passwordVerificationMAC :: "server \<Rightarrow> string \<Rightarrow> string \<Rightarrow> string" where
  "passwordVerificationMAC srv token expiresUnix =
     hmacSha256 (sha256 (''clinks:password-verification:v1'' @ [chr 0] @ serverOIDCSecret srv))
       (token @ [chr 0] @ expiresUnix)"

text \<open>A cookie of the authentication with an external provider.\<close>

definition plainCookie :: "server \<Rightarrow> string \<Rightarrow> string \<Rightarrow> cookie" where
  "plainCookie srv name content =
     \<lparr>cookieName = name, cookieText = content, cookiePath = ''/'', cookieDomain = [], cookieHttpOnly = True,
      cookieSecure = configCookieSecure (serverCookie srv), cookieSameSiteLax = True, cookieMaxAge = 0,
      cookieExpires = None\<rparr>"

definition clearedCookie :: "server \<Rightarrow> string \<Rightarrow> cookie" where
  "clearedCookie srv name = (plainCookie srv name [])\<lparr>cookieMaxAge := -1, cookieExpires := Some unixOne\<rparr>"

definition passwordVerifiedCookie :: "env \<Rightarrow> server \<Rightarrow> string \<Rightarrow> (world, go_error, cookie) eff" where
  "passwordVerifiedCookie env srv token =
     (if token = [] then ret (clearedCookie srv passwordVerifiedCookieName)
      else
        andThen (goNow env) (\<lambda>now.
        let expires_at = now + passwordVerificationTTL;
            expiresUnix = formatInt (unixSeconds expires_at);
            signature = passwordVerificationMAC srv token expiresUnix
        in ret ((plainCookie srv passwordVerifiedCookieName (expiresUnix @ ''.'' @ base64Encode signature))
                 \<lparr>cookieMaxAge := wholeSeconds passwordVerificationTTL, cookieExpires := Some expires_at\<rparr>)))"

text \<open>\<^verbatim>\<open>strconv.ParseInt(s, 10, 64)\<close>.\<close>

definition parseInt :: "string \<Rightarrow> int option" where
  "parseInt s =
     (let signed = (s \<noteq> [] \<and> (hd s = CHR ''+'' \<or> hd s = CHR ''-'')); ds = (if signed then tl s else s);
          n = (if signed \<and> hd s = CHR ''-'' then - int (numberOf ds) else int (numberOf ds)) in
      if ds \<noteq> [] \<and> list_all isDigit ds \<and> - (2 ^ 63) \<le> n \<and> n < 2 ^ 63 then Some n else None)"

definition hasPasswordVerified :: "env \<Rightarrow> server \<Rightarrow> header \<Rightarrow> (world, go_error, bool) eff" where
  "hasPasswordVerified env srv h =
     (if length (serverOIDCSecret srv) < 32 then ret False
      else
        case requestCookie h passwordVerifiedCookieName of
          None \<Rightarrow> ret False
        | Some content \<Rightarrow>
            (case cut (CHR ''.'') content of (expiresUnix, encodedSignature, found) \<Rightarrow>
               if \<not> found then ret False
               else
                 case parseInt expiresUnix of
                   None \<Rightarrow> ret False
                 | Some expires_at \<Rightarrow>
                     andThen (goNow env) (\<lambda>now.
                     if expires_at \<le> unixSeconds now then ret False
                     else
                       case base64Decode encodedSignature of
                         None \<Rightarrow> ret False
                       | Some signature \<Rightarrow>
                           let token = cookieToken srv h in
                           if token = [] then ret False
                           else ret (signature = passwordVerificationMAC srv token expiresUnix))))"

end
