(* ===== verification/AesGcm.thy ===== *)
theory AesGcm imports GoStrings "HOL-Library.Word" begin

text \<open>
  The authenticated encryption that seals an OpenID Connect attempt: AES with a key of 256 bits (FIPS 197) in Galois
  counter mode (NIST SP 800-38D) with a nonce of 96 bits and no additional data, as \<^verbatim>\<open>crypto/aes\<close> and
  \<^verbatim>\<open>crypto/cipher\<close> of Go's library compute it. Texts are short: the limit of 64 GiB, beyond which \<^verbatim>\<open>Seal\<close> panics,
  is not reached.
\<close>

unbundle bit_operations_syntax

type_synonym w8 = "8 word"

subsection \<open>The block cipher\<close>

text \<open>Bytes as polynomials over two elements, modulo \<open>x^8 + x^4 + x^3 + x + 1\<close>.\<close>

definition xtime :: "w8 \<Rightarrow> w8" where
  "xtime b = push_bit 1 b XOR (if bit b 7 then 0x1b else 0)"

fun fieldTimes :: "nat \<Rightarrow> w8 \<Rightarrow> w8 \<Rightarrow> w8" where
  "fieldTimes 0 a b = 0"
| "fieldTimes (Suc n) a b = (if bit b 0 then a else 0) XOR fieldTimes n (xtime a) (drop_bit 1 b)"

definition times8 :: "w8 \<Rightarrow> w8 \<Rightarrow> w8" where "times8 a b = fieldTimes 8 a b"

text \<open>The inverse of \<open>b\<close> is its power 254, the product of its squares.\<close>

fun squares :: "nat \<Rightarrow> w8 \<Rightarrow> w8" where
  "squares 0 b = 1"
| "squares (Suc n) b = (let s = times8 b b in times8 s (squares n s))"

definition subByte :: "w8 \<Rightarrow> w8" where
  "subByte b0 =
     (let b = squares 7 b0 in
      b XOR word_rotl 1 b XOR word_rotl 2 b XOR word_rotl 3 b XOR word_rotl 4 b XOR 0x63)"

definition xorBytes :: "w8 list \<Rightarrow> w8 list \<Rightarrow> w8 list" where
  "xorBytes xs ys = map2 (XOR) xs ys"

definition roundConstant :: "nat \<Rightarrow> w8" where "roundConstant i = (xtime ^^ (i - 1)) 1"

text \<open>The sixty words of the key schedule; a word is a list of four bytes.\<close>

definition nextKeyWord :: "w8 list list \<Rightarrow> w8 list" where
  "nextKeyWord ws =
     (let i = length ws; temp = ws ! (i - 1);
          temp' = (if i mod 8 = 0 then xorBytes (map subByte (tl temp @ [hd temp])) [roundConstant (i div 8), 0, 0, 0]
                   else if i mod 8 = 4 then map subByte temp else temp)
      in xorBytes (ws ! (i - 8)) temp')"

fun expandKey :: "nat \<Rightarrow> w8 list list \<Rightarrow> w8 list list" where
  "expandKey 0 ws = ws"
| "expandKey (Suc n) ws = expandKey n (ws @ [nextKeyWord ws])"

fun chunks :: "nat \<Rightarrow> nat \<Rightarrow> 'a list \<Rightarrow> 'a list list" where
  "chunks 0 k xs = []"
| "chunks (Suc n) k xs = take k xs # chunks n k (drop k xs)"

definition keySchedule :: "w8 list \<Rightarrow> w8 list list" where
  "keySchedule key = chunks 15 16 (concat (expandKey 52 (chunks 8 4 key)))"

text \<open>A block is its sixteen bytes, column by column.\<close>

definition shiftRows :: "w8 list \<Rightarrow> w8 list" where
  "shiftRows s = map (\<lambda>i. s ! (i mod 4 + 4 * ((i div 4 + i mod 4) mod 4))) [0..<16]"

definition mixColumn :: "w8 list \<Rightarrow> w8 list" where
  "mixColumn c =
     map (\<lambda>r. times8 2 (c ! r) XOR times8 3 (c ! ((r + 1) mod 4)) XOR c ! ((r + 2) mod 4) XOR c ! ((r + 3) mod 4)) [0..<4]"

definition mixColumns :: "w8 list \<Rightarrow> w8 list" where
  "mixColumns s = concat (map mixColumn (chunks 4 4 s))"

definition aesRound :: "w8 list \<Rightarrow> w8 list \<Rightarrow> w8 list" where
  "aesRound s k = xorBytes (mixColumns (shiftRows (map subByte s))) k"

definition encryptBlock :: "w8 list list \<Rightarrow> w8 list \<Rightarrow> w8 list" where
  "encryptBlock ks block =
     xorBytes (shiftRows (map subByte (foldl aesRound (xorBytes block (hd ks)) (butlast (tl ks))))) (last ks)"

subsection \<open>The mode\<close>

definition bigEndian :: "nat \<Rightarrow> nat \<Rightarrow> w8 list" where
  "bigEndian k n = map (\<lambda>i. word_of_nat (n div 256 ^ i)) (rev [0..<k])"

definition blockOf :: "w8 list \<Rightarrow> 128 word" where
  "blockOf bs = foldl (\<lambda>x b. push_bit 8 x OR ucast b) 0 bs"

definition bytesOfBlock :: "128 word \<Rightarrow> w8 list" where
  "bytesOfBlock x = map (\<lambda>i. ucast (drop_bit (8 * i) x)) (rev [0..<16])"

text \<open>The product of the field with \<open>2^128\<close> elements; the first coefficient is the highest bit.\<close>

fun ghashTimes :: "nat \<Rightarrow> 128 word \<Rightarrow> 128 word \<Rightarrow> 128 word" where
  "ghashTimes 0 x v = 0"
| "ghashTimes (Suc n) x v =
     (if bit x n then v else 0)
     XOR ghashTimes n x (if bit v 0 then drop_bit 1 v XOR push_bit 120 0xe1 else drop_bit 1 v)"

definition ghash :: "128 word \<Rightarrow> 128 word list \<Rightarrow> 128 word" where
  "ghash h blocks = foldl (\<lambda>y x. ghashTimes 128 (y XOR x) h) 0 blocks"

definition blockCount :: "w8 list \<Rightarrow> nat" where "blockCount bs = (length bs + 15) div 16"

definition paddedBlocks :: "w8 list \<Rightarrow> 128 word list" where
  "paddedBlocks bs = map blockOf (chunks (blockCount bs) 16 (bs @ replicate (16 * blockCount bs - length bs) 0))"

definition keyStream :: "w8 list list \<Rightarrow> w8 list \<Rightarrow> nat \<Rightarrow> w8 list" where
  "keyStream ks nonce n = concat (map (\<lambda>i. encryptBlock ks (nonce @ bigEndian 4 (i + 2))) [0..<n])"

definition counterMode :: "w8 list list \<Rightarrow> w8 list \<Rightarrow> w8 list \<Rightarrow> w8 list" where
  "counterMode ks nonce bs = xorBytes bs (keyStream ks nonce (blockCount bs))"

definition gcmTag :: "w8 list list \<Rightarrow> w8 list \<Rightarrow> w8 list \<Rightarrow> w8 list" where
  "gcmTag ks nonce ciphertext =
     (let h = blockOf (encryptBlock ks (replicate 16 0));
          s = ghash h (paddedBlocks ciphertext @ [word_of_nat (8 * length ciphertext)])
      in xorBytes (bytesOfBlock s) (encryptBlock ks (nonce @ bigEndian 4 1)))"

definition toBytes :: "string \<Rightarrow> w8 list" where "toBytes s = map (\<lambda>c. word_of_nat (byte c)) s"
definition ofBytes :: "w8 list \<Rightarrow> string" where "ofBytes bs = map (\<lambda>b. chr (unat b)) bs"

definition gcmNonceSize :: nat where "gcmNonceSize = 12"
definition gcmTagSize :: nat where "gcmTagSize = 16"

definition gcmSeal :: "string \<Rightarrow> string \<Rightarrow> string \<Rightarrow> string" where
  "gcmSeal key nonce plaintext =
     (let ks = keySchedule (toBytes key); c = counterMode ks (toBytes nonce) (toBytes plaintext)
      in ofBytes (c @ gcmTag ks (toBytes nonce) c))"

definition gcmOpen :: "string \<Rightarrow> string \<Rightarrow> string \<Rightarrow> string option" where
  "gcmOpen key nonce sealed =
     (if length sealed < gcmTagSize then None
      else
        let ks = keySchedule (toBytes key);
            c = toBytes (take (length sealed - gcmTagSize) sealed);
            tag = toBytes (drop (length sealed - gcmTagSize) sealed)
        in if tag = gcmTag ks (toBytes nonce) c then Some (ofBytes (counterMode ks (toBytes nonce) c)) else None)"

subsection \<open>Lengths\<close>

lemma length_xorBytes [simp]: "length (xorBytes xs ys) = min (length xs) (length ys)"
  by (simp add: xorBytes_def)

lemma length_chunks [simp]: "length (chunks n k xs) = n"
  by (induction n k xs rule: chunks.induct) simp_all

lemma chunks_lengths: "n * k \<le> length xs \<Longrightarrow> \<forall>c \<in> set (chunks n k xs). length c = k"
proof (induction n k xs rule: chunks.induct)
  case (1 k xs)
  then show ?case by simp
next
  case (2 n k xs)
  have len: "k + n * k \<le> length xs" using "2.prems" unfolding mult_Suc .
  then have "\<forall>c \<in> set (chunks n k (drop k xs)). length c = k" by (intro "2.IH") (simp add: le_diff_conv2)
  moreover have "length (take k xs) = k" using len by (simp add: min_def)
  ultimately show ?case by (simp only: chunks.simps list.set ball_simps)
qed

lemma nextKeyWord_length:
  assumes "8 \<le> length ws" and "\<forall>w \<in> set ws. length w = 4"
  shows "length (nextKeyWord ws) = 4"
proof -
  have "length (ws ! (length ws - 1)) = 4" "length (ws ! (length ws - 8)) = 4" using assms by auto
  then show ?thesis by (simp add: nextKeyWord_def Let_def)
qed

lemma expandKey_lengths:
  "8 \<le> length ws \<Longrightarrow> \<forall>w \<in> set ws. length w = 4 \<Longrightarrow>
     length (expandKey n ws) = length ws + n \<and> (\<forall>w \<in> set (expandKey n ws). length w = 4)"
proof (induction n ws rule: expandKey.induct)
  case (1 ws)
  then show ?case by simp
next
  case (2 n ws)
  then show ?case using nextKeyWord_length[of ws] by auto
qed

lemma length_concat_equal: "\<forall>w \<in> set ws. length w = k \<Longrightarrow> length (concat ws) = k * length ws"
  by (induction ws) simp_all

lemma keySchedule_lengths:
  assumes "length key = 32"
  shows "length (keySchedule key) = 15 \<and> (\<forall>k \<in> set (keySchedule key). length k = 16)"
proof -
  have "length (concat (expandKey 52 (chunks 8 4 key))) = 240"
    using expandKey_lengths[of "chunks 8 4 key" 52] chunks_lengths[of 8 4 key] assms
      length_concat_equal[of "expandKey 52 (chunks 8 4 key)" 4] by simp
  then show ?thesis using chunks_lengths[of 15 16 "concat (expandKey 52 (chunks 8 4 key))"] by (simp add: keySchedule_def)
qed

lemma length_shiftRows [simp]: "length (shiftRows s) = 16"
  by (simp add: shiftRows_def)

lemma encryptBlock_length:
  assumes "length key = 32" shows "length (encryptBlock (keySchedule key) b) = 16"
proof -
  have "keySchedule key \<noteq> []" using keySchedule_lengths[OF assms] by auto
  then show ?thesis using keySchedule_lengths[OF assms] last_in_set by (auto simp: encryptBlock_def)
qed

lemma gcmTag_length:
  "length key = 32 \<Longrightarrow> length (gcmTag (keySchedule key) nonce c) = 16"
  by (simp add: gcmTag_def Let_def bytesOfBlock_def encryptBlock_length)

lemma keyStream_length:
  assumes "length key = 32"
  shows "length (keyStream (keySchedule key) nonce n) = 16 * n"
proof -
  let ?blocks = "map (\<lambda>i. encryptBlock (keySchedule key) (nonce @ bigEndian 4 (i + 2))) [0..<n]"
  have "\<forall>w \<in> set ?blocks. length w = 16" by (simp add: encryptBlock_length[OF assms])
  then show ?thesis using length_concat_equal[of ?blocks 16] by (simp add: keyStream_def)
qed

subsection \<open>Opening what was sealed\<close>

lemma toBytes_ofBytes [simp]: "toBytes (ofBytes bs) = bs"
proof -
  have "unat b < 256" for b :: w8 using unsigned_less[of b] by simp
  then show ?thesis by (induction bs) (simp_all add: toBytes_def ofBytes_def byte_chr)
qed

lemma ofBytes_toBytes [simp]: "ofBytes (toBytes s) = s"
  by (induction s) (simp_all add: toBytes_def ofBytes_def unat_of_nat byte_bound chr_byte)

lemma length_toBytes [simp]: "length (toBytes s) = length s"
  by (simp add: toBytes_def)

lemma length_ofBytes [simp]: "length (ofBytes bs) = length bs"
  by (simp add: ofBytes_def)

lemma xorBytes_twice: "length xs \<le> length ks \<Longrightarrow> xorBytes (xorBytes xs ks) ks = xs"
proof (induction xs arbitrary: ks)
  case Nil
  then show ?case by (simp add: xorBytes_def)
next
  case (Cons x xs)
  then show ?case by (cases ks) (auto simp: xorBytes_def bit_word_eqI xor.assoc)
qed

lemma counterMode_length:
  "length key = 32 \<Longrightarrow> length (counterMode (keySchedule key) nonce bs) = length bs"
  by (simp add: counterMode_def keyStream_length blockCount_def)

lemma counterMode_twice:
  assumes "length key = 32"
  shows "counterMode (keySchedule key) nonce (counterMode (keySchedule key) nonce bs) = bs"
proof -
  have "length bs \<le> length (keyStream (keySchedule key) nonce (blockCount bs))"
    by (simp add: keyStream_length[OF assms] blockCount_def)
  moreover have "blockCount (counterMode (keySchedule key) nonce bs) = blockCount bs"
    by (simp add: blockCount_def counterMode_length[OF assms])
  ultimately show ?thesis using xorBytes_twice by (metis counterMode_def)
qed

lemma gcmSeal_length: "length key = 32 \<Longrightarrow> length (gcmSeal key nonce s) = length s + gcmTagSize"
  by (simp add: gcmSeal_def Let_def counterMode_length gcmTag_length gcmTagSize_def)

lemma ofBytes_append: "ofBytes (xs @ ys) = ofBytes xs @ ofBytes ys"
  by (simp add: ofBytes_def)

lemma gcmOpen_gcmSeal:
  assumes "length key = 32"
  shows "gcmOpen key nonce (gcmSeal key nonce s) = Some s"
proof -
  let ?ks = "keySchedule (toBytes key)"
  let ?c = "counterMode ?ks (toBytes nonce) (toBytes s)"
  have key: "length (toBytes key) = 32" using assms by simp
  have sealed: "gcmSeal key nonce s = ofBytes ?c @ ofBytes (gcmTag ?ks (toBytes nonce) ?c)"
    by (simp add: gcmSeal_def Let_def ofBytes_append)
  show ?thesis
    by (simp add: sealed gcmOpen_def Let_def gcmTag_length[OF key] gcmTagSize_def counterMode_length[OF key]
        counterMode_twice[OF key])
qed

text \<open>What is opened is what the holder of the key sealed, up to the tag.\<close>

lemma gcmOpen_tag:
  assumes "gcmOpen key nonce sealed = Some s" and "length key = 32"
  shows "sealed = gcmSeal key nonce s"
proof -
  let ?ks = "keySchedule (toBytes key)" and ?n = "length sealed - gcmTagSize"
  have key: "length (toBytes key) = 32" using assms(2) by simp
  have tag: "toBytes (drop ?n sealed) = gcmTag ?ks (toBytes nonce) (toBytes (take ?n sealed))"
    and s: "s = ofBytes (counterMode ?ks (toBytes nonce) (toBytes (take ?n sealed)))"
    using assms(1) by (auto simp: gcmOpen_def Let_def split: if_splits)
  have "gcmSeal key nonce s = ofBytes (toBytes (take ?n sealed) @ toBytes (drop ?n sealed))"
    by (simp add: gcmSeal_def Let_def s counterMode_twice[OF key] tag)
  then show ?thesis by (simp add: ofBytes_append)
qed

end
