(* ===== verification/OidcAttempt.thy ===== *)
theory OidcAttempt imports PasswordProof Cursors AesGcm begin

text \<open>
  An attempt to authenticate with an external provider, which the server keeps in a sealed cookie of the browser:
  \<^verbatim>\<open>newOIDCAttempt\<close>, \<^verbatim>\<open>sealOIDCAttempt\<close>, \<^verbatim>\<open>openOIDCAttempt\<close> and \<^verbatim>\<open>validOIDCAttempt\<close> of \<^verbatim>\<open>server/web/oidc.go\<close>.
  Random bytes are an argument, the source \<open>rnd\<close>, indexed like everything of the environment by the counter of calls.
\<close>

record oidc_attempt =
  attemptState :: string
  attemptNonce :: string
  attemptVerifier :: string
  attemptMode :: string
  attemptInvitationToken :: string
  attemptExpiresAt :: int

type_synonym entropy = "nat \<Rightarrow> nat \<Rightarrow> string option"

definition errInvalidOIDCAttempt :: go_error where
  "errInvalidOIDCAttempt = OpaqueError ''invalid OIDC attempt''"

definition oidcAttemptTTL :: duration where "oidcAttemptTTL = 10 * nanosecondsPerMinute"

subsection \<open>Random values\<close>

definition readRandom :: "entropy \<Rightarrow> nat \<Rightarrow> (world, go_error, string) eff" where
  "readRandom rnd n = (\<lambda>w.
     case rnd (w_tick w) n of
       None \<Rightarrow> (Inl (OpaqueError ''rand''), tick w)
     | Some bytes \<Rightarrow> (Inr bytes, tick w))"

definition randomOIDCValue :: "entropy \<Rightarrow> nat \<Rightarrow> (world, go_error, string) eff" where
  "randomOIDCValue rnd n =
     andThen (mapError (Wrapped ''read OIDC randomness'') (readRandom rnd n)) (\<lambda>bytes. ret (base64Encode bytes))"

definition newOIDCAttempt :: "env \<Rightarrow> entropy \<Rightarrow> string \<Rightarrow> (world, go_error, oidc_attempt) eff" where
  "newOIDCAttempt env rnd mode =
     andThen (randomOIDCValue rnd 32) (\<lambda>state.
     andThen (randomOIDCValue rnd 32) (\<lambda>nonce.
     andThen (randomOIDCValue rnd 48) (\<lambda>verifier.
     andThen (goNow env) (\<lambda>now.
     ret \<lparr>attemptState = state, attemptNonce = nonce, attemptVerifier = verifier, attemptMode = mode,
          attemptInvitationToken = [], attemptExpiresAt = unixSeconds (now + oidcAttemptTTL)\<rparr>))))"

subsection \<open>The JSON of an attempt\<close>

definition attemptFields :: "string list" where
  "attemptFields = [''state'', ''nonce'', ''verifier'', ''mode'', ''invitation_token'', ''expires_at'']"

definition marshalAttempt :: "oidc_attempt \<Rightarrow> string" where
  "marshalAttempt a =
     writeJson (JObject
       ([(''state'', JString (attemptState a)), (''nonce'', JString (attemptNonce a)),
         (''verifier'', JString (attemptVerifier a)), (''mode'', JString (attemptMode a))]
        @ (if attemptInvitationToken a = [] then [] else [(''invitation_token'', JString (attemptInvitationToken a))])
        @ [(''expires_at'', JNumber (formatInt (attemptExpiresAt a)))]))"

definition setAttemptField :: "string \<Rightarrow> json \<Rightarrow> oidc_attempt \<Rightarrow> oidc_attempt option" where
  "setAttemptField f v a =
     (case v of
        JNull \<Rightarrow> Some a
      | JNumber lit \<Rightarrow>
          if f = ''expires_at'' then map_option (\<lambda>n. a\<lparr>attemptExpiresAt := n\<rparr>) (parseInt64 lit) else None
      | JString s \<Rightarrow>
          if f = ''state'' then Some (a\<lparr>attemptState := s\<rparr>)
          else if f = ''nonce'' then Some (a\<lparr>attemptNonce := s\<rparr>)
          else if f = ''verifier'' then Some (a\<lparr>attemptVerifier := s\<rparr>)
          else if f = ''mode'' then Some (a\<lparr>attemptMode := s\<rparr>)
          else if f = ''invitation_token'' then Some (a\<lparr>attemptInvitationToken := s\<rparr>)
          else None
      | _ \<Rightarrow> None)"

fun setAttemptFields :: "(string \<times> json) list \<Rightarrow> oidc_attempt \<Rightarrow> oidc_attempt option" where
  "setAttemptFields [] a = Some a"
| "setAttemptFields ((k, v) # ms) a =
     (case matchField attemptFields k of
        None \<Rightarrow> setAttemptFields ms a
      | Some f \<Rightarrow> (case setAttemptField f v a of None \<Rightarrow> None | Some a' \<Rightarrow> setAttemptFields ms a'))"

definition zeroAttempt :: oidc_attempt where
  "zeroAttempt = \<lparr>attemptState = [], attemptNonce = [], attemptVerifier = [], attemptMode = [],
     attemptInvitationToken = [], attemptExpiresAt = 0\<rparr>"

definition unmarshalAttempt :: "string \<Rightarrow> oidc_attempt option" where
  "unmarshalAttempt s =
     (case parseJson s of
        Some (JObject ms) \<Rightarrow> setAttemptFields ms zeroAttempt
      | Some JNull \<Rightarrow> Some zeroAttempt
      | _ \<Rightarrow> None)"

subsection \<open>Sealing and opening\<close>

definition oidcAttemptEncryptionKey :: "string \<Rightarrow> string" where
  "oidcAttemptEncryptionKey secret = sha256 (''clinks:oidc-attempt:v1'' @ [chr 0] @ secret)"

definition sealOIDCAttempt :: "entropy \<Rightarrow> string \<Rightarrow> oidc_attempt \<Rightarrow> (world, go_error, string) eff" where
  "sealOIDCAttempt rnd secret a =
     (if length secret < 32 then fail errInvalidOIDCAttempt
      else
        andThen (mapError (Wrapped ''read OIDC sealing nonce'') (readRandom rnd gcmNonceSize)) (\<lambda>nonce.
        ret (base64Encode (nonce @ gcmSeal (oidcAttemptEncryptionKey secret) nonce (marshalAttempt a)))))"

definition validOIDCAttempt :: "oidc_attempt \<Rightarrow> time \<Rightarrow> bool" where
  "validOIDCAttempt a now =
     (if attemptState a = [] \<or> attemptNonce a = [] \<or> attemptVerifier a = [] then False
      else if attemptExpiresAt a \<le> unixSeconds now then False
      else if attemptMode a = ''login'' \<or> attemptMode a = ''link'' then attemptInvitationToken a = []
      else if attemptMode a = ''invite'' then trimSpace (attemptInvitationToken a) \<noteq> []
      else False)"

definition openOIDCAttempt :: "env \<Rightarrow> string \<Rightarrow> string \<Rightarrow> (world, go_error, oidc_attempt) eff" where
  "openOIDCAttempt env secret content =
     (if length secret < 32 then fail errInvalidOIDCAttempt
      else
        case base64Decode (trimSpace content) of
          None \<Rightarrow> fail (OpaqueError ''illegal base64 data'')
        | Some encoded \<Rightarrow>
            if length encoded < gcmNonceSize then fail errInvalidOIDCAttempt
            else
              case gcmOpen (oidcAttemptEncryptionKey secret) (take gcmNonceSize encoded) (drop gcmNonceSize encoded) of
                None \<Rightarrow> fail (OpaqueError ''cipher: message authentication failed'')
              | Some payload \<Rightarrow>
                  (case unmarshalAttempt payload of
                     None \<Rightarrow> fail (OpaqueError ''json'')
                   | Some a \<Rightarrow>
                       andThen (goNow env) (\<lambda>now.
                       if \<not> validOIDCAttempt a now then fail errInvalidOIDCAttempt else ret a)))"

end
