(* ===== verification/GoogleOidc.thy ===== *)
theory GoogleOidc imports AuthService begin

text \<open>
  The client of Google's OpenID Connect provider, \<^verbatim>\<open>server/auth/google_oidc.go\<close>. The libraries it calls,
  \<^verbatim>\<open>golang.org/x/oauth2\<close> and \<^verbatim>\<open>github.com/coreos/go-oidc\<close>, are the fields of \<open>google_ports\<close>; what they answer over
  the network depends on the instant of the call.
\<close>

record oauth_token =
  accessToken :: string
  extraIDToken :: "string option"

text \<open>An identity token that has been verified, with the claims that \<^verbatim>\<open>Claims(&claims)\<close> decodes, if they decode.\<close>

record id_token =
  idNonce :: string
  idSubject :: string
  idAccessTokenHash :: string
  idClaims :: "(string \<times> bool) option"

record google_ports =
  authCodeURL :: "string \<Rightarrow> string \<Rightarrow> string \<Rightarrow> string \<Rightarrow> string \<Rightarrow> string"
  oauthExchange :: "nat \<Rightarrow> string \<Rightarrow> string \<Rightarrow> go_error + oauth_token option"
  discoverProvider :: "nat \<Rightarrow> string \<Rightarrow> go_error option"
  verifyIDToken :: "nat \<Rightarrow> string \<Rightarrow> string \<Rightarrow> go_error + id_token"
  verifyAccessToken :: "id_token \<Rightarrow> string \<Rightarrow> go_error option"

record google_config =
  googleClientID :: string
  googleClientSecret :: string
  googleCallbackURL :: string
  googleTimeout :: duration

text \<open>The verifier, once the provider has been discovered, is kept: \<open>clientVerifier\<close>.\<close>

record google_oidc =
  clientID :: string
  clientSecret :: string
  clientRedirectURL :: string
  clientTimeout :: duration
  clientVerifier :: bool

definition googleIssuer :: string where "googleIssuer = ''https://accounts.google.com''"
definition defaultOIDCTimeout :: duration where "defaultOIDCTimeout = 15 * nanosecondsPerSecond"

definition ErrOIDCDisabled :: go_error where "ErrOIDCDisabled = OpaqueError ''google oidc client is not enabled''"
definition ErrMissingIDToken :: go_error where
  "ErrMissingIDToken = OpaqueError ''google response does not contain an id token''"
definition ErrInvalidTokenClaims :: go_error where
  "ErrInvalidTokenClaims = OpaqueError ''invalid google id token claims''"

subsection \<open>Configuration\<close>

definition validateGoogleOIDCConfig :: "ports \<Rightarrow> google_config \<Rightarrow> unit result" where
  "validateGoogleOIDCConfig p config =
     (let i = trimSpace (googleClientID config); secret = trimSpace (googleClientSecret config);
          callback = trimSpace (googleCallbackURL config) in
      if i = [] \<and> secret = [] \<and> callback = [] then Inr ()
      else if i = [] then Inl (OpaqueError ''google oidc client id is required when google oidc is configured'')
      else if secret = [] then Inl (OpaqueError ''google oidc client secret is required when google oidc is configured'')
      else if callback = [] then Inl (OpaqueError ''google oidc callback url is required when google oidc is configured'')
      else
        case urlParse p callback of
          None \<Rightarrow> Inl (Wrapped ''parse google oidc callback url'' (OpaqueError ''url''))
        | Some u \<Rightarrow>
            if urlScheme u = [] then Inl (OpaqueError ''google oidc callback url must be absolute (include http:// or https://)'')
            else if urlScheme u \<noteq> ''http'' \<and> urlScheme u \<noteq> ''https''
            then Inl (OpaqueError ''google oidc callback url scheme must be http or https'')
            else if urlHost u = [] then Inl (OpaqueError ''google oidc callback url must contain a valid hostname'')
            else if urlUser u \<noteq> None then Inl (OpaqueError ''google oidc callback url must not contain user information'')
            else if urlFragment u \<noteq> [] then Inl (OpaqueError ''google oidc callback url must not contain a fragment'')
            else Inr ())"

definition NewGoogleOIDC :: "ports \<Rightarrow> google_config \<Rightarrow> google_oidc result" where
  "NewGoogleOIDC p config =
     (case validateGoogleOIDCConfig p config of
        Inl err \<Rightarrow> Inl err
      | Inr _ \<Rightarrow>
          let i = trimSpace (googleClientID config) in
          if i = []
          then Inr \<lparr>clientID = [], clientSecret = [], clientRedirectURL = [], clientTimeout = 0, clientVerifier = False\<rparr>
          else Inr \<lparr>clientID = i, clientSecret = googleClientSecret config,
                    clientRedirectURL = trimSpace (googleCallbackURL config),
                    clientTimeout = (if googleTimeout config \<le> 0 then defaultOIDCTimeout else googleTimeout config),
                    clientVerifier = False\<rparr>)"

definition oidcEnabled :: "google_oidc \<Rightarrow> bool" where "oidcEnabled client \<longleftrightarrow> clientID client \<noteq> []"

definition AuthorizationURL :: "google_ports \<Rightarrow> google_oidc \<Rightarrow> string \<Rightarrow> string \<Rightarrow> string \<Rightarrow> string" where
  "AuthorizationURL gp client state nonce verifier =
     (if \<not> oidcEnabled client then []
      else authCodeURL gp (clientID client) (clientRedirectURL client) state nonce verifier)"

subsection \<open>The exchange of a code\<close>

text \<open>The client and the world; a call of a library is one step of the world.\<close>

type_synonym 'a exchange = "(google_oidc \<times> world, go_error, 'a) eff"

definition libraryCall :: "(nat \<Rightarrow> go_error + 'a) \<Rightarrow> 'a exchange" where
  "libraryCall answer = (\<lambda>(client, w). (answer (w_tick w), (client, tick w)))"

definition extractIDToken :: "oauth_token option \<Rightarrow> string result" where
  "extractIDToken token =
     (case token of
        None \<Rightarrow> Inl ErrMissingIDToken
      | Some t \<Rightarrow>
          (case extraIDToken t of
             None \<Rightarrow> Inl ErrMissingIDToken
           | Some raw \<Rightarrow> if trimSpace raw = [] then Inl ErrMissingIDToken else Inr raw))"

definition getVerifier :: "google_ports \<Rightarrow> unit exchange" where
  "getVerifier gp = (\<lambda>(client, w).
     if clientVerifier client then (Inr (), (client, w))
     else case discoverProvider gp (w_tick w) googleIssuer of
       Some err \<Rightarrow> (Inl (Wrapped ''discover google oidc provider'' err), (client, tick w))
     | None \<Rightarrow> (Inr (), (client\<lparr>clientVerifier := True\<rparr>, tick w)))"

definition Exchange :: "env \<Rightarrow> ports \<Rightarrow> google_ports \<Rightarrow> string \<Rightarrow> string \<Rightarrow> string \<Rightarrow> external_identity exchange" where
  "Exchange env p gp code verifier nonce = (\<lambda>s.
     if \<not> oidcEnabled (fst s) then (Inl ErrOIDCDisabled, s)
     else
       andThen (mapError (Wrapped ''exchange google authorization code'') (libraryCall (\<lambda>n. oauthExchange gp n code verifier)))
         (\<lambda>token.
       andThen (liftSum (extractIDToken token)) (\<lambda>rawIDToken.
       andThen (getVerifier gp) (\<lambda>_.
       andThen (mapError (Wrapped ''verify google id token'')
         (libraryCall (\<lambda>n. verifyIDToken gp n (clientID (fst s)) rawIDToken))) (\<lambda>idToken.
       if idNonce idToken \<noteq> nonce then fail ErrInvalidTokenClaims
       else if idSubject idToken = [] then fail ErrInvalidTokenClaims
       else
         case (if idAccessTokenHash idToken = [] then None
               else verifyAccessToken gp idToken (accessToken (the token))) of
           Some err \<Rightarrow> fail (Wrapped ''verify google access token hash'' err)
         | None \<Rightarrow>
             (case idClaims idToken of
                None \<Rightarrow> fail (Wrapped ''decode google id token claims'' (OpaqueError ''json''))
              | Some (claimedEmail, emailVerified) \<Rightarrow>
                  if \<not> emailVerified \<or> trimSpace claimedEmail = [] then fail ErrInvalidTokenClaims
                  else
                    case ParseEmail env p claimedEmail of
                      Inl err \<Rightarrow> fail (Wrapped ''parse google email'' err)
                    | Inr email \<Rightarrow>
                        ret \<lparr>identityIssuer = googleIssuer, identitySubject = idSubject idToken,
                             identityEmail = email, identityUserID = []\<rparr>))))) s)"

end
