(* ===== verification/SessionHandlers.thy ===== *)
theory SessionHandlers imports PasswordProof begin

text \<open>
  The RPCs of sessions and invitations, \<^verbatim>\<open>server/web/session_handlers.go\<close>, and those that need no session,
  \<^verbatim>\<open>server/web/localization_handlers.go\<close>. A request is its headers and its message. The interceptor of the session
  is part of \<open>requireSession\<close>.
\<close>

subsection \<open>Requests\<close>

record pb_credentials_request =
  crEmail :: string
  crPassword :: string

record pb_register_request =
  rrEmail :: string
  rrPassword :: string
  rrTenantName :: string
  rrLocale :: string

record pb_create_invitation_request =
  ciEmail :: string
  ciRoleId :: string

record pb_accept_invitation_request =
  aiToken :: string
  aiEmail :: string
  aiPassword :: string
  aiLocale :: string

text \<open>The call of a service that may fail, for a handler that only maps its result.\<close>

definition serviceCall :: "env \<Rightarrow> server \<Rightarrow> header \<Rightarrow> (world, go_error, 'a) eff \<Rightarrow> (served, connect_error, 'a) eff" where
  "serviceCall env srv h m = localized env srv h (onWorld m)"

subsection \<open>Credentials\<close>

definition loginWithCredentials ::
  "env \<Rightarrow> server \<Rightarrow> header \<Rightarrow> pb_credentials_request \<Rightarrow> string
    \<Rightarrow> (string \<Rightarrow> string \<Rightarrow> (world, go_error, session) eff) \<Rightarrow> bool \<Rightarrow> (served, connect_error, pb_session response) eff" where
  "loginWithCredentials env srv h msg scope login setVerifiedCookie =
     (let email = crEmail msg; limiterKey = passwordRateLimitKey env scope email in
      andThen (limiterAllow env limiterKey) (\<lambda>(allowed, retryAfter).
      if \<not> allowed then rateLimitError env srv h retryAfter
      else
        andThen (serviceCall env srv h (login email (crPassword msg))) (\<lambda>session.
        andThen (limiterReset limiterKey) (\<lambda>_.
        andThen (sessionResponse env srv h (ret session)) (\<lambda>resp.
        if setVerifiedCookie \<and> serverOIDCSecret srv \<noteq> []
        then andThen (serviceCall env srv h (passwordVerifiedCookie env srv (sessionToken session))) (\<lambda>c.
             ret (resp\<lparr>responseCookies := responseCookies resp @ [c]\<rparr>))
        else ret resp)))))"

definition Login :: "env \<Rightarrow> ports \<Rightarrow> server \<Rightarrow> header \<Rightarrow> pb_credentials_request \<Rightarrow> (served, connect_error, pb_session response) eff" where
  "Login env p srv h msg = loginWithCredentials env srv h msg ''user'' (Auth_Login env p (serverAuth srv)) True"

definition LoginSuperAdmin ::
  "env \<Rightarrow> ports \<Rightarrow> server \<Rightarrow> header \<Rightarrow> pb_credentials_request \<Rightarrow> (served, connect_error, pb_session response) eff" where
  "LoginSuperAdmin env p srv h msg =
     loginWithCredentials env srv h msg ''superadmin'' (Auth_LoginSuperAdmin env p (serverAuth srv)) False"

definition Register ::
  "env \<Rightarrow> ports \<Rightarrow> server \<Rightarrow> header \<Rightarrow> pb_register_request \<Rightarrow> (served, connect_error, pb_session response) eff" where
  "Register env p srv h msg =
     sessionResponse env srv h
       (Auth_Register env p (serverAuth srv) (rrEmail msg) (rrPassword msg) (rrTenantName msg)
         (requestMessageLocale env srv (rrLocale msg) h))"

subsection \<open>Sessions\<close>

definition loggedOut :: "env \<Rightarrow> server \<Rightarrow> header \<Rightarrow> (served, connect_error, unit response) eff" where
  "loggedOut env srv h =
     andThen (serviceCall env srv h (sessionCookie env srv [])) (\<lambda>c.
     if serverOIDCSecret srv \<noteq> []
     then andThen (serviceCall env srv h (passwordVerifiedCookie env srv [])) (\<lambda>v.
          ret \<lparr>responseMessage = (), responseCookies = [c, v]\<rparr>)
     else ret \<lparr>responseMessage = (), responseCookies = [c]\<rparr>)"

definition Logout :: "env \<Rightarrow> ports \<Rightarrow> server \<Rightarrow> header \<Rightarrow> (served, connect_error, unit response) eff" where
  "Logout env p srv h = (\<lambda>s.
     case andThen (requireSession env p srv h) (\<lambda>session. onWorld (Auth_Logout env session)) s of
       (Inl err, s') \<Rightarrow> if \<not> isSessionInvalid err then localizedError env srv h err s' else loggedOut env srv h s'
     | (Inr _, s') \<Rightarrow> loggedOut env srv h s')"

definition GetSession :: "env \<Rightarrow> ports \<Rightarrow> server \<Rightarrow> header \<Rightarrow> (served, connect_error, pb_session response) eff" where
  "GetSession env p srv h =
     andThen (authenticateSession env p srv h) (\<lambda>session. ret (newResponse (sessionMessage session)))"

definition SwitchTenant ::
  "env \<Rightarrow> ports \<Rightarrow> server \<Rightarrow> header \<Rightarrow> string \<Rightarrow> (served, connect_error, pb_session response) eff" where
  "SwitchTenant env p srv h tenantId =
     andThen (authenticateSession env p srv h) (\<lambda>session.
     sessionResponse env srv h (Auth_SwitchTenant env p (serverAuth srv) session tenantId))"

subsection \<open>Invitations\<close>

definition CreateInvitationRPC ::
  "env \<Rightarrow> ports \<Rightarrow> server \<Rightarrow> header \<Rightarrow> pb_create_invitation_request \<Rightarrow> (served, connect_error, pb_invitation response) eff" where
  "CreateInvitationRPC env p srv h msg =
     andThen (authenticateSession env p srv h) (\<lambda>session.
     andThen (serviceCall env srv h (Auth_CreateInvitation env p (serverAuth srv) session (ciEmail msg) (ciRoleId msg)))
       (\<lambda>invitation.
     andThen (serviceCall env srv h (pbInvitationMessage env invitation)) (\<lambda>m. ret (newResponse m))))"

definition AcceptInvitationRPC ::
  "env \<Rightarrow> ports \<Rightarrow> server \<Rightarrow> header \<Rightarrow> pb_accept_invitation_request \<Rightarrow> (served, connect_error, pb_session response) eff" where
  "AcceptInvitationRPC env p srv h msg =
     sessionResponse env srv h
       (Auth_AcceptInvitation env p (serverAuth srv) (aiToken msg) (aiEmail msg) (aiPassword msg)
         (requestMessageLocale env srv (aiLocale msg) h))"

subsection \<open>Public texts\<close>

definition GetLanguages :: "env \<Rightarrow> server \<Rightarrow> header \<Rightarrow> (served, connect_error, pb_language list response) eff" where
  "GetLanguages env srv h =
     andThen (serviceCall env srv h (Translations_ActiveLanguages env)) (\<lambda>languages.
     ret (newResponse (languageMessages languages)))"

record pb_translations_response =
  trLocale :: string
  trTranslations :: "pb_translation list"

definition GetTranslations ::
  "env \<Rightarrow> server \<Rightarrow> header \<Rightarrow> string \<Rightarrow> (served, connect_error, pb_translations_response response) eff" where
  "GetTranslations env srv h applicationScope =
     andThen (localized env srv h (liftSum (parseApplicationScope (unicode env) applicationScope))) (\<lambda>scope.
     andThen (serviceCall env srv h (Translations_TranslationBundle env (requestLocale env srv h) scope)) (\<lambda>bundle.
     ret (newResponse \<lparr>trLocale = bundleLocale bundle, trTranslations = translationMessages (bundleTranslations bundle)\<rparr>)))"

subsection \<open>Probes\<close>

text \<open>\<^verbatim>\<open>GET /healthz\<close> and \<^verbatim>\<open>GET /readyz\<close> as their status; the database is asked within a time limit, of which the
  environment decides.\<close>

definition health :: int where "health = 200"

definition readyStatus :: "env \<Rightarrow> world \<Rightarrow> int \<times> world" where
  "readyStatus env w = (case Ready env w of (Inl _, w') \<Rightarrow> (503, w') | (Inr _, w') \<Rightarrow> (200, w'))"

end
