(* ===== verification/AdminHandlers.thy ===== *)
theory AdminHandlers imports SessionHandlers begin

text \<open>
  The RPCs of administration: \<^verbatim>\<open>server/web/admin_handlers.go\<close> and
  \<^verbatim>\<open>server/web/localization_management_handlers.go\<close> for the super administrator,
  \<^verbatim>\<open>server/web/tenant_management_handlers.go\<close> for the members of a tenant. The record of a request has the fields
  of its message; what all lists share is the record \<open>pb_list\<close>.
\<close>

subsection \<open>Requests\<close>

record 's pb_list =
  listSearch :: string
  listSort :: 's
  listDirection :: pb_direction
  listCursor :: string
  listPageSize :: nat

record pb_list_languages = "pb_sort2 pb_list" + llActive :: "bool option"
record pb_list_overrides = "pb_sort2 pb_list" + loLocale :: string loApplicationScope :: string
record pb_list_users = "pb_sort2 pb_list" + luGlobalRole :: pb_global_role
record pb_list_tenant_invitations = "pb_invitation_sort pb_list" + liStatus :: pb_invitation_status
record pb_list_invitations = pb_list_tenant_invitations + liTenantId :: string
record pb_list_memberships = "pb_sort2 pb_list" + lmRoleId :: string lmStatus :: pb_membership_status
record pb_list_roles = "pb_sort2 pb_list" + lrKind :: pb_role_kind

record pb_update_tenant_request =
  utTenantId :: string
  utName :: string
  utRevision :: nat

record pb_language_request =
  lrCode :: string
  lrName :: string
  lrIsActive :: bool
  lrRevision :: nat

record pb_delete_override_request =
  doLocale :: string
  doApplicationScope :: string
  doKey :: string
  doRevision :: nat

record pb_update_membership_request =
  umMembershipId :: string
  umRoleId :: string
  umStatus :: pb_membership_status
  umRevision :: nat

record pb_role_request =
  rqRoleId :: string
  rqName :: string
  rqPermissions :: "string list"
  rqRevision :: nat

text \<open>The answer to a list: the messages and the cursor of the next page.\<close>

definition pageResponse :: "('a list \<Rightarrow> 'm list) \<Rightarrow> 'a page \<Rightarrow> ('m list \<times> string) response" where
  "pageResponse messages page = newResponse (messages (pageItems page), pageNextCursor page)"

text \<open>The sort key and the direction of a list, which every list handler reads first.\<close>

definition listOrder ::
  "env \<Rightarrow> server \<Rightarrow> header \<Rightarrow> ('s \<Rightarrow> 'k option) \<Rightarrow> sort_direction \<Rightarrow> ('s, 'more) pb_list_scheme
    \<Rightarrow> (served, connect_error, 'k \<times> sort_direction) eff" where
  "listOrder env srv h sortOf dflt msg =
     localized env srv h
       (case (sortOf (listSort msg), sortDirection (listDirection msg) dflt) of
          (Some k, Some d) \<Rightarrow> ret (k, d)
        | _ \<Rightarrow> fail (newError ErrorValidation))"

subsection \<open>Tenants\<close>

definition ListTenantsRPC ::
  "env \<Rightarrow> ports \<Rightarrow> server \<Rightarrow> header \<Rightarrow> pb_sort2 pb_list \<Rightarrow> (served, connect_error, (pb_tenant list \<times> string) response) eff" where
  "ListTenantsRPC env p srv h msg =
     andThen (authorizeSuperAdmin env p srv h) (\<lambda>_.
     andThen (listOrder env srv h tenantSort SortAscending msg) (\<lambda>(key, direction).
     andThen (serviceCall env srv h (Admin_Tenants env p
       \<lparr>tfSearch = listSearch msg, tfSort = key, tfDirection = direction, tfCursor = listCursor msg,
        tfLimit = int (listPageSize msg)\<rparr>)) (\<lambda>page.
     ret (pageResponse (map tenantMessage) page))))"

definition CreateTenantRPC ::
  "env \<Rightarrow> ports \<Rightarrow> server \<Rightarrow> header \<Rightarrow> string \<Rightarrow> (served, connect_error, pb_tenant response) eff" where
  "CreateTenantRPC env p srv h name =
     andThen (authorizeSuperAdmin env p srv h) (\<lambda>usr.
     andThen (serviceCall env srv h (Admin_CreateTenant env name (userID usr))) (\<lambda>t.
     ret (newResponse (tenantMessage t))))"

definition UpdateTenantRPC ::
  "env \<Rightarrow> ports \<Rightarrow> server \<Rightarrow> header \<Rightarrow> pb_update_tenant_request \<Rightarrow> (served, connect_error, pb_tenant response) eff" where
  "UpdateTenantRPC env p srv h msg =
     andThen (authorizeSuperAdmin env p srv h) (\<lambda>usr.
     andThen (serviceCall env srv h (Admin_UpdateTenant env
       \<lparr>tenantID = utTenantId msg, tenantName = utName msg, tenantRevision = utRevision msg, tenantCreatedAt = zeroTime,
        tenantUpdatedAt = zeroTime\<rparr> (userID usr))) (\<lambda>t.
     ret (newResponse (tenantMessage t))))"

subsection \<open>Languages and translations\<close>

definition ListManagedLanguages ::
  "env \<Rightarrow> ports \<Rightarrow> server \<Rightarrow> header \<Rightarrow> pb_list_languages \<Rightarrow> (served, connect_error, (pb_language list \<times> string) response) eff" where
  "ListManagedLanguages env p srv h msg =
     andThen (authorizeSuperAdmin env p srv h) (\<lambda>_.
     andThen (listOrder env srv h languageSort SortAscending msg) (\<lambda>(key, direction).
     andThen (serviceCall env srv h (Admin_Languages env
       \<lparr>lfSearch = listSearch msg, lfActive = llActive msg, lfSort = key, lfDirection = direction,
        lfCursor = listCursor msg, lfLimit = int (listPageSize msg)\<rparr>)) (\<lambda>page.
     ret (pageResponse languageMessages page))))"

definition saveLanguage ::
  "env \<Rightarrow> ports \<Rightarrow> server \<Rightarrow> header \<Rightarrow> pb_language_request \<Rightarrow> nat \<Rightarrow> (served, connect_error, pb_language response) eff" where
  "saveLanguage env p srv h msg revision =
     andThen (authorizeSuperAdmin env p srv h) (\<lambda>usr.
     andThen (serviceCall env srv h (Admin_SaveLanguage env
       \<lparr>languageCode = newLocale (unicode env) (lrCode msg), languageName = lrName msg, isDefaultLanguage = False,
        isActiveLanguage = lrIsActive msg, languageRevision = revision, languageCreatedAt = zeroTime,
        languageUpdatedAt = zeroTime\<rparr> (userID usr))) (\<lambda>l.
     ret (newResponse (hd (languageMessages [l])))))"

text \<open>The request of \<^verbatim>\<open>CreateLanguage\<close> has no revision.\<close>

definition CreateLanguage ::
  "env \<Rightarrow> ports \<Rightarrow> server \<Rightarrow> header \<Rightarrow> pb_language_request \<Rightarrow> (served, connect_error, pb_language response) eff" where
  "CreateLanguage env p srv h msg = saveLanguage env p srv h msg 0"

definition UpdateLanguage ::
  "env \<Rightarrow> ports \<Rightarrow> server \<Rightarrow> header \<Rightarrow> pb_language_request \<Rightarrow> (served, connect_error, pb_language response) eff" where
  "UpdateLanguage env p srv h msg = saveLanguage env p srv h msg (lrRevision msg)"

definition UpsertTranslationOverrideRPC ::
  "env \<Rightarrow> ports \<Rightarrow> server \<Rightarrow> header \<Rightarrow> pb_override option \<Rightarrow> (served, connect_error, pb_override response) eff" where
  "UpsertTranslationOverrideRPC env p srv h override0 =
     andThen (authorizeSuperAdmin env p srv h) (\<lambda>usr.
     case override0 of
       None \<Rightarrow> localizedError env srv h (newError ErrorValidation)
     | Some override \<Rightarrow>
         andThen (localized env srv h (liftSum (parseApplicationScope (unicode env) (pbTranslationScope override)))) (\<lambda>scope.
         andThen (serviceCall env srv h (Admin_SaveTranslationOverride env
           \<lparr>translationLocale = newLocale (unicode env) (pbTranslationLocale override), translationScope = scope,
            translationKey = pbTranslationKey override, translationValue = pbTranslationValue override,
            translationRevision = pbOverrideRevision override, translationCreatedAt = zeroTime,
            translationUpdatedAt = zeroTime\<rparr> (userID usr))) (\<lambda>t.
         ret (newResponse (translationOverrideMessage t)))))"

definition ListTranslationOverridesRPC ::
  "env \<Rightarrow> ports \<Rightarrow> server \<Rightarrow> header \<Rightarrow> pb_list_overrides
    \<Rightarrow> (served, connect_error, (pb_override list \<times> string) response) eff" where
  "ListTranslationOverridesRPC env p srv h msg =
     andThen (authorizeSuperAdmin env p srv h) (\<lambda>_.
     andThen (listOrder env srv h translationSort SortAscending msg) (\<lambda>(key, direction).
     andThen (if loLocale msg = [] then ret None
              else andThen (localized env srv h (liftSum (parseLocale (unicode env) (loLocale msg)))) (\<lambda>l. ret (Some l))) (\<lambda>loc.
     andThen (if loApplicationScope msg = [] then ret None
              else andThen (localized env srv h (liftSum (parseApplicationScope (unicode env) (loApplicationScope msg))))
                     (\<lambda>c. ret (Some c))) (\<lambda>scope.
     andThen (serviceCall env srv h (Admin_TranslationOverrides env p
       \<lparr>xfSearch = listSearch msg, xfLocale = loc, xfScope = scope, xfSort = key, xfDirection = direction,
        xfCursor = listCursor msg, xfLimit = int (listPageSize msg)\<rparr>)) (\<lambda>page.
     ret (pageResponse (map translationOverrideMessage) page))))))"

definition DeleteTranslationOverrideRPC ::
  "env \<Rightarrow> ports \<Rightarrow> server \<Rightarrow> header \<Rightarrow> pb_delete_override_request \<Rightarrow> (served, connect_error, unit response) eff" where
  "DeleteTranslationOverrideRPC env p srv h msg =
     andThen (authorizeSuperAdmin env p srv h) (\<lambda>usr.
     andThen (localized env srv h (liftSum (parseApplicationScope (unicode env) (doApplicationScope msg)))) (\<lambda>scope.
     andThen (serviceCall env srv h (Admin_DeleteTranslationOverride env
       \<lparr>translationLocale = newLocale (unicode env) (doLocale msg), translationScope = scope, translationKey = doKey msg,
        translationValue = [], translationRevision = doRevision msg, translationCreatedAt = zeroTime,
        translationUpdatedAt = zeroTime\<rparr> (userID usr))) (\<lambda>_.
     ret (newResponse ()))))"

subsection \<open>Audit log, users, invitations, counters\<close>

definition auditMessages ::
  "env \<Rightarrow> server \<Rightarrow> header \<Rightarrow> audit_event list \<Rightarrow> (world, go_error, pb_audit_event list) eff" where
  "auditMessages env srv h events = mapEff (auditMessage env (requestLocale env srv h)) events"

definition ListAuditEventsRPC ::
  "env \<Rightarrow> ports \<Rightarrow> server \<Rightarrow> header \<Rightarrow> pb_list_audit_events
    \<Rightarrow> (served, connect_error, (pb_audit_event list \<times> string) response) eff" where
  "ListAuditEventsRPC env p srv h msg =
     andThen (authorizeSuperAdmin env p srv h) (\<lambda>_.
     case sortDirection (laDirection msg) SortDescending of
       None \<Rightarrow> localizedError env srv h (newError ErrorValidation)
     | Some direction \<Rightarrow>
         if laSort msg \<noteq> AuditSortUnspecified \<and> laSort msg \<noteq> AuditSortOccurredAt
         then localizedError env srv h (newError ErrorValidation)
         else
           andThen (localized env srv h (liftSum (auditFilter p msg))) (\<lambda>f.
           andThen (serviceCall env srv h (Admin_AuditEvents env p (Some (f\<lparr>afDirection := direction\<rparr>)))) (\<lambda>page.
           andThen (serviceCall env srv h (auditMessages env srv h (pageItems page))) (\<lambda>ms.
           ret (newResponse (ms, pageNextCursor page))))))"

definition ListUsersRPC ::
  "env \<Rightarrow> ports \<Rightarrow> server \<Rightarrow> header \<Rightarrow> pb_list_users \<Rightarrow> (served, connect_error, (pb_user_summary list \<times> string) response) eff" where
  "ListUsersRPC env p srv h msg =
     andThen (authorizeSuperAdmin env p srv h) (\<lambda>_.
     andThen (listOrder env srv h userSort SortAscending msg) (\<lambda>(key, direction).
     andThen (serviceCall env srv h (Users_ListUsers env p
       \<lparr>ufSearch = listSearch msg,
        ufGlobalRole = (if luGlobalRole msg \<noteq> PbRoleUnspecified then Some (domainGlobalRole (luGlobalRole msg)) else None),
        ufSort = key, ufDirection = direction, ufCursor = listCursor msg, ufLimit = int (listPageSize msg)\<rparr>)) (\<lambda>page.
     ret (pageResponse userSummaryMessages page))))"

definition GetUserRPC ::
  "env \<Rightarrow> ports \<Rightarrow> server \<Rightarrow> header \<Rightarrow> string \<Rightarrow> (served, connect_error, pb_user_detail response) eff" where
  "GetUserRPC env p srv h uid =
     andThen (authorizeSuperAdmin env p srv h) (\<lambda>_.
     andThen (serviceCall env srv h (Users_GetUser env uid)) (\<lambda>detail.
     ret (newResponse (userDetailMessage detail))))"

definition invitationsResponse ::
  "env \<Rightarrow> server \<Rightarrow> header \<Rightarrow> invitation page \<Rightarrow> (served, connect_error, (pb_invitation list \<times> string) response) eff" where
  "invitationsResponse env srv h page =
     andThen (serviceCall env srv h (mapEff (pbInvitationMessage env) (pageItems page))) (\<lambda>ms.
     ret (newResponse (ms, pageNextCursor page)))"

definition ListInvitationsRPC ::
  "env \<Rightarrow> ports \<Rightarrow> server \<Rightarrow> header \<Rightarrow> pb_list_invitations
    \<Rightarrow> (served, connect_error, (pb_invitation list \<times> string) response) eff" where
  "ListInvitationsRPC env p srv h msg =
     andThen (authorizeSuperAdmin env p srv h) (\<lambda>_.
     andThen (listOrder env srv h invitationSort SortDescending msg) (\<lambda>(key, direction).
     andThen (serviceCall env srv h (Admin_ListInvitations env p
       \<lparr>ifSearch = listSearch msg, ifTenantID = optionalText (liTenantId msg), ifStatus = domainInvitationStatus (liStatus msg),
        ifSort = key, ifDirection = direction, ifCursor = listCursor msg, ifLimit = int (listPageSize msg)\<rparr>)) (\<lambda>page.
     invitationsResponse env srv h page)))"

definition RevokeInvitationRPC :: "env \<Rightarrow> ports \<Rightarrow> server \<Rightarrow> header \<Rightarrow> string \<Rightarrow> (served, connect_error, unit response) eff" where
  "RevokeInvitationRPC env p srv h invitationId =
     andThen (authorizeSuperAdmin env p srv h) (\<lambda>usr.
     andThen (serviceCall env srv h (Admin_RevokeInvitation env invitationId (userID usr))) (\<lambda>_.
     ret (newResponse ())))"

record pb_system_stats =
  pbUserCount :: nat
  pbTenantCount :: nat
  pbPendingInvitationCount :: nat
  pbActiveLanguageCount :: nat

definition GetSystemStats :: "env \<Rightarrow> ports \<Rightarrow> server \<Rightarrow> header \<Rightarrow> (served, connect_error, pb_system_stats response) eff" where
  "GetSystemStats env p srv h =
     andThen (authorizeSuperAdmin env p srv h) (\<lambda>_.
     andThen (serviceCall env srv h (Stats env)) (\<lambda>stats.
     ret (newResponse \<lparr>pbUserCount = uint32 (userCount stats), pbTenantCount = uint32 (tenantCount stats),
                        pbPendingInvitationCount = uint32 (pendingInvitationCount stats),
                        pbActiveLanguageCount = uint32 (activeLanguageCount stats)\<rparr>)))"

subsection \<open>The control plane of a tenant\<close>

definition UpdateCurrentTenantRPC ::
  "env \<Rightarrow> ports \<Rightarrow> server \<Rightarrow> header \<Rightarrow> string \<Rightarrow> nat \<Rightarrow> (served, connect_error, pb_tenant response) eff" where
  "UpdateCurrentTenantRPC env p srv h name revision =
     andThen (authenticateSession env p srv h) (\<lambda>session.
     andThen (serviceCall env srv h (Access_UpdateCurrentTenant env session name revision)) (\<lambda>t.
     ret (newResponse (tenantMessage t))))"

definition ListMembershipsRPC ::
  "env \<Rightarrow> ports \<Rightarrow> server \<Rightarrow> header \<Rightarrow> pb_list_memberships
    \<Rightarrow> (served, connect_error, (pb_membership list \<times> string) response) eff" where
  "ListMembershipsRPC env p srv h msg =
     andThen (authenticateSession env p srv h) (\<lambda>session.
     andThen (listOrder env srv h membershipSort SortAscending msg) (\<lambda>(key, direction).
     andThen (serviceCall env srv h (Access_ListMemberships env p session
       \<lparr>mfSearch = listSearch msg, mfRoleID = optionalText (lmRoleId msg),
        mfStatus = (if lmStatus msg \<noteq> PbStatusUnspecified then Some (domainMembershipStatus (lmStatus msg)) else None),
        mfSort = key, mfDirection = direction, mfCursor = listCursor msg, mfLimit = int (listPageSize msg)\<rparr>)) (\<lambda>page.
     ret (pageResponse membershipMessages page))))"

text \<open>The handler sets four fields of the membership; the others have their zero values.\<close>

definition membershipRequest :: "pb_update_membership_request \<Rightarrow> membership" where
  "membershipRequest msg =
     \<lparr>membershipID = umMembershipId msg, membershipUserID = [], membershipUserEmail = [],
      membershipTenant = \<lparr>tenantID = [], tenantName = [], tenantRevision = 0, tenantCreatedAt = zeroTime,
        tenantUpdatedAt = zeroTime\<rparr>,
      membershipRoleID = umRoleId msg, membershipRole = zeroRole,
      membershipStatus = domainMembershipStatus (umStatus msg), membershipRevision = umRevision msg,
      membershipCreatedAt = zeroTime, membershipUpdatedAt = zeroTime\<rparr>"

definition UpdateMembershipRPC ::
  "env \<Rightarrow> ports \<Rightarrow> server \<Rightarrow> header \<Rightarrow> pb_update_membership_request \<Rightarrow> (served, connect_error, pb_membership response) eff" where
  "UpdateMembershipRPC env p srv h msg =
     andThen (authenticateSession env p srv h) (\<lambda>session.
     andThen (serviceCall env srv h (Access_UpdateMembership env session (membershipRequest msg))) (\<lambda>m.
     ret (newResponse (hd (membershipMessages [m])))))"

definition ListRolesRPC ::
  "env \<Rightarrow> ports \<Rightarrow> server \<Rightarrow> header \<Rightarrow> pb_list_roles \<Rightarrow> (served, connect_error, (pb_role list \<times> string) response) eff" where
  "ListRolesRPC env p srv h msg =
     andThen (authenticateSession env p srv h) (\<lambda>session.
     andThen (listOrder env srv h roleSort SortAscending msg) (\<lambda>(key, direction).
     andThen (serviceCall env srv h (Access_ListRoles env p session
       \<lparr>rfSearch = listSearch msg,
        rfKind = (if lrKind msg \<noteq> PbKindUnspecified then Some (domainRoleKind (lrKind msg)) else None),
        rfSort = key, rfDirection = direction, rfCursor = listCursor msg, rfLimit = int (listPageSize msg)\<rparr>)) (\<lambda>page.
     ret (pageResponse (map roleMessage) page))))"

definition CreateRoleRPC ::
  "env \<Rightarrow> ports \<Rightarrow> server \<Rightarrow> header \<Rightarrow> string \<Rightarrow> string list \<Rightarrow> (served, connect_error, pb_role response) eff" where
  "CreateRoleRPC env p srv h name permissions =
     andThen (authenticateSession env p srv h) (\<lambda>session.
     andThen (serviceCall env srv h (Access_CreateRole env session name (domainPermissions permissions))) (\<lambda>r.
     ret (newResponse (roleMessage r))))"

definition UpdateRoleRPC ::
  "env \<Rightarrow> ports \<Rightarrow> server \<Rightarrow> header \<Rightarrow> pb_role_request \<Rightarrow> (served, connect_error, pb_role response) eff" where
  "UpdateRoleRPC env p srv h msg =
     andThen (authenticateSession env p srv h) (\<lambda>session.
     andThen (serviceCall env srv h (Access_UpdateRole env session
       (zeroRole\<lparr>roleID := rqRoleId msg, roleName := rqName msg, rolePermissions := domainPermissions (rqPermissions msg),
                 roleRevision := rqRevision msg\<rparr>))) (\<lambda>r.
     ret (newResponse (roleMessage r))))"

definition DeleteRoleRPC ::
  "env \<Rightarrow> ports \<Rightarrow> server \<Rightarrow> header \<Rightarrow> string \<Rightarrow> nat \<Rightarrow> (served, connect_error, unit response) eff" where
  "DeleteRoleRPC env p srv h rid revision =
     andThen (authenticateSession env p srv h) (\<lambda>session.
     andThen (serviceCall env srv h (Access_DeleteRole env session rid revision)) (\<lambda>_.
     ret (newResponse ())))"

definition ListTenantInvitationsRPC ::
  "env \<Rightarrow> ports \<Rightarrow> server \<Rightarrow> header \<Rightarrow> pb_list_tenant_invitations
    \<Rightarrow> (served, connect_error, (pb_invitation list \<times> string) response) eff" where
  "ListTenantInvitationsRPC env p srv h msg =
     andThen (authenticateSession env p srv h) (\<lambda>session.
     andThen (listOrder env srv h invitationSort SortDescending msg) (\<lambda>(key, direction).
     andThen (serviceCall env srv h (Access_ListInvitations env p session
       \<lparr>ifSearch = listSearch msg, ifTenantID = None, ifStatus = domainInvitationStatus (liStatus msg), ifSort = key,
        ifDirection = direction, ifCursor = listCursor msg, ifLimit = int (listPageSize msg)\<rparr>)) (\<lambda>page.
     invitationsResponse env srv h page)))"

definition RevokeTenantInvitationRPC ::
  "env \<Rightarrow> ports \<Rightarrow> server \<Rightarrow> header \<Rightarrow> string \<Rightarrow> (served, connect_error, unit response) eff" where
  "RevokeTenantInvitationRPC env p srv h invitationId =
     andThen (authenticateSession env p srv h) (\<lambda>session.
     andThen (serviceCall env srv h (Access_RevokeInvitation env session invitationId)) (\<lambda>_.
     ret (newResponse ())))"

end
