(* ===== verification/RpcService.thy ===== *)
theory RpcService imports AdminHandlers begin

text \<open>
  The RPC service as a whole, \<^verbatim>\<open>server/proto/clinks/v1/clinksv1connect/clinks.connect.go\<close>: a call with its message, the
  name of its procedure, and the switch that hands the request of a path to a method of the server. Reading the message
  out of the body and writing the reply are the libraries of Connect and protobuf; a call is the message read.
\<close>

datatype rpc =
    CallLogin pb_credentials_request
  | CallLoginSuperAdmin pb_credentials_request
  | CallRegister pb_register_request
  | CallLogout
  | CallGetSession
  | CallSwitchTenant string
  | CallAcceptInvitation pb_accept_invitation_request
  | CallGetLanguages
  | CallGetTranslations string
  | CallListTenants "pb_sort2 pb_list"
  | CallCreateTenant string
  | CallUpdateTenant pb_update_tenant_request
  | CallListUsers pb_list_users
  | CallGetUser string
  | CallListInvitations pb_list_invitations
  | CallRevokeInvitation string
  | CallListManagedLanguages pb_list_languages
  | CallCreateLanguage pb_language_request
  | CallUpdateLanguage pb_language_request
  | CallListTranslationOverrides pb_list_overrides
  | CallUpsertTranslationOverride "pb_override option"
  | CallDeleteTranslationOverride pb_delete_override_request
  | CallListAuditEvents pb_list_audit_events
  | CallGetSystemStats
  | CallUpdateCurrentTenant string nat
  | CallListMemberships pb_list_memberships
  | CallUpdateMembership pb_update_membership_request
  | CallListRoles pb_list_roles
  | CallCreateRole string "string list"
  | CallUpdateRole pb_role_request
  | CallDeleteRole string nat
  | CallListTenantInvitations pb_list_tenant_invitations
  | CallCreateInvitation pb_create_invitation_request
  | CallRevokeTenantInvitation string

text \<open>The replies, by the type of their message; a page is its messages and the cursor of the next one.\<close>

datatype rpc_reply =
    EmptyReply unit
  | SessionReply pb_session
  | LanguagesReply "pb_language list"
  | TranslationsReply pb_translations_response
  | TenantReply pb_tenant
  | TenantPageReply "pb_tenant list \<times> string"
  | UserReply pb_user_detail
  | UserPageReply "pb_user_summary list \<times> string"
  | InvitationReply pb_invitation
  | InvitationPageReply "pb_invitation list \<times> string"
  | LanguageReply pb_language
  | LanguagePageReply "pb_language list \<times> string"
  | OverrideReply pb_override
  | OverridePageReply "pb_override list \<times> string"
  | AuditPageReply "pb_audit_event list \<times> string"
  | StatsReply pb_system_stats
  | MembershipReply pb_membership
  | MembershipPageReply "pb_membership list \<times> string"
  | RoleReply pb_role
  | RolePageReply "pb_role list \<times> string"

text \<open>The names of the procedures below the path of the service.\<close>

fun rpcName :: "rpc \<Rightarrow> string" where
  "rpcName (CallLogin _) = ''Login''"
| "rpcName (CallLoginSuperAdmin _) = ''LoginSuperAdmin''"
| "rpcName (CallRegister _) = ''Register''"
| "rpcName CallLogout = ''Logout''"
| "rpcName CallGetSession = ''GetSession''"
| "rpcName (CallSwitchTenant _) = ''SwitchTenant''"
| "rpcName (CallAcceptInvitation _) = ''AcceptInvitation''"
| "rpcName CallGetLanguages = ''GetLanguages''"
| "rpcName (CallGetTranslations _) = ''GetTranslations''"
| "rpcName (CallListTenants _) = ''ListTenants''"
| "rpcName (CallCreateTenant _) = ''CreateTenant''"
| "rpcName (CallUpdateTenant _) = ''UpdateTenant''"
| "rpcName (CallListUsers _) = ''ListUsers''"
| "rpcName (CallGetUser _) = ''GetUser''"
| "rpcName (CallListInvitations _) = ''ListInvitations''"
| "rpcName (CallRevokeInvitation _) = ''RevokeInvitation''"
| "rpcName (CallListManagedLanguages _) = ''ListManagedLanguages''"
| "rpcName (CallCreateLanguage _) = ''CreateLanguage''"
| "rpcName (CallUpdateLanguage _) = ''UpdateLanguage''"
| "rpcName (CallListTranslationOverrides _) = ''ListTranslationOverrides''"
| "rpcName (CallUpsertTranslationOverride _) = ''UpsertTranslationOverride''"
| "rpcName (CallDeleteTranslationOverride _) = ''DeleteTranslationOverride''"
| "rpcName (CallListAuditEvents _) = ''ListAuditEvents''"
| "rpcName CallGetSystemStats = ''GetSystemStats''"
| "rpcName (CallUpdateCurrentTenant _ _) = ''UpdateCurrentTenant''"
| "rpcName (CallListMemberships _) = ''ListMemberships''"
| "rpcName (CallUpdateMembership _) = ''UpdateMembership''"
| "rpcName (CallListRoles _) = ''ListRoles''"
| "rpcName (CallCreateRole _ _) = ''CreateRole''"
| "rpcName (CallUpdateRole _) = ''UpdateRole''"
| "rpcName (CallDeleteRole _ _) = ''DeleteRole''"
| "rpcName (CallListTenantInvitations _) = ''ListTenantInvitations''"
| "rpcName (CallCreateInvitation _) = ''CreateInvitation''"
| "rpcName (CallRevokeTenantInvitation _) = ''RevokeTenantInvitation''"

definition servicePath :: string where "servicePath = ''/clinks.v1.ClinksService/''"

definition procedure :: "rpc \<Rightarrow> string" where "procedure call = servicePath @ rpcName call"

definition replyWith ::
  "('m \<Rightarrow> rpc_reply) \<Rightarrow> (served, connect_error, 'm response) eff \<Rightarrow> (served, connect_error, rpc_reply response) eff" where
  "replyWith kind handler =
     andThen handler (\<lambda>r. ret \<lparr>responseMessage = kind (responseMessage r), responseCookies = responseCookies r\<rparr>)"

text \<open>
  The handler of a call. Each request is served with its own, unresolved session; the world and the rate limiter are
  shared.
\<close>

fun handleCall :: "env \<Rightarrow> ports \<Rightarrow> server \<Rightarrow> header \<Rightarrow> rpc \<Rightarrow> (served, connect_error, rpc_reply response) eff" where
  "handleCall env p srv h (CallLogin m) = replyWith SessionReply (Login env p srv h m)"
| "handleCall env p srv h (CallLoginSuperAdmin m) = replyWith SessionReply (LoginSuperAdmin env p srv h m)"
| "handleCall env p srv h (CallRegister m) = replyWith SessionReply (Register env p srv h m)"
| "handleCall env p srv h CallLogout = replyWith EmptyReply (Logout env p srv h)"
| "handleCall env p srv h CallGetSession = replyWith SessionReply (GetSession env p srv h)"
| "handleCall env p srv h (CallSwitchTenant m) = replyWith SessionReply (SwitchTenant env p srv h m)"
| "handleCall env p srv h (CallAcceptInvitation m) = replyWith SessionReply (AcceptInvitationRPC env p srv h m)"
| "handleCall env p srv h CallGetLanguages = replyWith LanguagesReply (GetLanguages env srv h)"
| "handleCall env p srv h (CallGetTranslations m) = replyWith TranslationsReply (GetTranslations env srv h m)"
| "handleCall env p srv h (CallListTenants m) = replyWith TenantPageReply (ListTenantsRPC env p srv h m)"
| "handleCall env p srv h (CallCreateTenant m) = replyWith TenantReply (CreateTenantRPC env p srv h m)"
| "handleCall env p srv h (CallUpdateTenant m) = replyWith TenantReply (UpdateTenantRPC env p srv h m)"
| "handleCall env p srv h (CallListUsers m) = replyWith UserPageReply (ListUsersRPC env p srv h m)"
| "handleCall env p srv h (CallGetUser m) = replyWith UserReply (GetUserRPC env p srv h m)"
| "handleCall env p srv h (CallListInvitations m) = replyWith InvitationPageReply (ListInvitationsRPC env p srv h m)"
| "handleCall env p srv h (CallRevokeInvitation m) = replyWith EmptyReply (RevokeInvitationRPC env p srv h m)"
| "handleCall env p srv h (CallListManagedLanguages m) = replyWith LanguagePageReply (ListManagedLanguages env p srv h m)"
| "handleCall env p srv h (CallCreateLanguage m) = replyWith LanguageReply (CreateLanguage env p srv h m)"
| "handleCall env p srv h (CallUpdateLanguage m) = replyWith LanguageReply (UpdateLanguage env p srv h m)"
| "handleCall env p srv h (CallListTranslationOverrides m) = replyWith OverridePageReply (ListTranslationOverridesRPC env p srv h m)"
| "handleCall env p srv h (CallUpsertTranslationOverride m) = replyWith OverrideReply (UpsertTranslationOverrideRPC env p srv h m)"
| "handleCall env p srv h (CallDeleteTranslationOverride m) = replyWith EmptyReply (DeleteTranslationOverrideRPC env p srv h m)"
| "handleCall env p srv h (CallListAuditEvents m) = replyWith AuditPageReply (ListAuditEventsRPC env p srv h m)"
| "handleCall env p srv h CallGetSystemStats = replyWith StatsReply (GetSystemStats env p srv h)"
| "handleCall env p srv h (CallUpdateCurrentTenant m n) = replyWith TenantReply (UpdateCurrentTenantRPC env p srv h m n)"
| "handleCall env p srv h (CallListMemberships m) = replyWith MembershipPageReply (ListMembershipsRPC env p srv h m)"
| "handleCall env p srv h (CallUpdateMembership m) = replyWith MembershipReply (UpdateMembershipRPC env p srv h m)"
| "handleCall env p srv h (CallListRoles m) = replyWith RolePageReply (ListRolesRPC env p srv h m)"
| "handleCall env p srv h (CallCreateRole m n) = replyWith RoleReply (CreateRoleRPC env p srv h m n)"
| "handleCall env p srv h (CallUpdateRole m) = replyWith RoleReply (UpdateRoleRPC env p srv h m)"
| "handleCall env p srv h (CallDeleteRole m n) = replyWith EmptyReply (DeleteRoleRPC env p srv h m n)"
| "handleCall env p srv h (CallListTenantInvitations m) = replyWith InvitationPageReply (ListTenantInvitationsRPC env p srv h m)"
| "handleCall env p srv h (CallCreateInvitation m) = replyWith InvitationReply (CreateInvitationRPC env p srv h m)"
| "handleCall env p srv h (CallRevokeTenantInvitation m) = replyWith EmptyReply (RevokeTenantInvitationRPC env p srv h m)"

definition serveRPC :: "env \<Rightarrow> ports \<Rightarrow> server \<Rightarrow> header \<Rightarrow> rpc \<Rightarrow> (served, connect_error, rpc_reply response) eff" where
  "serveRPC env p srv h call = (\<lambda>s. handleCall env p srv h call (s\<lparr>servedSession := None\<rparr>))"

text \<open>Which calls need what: the first are open to everyone, the second need a session, the third a super administrator's.\<close>

datatype access_level = PublicCall | SessionCall | SuperAdminCall

fun accessLevel :: "rpc \<Rightarrow> access_level" where
  "accessLevel (CallLogin _) = PublicCall"
| "accessLevel (CallLoginSuperAdmin _) = PublicCall"
| "accessLevel (CallRegister _) = PublicCall"
| "accessLevel CallLogout = PublicCall"
| "accessLevel CallGetSession = SessionCall"
| "accessLevel (CallSwitchTenant _) = SessionCall"
| "accessLevel (CallAcceptInvitation _) = PublicCall"
| "accessLevel CallGetLanguages = PublicCall"
| "accessLevel (CallGetTranslations _) = PublicCall"
| "accessLevel (CallListTenants _) = SuperAdminCall"
| "accessLevel (CallCreateTenant _) = SuperAdminCall"
| "accessLevel (CallUpdateTenant _) = SuperAdminCall"
| "accessLevel (CallListUsers _) = SuperAdminCall"
| "accessLevel (CallGetUser _) = SuperAdminCall"
| "accessLevel (CallListInvitations _) = SuperAdminCall"
| "accessLevel (CallRevokeInvitation _) = SuperAdminCall"
| "accessLevel (CallListManagedLanguages _) = SuperAdminCall"
| "accessLevel (CallCreateLanguage _) = SuperAdminCall"
| "accessLevel (CallUpdateLanguage _) = SuperAdminCall"
| "accessLevel (CallListTranslationOverrides _) = SuperAdminCall"
| "accessLevel (CallUpsertTranslationOverride _) = SuperAdminCall"
| "accessLevel (CallDeleteTranslationOverride _) = SuperAdminCall"
| "accessLevel (CallListAuditEvents _) = SuperAdminCall"
| "accessLevel CallGetSystemStats = SuperAdminCall"
| "accessLevel (CallUpdateCurrentTenant _ _) = SessionCall"
| "accessLevel (CallListMemberships _) = SessionCall"
| "accessLevel (CallUpdateMembership _) = SessionCall"
| "accessLevel (CallListRoles _) = SessionCall"
| "accessLevel (CallCreateRole _ _) = SessionCall"
| "accessLevel (CallUpdateRole _) = SessionCall"
| "accessLevel (CallDeleteRole _ _) = SessionCall"
| "accessLevel (CallListTenantInvitations _) = SessionCall"
| "accessLevel (CallCreateInvitation _) = SessionCall"
| "accessLevel (CallRevokeTenantInvitation _) = SessionCall"

text \<open>The levels are ordered by what they ask for.\<close>

fun accessRank :: "access_level \<Rightarrow> nat" where
  "accessRank PublicCall = 0"
| "accessRank SessionCall = 1"
| "accessRank SuperAdminCall = 2"

lemma accessRank_inject [simp]: "accessRank a = accessRank b \<longleftrightarrow> a = b"
  by (cases a; cases b) simp_all

instantiation access_level :: linorder
begin

definition less_eq_access_level :: "access_level \<Rightarrow> access_level \<Rightarrow> bool" where
  "less_eq_access_level a b \<longleftrightarrow> accessRank a \<le> accessRank b"

definition less_access_level :: "access_level \<Rightarrow> access_level \<Rightarrow> bool" where
  "less_access_level a b \<longleftrightarrow> accessRank a < accessRank b"

instance
  by standard (auto simp: less_eq_access_level_def less_access_level_def simp flip: accessRank_inject)

end

end
