(* ===== verification/OidcHandlers.thy ===== *)
theory OidcHandlers imports OidcAttempt GoogleOidc RpcService begin

text \<open>
  The authentication with an external provider over plain HTTP: \<^verbatim>\<open>googleOIDCStart\<close>, \<^verbatim>\<open>googleOIDCCallback\<close> and
  their configuration (\<^verbatim>\<open>server/web/oidc.go\<close>), and the handler of all requests, \<^verbatim>\<open>Handler\<close> and
  \<^verbatim>\<open>HandlerWithOIDC\<close> of \<^verbatim>\<open>server/web/server.go\<close>. The state is the client of the provider and the world.
\<close>

record oidc_config =
  stateSecret :: string
  successURL :: string

text \<open>An answer: a redirection to an address, or a bare status, with the cookies it sets in their order.\<close>

record http_answer =
  answerStatus :: int
  answerLocation :: string
  answerCookies :: "cookie list"

definition oidcCookieName :: string where "oidcCookieName = ''clinks_oidc''"

definition validateOIDCConfig :: "ports \<Rightarrow> oidc_config \<Rightarrow> unit result" where
  "validateOIDCConfig p config =
     (if length (stateSecret config) < 32
      then Inl (OpaqueError ''http: OIDC state secret must contain at least 32 bytes'')
      else
        case urlParse p (successURL config) of
          None \<Rightarrow> Inl (Wrapped ''http: invalid OIDC success URL'' (OpaqueError ''url''))
        | Some u \<Rightarrow>
            if urlScheme u \<noteq> ''http'' \<and> urlScheme u \<noteq> ''https''
            then Inl (OpaqueError ''http: OIDC success URL uses unsupported scheme'')
            else if urlHost u = [] then Inl (OpaqueError ''http: OIDC success URL requires a host'')
            else Inr ())"

definition redirect :: "string \<Rightarrow> cookie list \<Rightarrow> http_answer" where
  "redirect location cookies = \<lparr>answerStatus = 302, answerLocation = location, answerCookies = cookies\<rparr>"

definition oidcFailure :: "ports \<Rightarrow> oidc_config \<Rightarrow> cookie list \<Rightarrow> http_answer" where
  "oidcFailure p config cookies =
     (case urlParse p (successURL config) of
        None \<Rightarrow> \<lparr>answerStatus = 401, answerLocation = [], answerCookies = cookies\<rparr>
      | Some target \<Rightarrow>
          if urlScheme target = [] \<or> urlHost target = []
          then \<lparr>answerStatus = 401, answerLocation = [], answerCookies = cookies\<rparr>
          else redirect (urlString (target\<lparr>urlRawQuery :=
                 queryEncode (querySet (parseQuery (urlRawQuery target)) ''error'' ''authentication_failed'')\<rparr>)) cookies)"

definition oidcAttemptCookie :: "env \<Rightarrow> server \<Rightarrow> string \<Rightarrow> (world, go_error, cookie) eff" where
  "oidcAttemptCookie env srv content =
     andThen (goNow env) (\<lambda>now.
     ret ((plainCookie srv oidcCookieName content)
            \<lparr>cookieMaxAge := wholeSeconds oidcAttemptTTL, cookieExpires := Some (now + oidcAttemptTTL)\<rparr>))"

definition clearOIDCAttemptCookie :: "server \<Rightarrow> cookie" where
  "clearOIDCAttemptCookie srv = clearedCookie srv oidcCookieName"

text \<open>Any error leads to the same failure; \<open>refused\<close> stands for a check that is no error of a call.\<close>

definition refused :: go_error where "refused = OpaqueError ''authentication failed''"

subsection \<open>The start of an attempt\<close>

definition startMode :: "env \<Rightarrow> ports \<Rightarrow> server \<Rightarrow> http_request \<Rightarrow> (world, go_error, string) eff" where
  "startMode env p srv r =
     (let q = parseQuery (requestQuery r); mode = queryGet q ''mode''; token = cookieToken srv (requestHeader r) in
      if mode = ''link'' then
        (if token = [] then fail refused
         else
           andThen (Auth_CurrentSession env p (serverAuth srv) token) (\<lambda>_.
           andThen (hasPasswordVerified env srv (requestHeader r)) (\<lambda>verified.
           if \<not> verified then fail refused else ret mode)))
      else if mode = ''invite'' then
        (if trimSpace (queryGet q ''token'') = [] then fail refused else ret mode)
      else if mode = [] \<or> mode = ''login'' then ret ''login''
      else fail refused)"

definition startAttempt ::
  "env \<Rightarrow> ports \<Rightarrow> entropy \<Rightarrow> server \<Rightarrow> oidc_config \<Rightarrow> http_request \<Rightarrow> (world, go_error, oidc_attempt \<times> cookie) eff" where
  "startAttempt env p rnd srv config r =
     andThen (startMode env p srv r) (\<lambda>mode.
     andThen (newOIDCAttempt env rnd mode) (\<lambda>a0.
     let a = (if mode = ''invite''
              then a0\<lparr>attemptInvitationToken := queryGet (parseQuery (requestQuery r)) ''token''\<rparr> else a0) in
     andThen (sealOIDCAttempt rnd (stateSecret config) a) (\<lambda>sealed.
     andThen (oidcAttemptCookie env srv sealed) (\<lambda>c. ret (a, c)))))"

definition googleOIDCStart ::
  "env \<Rightarrow> ports \<Rightarrow> google_ports \<Rightarrow> entropy \<Rightarrow> server \<Rightarrow> oidc_config \<Rightarrow> http_request
    \<Rightarrow> google_oidc \<times> world \<Rightarrow> http_answer \<times> (google_oidc \<times> world)" where
  "googleOIDCStart env p gp rnd srv config r = (\<lambda>(client, w).
     case startAttempt env p rnd srv config r w of
       (Inl _, w') \<Rightarrow> (oidcFailure p config [], (client, w'))
     | (Inr (a, c), w') \<Rightarrow>
         (redirect (AuthorizationURL gp client (attemptState a) (attemptNonce a) (attemptVerifier a)) [c], (client, w')))"

subsection \<open>The return of the browser\<close>

definition onWorldOf :: "(world, go_error, 'a) eff \<Rightarrow> 'a exchange" where
  "onWorldOf m = (\<lambda>(client, w). case m w of (r, w') \<Rightarrow> (r, (client, w')))"

text \<open>What an attempt does with an identity; the cookies that it sets.\<close>

definition finishAttempt ::
  "env \<Rightarrow> ports \<Rightarrow> server \<Rightarrow> header \<Rightarrow> oidc_attempt \<Rightarrow> external_identity \<Rightarrow> (world, go_error, cookie list) eff" where
  "finishAttempt env p srv h a identity =
     (if attemptMode a = ''link'' then
        andThen (Auth_CurrentSession env p (serverAuth srv) (cookieToken srv h)) (\<lambda>session.
        andThen (Auth_LinkExternalIdentity env p session identity) (\<lambda>_.
        andThen (passwordVerifiedCookie env srv []) (\<lambda>c. ret [c])))
      else if attemptMode a = ''invite'' then
        andThen (Auth_AcceptExternalInvitation env p (serverAuth srv) (attemptInvitationToken a) identity (requestLocale env srv h))
          (\<lambda>session.
        andThen (sessionCookie env srv (sessionToken session)) (\<lambda>c. ret [c]))
      else if attemptMode a = ''login'' then
        andThen (Auth_LoginExternal env p (serverAuth srv) identity) (\<lambda>session.
        andThen (sessionCookie env srv (sessionToken session)) (\<lambda>c. ret [c]))
      else fail errInvalidOIDCAttempt)"

definition completeAttempt ::
  "env \<Rightarrow> ports \<Rightarrow> google_ports \<Rightarrow> server \<Rightarrow> oidc_config \<Rightarrow> http_request \<Rightarrow> string \<Rightarrow> cookie list exchange" where
  "completeAttempt env p gp srv config r sealed =
     (let q = parseQuery (requestQuery r) in
      if queryGet q ''error'' \<noteq> [] then fail refused
      else
        andThen (onWorldOf (openOIDCAttempt env (stateSecret config) sealed)) (\<lambda>a.
        if attemptState a \<noteq> queryGet q ''state'' then fail refused
        else
          let code = trimSpace (queryGet q ''code'') in
          if code = [] then fail refused
          else
            andThen (Exchange env p gp code (attemptVerifier a) (attemptNonce a)) (\<lambda>identity.
            onWorldOf (finishAttempt env p srv (requestHeader r) a identity))))"

definition googleOIDCCallback ::
  "env \<Rightarrow> ports \<Rightarrow> google_ports \<Rightarrow> server \<Rightarrow> oidc_config \<Rightarrow> http_request
    \<Rightarrow> google_oidc \<times> world \<Rightarrow> http_answer \<times> (google_oidc \<times> world)" where
  "googleOIDCCallback env p gp srv config r = (\<lambda>s.
     case requestCookie (requestHeader r) oidcCookieName of
       None \<Rightarrow> (oidcFailure p config [], s)
     | Some sealed \<Rightarrow>
         let cleared = clearOIDCAttemptCookie srv in
         (case completeAttempt env p gp srv config r sealed s of
            (Inl _, s') \<Rightarrow> (oidcFailure p config [cleared], s')
          | (Inr cookies, s') \<Rightarrow> (redirect (successURL config) (cleared # cookies), s')))"

subsection \<open>The handler of all requests\<close>

text \<open>
  \<^verbatim>\<open>HandlerWithOIDC\<close>: the server that handles requests and the configuration of the provider, if it is enabled. The
  server given is left as it is.
\<close>

definition HandlerWithOIDC ::
  "ports \<Rightarrow> server \<Rightarrow> google_oidc option \<Rightarrow> oidc_config \<Rightarrow> (server \<times> oidc_config option) result" where
  "HandlerWithOIDC p srv client config =
     (if (case client of None \<Rightarrow> True | Some c \<Rightarrow> \<not> oidcEnabled c) then Inr (srv, None)
      else
        case validateOIDCConfig p config of
          Inl err \<Rightarrow> Inl err
        | Inr _ \<Rightarrow> Inr (srv\<lparr>serverOIDCSecret := stateSecret config\<rparr>, Some config))"

text \<open>
  The router, for a path that \<^verbatim>\<open>ServeMux\<close> need not clean. A pattern for \<^verbatim>\<open>GET\<close> matches \<^verbatim>\<open>HEAD\<close> too; all RPCs are
  below one path.
\<close>

datatype route = RouteHealth | RouteReady | RouteStart | RouteCallback | RouteRPC string | RouteNotAllowed | RouteNotFound



definition getRoutes :: "oidc_config option \<Rightarrow> (string \<times> route) list" where
  "getRoutes oidc =
     [(''/healthz'', RouteHealth), (''/readyz'', RouteReady)]
     @ (if oidc = None then []
        else [(''/auth/oidc/google/start'', RouteStart), (''/auth/oidc/google/callback'', RouteCallback)])"

definition routeOf :: "oidc_config option \<Rightarrow> http_request \<Rightarrow> route" where
  "routeOf oidc r =
     (case map_of (getRoutes oidc) (requestPath r) of
        Some target \<Rightarrow> if requestMethod r \<in> {''GET'', ''HEAD''} then target else RouteNotAllowed
      | None \<Rightarrow>
          if hasPrefix (requestPath r) servicePath then RouteRPC (drop (length servicePath) (requestPath r))
          else RouteNotFound)"

end
