(* ===== verification/SmtpMailer.thy ===== *)
theory SmtpMailer imports AuthService begin

text \<open>
  The delivery of a mail, \<^verbatim>\<open>server/mail/smtp.go\<close>: \<^verbatim>\<open>NewSMTPMailer\<close>, the dialogue of \<^verbatim>\<open>Send\<close> with an SMTP server
  and the text of the message. The server and the network are the parameter \<open>smtp_server\<close>: their answer to each
  step of the dialogue, at each instant. Package \<^verbatim>\<open>net/smtp\<close> is modelled as far as \<^verbatim>\<open>Send\<close> uses it: the greeting
  \<^verbatim>\<open>EHLO\<close> is sent once and its error kept, \<^verbatim>\<open>MAIL\<close> and \<^verbatim>\<open>RCPT\<close> refuse a line break, and \<^verbatim>\<open>PlainAuth\<close> refuses to
  send a password over a connection that is neither encrypted nor local.
\<close>

subsection \<open>Configuration\<close>

record smtp_config =
  smtpHost :: string
  smtpPort :: string
  smtpUsername :: string
  smtpPassword :: string
  smtpFrom :: string
  smtpRequireTLS :: bool
  smtpTimeout :: duration

record smtp_mailer =
  mailerAddress :: string
  mailerHost :: string
  mailerUsername :: string
  mailerPassword :: string
  mailerFrom :: mail_address
  mailerRequireTLS :: bool
  mailerTimeout :: duration

definition defaultSMTPTimeout :: duration where "defaultSMTPTimeout = 15 * nanosecondsPerSecond"

text \<open>\<^verbatim>\<open>net.JoinHostPort\<close>.\<close>

definition joinHostPort :: "string \<Rightarrow> string \<Rightarrow> string" where
  "joinHostPort host port =
     (if CHR '':'' \<in> set host then ''['' @ host @ '']:'' @ port else host @ '':'' @ port)"

definition NewSMTPMailer :: "ports \<Rightarrow> smtp_config \<Rightarrow> smtp_mailer result" where
  "NewSMTPMailer p config =
     (let host = trimSpace (smtpHost config); port = trimSpace (smtpPort config) in
      if host = [] then Inl (OpaqueError ''smtp mailer: host is required'')
      else if port = [] then Inl (OpaqueError ''smtp mailer: port is required'')
      else case parseAddress p (trimSpace (smtpFrom config)) of
        None \<Rightarrow> Inl (Wrapped ''smtp mailer: parse sender address'' (OpaqueError ''mail''))
      | Some sender \<Rightarrow>
          if trimSpace (addressSpec sender) = [] then Inl (OpaqueError ''smtp mailer: sender address is required'')
          else
            let username = trimSpace (smtpUsername config) in
            if (username = []) \<noteq> (smtpPassword config = [])
            then Inl (OpaqueError ''smtp mailer: username and password must be configured together'')
            else Inr \<lparr>mailerAddress = joinHostPort host port, mailerHost = host, mailerUsername = username,
                      mailerPassword = smtpPassword config, mailerFrom = sender,
                      mailerRequireTLS = smtpRequireTLS config,
                      mailerTimeout = (if smtpTimeout config \<le> 0 then defaultSMTPTimeout else smtpTimeout config)\<rparr>)"

subsection \<open>The dialogue\<close>

text \<open>What the client sends, in the order it is sent. \<open>AuthStep\<close> is the one that carries the password.\<close>

datatype smtp_step =
    DialStep | DeadlineStep | GreetingStep | HelloStep | StartTLSStep | AuthStep | MailStep string | RcptStep string
  | DataStep | WriteStep string | FinishStep | QuitStep

text \<open>
  The answer to a step at an instant, \<open>None\<close> when it succeeds; whether the server offers \<^verbatim>\<open>STARTTLS\<close>; and whether
  the server has accepted a message although the answer to its end was an error, as when the answer is lost.
\<close>

record smtp_server =
  smtpAnswer :: "nat \<Rightarrow> smtp_step \<Rightarrow> string option"
  smtpOffersTLS :: "nat \<Rightarrow> bool"
  smtpAcceptsUnacknowledged :: "nat \<Rightarrow> bool"
  smtpContext :: "nat \<Rightarrow> string option"
  smtpFormat :: "mail_address \<Rightarrow> string"

text \<open>
  A connection: the steps so far, each with the answer it got, whether the connection is encrypted, the error of the greeting,
  and the world behind it.
\<close>

record connection =
  connSteps :: "(smtp_step \<times> string option) list"
  connEncrypted :: bool
  connHello :: "string option"
  connWorld :: world

definition smtpStep :: "smtp_server \<Rightarrow> smtp_step \<Rightarrow> (connection, go_error, unit) eff" where
  "smtpStep srv st = (\<lambda>c.
     let n = w_tick (connWorld c); c' = c\<lparr>connSteps := connSteps c @ [(st, smtpAnswer srv n st)], connWorld := tick (connWorld c)\<rparr> in
     case smtpAnswer srv n st of
       None \<Rightarrow> (Inr (), c')
     | Some msg \<Rightarrow> (Inl (OpaqueError msg), c'))"

text \<open>\<^verbatim>\<open>errors.Join\<close> of an error and of closing the connection, which may itself fail.\<close>

definition joinClose :: "go_error \<Rightarrow> go_error option \<Rightarrow> go_error" where
  "joinClose err closeErr =
     (case closeErr of None \<Rightarrow> Joined [err] | Some e \<Rightarrow> Joined [err, e])"

definition smtpCloseError :: "string \<Rightarrow> string option \<Rightarrow> go_error option" where
  "smtpCloseError resource err =
     (case err of None \<Rightarrow> None | Some msg \<Rightarrow> Some (Wrapped (''smtp mailer: close '' @ resource) (OpaqueError msg)))"

text \<open>Closing the connection is not a step of the dialogue; only its error matters.\<close>

definition closeConnection :: "smtp_server \<Rightarrow> (connection, go_error, string option) eff" where
  "closeConnection srv = (\<lambda>c. (Inr (smtpAnswer srv (w_tick (connWorld c)) QuitStep), c\<lparr>connWorld := tick (connWorld c)\<rparr>))"

definition orClose ::
  "smtp_server \<Rightarrow> string \<Rightarrow> string \<Rightarrow> (connection, go_error, unit) eff \<Rightarrow> (connection, go_error, unit) eff" where
  "orClose srv what resource m =
     andThen (attempt m) (\<lambda>outcome.
     case outcome of
       Inr _ \<Rightarrow> ret ()
     | Inl err \<Rightarrow>
         andThen (closeConnection srv) (\<lambda>closeErr.
         fail (joinClose (Wrapped what err) (smtpCloseError resource closeErr))))"

definition dial :: "smtp_server \<Rightarrow> smtp_mailer \<Rightarrow> (connection, go_error, unit) eff" where
  "dial srv mailer =
     andThen (mapError (Wrapped (''smtp mailer: connect to '' @ mailerAddress mailer)) (smtpStep srv DialStep)) (\<lambda>_.
     orClose srv ''smtp mailer: set connection deadline'' ''connection after deadline failure'' (smtpStep srv DeadlineStep))"

text \<open>\<^verbatim>\<open>client.hello\<close>: the greeting is sent once, its error is kept.\<close>

definition hello :: "smtp_server \<Rightarrow> (connection, go_error, unit) eff" where
  "hello srv = (\<lambda>c.
     if HelloStep \<in> set (map fst (connSteps c))
     then (case connHello c of None \<Rightarrow> (Inr (), c) | Some msg \<Rightarrow> (Inl (OpaqueError msg), c))
     else
       case smtpStep srv HelloStep c of
         (Inr _, c') \<Rightarrow> (Inr (), c')
       | (Inl err, c') \<Rightarrow>
           (Inl err, c'\<lparr>connHello := smtpAnswer srv (w_tick (connWorld c)) HelloStep\<rparr>))"

definition extensionStartTLS :: "smtp_server \<Rightarrow> (connection, go_error, bool) eff" where
  "extensionStartTLS srv = (\<lambda>c.
     case hello srv c of
       (Inl err, c') \<Rightarrow> (Inr False, c')
     | (Inr _, c') \<Rightarrow> (Inr (smtpOffersTLS srv (w_tick (connWorld c'))), c'))"

definition encrypt :: "(connection, go_error, unit) eff" where
  "encrypt = (\<lambda>c. (Inr (), c\<lparr>connEncrypted := True\<rparr>))"

definition startTLS :: "smtp_server \<Rightarrow> smtp_mailer \<Rightarrow> (connection, go_error, unit) eff" where
  "startTLS srv mailer =
     andThen (extensionStartTLS srv) (\<lambda>supported.
     if \<not> supported then
       if mailerRequireTLS mailer then fail (OpaqueError ''smtp mailer: server does not support STARTTLS'') else ret ()
     else
       mapError (Wrapped ''smtp mailer: STARTTLS'')
         (andThen (hello srv) (\<lambda>_. andThen (smtpStep srv StartTLSStep) (\<lambda>_. encrypt))))"

definition isLocalhost :: "string \<Rightarrow> bool" where
  "isLocalhost host \<longleftrightarrow> host = ''localhost'' \<or> host = ''127.0.0.1'' \<or> host = ''::1''"

definition plainAuth :: "smtp_server \<Rightarrow> string \<Rightarrow> (connection, go_error, unit) eff" where
  "plainAuth srv host = (\<lambda>c.
     if \<not> connEncrypted c \<and> \<not> isLocalhost host then (Inl (OpaqueError ''unencrypted connection''), c)
     else smtpStep srv AuthStep c)"

definition authenticate :: "smtp_server \<Rightarrow> smtp_mailer \<Rightarrow> (connection, go_error, unit) eff" where
  "authenticate srv mailer =
     (if mailerUsername mailer = [] then ret ()
      else mapError (Wrapped ''smtp mailer: authenticate'')
             (andThen (hello srv) (\<lambda>_. plainAuth srv (mailerHost mailer))))"

definition lineBreak :: "string \<Rightarrow> bool" where
  "lineBreak s \<longleftrightarrow> list_ex (\<lambda>c. c = chr 10 \<or> c = chr 13) s"

definition validateLine :: "string \<Rightarrow> (connection, go_error, unit) eff" where
  "validateLine line =
     (if lineBreak line then fail (OpaqueError ''smtp: A line must not contain CR or LF'') else ret ())"

definition clientMail :: "smtp_server \<Rightarrow> string \<Rightarrow> (connection, go_error, unit) eff" where
  "clientMail srv sender =
     andThen (validateLine sender) (\<lambda>_. andThen (hello srv) (\<lambda>_. smtpStep srv (MailStep sender)))"

definition clientRcpt :: "smtp_server \<Rightarrow> string \<Rightarrow> (connection, go_error, unit) eff" where
  "clientRcpt srv recipient = andThen (validateLine recipient) (\<lambda>_. smtpStep srv (RcptStep recipient))"

subsection \<open>The message\<close>

definition crlf :: string where "crlf = [chr 13, chr 10]"

definition smtpInvitationMessage :: "smtp_server \<Rightarrow> mail_address \<Rightarrow> invitation_message \<Rightarrow> string" where
  "smtpInvitationMessage srv sender message =
     ''From: '' @ smtpFormat srv sender @ crlf
     @ ''To: '' @ smtpFormat srv \<lparr>addressName = [], addressSpec = messageRecipient message\<rparr> @ crlf
     @ ''Subject: '' @ trimSpace (messageSubject message) @ crlf
     @ ''MIME-Version: 1.0'' @ crlf
     @ ''Content-Type: text/plain; charset=UTF-8'' @ crlf
     @ crlf
     @ replaceAll [chr 10] crlf (trimSpace (messageBody message))
     @ crlf"

text \<open>The end of the message: from here on the server may have accepted it.\<close>

definition deliver :: "invitation_message \<Rightarrow> world \<Rightarrow> world" where
  "deliver message w = w\<lparr>w_mail := w_mail w @ [message]\<rparr>"

definition finishData :: "smtp_server \<Rightarrow> invitation_message \<Rightarrow> (connection, go_error, unit) eff" where
  "finishData srv message = (\<lambda>c.
     case smtpStep srv FinishStep c of
       (Inr _, c') \<Rightarrow> (Inr (), c'\<lparr>connWorld := deliver message (connWorld c')\<rparr>)
     | (Inl err, c') \<Rightarrow>
         (Inl err, if smtpAcceptsUnacknowledged srv (w_tick (connWorld c))
                   then c'\<lparr>connWorld := deliver message (connWorld c')\<rparr> else c'))"

definition writeInvitation ::
  "smtp_server \<Rightarrow> mail_address \<Rightarrow> invitation_message \<Rightarrow> (connection, go_error, unit) eff" where
  "writeInvitation srv sender message =
     andThen (mapError (Wrapped ''smtp mailer: start DATA'') (smtpStep srv DataStep)) (\<lambda>_.
     andThen (attempt (smtpStep srv (WriteStep (smtpInvitationMessage srv sender message)))) (\<lambda>written.
     case written of
       Inl err \<Rightarrow>
         andThen (attempt (finishData srv message)) (\<lambda>closed.
         fail (joinClose (Wrapped ''smtp mailer: write DATA'' err)
           (case closed of Inr _ \<Rightarrow> None
            | Inl closeErr \<Rightarrow> Some (Wrapped ''smtp mailer: close message writer after write failure'' closeErr))))
     | Inr _ \<Rightarrow> mapError (Wrapped ''smtp mailer: finish DATA'') (finishData srv message)))"

definition quit :: "smtp_server \<Rightarrow> (connection, go_error, unit) eff" where
  "quit srv = andThen (attempt (smtpStep srv QuitStep)) (\<lambda>_. ret ())"

definition Mailer_dialogue ::
  "smtp_server \<Rightarrow> smtp_mailer \<Rightarrow> invitation_message \<Rightarrow> (connection, go_error, unit) eff" where
  "Mailer_dialogue srv mailer message =
     andThen (dial srv mailer) (\<lambda>_.
     andThen (orClose srv ''smtp mailer: create client'' ''connection after client creation failure''
       (smtpStep srv GreetingStep)) (\<lambda>_.
     andThen (startTLS srv mailer) (\<lambda>_.
     andThen (authenticate srv mailer) (\<lambda>_.
     andThen (mapError (Wrapped ''smtp mailer: MAIL FROM'') (clientMail srv (addressSpec (mailerFrom mailer)))) (\<lambda>_.
     andThen (mapError (Wrapped ''smtp mailer: RCPT TO'') (clientRcpt srv (messageRecipient message))) (\<lambda>_.
     andThen (writeInvitation srv (mailerFrom mailer) message) (\<lambda>_.
     quit srv)))))))"

definition Mailer_run ::
  "env \<Rightarrow> ports \<Rightarrow> smtp_server \<Rightarrow> smtp_mailer \<Rightarrow> invitation_message \<Rightarrow> (connection, go_error, unit) eff" where
  "Mailer_run env p srv mailer message = (\<lambda>c.
     case smtpContext srv (w_tick (connWorld c)) of
       Some msg \<Rightarrow> (Inl (OpaqueError msg), c)
     | None \<Rightarrow>
        (case ParseEmail env p (messageRecipient message) of
           Inl err \<Rightarrow> (Inl (Wrapped ''smtp mailer: invalid recipient'' err), c)
         | Inr _ \<Rightarrow>
             if trimSpace (messageSubject message) = [] \<or> trimSpace (messageBody message) = []
             then (Inl (OpaqueError ''smtp mailer: invitation subject and body are required''), c)
             else if lineBreak (messageSubject message)
             then (Inl (OpaqueError ''smtp mailer: invitation subject contains a line break''), c)
             else Mailer_dialogue srv mailer message c))"

definition newConnection :: "world \<Rightarrow> connection" where
  "newConnection w = \<lparr>connSteps = [], connEncrypted = False, connHello = None, connWorld = w\<rparr>"

definition Mailer_Send ::
  "env \<Rightarrow> ports \<Rightarrow> smtp_server \<Rightarrow> smtp_mailer \<Rightarrow> invitation_message \<Rightarrow> (world, go_error, unit) eff" where
  "Mailer_Send env p srv mailer message = (\<lambda>w.
     case Mailer_run env p srv mailer message (newConnection w) of (r, c) \<Rightarrow> (r, connWorld c))"

end
