(* ===== verification/Worker.thy ===== *)
theory Worker imports SmtpMailer ProductCatalog begin

text \<open>
  The invitation worker, \<^verbatim>\<open>server/worker.go\<close>: it claims the jobs of the outbox one by one, mails the invitation of
  each, and completes the job or schedules its retry. Its store is the PostgreSQL store, its tokens are those of
  package \<^verbatim>\<open>auth\<close>; the mailer and the message catalog are the interfaces \<^verbatim>\<open>InvitationMailer\<close> and \<^verbatim>\<open>MessageCatalog\<close>,
  instantiated by the SMTP mailer and the product catalog as \<^verbatim>\<open>server/cmd/worker\<close> does.
\<close>

record message_catalog =
  mcDefaultLocale :: "(world, go_error, string) eff"
  mcMessage :: "string \<Rightarrow> string \<Rightarrow> (world, go_error, string) eff"

record worker =
  workerMailer :: "invitation_message \<Rightarrow> (world, go_error, unit) eff"
  workerTokenSecret :: string
  workerLinks :: url
  workerMessages :: message_catalog

definition NewInvitationWorker ::
  "ports \<Rightarrow> (invitation_message \<Rightarrow> (world, go_error, unit) eff) \<Rightarrow> string \<Rightarrow> message_catalog \<Rightarrow> string \<Rightarrow> worker result" where
  "NewInvitationWorker p mailer tokens messages inviteBaseURL =
     (case newInvitationLinkBuilder p inviteBaseURL of
        Inl err \<Rightarrow> Inl err
      | Inr links \<Rightarrow>
          Inr \<lparr>workerMailer = mailer, workerTokenSecret = tokens, workerLinks = links, workerMessages = messages\<rparr>)"

text \<open>\<^verbatim>\<open>err.Error()\<close>. The text of a database error is that of the driver, a parameter.\<close>

fun errorText :: "(string \<Rightarrow> string \<Rightarrow> string) \<Rightarrow> go_error \<Rightarrow> string"
  and errorTexts :: "(string \<Rightarrow> string \<Rightarrow> string) \<Rightarrow> go_error list \<Rightarrow> string" where
  "errorText pg (DomainError kind) = error_kind_string kind"
| "errorText pg NoRows = ''no rows in result set''"
| "errorText pg (PgError code constraint) = pg code constraint"
| "errorText pg (OpaqueError msg) = msg"
| "errorText pg (Wrapped msg err) = msg @ '': '' @ errorText pg err"
| "errorText pg (Joined errs) = errorTexts pg errs"
| "errorTexts pg [] = []"
| "errorTexts pg (err # errs) =
     (if errs = [] then errorText pg err else errorText pg err @ [chr 10] @ errorTexts pg errs)"

record runtime =
  runtimePgText :: "string \<Rightarrow> string \<Rightarrow> string"
  runtimeContext :: "nat \<Rightarrow> go_error option"

subsection \<open>One job\<close>

definition Worker_localizedMessage :: "worker \<Rightarrow> string \<Rightarrow> string \<Rightarrow> (world, go_error, string) eff" where
  "Worker_localizedMessage wk loc key =
     andThen (attempt (mcMessage (workerMessages wk) loc key)) (\<lambda>found.
     case found of
       Inr message \<Rightarrow> ret message
     | Inl err \<Rightarrow>
         andThen (mapError (\<lambda>defaultErr. Joined [err, defaultErr]) (mcDefaultLocale (workerMessages wk))) (\<lambda>defaultLocale.
         mapError (\<lambda>defaultErr. Joined [err, defaultErr]) (mcMessage (workerMessages wk) defaultLocale key)))"

definition Worker_invitationMessage :: "worker \<Rightarrow> invitation \<Rightarrow> (world, go_error, invitation_message) eff" where
  "Worker_invitationMessage wk i =
     andThen (if locale_isValid (invitationLocale i) then ret (invitationLocale i)
              else mapError (Wrapped ''load invitation default locale'') (mcDefaultLocale (workerMessages wk))) (\<lambda>loc.
     andThen (Worker_localizedMessage wk loc ''mail.invitation.subject'') (\<lambda>subject.
     andThen (Worker_localizedMessage wk loc ''mail.invitation.body'') (\<lambda>body.
     ret \<lparr>messageRecipient = invitationEmail i, messageSubject = subject,
          messageBody = replaceAll ''{url}'' (trimSpace (acceptanceURL i)) body\<rparr>)))"

definition ignoreLeaseLost :: "(go_error \<Rightarrow> go_error) \<Rightarrow> (world, go_error, unit) eff \<Rightarrow> (world, go_error, unit) eff" where
  "ignoreLeaseLost wrap m =
     andThen (attempt m) (\<lambda>outcome.
     case outcome of
       Inr _ \<Rightarrow> ret ()
     | Inl err \<Rightarrow> if isDomain ErrorLeaseLost err then ret () else fail (wrap err))"

definition Worker_retry ::
  "env \<Rightarrow> runtime \<Rightarrow> outbox_job \<Rightarrow> go_error \<Rightarrow> (world, go_error, unit) eff" where
  "Worker_retry env rt job cause =
     ignoreLeaseLost (\<lambda>err. Joined [cause, Wrapped ''schedule invitation job retry'' err])
       (Retry env job (Some (errorText (runtimePgText rt) cause)))"

definition Worker_complete :: "env \<Rightarrow> outbox_job \<Rightarrow> (world, go_error, unit) eff" where
  "Worker_complete env job =
     ignoreLeaseLost (Wrapped (''complete invitation job '' @ jobID job)) (Complete env job)"

definition Worker_deliver :: "env \<Rightarrow> runtime \<Rightarrow> worker \<Rightarrow> outbox_job \<Rightarrow> invitation \<Rightarrow> (world, go_error, unit) eff" where
  "Worker_deliver env rt wk job i =
     (case invitationToken (workerTokenSecret wk) i of
        Inl err \<Rightarrow> Worker_retry env rt job (Wrapped ''create invitation token'' err)
      | Inr token \<Rightarrow>
          andThen (attempt (Worker_invitationMessage wk (i\<lparr>acceptanceURL := invitationURL (workerLinks wk) token\<rparr>))) (\<lambda>rendered.
          case rendered of
            Inl err \<Rightarrow> Worker_retry env rt job err
          | Inr message \<Rightarrow>
              andThen (attempt (workerMailer wk message)) (\<lambda>sent.
              case sent of
                Inl err \<Rightarrow> Worker_retry env rt job (Wrapped ''send invitation email'' err)
              | Inr _ \<Rightarrow> Worker_complete env job)))"

definition Worker_RunOnce :: "env \<Rightarrow> runtime \<Rightarrow> worker \<Rightarrow> (world, go_error, bool) eff" where
  "Worker_RunOnce env rt wk =
     andThen (mapError (Wrapped ''claim invitation email'') (ClaimInvitationEmail env)) (\<lambda>(job, i).
     if jobID job = [] then ret False
     else andThen (Worker_deliver env rt wk job i) (\<lambda>_. ret True))"

subsection \<open>The loop\<close>

text \<open>\<^verbatim>\<open>drain\<close> runs jobs until there is none; \<open>None\<close> would be a loop that never returns.\<close>

partial_function (option) Worker_drain ::
  "env \<Rightarrow> runtime \<Rightarrow> worker \<Rightarrow> world \<Rightarrow> ((go_error + unit) \<times> world) option" where
  "Worker_drain env rt wk w =
     (case runtimeContext rt (w_tick w) of
        Some err \<Rightarrow> Some (Inl err, w)
      | None \<Rightarrow>
          (case Worker_RunOnce env rt wk w of
             (Inl err, w') \<Rightarrow> Some (Inl err, w')
           | (Inr processed, w') \<Rightarrow>
               if processed then Worker_drain env rt wk w' else Some (Inr (), w')))"

definition invitationRetentionDays :: int where "invitationRetentionDays = 30"

text \<open>\<^verbatim>\<open>t.UTC().AddDate(0, 0, -days)\<close>: days of 24 hours.\<close>

definition subtractDays :: "time \<Rightarrow> int \<Rightarrow> time" where
  "subtractDays t days = t - days * 24 * 60 * 60 * nanosecondsPerSecond"

definition Worker_cleanupExpired :: "env \<Rightarrow> (world, go_error, unit) eff" where
  "Worker_cleanupExpired env =
     andThen (goNow env) (\<lambda>now.
     andThen (mapError (Wrapped ''anonymize expired invitations'')
       (AnonymizeExpiredInvitations env (subtractDays now invitationRetentionDays))) (\<lambda>_. ret ()))"

text \<open>
  \<^verbatim>\<open>Run\<close>: a cleanup and a drain, then one of them at each tick of its two timers, until the context ends. The
  events are a list: which timer fired, or the end of the context with its error.
\<close>

datatype worker_event = PollTick | CleanupTick | ContextDone go_error

fun Worker_loop ::
  "env \<Rightarrow> runtime \<Rightarrow> worker \<Rightarrow> worker_event list \<Rightarrow> world \<Rightarrow> ((go_error + unit) \<times> world) option" where
  "Worker_loop env rt wk [] w = Some (Inr (), w)"
| "Worker_loop env rt wk (ContextDone err # events) w = Some (Inl err, w)"
| "Worker_loop env rt wk (PollTick # events) w =
     (case Worker_drain env rt wk w of
        None \<Rightarrow> None
      | Some (Inl err, w') \<Rightarrow> Some (Inl err, w')
      | Some (Inr _, w') \<Rightarrow> Worker_loop env rt wk events w')"
| "Worker_loop env rt wk (CleanupTick # events) w =
     (case Worker_cleanupExpired env w of
        (Inl err, w') \<Rightarrow> Some (Inl err, w')
      | (Inr _, w') \<Rightarrow> Worker_loop env rt wk events w')"

definition Worker_Run ::
  "env \<Rightarrow> runtime \<Rightarrow> worker \<Rightarrow> worker_event list \<Rightarrow> world \<Rightarrow> ((go_error + unit) \<times> world) option" where
  "Worker_Run env rt wk events w = Worker_loop env rt wk (CleanupTick # PollTick # events) w"

subsection \<open>The worker of the program\<close>

definition productMessages :: "env \<Rightarrow> message_catalog" where
  "productMessages env =
     \<lparr>mcDefaultLocale = ret Catalog_DefaultLocale, mcMessage = Catalog_Message env\<rparr>"

definition initializeWorker ::
  "env \<Rightarrow> ports \<Rightarrow> smtp_server \<Rightarrow> smtp_config \<Rightarrow> string \<Rightarrow> string \<Rightarrow> worker result" where
  "initializeWorker env p srv mailConfig tokenSecret inviteBaseURL =
     (case NewSMTPMailer p mailConfig of
        Inl err \<Rightarrow> Inl err
      | Inr mailer \<Rightarrow>
          (case NewInvitationTokenSigner tokenSecret of
             Inl err \<Rightarrow> Inl err
           | Inr tokens \<Rightarrow>
               (case NewProductCatalog of
                  Inl err \<Rightarrow> Inl err
                | Inr _ \<Rightarrow>
                    NewInvitationWorker p (Mailer_Send env p srv mailer) tokens (productMessages env) inviteBaseURL)))"

end
