(* ===== verification/Config.thy ===== *)
theory Config imports OidcHandlers Worker begin

text \<open>
  Configuration and composition of the two programs: \<^verbatim>\<open>server/config/config.go\<close>, \<^verbatim>\<open>server/cmd/server\<close> and
  \<^verbatim>\<open>server/cmd/worker\<close>. The process environment, read by two third-party libraries, is an argument: the
  configuration that they yield, or their error.
\<close>

subsection \<open>Configuration\<close>

record http_config =
  serverPort :: string
  corsOrigins :: "string list"
  sessionCookieNameSetting :: string
  sessionCookieSecure :: bool
  sessionCookieDomain :: string

record database_config =
  databaseURL :: string
  maxConns :: int
  minConns :: int
  connMaxLifetime :: duration
  connMaxIdleTime :: duration
  healthCheckPeriod :: duration

record auth_config =
  jwtSecret :: string
  jwtIssuer :: string
  jwtAudience :: string
  jwtTTL :: duration

record invite_config =
  publicBaseURL :: string
  inviteTTL :: duration
  tokenSecret :: string

record smtp_settings =
  settingHost :: string
  settingPort :: string
  settingUsername :: string
  settingPassword :: string
  settingFrom :: string
  settingRequireTLS :: bool

record oidc_settings =
  settingClientID :: string
  settingClientSecret :: string
  settingCallbackURL :: string
  settingStateSecret :: string
  settingSuccessURL :: string

record bootstrap_config =
  adminEmail :: string
  adminPassword :: string
  adminLocale :: string

record config =
  configHTTP :: http_config
  configDatabase :: database_config
  configAuth :: auth_config
  configInvites :: invite_config
  configSMTP :: smtp_settings
  configOIDC :: oidc_settings
  configBootstrap :: bootstrap_config

datatype profile =
  ProfileAPI | ProfileMigration | ProfileHealthcheck | ProfileWorker | ProfileWorkerHealthcheck | ProfileOther string

definition Address :: "http_config \<Rightarrow> string" where "Address c = joinHostPort [] (serverPort c)"

text \<open>\<^verbatim>\<open>errors.Join\<close> leaves out what is nil, and is nil when nothing is left.\<close>

definition joinErrors :: "go_error option list \<Rightarrow> go_error option" where
  "joinErrors errs =
     (let found = map the (filter (\<lambda>err. err \<noteq> None) errs) in if found = [] then None else Some (Joined found))"

definition require :: "bool \<Rightarrow> string \<Rightarrow> go_error option" where
  "require ok message = (if ok then None else Some (OpaqueError message))"

definition placeholder :: "env \<Rightarrow> string \<Rightarrow> bool" where
  "placeholder env val =
     list_ex (containsSub (toLower (unicode env) val)) [''replace-with'', ''change-me'', ''your-secret-here'']"

definition validateAuth :: "env \<Rightarrow> config \<Rightarrow> go_error option" where
  "validateAuth env c =
     joinErrors
       [require (\<not> (length (jwtSecret (configAuth c)) < 32 \<or> placeholder env (jwtSecret (configAuth c))))
          ''JWT_SECRET must contain at least 32 non-placeholder characters'',
        require (\<not> jwtTTL (configAuth c) \<le> 0) ''JWT_TTL must be greater than 0'']"

definition validateInvites :: "env \<Rightarrow> config \<Rightarrow> go_error option" where
  "validateInvites env c =
     joinErrors
       [require (\<not> (length (tokenSecret (configInvites c)) < 32 \<or> placeholder env (tokenSecret (configInvites c))))
          ''INVITATION_TOKEN_SECRET must contain at least 32 non-placeholder characters'',
        require (\<not> inviteTTL (configInvites c) \<le> 0) ''INVITE_TTL must be greater than 0'']"

definition validateBootstrap :: "env \<Rightarrow> config \<Rightarrow> go_error option" where
  "validateBootstrap env c =
     joinErrors
       [require (trimSpace (adminEmail (configBootstrap c)) \<noteq> []) ''ADMIN_EMAIL is required'',
        require (\<not> (length (adminPassword (configBootstrap c)) < 12 \<or> placeholder env (adminPassword (configBootstrap c))))
          ''ADMIN_PASSWORD must contain at least 12 non-placeholder characters'']"

definition validateSMTP :: "config \<Rightarrow> go_error option" where
  "validateSMTP c =
     require (\<not> (trimSpace (settingHost (configSMTP c)) = [] \<or> trimSpace (settingFrom (configSMTP c)) = []
                \<or> trimSpace (settingPort (configSMTP c)) = []))
       ''SMTP_HOST, SMTP_FROM, and SMTP_PORT are required for the worker''"

definition validateOIDC :: "env \<Rightarrow> config \<Rightarrow> go_error option" where
  "validateOIDC env c =
     (let o' = configOIDC c in
      if settingClientID o' = [] then None
      else require (\<not> (settingClientSecret o' = [] \<or> settingCallbackURL o' = [] \<or> settingSuccessURL o' = []
                      \<or> length (settingStateSecret o') < 32 \<or> placeholder env (settingStateSecret o')))
             ''OIDC settings are required when GOOGLE_OIDC_CLIENT_ID is configured'')"

definition validateConfig :: "env \<Rightarrow> config \<Rightarrow> profile \<Rightarrow> go_error option" where
  "validateConfig env c pr =
     (let d = configDatabase c in
      joinErrors
        ([require (trimSpace (databaseURL d) \<noteq> []) ''DATABASE_URL is required'',
          require (0 < maxConns d) ''DATABASE_MAX_CONNS must be greater than 0'',
          require (0 \<le> minConns d) ''DATABASE_MIN_CONNS must not be negative'',
          require (minConns d \<le> maxConns d) ''DATABASE_MIN_CONNS must not exceed DATABASE_MAX_CONNS'']
         @ (case pr of
              ProfileAPI \<Rightarrow> [validateAuth env c, validateInvites env c, validateOIDC env c]
            | ProfileMigration \<Rightarrow> [validateBootstrap env c]
            | ProfileWorker \<Rightarrow> [validateInvites env c, validateSMTP c]
            | ProfileHealthcheck \<Rightarrow> []
            | ProfileWorkerHealthcheck \<Rightarrow> []
            | ProfileOther s \<Rightarrow>
                [Some (OpaqueError (if s = [] then ''configuration profile is required''
                                    else ''unknown configuration profile''))])))"

text \<open>\<^verbatim>\<open>Load\<close>: \<open>parsed\<close> is what the libraries make of the files and variables of the process.\<close>

definition Load :: "env \<Rightarrow> config result \<Rightarrow> profile \<Rightarrow> config result" where
  "Load env parsed pr =
     (case parsed of
        Inl err \<Rightarrow> Inl err
      | Inr c \<Rightarrow>
          (case validateConfig env c pr of
             Some err \<Rightarrow> Inl (Wrapped ''validate configuration'' err)
           | None \<Rightarrow> Inr c))"

subsection \<open>Commands\<close>

datatype command = CommandServer | CommandMigrate | CommandHealthcheck

definition parseCommand :: "string list \<Rightarrow> command result" where
  "parseCommand args =
     (case args of
        [] \<Rightarrow> Inr CommandServer
      | [arg] \<Rightarrow>
          if arg = ''server'' then Inr CommandServer
          else if arg = ''migrate'' then Inr CommandMigrate
          else if arg = ''healthcheck'' then Inr CommandHealthcheck
          else Inl (OpaqueError ''unknown command'')
      | _ \<Rightarrow> Inl (OpaqueError ''expected at most one command''))"

fun configProfile :: "command \<Rightarrow> profile" where
  "configProfile CommandServer = ProfileAPI"
| "configProfile CommandMigrate = ProfileMigration"
| "configProfile CommandHealthcheck = ProfileHealthcheck"

datatype worker_command = WorkerRun | WorkerHealthcheck

definition parseWorkerCommand :: "string list \<Rightarrow> worker_command result" where
  "parseWorkerCommand args =
     (case args of
        [] \<Rightarrow> Inr WorkerRun
      | [arg] \<Rightarrow>
          if arg = ''run'' \<or> arg = ''worker'' then Inr WorkerRun
          else if arg = ''healthcheck'' then Inr WorkerHealthcheck
          else Inl (OpaqueError ''unknown command'')
      | _ \<Rightarrow> Inl (OpaqueError ''expected at most one command''))"

fun workerProfile :: "worker_command \<Rightarrow> profile" where
  "workerProfile WorkerRun = ProfileWorker"
| "workerProfile WorkerHealthcheck = ProfileWorkerHealthcheck"

subsection \<open>The composition of the server\<close>

definition readinessTimeoutSetting :: duration where "readinessTimeoutSetting = 2 * nanosecondsPerSecond"

definition httpServerConfig :: "config \<Rightarrow> string \<Rightarrow> server_config" where
  "httpServerConfig c defaultLocale =
     \<lparr>configCORSOrigins = corsOrigins (configHTTP c), configReadinessTimeout = readinessTimeoutSetting,
      configCookie = \<lparr>configCookieName = sessionCookieNameSetting (configHTTP c),
        configCookieSecure = sessionCookieSecure (configHTTP c), configCookieMaxAge = jwtTTL (configAuth c),
        configCookieDomain = sessionCookieDomain (configHTTP c)\<rparr>,
      configDefaultLocale = defaultLocale\<rparr>"

definition sessionConfig :: "config \<Rightarrow> session_config" where
  "sessionConfig c =
     \<lparr>configSecret = jwtSecret (configAuth c), configIssuer = jwtIssuer (configAuth c),
      configAudience = jwtAudience (configAuth c), configTTL = jwtTTL (configAuth c)\<rparr>"

definition googleOIDCConfig :: "config \<Rightarrow> google_config" where
  "googleOIDCConfig c =
     \<lparr>googleClientID = settingClientID (configOIDC c), googleClientSecret = settingClientSecret (configOIDC c),
      googleCallbackURL = settingCallbackURL (configOIDC c), googleTimeout = 0\<rparr>"

definition httpOIDCConfig :: "config \<Rightarrow> oidc_config" where
  "httpOIDCConfig c =
     \<lparr>stateSecret = settingStateSecret (configOIDC c), successURL = settingSuccessURL (configOIDC c)\<rparr>"

definition workerSMTPConfig :: "config \<Rightarrow> smtp_config" where
  "workerSMTPConfig c =
     \<lparr>smtpHost = settingHost (configSMTP c), smtpPort = settingPort (configSMTP c),
      smtpUsername = settingUsername (configSMTP c), smtpPassword = settingPassword (configSMTP c),
      smtpFrom = settingFrom (configSMTP c), smtpRequireTLS = settingRequireTLS (configSMTP c), smtpTimeout = 0\<rparr>"

record application =
  appServer :: server
  appLimiter :: rate_limiter
  appClient :: google_oidc
  appOIDC :: "oidc_config option"

text \<open>
  \<^verbatim>\<open>initializeApplication\<close> after the pool has been opened, and the first statement of \<^verbatim>\<open>application.run\<close>, which builds
  the handler.
\<close>

definition initializeApplication :: "env \<Rightarrow> ports \<Rightarrow> config \<Rightarrow> (world, go_error, application) eff" where
  "initializeApplication env p c =
     andThen (liftSum (NewSessionIssuer (sessionConfig c))) (\<lambda>sessions.
     andThen (liftSum (NewInvitationTokenSigner (tokenSecret (configInvites c)))) (\<lambda>tokens.
     andThen (NewPasswordHasher p) (\<lambda>passwords.
     andThen (liftSum (NewAuth p passwords sessions tokens (publicBaseURL (configInvites c)) (inviteTTL (configInvites c)))) (\<lambda>a.
     andThen (liftSum NewProductCatalog) (\<lambda>_.
     andThen (liftSum (NewServer env p a (httpServerConfig c Catalog_DefaultLocale))) (\<lambda>(srv, limiter).
     andThen (liftSum (NewGoogleOIDC p (googleOIDCConfig c))) (\<lambda>client.
     andThen (mapError (Wrapped ''build HTTP handler'') (liftSum (HandlerWithOIDC p srv (Some client) (httpOIDCConfig c))))
       (\<lambda>(srv', oidc).
     ret \<lparr>appServer = srv', appLimiter = limiter, appClient = client, appOIDC = oidc\<rparr>))))))))"

text \<open>\<^verbatim>\<open>runMigration\<close> after the migrations have been applied.\<close>

definition bootstrapAdministrator :: "env \<Rightarrow> ports \<Rightarrow> config \<Rightarrow> (world, go_error, unit) eff" where
  "bootstrapAdministrator env p c =
     (let b = configBootstrap c in
      andThen (mapError (Wrapped ''validate bootstrap email'') (liftSum (ParseEmail env p (adminEmail b)))) (\<lambda>email.
      andThen (mapError (Wrapped ''validate bootstrap locale'') (liftSum (parseLocale (unicode env) (adminLocale b)))) (\<lambda>loc.
      andThen (mapError (Wrapped ''validate bootstrap password'') (liftSum (validatePassword (adminPassword b)))) (\<lambda>_.
      andThen (mapError (Wrapped ''build password hasher'') (NewPasswordHasher p)) (\<lambda>hasher.
      andThen (mapError (Wrapped ''hash bootstrap password'') (hashPassword p hasher (adminPassword b))) (\<lambda>h.
      mapError (Wrapped ''bootstrap administrator'')
        (EnsureSuperAdmin env \<lparr>bootstrapEmail = email, bootstrapPasswordHash = h, bootstrapLocale = loc\<rparr>)))))))"

text \<open>The worker of a configuration.\<close>

definition configuredWorker :: "env \<Rightarrow> ports \<Rightarrow> smtp_server \<Rightarrow> config \<Rightarrow> worker result" where
  "configuredWorker env p srv c =
     initializeWorker env p srv (workerSMTPConfig c) (tokenSecret (configInvites c)) (publicBaseURL (configInvites c))"

end
