(* ===== verification/Samples.thy ===== *)
theory Samples imports StoreInvariants begin

text \<open>
  A small concrete database and environment: the inputs at which the witnesses of the properties
  evaluate the operations. Two tenants; the first has an administrator and a plain user.
\<close>

definition sampleID :: "char \<Rightarrow> string" where
  "sampleID c = [CHR ''i'', c]"

definition idTenant :: string where "idTenant = ''00000000-0000-7000-8000-000000000001''"
abbreviation "idOtherTenant \<equiv> sampleID (CHR ''2'')"
abbreviation "idAdmin \<equiv> sampleID (CHR ''3'')"
abbreviation "idUser \<equiv> sampleID (CHR ''4'')"
abbreviation "idAdminRole \<equiv> sampleID (CHR ''5'')"
abbreviation "idCustomRole \<equiv> sampleID (CHR ''6'')"
abbreviation "idAdminMembership \<equiv> sampleID (CHR ''7'')"
abbreviation "idUserMembership \<equiv> sampleID (CHR ''8'')"
abbreviation "idInvitation \<equiv> sampleID (CHR ''9'')"
abbreviation "idJob \<equiv> sampleID (CHR ''a'')"

definition sampleTenant :: "string \<Rightarrow> string \<Rightarrow> tenant" where
  "sampleTenant i name = \<lparr>tenantID = i, tenantName = name, tenantRevision = 1, tenantCreatedAt = 0, tenantUpdatedAt = 0\<rparr>"

definition sampleUser :: "string \<Rightarrow> string \<Rightarrow> string option \<Rightarrow> user_row" where
  "sampleUser i email hash =
     \<lparr>u_user = \<lparr>userID = i, userEmail = email, globalRole = GlobalRoleUser, userLocale = ''de'', sessionVersion = 1\<rparr>,
      u_password_hash = hash, u_created_at = 0, u_updated_at = 0\<rparr>"

definition sampleMembership :: "string \<Rightarrow> string \<Rightarrow> string \<Rightarrow> membership_row" where
  "sampleMembership i u r =
     \<lparr>m_id = i, m_tenant = idTenant, m_user = u, m_role = r, m_status = MembershipActive, m_revision = 1,
      m_created_at = 0, m_updated_at = 0\<rparr>"

definition sampleInvitation :: invitation_row where
  "sampleInvitation =
     \<lparr>i_id = idInvitation, i_tenant = idTenant, i_email = ''a@b'', i_role = idCustomRole,
      i_token_hash = Some ''h'', i_expires_at = 5000000, i_used_at = None, i_revoked_at = None,
      i_created_by = idAdmin, i_delivery_status = DeliveryQueued, i_delivery_locale = ''de'',
      i_anonymized_at = None, i_created_at = 0\<rparr>"

definition sampleJob :: outbox_row where
  "sampleJob =
     \<lparr>o_id = idJob, o_tenant = idTenant, o_kind = ''invitation.email'', o_invitation = idInvitation,
      o_status = OutboxPending, o_attempts = 0, o_available_at = 0, o_locked_at = None, o_lease_token = None,
      o_completed_at = None, o_dead_lettered_at = None, o_last_error = None, o_created_at = 0, o_updated_at = 0\<rparr>"

definition sampleDb :: db where
  "sampleDb =
     \<lparr>tenants = [sampleTenant idTenant ''Acme'', sampleTenant idOtherTenant ''Beta''],
      users = [sampleUser idAdmin ''boss@x'' (Some ''p''), sampleUser idUser ''user@x'' None],
      roles =
        [\<lparr>r_id = idAdminRole, r_tenant = idTenant, r_name = ''Administrator'', r_kind = RoleKindAdministrator,
          r_revision = 1, r_created_at = 0, r_updated_at = 0\<rparr>,
         \<lparr>r_id = idCustomRole, r_tenant = idTenant, r_name = ''Reader'', r_kind = RoleKindCustom,
          r_revision = 1, r_created_at = 0, r_updated_at = 0\<rparr>],
      role_permissions =
        [\<lparr>p_tenant = idTenant, p_role = idAdminRole, p_permission = PermissionUserManage\<rparr>],
      memberships =
        [sampleMembership idAdminMembership idAdmin idAdminRole,
         sampleMembership idUserMembership idUser idCustomRole],
      invitations = [sampleInvitation], identities = [], outbox = [sampleJob],
      languages =
        [\<lparr>languageCode = ''de'', languageName = ''Deutsch'', isDefaultLanguage = True, isActiveLanguage = True,
          languageRevision = 1, languageCreatedAt = 0, languageUpdatedAt = 0\<rparr>],
      overrides = [], audit_events = []\<rparr>"

definition sampleWorld :: world where
  "sampleWorld =
     \<lparr>w_db = sampleDb, w_bypass_rls = [], w_current_tenant = [], w_now = 0, w_tick = 0, w_mail = []\<rparr>"

text \<open>Nothing fails, the clock stands at one millisecond and every call draws a new identifier.\<close>

definition sampleEnv :: env where
  "sampleEnv =
     \<lparr>e_clock = (\<lambda>n. 1000000), e_uuid = (\<lambda>n. Some (CHR ''n'' # replicate n (CHR ''+''))),
      e_fault = (\<lambda>n. None), e_commit = (\<lambda>n. Committed), e_row_locked = (\<lambda>n i. False),
      pgLower = (\<lambda>s. s), pgILike = (\<lambda>s t. True), pgTextLess = bytesLess,
      unicode = \<lparr>unicodeLower = (\<lambda>r. r), unicodeUpper = (\<lambda>r. r)\<rparr>\<rparr>"

lemmas sample_defs =
  sampleTenant_def sampleUser_def sampleMembership_def sampleInvitation_def sampleJob_def sampleDb_def
  sampleWorld_def sampleID_def idTenant_def

lemma sample_keysDistinct: "keysDistinct (w_db sampleWorld)"
  by (simp add: keysDistinct_def sample_defs)

lemma sample_wellFormed: "wellFormed (w_db sampleWorld)"
  by (simp add: wellFormed_def permissionsOwned_def keysDistinct_def sample_defs)

lemma sample_hasAdministrator: "hasAdministrator (w_db sampleWorld) idTenant"
  by (simp add: hasAdministrator_def adminMembership_def sample_defs)

definition sampleDemotion :: membership where
  "sampleDemotion =
     \<lparr>membershipID = idAdminMembership, membershipUserID = [], membershipUserEmail = [],
      membershipTenant = sampleTenant idTenant ''Acme'', membershipRoleID = idCustomRole,
      membershipRole = zeroRole, membershipStatus = MembershipActive, membershipRevision = 1,
      membershipCreatedAt = 0, membershipUpdatedAt = 0\<rparr>"

end
