(* ===== verification/StoreProperties.thy ===== *)
theory StoreProperties imports Samples begin

text \<open>
  The properties that hold of every operation of the store, whatever its arguments and whatever the
  environment does: \<open>serve env req w\<close> runs the request \<open>req\<close> in the world \<open>w\<close>.
\<close>

lemma served_steps:
  "keysDistinct (w_db w) \<Longrightarrow> steps env (requestScope req) (w_db w) (w_db (snd (serve env req w)))"
  using serve_steps[of w env req "fst (serve env req w)" "snd (serve env req w)"] by simp

text \<open>C1: A tenant that has an active administrator keeps one. Whatever request the store serves - a demotion, a
  deactivation, a deletion of roles, an acceptance of an invitation - a tenant with an active membership
  whose role is an administrator role has one afterwards.\<close>

theorem final_administrator_kept:
  assumes "keysDistinct (w_db w)" and "hasAdministrator (w_db w) t"
  shows "hasAdministrator (w_db (snd (serve env req w))) t"
proof -
  have "steps env (requestScope req) (w_db w) (w_db (snd (serve env req w)))"
    using assms(1) by (rule served_steps)
  then show ?thesis
    by (rule steps_invariant[where I = "\<lambda>d. hasAdministrator d t"])
      (auto intro: assms(2) hasAdministrator_step)
qed

theorem final_administrator_kept_witness:
  "keysDistinct (w_db sampleWorld) \<and> hasAdministrator (w_db sampleWorld) idTenant
   \<and> hasAdministrator (w_db (snd (serve sampleEnv (ReqUpdateMembership sampleDemotion idAdmin) sampleWorld))) idTenant"
  using final_administrator_kept[OF sample_keysDistinct sample_hasAdministrator]
    sample_keysDistinct sample_hasAdministrator by blast

text \<open>C2: Tenants are isolated. A request that the store runs with \<^verbatim>\<open>WithTenantTx\<close> for one tenant leaves
  everything the database holds for any other tenant - its row, roles, permissions, memberships,
  invitations, mail jobs and audit events - exactly as it was.\<close>

theorem tenant_isolation:
  assumes "wellFormed (w_db w)" and "requestScope req = Tenant t" and "t' \<noteq> t"
  shows "tenantView t' (w_db (snd (serve env req w))) = tenantView t' (w_db w)"
proof -
  have "steps env (requestScope req) (w_db w) (w_db (snd (serve env req w)))"
    using assms(1) by (intro served_steps) (simp add: wellFormed_def)
  then show ?thesis using tenantView_steps assms by simp
qed

theorem tenant_isolation_witness:
  "wellFormed (w_db sampleWorld)
   \<and> tenantView idTenant (w_db (snd (serve sampleEnv (ReqDeleteRole idOtherTenant idCustomRole 1 idAdmin) sampleWorld)))
     = tenantView idTenant (w_db sampleWorld)"
proof -
  have "requestScope (ReqDeleteRole idOtherTenant idCustomRole 1 idAdmin) = Tenant idOtherTenant"
    "idTenant \<noteq> idOtherTenant" by (simp_all add: idTenant_def sampleID_def)
  then show ?thesis using tenant_isolation[OF sample_wellFormed] sample_wellFormed by blast
qed

text \<open>C3: The audit log is append-only: every request leaves the recorded events in place, in their order,
  and at most adds new ones after them.\<close>

theorem audit_log_append_only:
  assumes "keysDistinct (w_db w)"
  shows "\<exists>news. audit_events (w_db (snd (serve env req w))) = audit_events (w_db w) @ news"
  by (rule audit_steps[OF served_steps[OF assms]])

theorem audit_log_append_only_witness:
  "\<exists>news. audit_events (w_db (snd (serve sampleEnv (ReqRevokeInvitation idInvitation idAdmin) sampleWorld)))
     = audit_events (w_db sampleWorld) @ news"
  by (rule audit_log_append_only[OF sample_keysDistinct])

text \<open>C5: The protected roles of a tenant are permanent: a role whose kind is not \<^verbatim>\<open>custom\<close> is still there,
  unchanged - name, kind, revision and timestamps - after any request.\<close>

theorem protected_roles_permanent:
  assumes "keysDistinct (w_db w)" and "r \<in> set (roles (w_db w))" and "r_kind r \<noteq> RoleKindCustom"
  shows "r \<in> set (roles (w_db (snd (serve env req w))))"
proof -
  have "steps env (requestScope req) (w_db w) (w_db (snd (serve env req w)))"
    using assms(1) by (rule served_steps)
  then show ?thesis
    by (rule steps_invariant[where I = "\<lambda>d. r \<in> set (roles d)"])
      (use assms in \<open>auto intro: protectedRole_step\<close>)
qed

theorem protected_roles_permanent_witness:
  "hd (roles (w_db sampleWorld))
     \<in> set (roles (w_db (snd (serve sampleEnv (ReqDeleteRole idTenant idAdminRole 1 idAdmin) sampleWorld))))"
  by (rule protected_roles_permanent[OF sample_keysDistinct]) (simp_all add: sample_defs)

text \<open>C4: An invitation has one fate. After any request each invitation is still there with its tenant and
  role; once used or revoked it keeps the time of it, a revoked one is never used, and if
  none was both used and revoked before, none is afterwards.\<close>

theorem invitation_life_cycle:
  assumes "keysDistinct (w_db w)"
  shows "(\<forall>r \<in> set (invitations (w_db w)).
            \<exists>r' \<in> set (invitations (w_db (snd (serve env req w)))). invitationKept r r')
       \<and> (invitationsUsedOrRevoked (w_db w) \<longrightarrow> invitationsUsedOrRevoked (w_db (snd (serve env req w))))"
proof -
  have run: "steps env (requestScope req) (w_db w) (w_db (snd (serve env req w)))"
    using assms by (rule served_steps)
  have "\<exists>r' \<in> set (invitations (w_db (snd (serve env req w)))). invitationKept r r'"
    if "r \<in> set (invitations (w_db w))" for r
    using run
    by (rule steps_invariant[where I = "\<lambda>d. \<exists>r' \<in> set (invitations d). invitationKept r r'"])
      (use that invitationKept_refl invitation_step invitationKept_trans in \<open>blast, metis\<close>)
  moreover have "invitationsUsedOrRevoked (w_db (snd (serve env req w)))" if "invitationsUsedOrRevoked (w_db w)"
    using run that by (rule steps_invariant) (rule invitationsUsedOrRevoked_step)
  ultimately show ?thesis by blast
qed

theorem invitation_life_cycle_witness:
  "sampleInvitation \<in> set (invitations (w_db sampleWorld)) \<and> invitationsUsedOrRevoked (w_db sampleWorld)
   \<and> (\<exists>r' \<in> set (invitations (w_db (snd (serve sampleEnv (ReqRevokeInvitation idInvitation idAdmin) sampleWorld)))).
        invitationKept sampleInvitation r')
   \<and> invitationsUsedOrRevoked (w_db (snd (serve sampleEnv (ReqRevokeInvitation idInvitation idAdmin) sampleWorld)))"
proof -
  have "sampleInvitation \<in> set (invitations (w_db sampleWorld))" "invitationsUsedOrRevoked (w_db sampleWorld)"
    by (simp_all add: invitationsUsedOrRevoked_def usedOrRevoked_def sample_defs)
  then show ?thesis using invitation_life_cycle[OF sample_keysDistinct] by blast
qed

text \<open>Users are never deleted and their identity never changes: after any request a user still has the
  same e-mail, global role and password hash, and the version of its sessions has not gone down, so a
  session that was ended stays ended.\<close>

theorem users_permanent:
  assumes "keysDistinct (w_db w)" and "r \<in> set (users (w_db w))"
  shows "\<exists>r' \<in> set (users (w_db (snd (serve env req w)))). userKept r r'"
proof -
  have "steps env (requestScope req) (w_db w) (w_db (snd (serve env req w)))"
    using assms(1) by (rule served_steps)
  then show ?thesis
    by (rule steps_invariant[where I = "\<lambda>d. \<exists>r' \<in> set (users d). userKept r r'"])
      (use assms(2) userKept_refl user_step userKept_trans in \<open>blast, metis\<close>)
qed

theorem users_permanent_witness:
  "\<exists>r' \<in> set (users (w_db (snd (serve sampleEnv (ReqInvalidateSession idAdmin) sampleWorld)))).
     userKept (sampleUser idAdmin ''boss@x'' (Some ''p'')) r'"
  by (rule users_permanent[OF sample_keysDistinct]) (simp add: sample_defs)

text \<open>A finished mail job is final: a job that was completed or dead-lettered is never claimed, retried
  or changed again.\<close>

theorem finished_jobs_final:
  assumes "keysDistinct (w_db w)" and "r \<in> set (outbox (w_db w))" and "jobFinished r"
  shows "r \<in> set (outbox (w_db (snd (serve env req w))))"
proof -
  have "steps env (requestScope req) (w_db w) (w_db (snd (serve env req w)))"
    using assms(1) by (rule served_steps)
  then show ?thesis
    by (rule steps_invariant[where I = "\<lambda>d. r \<in> set (outbox d)"]) (auto intro: assms finishedJob_step)
qed

theorem finished_jobs_final_witness:
  "cancelJob 7 sampleJob
     \<in> set (outbox (w_db (snd (serve sampleEnv ReqClaimInvitationEmail
         (sampleWorld\<lparr>w_db := sampleDb\<lparr>outbox := [cancelJob 7 sampleJob]\<rparr>\<rparr>)))))"
proof (rule finished_jobs_final)
  show "keysDistinct (w_db (sampleWorld\<lparr>w_db := sampleDb\<lparr>outbox := [cancelJob 7 sampleJob]\<rparr>\<rparr>))"
    by (simp add: keysDistinct_def sample_defs)
qed (simp_all add: jobFinished_def cancelJob_def)

text \<open>In every reachable state a mail job is being processed exactly when it holds a lease (a lock time and
  a token), so the store's updates never meet the \<^verbatim>\<open>outbox_processing_lease\<close> check.\<close>

theorem leases_always_consistent:
  assumes "reachable env w"
  shows "leasesConsistent (w_db w)"
  using reachable_invariant[OF assms, of leasesConsistent]
  by (simp add: leasesConsistent_step) (simp add: leasesConsistent_def emptyDb_def)

theorem leases_always_consistent_witness:
  "leasesConsistent (w_db (snd (serve sampleEnv (ReqEnsureSuperAdmin
      \<lparr>bootstrapEmail = ''r@x'', bootstrapPasswordHash = ''h'', bootstrapLocale = ''de''\<rparr>)
      (sampleWorld\<lparr>w_db := emptyDb (languages sampleDb)\<rparr>))))"
proof (rule leases_always_consistent)
  let ?req = "ReqEnsureSuperAdmin \<lparr>bootstrapEmail = ''r@x'', bootstrapPasswordHash = ''h'', bootstrapLocale = ''de''\<rparr>"
  let ?w = "sampleWorld\<lparr>w_db := emptyDb (languages sampleDb)\<rparr>"
  have "reachable sampleEnv ?w" by (rule reachable.start[where ls = "languages sampleDb"]) (simp_all add: sample_defs)
  then show "reachable sampleEnv (snd (serve sampleEnv ?req ?w))"
    by (rule reachable.served) (rule prod.collapse[symmetric])
qed

end
