(* ===== verification/StoreResults.thy ===== *)
theory StoreResults imports ServiceRuns StoreProperties begin

text \<open>
  What single operations of the store achieve: a failed request leaves no trace, an invitation is accepted
  at most once and never after its revocation, a mail job is finished only under its lease, a change of a
  membership is all or nothing.
\<close>

subsection \<open>Steps of any scope\<close>

lemma step_system:
  assumes "step env s d d'"
  shows "step env System d d'"
  using assms
proof (cases rule: step.cases)
  case (role_deleted hit)
  show ?thesis unfolding role_deleted(1) by (rule step.role_deleted) (use role_deleted(2) in simp)
qed (auto intro: step.intros)

lemma steps_system: "steps env s d d' \<Longrightarrow> steps env System d d'"
  by (induction rule: rtranclp_induct) (auto intro: rtranclp.rtrancl_into_rtrancl step_system)

lemma keeps_system: "keeps outCtx (outTx env s) m \<Longrightarrow> keeps outCtx (outTx env System) m"
  by (auto simp: keeps_def outTx_def intro: steps_system)

lemma outTx_keysDistinct: "outCtx w \<Longrightarrow> outTx env s w w' \<Longrightarrow> outCtx w'"
  by (rule outTx.stable)

lemma laterUser:
  assumes "steps env s d d'" and "r \<in> set (users d)"
  shows "\<exists>r' \<in> set (users d'). userKept r r'"
  using assms(1)
  by (rule steps_invariant[where I = "\<lambda>d. \<exists>r' \<in> set (users d). userKept r r'"])
    (use assms(2) userKept_refl user_step userKept_trans in \<open>blast, metis\<close>)

lemma laterInvitation:
  assumes "steps env s d d'" and "r \<in> set (invitations d)"
  shows "\<exists>r' \<in> set (invitations d'). invitationKept r r'"
  using assms(1)
  by (rule steps_invariant[where I = "\<lambda>d. \<exists>r' \<in> set (invitations d). invitationKept r r'"])
    (use assms(2) invitationKept_refl invitation_step invitationKept_trans in \<open>blast, metis\<close>)

subsection \<open>Failed requests\<close>

text \<open>Every commit is acknowledged: a transaction that reports an error did not commit.\<close>

definition acknowledged :: "env \<Rightarrow> bool" where
  "acknowledged env \<longleftrightarrow> (\<forall>n msg. e_commit env n \<noteq> CommitUnacknowledged msg)"

definition atomic :: "(world, go_error, 'a) eff \<Rightarrow> bool" where
  "atomic m \<longleftrightarrow> (\<forall>w err w'. m w = (Inl err, w') \<longrightarrow> w_db w' = w_db w)"

named_theorems atomic_rules

lemma atomicD: "atomic m \<Longrightarrow> m w = (Inl err, w') \<Longrightarrow> w_db w' = w_db w"
  by (simp add: atomic_def)

lemma atomic_untouched: "keeps (\<lambda>_. True) untouched m \<Longrightarrow> atomic m"
  by (auto simp: atomic_def keeps_def untouched_def)

lemma atomic_beginFunc: "acknowledged env \<Longrightarrow> atomic (beginFunc env m)"
  by (auto simp: atomic_def beginFunc_def acknowledged_def
      split: option.splits prod.splits sum.splits commit_outcome.splits)

lemma atomic_after [atomic_rules]:
  assumes "keeps (\<lambda>_. True) untouched m" and "\<And>x. atomic (f x)"
  shows "atomic (andThen m f)"
  unfolding atomic_def
proof (intro allI impI)
  fix w err w'
  assume "andThen m f w = (Inl err, w')"
  then show "w_db w' = w_db w"
    by (cases rule: andThen_cases) (use assms atomicD untouchedD in \<open>metis\<close>)+
qed

lemma atomic_ret: "atomic m \<Longrightarrow> atomic (andThen m (\<lambda>x. ret (f x)))"
  by (auto simp: atomic_def andThen_Inl ret_eq)

lemma atomic_mapError [atomic_rules]: "atomic m \<Longrightarrow> atomic (mapError h m)"
  by (auto simp: atomic_def mapError_Inl)

lemma atomic_discard: "atomic m \<Longrightarrow> atomic (discard m)"
  unfolding discard_def by (rule atomic_ret)

lemma atomic_if [atomic_rules]: "(b \<Longrightarrow> atomic m) \<Longrightarrow> (\<not> b \<Longrightarrow> atomic n) \<Longrightarrow> atomic (if b then m else n)"
  by simp

lemma atomic_let [atomic_rules]: "atomic (m e) \<Longrightarrow> atomic (let x = e in m x)"
  by simp

lemma atomic_fail [atomic_rules]: "atomic (fail err)"
  by (simp add: atomic_def fail_eq)

lemma atomic_ret' [atomic_rules]: "atomic (ret x)"
  by (simp add: atomic_def ret_eq)

lemma atomic_case_option [atomic_rules]:
  "atomic m \<Longrightarrow> (\<And>x. atomic (n x)) \<Longrightarrow> atomic (case e of None \<Rightarrow> m | Some x \<Rightarrow> n x)"
  by (cases e) auto

lemma atomic_systemTx [atomic_rules]: "acknowledged env \<Longrightarrow> atomic (withSystemTx env m)"
  unfolding withSystemTx_def withSettingTx_def by (rule atomic_beginFunc)

lemma atomic_tenantTx [atomic_rules]: "acknowledged env \<Longrightarrow> atomic (WithTenantTx env t m)"
  unfolding WithTenantTx_def by (intro atomic_after atomic_beginFunc untouched_rules)

lemma atomic_claim: "acknowledged env \<Longrightarrow> atomic (ClaimInvitationEmail env)"
  unfolding atomic_def
proof (intro allI impI)
  fix w err w'
  assume ack: "acknowledged env" and run: "ClaimInvitationEmail env w = (Inl err, w')"
  obtain q w1 where tx: "withSystemTx env (claimInvitationTx env) w = (q, w1)" by fastforce
  with run obtain err0 where "q = Inl err0" "w' = w1"
    by (cases q) (auto simp: ClaimInvitationEmail_def andThen_def attempt_def ret_def fail_def split: if_splits)
  then show "w_db w' = w_db w" using tx by (auto intro: atomicD[OF atomic_systemTx[OF ack]])
qed

lemma atomic_serve:
  assumes ack: "acknowledged env"
  shows "atomic (serve env req)"
proof (cases req)
  case (ReqCreateTenantOwner r)
  have "keeps (\<lambda>_. True) untouched (newTenantOwner env r)"
    unfolding newTenantOwner_def by (intro untouched_rules)
  then show ?thesis unfolding ReqCreateTenantOwner serve.simps CreateTenantOwner_def
    by (intro atomic_discard atomic_after atomic_ret atomic_rules ack)
next
  case (ReqClaimInvitationEmail)
  then show ?thesis using atomic_claim[OF ack] by (simp add: atomic_discard)
next
  case (ReqCreateRole role actor)
  show ?thesis unfolding ReqCreateRole serve.simps CreateRole_def
    by (intro atomic_discard atomic_rules untouched_rules ack)
next
  case (ReqCreate name actor)
  show ?thesis unfolding ReqCreate serve.simps Create_def
    by (intro atomic_discard atomic_ret atomic_after atomic_let atomic_systemTx untouched_rules ack)
next
  case (ReqCreateInvitation i)
  show ?thesis unfolding ReqCreateInvitation serve.simps CreateInvitation_def
    by (intro atomic_discard atomic_ret atomic_rules ack)
next
  case (ReqRetry job cause)
  show ?thesis unfolding ReqRetry serve.simps Retry_def deadLetter_def
    by (intro atomic_rules untouched_rules ack)
qed (simp_all add: Append_def UpdateRole_def DeleteRole_def UpdateMembership_def InvalidateSession_def
      RotateTenantSession_def EnsureSuperAdmin_def LinkWithAudit_def UpdateSystem_def UpdateTenant_def
      UpsertLanguage_def UpsertTranslationOverride_def DeleteTranslationOverride_def acceptInvitation_def
      RevokeInvitation_def RevokeTenantInvitation_def Complete_def AnonymizeExpiredInvitations_def Let_def
      atomic_discard atomic_systemTx[OF ack] atomic_tenantTx[OF ack] atomic_fail)

text \<open>C10: A failed request leaves no trace: whenever the store reports an error and commits are acknowledged, the
  database is exactly what it was before the request, whichever of its statements failed.\<close>

theorem failed_request_changes_nothing:
  assumes "acknowledged env" and "serve env req w = (Inl err, w')"
  shows "w_db w' = w_db w"
  using atomic_serve[OF assms(1)] assms(2) by (rule atomicD)

lemma sample_acknowledged: "acknowledged sampleEnv"
  by (simp add: acknowledged_def sampleEnv_def)

theorem failed_request_changes_nothing_witness:
  "\<exists>err w'. serve sampleEnv (ReqInvalidateSession ''nobody'') sampleWorld = (Inl err, w') \<and> w_db w' = w_db sampleWorld"
proof -
  have "fst (serve sampleEnv (ReqInvalidateSession ''nobody'') sampleWorld) = Inl (newError ErrorInvalidCredentials)"
    by code_simp
  then obtain w' where run: "serve sampleEnv (ReqInvalidateSession ''nobody'') sampleWorld
      = (Inl (newError ErrorInvalidCredentials), w')"
    by (cases "serve sampleEnv (ReqInvalidateSession ''nobody'') sampleWorld") simp
  then show ?thesis using failed_request_changes_nothing[OF sample_acknowledged run] by blast
qed

subsection \<open>Accepting an invitation\<close>

text \<open>The invitation a token designates in a database.\<close>

definition designated :: "db \<Rightarrow> string \<Rightarrow> string option" where
  "designated d hash = map_option i_id (List.find (\<lambda>r. i_token_hash r = Some hash) (invitations d))"

lemma lockedInvitation_designated:
  assumes "lockedInvitation env hash w = (Inr i, w')" and "txCtx System w"
  shows "designated (w_db w) hash = Some (invitationID i)"
proof -
  have "visibleRows invitationsTable w = invitations (w_db w)"
    using assms(2) by (simp add: visibleRows_def scope_simps)
  then show ?thesis using assms(1)
    by (auto simp: lockedInvitation_def run_simps designated_def split: if_splits)
qed

lemma markedOnce_Inr:
  assumes "(if length rs \<noteq> 1 then fail err else ret ()) w = (Inr u, w')"
  shows "length rs = 1 \<and> w' = w"
  using assms by (simp add: fail_eq ret_eq split: if_splits)

lemma updated_rows:
  assumes "updateTable env tbl P f w = (Inr rs, w')"
  shows "length rs = length (filter (\<lambda>r. policy tbl w r \<and> P (w_now w) r) (rowsOf tbl (w_db w)))
    \<and> w_db w' = putRows tbl (updateWhere (\<lambda>r. policy tbl w r \<and> P (w_now w) r) (f (w_now w)) (rowsOf tbl (w_db w)))
            (w_db w)"
proof -
  note facts = iffD1[OF updateTable_Inr assms]
  have "rs = map (f (w_now w)) (filter (\<lambda>r. policy tbl w r \<and> P (w_now w) r) (rowsOf tbl (w_db w)))"
    and "w' = (tick w)\<lparr>w_db := putRows tbl
          (updateWhere (\<lambda>r. policy tbl w r \<and> P (w_now w) r) (f (w_now w)) (rowsOf tbl (w_db w))) (w_db w)\<rparr>"
    using facts by blast+
  then show ?thesis by simp
qed

lemma nonempty_filter_hit: "length (filter P xs) = 1 \<Longrightarrow> \<exists>x \<in> set xs. P x"
  by (induction xs) (auto split: if_splits)

lemma markInvitationUsed_Inr:
  assumes "markInvitationUsed env iid w = (Inr u, w')"
  shows "\<exists>r \<in> set (invitations (w_db w')). i_id r = iid \<and> i_used_at r = Some (w_now w)"
proof -
  let ?hit = "\<lambda>r. policy invitationsTable w r \<and> i_id r = iid \<and> i_used_at r = None"
  have "\<exists>rs. updateTable env invitationsTable (\<lambda>now r. i_id r = iid \<and> i_used_at r = None) useInvitation w
      = (Inr rs, w') \<and> length rs = 1"
    using assms unfolding markInvitationUsed_def andThen_Inr mapError_Inr by (blast dest: markedOnce_Inr)
  then obtain rs where upd: "updateTable env invitationsTable (\<lambda>now r. i_id r = iid \<and> i_used_at r = None) useInvitation w
      = (Inr rs, w')" and one: "length rs = 1" by blast
  note new = updated_rows[OF upd]
  have "length (filter ?hit (invitations (w_db w))) = 1" using conjunct1[OF new] one by simp
  then obtain r where r: "r \<in> set (invitations (w_db w))" "?hit r" using nonempty_filter_hit by blast
  have "invitations (w_db w') = updateWhere ?hit (useInvitation (w_now w)) (invitations (w_db w))"
    unfolding conjunct2[OF new] by simp
  then have "useInvitation (w_now w) r \<in> set (invitations (w_db w'))" using r by (auto simp: set_updateWhere)
  then show ?thesis by (rule bexI[rotated]) (use r(2) in \<open>simp add: useInvitation_def\<close>)
qed

lemma andThen_InrE:
  assumes "andThen m f w = (Inr y, w')"
    and "\<And>x w1. m w = (Inr x, w1) \<Longrightarrow> f x w1 = (Inr y, w') \<Longrightarrow> P"
  shows P
  using assms by (auto simp: andThen_Inr)

lemma guarded_Inr: "(if b then fail err else m) w = (Inr y, w') \<Longrightarrow> \<not> b \<and> m w = (Inr y, w')"
  by (auto simp: fail_eq split: if_splits)

lemma acceptInvitationTx_Inr:
  assumes "acceptInvitationTx env a w = (Inr x, w')"
  obtains i w1 w2 w3 usr where
    "lockedInvitation env (tokenHash (acceptedInvitation a)) w = (Inr i, w1)"
    "invitationEmail i = userEmail (acceptedUser a)"
    "markInvitationUsed env (invitationID i) w2 = (Inr (), w3)"
    "insertAuditEvent env (auditEvent (Some usr) (Some (invitationTenantID i)) ''invitation.accepted''
       (userEmail (fst x))) w3 = (Inr (), w')"
  using assms unfolding acceptInvitationTx_def
  apply (rule andThen_InrE)
  apply (drule guarded_Inr, erule conjE)
  apply (erule andThen_InrE)+
  apply (simp only: ret_eq sum.inject)
  apply (erule conjE)
  subgoal premises prems for i w1 u w2 l w3 m w4 v w5 un w6 un' w7
    using prems that[of i w1 w5 w6 "userID v"] by simp
  done

lemma acceptInvitation_Inr:
  assumes "keysDistinct (w_db w)" and "acceptInvitation env a w = (Inr x, w')"
  shows "\<exists>r \<in> set (invitations (w_db w)).
     designated (w_db w) (tokenHash (acceptedInvitation a)) = Some (i_id r)
     \<and> i_token_hash r = Some (tokenHash (acceptedInvitation a))
     \<and> i_used_at r = None \<and> i_revoked_at r = None \<and> pgTime (e_clock env (w_tick w)) < i_expires_at r
     \<and> i_email r = userEmail (acceptedUser a)
     \<and> (\<exists>r' \<in> set (invitations (w_db w')). i_id r' = i_id r \<and> i_used_at r' \<noteq> None)"
  using assms(2) unfolding acceptInvitation_def
proof (rule systemRead)
  fix w1 w2
  assume entered: "enteredTx env System w w1" and out: "w_db w' = w_db w2"
    and run: "acceptInvitationTx env a w1 = (Inr x, w2)"
  from run show ?thesis
  proof (rule acceptInvitationTx_Inr)
    fix i w3 w4 w5 usr
    assume lock: "lockedInvitation env (tokenHash (acceptedInvitation a)) w1 = (Inr i, w3)"
      and email: "invitationEmail i = userEmail (acceptedUser a)"
      and mark: "markInvitationUsed env (invitationID i) w4 = (Inr (), w5)"
      and audit: "insertAuditEvent env (auditEvent (Some usr) (Some (invitationTenantID i)) ''invitation.accepted''
       (userEmail (fst x))) w5 = (Inr (), w2)"
    obtain r where r: "r \<in> set (invitations (w_db w))" "i = scanInvitation r"
      "i_token_hash r = Some (tokenHash (acceptedInvitation a))" "i_used_at r = None" "i_revoked_at r = None"
      "pgTime (e_clock env (w_tick w)) < i_expires_at r"
      using lockedInvitation_Inr[OF lock] entered by (auto simp: enteredTx_def)
    have "invitations (w_db w') = invitations (w_db w5)" using insertAuditEvent_Inr[OF audit] out by auto
    then have "\<exists>r' \<in> set (invitations (w_db w')). i_id r' = i_id r \<and> i_used_at r' \<noteq> None"
      using markInvitationUsed_Inr[OF mark] r(2) by auto
    moreover have "designated (w_db w) (tokenHash (acceptedInvitation a)) = Some (i_id r)"
      using lockedInvitation_designated[OF lock] entered assms(1) r(2)
      by (auto simp: enteredTx_def txCtx_def)
    ultimately show ?thesis using r email by auto
  qed
qed

subsection \<open>Sequences of requests\<close>

fun serveAll :: "env \<Rightarrow> store_request list \<Rightarrow> world \<Rightarrow> world" where
  "serveAll env [] w = w"
| "serveAll env (req # reqs) w = serveAll env reqs (snd (serve env req w))"

lemma serveAll_steps: "keysDistinct (w_db w) \<Longrightarrow> steps env System (w_db w) (w_db (serveAll env reqs w))"
proof (induction reqs arbitrary: w)
  case (Cons req reqs)
  let ?w1 = "snd (serve env req w)"
  have first: "steps env System (w_db w) (w_db ?w1)"
    using steps_system[OF served_steps[OF Cons.prems]] .
  then have "keysDistinct (w_db ?w1)" using Cons.prems by (rule keysDistinct_steps)
  then have "steps env System (w_db ?w1) (w_db (serveAll env reqs ?w1))" by (rule Cons.IH)
  with first show ?case by simp
qed simp

lemma serveAll_keysDistinct: "keysDistinct (w_db w) \<Longrightarrow> keysDistinct (w_db (serveAll env reqs w))"
  using keysDistinct_steps serveAll_steps by blast

definition sampleAcceptance :: invitation_acceptance where
  "sampleAcceptance =
     \<lparr>acceptedInvitation = scanInvitation sampleInvitation,
      acceptedUser = \<lparr>userID = [], userEmail = ''a@b'', globalRole = GlobalRoleUser, userLocale = ''de'', sessionVersion = 1\<rparr>,
      acceptedPasswordHash = ''hash'', acceptedExistingUser = False, acceptedIdentity = None\<rparr>"

definition usedInvitation :: invitation_row where
  "usedInvitation = sampleInvitation\<lparr>i_id := ''i0'', i_token_hash := Some ''u'', i_used_at := Some 4\<rparr>"

definition twoInvitations :: world where
  "twoInvitations = sampleWorld\<lparr>w_db := sampleDb\<lparr>invitations := [usedInvitation, sampleInvitation]\<rparr>\<rparr>"

fun succeeded :: "(go_error + 'a) \<times> world \<Rightarrow> bool" where
  "succeeded (Inr x, w) = True"
| "succeeded (Inl err, w) = False"

lemma succeededE:
  assumes "succeeded r"
  obtains x w where "r = (Inr x, w)"
  using assms by (cases r rule: succeeded.cases) auto

text \<open>An invitation is accepted only while it is open. When an acceptance succeeds, the token designates an
  invitation of the database that is neither used nor revoked, has not expired by the server's clock and
  is addressed to the e-mail of the accepting user; afterwards that invitation is marked as used.\<close>

theorem acceptance_needs_open_invitation:
  assumes "keysDistinct (w_db w)" and "acceptInvitation env a w = (Inr x, w')"
  shows "\<exists>r \<in> set (invitations (w_db w)).
     designated (w_db w) (tokenHash (acceptedInvitation a)) = Some (i_id r)
     \<and> i_used_at r = None \<and> i_revoked_at r = None \<and> pgTime (e_clock env (w_tick w)) < i_expires_at r
     \<and> i_email r = userEmail (acceptedUser a)
     \<and> (\<exists>r' \<in> set (invitations (w_db w')). i_id r' = i_id r \<and> i_used_at r' \<noteq> None)"
  using acceptInvitation_Inr[OF assms] by blast

theorem acceptance_needs_open_invitation_witness:
  "\<exists>x w'. acceptInvitation sampleEnv sampleAcceptance sampleWorld = (Inr x, w')
     \<and> (\<exists>r' \<in> set (invitations (w_db w')). i_used_at r' \<noteq> None)"
proof -
  have "succeeded (acceptInvitation sampleEnv sampleAcceptance sampleWorld)" by code_simp
  then obtain x w' where run: "acceptInvitation sampleEnv sampleAcceptance sampleWorld = (Inr x, w')"
    by (rule succeededE)
  show ?thesis using acceptance_needs_open_invitation[OF sample_keysDistinct run] run by blast
qed

text \<open>C11: An invitation that was used or revoked is never accepted again, whatever the store did in between: a
  later acceptance that succeeds designates another invitation. In particular an invitation is accepted at
  most once, and never after its revocation.\<close>

theorem closed_invitation_never_accepted:
  assumes "keysDistinct (w_db w)" and "r \<in> set (invitations (w_db w))"
    and "i_used_at r \<noteq> None \<or> i_revoked_at r \<noteq> None"
    and "acceptInvitation env a (serveAll env reqs w) = (Inr x, w')"
  shows "designated (w_db (serveAll env reqs w)) (tokenHash (acceptedInvitation a)) \<noteq> Some (i_id r)"
proof
  let ?w = "serveAll env reqs w"
  assume same: "designated (w_db ?w) (tokenHash (acceptedInvitation a)) = Some (i_id r)"
  obtain r1 where r1: "r1 \<in> set (invitations (w_db ?w))" "invitationKept r r1"
    using laterInvitation[OF serveAll_steps[OF assms(1)] assms(2)] by blast
  obtain r2 where r2: "r2 \<in> set (invitations (w_db ?w))" "i_id r2 = i_id r"
    "i_used_at r2 = None" "i_revoked_at r2 = None"
    using acceptInvitation_Inr[OF serveAll_keysDistinct[OF assms(1)] assms(4)] same by auto
  have "distinct (map i_id (invitations (w_db ?w)))"
    using serveAll_keysDistinct[OF assms(1)] by (simp add: keysDistinct_def)
  then have "r1 = r2" using r1 r2 by (auto simp: invitationKept_def intro: distinct_key_unique)
  with r1(2) r2 assms(3) show False by (auto simp: invitationKept_def)
qed

theorem closed_invitation_never_accepted_witness:
  "designated (w_db (serveAll sampleEnv [ReqInvalidateSession idAdmin] twoInvitations)) ''h'' \<noteq> Some ''i0''"
proof -
  have keys: "keysDistinct (w_db twoInvitations)"
    by (simp add: keysDistinct_def twoInvitations_def usedInvitation_def sample_defs)
  have "usedInvitation \<in> set (invitations (w_db twoInvitations))" by (simp add: twoInvitations_def)
  moreover have "i_used_at usedInvitation \<noteq> None \<or> i_revoked_at usedInvitation \<noteq> None"
    by (simp add: usedInvitation_def)
  moreover have "succeeded (acceptInvitation sampleEnv sampleAcceptance
      (serveAll sampleEnv [ReqInvalidateSession idAdmin] twoInvitations))" by code_simp
  then obtain x w' where "acceptInvitation sampleEnv sampleAcceptance
      (serveAll sampleEnv [ReqInvalidateSession idAdmin] twoInvitations) = (Inr x, w')" by (rule succeededE)
  ultimately have "designated (w_db (serveAll sampleEnv [ReqInvalidateSession idAdmin] twoInvitations))
      (tokenHash (acceptedInvitation sampleAcceptance)) \<noteq> Some (i_id usedInvitation)"
    by (rule closed_invitation_never_accepted[OF keys])
  then show ?thesis by (simp add: sampleAcceptance_def usedInvitation_def scanInvitation_def sampleInvitation_def)
qed

end
