(* ===== verification/ServiceSamples.thy ===== *)
theory ServiceSamples imports AuthService StoreResults "HOL-Library.Code_Target_Nat" begin

text \<open>
  Concrete libraries, a service and a world at which the witnesses of the service properties evaluate it:
  bcrypt hashes are the passwords themselves, a session token is \<^verbatim>\<open>t\<close> and stands for one set of claims.
\<close>

definition idPerson :: string where "idPerson = ''00000000-0000-7000-8000-000000000002''"
definition idRoleUuid :: string where "idRoleUuid = ''00000000-0000-7000-8000-000000000003''"
definition idFresh :: string where "idFresh = ''00000000-0000-7000-8000-000000000004''"

definition serviceEnv :: env where
  "serviceEnv = sampleEnv\<lparr>e_uuid := (\<lambda>n. Some idFresh)\<rparr>"

definition sampleClaims :: token_claims where
  "sampleClaims =
     \<lparr>tcTenantID = idTenant, tcVersion = 1, tcSubject = idPerson, tcIssuer = ''clinks'', tcAudience = ''app'',
      tcExpiresAt = Some (unixSeconds (1000000 + 60 * nanosecondsPerSecond)), tcIssuedAt = Some (unixSeconds 1000000),
      tcID = idFresh\<rparr>"

definition sampleURL :: url where
  "sampleURL =
     \<lparr>urlScheme = ''https'', urlUser = None, urlHost = ''clinks.ch'', urlPath = ''/app'', urlRawQuery = [], urlFragment = []\<rparr>"

definition sampleUrlParse :: "string \<Rightarrow> url option" where
  "sampleUrlParse s =
     (if s = ''https://clinks.ch/app/'' then Some (sampleURL\<lparr>urlPath := ''/app/''\<rparr>)
      else if s = ''https://clinks.ch'' then Some (sampleURL\<lparr>urlPath := []\<rparr>) else None)"

definition samplePorts :: ports where
  "samplePorts =
     \<lparr>bcryptGenerate = (\<lambda>n cost pw. if pw = [] then None else Some pw), bcryptCompare = (\<lambda>h pw. h = pw),
      bcryptCost = (\<lambda>h. Some 10),
      jwtSign = (\<lambda>secret c. if c = sampleClaims then Some ''t'' else None),
      jwtParse = (\<lambda>secret issuer audience now token. if token = ''t'' then Some sampleClaims else None),
      uuidValidate = validUUID, parseAddress = (\<lambda>s. Some \<lparr>addressName = [], addressSpec = s\<rparr>), urlParse = sampleUrlParse,
      parseTimeLenient = (\<lambda>s. None), pgUuid = Some\<rparr>"

definition sampleAuth :: auth where
  "sampleAuth =
     \<lparr>authPasswords = \<lparr>hasherCost = 10, rejectedHash = ''x''\<rparr>,
      authSessions = \<lparr>issuerSecret = ''k'', issuerName = ''clinks'', issuerAudience = ''app'',
                      issuerTTL = 60 * nanosecondsPerSecond\<rparr>,
      authTokenSecret = ''s'', authLinks = sampleURL, authInviteTTL = 1000\<rparr>"

text \<open>One user, who manages the users of the first tenant.\<close>

definition serviceWorld :: world where
  "serviceWorld = sampleWorld\<lparr>w_db := sampleDb
     \<lparr>users := [sampleUser idPerson ''boss@x'' (Some ''p'')],
      roles := [\<lparr>r_id = idRoleUuid, r_tenant = idTenant, r_name = ''Administrator'', r_kind = RoleKindAdministrator,
                 r_revision = 1, r_created_at = 0, r_updated_at = 0\<rparr>],
      role_permissions := [\<lparr>p_tenant = idTenant, p_role = idRoleUuid, p_permission = PermissionUserManage\<rparr>],
      memberships := [sampleMembership idAdminMembership idPerson idRoleUuid],
      invitations := [], outbox := []\<rparr>\<rparr>"

definition personSession :: session where
  "personSession =
     \<lparr>sessionToken = [],
      sessionUser = \<lparr>userID = idPerson, userEmail = ''boss@x'', globalRole = GlobalRoleUser, userLocale = ''de'', sessionVersion = 1\<rparr>,
      activeTenant = Some (sampleTenant idTenant ''Acme''), sessionMemberships = []\<rparr>"

lemma sample_ids [simp]:
  "validUUID idTenant" "validUUID idPerson" "validUUID idRoleUuid" "validUUID idFresh" "locale_isValid ''de''"
  "idTenant \<noteq> []" "idFresh \<noteq> []"
  by code_simp+

lemma sample_email [simp]: "trimSpace ''a@b'' = ''a@b''" "btrim ''a@b'' = ''a@b''"
  by code_simp+

definition freshInvitation :: "string \<Rightarrow> role \<Rightarrow> invitation" where
  "freshInvitation h role =
     \<lparr>invitationID = idFresh, invitationTenantID = idTenant, invitationEmail = ''a@b'',
      invitationRoleID = idRoleUuid, invitationRole = role, tokenHash = h, expiresAt = 1001000, usedAt = None,
      revokedAt = None, createdBy = idPerson, acceptanceURL = [], deliveryStatus = DeliveryQueued,
      invitationLocale = ''de'', invitationCreatedAt = zeroTime\<rparr>"

lemma sample_invites:
  "w_db w = w_db serviceWorld \<Longrightarrow> succeeded (CreateInvitation serviceEnv (freshInvitation h role) w)"
  by (simp add: CreateInvitation_def freshInvitation_def WithTenantTx_def tenantID_validate_def liftSum_def
      beginFunc_def setConfig_def tenantSettingKey_def systemSettingKey_def createInvitationTx_def
      insertInvitation_def insertAuditEvent_def enqueueInvitationEmail_def insertInto_def statement_def
      andThen_def mapError_def ret_def fail_def newUUID_def serviceEnv_def sampleEnv_def tick_def leaveTx_def
      Let_def table_defs tenantVisible_def bypassesRLS_def currentTenant_def auditVisible_def rowViolation_def
      serviceWorld_def sampleWorld_def sampleDb_def auditEvent_def tenantExists_def userExists_def
      languageExists_def roleExists_def invitationExists_def emailNormalized_def sampleTenant_def sampleUser_def
      leaseConsistent_def maxInt4_def outboxJobInvitationEmail_def)

lemma sample_services: "quiet serviceEnv" "jwtCorrect samplePorts" "uuidsCanonical serviceEnv samplePorts"
  "keysDistinct (w_db serviceWorld)"
  by (simp_all add: quiet_def serviceEnv_def sampleEnv_def jwtCorrect_def samplePorts_def uuidsCanonical_def
      keysDistinct_def serviceWorld_def sampleWorld_def sampleDb_def sampleTenant_def sampleID_def sampleUser_def
      sampleMembership_def) code_simp+

lemma sample_login: "succeeded (Auth_Login serviceEnv samplePorts sampleAuth ''boss@x'' ''p'' serviceWorld)"
  by code_simp

lemma sample_logout: "succeeded (Auth_Logout serviceEnv personSession serviceWorld)"
  by code_simp

lemma sample_clock [simp]: "e_clock serviceEnv n = 1000000"
  by (simp add: serviceEnv_def sampleEnv_def)

lemma sample_new_invitation:
  "\<exists>h. Auth_newInvitation serviceEnv sampleAuth idPerson idTenant ''a@b'' idRoleUuid ''de'' w
     = (Inr (freshInvitation (invitationHash h) zeroRole, h), tick (tick w))"
proof -
  let ?i = "freshInvitation [] zeroRole"
  obtain h where h: "invitationToken ''s'' ?i = Inr h"
    by (simp add: invitationToken_def Let_def freshInvitation_def zeroTime_def)
  have fields: "e_uuid serviceEnv n = Some idFresh" "e_clock serviceEnv n = 1000000" "authTokenSecret sampleAuth = ''s''"
    "authInviteTTL sampleAuth = 1000" for n
    by (simp_all add: serviceEnv_def sampleEnv_def sampleAuth_def)
  show ?thesis using h
    by (intro exI[of _ h])
      (simp add: Auth_newInvitation_def NewInvitationID_def newTokenID_def mapError_def andThen_def goNow_def Let_def
        ret_def fields freshInvitation_def)
qed

end
