(* ===== verification/AuthProperties.thy ===== *)
theory AuthProperties imports ServiceSamples begin

text \<open>
  What the service \<open>Auth\<close> guarantees: who can log in and with what, that a failed login says nothing and
  changes nothing, that an ended session stays ended, that a token resolves to the session it was issued
  for, and what an invitation and its acceptance need.
\<close>

subsection \<open>Reading parts\<close>

lemma untouched_sessionForUser [untouched_rules]:
  "keeps (\<lambda>_. True) untouched (Auth_sessionForUser env usr t)"
  unfolding Auth_sessionForUser_def Let_def by (intro untouched_rules)

lemma untouched_IssueToken [untouched_rules]: "keeps (\<lambda>_. True) untouched (IssueToken env p issuer claim)"
proof -
  have "keeps (\<lambda>_. True) untouched (newTokenID env)"
    by (rule keepsI) (auto simp: newTokenID_def untouched_def split: option.splits)
  then show ?thesis unfolding IssueToken_def Let_def by (intro untouched_rules)
qed

lemma untouched_VerifyToken [untouched_rules]: "keeps (\<lambda>_. True) untouched (VerifyToken env p issuer token)"
  unfolding VerifyToken_def by (intro untouched_rules)

lemma untouched_issue [untouched_rules]: "keeps (\<lambda>_. True) untouched (Auth_issue env p a s)"
  unfolding Auth_issue_def by (intro untouched_rules)

lemma untouched_requireTenantPermission [untouched_rules]:
  "keeps (\<lambda>_. True) untouched (Auth_requireTenantPermission env uid tid perm)"
  unfolding Auth_requireTenantPermission_def by (intro untouched_rules)

lemma untouched_findInvitation [untouched_rules]:
  "keeps (\<lambda>_. True) untouched (Auth_findInvitation env token)"
  unfolding Auth_findInvitation_def Let_def by (intro untouched_rules)

lemma untouched_CurrentSession [untouched_rules]:
  "keeps (\<lambda>_. True) untouched (Auth_CurrentSession env p a token)"
  unfolding Auth_CurrentSession_def by (intro untouched_rules)

subsection \<open>What the parts return\<close>

lemma MembershipsForUser_Inr:
  assumes "MembershipsForUser env uid w = (Inr ms, w')" and "m \<in> set ms"
  shows "activeMembership (w_db w) uid (tenantID (membershipTenant m)) (membershipRoleID m)
     \<and> membershipStatus m = MembershipActive"
  using assms(1) unfolding MembershipsForUser_def
proof (rule systemRead)
  fix w1 w2
  assume "enteredTx env System w w1"
    "mapError (Wrapped ''list memberships'') (query env (\<lambda>w. orderBy (byTenantName env)
      (membershipQuery env w (\<lambda>m. m_user m = uid \<and> m_status m = MembershipActive)))) w1 = (Inr ms, w2)"
  then show ?thesis using assms(2)
    by (auto simp: run_simps membershipQuery_def scanMembership_def visibleRows_def enteredTx_def
        activeMembership_def split: if_splits)
qed

lemma sessionForUser_Inr:
  assumes "Auth_sessionForUser env usr t w = (Inr s, w')"
  shows "sessionUser s = usr
     \<and> (\<forall>m \<in> set (sessionMemberships s).
          activeMembership (w_db w) (userID usr) (tenantID (membershipTenant m)) (membershipRoleID m))
     \<and> (if isSuperAdministrator (globalRole usr) then activeTenant s = None \<and> sessionMemberships s = []
        else \<exists>m \<in> set (sessionMemberships s). activeTenant s = Some (membershipTenant m)
               \<and> (t = None \<or> t = Some (tenantID (membershipTenant m))))"
proof (cases "isSuperAdministrator (globalRole usr)")
  case True
  then show ?thesis using assms by (auto simp: Auth_sessionForUser_def run_simps)
next
  case False
  let ?as = "\<lambda>ms. filter (\<lambda>m. membershipStatus m = MembershipActive) ms"
  have "\<exists>ms w1. MembershipsForUser env (userID usr) w = (Inr ms, w1) \<and> sessionUser s = usr
      \<and> sessionMemberships s = ?as ms
      \<and> (\<exists>m \<in> set (?as ms). activeTenant s = Some (membershipTenant m)
               \<and> (t = None \<or> t = Some (tenantID (membershipTenant m))))"
  proof (cases t)
    case None
    then show ?thesis using assms False None
      by (auto simp: Auth_sessionForUser_def run_simps Let_def simp del: filter_empty_conv set_filter
          split: if_splits) (metis hd_in_set)
  next
    case (Some tid)
    then show ?thesis using assms False
      by (auto simp: Auth_sessionForUser_def run_simps Let_def simp del: filter_empty_conv set_filter
          split: if_splits option.splits dest!: find_Some_member)
  qed
  then obtain ms w1 where ms: "MembershipsForUser env (userID usr) w = (Inr ms, w1)"
    and s: "sessionUser s = usr" "sessionMemberships s = ?as ms"
      "\<exists>m \<in> set (?as ms). activeTenant s = Some (membershipTenant m)
               \<and> (t = None \<or> t = Some (tenantID (membershipTenant m)))" by blast
  then show ?thesis using MembershipsForUser_Inr[OF ms] False by auto
qed

lemma issue_Inr:
  assumes "Auth_issue env p a s0 w = (Inr s, w')"
  obtains token where "s = s0\<lparr>sessionToken := token\<rparr>"
    "IssueToken env p (authSessions a) (sessionClaim s0) w = (Inr token, w')"
  using assms by (auto simp: Auth_issue_def run_simps)

lemma issue_fields:
  "Auth_issue env p a s0 w = (Inr s, w') \<Longrightarrow>
     sessionUser s = sessionUser s0 \<and> sessionMemberships s = sessionMemberships s0 \<and> activeTenant s = activeTenant s0"
  by (erule issue_Inr) simp

lemma appendAudit_Inr:
  assumes "Auth_appendAudit env uid t action target w = (Inr u, w')"
  shows "\<exists>e. w_db w' = (w_db w)\<lparr>audit_events := audit_events (w_db w) @ [e]\<rparr>
     \<and> a_actor e = Some uid \<and> a_tenant e = t \<and> a_action e = trimSpace action \<and> a_target e = trimSpace target"
proof -
  obtain ev w1 where ev: "actorID ev = Some uid" "eventTenantID ev = t" "eventAction ev = trimSpace action"
    "eventTarget ev = trimSpace target" and w1: "w_db w1 = w_db w" and run: "Append env ev w1 = (Inr u, w')"
    using assms that[of "(auditEvent (Some uid) t (trimSpace action) (trimSpace target))
        \<lparr>occurredAt := e_clock env (w_tick w)\<rparr>" "tick w"]
    by (auto simp: Auth_appendAudit_def run_simps)
  show ?thesis using run unfolding Append_def
  proof (rule systemRead)
    fix w2 w3
    assume "enteredTx env System w1 w2" "insertAuditEvent env ev w2 = (Inr u, w3)" "w_db w' = w_db w3"
    then show ?thesis using insertAuditEvent_Inr[of env ev w2 u w3] ev w1 by (auto simp: enteredTx_def)
  qed
qed

subsection \<open>The clock goes on\<close>

definition later :: "world \<Rightarrow> world \<Rightarrow> bool" where
  "later w w' \<longleftrightarrow> w_tick w \<le> w_tick w'"

interpretation later: world_relation "\<lambda>_. True" later
  by unfold_locales (auto simp: later_def)

lemma later_statements:
  "keeps (\<lambda>_. True) later (insertInto env tbl mk)" "keeps (\<lambda>_. True) later (setConfig env key v)"
  by (rule later.insertInto, simp add: later_def) (rule keepsI, auto simp: later_def dest!: setConfig_cases)

lemma later_systemTx:
  assumes "keeps (\<lambda>_. True) later m"
  shows "keeps (\<lambda>_. True) later (withSystemTx env m)"
proof -
  have set: "keeps (\<lambda>_. True) later (andThen (mapError (Wrapped ''set transaction context'') (setConfig env systemSettingKey ''true''))
      (\<lambda>_. m))" (is "keeps _ _ ?body")
    by (intro later.andThen later.mapError later_statements assms)
  have "later w1 w2" if "?body w1 = (q, w2)" for q w1 w2 using keepsD[OF set TrueI that] .
  then have inner: "w_tick w1 \<le> w_tick w2" if "?body w1 = (q, w2)" for q w1 w2 using that by (auto simp: later_def)
  show ?thesis unfolding withSystemTx_def withSettingTx_def
    by (rule keepsI)
      (auto simp: beginFunc_def later_def leaveTx_def split: option.splits prod.splits sum.splits commit_outcome.splits dest!: inner)
qed

lemmas later_rules = later.control keeps_if keeps_let keeps_case_option keeps_case_sum keeps_case_prod
  later_statements later_systemTx

lemma later_login:
  "keeps (\<lambda>_. True) later (FindByEmail env email)" "keeps (\<lambda>_. True) later (Auth_sessionForUser env usr t)"
  "keeps (\<lambda>_. True) later (Auth_appendAudit env actor tid action target)"
  unfolding FindByEmail_def Auth_sessionForUser_def MembershipsForUser_def Auth_appendAudit_def Append_def insertAuditEvent_def
  by (intro later_rules)+

lemma IssueToken_ticks: "IssueToken env p issuer claim w = (Inr token, w') \<Longrightarrow> w_tick w < w_tick w'"
  by (auto simp: IssueToken_def run_simps Let_def newTokenID_def split: option.splits)

subsection \<open>Logging in\<close>

lemma login_Inr:
  assumes "Auth_login env p a raw password super w = (Inr s, w')"
  obtains email r h s0 w1 w2 w3 where
    "ParseEmail env p raw = Inr email" "r \<in> set (users (w_db w))" "u_email r = email"
    "u_password_hash r = Some h" "verifyPassword p (authPasswords a) password h"
    "isSuperAdministrator (globalRole (u_user r)) = super" "w_db w1 = w_db w"
    "Auth_sessionForUser env (u_user r) None w1 = (Inr s0, w2)" "w_db w2 = w_db w"
    "Auth_issue env p a s0 w2 = (Inr s, w3)" "w_db w3 = w_db w"
    "Auth_appendAudit env (u_id r) (map_option tenantID (activeTenant s)) ''session.login'' (u_email r) w3
       = (Inr (), w')"
    "w_tick w \<le> w_tick w2" "w_tick w3 \<le> w_tick w'"
proof (cases "ParseEmail env p raw")
  case (Inl err)
  then show thesis using assms by (simp add: Auth_login_def fail_def)
next
  case (Inr email)
  obtain found w1 where find: "FindByEmail env email w = (found, w1)" by fastforce
  obtain usr h where found: "found = Inr (usr, h)"
    using assms Inr find by (cases found) (auto simp: Auth_login_def andThen_def attempt_def fail_def)
  obtain s0 w2 w3 where
    ok: "verifyPassword p (authPasswords a) password h" "isSuperAdministrator (globalRole usr) = super"
    and sess: "Auth_sessionForUser env usr None w1 = (Inr s0, w2)"
    and issue: "Auth_issue env p a s0 w2 = (Inr s, w3)"
    and audit: "Auth_appendAudit env (userID usr) (map_option tenantID (activeTenant s)) ''session.login''
        (userEmail usr) w3 = (Inr (), w')"
    using assms Inr find found
    by (auto simp: Auth_login_def andThen_Inr attempt_eq ret_eq fail_eq split: if_splits)
  note find = find[unfolded found]
  obtain r where r: "r \<in> set (users (w_db w))" "u_email r = email" "u_user r = usr" "u_password_hash r = Some h"
    using FindByEmail_Inr[OF find] by blast
  have "w_db w1 = w_db w" "w_db w2 = w_db w1" "w_db w3 = w_db w2"
    using find sess issue by (auto dest: untouchedD[rotated] intro: untouched_rules)
  moreover have "w_tick w \<le> w_tick w2" "w_tick w3 \<le> w_tick w'"
    using keepsD[OF later_login(1) TrueI find] keepsD[OF later_login(2) TrueI sess] keepsD[OF later_login(3) TrueI audit]
    by (simp_all add: later_def)
  ultimately show thesis using that Inr r ok sess issue audit by simp
qed

text \<open>C12: Nobody logs in without the password. A successful login is of a user the database holds under the
  parsed e-mail address, whose stored hash the password matches and whose global role is the one asked
  for; the session carries that user and only memberships that are active, and the login is recorded by one
  audit event and changes nothing else.\<close>

theorem login_needs_password:
  assumes "Auth_login env p a raw password super w = (Inr s, w')"
  shows "(\<exists>r h. r \<in> set (users (w_db w)) \<and> ParseEmail env p raw = Inr (u_email r)
        \<and> u_password_hash r = Some h \<and> verifyPassword p (authPasswords a) password h
        \<and> sessionUser s = u_user r \<and> isSuperAdministrator (globalRole (u_user r)) = super)
     \<and> (\<forall>m \<in> set (sessionMemberships s).
          activeMembership (w_db w) (userID (sessionUser s)) (tenantID (membershipTenant m)) (membershipRoleID m))
     \<and> (\<exists>e. w_db w' = (w_db w)\<lparr>audit_events := audit_events (w_db w) @ [e]\<rparr>
          \<and> a_actor e = Some (userID (sessionUser s)) \<and> a_action e = ''session.login'')"
  using assms
proof (rule login_Inr)
  fix email r h s0 w1 w2 w3
  assume *: "ParseEmail env p raw = Inr email" "r \<in> set (users (w_db w))" "u_email r = email"
    "u_password_hash r = Some h" "verifyPassword p (authPasswords a) password h"
    "isSuperAdministrator (globalRole (u_user r)) = super" "w_db w1 = w_db w" "w_db w3 = w_db w"
    and s0: "Auth_sessionForUser env (u_user r) None w1 = (Inr s0, w2)"
    and issue: "Auth_issue env p a s0 w2 = (Inr s, w3)"
    and audit: "Auth_appendAudit env (u_id r) (map_option tenantID (activeTenant s)) ''session.login'' (u_email r) w3
       = (Inr (), w')"
  have s: "sessionUser s = sessionUser s0" "sessionMemberships s = sessionMemberships s0"
    using issue_fields[OF issue] by simp_all
  have trim: "trimSpace ''session.login'' = ''session.login''"
    by (rule trimSpace_ascii) (simp_all add: isSpace_def byte_def)
  obtain e where "w_db w' = (w_db w3)\<lparr>audit_events := audit_events (w_db w3) @ [e]\<rparr>
     \<and> a_actor e = Some (u_id r) \<and> a_tenant e = map_option tenantID (activeTenant s)
     \<and> a_action e = trimSpace ''session.login'' \<and> a_target e = trimSpace (u_email r)"
    using appendAudit_Inr[OF audit] by (rule exE)
  then have e: "w_db w' = (w_db w)\<lparr>audit_events := audit_events (w_db w) @ [e]\<rparr>"
    "a_actor e = Some (u_id r)" "a_action e = ''session.login''"
    unfolding trim *(8) by simp_all
  have who: "sessionUser s = u_user r" using sessionForUser_Inr[OF s0] s by simp
  have "\<forall>m \<in> set (sessionMemberships s).
      activeMembership (w_db w) (userID (sessionUser s)) (tenantID (membershipTenant m)) (membershipRoleID m)"
    using sessionForUser_Inr[OF s0] s who *(7) by simp
  moreover have "ParseEmail env p raw = Inr (u_email r)" using *(1,3) by simp
  ultimately show ?thesis unfolding who using *(2,4,5,6) e by blast
qed

theorem login_needs_password_witness:
  "\<exists>s w'. Auth_login serviceEnv samplePorts sampleAuth ''boss@x'' ''p'' False serviceWorld = (Inr s, w')
     \<and> (\<exists>e. audit_events (w_db w') = [e] \<and> a_action e = ''session.login'')"
proof -
  obtain s w' where run: "Auth_login serviceEnv samplePorts sampleAuth ''boss@x'' ''p'' False serviceWorld = (Inr s, w')"
    using succeededE[OF sample_login] unfolding Auth_Login_def by blast
  have "audit_events (w_db serviceWorld) = []" by (simp add: serviceWorld_def sampleDb_def)
  then show ?thesis using run login_needs_password[OF run] by auto
qed

text \<open>C13: A failed login reveals nothing. When the address does not parse, no user has it, the user has no
  password or the password is wrong, the answer is always the same error \<^verbatim>\<open>invalid_credentials\<close>,
  and the database is left as it was.\<close>

theorem login_failure_uniform:
  assumes "\<And>r h. r \<in> set (users (w_db w)) \<Longrightarrow> ParseEmail env p raw = Inr (u_email r) \<Longrightarrow>
      u_password_hash r = Some h \<Longrightarrow> \<not> verifyPassword p (authPasswords a) password h"
  shows "\<exists>w'. Auth_login env p a raw password super w = (Inl (newError ErrorInvalidCredentials), w')
     \<and> w_db w' = w_db w"
proof (cases "ParseEmail env p raw")
  case (Inl err)
  then show ?thesis by (simp add: Auth_login_def fail_def)
next
  case (Inr email)
  obtain found w1 where find: "FindByEmail env email w = (found, w1)" by fastforce
  then have w1: "w_db w1 = w_db w" by (rule untouchedD[rotated]) (rule untouched_reading)
  have "\<not> verifyPassword p (authPasswords a) password h" if ok: "found = Inr (usr, h)" for usr h
  proof -
    obtain r where "r \<in> set (users (w_db w))" "u_email r = email" "u_password_hash r = Some h"
      using FindByEmail_Inr[of env email w usr h w1] find ok by blast
    then show ?thesis using assms Inr by simp
  qed
  then show ?thesis using Inr find w1
    by (auto simp: Auth_login_def andThen_def attempt_def fail_def split: sum.splits)
qed

theorem login_failure_uniform_witness:
  "\<exists>w'. Auth_login serviceEnv samplePorts sampleAuth ''boss@x'' ''wrong'' False serviceWorld
       = (Inl (newError ErrorInvalidCredentials), w') \<and> w_db w' = w_db serviceWorld"
  by (rule login_failure_uniform)
    (auto simp: verifyPassword_def samplePorts_def serviceWorld_def sampleUser_def)

subsection \<open>Ended sessions\<close>

lemma InvalidateSession_Inr:
  assumes "InvalidateSession env uid w = (Inr u, w')"
  shows "\<exists>r0 \<in> set (users (w_db w)). u_id r0 = uid
     \<and> (\<exists>r1 \<in> set (users (w_db w')). u_id r1 = uid \<and> u_session_version r1 = u_session_version r0 + 1)"
  using assms unfolding InvalidateSession_def
proof (rule systemRead)
  fix w1 w2
  assume in1: "enteredTx env System w w1" and out: "w_db w' = w_db w2"
    and run: "andThen (mapError (\<lambda>err. if err = NoRows then newError ErrorInvalidCredentials
                               else Wrapped ''invalidate session'' err)
          (updateReturning env usersTable (\<lambda>now r. u_id r = uid) bumpSession))
        (\<lambda>r. insertAuditEvent env (auditEvent (Some uid) None ''session.logout'' (u_email r))) w1 = (Inr u, w2)"
  obtain r rs w3 where upd: "updateTable env usersTable (\<lambda>now r. u_id r = uid) bumpSession w1 = (Inr (r # rs), w3)"
    and audit: "insertAuditEvent env (auditEvent (Some uid) None ''session.logout'' (u_email r)) w3 = (Inr u, w2)"
    using run by (auto simp: andThen_Inr mapError_Inr updateReturning_Inr)
  let ?hit = "\<lambda>r. policy usersTable w1 r \<and> u_id r = uid"
  have rows: "r # rs = map (bumpSession (w_now w1)) (filter ?hit (users (w_db w1)))"
    and w3: "users (w_db w3) = updateWhere ?hit (bumpSession (w_now w1)) (users (w_db w1))"
    using upd unfolding updateTable_Inr by (simp_all add: usersTable_def)
  then obtain r0 where r0: "r0 \<in> set (users (w_db w1))" "?hit r0" "r = bumpSession (w_now w1) r0"
  proof -
    have "r \<in> set (map (bumpSession (w_now w1)) (filter ?hit (users (w_db w1))))" unfolding rows[symmetric] by simp
    then show thesis using that by auto
  qed
  have "users (w_db w2) = users (w_db w3)" using insertAuditEvent_Inr[OF audit] by auto
  then have "r \<in> set (users (w_db w'))" using r0 w3 out by (auto simp: set_updateWhere)
  moreover have "u_id r = uid" "u_session_version r = u_session_version r0 + 1" using r0 by (simp_all add: bumpSession_def)
  moreover have "r0 \<in> set (users (w_db w))" "u_id r0 = uid" using r0 in1 by (simp_all add: enteredTx_def)
  ultimately show ?thesis by blast
qed

text \<open>C14: Logging out is final. After a successful logout, whatever requests the store serves next, a token that
  verifies to the session that was ended - the same user, a session version not above the one stored
  when it was ended - is answered with \<^verbatim>\<open>invalid_credentials\<close>.\<close>

theorem logout_is_final:
  assumes "keysDistinct (w_db w)" and "Auth_Logout env s w = (Inr u, w1)"
    and "r \<in> set (users (w_db w))" and "u_id r = userID (sessionUser s)"
    and "w_db w2 = w_db (serveAll env reqs w1)"
    and "VerifyToken env p (authSessions a) token w2 = (Inr claim, w3)"
    and "claimUserID claim = userID (sessionUser s)" and "claimSessionVersion claim \<le> u_session_version r"
  shows "\<exists>w4. Auth_CurrentSession env p a token w2 = (Inl (newError ErrorInvalidCredentials), w4)"
proof -
  let ?uid = "userID (sessionUser s)"
  have inv: "InvalidateSession env ?uid w = (Inr u, w1)"
    using assms(2) by (auto simp: Auth_Logout_def fail_eq split: if_splits)
  have keys1: "keysDistinct (w_db w1)"
    using served_steps[OF assms(1), of env "ReqInvalidateSession ?uid"] inv assms(1) keysDistinct_steps
    by (fastforce simp: discard_def)
  obtain r0 r1 where r0: "r0 \<in> set (users (w_db w))" "u_id r0 = ?uid"
    and r1: "r1 \<in> set (users (w_db w1))" "u_id r1 = ?uid" "u_session_version r1 = u_session_version r0 + 1"
    using InvalidateSession_Inr[OF inv] by blast
  have "r0 = r" using assms(1,3,4) r0 by (auto simp: keysDistinct_def intro: distinct_key_unique)
  obtain r2 where r2: "r2 \<in> set (users (w_db w2))" "userKept r1 r2"
    using laterUser[OF serveAll_steps[OF keys1] r1(1)] assms(5) by force
  have keys2: "keysDistinct (w_db w2)" using serveAll_keysDistinct[OF keys1] assms(5) by simp
  have newer: "claimSessionVersion claim < u_session_version r2" "u_id r2 = ?uid"
    using assms(8) r1 r2(2) \<open>r0 = r\<close> by (auto simp: userKept_def)
  have w3: "w_db w3 = w_db w2" using assms(6) by (rule untouchedD[rotated]) (rule untouched_VerifyToken)
  obtain found w4 where find: "FindByID env ?uid w3 = (found, w4)" by fastforce
  have "\<not> sameUserSession claim usr" if ok: "found = Inr usr" for usr
  proof -
    obtain r3 where "r3 \<in> set (users (w_db w3))" "u_id r3 = ?uid" "u_user r3 = usr"
      using FindByID_Inr[of env ?uid w3 usr w4] find ok by blast
    moreover from this have "r3 = r2" using r2(1) newer(2) keys2 w3
      by (auto simp: keysDistinct_def intro: distinct_key_unique)
    ultimately show ?thesis using newer by (auto simp: sameUserSession_def)
  qed
  then show ?thesis using assms(6,7) find
    by (auto simp: Auth_CurrentSession_def andThen_def mapError_def attempt_def fail_def split: sum.splits)
qed

theorem logout_is_final_witness:
  "\<exists>w1 w4. Auth_Logout serviceEnv personSession serviceWorld = (Inr (), w1)
     \<and> Auth_CurrentSession serviceEnv samplePorts sampleAuth ''t'' w1 = (Inl (newError ErrorInvalidCredentials), w4)"
proof -
  obtain u w1 where out: "Auth_Logout serviceEnv personSession serviceWorld = (Inr u, w1)"
    by (rule succeededE[OF sample_logout])
  have verify: "fst (VerifyToken serviceEnv samplePorts (authSessions sampleAuth) ''t'' serviceWorld)
      = Inr \<lparr>claimUserID = idPerson, claimActiveTenantID = Some idTenant, claimSessionVersion = 1\<rparr>"
    by code_simp
  have "VerifyToken serviceEnv samplePorts (authSessions sampleAuth) ''t'' w1
      = (fst (VerifyToken serviceEnv samplePorts (authSessions sampleAuth) ''t'' serviceWorld), tick w1)"
    by (simp add: VerifyToken_def goNow_def andThen_def samplePorts_def fail_def ret_def sampleAuth_def
        trimSpace_ascii ascii_def isSpace_def byte_def)
  then have claim: "VerifyToken serviceEnv samplePorts (authSessions sampleAuth) ''t'' w1
      = (Inr \<lparr>claimUserID = idPerson, claimActiveTenantID = Some idTenant, claimSessionVersion = 1\<rparr>, tick w1)"
    unfolding verify .
  have "sampleUser idPerson ''boss@x'' (Some ''p'') \<in> set (users (w_db serviceWorld))"
    "u_id (sampleUser idPerson ''boss@x'' (Some ''p'')) = userID (sessionUser personSession)"
    by (simp_all add: serviceWorld_def sampleUser_def personSession_def)
  from logout_is_final[OF sample_services(4) out this, of w1 "[]" samplePorts sampleAuth "''t''", OF _ claim]
  show ?thesis using out by (auto simp: personSession_def sampleUser_def)
qed

subsection \<open>The memberships a session is made of\<close>

definition systemWorld :: "db \<Rightarrow> world" where
  "systemWorld d = \<lparr>w_db = d, w_bypass_rls = ''true'', w_current_tenant = [], w_now = 0, w_tick = 0, w_mail = []\<rparr>"

definition userMemberships :: "env \<Rightarrow> db \<Rightarrow> string \<Rightarrow> membership list" where
  "userMemberships env d uid =
     orderBy (byTenantName env)
       (membershipQuery env (systemWorld d) (\<lambda>m. m_user m = uid \<and> m_status m = MembershipActive))"

lemma systemSees:
  assumes "bypassesRLS w"
  shows "visibleRows membershipsTable w = memberships (w_db w)" "visibleRows tenantsTable w = tenants (w_db w)"
    "visibleRows rolesTable w = roles (w_db w)" "visibleRows usersTable w = users (w_db w)"
    "visibleRows rolePermissionsTable w = role_permissions (w_db w)"
  using assms by (simp_all add: visibleRows_def tenantVisible_def userVisible_def)

lemma bypasses_systemWorld [simp]: "bypassesRLS (systemWorld d)" "w_db (systemWorld d) = d"
  by (simp_all add: systemWorld_def bypassesRLS_def)

lemma scanRole_system:
  assumes "bypassesRLS w"
  shows "scanRole env w r = scanRole env (systemWorld (w_db w)) r"
  by (simp add: scanRole_def permissionsOfRole_def systemSees assms)

lemma membershipQuery_system:
  assumes "bypassesRLS w"
  shows "membershipQuery env w P = membershipQuery env (systemWorld (w_db w)) P"
  unfolding membershipQuery_def scanMembership_def scanRole_system[OF assms] systemSees[OF assms]
    systemSees[OF bypasses_systemWorld(1)] bypasses_systemWorld(2) ..

lemma entered_bypasses: "enteredTx env System w w1 \<Longrightarrow> bypassesRLS w1 \<and> w_db w1 = w_db w"
  by (simp add: enteredTx_def bypassesRLS_def)

lemma auditOnly_simps:
  "memberships (d\<lparr>audit_events := es\<rparr>) = memberships d" "tenants (d\<lparr>audit_events := es\<rparr>) = tenants d"
  "roles (d\<lparr>audit_events := es\<rparr>) = roles d" "users (d\<lparr>audit_events := es\<rparr>) = users d"
  "role_permissions (d\<lparr>audit_events := es\<rparr>) = role_permissions d"
  by simp_all

lemma userMemberships_audit [simp]:
  "userMemberships env (d\<lparr>audit_events := es\<rparr>) uid = userMemberships env d uid"
  unfolding userMemberships_def membershipQuery_def scanMembership_def scanRole_def permissionsOfRole_def
    systemSees[OF bypasses_systemWorld(1)] bypasses_systemWorld(2) auditOnly_simps ..

lemma MembershipsForUser_value:
  assumes "MembershipsForUser env uid w = (Inr ms, w')"
  shows "ms = userMemberships env (w_db w) uid"
  using assms unfolding MembershipsForUser_def
proof (rule systemRead)
  fix w1 w2
  assume entered: "enteredTx env System w w1"
    and "mapError (Wrapped ''list memberships'') (query env (\<lambda>w. orderBy (byTenantName env)
      (membershipQuery env w (\<lambda>m. m_user m = uid \<and> m_status m = MembershipActive)))) w1 = (Inr ms, w2)"
  then have "ms = orderBy (byTenantName env)
      (membershipQuery env w1 (\<lambda>m. m_user m = uid \<and> m_status m = MembershipActive))"
    unfolding mapError_Inr query_Inr by blast
  then show ?thesis
    unfolding userMemberships_def membershipQuery_system[OF conjunct1[OF entered_bypasses[OF entered]]]
      conjunct2[OF entered_bypasses[OF entered]] .
qed

subsection \<open>When nothing fails\<close>

lemma quiet_MembershipsForUser:
  assumes "quiet env"
  obtains w' where "MembershipsForUser env uid w = (Inr (userMemberships env (w_db w) uid), w')"
proof (rule quiet_systemTx[OF assms, of w "mapError (Wrapped ''list memberships'')
     (query env (\<lambda>w. orderBy (byTenantName env)
        (membershipQuery env w (\<lambda>m. m_user m = uid \<and> m_status m = MembershipActive))))"])
  fix w1
  assume entered: "enteredTx env System w w1"
    and run: "\<And>x w2. mapError (Wrapped ''list memberships'')
     (query env (\<lambda>w. orderBy (byTenantName env)
        (membershipQuery env w (\<lambda>m. m_user m = uid \<and> m_status m = MembershipActive)))) w1 = (Inr x, w2) \<Longrightarrow>
     \<exists>w'. withSystemTx env (mapError (Wrapped ''list memberships'')
     (query env (\<lambda>w. orderBy (byTenantName env)
        (membershipQuery env w (\<lambda>m. m_user m = uid \<and> m_status m = MembershipActive))))) w = (Inr x, w') \<and> w_db w' = w_db w2"
  have "mapError (Wrapped ''list memberships'')
     (query env (\<lambda>w. orderBy (byTenantName env)
        (membershipQuery env w (\<lambda>m. m_user m = uid \<and> m_status m = MembershipActive)))) w1
     = (Inr (orderBy (byTenantName env)
        (membershipQuery env w1 (\<lambda>m. m_user m = uid \<and> m_status m = MembershipActive))), tick w1)"
    unfolding mapError_Inr query_Inr using assms by simp
  from run[OF this] obtain w' where ended: "MembershipsForUser env uid w = (Inr (orderBy (byTenantName env)
        (membershipQuery env w1 (\<lambda>m. m_user m = uid \<and> m_status m = MembershipActive))), w')"
    unfolding MembershipsForUser_def by blast
  show thesis
    using ended[unfolded membershipQuery_system[OF conjunct1[OF entered_bypasses[OF entered]]]
      conjunct2[OF entered_bypasses[OF entered]]]
    by (intro that[of w']) (unfold userMemberships_def)
qed

lemma quiet_FindByID:
  assumes "quiet env" and "distinct (map u_id (users (w_db w)))" and "r \<in> set (users (w_db w))"
  obtains w' where "FindByID env (u_id r) w = (Inr (u_user r), w')"
proof (rule quiet_systemTx[OF assms(1), of w "mapError (\<lambda>err. if err = NoRows then newError ErrorInvalidCredentials
        else Wrapped ''find user by ID'' err)
      (queryRow env (\<lambda>w. map_option u_user (List.find (\<lambda>x. u_id x = u_id r) (visibleRows usersTable w))))"])
  fix w1
  assume entered: "enteredTx env System w w1"
    and run: "\<And>x w2. mapError (\<lambda>err. if err = NoRows then newError ErrorInvalidCredentials
        else Wrapped ''find user by ID'' err)
      (queryRow env (\<lambda>w. map_option u_user (List.find (\<lambda>x. u_id x = u_id r) (visibleRows usersTable w)))) w1 = (Inr x, w2) \<Longrightarrow>
     \<exists>w'. withSystemTx env (mapError (\<lambda>err. if err = NoRows then newError ErrorInvalidCredentials
        else Wrapped ''find user by ID'' err)
      (queryRow env (\<lambda>w. map_option u_user (List.find (\<lambda>x. u_id x = u_id r) (visibleRows usersTable w))))) w = (Inr x, w')
       \<and> w_db w' = w_db w2"
  note in1 = entered_bypasses[OF entered]
  have "List.find (\<lambda>x. u_id x = u_id r) (users (w_db w)) = Some r"
  proof (cases "List.find (\<lambda>x. u_id x = u_id r) (users (w_db w))")
    case None
    then show ?thesis using assms(3) by (auto simp: find_None_iff)
  next
    case (Some q)
    then have "q \<in> set (users (w_db w))" "u_id q = u_id r" by (auto dest: find_Some_member)
    then show ?thesis using Some assms(2,3) by (auto dest: distinct_key_unique)
  qed
  then have "mapError (\<lambda>err. if err = NoRows then newError ErrorInvalidCredentials
        else Wrapped ''find user by ID'' err)
      (queryRow env (\<lambda>w. map_option u_user (List.find (\<lambda>x. u_id x = u_id r) (visibleRows usersTable w)))) w1
      = (Inr (u_user r), tick w1)"
    using in1 assms(1) unfolding mapError_Inr queryRow_Inr by (simp add: systemSees)
  from run[OF this] show thesis using that unfolding FindByID_def by blast
qed

text \<open>The user of a session and its memberships are in the database what they were at the login.\<close>

definition unchangedFor :: "env \<Rightarrow> session \<Rightarrow> db \<Rightarrow> db \<Rightarrow> bool" where
  "unchangedFor env s d d' \<longleftrightarrow>
     sessionUser s \<in> u_user ` set (users d')
     \<and> userMemberships env d' (userID (sessionUser s)) = userMemberships env d (userID (sessionUser s))"

lemma login_leaves:
  assumes "Auth_login env p a raw password super w = (Inr s, w')"
  shows "sessionUser s \<in> u_user ` set (users (w_db w))"
    "\<exists>e. w_db w' = (w_db w)\<lparr>audit_events := audit_events (w_db w) @ [e]\<rparr>"
proof (atomize (full), rule login_Inr[OF assms])
  fix email r h s0 w1 w2 w3
  assume "r \<in> set (users (w_db w))" "Auth_sessionForUser env (u_user r) None w1 = (Inr s0, w2)"
    "Auth_issue env p a s0 w2 = (Inr s, w3)" and w3: "w_db w3 = w_db w"
    and audit: "Auth_appendAudit env (u_id r) (map_option tenantID (activeTenant s)) ''session.login'' (u_email r) w3 = (Inr (), w')"
  then have "sessionUser s = u_user r" using sessionForUser_Inr issue_fields by metis
  then show "sessionUser s \<in> u_user ` set (users (w_db w))
      \<and> (\<exists>e. w_db w' = (w_db w)\<lparr>audit_events := audit_events (w_db w) @ [e]\<rparr>)"
    using \<open>r \<in> _\<close> appendAudit_Inr[OF audit] w3 by auto
qed

text \<open>C15: A login round trip. When no statement fails, a successful login has an instant \<open>n\<close>, at which its token is issued, such that the
  token resolves to exactly the session the login returned - the user, the memberships, the active tenant - in every world in
  which the user and its memberships are what they were after the login, from the second \<open>n\<close> lies in until the lifetime of the token is
  over, and resolving it changes nothing. All else in the database and the clock may have gone on.\<close>

theorem session_round_trip:
  assumes "jwtCorrect p" and "uuidsCanonical env p" and "quiet env"
    and "Auth_login env p a raw password super w = (Inr s, w')"
  shows "\<exists>n. w_tick w \<le> n \<and> n < w_tick w' \<and> (\<forall>w2.
     distinct (map u_id (users (w_db w2))) \<and> unchangedFor env s (w_db w') (w_db w2)
     \<and> unixSeconds (e_clock env n) \<le> unixSeconds (e_clock env (w_tick w2))
     \<and> unixSeconds (e_clock env (w_tick w2)) < unixSeconds (e_clock env n + issuerTTL (authSessions a))
     \<longrightarrow> (\<exists>w3. Auth_CurrentSession env p a (sessionToken s) w2 = (Inr s, w3) \<and> w_db w3 = w_db w2))"
  using assms(4)
proof (rule login_Inr)
  fix email r h s0 w4 w5 w6
  assume s0: "Auth_sessionForUser env (u_user r) None w4 = (Inr s0, w5)" and w4: "w_db w4 = w_db w"
    and issue: "Auth_issue env p a s0 w5 = (Inr s, w6)" and w6: "w_db w6 = w_db w"
    and audit: "Auth_appendAudit env (u_id r) (map_option tenantID (activeTenant s)) ''session.login'' (u_email r) w6
       = (Inr (), w')" and ticks: "w_tick w \<le> w_tick w5" "w_tick w6 \<le> w_tick w'"
  obtain e where e: "w_db w' = (w_db w)\<lparr>audit_events := audit_events (w_db w) @ [e]\<rparr>"
    using appendAudit_Inr[OF audit] w6 by auto
  have user: "sessionUser s0 = u_user r" using sessionForUser_Inr[OF s0] by simp
  obtain token where s: "s = s0\<lparr>sessionToken := token\<rparr>"
    and tok: "IssueToken env p (authSessions a) (sessionClaim s0) w5 = (Inr token, w6)"
    using issue by (rule issue_Inr)
  have "\<exists>w3. Auth_CurrentSession env p a (sessionToken s) w2 = (Inr s, w3) \<and> w_db w3 = w_db w2"
    if keys: "distinct (map u_id (users (w_db w2)))" and same: "unchangedFor env s (w_db w') (w_db w2)"
      and young: "unixSeconds (e_clock env (w_tick w5)) \<le> unixSeconds (e_clock env (w_tick w2))"
        "unixSeconds (e_clock env (w_tick w2)) < unixSeconds (e_clock env (w_tick w5) + issuerTTL (authSessions a))" for w2
  proof -
    obtain q where q: "q \<in> set (users (w_db w2))" "u_user q = u_user r" using same user s by (auto simp: unchangedFor_def)
    have memberships: "userMemberships env (w_db w2) (u_id r) = userMemberships env (w_db w) (u_id r)"
      using same user s e by (simp add: unchangedFor_def)
    have verify: "VerifyToken env p (authSessions a) token w2 = (Inr (sessionClaim s0), tick w2)"
      by (rule issued_token_verifies[OF assms(1,2) tok young])
    have id: "u_id q = u_id r" using q(2) by simp
    obtain w7 where find: "FindByID env (u_id r) (tick w2) = (Inr (u_user r), w7)"
      using quiet_FindByID[OF assms(3), of "tick w2" q thesis] keys q id by simp
    then have w7: "w_db w7 = w_db w2" by (auto dest: untouchedD[OF untouched_reading(2)])
    obtain w8 where members: "MembershipsForUser env (u_id r) w7 = (Inr (userMemberships env (w_db w) (u_id r)), w8)"
      using quiet_MembershipsForUser[OF assms(3), of "u_id r" w7 thesis] w7 memberships by simp
    have "\<exists>w8. Auth_sessionForUser env (u_user r) (map_option tenantID (activeTenant s0)) w7
        = (Inr (s0\<lparr>sessionToken := []\<rparr>), w8)"
    proof (cases "isSuperAdministrator (globalRole (u_user r))")
      case True
      then show ?thesis using s0 by (auto simp: Auth_sessionForUser_def ret_def)
    next
      case False
      let ?as = "filter (\<lambda>m. membershipStatus m = MembershipActive) (userMemberships env (w_db w) (u_id r))"
      from s0 False obtain ms w9 where given: "MembershipsForUser env (u_id r) w4 = (Inr ms, w9)"
        and rest: "filter (\<lambda>m. membershipStatus m = MembershipActive) ms \<noteq> []"
          "s0 = \<lparr>sessionToken = [], sessionUser = u_user r,
              activeTenant = Some (membershipTenant (hd (filter (\<lambda>m. membershipStatus m = MembershipActive) ms))),
              sessionMemberships = filter (\<lambda>m. membershipStatus m = MembershipActive) ms\<rparr>"
        by (auto simp: Auth_sessionForUser_def run_simps Let_def simp del: filter_empty_conv split: if_splits)
      have ms: "ms = userMemberships env (w_db w) (u_id r)"
        using MembershipsForUser_value[OF given] unfolding w4(1) .
      obtain x xs where xs: "?as = x # xs" using rest(1) ms by (cases ?as) auto
      show ?thesis using False members rest(2) xs ms
        by (simp add: Auth_sessionForUser_def Let_def ret_def)
    qed
    then obtain w8 where "Auth_sessionForUser env (u_user r) (map_option tenantID (activeTenant s0)) w7
        = (Inr (s0\<lparr>sessionToken := []\<rparr>), w8)" by blast
    then have "Auth_CurrentSession env p a (sessionToken s) w2 = (Inr s, w8)"
      using verify find user s
      by (auto simp: Auth_CurrentSession_def sessionClaim_def sameUserSession_def mapError_def andThen_def attempt_def ret_def)
    then show ?thesis using untouchedD[OF untouched_CurrentSession] by blast
  qed
  then show ?thesis using ticks IssueToken_ticks[OF tok] by (intro exI[of _ "w_tick w5"]) auto
qed

text \<open>A clock that has gone on by five seconds after the login.\<close>

definition movingEnv :: env where
  "movingEnv = serviceEnv\<lparr>e_clock := (\<lambda>n. if n < 1000 then 1000000 else 5 * nanosecondsPerSecond)\<rparr>"

lemma moving_login: "succeeded (Auth_login movingEnv samplePorts sampleAuth ''boss@x'' ''p'' False serviceWorld)"
  by code_simp

theorem session_round_trip_witness:
  "\<exists>s w' w3. Auth_login movingEnv samplePorts sampleAuth ''boss@x'' ''p'' False serviceWorld = (Inr s, w')
     \<and> Auth_CurrentSession movingEnv samplePorts sampleAuth (sessionToken s)
         (w'\<lparr>w_tick := 5000, w_db := (w_db w')\<lparr>audit_events := []\<rparr>\<rparr>) = (Inr s, w3)"
proof -
  obtain s w' where run: "Auth_login movingEnv samplePorts sampleAuth ''boss@x'' ''p'' False serviceWorld = (Inr s, w')"
    using succeededE[OF moving_login] by blast
  let ?w2 = "w'\<lparr>w_tick := 5000, w_db := (w_db w')\<lparr>audit_events := []\<rparr>\<rparr>"
  have "e_fault movingEnv = e_fault serviceEnv" "e_commit movingEnv = e_commit serviceEnv" "e_uuid movingEnv = e_uuid serviceEnv"
    by (simp_all add: movingEnv_def)
  then have env: "quiet movingEnv" "uuidsCanonical movingEnv samplePorts"
    using sample_services(1,3) unfolding quiet_def uuidsCanonical_def by metis+
  obtain e where e: "w_db w' = (w_db serviceWorld)\<lparr>audit_events := audit_events (w_db serviceWorld) @ [e]\<rparr>"
    using login_leaves(2)[OF run] by blast
  have users: "users (w_db w') = users (w_db serviceWorld)" "sessionUser s \<in> u_user ` set (users (w_db serviceWorld))"
    using arg_cong[OF e, of users] login_leaves(1)[OF run] by simp_all
  have w2: "distinct (map u_id (users (w_db ?w2)))" "unchangedFor movingEnv s (w_db w') (w_db ?w2)"
    using users sample_services(4) by (simp_all add: unchangedFor_def keysDistinct_def)
  obtain n where n: "unixSeconds (e_clock movingEnv n) \<le> unixSeconds (e_clock movingEnv (w_tick ?w2)) \<Longrightarrow>
      unixSeconds (e_clock movingEnv (w_tick ?w2)) < unixSeconds (e_clock movingEnv n + issuerTTL (authSessions sampleAuth)) \<Longrightarrow>
      \<exists>w3. Auth_CurrentSession movingEnv samplePorts sampleAuth (sessionToken s) ?w2 = (Inr s, w3)"
    using session_round_trip[OF sample_services(2) env(2,1) run] w2 by blast
  have "\<exists>w3. Auth_CurrentSession movingEnv samplePorts sampleAuth (sessionToken s) ?w2 = (Inr s, w3)"
    by (intro n) (simp_all add: movingEnv_def sampleAuth_def unixSeconds_def nanosecondsPerSecond_def)
  then show ?thesis using run by blast
qed

subsection \<open>Inviting\<close>

text \<open>An identifier the generator has made at some instant.\<close>

definition generated :: "env \<Rightarrow> string \<Rightarrow> bool" where
  "generated env x \<longleftrightarrow> (\<exists>n. e_uuid env n = Some x)"

text \<open>The rows an invitation is stored as, at the instant \<open>now\<close> of the transaction.\<close>

definition invitationRecord :: "invitation \<Rightarrow> string \<Rightarrow> time \<Rightarrow> invitation_row" where
  "invitationRecord i hash now =
     \<lparr>i_id = invitationID i, i_tenant = invitationTenantID i, i_email = invitationEmail i, i_role = invitationRoleID i,
      i_token_hash = Some hash, i_expires_at = pgTime (expiresAt i), i_used_at = None, i_revoked_at = None,
      i_created_by = createdBy i, i_delivery_status = DeliveryQueued, i_delivery_locale = invitationLocale i,
      i_anonymized_at = None, i_created_at = now\<rparr>"

definition invitationAudit :: "invitation \<Rightarrow> string \<Rightarrow> time \<Rightarrow> audit_row" where
  "invitationAudit i eid now =
     \<lparr>a_id = eid, a_occurred_at = now, a_actor = Some (createdBy i), a_tenant = Some (invitationTenantID i),
      a_action = ''invitation.created'', a_target = invitationEmail i, a_metadata = []\<rparr>"

definition invitationMailJob :: "invitation \<Rightarrow> string \<Rightarrow> time \<Rightarrow> outbox_row" where
  "invitationMailJob i jid now =
     \<lparr>o_id = jid, o_tenant = invitationTenantID i, o_kind = outboxJobInvitationEmail, o_invitation = invitationID i,
      o_status = OutboxPending, o_attempts = 0, o_available_at = now, o_locked_at = None, o_lease_token = None,
      o_completed_at = None, o_dead_lettered_at = None, o_last_error = None, o_created_at = now, o_updated_at = now\<rparr>"

lemma insertAuditEvent_row:
  assumes "insertAuditEvent env (auditEvent a t c g) w = (Inr u, w')"
  obtains eid where "e_uuid env (w_tick w) = Some eid" "sameSession w w'"
    "w_db w' = (w_db w)\<lparr>audit_events := audit_events (w_db w) @
       [\<lparr>a_id = eid, a_occurred_at = w_now w, a_actor = a, a_tenant = t, a_action = c, a_target = g, a_metadata = []\<rparr>]\<rparr>"
  using assms
  by (auto simp: insertAuditEvent_def auditEvent_def run_simps auditTable_def nullableTime_def sameSession_def newUUID_Inr
      sanitizeMetadata_def zeroTime_def)

lemma CreateInvitation_rows:
  assumes "CreateInvitation env i w = (Inr i', w')"
  shows "i' = i\<lparr>deliveryStatus := DeliveryQueued\<rparr>
     \<and> (\<exists>now eid jid. w_db w' = (w_db w)\<lparr>invitations := invitations (w_db w) @ [invitationRecord i (tokenHash i) now],
            audit_events := audit_events (w_db w) @ [invitationAudit i eid now],
            outbox := outbox (w_db w) @ [invitationMailJob i jid now]\<rparr>
        \<and> generated env eid \<and> generated env jid)"
proof -
  have tx: "WithTenantTx env (invitationTenantID i) (createInvitationTx env i) w = (Inr (), w')"
    and i': "i' = i\<lparr>deliveryStatus := DeliveryQueued\<rparr>"
    using assms by (auto simp: CreateInvitation_def andThen_Inr ret_eq fail_eq split: if_splits)
  from tx show ?thesis
  proof (rule tenantRead)
    fix w1 w2
    assume entered: "enteredTx env (Tenant (invitationTenantID i)) w w1"
      and run: "createInvitationTx env i w1 = (Inr (), w2)" and out: "w_db w' = w_db w2"
    obtain w3 w4 where ins: "insertInvitation env i w1 = (Inr (), w3)"
      and aud: "insertAuditEvent env (auditEvent (Some (createdBy i)) (Some (invitationTenantID i))
          ''invitation.created'' (invitationEmail i)) w3 = (Inr (), w4)"
      and enq: "enqueueInvitationEmail env i w4 = (Inr (), w2)"
      using run by (auto simp: createInvitationTx_def andThen_Inr)
    have w3: "w_db w3 = (w_db w1)\<lparr>invitations := invitations (w_db w1) @ [invitationRecord i (tokenHash i) (w_now w1)]\<rparr>"
      "w_now w3 = w_now w1"
      using ins by (auto simp: insertInvitation_def mapError_Inr andThen_Inr insertInto_Inr ret_eq invitationRecord_def)
    obtain eid where eid: "e_uuid env (w_tick w3) = Some eid" "sameSession w3 w4"
      "w_db w4 = (w_db w3)\<lparr>audit_events := audit_events (w_db w3) @ [invitationAudit i eid (w_now w3)]\<rparr>"
      using insertAuditEvent_row[OF aud] unfolding invitationAudit_def by blast
    obtain jid where jid: "e_uuid env (w_tick w4) = Some jid"
      "w_db w2 = (w_db w4)\<lparr>outbox := outbox (w_db w4) @ [invitationMailJob i jid (w_now w4)]\<rparr>"
      using enq by (auto simp: enqueueInvitationEmail_def mapError_Inr andThen_Inr insertInto_Inr newUUID_Inr ret_eq invitationMailJob_def)
    have "w_now w4 = w_now w1" using eid(2) w3(2) by (simp add: sameSession_def)
    then have "w_db w' = (w_db w)\<lparr>invitations := invitations (w_db w) @ [invitationRecord i (tokenHash i) (w_now w1)],
            audit_events := audit_events (w_db w) @ [invitationAudit i eid (w_now w1)],
            outbox := outbox (w_db w) @ [invitationMailJob i jid (w_now w1)]\<rparr>"
      using entered out w3 eid(3) jid(2) by (simp add: enteredTx_def)
    then show ?thesis using i' eid(1) jid(1) by (metis generated_def)
  qed
qed

lemma requireTenantPermission_Inr:
  assumes "Auth_requireTenantPermission env uid tid perm w = (Inr m, w')"
  shows "holdsPermission (w_db w) uid tid perm \<and> tenantID (membershipTenant m) = tid"
proof -
  obtain w1 perms w2 where m: "FindActiveMembership env uid tid w = (Inr m, w1)"
    and perms: "PermissionsForRole env tid (membershipRoleID m) w1 = (Inr perms, w2)" and "perm \<in> set perms"
    using assms by (auto simp: Auth_requireTenantPermission_def andThen_Inr fail_eq ret_eq split: if_splits)
  moreover have "w_db w1 = w_db w" using m by (rule untouchedD[rotated]) (rule untouched_reading)
  ultimately show ?thesis using FindActiveMembership_Inr[OF m] PermissionsForRole_Inr[OF perms]
    by (auto simp: holdsPermission_def)
qed

lemma invitationToken_cong:
  "invitationID j = invitationID i \<Longrightarrow> expiresAt j = expiresAt i \<Longrightarrow> invitationToken secret j = invitationToken secret i"
  by (simp add: invitationToken_def)

lemma newInvitation_fields:
  assumes "Auth_newInvitation env a actor tid email rid loc w = (Inr (i, raw), w')"
  shows "\<exists>n. generated env (invitationID i) \<and> expiresAt i = e_clock env n + authInviteTTL a
     \<and> invitationTenantID i = tid \<and> invitationEmail i = email \<and> invitationRoleID i = rid
     \<and> invitationToken (authTokenSecret a) i = Inr raw \<and> tokenHash i = invitationHash raw
     \<and> invitationLocale i = loc \<and> createdBy i = actor \<and> w_db w' = w_db w"
proof -
  let ?i = "\<lambda>x. \<lparr>invitationID = x, invitationTenantID = tid, invitationEmail = email, invitationRoleID = rid,
              invitationRole = zeroRole, tokenHash = [], expiresAt = e_clock env (w_tick (tick w)) + authInviteTTL a,
              usedAt = None, revokedAt = None, createdBy = actor, acceptanceURL = [], deliveryStatus = DeliveryQueued,
              invitationLocale = loc, invitationCreatedAt = zeroTime\<rparr>"
  obtain x where x: "Some x = e_uuid env (w_tick w)"
    and run: "(case invitationToken (authTokenSecret a) (?i x) of
         Inl _ \<Rightarrow> fail (newError ErrorInternal)
       | Inr rawToken \<Rightarrow> ret ((?i x)\<lparr>tokenHash := invitationHash rawToken\<rparr>, rawToken)) (tick (tick w))
       = (Inr (i, raw), w')"
    using assms by (auto simp: Auth_newInvitation_def Let_def andThen_Inr mapError_Inr NewInvitationID_def
        newTokenID_Inr goNow_Inr)
  obtain token where token: "invitationToken (authTokenSecret a) (?i x) = Inr token"
    using run by (cases "invitationToken (authTokenSecret a) (?i x)") (auto simp: fail_eq)
  then have i: "i = (?i x)\<lparr>tokenHash := invitationHash token\<rparr>" "raw = token" "w_db w' = w_db w"
    using run by (auto simp: ret_eq)
  have "generated env x" using x by (metis generated_def)
  moreover have "invitationToken (authTokenSecret a) i = invitationToken (authTokenSecret a) (?i x)"
    by (rule invitationToken_cong) (simp_all add: i(1))
  ultimately show ?thesis using i token by (intro exI[of _ "w_tick (tick w)"]) simp
qed

lemma Auth_CreateInvitation_Inr:
  assumes "Auth_CreateInvitation env p a s rawEmail rid w = (Inr i, w')"
  shows "\<exists>t raw now eid jid n. activeTenant s = Some t
     \<and> holdsPermission (w_db w) (userID (sessionUser s)) (tenantID t) PermissionUserManage
     \<and> w_db w' = (w_db w)\<lparr>invitations := invitations (w_db w) @ [invitationRecord i (invitationHash raw) now],
            audit_events := audit_events (w_db w) @ [invitationAudit i eid now],
            outbox := outbox (w_db w) @ [invitationMailJob i jid now]\<rparr>
     \<and> generated env (invitationID i) \<and> generated env eid \<and> generated env jid
     \<and> ParseEmail env p rawEmail = Inr (invitationEmail i) \<and> invitationTenantID i = tenantID t \<and> invitationRoleID i = rid
     \<and> createdBy i = userID (sessionUser s) \<and> invitationLocale i = userLocale (sessionUser s)
     \<and> expiresAt i = e_clock env n + authInviteTTL a
     \<and> invitationToken (authTokenSecret a) i = Inr raw \<and> acceptanceURL i = invitationURL (authLinks a) raw"
proof (cases "activeTenant s")
  case None
  then show ?thesis using assms by (auto simp: Auth_CreateInvitation_def fail_eq split: if_splits)
next
  case (Some t)
  obtain m w1 role w2 email w3 i0 raw w4 i1 where
    perm: "Auth_requireTenantPermission env (userID (sessionUser s)) (tenantID t) PermissionUserManage w = (Inr m, w1)"
    and role: "FindRole env (tenantID t) rid w1 = (Inr role, w2)"
    and email: "Inr email = ParseEmail env p rawEmail"
    and new: "Auth_newInvitation env a (userID (sessionUser s)) (tenantID t) email rid
        (userLocale (sessionUser s)) w2 = (Inr (i0, raw), w4)"
    and create: "CreateInvitation env (i0\<lparr>invitationRole := role\<rparr>) w4 = (Inr i1, w')"
    and i: "i = i1\<lparr>acceptanceURL := invitationURL (authLinks a) raw\<rparr>"
    using assms Some
    by (auto simp: Auth_CreateInvitation_def Let_def andThen_Inr liftSum_eq ret_eq fail_eq split: if_splits)
  note i0 = newInvitation_fields[OF new]
  have db: "w_db w4 = w_db w" using i0 perm role
    by (auto dest: untouchedD[rotated] intro: untouched_rules dest!: untouchedD[OF untouched_reading(6)]
        untouchedD[OF untouched_requireTenantPermission])
  note rows = CreateInvitation_rows[OF create, unfolded db]
  have i1: "i1 = (i0\<lparr>invitationRole := role\<rparr>)\<lparr>deliveryStatus := DeliveryQueued\<rparr>" using rows by blast
  have records: "invitationRecord i h now = invitationRecord (i0\<lparr>invitationRole := role\<rparr>) h now"
    "invitationAudit i eid now = invitationAudit (i0\<lparr>invitationRole := role\<rparr>) eid now"
    "invitationMailJob i jid now = invitationMailJob (i0\<lparr>invitationRole := role\<rparr>) jid now" for h eid jid now
    by (simp_all add: i i1 invitationRecord_def invitationAudit_def invitationMailJob_def)
  have token: "invitationToken (authTokenSecret a) i = invitationToken (authTokenSecret a) i0"
    by (rule invitationToken_cong) (simp_all add: i i1)
  have fields: "invitationID i = invitationID i0" "invitationEmail i = invitationEmail i0" "invitationTenantID i = invitationTenantID i0"
    "invitationRoleID i = invitationRoleID i0" "createdBy i = createdBy i0" "invitationLocale i = invitationLocale i0"
    "expiresAt i = expiresAt i0" "acceptanceURL i = invitationURL (authLinks a) raw"
    by (simp_all add: i i1)
  have hash: "tokenHash (i0\<lparr>invitationRole := role\<rparr>) = invitationHash raw" using i0 by simp
  show ?thesis unfolding records token fields
    using rows[unfolded hash] i0 email requireTenantPermission_Inr[OF perm] Some by (elim conjE exE) (intro exI conjI; simp)
qed

text \<open>C16: Only a user manager invites, and only the hash of the token is stored. A successful invitation was asked for by a user that holds
  \<^verbatim>\<open>user.manage\<close> in the active tenant of its session. It adds one open invitation for the parsed e-mail address and the chosen
  role, one audit event and one pending mail job, and nothing else; every column of the three rows is given: the token occurs in them
  only as its SHA-256 hash, the identifiers are generated ones, and the audit event names the user and the address. The token itself is in
  the link of the answer.\<close>

theorem invitation_creation:
  assumes "Auth_CreateInvitation env p a s rawEmail rid w = (Inr i, w')"
  shows "\<exists>t raw now eid jid n. activeTenant s = Some t
     \<and> holdsPermission (w_db w) (userID (sessionUser s)) (tenantID t) PermissionUserManage
     \<and> w_db w' = (w_db w)\<lparr>invitations := invitations (w_db w) @ [invitationRecord i (invitationHash raw) now],
            audit_events := audit_events (w_db w) @ [invitationAudit i eid now],
            outbox := outbox (w_db w) @ [invitationMailJob i jid now]\<rparr>
     \<and> generated env (invitationID i) \<and> generated env eid \<and> generated env jid
     \<and> ParseEmail env p rawEmail = Inr (invitationEmail i) \<and> invitationTenantID i = tenantID t \<and> invitationRoleID i = rid
     \<and> createdBy i = userID (sessionUser s) \<and> invitationLocale i = userLocale (sessionUser s)
     \<and> expiresAt i = e_clock env n + authInviteTTL a
     \<and> invitationToken (authTokenSecret a) i = Inr raw \<and> acceptanceURL i = invitationURL (authLinks a) raw"
  using assms by (rule Auth_CreateInvitation_Inr)

lemma sample_invitation:
  "succeeded (Auth_CreateInvitation serviceEnv samplePorts sampleAuth personSession ''a@b'' idRoleUuid serviceWorld)"
proof -
  let ?find = "andThen (Auth_requireTenantPermission serviceEnv idPerson idTenant PermissionUserManage)
     (\<lambda>_. FindRole serviceEnv idTenant idRoleUuid)"
  have "succeeded (?find serviceWorld)" by code_simp
  then obtain role w1 where "?find serviceWorld = (Inr role, w1)" by (rule succeededE)
  then obtain m w0 where
    perm: "Auth_requireTenantPermission serviceEnv idPerson idTenant PermissionUserManage serviceWorld = (Inr m, w0)"
    and role: "FindRole serviceEnv idTenant idRoleUuid w0 = (Inr role, w1)" by (auto simp: andThen_Inr)
  have w1: "w_db w1 = w_db serviceWorld"
    using untouchedD[OF untouched_requireTenantPermission perm] untouchedD[OF untouched_reading(6) role] by simp
  have email: "ParseEmail serviceEnv samplePorts ''a@b'' = Inr ''a@b''" by code_simp
  obtain h where new: "Auth_newInvitation serviceEnv sampleAuth idPerson idTenant ''a@b'' idRoleUuid ''de'' w1
     = (Inr (freshInvitation (invitationHash h) zeroRole, h), tick (tick w1))"
    using sample_new_invitation by blast
  have with_role: "(freshInvitation (invitationHash h) zeroRole)\<lparr>invitationRole := role\<rparr>
      = freshInvitation (invitationHash h) role" by (simp add: freshInvitation_def)
  obtain i w2 where "CreateInvitation serviceEnv (freshInvitation (invitationHash h) role) (tick (tick w1)) = (Inr i, w2)"
    using sample_invites[of "tick (tick w1)" "invitationHash h" role] w1 by (auto elim: succeededE)
  then show ?thesis
    using perm role email new
    by (simp add: Auth_CreateInvitation_def personSession_def isSuperAdministrator_def sampleTenant_def liftSum_def
        with_role ret_def andThen_def)
qed

theorem invitation_creation_witness:
  "\<exists>i w' row event job. Auth_CreateInvitation serviceEnv samplePorts sampleAuth personSession ''a@b'' idRoleUuid serviceWorld
      = (Inr i, w') \<and> invitations (w_db w') = [row] \<and> audit_events (w_db w') = [event] \<and> outbox (w_db w') = [job]
      \<and> i_tenant row = idTenant \<and> i_used_at row = None \<and> a_target event = i_email row \<and> o_invitation job = i_id row"
proof -
  obtain i w' where run:
    "Auth_CreateInvitation serviceEnv samplePorts sampleAuth personSession ''a@b'' idRoleUuid serviceWorld = (Inr i, w')"
    by (rule succeededE[OF sample_invitation])
  have "invitations (w_db serviceWorld) = []" "audit_events (w_db serviceWorld) = []" "outbox (w_db serviceWorld) = []"
    by (simp_all add: serviceWorld_def sampleWorld_def sampleDb_def)
  then show ?thesis using run invitation_creation[OF run]
    by (auto simp: personSession_def sampleTenant_def invitationRecord_def invitationAudit_def invitationMailJob_def)
qed

subsection \<open>Users without a password\<close>

lemma FindByEmail_passwordless:
  assumes "\<And>r. r \<in> set (users (w_db w)) \<Longrightarrow> u_email r = email \<Longrightarrow> u_password_hash r = None"
    and "r \<in> set (users (w_db w))" and "u_email r = email"
    and "FindByEmail env email w = (q, w')"
  shows "\<exists>err. q = Inl err \<and> \<not> isInvalidCredentials err"
proof -
  have found: "\<exists>r. List.find (\<lambda>r. u_email r = email) (users (w_db w)) = Some r \<and> u_password_hash r = None"
  proof (cases "List.find (\<lambda>r. u_email r = email) (users (w_db w))")
    case None
    then show ?thesis using assms(2,3) by (auto simp: find_None_iff)
  next
    case (Some r)
    then show ?thesis using assms(1) find_Some_member[OF Some] by auto
  qed
  have noFault: "asDomain (faultError flt) = None" "faultError flt \<noteq> NoRows" for flt by (cases flt, simp_all)+
  show ?thesis
    using assms(4) found
    by (auto simp: FindByEmail_def withSystemTx_def withSettingTx_def beginFunc_def andThen_def mapError_def
        setConfig_def queryRow_def statement_def fail_def visibleRows_def userVisible_def bypassesRLS_def
        scanNullError_def noFault isInvalidCredentials_def split: option.splits prod.splits sum.splits)
qed

text \<open>C17: A user who has no password (one that joined through an external identity) can accept no further
  invitation, neither with a password nor with its external identity: reading the missing hash fails with
  an error that is not \<^verbatim>\<open>invalid_credentials\<close>, so both acceptances stop with an error and change nothing.\<close>

theorem passwordless_user_cannot_accept:
  assumes "r \<in> set (users (w_db w))" and "u_email r = identityEmail identity"
    and "\<And>q. q \<in> set (users (w_db w)) \<Longrightarrow> u_email q = identityEmail identity \<Longrightarrow> u_password_hash q = None"
    and "ParseEmail env p raw = Inr (identityEmail identity)"
  shows "(\<exists>err w'. Auth_AcceptInvitation env p a token raw password loc w = (Inl err, w') \<and> w_db w' = w_db w)
     \<and> (\<exists>err w'. Auth_AcceptExternalInvitation env p a token identity loc w = (Inl err, w') \<and> w_db w' = w_db w)"
proof
  let ?email = "identityEmail identity"
  have stops: "\<exists>err w'. andThen (Auth_findInvitation env token) (\<lambda>i.
      if invitationEmail i \<noteq> ?email then fail (newError ErrorInviteEmailMismatch)
      else andThen (attempt (FindByEmail env ?email)) (\<lambda>found. andThen (k found) (f i found))) w = (Inl err, w')
      \<and> w_db w' = w_db w"
    if k: "\<And>err. \<not> isInvalidCredentials err \<Longrightarrow> k (Inl err) = fail err"
    for k :: "go_error + user \<times> string \<Rightarrow> (world, go_error, 'b) eff" and f :: "invitation \<Rightarrow> _ \<Rightarrow> 'b \<Rightarrow> (world, go_error, 'c) eff"
  proof -
    obtain x w1 where find: "Auth_findInvitation env token w = (x, w1)" by fastforce
    then have w1: "w_db w1 = w_db w" by (rule untouchedD[rotated]) (rule untouched_findInvitation)
    show ?thesis
    proof (cases x)
      case (Inl err)
      then show ?thesis using find w1 by simp
    next
      case (Inr i)
      obtain q w2 where read: "FindByEmail env ?email w1 = (q, w2)" by fastforce
      then have w2: "w_db w2 = w_db w1" by (rule untouchedD[rotated]) (rule untouched_reading)
      obtain err where q: "q = Inl err" and "\<not> isInvalidCredentials err"
        using FindByEmail_passwordless[OF _ _ _ read, of r] assms(1,2,3) w1 by auto
      then have "k q = fail err" using k by simp
      then show ?thesis using find Inr read q w1 w2 by (simp add: fail_def attempt_def andThen_def)
    qed
  qed
  show "\<exists>err w'. Auth_AcceptInvitation env p a token raw password loc w = (Inl err, w') \<and> w_db w' = w_db w"
  proof (cases "validPassword password \<and> locale_isValid (newLocale (unicode env) loc)")
    case True
    then show ?thesis using assms(4) unfolding Auth_AcceptInvitation_def Let_def
      by simp (rule stops, simp)
  next
    case False
    then show ?thesis using assms(4) by (auto simp: Auth_AcceptInvitation_def Let_def fail_def)
  qed
  show "\<exists>err w'. Auth_AcceptExternalInvitation env p a token identity loc w = (Inl err, w') \<and> w_db w' = w_db w"
  proof (cases "externalIdentity_validate env p identity")
    case (Inl err)
    then show ?thesis by (simp add: Auth_AcceptExternalInvitation_def andThen_def liftSum_def)
  next
    case (Inr u)
    have "liftSum (externalIdentity_validate env p identity) w = (Inr u, w)" using Inr by (simp add: liftSum_def)
    then show ?thesis
    proof (cases "locale_isValid (newLocale (unicode env) loc)")
      case True
      then show ?thesis using \<open>liftSum _ w = _\<close> unfolding Auth_AcceptExternalInvitation_def Let_def
        by simp (rule stops, simp)
    next
      case False
      then show ?thesis using \<open>liftSum _ w = _\<close> by (simp add: Auth_AcceptExternalInvitation_def fail_def)
    qed
  qed
qed

theorem passwordless_user_cannot_accept_witness:
  "\<exists>err w'. Auth_AcceptExternalInvitation sampleEnv samplePorts sampleAuth ''t''
       \<lparr>identityIssuer = ''g'', identitySubject = ''s'', identityEmail = ''user@x'', identityUserID = []\<rparr> ''de'' sampleWorld = (Inl err, w')
     \<and> w_db w' = w_db sampleWorld"
proof -
  let ?identity = "\<lparr>identityIssuer = ''g'', identitySubject = ''s'', identityEmail = ''user@x'', identityUserID = []\<rparr>"
  let ?r = "sampleUser idUser ''user@x'' None"
  have parse: "ParseEmail sampleEnv samplePorts ''user@x'' = Inr (identityEmail ?identity)"
    by simp code_simp
  have "?r \<in> set (users (w_db sampleWorld))" "u_email ?r = identityEmail ?identity"
    "\<And>q. q \<in> set (users (w_db sampleWorld)) \<Longrightarrow> u_email q = identityEmail ?identity \<Longrightarrow> u_password_hash q = None"
    by (auto simp: sampleWorld_def sampleDb_def sampleUser_def)
  from passwordless_user_cannot_accept[OF this parse] show ?thesis by blast
qed

end
