(* ===== verification/ListingProperties.thy ===== *)
theory ListingProperties imports AdminListings AuthProperties begin

text \<open>
  What the paged listings promise: a cursor leads on after the row it was made from, a client that follows the
  cursors gets every row once and in order, cursors of other lists are refused.
\<close>

subsection \<open>The orders\<close>

lemma bytesLess_irrefl: "\<not> bytesLess x x"
  by (induction x) auto

lemma bytesLess_trans: "bytesLess x y \<Longrightarrow> bytesLess y z \<Longrightarrow> bytesLess x z"
proof (induction x arbitrary: y z)
  case Nil
  then show ?case by (cases y; cases z) auto
next
  case (Cons a x)
  then show ?case by (cases y; cases z) (auto dest: less_trans)
qed

lemma bytesLess_total: "x \<noteq> y \<Longrightarrow> bytesLess x y \<or> bytesLess y x"
proof (induction x arbitrary: y)
  case Nil
  then show ?case by (cases y) auto
next
  case (Cons a x)
  then show ?case by (cases y) (auto simp: nat_neq_iff simp flip: byte_inject)
qed

interpretation byteOrder: key_order bytesLess
  by unfold_locales (fact bytesLess_irrefl, fact bytesLess_trans, fact bytesLess_total)

lemma valueLess_order:
  assumes "key_order lt"
  shows "key_order (valueLess lt)"
proof
  note lt = key_order.irrefl[OF assms] key_order.trans[OF assms] key_order.total[OF assms]
  show "\<not> valueLess lt x x" for x by (cases x) (auto simp: lt bytesLess_irrefl)
  show "valueLess lt x z" if "valueLess lt x y" "valueLess lt y z" for x y z
    using that by (cases x; cases y; cases z) (auto intro: lt(2) bytesLess_trans)
  show "valueLess lt x y \<or> valueLess lt y x" if "x \<noteq> y" for x y
    using that by (cases x; cases y) (auto dest: lt(3) bytesLess_total)
qed

lemma keyLess_order:
  assumes "key_order lt"
  shows "key_order (keyLess lt)"
proof
  note vl = key_order.irrefl[OF valueLess_order[OF assms]] key_order.trans[OF valueLess_order[OF assms]]
    key_order.total[OF valueLess_order[OF assms]]
  show "\<not> keyLess lt x x" for x by (induction x) (auto simp: vl(1))
  show "keyLess lt x z" if "keyLess lt x y" "keyLess lt y z" for x y z
    using that
  proof (induction x arbitrary: y z)
    case Nil
    then show ?case by (cases y; cases z) auto
  next
    case (Cons a x)
    then show ?case by (cases y; cases z) (auto dest: vl(2))
  qed
  show "keyLess lt x y \<or> keyLess lt y x" if "x \<noteq> y" for x y
    using that
  proof (induction x arbitrary: y)
    case Nil
    then show ?case by (cases y) auto
  next
    case (Cons a x)
    then show ?case by (cases y) (auto dest: vl(3))
  qed
qed

lemma keyBefore_order: "key_order (pgTextLess env) \<Longrightarrow> key_order (keyBefore env direction)"
  using keyLess_order key_order_converse by (auto simp: keyBefore_def keysetDirection_def)

subsection \<open>What a cursor holds\<close>

lemma ascii_digits [simp]: "ascii (digits k n)"
  using isDigit_digits[of k n] by (auto simp: ascii_def isDigit_def list_all_iff)

lemma ascii_fraction [simp]: "ascii (fraction n)"
proof -
  have "ascii (rev (dropWhile P (rev (digits 9 n))))" for P
    using ascii_digits[of 9 n] by (auto simp: ascii_def list_all_iff dest: set_dropWhileD)
  then show ?thesis by (simp add: fraction_def Let_def byte_def)
qed

lemma ascii_formatTime [simp]: "ascii (formatTime t)"
  by (simp add: formatTime_def Let_def byte_def split: prod.splits)

lemma formatTime_nonempty [simp]: "formatTime t \<noteq> []"
  by (simp add: formatTime_def Let_def split: prod.splits)

lemma ascii_keysetFingerprint [simp]: "ascii (keysetFingerprint vals)"
proof -
  have "byte (hexDigit (n mod 16)) < 128" for n by (auto simp: hexDigit_def byte_chr)
  moreover have "byte (hexDigit (byte c div 16)) < 128" for c
  proof -
    have "byte c div 16 < 16" using byte_bound[of c] by simp
    then show ?thesis by (auto simp: hexDigit_def byte_chr)
  qed
  ultimately show ?thesis by (auto simp: keysetFingerprint_def hexEncode_def ascii_def list_all_iff)
qed

text \<open>Identifiers as the store generates them, and the times a \<^verbatim>\<open>timestamptz\<close> of these millennia holds.\<close>

definition storedUUID :: "env \<Rightarrow> ports \<Rightarrow> string \<Rightarrow> bool" where
  "storedUUID env p i \<longleftrightarrow>
     validUtf8 i \<and> i \<noteq> [] \<and> uuidValidate p (toLower (unicode env) i) \<and> pgUuid p i = Some i"

definition storedTime :: "time \<Rightarrow> bool" where
  "storedTime t \<longleftrightarrow> pgTime t = t \<and> fourDigitYear t"

definition storedText :: "string \<Rightarrow> bool" where
  "storedText s \<longleftrightarrow> validUtf8 s \<and> s \<noteq> []"

lemma storedText_ascii: "ascii s \<Longrightarrow> s \<noteq> [] \<Longrightarrow> storedText s"
  by (simp add: storedText_def validUtf8_ascii)

lemma cursorSort_text [simp]: "cursorSort p False s = Inr (TextValue s)"
  by (simp add: cursorSort_def)

lemma cursorSort_time [simp]: "storedTime t \<Longrightarrow> cursorSort p True (formatTime t) = Inr (TimeValue t)"
  by (simp add: cursorSort_def parseTime_def parse_formatTime storedTime_def)

lemma uuidCursor_encode:
  assumes "ascii kind" and "ascii fp" and "storedText sv" and "storedUUID env p i" and "cursorSort p timed sv = Inr v"
  shows "uuidCursor env p kind fp timed (encodeKeysetCursor kind fp sv i) = Inr (Some (v, i))"
  using assms decode_encodeKeysetCursor[of kind fp sv i]
  by (simp add: uuidCursor_def decodeUUIDKeysetCursor_def storedText_def storedUUID_def validUtf8_ascii)

subsection \<open>Following the cursors\<close>

text \<open>A client that asks for the page after each page until there is no further cursor; \<open>None\<close> when \<open>n\<close> pages were
  not enough.\<close>

fun followListing ::
  "('f \<Rightarrow> (world, go_error, 'a page) eff) \<Rightarrow> (string \<Rightarrow> 'f \<Rightarrow> 'f) \<Rightarrow> nat \<Rightarrow> 'f \<Rightarrow> (world, go_error, 'a list option) eff"
where
  "followListing listing setCursor 0 f = ret None"
| "followListing listing setCursor (Suc n) f =
     andThen (listing f) (\<lambda>page.
     if pageNextCursor page = [] then ret (Some (pageItems page))
     else andThen (followListing listing setCursor n (setCursor (pageNextCursor page) f)) (\<lambda>rest.
       ret (map_option (\<lambda>items. pageItems page @ items) rest)))"

text \<open>In a world where \<open>ok\<close> holds, the call \<open>g\<close> of the listing returns the page of \<open>rows\<close> after \<open>after\<close>.\<close>

definition servesPage ::
  "(world \<Rightarrow> bool) \<Rightarrow> (sort_value list \<Rightarrow> sort_value list \<Rightarrow> bool) \<Rightarrow> ('a \<Rightarrow> sort_value list) \<Rightarrow> ('a \<Rightarrow> string) \<Rightarrow> nat
     \<Rightarrow> 'a list \<Rightarrow> sort_value list option \<Rightarrow> (world, go_error, 'a page) eff \<Rightarrow> bool" where
  "servesPage ok before key cursorOf len rows after g \<longleftrightarrow>
     (\<forall>w. ok w \<longrightarrow> (\<exists>w'. g w = (Inr (keysetPage len cursorOf (pageRows before key (Suc len) after rows)), w') \<and> ok w'))"

lemma servesPageD:
  "servesPage ok before key cursorOf len rows after g \<Longrightarrow> ok w \<Longrightarrow>
     \<exists>w'. g w = (Inr (keysetPage len cursorOf (pageRows before key (Suc len) after rows)), w') \<and> ok w'"
  by (simp add: servesPage_def)

lemma follow_from:
  assumes "key_order before" and "distinct (map key rows)" and "0 < len" and "\<And>a. cursorOf a \<noteq> []"
    and "\<And>a. a \<in> set rows \<Longrightarrow> servesPage ok before key cursorOf len rows (Some (key a)) (listing (setCursor (cursorOf a) f))"
    and "\<And>c c'. setCursor c (setCursor c' f) = setCursor c f"
    and "k \<le> length rows" and "length rows - k < n" and "ok w"
    and "servesPage ok before key cursorOf len rows (key_order.cursorAt before key rows k) (listing g)"
    and "g = f \<or> (\<exists>c. g = setCursor c f)"
  shows "\<exists>w'. followListing listing setCursor n g w
       = (Inr (Some (drop k (orderBy (\<lambda>a b. before (key a) (key b)) rows))), w') \<and> ok w'"
  using assms(7-)
proof (induction n arbitrary: k g w)
  case (Suc n)
  let ?xs = "orderBy (\<lambda>a b. before (key a) (key b)) rows"
  let ?items = "take (Suc len) (drop k ?xs)"
  have items: "pageRows before key (Suc len) (key_order.cursorAt before key rows k) rows = ?items"
    using key_order.pageRows_at[OF assms(1,2) Suc.prems(1)] by simp
  obtain w1 where page: "listing g w = (Inr (keysetPage len cursorOf ?items), w1)" and ok: "ok w1"
    using servesPageD[OF Suc.prems(4,3)] unfolding items by blast
  show ?case
  proof (cases "len < length ?items")
    case True
    then have room: "k + len < length rows" by simp
    let ?a = "last (take len (drop k ?xs))"
    have at: "?a = ?xs ! (k + len - 1)"
      by (rule key_order.last_of_page[OF assms(1,3)]) (use room in simp)
    have a: "?a \<in> set rows" unfolding at using room assms(3) nth_mem[of "k + len - 1" ?xs] by simp
    have cursor: "Some (key ?a) = key_order.cursorAt before key rows (k + len)"
      using assms(3) at by (simp add: key_order.cursorAt_def[OF assms(1)])
    have setg: "setCursor c g = setCursor c f" for c using Suc.prems(5) assms(6) by auto
    have "\<exists>w'. followListing listing setCursor n (setCursor (cursorOf ?a) f) w1 = (Inr (Some (drop (k + len) ?xs)), w') \<and> ok w'"
      by (rule Suc.IH) (use room Suc.prems(2) assms(3) ok assms(5)[OF a] cursor in auto)
    moreover have "take len ?items = take len (drop k ?xs)" by simp
    moreover have "take len (drop k ?xs) @ drop (k + len) ?xs = drop k ?xs"
      using append_take_drop_id[of len "drop k ?xs"] by (simp add: add.commute[of k len] del: append_take_drop_id)
    ultimately show ?thesis using True page assms(4) setg by (auto simp: keysetPage_def ret_def)
  next
    case False
    then have "?items = drop k ?xs" by simp
    then show ?thesis using False page ok by (auto simp: keysetPage_def ret_def)
  qed
qed simp

lemma follow_all:
  assumes "key_order before" and "distinct (map key rows)" and "0 < len" and "\<And>a. cursorOf a \<noteq> []"
    and "servesPage ok before key cursorOf len rows None (listing f)"
    and "\<And>a. a \<in> set rows \<Longrightarrow> servesPage ok before key cursorOf len rows (Some (key a)) (listing (setCursor (cursorOf a) f))"
    and "\<And>c c'. setCursor c (setCursor c' f) = setCursor c f" and "length rows < n" and "ok w"
  shows "\<exists>items w'. followListing listing setCursor n f w = (Inr (Some items), w') \<and> ok w'
    \<and> set items = set rows \<and> distinct items \<and> sorted_wrt (\<lambda>a b. before (key a) (key b)) items"
proof -
  have "\<exists>w'. followListing listing setCursor n f w
       = (Inr (Some (drop 0 (orderBy (\<lambda>a b. before (key a) (key b)) rows))), w') \<and> ok w'"
    by (rule follow_from[OF assms(1-4,6,7)]) (use assms(5,8,9) in \<open>simp_all add: key_order.cursorAt_def[OF assms(1)]\<close>)
  moreover have "distinct rows" using assms(2) by (simp add: distinct_map)
  ultimately show ?thesis using key_order.sorted_orderBy[OF assms(1,2)] by auto
qed

lemma quiet_systemPage:
  assumes "quiet env" and "\<And>w1. bypassesRLS w1 \<Longrightarrow> w_db w1 = w_db w \<Longrightarrow> rows w1 = R"
  shows "\<exists>w'. withSystemTx env (mapError h (keysetQuery env dir key n (Inr after) rows)) w
       = (Inr (pageRows (keyBefore env dir) key n after R), w') \<and> w_db w' = w_db w"
proof (rule quiet_systemTx[OF assms(1), of w "mapError h (keysetQuery env dir key n (Inr after) rows)"])
  fix w1
  assume entered: "enteredTx env System w w1"
    and run: "\<And>x w2. mapError h (keysetQuery env dir key n (Inr after) rows) w1 = (Inr x, w2) \<Longrightarrow>
      \<exists>w'. withSystemTx env (mapError h (keysetQuery env dir key n (Inr after) rows)) w = (Inr x, w') \<and> w_db w' = w_db w2"
  have "rows w1 = R" using assms(2) entered by (simp add: enteredTx_def bypassesRLS_def)
  then have "mapError h (keysetQuery env dir key n (Inr after) rows) w1
      = (Inr (pageRows (keyBefore env dir) key n after R), (tick w1)\<lparr>w_db := w_db w1\<rparr>)"
    using assms(1) by (simp add: mapError_def keysetQuery_def statement_def)
  from run[OF this] show ?thesis using entered by (simp add: enteredTx_def)
qed

lemma pageSize_pos: "0 < nat (effectiveLimit n)"
  using effectiveLimit_bounds[of n] by simp

subsection \<open>Tenants\<close>

text \<open>What the tenants' columns hold, for the column that the list is sorted by.\<close>

definition listableTenant :: "env \<Rightarrow> ports \<Rightarrow> tenant_sort \<Rightarrow> tenant \<Rightarrow> bool" where
  "listableTenant env p sorting t \<longleftrightarrow>
     storedUUID env p (tenantID t)
     \<and> (if sorting = TenantSortCreatedAt then storedTime (tenantCreatedAt t) else storedText (tenantName t))"

lemma tenantCursor_decodes:
  assumes "listableTenant env p (tfSort f) t"
  shows "uuidCursor env p ''tenants'' (tenantFingerprint env f) (tfSort f = TenantSortCreatedAt) (tenantCursor env f t)
     = Inr (Some (hd (tenantKey (tfSort f) t), tenantID t))"
  unfolding tenantCursor_def
  by (rule uuidCursor_encode)
    (use assms in \<open>auto simp: listableTenant_def tenantFingerprint_def tenantKey_def byte_def storedText_ascii\<close>)

text \<open>The tenants that match the search, as the system sees them.\<close>

definition matchingTenants :: "env \<Rightarrow> tenant_filter \<Rightarrow> db \<Rightarrow> tenant list" where
  "matchingTenants env f d = filter (\<lambda>t. matchesSearch env (trimSpace (tfSearch f)) (tenantName t)) (tenants d)"

lemma ListTenants_page:
  assumes "quiet env"
    and "uuidCursor env p ''tenants'' (tenantFingerprint env f) (tfSort f = TenantSortCreatedAt) (tfCursor f) = Inr c"
    and "uuidArgument p c = Inr after"
  shows "servesPage (\<lambda>w. w_db w = d) (keyBefore env (tfDirection f)) (tenantKey (tfSort f)) (tenantCursor env f)
      (nat (effectiveLimit (tfLimit f))) (matchingTenants env f d) after (ListTenants env p f)"
  unfolding servesPage_def
proof (intro allI impI)
  fix w :: world
  assume d: "w_db w = d"
  let ?len = "nat (effectiveLimit (tfLimit f))"
  have sees: "tenantRows env f w1 = matchingTenants env f d" if "bypassesRLS w1" "w_db w1 = w_db w" for w1
    using that d by (simp add: tenantRows_def matchingTenants_def systemSees)
  obtain w' where "withSystemTx env (mapError (Wrapped ''list tenants'')
      (keysetQuery env (tfDirection f) (tenantKey (tfSort f)) (Suc ?len) (Inr after) (tenantRows env f))) w
    = (Inr (pageRows (keyBefore env (tfDirection f)) (tenantKey (tfSort f)) (Suc ?len) after (matchingTenants env f d)), w')"
    "w_db w' = w_db w"
    using quiet_systemPage[OF assms(1), of w "tenantRows env f", OF sees] by blast
  then show "\<exists>w'. ListTenants env p f w = (Inr (keysetPage ?len (tenantCursor env f)
       (pageRows (keyBefore env (tfDirection f)) (tenantKey (tfSort f)) (Suc ?len) after (matchingTenants env f d))), w') \<and> w_db w' = d"
    using d assms(2,3) by (simp add: ListTenants_def Let_def andThen_def liftSum_def ret_def)
qed

lemma tenant_filter_cursor [simp]:
  "tenantFingerprint env (f\<lparr>tfCursor := c\<rparr>) = tenantFingerprint env f"
  "tenantCursor env (f\<lparr>tfCursor := c\<rparr>) = tenantCursor env f"
  "matchingTenants env (f\<lparr>tfCursor := c\<rparr>) = matchingTenants env f"
  by (auto simp: tenantFingerprint_def tenantCursor_def matchingTenants_def fun_eq_iff)

text \<open>C18: In an environment where nothing fails, a client that lists the tenants page by page, with any filter, sort
  order, direction and page size, comes to an end and has then received every tenant that matches the
  search exactly once, in the requested order; the listing changes nothing. (The text order is assumed to be a strict total order, and
  the stored identifiers, names and times to be ones that PostgreSQL stores.)\<close>

theorem following_lists_every_tenant:
  assumes "quiet env" and "key_order (pgTextLess env)"
    and "distinct (map tenantID (tenants (w_db w)))"
    and "\<forall>t \<in> set (tenants (w_db w)). listableTenant env p (tfSort f) t"
    and "length (tenants (w_db w)) < n"
  shows "\<exists>items w'. followListing (ListTenants env p) (\<lambda>c g. g\<lparr>tfCursor := c\<rparr>) n (f\<lparr>tfCursor := []\<rparr>) w = (Inr (Some items), w')
    \<and> w_db w' = w_db w
    \<and> set items = {t \<in> set (tenants (w_db w)). matchesSearch env (trimSpace (tfSearch f)) (tenantName t)}
    \<and> distinct items
    \<and> sorted_wrt (\<lambda>a b. keyBefore env (tfDirection f) (tenantKey (tfSort f) a) (tenantKey (tfSort f) b)) items"
proof -
  let ?rows = "matchingTenants env f (w_db w)"
  have "distinct (map tenantID ?rows)" using assms(3) by (simp add: matchingTenants_def distinct_map_filter)
  then have keys: "distinct (map (tenantKey (tfSort f)) ?rows)"
    by (auto simp: distinct_map inj_on_def tenantKey_def)
  have len: "length ?rows < n" using assms(5) length_filter_le le_less_trans unfolding matchingTenants_def by blast
  have serves: "servesPage (\<lambda>w'. w_db w' = w_db w) (keyBefore env (tfDirection f)) (tenantKey (tfSort f)) (tenantCursor env f)
      (nat (effectiveLimit (tfLimit f))) ?rows after (ListTenants env p (f\<lparr>tfCursor := c\<rparr>))"
    if "uuidCursor env p ''tenants'' (tenantFingerprint env f) (tfSort f = TenantSortCreatedAt) c = Inr x"
       "uuidArgument p x = Inr after" for c x after
    using ListTenants_page[OF assms(1), of p "f\<lparr>tfCursor := c\<rparr>"] that by simp
  have first: "servesPage (\<lambda>w'. w_db w' = w_db w) (keyBefore env (tfDirection f)) (tenantKey (tfSort f)) (tenantCursor env f)
      (nat (effectiveLimit (tfLimit f))) ?rows None (ListTenants env p (f\<lparr>tfCursor := []\<rparr>))"
    using serves[of "[]" None None] by (simp add: uuidCursor_def uuidArgument_def)
  have later: "servesPage (\<lambda>w'. w_db w' = w_db w) (keyBefore env (tfDirection f)) (tenantKey (tfSort f)) (tenantCursor env f)
      (nat (effectiveLimit (tfLimit f))) ?rows (Some (tenantKey (tfSort f) t))
      (ListTenants env p (f\<lparr>tfCursor := tenantCursor env f t\<rparr>))" if t: "t \<in> set ?rows" for t
  proof (rule serves)
    have t': "listableTenant env p (tfSort f) t" using t assms(4) by (simp add: matchingTenants_def)
    then show "uuidCursor env p ''tenants'' (tenantFingerprint env f) (tfSort f = TenantSortCreatedAt) (tenantCursor env f t)
        = Inr (Some (hd (tenantKey (tfSort f) t), tenantID t))" by (rule tenantCursor_decodes)
    show "uuidArgument p (Some (hd (tenantKey (tfSort f) t), tenantID t)) = Inr (Some (tenantKey (tfSort f) t))"
      using t' by (simp add: uuidArgument_def listableTenant_def storedUUID_def tenantKey_def)
  qed
  have "\<exists>items w'. followListing (ListTenants env p) (\<lambda>c g. g\<lparr>tfCursor := c\<rparr>) n (f\<lparr>tfCursor := []\<rparr>) w = (Inr (Some items), w')
    \<and> w_db w' = w_db w \<and> set items = set ?rows \<and> distinct items
    \<and> sorted_wrt (\<lambda>a b. keyBefore env (tfDirection f) (tenantKey (tfSort f) a) (tenantKey (tfSort f) b)) items"
    by (rule follow_all[where listing = "ListTenants env p" and f = "f\<lparr>tfCursor := []\<rparr>", OF keyBefore_order[OF assms(2)] keys pageSize_pos _ first])
      (use later len in \<open>simp_all add: tenantCursor_def\<close>)
  then show ?thesis by (simp add: matchingTenants_def)
qed

subsection \<open>Audit events\<close>

definition listableAuditEvent :: "env \<Rightarrow> ports \<Rightarrow> audit_row \<Rightarrow> bool" where
  "listableAuditEvent env p a \<longleftrightarrow> storedUUID env p (a_id a) \<and> storedTime (a_occurred_at a)"

definition matchingEvents :: "env \<Rightarrow> audit_filter \<Rightarrow> db \<Rightarrow> audit_event list" where
  "matchingEvents env f d = filter (auditMatches env f) (map (scanAuditEvent (systemWorld d)) (audit_events d))"

lemma auditVisible_system [simp]: "bypassesRLS w \<Longrightarrow> visibleRows auditTable w = audit_events (w_db w)"
  by (simp add: visibleRows_def table_defs auditVisible_def filter_id_conv)

lemma auditRows_system:
  assumes "bypassesRLS w"
  shows "auditRows env f w = matchingEvents env f (w_db w)"
proof -
  have "scanAuditEvent w a = scanAuditEvent (systemWorld (w_db w)) a" for a
    unfolding scanAuditEvent_def joinedEmail_def joinedTenantName_def systemSees[OF assms]
      systemSees[OF bypasses_systemWorld(1)] bypasses_systemWorld(2) ..
  then show ?thesis using assms by (simp add: auditRows_def matchingEvents_def cong: map_cong)
qed

text \<open>A filter that \<^verbatim>\<open>normalizeAuditFilter\<close> leaves as it is: the window and the direction are given.\<close>

definition completeFilter :: "audit_filter \<Rightarrow> bool" where
  "completeFilter f \<longleftrightarrow>
     afFrom f \<noteq> zeroTime \<and> afTo f \<noteq> zeroTime \<and> sortDirection_isValid (afDirection f)
     \<and> afPageSize f = effectiveLimit (afPageSize f)"

lemma normalizeAuditFilter_complete [simp]: "completeFilter f \<Longrightarrow> normalizeAuditFilter now f = f"
  by (simp add: completeFilter_def normalizeAuditFilter_def Let_def)

lemma ListAuditEvents_page:
  assumes "quiet env" and "completeFilter f"
    and "uuidCursor env p ''audit'' (auditFilterFingerprint env f) True (afCursor f) = Inr c"
    and "uuidArgument p c = Inr after"
  shows "servesPage (\<lambda>w. w_db w = d) (keyBefore env (afDirection f)) auditKey (auditCursor env f)
      (nat (afPageSize f)) (matchingEvents env f d) after (ListAuditEvents env p f)"
  unfolding servesPage_def
proof (intro allI impI)
  fix w :: world
  assume d: "w_db w = d"
  let ?len = "nat (afPageSize f)"
  have sees: "auditRows env f w1 = matchingEvents env f d" if "bypassesRLS w1" "w_db w1 = w_db (tick w)" for w1
    using that d by (simp add: auditRows_system)
  obtain w' where "withSystemTx env (mapError (Wrapped ''list audit events'')
      (keysetQuery env (afDirection f) auditKey (Suc ?len) (Inr after) (auditRows env f))) (tick w)
    = (Inr (pageRows (keyBefore env (afDirection f)) auditKey (Suc ?len) after (matchingEvents env f d)), w')"
    "w_db w' = w_db (tick w)"
    using quiet_systemPage[OF assms(1), of "tick w" "auditRows env f", OF sees] by blast
  then show "\<exists>w'. ListAuditEvents env p f w = (Inr (keysetPage ?len (auditCursor env f)
       (pageRows (keyBefore env (afDirection f)) auditKey (Suc ?len) after (matchingEvents env f d))), w') \<and> w_db w' = d"
    using d assms(2-4) by (simp add: ListAuditEvents_def Let_def andThen_def liftSum_def ret_def goNow_def)
qed

lemma auditCursor_decodes:
  assumes "listableAuditEvent env p a" and "event = scanAuditEvent w a"
  shows "uuidCursor env p ''audit'' (auditFilterFingerprint env f) True (auditCursor env f event)
     = Inr (Some (TimeValue (occurredAt event), eventID event))"
  unfolding auditCursor_def
  by (rule uuidCursor_encode)
    (use assms in \<open>auto simp: listableAuditEvent_def auditFilterFingerprint_def scanAuditEvent_def byte_def
      storedText_ascii\<close>)

lemma auditMatches_cursor [simp]: "auditMatches env (f\<lparr>afCursor := c\<rparr>) = auditMatches env f"
  by (simp add: auditMatches_def fun_eq_iff)

lemma audit_filter_cursor [simp]:
  "auditFilterFingerprint env (f\<lparr>afCursor := c\<rparr>) = auditFilterFingerprint env f"
  "auditCursor env (f\<lparr>afCursor := c\<rparr>) = auditCursor env f"
  "matchingEvents env (f\<lparr>afCursor := c\<rparr>) = matchingEvents env f"
  "completeFilter (f\<lparr>afCursor := c\<rparr>) = completeFilter f"
  by (auto simp: auditFilterFingerprint_def auditCursor_def matchingEvents_def completeFilter_def fun_eq_iff)

text \<open>C19: In an environment where nothing fails, a client that reads the audit log page by page, with a complete filter, comes to an end and has then seen
  every recorded event of the window that matches the filter exactly once, in the order of time (and of identifiers at equal
  times), ascending or descending as requested; no event is lost between two pages. (The text order is assumed to be a
  strict total order, and the stored identifiers and times to be ones that PostgreSQL stores.)\<close>

theorem following_lists_every_audit_event:
  assumes "quiet env" and "key_order (pgTextLess env)" and "completeFilter f"
    and "distinct (map a_id (audit_events (w_db w)))"
    and "\<forall>a \<in> set (audit_events (w_db w)). listableAuditEvent env p a"
    and "length (audit_events (w_db w)) < n"
  shows "\<exists>events w'. followListing (ListAuditEvents env p) (\<lambda>c g. g\<lparr>afCursor := c\<rparr>) n (f\<lparr>afCursor := []\<rparr>) w = (Inr (Some events), w')
    \<and> w_db w' = w_db w
    \<and> set events = {event \<in> scanAuditEvent (systemWorld (w_db w)) ` set (audit_events (w_db w)). auditMatches env f event}
    \<and> distinct (map eventID events)
    \<and> sorted_wrt (\<lambda>a b. keyBefore env (afDirection f) (auditKey a) (auditKey b)) events"
proof -
  let ?rows = "matchingEvents env f (w_db w)" and ?len = "nat (afPageSize f)"
  have "map eventID (map (scanAuditEvent (systemWorld d)) as) = map a_id as" for d as
    by (simp add: scanAuditEvent_def)
  then have "distinct (map eventID (map (scanAuditEvent (systemWorld (w_db w))) (audit_events (w_db w))))"
    using assms(4) by metis
  then have "distinct (map eventID ?rows)" unfolding matchingEvents_def by (rule distinct_map_filter)
  then have keys: "distinct (map auditKey ?rows)" and ids: "inj_on eventID (set ?rows)"
    by (auto simp: distinct_map inj_on_def auditKey_def)
  have size: "0 < ?len" using assms(3) pageSize_pos[of "afPageSize f"] by (simp add: completeFilter_def)
  have len: "length ?rows < n"
    using assms(6) length_filter_le[of "auditMatches env f" "map (scanAuditEvent (systemWorld (w_db w))) (audit_events (w_db w))"]
    unfolding matchingEvents_def length_map by (rule le_less_trans[rotated])
  have serves: "servesPage (\<lambda>w'. w_db w' = w_db w) (keyBefore env (afDirection f)) auditKey (auditCursor env f)
      ?len ?rows after (ListAuditEvents env p (f\<lparr>afCursor := c\<rparr>))"
    if "uuidCursor env p ''audit'' (auditFilterFingerprint env f) True c = Inr x" "uuidArgument p x = Inr after" for c x after
    using ListAuditEvents_page[OF assms(1), of "f\<lparr>afCursor := c\<rparr>" p] that assms(3) by simp
  have first: "servesPage (\<lambda>w'. w_db w' = w_db w) (keyBefore env (afDirection f)) auditKey (auditCursor env f)
      ?len ?rows None (ListAuditEvents env p (f\<lparr>afCursor := []\<rparr>))"
    using serves[of "[]" None None] by (simp add: uuidCursor_def uuidArgument_def)
  have later: "servesPage (\<lambda>w'. w_db w' = w_db w) (keyBefore env (afDirection f)) auditKey (auditCursor env f)
      ?len ?rows (Some (auditKey event)) (ListAuditEvents env p (f\<lparr>afCursor := auditCursor env f event\<rparr>))"
    if event: "event \<in> set ?rows" for event
  proof -
    obtain a where a: "event = scanAuditEvent (systemWorld (w_db w)) a" "listableAuditEvent env p a"
      using event assms(5) by (auto simp: matchingEvents_def)
    have "uuidArgument p (Some (TimeValue (occurredAt event), eventID event)) = Inr (Some (auditKey event))"
      using a by (simp add: uuidArgument_def listableAuditEvent_def storedUUID_def auditKey_def scanAuditEvent_def)
    then show ?thesis by (rule serves[OF auditCursor_decodes[OF a(2,1)]])
  qed
  have "\<exists>events w'. followListing (ListAuditEvents env p) (\<lambda>c g. g\<lparr>afCursor := c\<rparr>) n (f\<lparr>afCursor := []\<rparr>) w = (Inr (Some events), w')
    \<and> w_db w' = w_db w \<and> set events = set ?rows \<and> distinct events
    \<and> sorted_wrt (\<lambda>a b. keyBefore env (afDirection f) (auditKey a) (auditKey b)) events"
    by (rule follow_all[where listing = "ListAuditEvents env p" and f = "f\<lparr>afCursor := []\<rparr>", OF keyBefore_order[OF assms(2)] keys size _ first])
      (use later len in \<open>simp_all add: auditCursor_def\<close>)
  moreover have "distinct (map eventID events)" if "set events = set ?rows" "distinct events" for events
    using that ids by (simp add: distinct_map)
  ultimately show ?thesis by (auto simp: matchingEvents_def)
qed

subsection \<open>Cursors of other lists\<close>

lemma decode_encode_other:
  assumes "validUtf8 kind" and "validUtf8 fp" and "validUtf8 sv" and "validUtf8 i"
    and "\<not> (kind = kind' \<and> fp = fp' \<and> sv \<noteq> [] \<and> i \<noteq> [])"
  shows "decodeKeysetCursor (encodeKeysetCursor kind fp sv i) kind' fp' = Inl (OpaqueError ''invalid cursor'')"
  using assms(5) unmarshal_marshal[OF assms(1-4)] by (auto simp: decodeKeysetCursor_def encodeKeysetCursor_def)

lemma foreign_uuidCursor:
  assumes "validUtf8 kind" and "validUtf8 fp" and "validUtf8 sv" and "validUtf8 i"
    and "\<not> (kind = kind' \<and> fp = fp' \<and> sv \<noteq> [] \<and> i \<noteq> [])"
  shows "uuidCursor env p kind' fp' timed (encodeKeysetCursor kind fp sv i) = Inl (newError ErrorValidation)"
  by (simp add: uuidCursor_def decodeUUIDKeysetCursor_def decode_encode_other[OF assms])

text \<open>C20: Decoding a cursor gives back exactly what it was made of: the cursor of any row of text decodes for the list and the filter
  it was made for, to its sort value and identifier, and is an error for every other kind of list, for every other
  filter, and when its sort value or identifier is empty.\<close>

theorem keyset_cursor_round_trip:
  assumes "validUtf8 kind" and "validUtf8 fp" and "validUtf8 sv" and "validUtf8 i"
  shows "decodeKeysetCursor (encodeKeysetCursor kind fp sv i) kind' fp'
     = (if kind = kind' \<and> fp = fp' \<and> sv \<noteq> [] \<and> i \<noteq> []
        then Inr \<lparr>cursorVersion = 1, cursorKind = kind, cursorFingerprint = fp, cursorSortValue = sv, cursorID = i\<rparr>
        else Inl (OpaqueError ''invalid cursor''))"
  using assms decode_encodeKeysetCursor[OF assms] decode_encode_other[OF assms] by auto

theorem keyset_cursor_round_trip_witness:
  "decodeKeysetCursor (encodeKeysetCursor ''users'' ''f'' ''a@b'' ''1'') ''users'' ''f''
     = Inr \<lparr>cursorVersion = 1, cursorKind = ''users'', cursorFingerprint = ''f'', cursorSortValue = ''a@b'', cursorID = ''1''\<rparr>"
  by (subst keyset_cursor_round_trip) (simp_all add: validUtf8_ascii byte_def)

text \<open>A cursor that was made for another kind of list or for another search, sort order or direction is refused with a
  validation error before any transaction is begun; the world is left exactly as it was.\<close>

theorem foreign_cursor_refused:
  assumes "validUtf8 kind" and "validUtf8 fp" and "validUtf8 sv" and "validUtf8 i"
  shows "((kind, fp) \<noteq> (''tenants'', tenantFingerprint env tf) \<longrightarrow>
      ListTenants env p (tf\<lparr>tfCursor := encodeKeysetCursor kind fp sv i\<rparr>) w = (Inl (newError ErrorValidation), w))
    \<and> ((kind, fp) \<noteq> (''roles'', roleFingerprint env rf) \<longrightarrow>
      ListRoles env p tid (rf\<lparr>rfCursor := encodeKeysetCursor kind fp sv i\<rparr>) w = (Inl (newError ErrorValidation), w))
    \<and> ((kind, fp) \<noteq> (''memberships'', membershipFingerprint env mf) \<longrightarrow>
      ListMemberships env p tid (mf\<lparr>mfCursor := encodeKeysetCursor kind fp sv i\<rparr>) w = (Inl (newError ErrorValidation), w))"
proof (intro conjI impI)
  have print: "roleFingerprint env (rf\<lparr>rfCursor := c\<rparr>) = roleFingerprint env rf"
    "membershipFingerprint env (mf\<lparr>mfCursor := c\<rparr>) = membershipFingerprint env mf" for c
    by (simp_all add: roleFingerprint_def membershipFingerprint_def)
  have refused: "uuidCursor env p kind' fp' timed (encodeKeysetCursor kind fp sv i) = Inl (newError ErrorValidation)"
    if "(kind, fp) \<noteq> (kind', fp')" for kind' fp' timed
    by (rule foreign_uuidCursor[OF assms]) (use that in auto)
  show "ListTenants env p (tf\<lparr>tfCursor := encodeKeysetCursor kind fp sv i\<rparr>) w = (Inl (newError ErrorValidation), w)"
    if "(kind, fp) \<noteq> (''tenants'', tenantFingerprint env tf)"
    by (subst ListTenants_def) (simp add: refused[OF that] liftSum_def andThen_def Let_def)
  show "ListRoles env p tid (rf\<lparr>rfCursor := encodeKeysetCursor kind fp sv i\<rparr>) w = (Inl (newError ErrorValidation), w)"
    if "(kind, fp) \<noteq> (''roles'', roleFingerprint env rf)"
    by (subst ListRoles_def) (simp add: refused[OF that] print liftSum_def andThen_def Let_def)
  show "ListMemberships env p tid (mf\<lparr>mfCursor := encodeKeysetCursor kind fp sv i\<rparr>) w = (Inl (newError ErrorValidation), w)"
    if "(kind, fp) \<noteq> (''memberships'', membershipFingerprint env mf)"
    by (subst ListMemberships_def) (simp add: refused[OF that] print liftSum_def andThen_def Let_def)
qed

definition sampleTenantFilter :: "tenant_sort \<Rightarrow> sort_direction \<Rightarrow> tenant_filter" where
  "sampleTenantFilter sorting direction =
     \<lparr>tfSearch = [], tfSort = sorting, tfDirection = direction, tfCursor = [], tfLimit = 1\<rparr>"

theorem foreign_cursor_refused_witness:
  "ListTenants serviceEnv samplePorts
     ((sampleTenantFilter TenantSortName SortAscending)\<lparr>tfCursor := encodeKeysetCursor ''users'' ''f'' ''a@b'' ''1''\<rparr>) serviceWorld
   = (Inl (newError ErrorValidation), serviceWorld)
   \<and> ListRoles serviceEnv samplePorts idTenant
     \<lparr>rfSearch = [], rfKind = None, rfSort = RoleSortName, rfDirection = SortAscending,
      rfCursor = encodeKeysetCursor ''users'' ''f'' ''a@b'' ''1'', rfLimit = 5\<rparr> serviceWorld
   = (Inl (newError ErrorValidation), serviceWorld)
   \<and> ListMemberships serviceEnv samplePorts idTenant
     \<lparr>mfSearch = [], mfRoleID = None, mfStatus = None, mfSort = MembershipSortEmail, mfDirection = SortAscending,
      mfCursor = encodeKeysetCursor ''users'' ''f'' ''a@b'' ''1'', mfLimit = 5\<rparr> serviceWorld
   = (Inl (newError ErrorValidation), serviceWorld)"
  using foreign_cursor_refused[of "''users''" "''f''" "''a@b''" "''1''" serviceEnv "sampleTenantFilter TenantSortName SortAscending"
      samplePorts serviceWorld
      "\<lparr>rfSearch = [], rfKind = None, rfSort = RoleSortName, rfDirection = SortAscending, rfCursor = [], rfLimit = 5\<rparr>" idTenant
      "\<lparr>mfSearch = [], mfRoleID = None, mfStatus = None, mfSort = MembershipSortEmail, mfDirection = SortAscending,
        mfCursor = [], mfLimit = 5\<rparr>"]
  by (simp add: validUtf8_ascii byte_def)

text \<open>An anonymised invitation has an empty email; sorted by email its cursor is never accepted.\<close>

lemma invitationFingerprint_cursor [simp]:
  "invitationFingerprint env (f\<lparr>ifCursor := c\<rparr>) = invitationFingerprint env f"
  by (simp add: invitationFingerprint_def)

text \<open>C21: When a page of invitations sorted by email ends with an anonymised invitation (whose email the cleanup
  emptied), the cursor that the page hands out for the next page is refused with a validation error, whatever the rest of the
  filter: the listing cannot be read beyond it.\<close>

theorem anonymised_invitation_ends_listing:
  assumes "quiet env" and "ifSort f = InvitationSortEmail" and "invitationEmail i = []" and "validUtf8 (invitationID i)"
  shows "\<exists>w'. ListInvitations env p (f\<lparr>ifCursor := invitationCursor env f i\<rparr>) w = (Inl (newError ErrorValidation), w')
       \<and> w_db w' = w_db w"
proof (rule quiet_systemTx[OF assms(1), of w "listInvitationsTx env p (f\<lparr>ifCursor := invitationCursor env f i\<rparr>)"])
  fix w1
  assume run: "\<And>err w2. listInvitationsTx env p (f\<lparr>ifCursor := invitationCursor env f i\<rparr>) w1 = (Inl err, w2) \<Longrightarrow>
    \<exists>w'. withSystemTx env (listInvitationsTx env p (f\<lparr>ifCursor := invitationCursor env f i\<rparr>)) w = (Inl err, w') \<and> w_db w' = w_db w"
  have "uuidCursor env p ''invitations'' (invitationFingerprint env f) timed (invitationCursor env f i)
      = Inl (newError ErrorValidation)" for timed
    unfolding invitationCursor_def
    by (rule foreign_uuidCursor) (use assms in \<open>simp_all add: validUtf8_ascii byte_def invitationFingerprint_def\<close>)
  then have "listInvitationsTx env p (f\<lparr>ifCursor := invitationCursor env f i\<rparr>) w1 = (Inl (newError ErrorValidation), w1)"
    by (simp add: listInvitationsTx_def Let_def andThen_def liftSum_def fail_def split: option.split)
  from run[OF this] show ?thesis by (simp add: ListInvitations_def)
qed

theorem anonymised_invitation_ends_listing_witness:
  "\<exists>w'. ListInvitations serviceEnv samplePorts
       \<lparr>ifSearch = [], ifTenantID = None, ifStatus = InvitationStatusFilterAll, ifSort = InvitationSortEmail,
        ifDirection = SortAscending,
        ifCursor = invitationCursor serviceEnv
          \<lparr>ifSearch = [], ifTenantID = None, ifStatus = InvitationStatusFilterAll, ifSort = InvitationSortEmail,
           ifDirection = SortAscending, ifCursor = [], ifLimit = 1\<rparr> (scanInvitation (sampleInvitation\<lparr>i_email := []\<rparr>)),
        ifLimit = 1\<rparr> serviceWorld
     = (Inl (newError ErrorValidation), w') \<and> w_db w' = w_db serviceWorld"
  using anonymised_invitation_ends_listing[of serviceEnv
      "\<lparr>ifSearch = [], ifTenantID = None, ifStatus = InvitationStatusFilterAll, ifSort = InvitationSortEmail,
        ifDirection = SortAscending, ifCursor = [], ifLimit = 1\<rparr>" "scanInvitation (sampleInvitation\<lparr>i_email := []\<rparr>)"
      samplePorts serviceWorld] sample_services(1)
  by (simp add: scanInvitation_def sampleInvitation_def validUtf8_ascii sampleID_def byte_def)

subsection \<open>What a page can hold\<close>

definition boundedPage :: "int \<Rightarrow> go_error + 'a page \<Rightarrow> bool" where
  "boundedPage limit r =
     (case r of
        Inl _ \<Rightarrow> True
      | Inr page \<Rightarrow>
          length (pageItems page) \<le> nat limit
          \<and> (pageNextCursor page = [] \<or> length (pageItems page) = nat limit))"

lemma boundedPage_keysetPage: "boundedPage limit (Inr (keysetPage (nat limit) c items))"
  by (auto simp: boundedPage_def keysetPage_def)

lemma boundedPageI:
  "(\<And>page w'. m w = (Inr page, w') \<Longrightarrow> boundedPage limit (Inr page)) \<Longrightarrow> boundedPage limit (fst (m w))"
  by (cases "m w") (auto simp: boundedPage_def split: sum.splits)

text \<open>No listing returns more rows than the page size its filter asks for, and never more than a hundred; a page that has a
  successor is full.\<close>

theorem pages_are_bounded:
  "boundedPage (effectiveLimit (tfLimit tf)) (fst (ListTenants env p tf w))
    \<and> boundedPage (effectiveLimit (rfLimit rf)) (fst (ListRoles env p tid rf w))
    \<and> boundedPage (effectiveLimit (mfLimit mf)) (fst (ListMemberships env p tid mf w))
    \<and> boundedPage (effectiveLimit (ufLimit uf)) (fst (ListUsers env p uf w))
    \<and> boundedPage (effectiveLimit (ifLimit vf)) (fst (ListInvitations env p vf w))
    \<and> boundedPage (effectiveLimit (ifLimit vf)) (fst (ListTenantInvitations env p tid vf w))
    \<and> boundedPage (effectiveLimit (afPageSize af)) (fst (ListAuditEvents env p af w))
    \<and> boundedPage (effectiveLimit (lfLimit lf)) (fst (ListLanguages env lf w))
    \<and> boundedPage (effectiveLimit (xfLimit xf)) (fst (ListTranslationOverrides env p xf w))
    \<and> effectiveLimit limit \<le> 100"
proof (intro conjI)
  have audit: "afPageSize (normalizeAuditFilter now af) = effectiveLimit (afPageSize af)" for now
    by (simp add: normalizeAuditFilter_def Let_def)
  have users: "boundedPage (effectiveLimit (ufLimit uf)) (Inr page)" if "listUsersTx env p uf v = (Inr page, v')" for page v v'
    using that by (auto simp: listUsersTx_def Let_def run_simps boundedPage_keysetPage)
  have invites: "boundedPage (effectiveLimit (ifLimit g)) (Inr page)" if "listInvitationsTx env p g v = (Inr page, v')" for g page v v'
    using that by (auto simp: listInvitationsTx_def Let_def run_simps boundedPage_keysetPage split: option.splits)
  show "boundedPage (effectiveLimit (tfLimit tf)) (fst (ListTenants env p tf w))"
    by (rule boundedPageI) (auto simp: ListTenants_def Let_def run_simps boundedPage_keysetPage)
  show "boundedPage (effectiveLimit (rfLimit rf)) (fst (ListRoles env p tid rf w))"
    by (rule boundedPageI) (auto simp: ListRoles_def Let_def run_simps boundedPage_keysetPage)
  show "boundedPage (effectiveLimit (mfLimit mf)) (fst (ListMemberships env p tid mf w))"
    by (rule boundedPageI) (auto simp: ListMemberships_def Let_def run_simps boundedPage_keysetPage)
  show "boundedPage (effectiveLimit (ufLimit uf)) (fst (ListUsers env p uf w))"
    by (rule boundedPageI) (auto simp: ListUsers_def elim!: systemRead dest: users)
  show "boundedPage (effectiveLimit (ifLimit vf)) (fst (ListInvitations env p vf w))"
    by (rule boundedPageI) (auto simp: ListInvitations_def elim!: systemRead dest: invites)
  show "boundedPage (effectiveLimit (ifLimit vf)) (fst (ListTenantInvitations env p tid vf w))"
    by (rule boundedPageI) (auto simp: ListTenantInvitations_def elim!: tenantRead dest: invites)
  show "boundedPage (effectiveLimit (afPageSize af)) (fst (ListAuditEvents env p af w))"
    by (rule boundedPageI) (auto simp: ListAuditEvents_def Let_def run_simps audit boundedPage_keysetPage)
  show "boundedPage (effectiveLimit (lfLimit lf)) (fst (ListLanguages env lf w))"
    by (rule boundedPageI) (auto simp: ListLanguages_def Let_def run_simps boundedPage_keysetPage)
  show "boundedPage (effectiveLimit (xfLimit xf)) (fst (ListTranslationOverrides env p xf w))"
    by (rule boundedPageI) (auto simp: ListTranslationOverrides_def Let_def run_simps boundedPage_keysetPage)
  show "effectiveLimit limit \<le> 100" using effectiveLimit_bounds by (simp add: MaxPageSize_def)
qed

subsection \<open>Witnesses of the listings\<close>

lemma sample_text_order: "key_order (pgTextLess serviceEnv)"
  using byteOrder.key_order_axioms by (simp add: serviceEnv_def sampleEnv_def)

lemma sample_uuids [simp]:
  "storedUUID serviceEnv samplePorts idTenant" "storedUUID serviceEnv samplePorts idFresh"
  "storedUUID serviceEnv samplePorts idPerson" "idTenant \<noteq> idFresh" "idPerson \<noteq> idTenant" "idPerson \<noteq> idFresh"
  "idFresh \<noteq> idTenant" "idTenant \<noteq> idPerson" "idFresh \<noteq> idPerson"
  by code_simp+

definition sampleAuditRow :: "string \<Rightarrow> time \<Rightarrow> audit_row" where
  "sampleAuditRow i t =
     \<lparr>a_id = i, a_occurred_at = t, a_actor = Some idPerson, a_tenant = None, a_action = ''user.login'', a_target = [],
      a_metadata = []\<rparr>"

definition sampleAuditFilter :: audit_filter where
  "sampleAuditFilter =
     \<lparr>afFrom = 1000, afTo = 9000000, afActorID = None, afTenantID = None, afAction = [], afSearch = [],
      afDirection = SortAscending, afCursor = [], afPageSize = 1\<rparr>"

definition listingWorld :: world where
  "listingWorld = serviceWorld\<lparr>w_db := (w_db serviceWorld)
     \<lparr>tenants := [sampleTenant idTenant ''Acme'', sampleTenant idFresh ''Beta''],
      audit_events := [sampleAuditRow idFresh 5000, sampleAuditRow idTenant 5000, sampleAuditRow idPerson 7000]\<rparr>\<rparr>"

theorem following_lists_every_tenant_witness:
  "\<exists>items w'. followListing (ListTenants serviceEnv samplePorts) (\<lambda>c g. g\<lparr>tfCursor := c\<rparr>) 3
       (sampleTenantFilter TenantSortName SortDescending) listingWorld = (Inr (Some items), w')
    \<and> w_db w' = w_db listingWorld \<and> set items = {sampleTenant idTenant ''Acme'', sampleTenant idFresh ''Beta''}
    \<and> distinct items
    \<and> sorted_wrt (\<lambda>a b. keyBefore serviceEnv SortDescending (tenantKey TenantSortName a) (tenantKey TenantSortName b)) items"
proof -
  have rows: "tenants (w_db listingWorld) = [sampleTenant idTenant ''Acme'', sampleTenant idFresh ''Beta'']"
    by (simp add: listingWorld_def)
  have "listableTenant serviceEnv samplePorts TenantSortName (sampleTenant idTenant ''Acme'')"
    "listableTenant serviceEnv samplePorts TenantSortName (sampleTenant idFresh ''Beta'')"
    by (simp_all add: listableTenant_def sampleTenant_def storedText_ascii byte_def)
  moreover have "{t. (t = sampleTenant idTenant ''Acme'' \<or> t = sampleTenant idFresh ''Beta'') \<and> matchesSearch serviceEnv (trimSpace []) (tenantName t)}
     = {sampleTenant idTenant ''Acme'', sampleTenant idFresh ''Beta''}"
    by (auto simp: matchesSearch_def trimSpace_ascii)
  moreover have "tenantID (sampleTenant i n) = i" for i n by (simp add: sampleTenant_def)
  ultimately show ?thesis
    using following_lists_every_tenant[OF sample_services(1) sample_text_order, of listingWorld samplePorts
        "sampleTenantFilter TenantSortName SortDescending" 3]
    by (simp add: rows sampleTenantFilter_def)
qed

theorem following_lists_every_audit_event_witness:
  "\<exists>events w'. followListing (ListAuditEvents serviceEnv samplePorts) (\<lambda>c g. g\<lparr>afCursor := c\<rparr>) 4 sampleAuditFilter listingWorld
       = (Inr (Some events), w')
    \<and> distinct (map eventID events) \<and> w_db w' = w_db listingWorld"
proof -
  have rows: "audit_events (w_db listingWorld)
      = [sampleAuditRow idFresh 5000, sampleAuditRow idTenant 5000, sampleAuditRow idPerson 7000]"
    by (simp add: listingWorld_def)
  have "storedTime 5000" "storedTime 7000" "completeFilter sampleAuditFilter" by code_simp+
  moreover have "sampleAuditFilter\<lparr>afCursor := []\<rparr> = sampleAuditFilter" by (simp add: sampleAuditFilter_def)
  ultimately show ?thesis
    using following_lists_every_audit_event[OF sample_services(1) sample_text_order, of sampleAuditFilter listingWorld samplePorts 4]
    by (auto simp: rows sampleAuditRow_def listableAuditEvent_def)
qed

subsection \<open>The status of an invitation\<close>

fun statusFilterOf :: "invitation_status \<Rightarrow> invitation_status_filter" where
  "statusFilterOf InvitationStatusPending = InvitationStatusFilterPending"
| "statusFilterOf InvitationStatusUsed = InvitationStatusFilterUsed"
| "statusFilterOf InvitationStatusExpired = InvitationStatusFilterExpired"
| "statusFilterOf InvitationStatusRevoked = InvitationStatusFilterRevoked"

text \<open>C22: The condition that a status filter adds to the statement agrees with the status that the domain computes for the
  invitation: an invitation that is not both used and revoked is listed under exactly the status it has.\<close>

theorem status_filter_agrees:
  assumes "i_used_at i = None \<or> i_revoked_at i = None"
  shows "\<exists>cond. invitationStatusCondition (statusFilterOf s) = Some cond
    \<and> (cond now i \<longleftrightarrow> invitation_status_at (scanInvitation i) now = s)"
  using assms
  by (cases s)
    (auto simp: invitation_status_at_def invitation_isUsed_def invitation_isExpired_def scanInvitation_def)

theorem status_filter_agrees_witness:
  "\<exists>cond. invitationStatusCondition InvitationStatusFilterPending = Some cond
     \<and> (cond 0 sampleInvitation \<longleftrightarrow> invitation_status_at (scanInvitation sampleInvitation) 0 = InvitationStatusPending)
     \<and> cond 0 sampleInvitation"
  using status_filter_agrees[of sampleInvitation InvitationStatusPending 0] by (simp add: sampleInvitation_def)

end
