(* ===== verification/AccessProperties.thy ===== *)
theory AccessProperties imports TenantAccess ListingProperties begin

text \<open>
  What the tenant control plane guarantees: nothing without the permission in the session's tenant, nothing
  outside that tenant, and every change recorded with its author.
\<close>

subsection \<open>The calls of the control plane\<close>

datatype access_call =
    CallUpdateTenant string nat
  | CallListMemberships membership_filter
  | CallUpdateMembership membership
  | CallListRoles role_filter
  | CallCreateRole string "permission list"
  | CallUpdateRole role
  | CallDeleteRole string nat
  | CallListInvitations invitation_filter
  | CallRevokeInvitation string

fun serveAccess :: "env \<Rightarrow> ports \<Rightarrow> session \<Rightarrow> access_call \<Rightarrow> (world, go_error, unit) eff" where
  "serveAccess env p s (CallUpdateTenant name revision) = discard (Access_UpdateCurrentTenant env s name revision)"
| "serveAccess env p s (CallListMemberships f) = discard (Access_ListMemberships env p s f)"
| "serveAccess env p s (CallUpdateMembership m) = discard (Access_UpdateMembership env s m)"
| "serveAccess env p s (CallListRoles f) = discard (Access_ListRoles env p s f)"
| "serveAccess env p s (CallCreateRole name ps) = discard (Access_CreateRole env s name ps)"
| "serveAccess env p s (CallUpdateRole role) = discard (Access_UpdateRole env s role)"
| "serveAccess env p s (CallDeleteRole rid revision) = discard (Access_DeleteRole env s rid revision)"
| "serveAccess env p s (CallListInvitations f) = discard (Access_ListInvitations env p s f)"
| "serveAccess env p s (CallRevokeInvitation i) = discard (Access_RevokeInvitation env s i)"

text \<open>The permission that each call needs.\<close>

fun neededPermission :: "access_call \<Rightarrow> permission" where
  "neededPermission (CallUpdateTenant name revision) = PermissionTenantManage"
| "neededPermission (CallListMemberships f) = PermissionUserRead"
| "neededPermission (CallUpdateMembership m) = PermissionUserManage"
| "neededPermission (CallListRoles f) = PermissionRoleRead"
| "neededPermission (CallCreateRole name ps) = PermissionRoleManage"
| "neededPermission (CallUpdateRole role) = PermissionRoleManage"
| "neededPermission (CallDeleteRole rid revision) = PermissionRoleManage"
| "neededPermission (CallListInvitations f) = PermissionUserRead"
| "neededPermission (CallRevokeInvitation i) = PermissionUserManage"

fun onlyReads :: "access_call \<Rightarrow> bool" where
  "onlyReads (CallListMemberships f) = True"
| "onlyReads (CallListRoles f) = True"
| "onlyReads (CallListInvitations f) = True"
| "onlyReads _ = False"

text \<open>The session has an active tenant and its user holds the permission there.\<close>

definition authorised :: "db \<Rightarrow> session \<Rightarrow> permission \<Rightarrow> bool" where
  "authorised d s permission \<longleftrightarrow>
     (\<exists>t. sessionTenant s = Inr t \<and> holdsPermission d (userID (sessionUser s)) (tenantID t) permission)"

subsection \<open>The guard\<close>

lemma untouched_require [untouched_rules]: "keeps (\<lambda>_. True) untouched (Access_require env uid tid permission)"
  unfolding Access_require_def by (intro untouched_rules)

lemma Access_require_Inr:
  assumes "Access_require env uid tid permission w = (Inr u, w')"
  shows "holdsPermission (w_db w) uid tid permission"
proof -
  obtain m w1 ps where m: "FindActiveMembership env uid tid w = (Inr m, w1)"
    and ps: "PermissionsForRole env tid (membershipRoleID m) w1 = (Inr ps, w')" "permission \<in> set ps"
    using assms by (auto simp: Access_require_def run_simps split: if_splits)
  have "w_db w1 = w_db w" by (rule untouchedD[OF untouched_reading(5) m])
  then show ?thesis
    using FindActiveMembership_Inr[OF m] PermissionsForRole_Inr[OF ps(1)] ps(2)
    unfolding holdsPermission_def by metis
qed

text \<open>A guarded operation is refused with the database untouched, or the operation runs, authorised, in an unchanged database.\<close>

lemma guarded_cases:
  assumes "guarded env s permission operation w = (r, w')"
  obtains (refused) err where "r = Inl err" "w_db w' = w_db w"
    | (served) t w1 where "sessionTenant s = Inr t" "authorised (w_db w) s permission" "w_db w1 = w_db w"
        "operation t w1 = (r, w')"
proof (cases "sessionTenant s")
  case (Inl err)
  then show ?thesis using assms refused by (auto simp: guarded_def andThen_def liftSum_def)
next
  case (Inr t)
  obtain q w1 where run: "Access_require env (userID (sessionUser s)) (tenantID t) permission w = (q, w1)" by fastforce
  have db: "w_db w1 = w_db w" by (rule untouchedD[OF untouched_require run])
  show ?thesis
  proof (cases q)
    case (Inl err)
    then show ?thesis using assms Inr run db refused by (auto simp: guarded_def andThen_def liftSum_def)
  next
    case q: (Inr u)
    have "authorised (w_db w) s permission"
      unfolding authorised_def using Inr Access_require_Inr run q by blast
    then show ?thesis using assms Inr run db q served[of t w1] by (auto simp: guarded_def andThen_def liftSum_def)
  qed
qed

lemma guarded_refuses:
  assumes "\<not> authorised (w_db w) s permission"
  shows "\<exists>err w'. discard (guarded env s permission operation) w = (Inl err, w') \<and> w_db w' = w_db w"
proof -
  obtain r w' where run: "guarded env s permission operation w = (r, w')" by fastforce
  then show ?thesis
    by (cases rule: guarded_cases) (use assms run in \<open>auto simp: discard_def andThen_def\<close>)
qed

lemmas access_defs =
  Access_UpdateCurrentTenant_def Access_ListMemberships_def Access_UpdateMembership_def Access_ListRoles_def
  Access_CreateRole_def Access_UpdateRole_def Access_DeleteRole_def Access_ListInvitations_def
  Access_RevokeInvitation_def

lemma unauthorised_refused:
  assumes "\<not> authorised (w_db w) s (neededPermission call)"
  shows "\<exists>err w'. serveAccess env p s call w = (Inl err, w') \<and> w_db w' = w_db w"
  using assms by (cases call) (simp_all add: access_defs guarded_refuses)

text \<open>C23: Nothing in the tenant control plane works without the permission: unless the session names an active tenant in which
  its user has an active membership whose role grants the permission that the call needs - looked up in the database at the time of
  the call, not in the session - every call is refused with an error and leaves the database as it is.\<close>

theorem access_needs_permission:
  assumes "\<not> authorised (w_db w) s (neededPermission call)"
  shows "\<exists>err w'. serveAccess env p s call w = (Inl err, w') \<and> w_db w' = w_db w"
  by (rule unauthorised_refused[OF assms])

theorem access_needs_permission_witness:
  "\<exists>err w'. serveAccess serviceEnv samplePorts personSession (CallDeleteRole idRoleUuid 1) serviceWorld = (Inl err, w')
     \<and> w_db w' = w_db serviceWorld"
proof (rule access_needs_permission)
  have "\<not> holdsPermission (w_db serviceWorld) uid tid PermissionRoleManage" for uid tid
    by (simp add: holdsPermission_def roleGrants_def serviceWorld_def sampleWorld_def)
  then show "\<not> authorised (w_db serviceWorld) personSession (neededPermission (CallDeleteRole idRoleUuid 1))"
    by (simp add: authorised_def)
qed

subsection \<open>Confinement to the session's tenant\<close>

lemma guarded_steps:
  assumes "keysDistinct (w_db w)" and "sessionTenant s = Inr t"
    and "keeps outCtx (outTx env (Tenant (tenantID t))) (operation t)"
    and "discard (guarded env s permission operation) w = (r, w')"
  shows "steps env (Tenant (tenantID t)) (w_db w) (w_db w')"
proof -
  obtain q where run: "guarded env s permission operation w = (q, w')"
    using assms(4) by (auto simp: discard_def andThen_def ret_def split: prod.splits sum.splits)
  then show ?thesis
  proof (cases rule: guarded_cases)
    case refused
    then show ?thesis by simp
  next
    case (served t' w1)
    have "outCtx w1" using assms(1) served(3) by (simp add: outCtx_def)
    moreover have "t' = t" using served(1) assms(2) by simp
    ultimately have "outTx env (Tenant (tenantID t)) w1 w'" using keepsD[OF assms(3)] served(4) by blast
    then show ?thesis using served(3) by (simp add: outTx_def)
  qed
qed

lemma untouched_outTx: "keeps (\<lambda>_. True) untouched m \<Longrightarrow> keeps outCtx (outTx env s) m"
  by (auto simp: keeps_def untouched_def outTx_def)

lemma reads_keysetQuery: "keeps (\<lambda>_. True) reads (keysetQuery env dir key n after rows)"
  by (rule keepsI) (auto simp: keysetQuery_def statement_def reads_def split: option.splits sum.splits)

lemma untouched_listings [untouched_rules]:
  "keeps (\<lambda>_. True) untouched (ListRoles env p tid rf)"
  "keeps (\<lambda>_. True) untouched (ListMemberships env p tid mf)"
  "keeps (\<lambda>_. True) untouched (ListTenantInvitations env p tid vf)"
  unfolding ListRoles_def ListMemberships_def ListTenantInvitations_def listInvitationsTx_def Let_def
  by (intro untouched_rules reads_keysetQuery)+

lemma access_operation_steps:
  "tid = roleTenantID role \<Longrightarrow> keeps outCtx (outTx env (Tenant tid)) (CreateRole env role actor)"
  "tid = roleTenantID role \<Longrightarrow> keeps outCtx (outTx env (Tenant tid)) (UpdateRole env role actor)"
  "tid = tenantID ten \<Longrightarrow> keeps outCtx (outTx env (Tenant tid)) (UpdateTenant env ten actor)"
  "tid = tenantID (membershipTenant m) \<Longrightarrow> keeps outCtx (outTx env (Tenant tid)) (UpdateMembership env m actor)"
  by (simp_all add: CreateRole_steps UpdateRole_steps UpdateTenant_steps UpdateMembership_steps)

lemmas access_reads = untouched_listings[THEN untouched_outTx] untouched_reading(6)[THEN untouched_outTx]

lemma serveAccess_steps:
  assumes "keysDistinct (w_db w)" and "sessionTenant s = Inr t" and "serveAccess env p s call w = (r, w')"
  shows "steps env (Tenant (tenantID t)) (w_db w) (w_db w')"
  using assms(3)
  by (cases call, simp_all only: serveAccess.simps access_defs)
    (erule guarded_steps[OF assms(1,2), rotated];
      intro keeps_rules access_operation_steps DeleteRole_steps RevokeTenantInvitation_steps access_reads; simp)+

lemma untouched_discard: "keeps (\<lambda>_. True) untouched m \<Longrightarrow> keeps (\<lambda>_. True) untouched (discard m)"
  unfolding discard_def by (intro untouched_rules)

lemma untouched_guarded:
  "(\<And>t. keeps (\<lambda>_. True) untouched (operation t)) \<Longrightarrow> keeps (\<lambda>_. True) untouched (guarded env s permission operation)"
  unfolding guarded_def by (intro untouched_rules)

lemma onlyReads_untouched: "onlyReads call \<Longrightarrow> keeps (\<lambda>_. True) untouched (serveAccess env p s call)"
  by (cases call) (auto simp: access_defs intro!: untouched_discard untouched_guarded untouched.andThen untouched.liftSum
    untouched_listings)

text \<open>C24: The tenant control plane is confined to the session's tenant: whatever the call and its arguments - also identifiers of
  another tenant's roles, memberships or invitations - everything the database holds for any other tenant stays exactly as it
  was, and the calls that list only read.\<close>

theorem access_confined_to_tenant:
  assumes "wellFormed (w_db w)" and "\<forall>t. activeTenant s = Some t \<longrightarrow> tenantID t \<noteq> other"
  shows "tenantView other (w_db (snd (serveAccess env p s call w))) = tenantView other (w_db w)
    \<and> (onlyReads call \<longrightarrow> w_db (snd (serveAccess env p s call w)) = w_db w)"
proof
  show "tenantView other (w_db (snd (serveAccess env p s call w))) = tenantView other (w_db w)"
  proof (cases "sessionTenant s")
    case (Inl err)
    then have "\<not> authorised (w_db w) s (neededPermission call)" by (simp add: authorised_def)
    from unauthorised_refused[OF this, of env p] have "w_db (snd (serveAccess env p s call w)) = w_db w" by auto
    then show ?thesis by simp
  next
    case (Inr t)
    have "keysDistinct (w_db w)" using assms(1) by (simp add: wellFormed_def)
    then have "steps env (Tenant (tenantID t)) (w_db w) (w_db (snd (serveAccess env p s call w)))"
      using serveAccess_steps[OF _ Inr] by (metis prod.collapse)
    moreover have "activeTenant s = Some t" using Inr by (auto simp: sessionTenant_def split: option.splits if_splits)
    ultimately show ?thesis using tenantView_steps assms by metis
  qed
  show "onlyReads call \<longrightarrow> w_db (snd (serveAccess env p s call w)) = w_db w"
    using untouchedD[OF onlyReads_untouched] by (metis prod.collapse)
qed

theorem access_confined_to_tenant_witness:
  "wellFormed (w_db serviceWorld)
   \<and> tenantView idOtherTenant (w_db (snd (serveAccess serviceEnv samplePorts personSession (CallRevokeInvitation idInvitation) serviceWorld)))
     = tenantView idOtherTenant (w_db serviceWorld)"
proof -
  have wf: "wellFormed (w_db serviceWorld)"
    using sample_services(4) by (auto simp: wellFormed_def permissionsOwned_def serviceWorld_def sampleWorld_def sampleDb_def)
  have "idTenant \<noteq> idOtherTenant" by code_simp
  then have "\<forall>t. activeTenant personSession = Some t \<longrightarrow> tenantID t \<noteq> idOtherTenant"
    by (simp add: personSession_def sampleTenant_def)
  from access_confined_to_tenant[OF wf this] wf show ?thesis by blast
qed

subsection \<open>Accountability\<close>

text \<open>The audit log only grows.\<close>

definition auditGrown :: "world \<Rightarrow> world \<Rightarrow> bool" where
  "auditGrown w w' \<longleftrightarrow> (\<exists>news. audit_events (w_db w') = audit_events (w_db w) @ news)"

interpretation auditGrown: world_relation "\<lambda>_. True" auditGrown
  by unfold_locales (auto simp: auditGrown_def)

definition otherTable :: "'r table \<Rightarrow> bool" where
  "otherTable tbl \<longleftrightarrow>
     (\<forall>rs d. audit_events (putRows tbl rs d) = audit_events d \<and> audit_events (cascade tbl rs d) = audit_events d)"

lemma otherTables:
  "otherTable tenantsTable" "otherTable usersTable" "otherTable rolesTable" "otherTable rolePermissionsTable"
  "otherTable membershipsTable" "otherTable invitationsTable" "otherTable outboxTable"
  by (simp_all add: otherTable_def table_defs)

lemma grown_statements:
  assumes "otherTable tbl"
  shows "keeps (\<lambda>_. True) auditGrown (insertInto env tbl mk)"
    and "keeps (\<lambda>_. True) auditGrown (updateTable env tbl P f)"
    and "keeps (\<lambda>_. True) auditGrown (updateReturning env tbl P f)"
    and "keeps (\<lambda>_. True) auditGrown (deleteFrom env tbl Q)"
proof -
  have grown: "auditGrown w w'" if "audit_events (w_db w') = audit_events (w_db w)" for w w'
    using that by (simp add: auditGrown_def)
  have same: "audit_events (putRows tbl rs d) = audit_events d" "audit_events (cascade tbl rs d) = audit_events d" for rs d
    using assms by (simp_all add: otherTable_def)
  show "keeps (\<lambda>_. True) auditGrown (insertInto env tbl mk)"
    by (rule keepsI, rule grown) (auto simp: insertInto_def statement_def Let_def same split: option.splits sum.splits if_splits)
  show update: "keeps (\<lambda>_. True) auditGrown (updateTable env tbl P f)"
    by (rule keepsI, rule grown) (auto simp: updateTable_def statement_def Let_def same split: option.splits sum.splits if_splits)
  show "keeps (\<lambda>_. True) auditGrown (updateReturning env tbl P f)"
    unfolding updateReturning_def
    by (intro auditGrown.andThen update) (auto intro: auditGrown.control split: list.split)
  show "keeps (\<lambda>_. True) auditGrown (deleteFrom env tbl Q)"
    by (rule keepsI, rule grown) (auto simp: deleteFrom_def statement_def Let_def same split: option.splits sum.splits if_splits)
qed

lemma grown_insertRolePermissions:
  "keeps (\<lambda>_. True) auditGrown (insertRolePermissionsLoop env tid rid seen ps)"
  by (induction ps arbitrary: seen)
    (auto intro!: auditGrown.control grown_statements otherTables keeps_if)

text \<open>A successful run adds an audit event of the actor at the end of the log.\<close>

definition recordsActor :: "string \<Rightarrow> (world, go_error, 'a) eff \<Rightarrow> bool" where
  "recordsActor uid m \<longleftrightarrow>
     (\<forall>w x w'. m w = (Inr x, w') \<longrightarrow>
        (\<exists>news e. audit_events (w_db w') = audit_events (w_db w) @ news @ [e] \<and> a_actor e = Some uid))"

lemma records_insertAuditEvent:
  "actorID event = Some uid \<Longrightarrow> recordsActor uid (insertAuditEvent env event)"
  unfolding recordsActor_def by (auto dest!: insertAuditEvent_Inr)

lemma records_fail: "recordsActor uid (fail err)"
  by (simp add: recordsActor_def run_simps)

lemma records_andThen:
  assumes "keeps (\<lambda>_. True) auditGrown m" and "\<And>x. recordsActor uid (f x)"
  shows "recordsActor uid (andThen m f)"
  unfolding recordsActor_def
proof (intro allI impI)
  fix w x w'
  assume "andThen m f w = (Inr x, w')"
  then obtain y w1 where m: "m w = (Inr y, w1)" and f: "f y w1 = (Inr x, w')" by (auto simp: run_simps)
  have "auditGrown w w1" using keepsD[OF assms(1) _ m] by simp
  then obtain olds where "audit_events (w_db w1) = audit_events (w_db w) @ olds" by (auto simp: auditGrown_def)
  moreover obtain news e where "audit_events (w_db w') = audit_events (w_db w1) @ news @ [e]" "a_actor e = Some uid"
    using assms(2) f by (force simp: recordsActor_def)
  ultimately show "\<exists>news e. audit_events (w_db w') = audit_events (w_db w) @ news @ [e] \<and> a_actor e = Some uid"
    by (intro exI[of _ "olds @ news"] exI[of _ e]) simp
qed

lemma records_andThen_ret: "recordsActor uid m \<Longrightarrow> recordsActor uid (andThen m (\<lambda>x. ret (g x)))"
  unfolding recordsActor_def by (auto simp: run_simps)

lemma records_if: "recordsActor uid m \<Longrightarrow> recordsActor uid n \<Longrightarrow> recordsActor uid (if b then m else n)"
  by simp

lemma records_case_prod: "(\<And>a b. recordsActor uid (f a b)) \<Longrightarrow> recordsActor uid (case x of (a, b) \<Rightarrow> f a b)"
  by (cases x) simp

lemma records_case_sum:
  "(\<And>a. recordsActor uid (f a)) \<Longrightarrow> (\<And>b. recordsActor uid (g b)) \<Longrightarrow> recordsActor uid (case x of Inl a \<Rightarrow> f a | Inr b \<Rightarrow> g b)"
  by (cases x) simp_all

lemma records_WithTenantTx: "recordsActor uid m \<Longrightarrow> recordsActor uid (WithTenantTx env t m)"
  unfolding recordsActor_def by (auto elim!: tenantRead simp: enteredTx_def) metis

lemma records_discard: "recordsActor uid m \<Longrightarrow> recordsActor uid (discard m)"
  by (auto simp: discard_def intro: records_andThen_ret)

lemmas records_control =
  records_WithTenantTx records_case_prod records_case_sum records_if records_fail records_andThen_ret
  records_insertAuditEvent auditEvent_simps records_andThen

lemmas grown_rules =
  auditGrown.control grown_statements otherTables grown_insertRolePermissions keeps_if keeps_let keeps_case_prod

lemma records_store:
  "recordsActor uid (UpdateTenant env ten uid)" "recordsActor uid (UpdateMembership env m uid)"
  "recordsActor uid (CreateRole env role uid)" "recordsActor uid (UpdateRole env role uid)"
  "recordsActor uid (DeleteRole env tid rid revision uid)" "recordsActor uid (RevokeTenantInvitation env tid i uid)"
  unfolding UpdateTenant_def updateTenantTx_def UpdateMembership_def updateMembershipTx_def CreateRole_def createRoleTx_def
    UpdateRole_def updateRoleTx_def DeleteRole_def deleteRoleTx_def RevokeTenantInvitation_def revokeInvitationTx_def
    insertRole_def insertRolePermissions_def findRoleTx_def lockMembershipTenant_def lockMembership_def
    membershipRoleKind_def protectFinalAdministrator_def persistMembershipUpdate_def invalidateUserSession_def Let_def
  by (intro records_control grown_rules)+

lemma untouched_grown: "keeps (\<lambda>_. True) untouched m \<Longrightarrow> keeps (\<lambda>_. True) auditGrown m"
  by (auto simp: keeps_def untouched_def auditGrown_def)

lemma records_guarded: "(\<And>t. recordsActor uid (operation t)) \<Longrightarrow> recordsActor uid (guarded env s permission operation)"
  unfolding guarded_def by (intro records_andThen auditGrown.liftSum untouched_require[THEN untouched_grown])

lemma changes_recorded:
  "\<not> onlyReads call \<Longrightarrow> recordsActor (userID (sessionUser s)) (serveAccess env p s call)"
  by (cases call, simp_all only: serveAccess.simps access_defs onlyReads.simps not_True_eq_False simp_thms)
    (intro records_discard records_guarded records_case_sum records_if records_fail records_store records_andThen
      untouched_reading(6)[THEN untouched_grown])+

text \<open>C40: Every change that the tenant control plane makes is on record: when a call that changes something succeeds, the audit log
  has grown, and its last event names the user of the session as the actor; nothing that was recorded before is gone.\<close>

theorem access_changes_recorded:
  assumes "\<not> onlyReads call" and "serveAccess env p s call w = (Inr u, w')"
  shows "\<exists>news e. audit_events (w_db w') = audit_events (w_db w) @ news @ [e] \<and> a_actor e = Some (userID (sessionUser s))"
  using changes_recorded[OF assms(1)] assms(2) by (auto simp: recordsActor_def)

definition managedWorld :: world where
  "managedWorld = serviceWorld\<lparr>w_db := (w_db serviceWorld)
     \<lparr>role_permissions := [\<lparr>p_tenant = idTenant, p_role = idRoleUuid, p_permission = PermissionTenantManage\<rparr>]\<rparr>\<rparr>"

lemma sample_tenant_update:
  "succeeded (serveAccess serviceEnv samplePorts personSession (CallUpdateTenant ''New name'' 1) managedWorld)"
  by code_simp

theorem access_changes_recorded_witness:
  "\<exists>w' news e. serveAccess serviceEnv samplePorts personSession (CallUpdateTenant ''New name'' 1) managedWorld = (Inr (), w')
     \<and> audit_events (w_db w') = audit_events (w_db managedWorld) @ news @ [e] \<and> a_actor e = Some idPerson"
proof -
  obtain w' where run: "serveAccess serviceEnv samplePorts personSession (CallUpdateTenant ''New name'' 1) managedWorld = (Inr (), w')"
    using sample_tenant_update by (auto elim: succeededE)
  from access_changes_recorded[OF _ this] have "\<exists>news e. audit_events (w_db w') = audit_events (w_db managedWorld) @ news @ [e]
      \<and> a_actor e = Some (userID (sessionUser personSession))" by simp
  then show ?thesis using run by (simp add: personSession_def)
qed

end
