(* ===== verification/LocalizationProperties.thy ===== *)
theory LocalizationProperties imports ProductCatalog AccessProperties begin

text \<open>
  What localization guarantees: the two implementations of merging agree, a bundle is complete, and an error always
  has a message.
\<close>

subsection \<open>Merging\<close>

lemma indexByKey_Some:
  assumes "distinct (map translationKey ts)"
  shows "indexByKey ts k = Some i \<longleftrightarrow> i < length ts \<and> translationKey (ts ! i) = k"
proof -
  have d: "distinct (map fst (rev (zip (map translationKey ts) [0..<length ts])))"
    using assms by (simp add: rev_map[symmetric])
  show ?thesis unfolding indexByKey_def
    unfolding map_of_eq_Some_iff[OF d] set_rev in_set_zip by (auto intro: exI[of _ i])
qed

lemma indexByKey_None:
  "distinct (map translationKey ts) \<Longrightarrow> indexByKey ts k = None \<longleftrightarrow> k \<notin> translationKey ` set ts"
proof -
  assume d: "distinct (map translationKey ts)"
  show ?thesis
  proof (cases "indexByKey ts k")
    case None
    then have "\<forall>i < length ts. translationKey (ts ! i) \<noteq> k" using indexByKey_Some[OF d, of k] by auto
    then show ?thesis using None by (auto simp: in_set_conv_nth)
  next
    case (Some i)
    then show ?thesis using indexByKey_Some[OF d, of k i] by auto
  qed
qed

lemma putByKey_absent: "translationKey t \<notin> translationKey ` set ts \<Longrightarrow> putByKey ts t = ts @ [t]"
  by (induction ts) auto

lemma putByKey_at:
  "i < length ts \<Longrightarrow> translationKey (ts ! i) = translationKey t \<Longrightarrow> distinct (map translationKey ts) \<Longrightarrow> putByKey ts t = ts[i := t]"
proof (induction ts arbitrary: i)
  case (Cons x ts)
  then show ?case by (cases i) (auto simp: image_iff, (metis nth_mem)+)
qed simp

lemma mergeLoop_cong: "(\<And>k. f k = g k) \<Longrightarrow> mergeLoop ts f r = mergeLoop ts g r"
  by presburger

lemma mergeLoop_putByKey:
  "distinct (map translationKey r) \<Longrightarrow> mergeLoop ts (indexByKey r) r = foldl putByKey r ts"
proof (induction ts arbitrary: r)
  case (Cons t ts)
  have next_distinct: "distinct (map translationKey (putByKey r t))" using Cons.prems by (rule putByKey_distinct)
  show ?case
  proof (cases "indexByKey r (translationKey t)")
    case None
    then have absent: "translationKey t \<notin> translationKey ` set r" using indexByKey_None[OF Cons.prems] by simp
    have "indexByKey (r @ [t]) k = ((indexByKey r)(translationKey t \<mapsto> length r)) k" for k
      using absent by (simp add: indexByKey_def)
    then have "mergeLoop (t # ts) (indexByKey r) r = mergeLoop ts (indexByKey (r @ [t])) (r @ [t])"
      using None by (simp cong: mergeLoop_cong)
    then show ?thesis using Cons.IH[OF next_distinct] putByKey_absent[OF absent] by simp
  next
    case (Some i)
    then have i: "i < length r" "translationKey (r ! i) = translationKey t" using indexByKey_Some[OF Cons.prems] by auto
    have "map translationKey (r[i := t]) = map translationKey r"
      using i by (simp add: map_update list_update_same_conv)
    then have "indexByKey (r[i := t]) = indexByKey r" by (simp add: indexByKey_def)
    then show ?thesis using Some Cons.IH[OF next_distinct] putByKey_at[OF i Cons.prems] by simp
  qed
qed simp

lemma mergeByKey_append: "distinct (map translationKey ts) \<Longrightarrow> mergeByKey (ts @ us) = foldl putByKey ts us"
proof -
  assume "distinct (map translationKey ts)"
  then have "mergeByKey ts = ts"
  proof (induction ts rule: rev_induct)
    case (snoc t ts)
    then show ?case by (simp add: mergeByKey_snoc putByKey_absent)
  qed (simp add: mergeByKey_def)
  then show ?thesis by (simp add: mergeByKey_def)
qed

text \<open>The two implementations of merging translations agree: the merge of package \<^verbatim>\<open>clinks\<close>, which replaces entries of a slice in place
  by an index of their keys, yields the same list as putting the translations one after the other into a map by key, which is
  what the product catalog does; so each key occurs once, and the later translation wins.\<close>

theorem merges_agree:
  assumes "distinct (map translationKey fallback)"
  shows "mergeTranslations fallback stored = mergeByKey (fallback @ stored)
    \<and> distinct (map translationKey (mergeTranslations fallback stored))
    \<and> (\<forall>t. t \<in> set (mergeTranslations fallback stored) \<longleftrightarrow> lastOfKey (fallback @ stored) t)
    \<and> sortedTranslations (mergeTranslations fallback stored) = mergeOverrides fallback stored"
proof -
  have "mergeTranslations fallback stored = mergeByKey (fallback @ stored)"
    using mergeLoop_putByKey[OF assms] mergeByKey_append[OF assms] by (simp add: mergeTranslations_def)
  then show ?thesis using mergeByKey_distinct set_mergeByKey by (simp add: mergeOverrides_def)
qed

theorem merges_agree_witness:
  "mergeTranslations [catalogEntry ''de-CH'' ''a'' ''x'', catalogEntry ''de-CH'' ''b'' ''y''] [catalogEntry ''fr'' ''a'' ''z'']
   = mergeByKey ([catalogEntry ''de-CH'' ''a'' ''x'', catalogEntry ''de-CH'' ''b'' ''y''] @ [catalogEntry ''fr'' ''a'' ''z''])"
  by (rule conjunct1[OF merges_agree]) (simp add: catalogEntry_def)

subsection \<open>Stored translations\<close>

definition storedFor :: "env \<Rightarrow> string \<Rightarrow> application_scope \<Rightarrow> db \<Rightarrow> translation list" where
  "storedFor env loc scope d =
     orderBy (\<lambda>a b. bytesLess (translationKey a) (translationKey b))
       (mergeByKey (map scanTranslation (orderBy (byKeyThenScope env ScopeShared)
         (filter (\<lambda>t. translationLocale t = loc \<and> (translationScope t = scope \<or> translationScope t = ScopeShared))
            (overrides d)))))"

lemma overridesVisible [simp]: "visibleRows overridesTable w = overrides (w_db w)"
  by (simp add: visibleRows_def table_defs)

lemma untouched_StoredTranslations [untouched_rules]:
  "keeps (\<lambda>_. True) untouched (StoredTranslations env loc scope)"
  unfolding StoredTranslations_def by (intro untouched_rules)

lemma StoredTranslations_Inr:
  assumes "StoredTranslations env loc scope w = (Inr ts, w')"
  shows "ts = storedFor env loc scope (w_db w)"
proof -
  obtain vals w1 where run: "withSystemTx env (mapError (Wrapped ''list translation overrides'')
      (query env (\<lambda>w. map scanTranslation (orderBy (byKeyThenScope env ScopeShared)
        (filter (\<lambda>t. translationLocale t = loc \<and> (translationScope t = scope \<or> translationScope t = ScopeShared))
          (visibleRows overridesTable w)))))) w = (Inr vals, w1)"
    and ts: "ts = orderBy (\<lambda>a b. bytesLess (translationKey a) (translationKey b)) (mergeByKey vals)"
    using assms by (auto simp: StoredTranslations_def run_simps)
  from run show ?thesis
    by (rule systemRead) (auto simp: run_simps ts storedFor_def enteredTx_def)
qed

lemma quiet_StoredTranslations:
  assumes "quiet env"
  shows "\<exists>w'. StoredTranslations env loc scope w = (Inr (storedFor env loc scope (w_db w)), w') \<and> w_db w' = w_db w"
proof -
  let ?q = "mapError (Wrapped ''list translation overrides'')
      (query env (\<lambda>w. map scanTranslation (orderBy (byKeyThenScope env ScopeShared)
        (filter (\<lambda>t. translationLocale t = loc \<and> (translationScope t = scope \<or> translationScope t = ScopeShared))
          (visibleRows overridesTable w)))))"
  have "\<exists>vals w'. withSystemTx env ?q w = (Inr vals, w')"
  proof (rule quiet_systemTx[OF assms, of w ?q])
    fix w1
    assume run: "\<And>x w2. ?q w1 = (Inr x, w2) \<Longrightarrow> \<exists>w'. withSystemTx env ?q w = (Inr x, w') \<and> w_db w' = w_db w2"
    have "?q w1 = (Inr (map scanTranslation (orderBy (byKeyThenScope env ScopeShared)
        (filter (\<lambda>t. translationLocale t = loc \<and> (translationScope t = scope \<or> translationScope t = ScopeShared))
          (overrides (w_db w1))))), (tick w1)\<lparr>w_db := w_db w1\<rparr>)"
      using assms by (simp add: mapError_def query_def statement_def)
    from run[OF this] show ?thesis by blast
  qed
  then obtain ts w' where "StoredTranslations env loc scope w = (Inr ts, w')"
    by (auto simp: StoredTranslations_def mapError_def andThen_def ret_def)
  then show ?thesis using StoredTranslations_Inr untouchedD[OF untouched_StoredTranslations] by blast
qed

lemma in_storedFor:
  "t \<in> set (storedFor env loc scope d) \<Longrightarrow>
     \<exists>o' \<in> set (overrides d). t = scanTranslation o' \<and> translationLocale o' = loc"
proof -
  assume "t \<in> set (storedFor env loc scope d)"
  then have "t \<in> set (map scanTranslation (orderBy (byKeyThenScope env ScopeShared)
      (filter (\<lambda>t. translationLocale t = loc \<and> (translationScope t = scope \<or> translationScope t = ScopeShared)) (overrides d))))"
    unfolding storedFor_def set_orderBy set_mergeByKey lastOfKey_def by (metis in_set_conv_decomp)
  then show ?thesis by auto
qed

subsection \<open>Messages\<close>

lemma untouched_Message [untouched_rules]: "keeps (\<lambda>_. True) untouched (Catalog_Message env loc key)"
  unfolding Catalog_Message_def by (intro untouched_rules)

lemma untouched_resolve [untouched_rules]: "keeps (\<lambda>_. True) untouched (resolveMessage env loc key)"
  unfolding resolveMessage_def by (intro untouched_rules)

lemma productMessageLoop_value:
  "productMessageLoop ts loc scope key shared = Some m \<Longrightarrow>
     (\<exists>t \<in> set ts. translationLocale t = loc \<and> translationKey t = key \<and> translationValue t = m) \<or> (m = shared \<and> m \<noteq> [])"
  by (induction ts arbitrary: shared) (auto split: if_splits)

lemma product_entries:
  "list_all (\<lambda>t. translationValue t \<noteq> [] \<and> (translationLocale t = ''de-CH'' \<or> translationLocale t = ''en-US''))
     productTranslationEntries"
  by code_simp

lemma productMessage_value:
  assumes "productMessage loc scope key = Some m"
  shows "m \<noteq> [] \<and> (loc = ''de-CH'' \<or> loc = ''en-US'')"
  using productMessageLoop_value[OF assms[unfolded productMessage_def]] product_entries
  by (auto simp: list_all_iff)

lemma Catalog_Message_Inr:
  assumes "Catalog_Message env loc key w = (Inr m, w')"
  shows "(\<exists>t \<in> set (overrides (w_db w)). translationLocale t = loc \<and> translationKey t = key \<and> translationValue t = m)
     \<or> productMessage loc ScopeShared key = Some m"
proof -
  obtain ts w1 where stored: "StoredTranslations env loc ScopeShared w = (Inr ts, w1)"
    and m: "(case translationMessage ts key of Some m \<Rightarrow> ret m
       | None \<Rightarrow> (case productMessage loc ScopeShared key of Some m \<Rightarrow> ret m | None \<Rightarrow> fail translationNotFound)) w1 = (Inr m, w')"
    using assms by (auto simp: Catalog_Message_def run_simps)
  show ?thesis
  proof (cases "translationMessage ts key")
    case None
    then show ?thesis using m by (auto simp: run_simps split: option.splits)
  next
    case (Some m')
    then obtain t where t: "t \<in> set ts" "translationKey t = key" "translationValue t = m'"
      by (auto simp: translationMessage_def dest!: find_Some_member)
    then obtain o' where "o' \<in> set (overrides (w_db w))" "t = scanTranslation o'" "translationLocale o' = loc"
      using in_storedFor StoredTranslations_Inr[OF stored] by blast
    then show ?thesis using t Some m by (auto simp: run_simps scanTranslation_def)
  qed
qed

lemma quiet_Catalog_Message:
  assumes "quiet env" and "\<forall>t \<in> set (overrides (w_db w)). translationKey t \<noteq> key"
  shows "\<exists>w'. w_db w' = w_db w \<and> Catalog_Message env loc key w
     = ((case productMessage loc ScopeShared key of Some m \<Rightarrow> Inr m | None \<Rightarrow> Inl translationNotFound), w')"
proof -
  obtain w' where stored: "StoredTranslations env loc ScopeShared w = (Inr (storedFor env loc ScopeShared (w_db w)), w')"
    and db: "w_db w' = w_db w" using quiet_StoredTranslations[OF assms(1)] by blast
  have "\<forall>t \<in> set (storedFor env loc ScopeShared (w_db w)). translationKey t \<noteq> key"
    using in_storedFor assms(2) by (fastforce simp: scanTranslation_def)
  then have "translationMessage (storedFor env loc ScopeShared (w_db w)) key = None"
    by (simp add: translationMessage_def find_None_iff)
  then show ?thesis using stored db
    by (auto simp: Catalog_Message_def mapError_def andThen_def ret_def fail_def split: option.split)
qed

text \<open>C32: An error always gets a message: whatever the locale and whatever fails in the database, the translator returns a text for every
  error and changes nothing, and the text is not empty unless an administrator has stored an empty override.\<close>

theorem every_error_gets_a_message:
  shows "\<exists>m w'. Translator_ErrorMessage env loc (Some err) w = (Inr m, w') \<and> w_db w' = w_db w
    \<and> (m \<noteq> [] \<or> (\<exists>t \<in> set (overrides (w_db w)). translationKey t = errorKey err \<and> translationValue t = []))"
proof -
  obtain r w1 where run: "resolveMessage env loc (errorKey err) w = (r, w1)" by fastforce
  have db: "w_db w1 = w_db w" by (rule untouchedD[OF untouched_resolve run])
  show ?thesis
  proof (cases r)
    case (Inl e)
    then show ?thesis using run db
      by (simp add: Translator_ErrorMessage_def attempt_def andThen_def ret_def Let_def internalErrorMessageKey_def)
  next
    case (Inr m)
    have known: "m \<noteq> [] \<or> (\<exists>t \<in> set (overrides (w_db v)). translationKey t = errorKey err \<and> translationValue t = [])"
      if "Catalog_Message env l (errorKey err) v = (Inr m, v')" for l v v'
      using Catalog_Message_Inr[OF that] productMessage_value by blast
    have "m \<noteq> [] \<or> (\<exists>t \<in> set (overrides (w_db w)). translationKey t = errorKey err \<and> translationValue t = [])"
    proof -
      obtain q w2 where first: "Catalog_Message env loc (errorKey err) w = (q, w2)" by fastforce
      have "w_db w2 = w_db w" by (rule untouchedD[OF untouched_Message first])
      then show ?thesis using run Inr first known
        by (cases q) (fastforce simp: resolveMessage_def attempt_def andThen_def ret_def fail_def mapError_Inr split: if_splits)+
    qed
    then show ?thesis using run db Inr
      by (simp add: Translator_ErrorMessage_def attempt_def andThen_def ret_def)
  qed
qed

definition publicErrorKinds :: "error_kind list" where
  "publicErrorKinds =
     [ErrorInvalidCredentials, ErrorUnauthorized, ErrorValidation, ErrorEmailTaken, ErrorTenantNotFound,
      ErrorMembershipNotFound, ErrorRoleNotFound, ErrorUserNotFound, ErrorConflict, ErrorInvitationInvalid,
      ErrorInvitationExpired, ErrorInvitationUsed, ErrorInviteEmailMismatch, ErrorRateLimited, ErrorInternal]"

theorem every_error_gets_a_message_witness:
  "\<exists>m w'. Translator_ErrorMessage serviceEnv ''en-US'' (Some NoRows) serviceWorld = (Inr m, w') \<and> m \<noteq> []"
proof -
  have "overrides (w_db serviceWorld) = []" by (simp add: serviceWorld_def sampleWorld_def sampleDb_def)
  then show ?thesis using every_error_gets_a_message[of serviceEnv "''en-US''" NoRows serviceWorld] by auto
qed

lemma productMessageLoop_shared:
  "t \<in> set ts \<Longrightarrow> translationLocale t = loc \<Longrightarrow> translationKey t = key \<Longrightarrow> \<forall>t \<in> set ts. translationScope t = ScopeShared \<Longrightarrow>
     productMessageLoop ts loc ScopeShared key shared \<noteq> None"
  by (induction ts arbitrary: shared) auto

lemma product_entry_shared: "\<forall>t \<in> set productTranslationEntries. translationScope t = ScopeShared"
  unfolding productTranslationEntries_def set_concat set_map by (auto simp: catalogEntry_def)

lemma productMessage_catalog:
  assumes "(key, german, english) \<in> set catalogErrors"
  shows "productMessage ''de-CH'' ScopeShared key \<noteq> None \<and> productMessage ''en-US'' ScopeShared key \<noteq> None"
proof -
  have "catalogEntry ''de-CH'' key german \<in> set productTranslationEntries"
    "catalogEntry ''en-US'' key english \<in> set productTranslationEntries"
    unfolding productTranslationEntries_def set_concat set_map set_append using assms by (auto intro!: bexI[of _ "(key, german, english)"])
  then show ?thesis unfolding productMessage_def
    using productMessageLoop_shared[OF _ _ _ product_entry_shared] by (simp add: catalogEntry_def)
qed

lemma public_error_messages: "\<forall>k \<in> set publicErrorKinds. ''error.'' @ error_kind_string k \<in> set (map fst catalogErrors)"
  by (simp add: publicErrorKinds_def catalogErrors_def)

lemma product_error_messages:
  assumes "error_kind_valid k" and "k \<noteq> ErrorLeaseLost"
  shows "productMessage ''de-CH'' ScopeShared (''error.'' @ error_kind_string k) \<noteq> None
     \<and> productMessage ''en-US'' ScopeShared (''error.'' @ error_kind_string k) \<noteq> None"
proof -
  have "k \<in> set publicErrorKinds" using assms by (cases k) (simp_all add: publicErrorKinds_def)
  then obtain german english where "(''error.'' @ error_kind_string k, german, english) \<in> set catalogErrors"
    using public_error_messages by fastforce
  then show ?thesis by (rule productMessage_catalog)
qed

text \<open>C33: Error messages are localized: with no override of its text stored and nothing failing, every error of the domain but the
  worker's \<^verbatim>\<open>lease_lost\<close> is answered in English for \<^verbatim>\<open>en-US\<close>, and for every other locale - also one that the product does not
  know - with the German text of its own kind.\<close>

theorem error_messages_localized:
  assumes "quiet env" and "\<forall>t \<in> set (overrides (w_db w)). translationKey t \<noteq> errorKey err"
    and "asDomain err = Some k" and "error_kind_valid k" and "k \<noteq> ErrorLeaseLost"
  shows "\<exists>m w'. Translator_ErrorMessage env loc (Some err) w = (Inr m, w')
    \<and> productMessage (if loc = ''en-US'' then ''en-US'' else ''de-CH'') ScopeShared (''error.'' @ error_kind_string k) = Some m"
proof -
  have key: "errorKey err = ''error.'' @ error_kind_string k" using assms(3,4) by (simp add: errorKey_def)
  let ?key = "''error.'' @ error_kind_string k"
  obtain de en where texts: "productMessage ''de-CH'' ScopeShared ?key = Some de" "productMessage ''en-US'' ScopeShared ?key = Some en"
    using product_error_messages[OF assms(4,5)] by auto
  have catalog: "\<exists>v'. w_db v' = w_db v \<and> Catalog_Message env l ?key v
      = ((case productMessage l ScopeShared ?key of Some m \<Rightarrow> Inr m | None \<Rightarrow> Inl translationNotFound), v')"
    if "w_db v = w_db w" for l v
    using quiet_Catalog_Message[OF assms(1), of v ?key] assms(2) that key by simp
  have default: "Catalog_DefaultLocale = ''de-CH''" by (simp add: Catalog_DefaultLocale_def productDefaultLocale_def)
  have "\<exists>w'. resolveMessage env loc ?key w = (Inr (if loc = ''en-US'' then en else de), w')"
  proof (cases "loc = ''en-US'' \<or> loc = ''de-CH''")
    case True
    then show ?thesis using catalog[of w loc] texts
      by (auto simp: resolveMessage_def attempt_def andThen_def ret_def)
  next
    case False
    then have "productMessage loc ScopeShared ?key = None" using productMessage_value by (cases "productMessage loc ScopeShared ?key") auto
    then obtain w1 where "Catalog_Message env loc ?key w = (Inl translationNotFound, w1)" "w_db w1 = w_db w"
      using catalog[of w loc] by auto
    then show ?thesis using catalog[of w1 "''de-CH''"] texts False default
      by (auto simp: resolveMessage_def attempt_def andThen_def ret_def mapError_def)
  qed
  then show ?thesis using texts key
    by (auto simp: Translator_ErrorMessage_def attempt_def andThen_def ret_def)
qed

theorem error_messages_localized_witness:
  "\<exists>m w'. Translator_ErrorMessage serviceEnv ''fr-CH'' (Some (Wrapped ''x'' (newError ErrorConflict))) serviceWorld = (Inr m, w')
     \<and> productMessage ''de-CH'' ScopeShared ''error.conflict'' = Some m"
proof -
  have none: "\<forall>t \<in> set (overrides (w_db serviceWorld)). translationKey t \<noteq> errorKey (Wrapped ''x'' (newError ErrorConflict))"
    by (simp add: serviceWorld_def sampleWorld_def sampleDb_def)
  show ?thesis using error_messages_localized[OF sample_services(1) none, of ErrorConflict "''fr-CH''"] by simp
qed

subsection \<open>Bundles\<close>

lemma mergeByKey_keys: "translationKey ` set (mergeByKey ts) = translationKey ` set ts"
  by (induction ts rule: rev_induct) (simp_all add: mergeByKey_snoc putByKey_keys, simp add: mergeByKey_def)

lemma sortedTranslations_set [simp]: "set (sortedTranslations ts) = set ts"
  by (simp add: sortedTranslations_def)

lemma distinct_orderBy_map:
  "distinct (map translationKey ts) \<Longrightarrow> distinct (map translationKey (sortedTranslations ts))"
  by (simp add: distinct_map sortedTranslations_def)

lemma mergeOverrides_distinct: "distinct (map translationKey (mergeOverrides ts us))"
  unfolding mergeOverrides_def by (rule distinct_orderBy_map, rule mergeByKey_distinct)

lemma mergeOverrides_keys: "translationKey ` set (mergeOverrides ts us) = translationKey ` set ts \<union> translationKey ` set us"
  by (simp add: mergeOverrides_def mergeByKey_keys image_Un)

lemma lastOfKey_right:
  assumes "t \<in> set us" and "distinct (map translationKey us)"
  shows "lastOfKey (ts @ us) t"
proof -
  obtain before after where us: "us = before @ t # after" using assms(1) by (meson split_list)
  have "translationKey t \<notin> translationKey ` set after" using assms(2) by (simp add: us)
  then have "\<forall>y \<in> set after. translationKey y \<noteq> translationKey t" by (metis imageI)
  then show ?thesis unfolding lastOfKey_def us by (intro exI[of _ "ts @ before"] exI[of _ after]) simp
qed

lemma merged_wins:
  "t \<in> set us \<Longrightarrow> distinct (map translationKey us) \<Longrightarrow> t \<in> set (mergeOverrides ts us)"
  by (simp add: mergeOverrides_def set_mergeByKey lastOfKey_right)

lemma productTranslations_keys:
  assumes "t \<in> set productTranslationEntries" and "translationLocale t = loc"
  shows "translationKey t \<in> translationKey ` set (productTranslations loc scope)"
proof -
  let ?shared = "filter (\<lambda>t. translationLocale t = loc \<and> translationScope t = ScopeShared) productTranslationEntries"
  have "t \<in> set (?shared @ more)" for more
    using assms product_entry_shared unfolding set_append set_filter by blast
  then show ?thesis
    unfolding productTranslations_def Let_def sortedTranslations_set mergeByKey_keys by (rule imageI)
qed

lemma storedFor_distinct: "distinct (map translationKey (storedFor env loc scope d))"
  unfolding storedFor_def sortedTranslations_def[symmetric] by (rule distinct_orderBy_map, rule mergeByKey_distinct)

lemma quiet_Catalog_Translations:
  assumes "quiet env"
  shows "\<exists>w'. Catalog_Translations env loc scope w
     = (Inr (mergeOverrides (productTranslations loc scope) (storedFor env loc scope (w_db w))), w') \<and> w_db w' = w_db w"
  using quiet_StoredTranslations[OF assms, of loc scope w]
  by (auto simp: Catalog_Translations_def mapError_def andThen_def ret_def)

text \<open>C34: A translation bundle is complete: when nothing fails, the bundle for any locale and scope has a text for every key of the product's
  default language, each key once, and every translation stored for the locale and the scope is in it in place of the product's own.\<close>

theorem bundles_are_complete:
  assumes "quiet env" and "scope_isValid scope" and "locale_isValid (newLocale (unicode env) loc)"
  shows "\<exists>b w'. Translations_TranslationBundle env loc scope w = (Inr b, w') \<and> w_db w' = w_db w
    \<and> (\<forall>t \<in> set productTranslationEntries. translationLocale t = ''de-CH'' \<longrightarrow>
         translationKey t \<in> translationKey ` set (bundleTranslations b))
    \<and> distinct (map translationKey (bundleTranslations b))
    \<and> (\<forall>t \<in> set (storedFor env (newLocale (unicode env) loc) scope (w_db w)). t \<in> set (bundleTranslations b))"
proof -
  let ?l = "newLocale (unicode env) loc"
  let ?own = "mergeOverrides (productTranslations ?l scope) (storedFor env ?l scope (w_db w))"
  let ?base = "mergeOverrides (productTranslations ''de-CH'' scope) (storedFor env ''de-CH'' scope (w_db w))"
  have default: "Catalog_DefaultLocale = ''de-CH''" by (simp add: Catalog_DefaultLocale_def productDefaultLocale_def)
  obtain w1 where own: "Catalog_Translations env ?l scope w = (Inr ?own, w1)" "w_db w1 = w_db w"
    using quiet_Catalog_Translations[OF assms(1)] by blast
  obtain w2 where base: "Catalog_Translations env ''de-CH'' scope w1 = (Inr ?base, w2)" "w_db w2 = w_db w"
    using quiet_Catalog_Translations[OF assms(1), of "''de-CH''" scope w1] own(2) by auto
  have complete: "translationKey t \<in> translationKey ` set ?base"
    if "t \<in> set productTranslationEntries" "translationLocale t = ''de-CH''" for t
    using productTranslations_keys[OF that] by (simp add: mergeOverrides_keys)
  have stored: "t \<in> set ?own" if "t \<in> set (storedFor env ?l scope (w_db w))" for t
    by (rule merged_wins[OF that storedFor_distinct])
  consider (default) "?l = ''de-CH''" | (empty) "?l \<noteq> ''de-CH''" "?own = []" | (merged) "?l \<noteq> ''de-CH''" "?own \<noteq> []" by blast
  then show ?thesis
  proof cases
    case default
    then show ?thesis using assms own complete stored mergeOverrides_distinct \<open>Catalog_DefaultLocale = _\<close>
      by (auto simp: Translations_TranslationBundle_def Let_def andThen_def ret_def)
  next
    case empty
    then show ?thesis using assms own base complete stored mergeOverrides_distinct default
      by (auto simp: Translations_TranslationBundle_def Let_def andThen_def ret_def)
  next
    case merged
    have agree: "mergeTranslations ?base ?own = mergeByKey (?base @ ?own)"
      using mergeLoop_putByKey[OF mergeOverrides_distinct] mergeByKey_append[OF mergeOverrides_distinct]
      by (simp add: mergeTranslations_def)
    have run: "Translations_TranslationBundle env loc scope w
        = (Inr \<lparr>bundleLocale = ?l, bundleTranslations = mergeByKey (?base @ ?own)\<rparr>, w2)"
      using merged assms own base default agree
      by (simp add: Translations_TranslationBundle_def Let_def andThen_def ret_def)
    have "t \<in> set (mergeByKey (?base @ ?own))" if "t \<in> set (storedFor env ?l scope (w_db w))" for t
      using lastOfKey_right[OF stored[OF that] mergeOverrides_distinct] by (simp add: set_mergeByKey)
    moreover have "translationKey t \<in> translationKey ` set (mergeByKey (?base @ ?own))"
      if "t \<in> set productTranslationEntries" "translationLocale t = ''de-CH''" for t
      using complete[OF that] by (simp add: mergeByKey_keys image_Un)
    ultimately show ?thesis using run base(2) mergeByKey_distinct by auto
  qed
qed

lemma welcome_entry:
  "\<exists>t \<in> set productTranslationEntries. translationLocale t = ''de-CH'' \<and> translationKey t = ''ui.welcome''"
proof -
  have "\<exists>e \<in> set catalogUI3. fst e = ''ui.welcome''" unfolding catalogUI3_def by simp
  then obtain german english where e: "(''ui.welcome'', german, english) \<in> set catalogUI3"
    by (metis prod.exhaust_sel)
  have "catalogEntry ''de-CH'' ''ui.welcome'' german \<in> set productTranslationEntries"
    unfolding productTranslationEntries_def set_concat set_map set_append
    by (rule UN_I[OF imageI], intro UnI2, rule e) simp
  then show ?thesis by (rule bexI[rotated]) (simp add: catalogEntry_def)
qed

theorem bundles_are_complete_witness:
  "\<exists>b w'. Translations_TranslationBundle serviceEnv ''de'' ScopeAdmin serviceWorld = (Inr b, w')
     \<and> ''ui.welcome'' \<in> translationKey ` set (bundleTranslations b)"
proof -
  have "newLocale (unicode serviceEnv) ''de'' = ''de''" by code_simp
  moreover have "\<exists>t \<in> set productTranslationEntries. translationLocale t = ''de-CH'' \<and> translationKey t = ''ui.welcome''"
    by (rule welcome_entry)
  moreover have "locale_isValid (newLocale (unicode serviceEnv) ''de'')" by code_simp
  ultimately show ?thesis
    using bundles_are_complete[OF sample_services(1), of ScopeAdmin "''de''" serviceWorld]
    by (metis scope_isValid.simps)
qed

end
