(* ===== verification/RequestRuns.thy ===== *)
theory RequestRuns imports RpcService AuthProperties LocalizationProperties begin

text \<open>
  What the serving of a request leaves as it is, part by part: a relation between the states before and after that the
  parts keep is kept by a handler composed of them.
\<close>

subsection \<open>Relations that a computation stays within\<close>

definition within :: "(served \<Rightarrow> served \<Rightarrow> bool) \<Rightarrow> (served, 'e, 'a) eff \<Rightarrow> bool" where
  "within R m \<longleftrightarrow> (\<forall>s. R s (snd (m s)))"

lemma withinI: "(\<And>s. R s (snd (m s))) \<Longrightarrow> within R m"
  by (simp add: within_def)

lemma withinD: "within R m \<Longrightarrow> m s = (r, s') \<Longrightarrow> R s s'"
  by (metis within_def snd_conv)

named_theorems within_rules

lemma within_if [within_rules]: "within R m \<Longrightarrow> within R n \<Longrightarrow> within R (if b then m else n)"
  by simp

lemma within_let [within_rules]: "(\<And>x. within R (m x)) \<Longrightarrow> within R (let x = e in m x)"
  by simp

lemma within_case_option [within_rules]:
  "within R m \<Longrightarrow> (\<And>x. within R (n x)) \<Longrightarrow> within R (case e of None \<Rightarrow> m | Some x \<Rightarrow> n x)"
  by (cases e) auto

lemma within_case_prod [within_rules]: "(\<And>x y. within R (m x y)) \<Longrightarrow> within R (case e of (x, y) \<Rightarrow> m x y)"
  by (cases e) auto

locale request_relation =
  fixes R :: "served \<Rightarrow> served \<Rightarrow> bool"
  assumes refl: "R s s"
    and trans: "R s s1 \<Longrightarrow> R s1 s2 \<Longrightarrow> R s s2"
    and worldly: "untouched (servedWorld s) w \<Longrightarrow> R s (s\<lparr>servedWorld := w\<rparr>)"
    and sessions: "R s (s\<lparr>servedSession := r\<rparr>)"
begin

lemma ret: "within R (ret x)"
  by (simp add: within_def ret_def refl)

lemma fail: "within R (fail err)"
  by (simp add: within_def fail_def refl)

lemma liftSum: "within R (liftSum r)"
  by (simp add: within_def liftSum_def refl)

lemma andThen:
  assumes "within R m" and "\<And>x. within R (f x)"
  shows "within R (andThen m f)"
proof (rule withinI)
  fix s :: served
  obtain q s1 where m: "m s = (q, s1)" by fastforce
  have "R s s1" using assms(1) m by (rule withinD)
  then show "R s (snd (andThen m f s))"
    using m assms(2) trans by (cases q) (auto simp: andThen_def within_def)
qed

lemma localizedError: "within R (localizedError env srv h err)"
proof (rule withinI)
  fix s :: served
  obtain t w where "Translator_ErrorMessage env (requestLocale env srv h) (Some err) (servedWorld s) = (t, w)" by fastforce
  moreover from this have "untouched (servedWorld s) w"
    by (rule keepsD[rotated 2]) (auto simp: Translator_ErrorMessage_def Let_def intro!: untouched_rules)
  ultimately show "R s (snd (localizedError env srv h err s))"
    using worldly by (cases t) (simp_all add: localizedError_def plainText_def Let_def)
qed

lemma localized:
  assumes "within R m" shows "within R (localized env srv h m)"
proof (rule withinI)
  fix s :: served
  obtain q s1 where m: "m s = (q, s1)" by fastforce
  then have "R s s1" by (rule withinD[OF assms])
  then show "R s (snd (localized env srv h m s))"
    using m trans[OF _ localizedError[unfolded within_def, rule_format]] by (cases q) (auto simp: localized_def)
qed

lemma calmWorld:
  assumes "keeps (\<lambda>_. True) untouched m" shows "within R (onWorld m)"
proof (rule withinI)
  fix s :: served
  obtain q w where "m (servedWorld s) = (q, w)" by fastforce
  then show "R s (snd (onWorld m s))"
    using keepsD[OF assms] worldly by (simp add: onWorld_def)
qed

lemma requireSession: "within R (requireSession env p srv h)"
proof (rule withinI)
  fix s :: served
  obtain q w where run: "Auth_CurrentSession env p (serverAuth srv) (cookieToken srv h) (servedWorld s) = (q, w)" by fastforce
  have "untouched (servedWorld s) w" by (rule keepsD[OF untouched_CurrentSession _ run]) simp
  then have "R s (s\<lparr>servedWorld := w, servedSession := Some q\<rparr>)"
    by (rule trans[OF worldly sessions])
  then show "R s (snd (requireSession env p srv h s))"
    using run by (simp add: requireSession_def Let_def refl split: option.split)
qed

lemma requireSuperAdmin: "within R (requireSuperAdmin env p srv h)"
  unfolding requireSuperAdmin_def by (intro andThen requireSession within_if fail ret)

lemmas control = ret fail liftSum andThen localizedError localized requireSession requireSuperAdmin

end

subsection \<open>A refused request changes nothing\<close>

definition calm :: "served \<Rightarrow> served \<Rightarrow> bool" where
  "calm s s' \<longleftrightarrow> untouched (servedWorld s) (servedWorld s') \<and> servedLimiter s' = servedLimiter s"

interpretation calm: request_relation calm
  by unfold_locales (auto simp: calm_def untouched_def)

subsection \<open>All calls but the logins leave the rate limiter alone\<close>

definition sameLimiter :: "served \<Rightarrow> served \<Rightarrow> bool" where
  "sameLimiter s s' \<longleftrightarrow> servedLimiter s' = servedLimiter s"

interpretation sameLimiter: request_relation sameLimiter
  by unfold_locales (auto simp: sameLimiter_def)

declare sameLimiter.control [within_rules]

lemma limiter_onWorld [within_rules]: "within sameLimiter (onWorld m)"
  by (auto simp: within_def sameLimiter_def onWorld_def split: prod.split)

lemma limiter_serviceCall [within_rules]: "within sameLimiter (serviceCall env srv h m)"
  unfolding serviceCall_def by (intro within_rules)

lemma limiter_parts [within_rules]:
  "within sameLimiter (authenticateSession env p srv h)"
  "within sameLimiter (authorizeSuperAdmin env p srv h)"
  "within sameLimiter (sessionResponse env srv h m)"
  "within sameLimiter (invitationsResponse env srv h page)"
  unfolding authenticateSession_def authorizeSuperAdmin_def sessionResponse_def invitationsResponse_def
  by (intro within_rules)+

lemma limiter_listOrder [within_rules]: "within sameLimiter (listOrder env srv h sortOf dflt msg)"
  unfolding listOrder_def by (intro within_rules)

lemma limiter_loggedOut [within_rules]: "within sameLimiter (loggedOut env srv h)"
  unfolding loggedOut_def by (intro within_rules)

lemma limiter_Logout [within_rules]: "within sameLimiter (Logout env p srv h)"
proof (rule withinI)
  fix s :: served
  obtain q s1 where run: "andThen (requireSession env p srv h) (\<lambda>session. onWorld (Auth_Logout env session)) s = (q, s1)"
    by fastforce
  have "within sameLimiter (andThen (requireSession env p srv h) (\<lambda>session. onWorld (Auth_Logout env session)))"
    by (intro within_rules)
  then have "sameLimiter s s1" using run by (rule withinD)
  moreover have "within sameLimiter (localizedError env srv h err :: (served, connect_error, unit response) eff)"
    "within sameLimiter (loggedOut env srv h)" for err
    by (intro within_rules)+
  ultimately show "sameLimiter s (snd (Logout env p srv h s))"
    using run by (cases q) (auto simp: Logout_def within_def sameLimiter_def)
qed

lemma limiter_replyWith [within_rules]: "within sameLimiter m \<Longrightarrow> within sameLimiter (replyWith kind m)"
  unfolding replyWith_def by (intro within_rules)

text \<open>The key of a login.\<close>

fun loginOf :: "rpc \<Rightarrow> (string \<times> pb_credentials_request) option" where
  "loginOf (CallLogin m) = Some (''user'', m)"
| "loginOf (CallLoginSuperAdmin m) = Some (''superadmin'', m)"
| "loginOf _ = None"

lemma sameLimiter_others:
  assumes "loginOf call = None"
  shows "within sameLimiter (handleCall env p srv h call)"
  using assms
  by (cases call;
      simp only: handleCall.simps loginOf.simps option.simps Register_def GetSession_def SwitchTenant_def
      AcceptInvitationRPC_def GetLanguages_def GetTranslations_def ListTenantsRPC_def CreateTenantRPC_def UpdateTenantRPC_def
      ListUsersRPC_def GetUserRPC_def ListInvitationsRPC_def RevokeInvitationRPC_def ListManagedLanguages_def
      CreateLanguage_def UpdateLanguage_def saveLanguage_def ListTranslationOverridesRPC_def UpsertTranslationOverrideRPC_def
      DeleteTranslationOverrideRPC_def ListAuditEventsRPC_def GetSystemStats_def UpdateCurrentTenantRPC_def
      ListMembershipsRPC_def UpdateMembershipRPC_def ListRolesRPC_def CreateRoleRPC_def UpdateRoleRPC_def DeleteRoleRPC_def
      ListTenantInvitationsRPC_def CreateInvitationRPC_def RevokeTenantInvitationRPC_def;
      (intro within_rules)?)

end
