(* ===== verification/WebProperties.thy ===== *)
theory WebProperties imports RequestRuns begin

text \<open>
  What the RPC service guarantees as a whole: who may call what, and how many passwords can be tried.
\<close>

subsection \<open>Who may call what\<close>

lemma replyWith_andThen: "replyWith kind (andThen m f) = andThen m (\<lambda>x. replyWith kind (f x))"
  by (auto simp: replyWith_def andThen_def fun_eq_iff split: prod.splits sum.splits)

lemma superAdmin_gate:
  assumes "accessLevel call = SuperAdminCall"
  obtains k where "handleCall env p srv h call = andThen (authorizeSuperAdmin env p srv h) k"
  using assms
  by (cases call;
      simp only: accessLevel.simps access_level.distinct handleCall.simps ListTenantsRPC_def CreateTenantRPC_def
        UpdateTenantRPC_def ListUsersRPC_def GetUserRPC_def ListInvitationsRPC_def RevokeInvitationRPC_def
        ListManagedLanguages_def CreateLanguage_def UpdateLanguage_def saveLanguage_def ListTranslationOverridesRPC_def
        UpsertTranslationOverrideRPC_def DeleteTranslationOverrideRPC_def ListAuditEventsRPC_def GetSystemStats_def
        replyWith_andThen)

lemma session_gate:
  assumes "accessLevel call = SessionCall"
  obtains k where "handleCall env p srv h call = andThen (authenticateSession env p srv h) k"
  using assms
  by (cases call;
      simp only: accessLevel.simps access_level.distinct handleCall.simps GetSession_def SwitchTenant_def
        UpdateCurrentTenantRPC_def ListMembershipsRPC_def UpdateMembershipRPC_def ListRolesRPC_def CreateRoleRPC_def
        UpdateRoleRPC_def DeleteRoleRPC_def ListTenantInvitationsRPC_def CreateInvitationRPC_def
        RevokeTenantInvitationRPC_def replyWith_andThen)

lemma CurrentSession_user:
  assumes "Auth_CurrentSession env p a token w = (Inr s, w')"
  obtains claim w1 row where "VerifyToken env p (authSessions a) token w = (Inr claim, w1)"
    "row \<in> set (users (w_db w))" "sameUserSession claim (u_user row)" "sessionUser s = u_user row"
proof -
  obtain claim w1 where claim: "VerifyToken env p (authSessions a) token w = (Inr claim, w1)"
    and rest: "andThen (attempt (FindByID env (claimUserID claim))) (\<lambda>found.
     case found of
       Inl _ \<Rightarrow> fail (newError ErrorInvalidCredentials)
     | Inr usr \<Rightarrow>
         if \<not> sameUserSession claim usr then fail (newError ErrorInvalidCredentials)
         else
           andThen (Auth_sessionForUser env usr (claimActiveTenantID claim)) (\<lambda>s.
           ret (s\<lparr>sessionToken := token\<rparr>))) w1 = (Inr s, w')"
    using assms unfolding Auth_CurrentSession_def andThen_Inr mapError_Inr by blast
  have w1: "w_db w1 = w_db w" using claim by (rule untouchedD[OF untouched_VerifyToken])
  obtain found w2 where find: "FindByID env (claimUserID claim) w1 = (found, w2)" by fastforce
  with rest obtain usr w3 s0 where usr: "found = Inr usr" "sameUserSession claim usr"
    "Auth_sessionForUser env usr (claimActiveTenantID claim) w2 = (Inr s0, w3)" "s = s0\<lparr>sessionToken := token\<rparr>"
    by (auto simp: andThen_def attempt_def fail_def ret_def split: sum.splits if_splits prod.splits)
  moreover obtain row where "row \<in> set (users (w_db w1))" "u_user row = usr"
    using FindByID_Inr[of env "claimUserID claim" w1 usr w2] find usr(1) by blast
  moreover have "sessionUser s0 = usr" using sessionForUser_Inr[OF usr(3)] by simp
  ultimately show ?thesis using that claim w1 by simp
qed

lemma requireSession_fresh:
  assumes "requireSession env p srv h (s\<lparr>servedSession := None\<rparr>) = (Inr session, s1)"
  shows "\<exists>w1. Auth_CurrentSession env p (serverAuth srv) (cookieToken srv h) (servedWorld s) = (Inr session, w1)"
  using assms by (auto simp: requireSession_def Let_def split: if_splits prod.splits)

definition authenticated :: "env \<Rightarrow> ports \<Rightarrow> server \<Rightarrow> header \<Rightarrow> access_level \<Rightarrow> served \<Rightarrow> bool" where
  "authenticated env p srv h level s \<longleftrightarrow>
     (\<exists>claim w1 row. VerifyToken env p (authSessions (serverAuth srv)) (cookieToken srv h) (servedWorld s) = (Inr claim, w1)
        \<and> row \<in> set (users (w_db (servedWorld s))) \<and> u_id row = claimUserID claim
        \<and> u_session_version row = claimSessionVersion claim
        \<and> (level = SuperAdminCall \<longrightarrow> globalRole (u_user row) = GlobalRoleSuperAdministrator))"

lemma authenticated_lower:
  "authenticated env p srv h level s \<Longrightarrow> lower \<le> level \<Longrightarrow> authenticated env p srv h lower s"
  by (cases level; cases lower) (auto simp: authenticated_def less_eq_access_level_def)

lemma gate_refuses:
  assumes "within calm gate" and "andThen gate k s = (r, s')" and "\<not> (\<exists>x s1. gate s = (Inr x, s1))"
  shows "(\<exists>err. r = Inl err) \<and> calm s s'"
proof -
  obtain q s1 where gate: "gate s = (q, s1)" by fastforce
  then obtain err where "q = Inl err" using assms(3) by (cases q) auto
  then show ?thesis using gate assms(2) withinD[OF assms(1) gate] by auto
qed

lemma localized_Inr: "localized env srv h m s = (Inr x, s') \<longleftrightarrow> m s = (Inr x, s')"
  by (auto simp: localized_def localizedError_def Let_def split: prod.splits sum.splits)

text \<open>C6: Every call but the public ones is authorised by what the database says now: it either comes with a session token
  that verifies to a user the database has with the session version of the token, and who is a super administrator
  where the call is one of administration, or it is refused with an error and neither the database, the mails nor the rate
  limiter are changed.\<close>

theorem rpc_needs_authority:
  assumes "accessLevel call \<noteq> PublicCall" and "serveRPC env p srv h call s = (r, s')"
  shows "authenticated env p srv h (accessLevel call) s
    \<or> (\<exists>err. r = Inl err) \<and> untouched (servedWorld s) (servedWorld s') \<and> servedLimiter s' = servedLimiter s"
proof -
  let ?s = "s\<lparr>servedSession := None\<rparr>"
  have run: "handleCall env p srv h call ?s = (r, s')" using assms(2) by (simp add: serveRPC_def)
  have refused: ?thesis if "(\<exists>err. r = Inl err) \<and> calm ?s s'" using that by (auto simp: calm_def)
  have granted: ?thesis
    if "requireSession env p srv h ?s = (Inr session, s1)"
      and "accessLevel call = SuperAdminCall \<Longrightarrow> isSuperAdministrator (globalRole (sessionUser session))" for session s1
  proof -
    note fresh = requireSession_fresh[OF that(1)] and level = that(2)
    obtain w1 where current: "Auth_CurrentSession env p (serverAuth srv) (cookieToken srv h) (servedWorld s) = (Inr session, w1)"
      using fresh ..
    show ?thesis using level
      by (rule_tac CurrentSession_user[OF current])
        (auto simp: authenticated_def sameUserSession_def isSuperAdministrator_def)
  qed
  show ?thesis
  proof (cases "accessLevel call")
    case SuperAdminCall
    then obtain k where k: "handleCall env p srv h call = andThen (authorizeSuperAdmin env p srv h) k"
      by (rule superAdmin_gate)
    have calm: "within calm (authorizeSuperAdmin env p srv h)"
      unfolding authorizeSuperAdmin_def by (intro calm.control)
    show ?thesis
    proof (cases "\<exists>x s1. authorizeSuperAdmin env p srv h ?s = (Inr x, s1)")
      case True
      then obtain session s1 where "requireSession env p srv h ?s = (Inr session, s1)"
        "isSuperAdministrator (globalRole (sessionUser session))"
        by (auto simp: authorizeSuperAdmin_def localized_Inr requireSuperAdmin_def run_simps split: if_splits)
      then show ?thesis using granted by blast
    next
      case False
      then show ?thesis using gate_refuses[OF calm run[unfolded k]] refused by blast
    qed
  next
    case SessionCall
    then obtain k where k: "handleCall env p srv h call = andThen (authenticateSession env p srv h) k"
      by (rule session_gate)
    have calm: "within calm (authenticateSession env p srv h)"
      unfolding authenticateSession_def by (intro calm.control)
    show ?thesis
    proof (cases "\<exists>x s1. authenticateSession env p srv h ?s = (Inr x, s1)")
      case True
      then obtain session s1 where "requireSession env p srv h ?s = (Inr session, s1)"
        by (auto simp: authenticateSession_def localized_Inr)
      then show ?thesis using granted SessionCall by simp
    next
      case False
      then show ?thesis using gate_refuses[OF calm run[unfolded k]] refused by blast
    qed
  next
    case PublicCall
    then show ?thesis using assms(1) by simp
  qed
qed

definition webServer :: server where
  "webServer =
     \<lparr>serverAuth = sampleAuth, serverOIDCSecret = replicate 32 (CHR ''s''),
      serverCookie = \<lparr>configCookieName = ''c'', configCookieSecure = True, configCookieMaxAge = 0, configCookieDomain = []\<rparr>,
      serverDefaultLocale = ''en'', serverReadinessTimeout = 1, serverPolicy = \<lparr>policyOrigins = []\<rparr>\<rparr>"

definition webServed :: served where
  "webServed =
     \<lparr>servedWorld = serviceWorld, servedLimiter = newRateLimiter 5 (10 * nanosecondsPerMinute), servedSession = None\<rparr>"

theorem rpc_needs_authority_witness:
  "\<exists>r s'. serveRPC serviceEnv samplePorts webServer [] (CallGetUser ''u'') webServed = (r, s')
     \<and> (\<exists>err. r = Inl err) \<and> w_db (servedWorld s') = w_db serviceWorld"
proof -
  obtain r s' where run: "serveRPC serviceEnv samplePorts webServer [] (CallGetUser ''u'') webServed = (r, s')" by fastforce
  have "cookieToken webServer [] = []"
    by (simp add: cookieToken_def requestCookie_def readCookies_def headerValues_def webServer_def)
  then have "\<not> authenticated serviceEnv samplePorts webServer [] SuperAdminCall webServed"
    by (simp add: authenticated_def VerifyToken_def fail_def)
  then show ?thesis
    using rpc_needs_authority[OF _ run] run by (auto simp: untouched_def webServed_def)
qed

subsection \<open>What the mapping of the audit log's request leaves out\<close>

lemma audit_search_ignored: "auditFilter p (req\<lparr>laSearch := s\<rparr>) = auditFilter p req"
  by (simp add: auditFilter_def cong: sum.case_cong)

lemma audit_instant_internal: "auditFilter p req = Inl err \<Longrightarrow> connectCode err = CodeInternal"
  by (auto simp: auditFilter_def parseOptionalTime_def connectCode_def split: if_splits option.splits sum.splits)

lemma stats_count_revoked:
  "fst (Stats sampleEnv (sampleWorld\<lparr>w_db := sampleDb\<lparr>invitations := [sampleInvitation\<lparr>i_revoked_at := Some 0\<rparr>]\<rparr>\<rparr>))
     = Inr \<lparr>userCount = length (users sampleDb), tenantCount = length (tenants sampleDb), pendingInvitationCount = 1,
            activeLanguageCount = countWhere isActiveLanguage (languages sampleDb)\<rparr>"
  by code_simp

end
