(* ===== verification/MailProperties.thy ===== *)
theory MailProperties imports SmtpMailer ServiceSamples begin

text \<open>
  What the mailer guarantees: the headers of a mail cannot be forged by its contents, a password never leaves over a
  connection that others can read, a required encryption is never skipped, and a message is handed over at most once.
\<close>

subsection \<open>Triples\<close>

definition triple ::
  "('s \<Rightarrow> bool) \<Rightarrow> ('s, 'e, 'a) eff \<Rightarrow> ('a \<Rightarrow> 's \<Rightarrow> bool) \<Rightarrow> ('s \<Rightarrow> bool) \<Rightarrow> bool" where
  "triple P m Q E \<longleftrightarrow>
     (\<forall>c r c'. P c \<longrightarrow> m c = (r, c') \<longrightarrow> (case r of Inl _ \<Rightarrow> E c' | Inr x \<Rightarrow> Q x c'))"

named_theorems triples

lemma tripleI:
  "(\<And>c r c'. P c \<Longrightarrow> m c = (r, c') \<Longrightarrow> (case r of Inl _ \<Rightarrow> E c' | Inr x \<Rightarrow> Q x c')) \<Longrightarrow> triple P m Q E"
  by (simp add: triple_def)

lemma tripleD: "triple P m Q E \<Longrightarrow> P c \<Longrightarrow> m c = (r, c') \<Longrightarrow> (case r of Inl _ \<Rightarrow> E c' | Inr x \<Rightarrow> Q x c')"
  by (simp add: triple_def)

lemma triple_andThen:
  "triple P m Q E \<Longrightarrow> (\<And>x. triple (Q x) (f x) R E) \<Longrightarrow> triple P (andThen m f) R E"
  unfolding triple_def andThen_def by (fastforce split: prod.splits sum.splits)

lemma triple_mapError [triples]: "triple P m Q E \<Longrightarrow> triple P (mapError h m) Q E"
  unfolding triple_def mapError_def by (fastforce split: prod.splits sum.splits)

lemma triple_if [triples]:
  "(b \<Longrightarrow> triple P m Q E) \<Longrightarrow> (\<not> b \<Longrightarrow> triple P n Q E) \<Longrightarrow> triple P (if b then m else n) Q E"
  by simp

subsection \<open>The headers\<close>

text \<open>The text has no line feed that is not part of a line end.\<close>

fun bareLineFeed :: "char \<Rightarrow> string \<Rightarrow> bool" where
  "bareLineFeed before [] = False"
| "bareLineFeed before (c # s) = ((c = chr 10 \<and> before \<noteq> chr 13) \<or> bareLineFeed c s)"

lemma bareLineFeed_replaced: "\<not> bareLineFeed before (replaceAll [chr 10] crlf s)"
proof (induction s arbitrary: before)
  case Nil
  then show ?case by simp
next
  case (Cons c s)
  have "chr 13 \<noteq> chr 10" by (simp add: chr_def)
  then show ?case using Cons by (simp add: crlf_def)
qed

lemma set_trimList: "set (trimList P xs) \<subseteq> set xs"
  unfolding trimList_def by (auto dest!: set_dropWhileD)

lemma set_trimSpace: "set (trimSpace s) \<subseteq> set s"
proof -
  have "set (concat (map snd (trimList spacePiece (runes s)))) \<subseteq> set (concat (map snd (runes s)))"
    using set_trimList[of spacePiece "runes s"] by fastforce
  then show ?thesis by (simp add: trimSpace_def concat_runes)
qed

lemma eq_chr: "n < 256 \<Longrightarrow> c = chr n \<longleftrightarrow> byte c = n"
  by (metis byte_chr chr_byte)

lemma lineBreak_bytes: "lineBreak s \<longleftrightarrow> list_ex (\<lambda>c. byte c = 10 \<or> byte c = 13) s"
  by (simp add: lineBreak_def eq_chr)

lemma lineBreak_set: "lineBreak s \<longleftrightarrow> chr 10 \<in> set s \<or> chr 13 \<in> set s"
  by (auto simp: lineBreak_def list_ex_iff)

text \<open>The contents of a mail cannot forge its headers: for a subject without a line break, which is all the mailer accepts, the message
  is five header lines without line breaks inside them, an empty line and the body, and every line feed of the body ends a line.\<close>

theorem mail_headers_not_forged:
  assumes "\<not> lineBreak (messageSubject message)" and "\<forall>address. \<not> lineBreak (smtpFormat srv address)"
  shows "\<exists>headers body. smtpInvitationMessage srv sender message = concat (map (\<lambda>h. h @ crlf) headers) @ crlf @ body @ crlf
    \<and> length headers = 5 \<and> (\<forall>h \<in> set headers. \<not> lineBreak h) \<and> \<not> bareLineFeed (chr 10) body
    \<and> headers ! 2 = ''Subject: '' @ trimSpace (messageSubject message)"
proof -
  have subject: "\<not> lineBreak (trimSpace (messageSubject message))"
    using assms(1) set_trimSpace by (auto simp: lineBreak_set)
  let ?headers = "[''From: '' @ smtpFormat srv sender,
      ''To: '' @ smtpFormat srv \<lparr>addressName = [], addressSpec = messageRecipient message\<rparr>,
      ''Subject: '' @ trimSpace (messageSubject message), ''MIME-Version: 1.0'',
      ''Content-Type: text/plain; charset=UTF-8'']"
  have "smtpInvitationMessage srv sender message = concat (map (\<lambda>h. h @ crlf) ?headers) @ crlf
      @ replaceAll [chr 10] crlf (trimSpace (messageBody message)) @ crlf"
    by (simp add: smtpInvitationMessage_def)
  moreover have "\<forall>h \<in> set ?headers. \<not> lineBreak h"
    using subject assms(2) by (auto simp: lineBreak_bytes byte_def)
  ultimately show ?thesis using bareLineFeed_replaced
    by (intro exI[of _ ?headers] exI[of _ "replaceAll [chr 10] crlf (trimSpace (messageBody message))"]) simp
qed

definition sampleServer :: smtp_server where
  "sampleServer =
     \<lparr>smtpAnswer = (\<lambda>n s. None), smtpOffersTLS = (\<lambda>n. True), smtpAcceptsUnacknowledged = (\<lambda>n. False),
      smtpContext = (\<lambda>n. None), smtpFormat = (\<lambda>a. CHR ''<'' # filter (\<lambda>c. byte c \<noteq> 10 \<and> byte c \<noteq> 13) (addressSpec a) @ ''>'')\<rparr>"

definition sampleMessage :: invitation_message where
  "sampleMessage = \<lparr>messageRecipient = ''a@b'', messageSubject = ''Hi '', messageBody = ''Join'' @ [chr 10] @ ''us''\<rparr>"

theorem mail_headers_not_forged_witness:
  "\<exists>headers body. smtpInvitationMessage sampleServer \<lparr>addressName = [], addressSpec = ''x@y''\<rparr> sampleMessage
       = concat (map (\<lambda>h. h @ crlf) headers) @ crlf @ body @ crlf
    \<and> length headers = 5 \<and> (\<forall>h \<in> set headers. \<not> lineBreak h)"
proof -
  have "\<not> lineBreak (messageSubject sampleMessage)" "\<forall>address. \<not> lineBreak (smtpFormat sampleServer address)"
    by (auto simp: sampleMessage_def sampleServer_def lineBreak_bytes list_ex_iff byte_def)
  then show ?thesis
    using mail_headers_not_forged[of sampleMessage sampleServer "\<lparr>addressName = [], addressSpec = ''x@y''\<rparr>"] by metis
qed

subsection \<open>What is sent before the connection is encrypted\<close>

text \<open>Every step that satisfies \<open>P\<close> comes after one that the server has accepted.\<close>

definition onlyAfter :: "smtp_step \<Rightarrow> (smtp_step \<Rightarrow> bool) \<Rightarrow> (smtp_step \<times> string option) list \<Rightarrow> bool" where
  "onlyAfter guard P trace \<longleftrightarrow> (\<forall>before s answer after. trace = before @ (s, answer) # after \<longrightarrow> P s \<longrightarrow> (guard, None) \<in> set before)"

lemma onlyAfter_Nil [simp]: "onlyAfter guard P []"
  by (simp add: onlyAfter_def)

lemma onlyAfter_snoc [simp]:
  "onlyAfter guard P (trace @ [(s, answer)]) \<longleftrightarrow> onlyAfter guard P trace \<and> (P s \<longrightarrow> (guard, None) \<in> set trace)"
proof -
  have split: "trace @ [(s, answer)] = before @ x # after \<longleftrightarrow>
      (after = [] \<and> before = trace \<and> x = (s, answer)) \<or> (\<exists>ys. after = ys @ [(s, answer)] \<and> trace = before @ x # ys)"
    for before x after
    by (cases after rule: rev_cases) auto
  show ?thesis unfolding onlyAfter_def split by blast
qed

fun envelope :: "smtp_step \<Rightarrow> bool" where
  "envelope (MailStep s) = True"
| "envelope (RcptStep s) = True"
| "envelope DataStep = True"
| "envelope (WriteStep s) = True"
| "envelope AuthStep = True"
| "envelope _ = False"

definition guardedTrace :: "smtp_mailer \<Rightarrow> bool \<Rightarrow> connection \<Rightarrow> bool" where
  "guardedTrace mailer started c \<longleftrightarrow>
     (\<not> isLocalhost (mailerHost mailer) \<longrightarrow> onlyAfter StartTLSStep (\<lambda>s. s = AuthStep) (connSteps c))
     \<and> (mailerRequireTLS mailer \<longrightarrow> onlyAfter StartTLSStep envelope (connSteps c))
     \<and> (connEncrypted c \<longrightarrow> (StartTLSStep, None) \<in> set (connSteps c))
     \<and> (started \<longrightarrow> mailerRequireTLS mailer \<longrightarrow> (StartTLSStep, None) \<in> set (connSteps c))"

text \<open>A computation that keeps the trace guarded, before or after the connection was to be encrypted.\<close>

definition guarding :: "smtp_mailer \<Rightarrow> bool \<Rightarrow> (connection, go_error, 'a) eff \<Rightarrow> bool" where
  "guarding mailer started m \<longleftrightarrow> triple (guardedTrace mailer started) m (\<lambda>_. guardedTrace mailer started) (guardedTrace mailer False)"

lemma guardedTrace_False: "guardedTrace mailer started c \<Longrightarrow> guardedTrace mailer False c"
  by (auto simp: guardedTrace_def)

lemma guarding_andThen [triples]:
  "guarding mailer started m \<Longrightarrow> (\<And>x. guarding mailer started (f x)) \<Longrightarrow> guarding mailer started (andThen m f)"
  unfolding guarding_def by (rule triple_andThen)

lemma guarding_ret [triples]: "guarding mailer started (ret x)"
  by (simp add: guarding_def triple_def ret_def)

lemma guarding_fail [triples]: "guarding mailer started (fail err)"
  using guardedTrace_False by (simp add: guarding_def triple_def fail_def)

lemma guarding_mapError [triples]: "guarding mailer started m \<Longrightarrow> guarding mailer started (mapError h m)"
  unfolding guarding_def by (rule triple_mapError)

lemma guarding_if [triples]:
  "(b \<Longrightarrow> guarding mailer started m) \<Longrightarrow> (\<not> b \<Longrightarrow> guarding mailer started n) \<Longrightarrow> guarding mailer started (if b then m else n)"
  by simp

lemma smtpStep_guarding [triples]:
  "st \<noteq> AuthStep \<Longrightarrow> (envelope st \<Longrightarrow> started) \<Longrightarrow> guarding mailer started (smtpStep srv st)"
  by (auto simp: guarding_def triple_def smtpStep_def Let_def guardedTrace_def split: option.splits)

text \<open>An attempt goes on after an error, so the computation must keep the stronger invariant then too.\<close>

lemma attempt_step_guarding:
  "st \<noteq> AuthStep \<Longrightarrow> (envelope st \<Longrightarrow> started) \<Longrightarrow> guarding mailer started (attempt (smtpStep srv st))"
  by (auto simp: guarding_def triple_def attempt_def smtpStep_def Let_def guardedTrace_def split: option.splits)

lemma finishData_guarding:
  "guarding mailer started (finishData srv message)" "guarding mailer started (attempt (finishData srv message))"
  by (auto simp: guarding_def triple_def finishData_def attempt_def smtpStep_def Let_def guardedTrace_def split: option.splits)

lemma closeConnection_guarding: "guarding mailer started (closeConnection srv)"
  by (auto simp: guarding_def triple_def closeConnection_def guardedTrace_def)

lemma orClose_guarding [triples]:
  "st \<noteq> AuthStep \<Longrightarrow> \<not> envelope st \<Longrightarrow> guarding mailer started (orClose srv what resource (smtpStep srv st))"
  unfolding orClose_def
  by (rule guarding_andThen[OF attempt_step_guarding])
    (auto split: sum.splits intro!: triples closeConnection_guarding)

lemma hello_guarding [triples]: "guarding mailer started (hello srv)"
  by (auto simp: guarding_def triple_def hello_def smtpStep_def Let_def guardedTrace_def split: option.splits if_splits)

lemma validateLine_guarding [triples]: "guarding mailer started (validateLine line)"
  unfolding validateLine_def by (intro triples)

lemma startTLS_guarding:
  "triple (guardedTrace mailer False) (startTLS srv mailer) (\<lambda>_. guardedTrace mailer True) (guardedTrace mailer False)"
proof -
  have extension: "triple (guardedTrace mailer False) (extensionStartTLS srv) (\<lambda>_. guardedTrace mailer False) (guardedTrace mailer False)"
    by (auto simp: triple_def extensionStartTLS_def hello_def smtpStep_def Let_def guardedTrace_def split: option.splits if_splits)
  have encrypted: "triple (guardedTrace mailer False) (andThen (smtpStep srv StartTLSStep) (\<lambda>_. encrypt))
      (\<lambda>_. guardedTrace mailer True) (guardedTrace mailer False)"
    by (auto simp: triple_def andThen_def encrypt_def smtpStep_def Let_def guardedTrace_def split: option.splits)
  have hello: "triple (guardedTrace mailer False) (hello srv) (\<lambda>_. guardedTrace mailer False) (guardedTrace mailer False)"
    using hello_guarding unfolding guarding_def .
  have plain: "triple (guardedTrace mailer False)
      (if mailerRequireTLS mailer then fail (OpaqueError ''smtp mailer: server does not support STARTTLS'') else ret ())
      (\<lambda>_. guardedTrace mailer True) (guardedTrace mailer False)"
    by (auto simp: triple_def fail_def ret_def guardedTrace_def)
  show ?thesis unfolding startTLS_def
    by (rule triple_andThen[OF extension]) (intro triple_if plain triple_mapError triple_andThen[OF hello] encrypted)
qed

lemma authenticate_guarding [triples]: "guarding mailer True (authenticate srv mailer)"
proof -
  have "guarding mailer True (plainAuth srv (mailerHost mailer))"
    by (auto simp: guarding_def triple_def plainAuth_def smtpStep_def Let_def guardedTrace_def split: option.splits if_splits)
  then show ?thesis unfolding authenticate_def by (intro triples)
qed

lemma writeInvitation_guarding [triples]: "guarding mailer True (writeInvitation srv sender message)"
  unfolding writeInvitation_def
  by (intro guarding_andThen triples attempt_step_guarding) (auto split: sum.splits intro!: triples finishData_guarding)

lemma Mailer_dialogue_guarding:
  "triple (guardedTrace mailer False) (Mailer_dialogue srv mailer message) (\<lambda>_. guardedTrace mailer True) (guardedTrace mailer False)"
proof -
  have opened: "guarding mailer False (dial srv mailer)" unfolding dial_def by (intro triples) simp_all
  have greeted: "guarding mailer False (orClose srv what resource (smtpStep srv GreetingStep))" for what resource
    by (rule orClose_guarding) simp_all
  have rest: "guarding mailer True
     (andThen (authenticate srv mailer) (\<lambda>_.
      andThen (mapError (Wrapped ''smtp mailer: MAIL FROM'') (clientMail srv (addressSpec (mailerFrom mailer)))) (\<lambda>_.
      andThen (mapError (Wrapped ''smtp mailer: RCPT TO'') (clientRcpt srv (messageRecipient message))) (\<lambda>_.
      andThen (writeInvitation srv (mailerFrom mailer) message) (\<lambda>_. quit srv)))))"
    unfolding clientMail_def clientRcpt_def quit_def
    by (intro triples attempt_step_guarding) simp_all
  show ?thesis unfolding Mailer_dialogue_def
    by (rule triple_andThen[OF opened[unfolded guarding_def]], rule triple_andThen[OF greeted[unfolded guarding_def]],
        rule triple_andThen[OF startTLS_guarding], rule rest[unfolded guarding_def])
qed

lemma Mailer_run_cases:
  assumes "Mailer_run env p srv mailer message (newConnection w) = (r, c)"
  obtains (dialogue) "Mailer_dialogue srv mailer message (newConnection w) = (r, c)"
    | (refused) err where "r = Inl err" "c = newConnection w"
  using assms by (auto simp: Mailer_run_def split: option.splits sum.splits if_splits)

text \<open>C30: A password is protected: the mailer sends its password only to the local host or after the server has accepted \<^verbatim>\<open>STARTTLS\<close>, and
  when it requires encryption it sends neither the password nor any part of a mail before the server has accepted \<^verbatim>\<open>STARTTLS\<close>, whatever
  the server offers and answers.\<close>

theorem password_never_in_the_clear:
  assumes "Mailer_run env p srv mailer message (newConnection w) = (r, c)"
  shows "(\<not> isLocalhost (mailerHost mailer) \<longrightarrow> onlyAfter StartTLSStep (\<lambda>s. s = AuthStep) (connSteps c))
    \<and> (mailerRequireTLS mailer \<longrightarrow> onlyAfter StartTLSStep envelope (connSteps c))"
proof -
  have start: "guardedTrace mailer False (newConnection w)" by (simp add: guardedTrace_def newConnection_def)
  have "guardedTrace mailer False c"
    using assms
  proof (cases rule: Mailer_run_cases)
    case dialogue
    then show ?thesis using tripleD[OF Mailer_dialogue_guarding start dialogue] guardedTrace_False by (auto split: sum.splits)
  qed (simp add: start)
  then show ?thesis by (simp add: guardedTrace_def)
qed


definition sampleMailer :: smtp_mailer where
  "sampleMailer =
     \<lparr>mailerAddress = ''mail:587'', mailerHost = ''mail'', mailerUsername = ''u'', mailerPassword = ''p'',
      mailerFrom = \<lparr>addressName = [], addressSpec = ''x@y''\<rparr>, mailerRequireTLS = True, mailerTimeout = defaultSMTPTimeout\<rparr>"

definition mailable :: "invitation_message \<Rightarrow> bool" where
  "mailable message \<longleftrightarrow> ParseEmail serviceEnv samplePorts (messageRecipient message) = Inr (messageRecipient message)
     \<and> trimSpace (messageSubject message) \<noteq> [] \<and> trimSpace (messageBody message) \<noteq> [] \<and> \<not> lineBreak (messageSubject message)"

lemma sample_run:
  "smtpContext srv = (\<lambda>n. None) \<Longrightarrow> mailable message \<Longrightarrow>
     Mailer_run serviceEnv samplePorts srv sampleMailer message = Mailer_dialogue srv sampleMailer message"
  by (auto simp: Mailer_run_def mailable_def)

lemma sample_mailable: "mailable sampleMessage"
  by code_simp

lemma sample_lines: "validateLine ''x@y'' = ret ()" "validateLine ''a@b'' = ret ()"
  by (simp_all add: validateLine_def lineBreak_bytes byte_def)

lemmas dialogue_eval = Mailer_dialogue_def dial_def orClose_def smtpStep_def hello_def extensionStartTLS_def encrypt_def startTLS_def
  plainAuth_def authenticate_def clientMail_def clientRcpt_def writeInvitation_def finishData_def quit_def
  andThen_def attempt_def mapError_def ret_def newConnection_def sampleMailer_def sampleServer_def Let_def
  tick_def deliver_def sample_lines

lemma sample_dialogue:
  "connSteps (snd (Mailer_run serviceEnv samplePorts sampleServer sampleMailer sampleMessage (newConnection serviceWorld)))
   = map (\<lambda>s. (s, None)) [DialStep, DeadlineStep, GreetingStep, HelloStep, StartTLSStep, AuthStep, MailStep ''x@y'', RcptStep ''a@b'', DataStep,
      WriteStep (smtpInvitationMessage sampleServer (mailerFrom sampleMailer) sampleMessage), FinishStep, QuitStep]"
proof -
  have ctx: "smtpContext sampleServer = (\<lambda>n. None)" by (simp add: sampleServer_def)
  show ?thesis unfolding sample_run[OF ctx sample_mailable] by (simp add: dialogue_eval sampleMessage_def)
qed

lemma sample_send:
  assumes "mailable message" and "messageRecipient message = ''a@b''"
  shows "fst (Mailer_Send serviceEnv samplePorts sampleServer sampleMailer message w) = Inr ()"
proof -
  have ctx: "smtpContext sampleServer = (\<lambda>n. None)" by (simp add: sampleServer_def)
  show ?thesis unfolding Mailer_Send_def sample_run[OF ctx assms(1)] by (simp add: dialogue_eval assms(2))
qed

theorem password_never_in_the_clear_witness:
  "(AuthStep, None) \<in> set (connSteps (snd (Mailer_run serviceEnv samplePorts sampleServer sampleMailer sampleMessage (newConnection serviceWorld))))
   \<and> onlyAfter StartTLSStep envelope
      (connSteps (snd (Mailer_run serviceEnv samplePorts sampleServer sampleMailer sampleMessage (newConnection serviceWorld))))"
  using password_never_in_the_clear[OF surjective_pairing, where env = serviceEnv and p = samplePorts and srv = sampleServer
      and mailer = sampleMailer and message = sampleMessage and w = serviceWorld]
  unfolding sample_dialogue by (simp add: sampleMailer_def)

subsection \<open>A message is handed over at most once\<close>

text \<open>What every step of the dialogue before the message preserves.\<close>

fun delivering :: "smtp_step \<Rightarrow> bool" where
  "delivering (WriteStep s) = True"
| "delivering FinishStep = True"
| "delivering _ = False"

definition steady :: "(connection \<Rightarrow> bool) \<Rightarrow> (connection, go_error, 'a) eff \<Rightarrow> bool" where
  "steady I m \<longleftrightarrow> triple I m (\<lambda>_. I) I"

named_theorems steady_rules

lemma steady_andThen [steady_rules]: "steady I m \<Longrightarrow> (\<And>x. steady I (f x)) \<Longrightarrow> steady I (andThen m f)"
  unfolding steady_def by (rule triple_andThen)

lemma steady_mapError [steady_rules]: "steady I m \<Longrightarrow> steady I (mapError h m)"
  unfolding steady_def by (rule triple_mapError)

lemma steady_attempt [steady_rules]: "steady I m \<Longrightarrow> steady I (attempt m)"
  unfolding steady_def triple_def attempt_def by (fastforce split: prod.splits sum.splits)

lemma steady_if [steady_rules]: "(b \<Longrightarrow> steady I m) \<Longrightarrow> (\<not> b \<Longrightarrow> steady I n) \<Longrightarrow> steady I (if b then m else n)"
  by simp

lemma steady_sum [steady_rules]:
  "(\<And>x. steady I (m x)) \<Longrightarrow> (\<And>x. steady I (n x)) \<Longrightarrow> steady I (case s of Inl x \<Rightarrow> m x | Inr x \<Rightarrow> n x)"
  by (cases s) auto

lemma steady_values [steady_rules]: "steady I (ret x)" "steady I (fail err)"
  by (auto simp: steady_def triple_def ret_def fail_def)

locale dialogue_invariant =
  fixes I :: "connection \<Rightarrow> bool"
  assumes step: "\<not> delivering st \<Longrightarrow> I c \<Longrightarrow>
      I (c\<lparr>connSteps := connSteps c @ [(st, answer)], connWorld := tick (connWorld c)\<rparr>)"
    and close: "I c \<Longrightarrow> I (c\<lparr>connWorld := tick (connWorld c)\<rparr>)"
    and flags: "I c \<Longrightarrow> I (c\<lparr>connEncrypted := b\<rparr>)" "I c \<Longrightarrow> I (c\<lparr>connHello := h\<rparr>)"
begin

lemma steps: "\<not> delivering st \<Longrightarrow> steady I (smtpStep srv st)"
  by (auto simp: steady_def triple_def smtpStep_def Let_def step split: option.splits)

lemma endings: "steady I (closeConnection srv)" "steady I encrypt"
  by (auto simp: steady_def triple_def closeConnection_def encrypt_def close flags)

lemma greeting: "steady I (hello srv)"
proof -
  have kept: "I c'" if "smtpStep srv HelloStep c = (r, c')" "I c" for c r c'
    using steps[of HelloStep srv] that by (auto simp: steady_def triple_def split: sum.splits)
  show ?thesis unfolding steady_def hello_def
    by (rule tripleI) (auto split: option.splits if_splits prod.splits sum.splits intro!: flags dest: kept)
qed

lemma offer: "steady I (extensionStartTLS srv)"
proof -
  have kept: "I c'" if "hello srv c = (r, c')" "I c" for c r c'
    using greeting that by (auto simp: steady_def triple_def split: sum.splits)
  show ?thesis unfolding steady_def extensionStartTLS_def
    by (rule tripleI) (auto split: prod.splits sum.splits dest: kept)
qed

lemma password: "steady I (plainAuth srv host)"
proof -
  have kept: "I c'" if "smtpStep srv AuthStep c = (r, c')" "I c" for c r c'
    using steps[of AuthStep srv] that by (auto simp: steady_def triple_def split: sum.splits)
  show ?thesis unfolding steady_def plainAuth_def
    by (rule tripleI) (auto split: if_splits sum.splits dest: kept)
qed

lemma phases:
  "steady I (dial srv mailer)" "\<not> delivering st \<Longrightarrow> steady I (orClose srv what resource (smtpStep srv st))"
  "steady I (startTLS srv mailer)" "steady I (authenticate srv mailer)" "steady I (clientMail srv sender)"
  "steady I (clientRcpt srv recipient)" "steady I (quit srv)"
  unfolding dial_def orClose_def startTLS_def authenticate_def clientMail_def clientRcpt_def quit_def validateLine_def
  by (intro steady_rules steps endings greeting offer password; simp)+

text \<open>Up to the message an error leaves what the invariant says.\<close>

lemma before_message:
  assumes "\<And>c. I c \<Longrightarrow> E c" and "triple I (writeInvitation srv (mailerFrom mailer) message) Q E"
    and "\<And>x. triple (Q x) (quit srv) R E"
  shows "triple I (Mailer_dialogue srv mailer message) R E"
proof -
  have early: "triple I m (\<lambda>_. I) E" if "steady I m" for m :: "(connection, go_error, 'b) eff"
    using that assms(1) unfolding steady_def triple_def by (fastforce split: sum.splits)
  show ?thesis unfolding Mailer_dialogue_def
    by (rule triple_andThen[OF early] triple_andThen[OF assms(2)] assms(3) phases steady_mapError | simp)+
qed

end

definition holding :: "db \<Rightarrow> invitation_message list \<Rightarrow> connection \<Rightarrow> bool" where
  "holding d mails c \<longleftrightarrow> w_db (connWorld c) = d \<and> w_mail (connWorld c) = mails"

interpretation holding: dialogue_invariant "holding d mails" for d mails
  by unfold_locales (simp_all add: holding_def)

definition handedOver :: "db \<Rightarrow> invitation_message list \<Rightarrow> invitation_message \<Rightarrow> connection \<Rightarrow> bool" where
  "handedOver d mails message c \<longleftrightarrow> holding d mails c \<or> holding d (mails @ [message]) c"

lemma finishData_handover:
  "triple (holding d mails) (finishData srv message) (\<lambda>_. holding d (mails @ [message])) (handedOver d mails message)"
  by (auto simp: triple_def holding_def handedOver_def finishData_def smtpStep_def deliver_def Let_def split: option.splits)

lemma writeInvitation_handover:
  "triple (holding d mails) (writeInvitation srv sender message) (\<lambda>_. holding d (mails @ [message])) (handedOver d mails message)"
proof -
  have early: "triple (holding d mails) m (\<lambda>_. holding d mails) (handedOver d mails message)" if "steady (holding d mails) m"
    for m :: "(connection, go_error, 'b) eff"
    using that unfolding steady_def triple_def handedOver_def by (fastforce split: sum.splits)
  have written: "steady (holding d mails) (smtpStep srv st)" for st
    by (auto simp: steady_def triple_def smtpStep_def Let_def holding_def split: option.splits)
  have failed: "triple (holding d mails) (andThen (attempt (finishData srv message)) (\<lambda>closed. fail (g closed)))
      Q (handedOver d mails message)" for g :: "go_error + unit \<Rightarrow> go_error" and Q :: "unit \<Rightarrow> connection \<Rightarrow> bool"
  proof (rule tripleI)
    fix c c' and r :: "go_error + unit"
    assume "holding d mails c" and run: "andThen (attempt (finishData srv message)) (\<lambda>closed. fail (g closed)) c = (r, c')"
    moreover obtain q c1 where "finishData srv message c = (q, c1)" by fastforce
    ultimately have "handedOver d mails message c1" "r = Inl (g q)" "c' = c1"
      using tripleD[OF finishData_handover, of d mails c srv message q c1]
      by (auto simp: andThen_def attempt_def fail_def handedOver_def split: sum.splits)
    then show "case r of Inl _ \<Rightarrow> handedOver d mails message c' | Inr x \<Rightarrow> Q x c'" by simp
  qed
  show ?thesis unfolding writeInvitation_def
    by (rule triple_andThen[OF early[OF steady_mapError[OF written]]],
        rule triple_andThen[OF early[OF steady_attempt[OF written]]])
      (auto split: sum.splits intro!: failed triple_mapError finishData_handover)
qed

lemma Mailer_dialogue_handover:
  "triple (holding d mails) (Mailer_dialogue srv mailer message) (\<lambda>_. holding d (mails @ [message])) (handedOver d mails message)"
proof (rule holding.before_message[OF _ writeInvitation_handover])
  show "triple (holding d (mails @ [message])) (quit srv) (\<lambda>_. holding d (mails @ [message])) (handedOver d mails message)"
    using holding.phases(7) unfolding steady_def triple_def handedOver_def by (fastforce split: sum.splits)
qed (simp add: handedOver_def)

text \<open>Success is what the server has acknowledged, whatever it answers to the goodbye.\<close>

definition unsent :: "connection \<Rightarrow> bool" where
  "unsent c \<longleftrightarrow> (\<forall>e \<in> set (connSteps c). \<not> delivering (fst e))"

interpretation unsent: dialogue_invariant unsent
  by unfold_locales (simp_all add: unsent_def)

definition messageAcknowledged :: "string \<Rightarrow> (smtp_step \<times> string option) list \<Rightarrow> bool" where
  "messageAcknowledged text trace \<longleftrightarrow> (WriteStep text, None) \<in> set trace \<and> (FinishStep, None) \<in> set trace"

definition endAccepted :: "connection \<Rightarrow> bool" where
  "endAccepted c \<longleftrightarrow> (\<forall>answer. (FinishStep, answer) \<in> set (connSteps c) \<longrightarrow> answer = None)"

lemma writeInvitation_acknowledged:
  "triple unsent (writeInvitation srv sender message)
     (\<lambda>_ c. messageAcknowledged (smtpInvitationMessage srv sender message) (connSteps c) \<and> endAccepted c)
     (\<lambda>c. \<not> messageAcknowledged (smtpInvitationMessage srv sender message) (connSteps c))"
  by (rule tripleI)
    (auto simp: writeInvitation_def finishData_def smtpStep_def Let_def andThen_def attempt_def mapError_def fail_def unsent_def
      messageAcknowledged_def endAccepted_def split: option.splits sum.splits prod.splits)

lemma quit_succeeds:
  "triple (\<lambda>c. messageAcknowledged text (connSteps c) \<and> endAccepted c) (quit srv) (\<lambda>_ c. messageAcknowledged text (connSteps c) \<and> endAccepted c)
     (\<lambda>c. \<not> messageAcknowledged text (connSteps c))"
  by (rule tripleI)
    (auto simp: quit_def smtpStep_def Let_def andThen_def attempt_def ret_def messageAcknowledged_def endAccepted_def split: option.splits)

lemma Mailer_dialogue_acknowledged:
  "triple unsent (Mailer_dialogue srv mailer message)
     (\<lambda>_ c. messageAcknowledged (smtpInvitationMessage srv (mailerFrom mailer) message) (connSteps c) \<and> endAccepted c)
     (\<lambda>c. \<not> messageAcknowledged (smtpInvitationMessage srv (mailerFrom mailer) message) (connSteps c))"
  by (rule unsent.before_message[OF _ writeInvitation_acknowledged quit_succeeds]) (auto simp: unsent_def messageAcknowledged_def)

lemma Mailer_run_effect:
  assumes "Mailer_run env p srv mailer message (newConnection w) = (r, c)"
  shows "w_db (connWorld c) = w_db w \<and> (w_mail (connWorld c) = w_mail w \<or> w_mail (connWorld c) = w_mail w @ [message])
    \<and> (r = Inr () \<longrightarrow> w_mail (connWorld c) = w_mail w @ [message])"
  using assms
proof (cases rule: Mailer_run_cases)
  case dialogue
  have "holding (w_db w) (w_mail w) (newConnection w)" by (simp add: holding_def newConnection_def)
  then show ?thesis using tripleD[OF Mailer_dialogue_handover _ dialogue]
    by (fastforce simp: handedOver_def holding_def split: sum.splits)
qed (simp add: newConnection_def)

lemma Mailer_Send_effect:
  assumes "Mailer_Send env p srv mailer message w = (r, w')"
  shows "w_db w' = w_db w \<and> (w_mail w' = w_mail w \<or> w_mail w' = w_mail w @ [message])
    \<and> (r = Inr () \<longrightarrow> w_mail w' = w_mail w @ [message])"
  using assms Mailer_run_effect[OF surjective_pairing, of env p srv mailer message w]
  by (auto simp: Mailer_Send_def split: prod.splits)

lemma Mailer_run_success:
  assumes "Mailer_run env p srv mailer message (newConnection w) = (r, c)"
  shows "(r = Inr () \<longleftrightarrow> messageAcknowledged (smtpInvitationMessage srv (mailerFrom mailer) message) (connSteps c))
    \<and> (r = Inr () \<longrightarrow> endAccepted c)"
  using assms
proof (cases rule: Mailer_run_cases)
  case dialogue
  have "unsent (newConnection w)" by (simp add: unsent_def newConnection_def)
  then show ?thesis using tripleD[OF Mailer_dialogue_acknowledged _ dialogue] by (cases r) auto
qed (simp add: newConnection_def messageAcknowledged_def)

text \<open>C31: A mail is handed over once: the mailer never touches the database and hands a message to the server at most once. It reports
  success exactly when the server has accepted the text of the message and its end, and then the message is handed over; a lost or
  refused answer to the end makes it report an error, and what the server answers to the goodbye makes no difference.\<close>

theorem mail_handed_over_once:
  assumes "Mailer_run env p srv mailer message (newConnection w) = (r, c)"
  shows "Mailer_Send env p srv mailer message w = (r, connWorld c)
    \<and> w_db (connWorld c) = w_db w \<and> (w_mail (connWorld c) = w_mail w \<or> w_mail (connWorld c) = w_mail w @ [message])
    \<and> (r = Inr () \<longleftrightarrow> messageAcknowledged (smtpInvitationMessage srv (mailerFrom mailer) message) (connSteps c))
    \<and> (r = Inr () \<longrightarrow> w_mail (connWorld c) = w_mail w @ [message])
    \<and> (\<forall>lost. (FinishStep, Some lost) \<in> set (connSteps c) \<longrightarrow> r \<noteq> Inr ())"
  using Mailer_run_effect[OF assms] Mailer_run_success[OF assms] assms by (auto simp: Mailer_Send_def endAccepted_def)

definition brokenGoodbye :: smtp_server where
  "brokenGoodbye = sampleServer\<lparr>smtpAnswer := (\<lambda>n st. if st = QuitStep then Some ''eof'' else None)\<rparr>"

lemma sample_goodbye:
  "\<exists>c. Mailer_run serviceEnv samplePorts brokenGoodbye sampleMailer sampleMessage (newConnection serviceWorld) = (Inr (), c)
     \<and> (QuitStep, Some ''eof'') \<in> set (connSteps c)"
proof -
  have ctx: "smtpContext brokenGoodbye = (\<lambda>n. None)" by (simp add: brokenGoodbye_def sampleServer_def)
  have goodbye: "smtpAnswer brokenGoodbye n QuitStep = Some ''eof''" "st \<noteq> QuitStep \<Longrightarrow> smtpAnswer brokenGoodbye n st = None"
    "smtpOffersTLS brokenGoodbye n" for n st
    by (simp_all add: brokenGoodbye_def sampleServer_def)
  show ?thesis unfolding sample_run[OF ctx sample_mailable] by (simp add: goodbye dialogue_eval sampleMessage_def)
qed

theorem mail_handed_over_once_witness:
  "\<exists>c :: connection. Mailer_Send serviceEnv samplePorts brokenGoodbye sampleMailer sampleMessage serviceWorld = (Inr (), connWorld c)
     \<and> w_mail (connWorld c) = w_mail serviceWorld @ [sampleMessage] \<and> (QuitStep, Some ''eof'') \<in> set (connSteps c)"
proof -
  obtain c where run: "Mailer_run serviceEnv samplePorts brokenGoodbye sampleMailer sampleMessage (newConnection serviceWorld) = (Inr (), c)"
    and quit: "(QuitStep, Some ''eof'') \<in> set (connSteps c)"
    using sample_goodbye by blast
  show ?thesis using mail_handed_over_once[OF run] quit by (intro exI[of _ c]) simp
qed

end
