(* ===== verification/WorkerProperties.thy ===== *)
theory WorkerProperties imports Worker MailProperties LocalizationProperties begin

text \<open>
  What the worker guarantees: draining the outbox ends, a job is mailed only under its lease and to the address of its
  invitation, and the link in the mail carries the token whose hash the invitation stores.
\<close>

subsection \<open>The backlog\<close>

text \<open>The attempts a job has left: at least one while it is unfinished, since an expired lease is claimed again.\<close>

definition jobBudget :: "outbox_row \<Rightarrow> nat" where
  "jobBudget r = (if jobFinished r then 0 else max 1 (nat (outboxMaximumAttempts - o_attempts r)))"

definition backlog :: "db \<Rightarrow> nat" where
  "backlog d = sum_list (map jobBudget (outbox d))"

lemma sum_updateWhere_le:
  assumes "\<forall>r \<in> set rows. P r \<longrightarrow> b (f r) \<le> (b r :: nat)"
  shows "sum_list (map b (updateWhere P f rows)) \<le> sum_list (map b rows)"
  using assms by (induction rows) (auto simp: updateWhere_def add_mono)

lemma sum_updateWhere_less:
  assumes "\<forall>r \<in> set rows. P r \<longrightarrow> b (f r) < (b r :: nat)" and "r \<in> set rows" and "P r"
  shows "sum_list (map b (updateWhere P f rows)) < sum_list (map b rows)"
  using assms
proof (induction rows)
  case (Cons x xs)
  have le: "sum_list (map b (updateWhere P f xs)) \<le> sum_list (map b xs)"
    by (rule sum_updateWhere_le) (use Cons.prems(1) in \<open>auto intro: less_imp_le\<close>)
  show ?case
  proof (cases "P x")
    case True
    then have "b (f x) < b x" using Cons.prems(1) by simp
    then show ?thesis using le True by (simp add: updateWhere_def)
  next
    case False
    then have "r \<in> set xs" using Cons.prems(2,3) by auto
    then show ?thesis using Cons False by (simp add: updateWhere_def)
  qed
qed simp

subsection \<open>Errors that are not a lost lease\<close>

abbreviation lost :: "go_error \<Rightarrow> bool" where "lost \<equiv> isDomain ErrorLeaseLost"

definition neverLost :: "(world, go_error, 'a) eff \<Rightarrow> bool" where
  "neverLost m \<longleftrightarrow> (\<forall>w err w'. m w = (Inl err, w') \<longrightarrow> \<not> lost err)"

named_theorems neverLost_rules

lemma lost_faultError [simp]: "\<not> lost (faultError flt)"
  by (cases flt) simp_all

lemma neverLost_andThen [neverLost_rules]:
  "neverLost m \<Longrightarrow> (\<And>x. neverLost (f x)) \<Longrightarrow> neverLost (andThen m f)"
  by (auto simp: neverLost_def andThen_Inl) metis

lemma neverLost_wrapped [neverLost_rules]: "neverLost m \<Longrightarrow> neverLost (mapError (Wrapped msg) m)"
  unfolding neverLost_def mapError_Inl using isDomain.simps(2) by blast

lemma neverLost_basic [neverLost_rules]:
  "neverLost (ret x)" "neverLost (newUUID env)" "neverLost (setConfig env key v)"
  by (auto simp: neverLost_def ret_def newUUID_def setConfig_def split: option.splits)

lemma neverLost_if [neverLost_rules]:
  "(b \<Longrightarrow> neverLost m) \<Longrightarrow> (\<not> b \<Longrightarrow> neverLost n) \<Longrightarrow> neverLost (if b then m else n)"
  by simp

definition plainTable :: "'r table \<Rightarrow> bool" where
  "plainTable tbl \<longleftrightarrow> (\<forall>env d others r. \<forall>(v, e) \<in> set (constraints tbl env d others r). \<not> lost e \<and> \<not> isNoRows e)"

lemma plain_rowViolation:
  assumes "plainTable tbl" and "rowViolation env tbl d others r = Some err"
  shows "\<not> lost err \<and> \<not> isNoRows err"
proof -
  have "err \<in> snd ` set cs" if "firstViolation cs = Some err" for cs :: "(bool \<times> go_error) list"
    using that by (induction cs rule: firstViolation.induct) (auto split: if_splits)
  then show ?thesis using assms unfolding rowViolation_def plainTable_def by fastforce
qed

lemma plain_firstRowViolation:
  assumes "plainTable tbl" and "firstRowViolation (\<lambda>r. rowViolation env tbl d (others r) r) rs = Some err"
  shows "\<not> lost err \<and> \<not> isNoRows err"
  using assms(2) by (induction rs) (auto split: option.splits dest: plain_rowViolation[OF assms(1)])

lemma plain_faultError: "\<not> lost (faultError flt) \<and> \<not> isNoRows (faultError flt)"
  by (cases flt) simp_all

lemma plain_updateTable:
  assumes "plainTable tbl" and "updateTable env tbl P f w = (Inl err, w')"
  shows "\<not> lost err \<and> \<not> isNoRows err"
  using assms(2) plain_firstRowViolation[OF assms(1)] plain_faultError unfolding updateTable_def statement_Inl Let_def
  by (fastforce simp: rlsViolation_def split: if_splits option.splits)

lemma plain_insertInto:
  assumes "plainTable tbl" and "insertInto env tbl mk w = (Inl err, w')"
  shows "\<not> lost err \<and> \<not> isNoRows err"
  using assms(2) plain_rowViolation[OF assms(1)] plain_faultError unfolding insertInto_def statement_Inl Let_def
  by (fastforce simp: rlsViolation_def split: if_splits option.splits)

lemma plain_tables: "plainTable outboxTable" "plainTable invitationsTable" "plainTable auditTable"
  by (simp_all add: plainTable_def table_defs)

lemma neverLost_tables [neverLost_rules]:
  "neverLost (updateTable env outboxTable P f)" "neverLost (updateTable env invitationsTable Q g)"
  "neverLost (insertInto env auditTable mk)"
  using plain_updateTable plain_insertInto plain_tables unfolding neverLost_def by blast+

lemma neverLost_steps [neverLost_rules]:
  "neverLost (updateDelivery env iid status)" "neverLost (insertAuditEvent env event)"
  unfolding updateDelivery_def insertAuditEvent_def by (intro neverLost_rules)+

lemma systemTx_error:
  assumes "withSystemTx env m w = (Inl err, w')"
  obtains "\<not> lost err" | w1 w2 where "m w1 = (Inl err, w2)" "w_bypass_rls w1 = ''true''" "w_db w1 = w_db w"
proof -
  let ?set = "mapError (Wrapped ''set transaction context'') (setConfig env systemSettingKey ''true'')"
  let ?w0 = "(tick w)\<lparr>w_now := pgTime (e_clock env (w_tick w))\<rparr>"
  have setting: "neverLost ?set" by (intro neverLost_rules)
  from assms consider "\<not> lost err" | w2 where "andThen ?set (\<lambda>_. m) ?w0 = (Inl err, w2)"
    unfolding withSystemTx_def withSettingTx_def beginFunc_def
    by (auto split: option.splits prod.splits sum.splits commit_outcome.splits)
  then show ?thesis
  proof cases
    case 2
    then consider "?set ?w0 = (Inl err, w2)" | w1 where "?set ?w0 = (Inr (), w1)" "m w1 = (Inl err, w2)"
      unfolding andThen_Inl by auto
    then show ?thesis
    proof cases
      case 1
      then show ?thesis using setting that(1) unfolding neverLost_def by blast
    next
      case 2
      from 2(1) have "w_bypass_rls w1 = ''true'' \<and> w_db w1 = w_db w"
        by (auto simp: mapError_Inr dest!: setConfig_cases)
      then show ?thesis using 2(2) that(2) by blast
    qed
  qed (rule that(1))
qed

text \<open>A transaction loses no lease when no row that its first statement needs is missing.\<close>

lemma leased_never_lost:
  assumes run: "withSystemTx env (andThen (mapError (leaseLost msg) (updateReturning env outboxTable (leasedJob job) f)) k) w = (Inl err, w')"
    and rest: "\<And>x. neverLost (k x)"
    and leased: "r \<in> set (outbox (w_db w))" "\<And>now. leasedJob job now r"
  shows "\<not> lost err"
proof -
  let ?first = "mapError (leaseLost msg) (updateReturning env outboxTable (leasedJob job) f)"
  have first: "\<not> lost e" if "?first w1 = (Inl e, w2)" "w_bypass_rls w1 = ''true''" "w_db w1 = w_db w" for e w1 w2
  proof -
    note first_run = that(1)
    have "updateTable env outboxTable (leasedJob job) f w1 \<noteq> (Inr [], w3)" for w3
    proof
      assume "updateTable env outboxTable (leasedJob job) f w1 = (Inr [], w3)"
      from conjunct1[OF updated_rows[OF this]]
      have "filter (\<lambda>r. policy outboxTable w1 r \<and> leasedJob job (w_now w1) r) (outbox (w_db w1)) = []" by simp
      then show False using leased that(2,3)
        by (auto simp: filter_empty_conv tenantVisible_def bypassesRLS_def)
    qed
    moreover obtain e0 where "updateReturning env outboxTable (leasedJob job) f w1 = (Inl e0, w2)" "e = leaseLost msg e0"
      using first_run[unfolded mapError_Inl] by blast
    ultimately have "\<not> lost e0 \<and> \<not> isNoRows e0" "e = leaseLost msg e0"
      unfolding updateReturning_NoRows using plain_updateTable[OF plain_tables(1)] by blast+
    then show ?thesis by (simp add: leaseLost_def)
  qed
  from run show ?thesis
  proof (cases rule: systemTx_error)
    case (2 w1 w2)
    from 2(1) consider "?first w1 = (Inl err, w2)" | x w3 where "k x w3 = (Inl err, w2)"
      unfolding andThen_Inl by blast
    then show ?thesis using first 2(2,3) rest unfolding neverLost_def by cases blast+
  qed
qed


subsection \<open>Claiming\<close>

text \<open>A row leased to a job: what the completion of the job looks for.\<close>

definition leasedRow :: "outbox_job \<Rightarrow> outbox_row \<Rightarrow> bool" where
  "leasedRow job r \<longleftrightarrow>
     o_id r = jobID job \<and> o_lease_token r = Some (jobLeaseToken job) \<and> o_status r = OutboxProcessing
     \<and> o_attempts r = jobAttempts job \<and> o_invitation r = jobInvitationID job"

lemma leasedRow_leasedJob: "leasedRow job r \<Longrightarrow> leasedJob job now r"
  by (simp add: leasedRow_def leasedJob_def)

definition claimed :: "time \<Rightarrow> outbox_job \<Rightarrow> invitation \<Rightarrow> db \<Rightarrow> db \<Rightarrow> bool" where
  "claimed now job i d d' \<longleftrightarrow>
     (\<exists>r \<in> set (outbox d). \<exists>token. \<exists>row \<in> set (invitations d).
        claimable now r \<and> job = scanJob (leaseJob token now r) \<and> i_id row = o_invitation r \<and> i = scanInvitation row
        \<and> d' = d\<lparr>outbox := updateWhere (\<lambda>x. o_id x = o_id r) (leaseJob token now) (outbox d)\<rparr>)"

lemma claimJob_Inr:
  assumes "claimJob env token w = (Inr x, w')" and "w_bypass_rls w = ''true''"
  obtains r where "r \<in> set (outbox (w_db w))" "claimable (w_now w) r"
    and "w_db w' = (w_db w)\<lparr>outbox := updateWhere (\<lambda>x. o_id x = o_id r) (leaseJob token (w_now w)) (outbox (w_db w))\<rparr>"
    and "\<exists>y \<in> set (outbox (w_db w)). o_id y = o_id r \<and> x = leaseJob token (w_now w) y"
    and "w_bypass_rls w' = ''true''" "w_now w' = w_now w"
proof -
  let ?P = "\<lambda>now r. case claimCandidate env w of None \<Rightarrow> False | Some c \<Rightarrow> o_id r = o_id c"
  obtain rs where upd: "updateTable env outboxTable ?P (leaseJob token) w = (Inr (x # rs), w')"
    using assms(1) unfolding claimJob_def updateReturning_Inr by blast
  note facts = upd[unfolded updateTable_Inr]
  have all: "policy outboxTable w r" for r
    using assms(2) by (simp add: tenantVisible_def bypassesRLS_def)
  have "x \<in> set (map (leaseJob token (w_now w)) (filter (\<lambda>r. ?P (w_now w) r) (outbox (w_db w))))"
    using conjunct1[OF conjunct2[OF facts]] all list.set_intros(1)[of x rs] by simp
  then obtain y c where y: "y \<in> set (outbox (w_db w))" "x = leaseJob token (w_now w) y"
    and c: "claimCandidate env w = Some c" "o_id y = o_id c"
    by (auto split: option.splits)
  have "c \<in> set (outbox (w_db w)) \<and> claimable (w_now w) c"
    using c(1) by (auto simp: claimCandidate_def visibleRows_def dest!: firstRow_Some)
  moreover have "w_db w' = (w_db w)\<lparr>outbox := updateWhere (\<lambda>x. o_id x = o_id c) (leaseJob token (w_now w)) (outbox (w_db w))\<rparr>
      \<and> w_bypass_rls w' = ''true'' \<and> w_now w' = w_now w"
    using facts all c(1) assms(2) by simp
  ultimately show ?thesis using that y c(2) by blast
qed

lemma claim_Inr:
  assumes "ClaimInvitationEmail env w = (Inr (job, i), w')" and "keysDistinct (w_db w)" and "jobID job \<noteq> []"
  shows "claimed (pgTime (e_clock env (w_tick w))) job i (w_db w) (w_db w')"
proof -
  have "withSystemTx env (claimInvitationTx env) w = (Inr (job, i), w')"
  proof -
    obtain q w1 where q: "withSystemTx env (claimInvitationTx env) w = (q, w1)" by fastforce
    show ?thesis using assms(1,3) q
      by (cases q) (auto simp: ClaimInvitationEmail_def andThen_def attempt_def ret_def fail_def zeroJob_def split: if_splits)
  qed
  then obtain w1 w2 where enter: "enteredTx env System w w1" and run: "claimInvitationTx env w1 = (Inr (job, i), w2)"
    and db: "w_db w' = w_db w2"
    by (cases rule: systemTx_cases) auto
  from run obtain token x w3 w4 where claim: "claimJob env token (tick w1) = (Inr x, w3)" and job: "job = scanJob x"
    and found: "queryRow env (\<lambda>w. map_option scanInvitation (List.find (\<lambda>i. i_id i = jobInvitationID job) (visibleRows invitationsTable w))) w3 = (Inr i, w4)"
    and w2: "w2 = w4"
    unfolding claimInvitationTx_def by (auto simp: andThen_Inr newUUID_Inr ret_eq)
  have w1: "w_bypass_rls (tick w1) = ''true''" "w_db (tick w1) = w_db w" "w_now (tick w1) = pgTime (e_clock env (w_tick w))"
    using enter by (auto simp: enteredTx_def)
  obtain r where r: "r \<in> set (outbox (w_db w))" "claimable (w_now (tick w1)) r"
    and new: "w_db w3 = (w_db w)\<lparr>outbox := updateWhere (\<lambda>x. o_id x = o_id r) (leaseJob token (w_now (tick w1))) (outbox (w_db w))\<rparr>"
    and changed: "\<exists>y \<in> set (outbox (w_db w)). o_id y = o_id r \<and> x = leaseJob token (w_now (tick w1)) y"
    by (rule claimJob_Inr[OF claim w1(1), unfolded w1(2)]) blast
  from changed obtain y where y: "y \<in> set (outbox (w_db w))" "o_id y = o_id r" "x = leaseJob token (w_now (tick w1)) y" by blast
  have "y = r" using y r assms(2) by (auto simp: keysDistinct_def intro: distinct_key_unique)
  obtain row where row: "List.find (\<lambda>i. i_id i = jobInvitationID job) (visibleRows invitationsTable w3) = Some row" "i = scanInvitation row"
    and w4: "w_db w4 = w_db w3"
    using found by (auto simp: queryRow_Inr)
  have "row \<in> set (invitations (w_db w))" "i_id row = o_invitation r"
    using find_Some_member[OF row(1)] new job y(3) \<open>y = r\<close> by (auto simp: visibleRows_def scanJob_def leaseJob_def)
  then show ?thesis unfolding claimed_def
    using r new job y(3) \<open>y = r\<close> row(2) w1(3) db w2 w4 by (intro bexI[of _ r] exI[of _ token] bexI[of _ row]) auto
qed

lemma claimed_leasedRow:
  "claimed now job i d d' \<Longrightarrow> \<exists>r \<in> set (outbox d'). leasedRow job r \<and> (\<exists>row \<in> set (invitations d'). i_id row = o_invitation r \<and> i = scanInvitation row)"
proof -
  assume "claimed now job i d d'"
  then obtain r token row where r: "r \<in> set (outbox d)" "job = scanJob (leaseJob token now r)"
    and row: "row \<in> set (invitations d)" "i_id row = o_invitation r" "i = scanInvitation row"
    and d': "d' = d\<lparr>outbox := updateWhere (\<lambda>x. o_id x = o_id r) (leaseJob token now) (outbox d)\<rparr>"
    unfolding claimed_def by blast
  have "leaseJob token now r \<in> set (outbox d')" using r(1) by (auto simp: d' set_updateWhere)
  moreover have "leasedRow job (leaseJob token now r)" by (simp add: r(2) scanJob_def leaseJob_def leasedRow_def)
  ultimately show ?thesis using row by (intro bexI[of _ "leaseJob token now r"]) (auto simp: d' leaseJob_def)
qed

lemma jobBudget_lease: "\<not> jobFinished r \<Longrightarrow> jobBudget (leaseJob token now r) \<le> jobBudget r"
  "\<not> jobFinished r \<Longrightarrow> o_attempts r + 1 < outboxMaximumAttempts \<Longrightarrow> jobBudget (leaseJob token now r) < jobBudget r"
  by (auto simp: jobBudget_def leaseJob_def jobFinished_def outboxMaximumAttempts_def max_def)

lemma claimed_backlog:
  assumes "claimed now job i d d'" and "keysDistinct d"
  shows "backlog d' \<le> backlog d \<and> (jobAttempts job < outboxMaximumAttempts \<longrightarrow> backlog d' < backlog d)"
proof -
  obtain r token where r: "r \<in> set (outbox d)" "claimable now r" "job = scanJob (leaseJob token now r)"
    and new: "outbox d' = updateWhere (\<lambda>x. o_id x = o_id r) (leaseJob token now) (outbox d)"
    using assms(1) unfolding claimed_def by auto
  have only: "x = r" if "x \<in> set (outbox d)" "o_id x = o_id r" for x
    using that r(1) assms(2) by (auto simp: keysDistinct_def intro: distinct_key_unique)
  have unfinished: "\<not> jobFinished r" using r(2) by (auto simp: claimable_def jobFinished_def)
  have "backlog d' \<le> backlog d"
    unfolding backlog_def new by (rule sum_updateWhere_le) (use only jobBudget_lease(1)[OF unfinished] in blast)
  moreover have "backlog d' < backlog d" if "jobAttempts job < outboxMaximumAttempts"
  proof -
    have "o_attempts r + 1 < outboxMaximumAttempts" using that r(3) by (simp add: scanJob_def leaseJob_def)
    then show ?thesis unfolding backlog_def new
      by (intro sum_updateWhere_less[OF _ r(1)]) (use only jobBudget_lease(2)[OF unfinished] in blast)+
  qed
  ultimately show ?thesis by blast
qed


subsection \<open>Finishing a job\<close>

definition sameOutbox :: "world \<Rightarrow> world \<Rightarrow> bool" where
  "sameOutbox w w' \<longleftrightarrow> outbox (w_db w') = outbox (w_db w)"

interpretation sameOutbox: world_relation "\<lambda>_. True" sameOutbox
  by unfold_locales (auto simp: sameOutbox_def)

lemma sameOutbox_rest:
  "keeps (\<lambda>_. True) sameOutbox (updateDelivery env iid status)"
  "keeps (\<lambda>_. True) sameOutbox (insertAuditEvent env event)"
  unfolding updateDelivery_def insertAuditEvent_def
  by (intro sameOutbox.control keeps_if sameOutbox.updateTable sameOutbox.insertInto; simp add: sameOutbox_def)+

lemma leased_update:
  assumes "updateReturning env outboxTable (leasedJob job) f w = (Inr x, w')" and "w_bypass_rls w = ''true''"
  obtains r where "r \<in> set (outbox (w_db w))" "leasedJob job (w_now w) r"
    and "outbox (w_db w') = updateWhere (leasedJob job (w_now w)) (f (w_now w)) (outbox (w_db w))"
proof -
  obtain rs where upd: "updateTable env outboxTable (leasedJob job) f w = (Inr (x # rs), w')"
    using assms(1) unfolding updateReturning_Inr by blast
  note facts = upd[unfolded updateTable_Inr]
  have all: "policy outboxTable w r" for r using assms(2) by (simp add: tenantVisible_def bypassesRLS_def)
  have "x \<in> set (map (f (w_now w)) (filter (leasedJob job (w_now w)) (outbox (w_db w))))"
    using conjunct1[OF conjunct2[OF facts]] all list.set_intros(1)[of x rs] by simp
  then obtain r where "r \<in> set (outbox (w_db w))" "leasedJob job (w_now w) r" by auto
  moreover have "outbox (w_db w') = updateWhere (leasedJob job (w_now w)) (f (w_now w)) (outbox (w_db w))"
    using facts all by simp
  ultimately show ?thesis using that by blast
qed

lemma finishing_tx:
  assumes run: "withSystemTx env (andThen (mapError h (updateReturning env outboxTable (leasedJob job) f)) k) w = (Inr y, w')"
    and rest: "\<And>x. keeps (\<lambda>_. True) sameOutbox (k x)"
  obtains r now where "r \<in> set (outbox (w_db w))" "leasedJob job now r"
    and "outbox (w_db w') = updateWhere (leasedJob job now) (f now) (outbox (w_db w))"
proof -
  obtain w1 w2 where enter: "enteredTx env System w w1" and db: "w_db w' = w_db w2"
    and op: "andThen (mapError h (updateReturning env outboxTable (leasedJob job) f)) k w1 = (Inr y, w2)"
    using run by (cases rule: systemTx_cases) auto
  obtain x w3 where upd: "updateReturning env outboxTable (leasedJob job) f w1 = (Inr x, w3)" and k: "k x w3 = (Inr y, w2)"
    using op unfolding andThen_Inr mapError_Inr by blast
  have "w_bypass_rls w1 = ''true''" "w_db w1 = w_db w" using enter by (auto simp: enteredTx_def)
  moreover have "outbox (w_db w2) = outbox (w_db w3)" using keepsD[OF rest _ k] by (simp add: sameOutbox_def)
  ultimately show ?thesis using leased_update[OF upd] that db by metis
qed

lemma jobBudget_finish:
  "leasedJob job now r \<Longrightarrow> jobBudget (completeJob t r) < jobBudget r"
  "leasedJob job now r \<Longrightarrow> jobBudget (deadLetterJob msg t r) < jobBudget r"
  "leasedJob job now r \<Longrightarrow> jobBudget (retryJob at msg t r) = jobBudget r"
  by (auto simp: jobBudget_def leasedJob_def jobFinished_def completeJob_def deadLetterJob_def retryJob_def)

lemma Complete_backlog:
  assumes "Complete env job w = (Inr u, w')"
  shows "backlog (w_db w') < backlog (w_db w)"
proof -
  have "withSystemTx env (completeTx env job) w = (Inr u, w')"
    using assms by (auto simp: Complete_def fail_eq split: if_splits)
  then obtain r now where r: "r \<in> set (outbox (w_db w))" "leasedJob job now r"
    and new: "outbox (w_db w') = updateWhere (leasedJob job now) (completeJob now) (outbox (w_db w))"
    unfolding completeTx_def by (rule finishing_tx[OF _ sameOutbox_rest(1)])
  show ?thesis unfolding backlog_def new
    by (rule sum_updateWhere_less[OF _ r(1), where P = "leasedJob job now", OF _ r(2)]) (use jobBudget_finish(1) in blast)
qed

lemma Retry_backlog:
  assumes "Retry env job cause w = (Inr u, w')"
  shows "backlog (w_db w') \<le> backlog (w_db w) \<and> (outboxMaximumAttempts \<le> jobAttempts job \<longrightarrow> backlog (w_db w') < backlog (w_db w))"
proof -
  obtain msg where cause: "cause = Some msg" using assms by (cases cause) (auto simp: Retry_def fail_eq)
  show ?thesis
  proof (cases "outboxMaximumAttempts \<le> jobAttempts job")
    case True
    then have "deadLetter env job msg w = (Inr u, w')"
      using assms cause by (auto simp: Retry_def fail_eq split: if_splits)
    then obtain r now where r: "r \<in> set (outbox (w_db w))" "leasedJob job now r"
      and new: "outbox (w_db w') = updateWhere (leasedJob job now) (deadLetterJob msg now) (outbox (w_db w))"
      unfolding deadLetter_def
      by (rule finishing_tx) (auto intro!: sameOutbox.andThen sameOutbox.mapError sameOutbox_rest)
    have "backlog (w_db w') < backlog (w_db w)" unfolding backlog_def new
      by (rule sum_updateWhere_less[OF _ r(1), where P = "leasedJob job now", OF _ r(2)]) (use jobBudget_finish(2) in blast)
    then show ?thesis by simp
  next
    case False
    then obtain at w1 where "withSystemTx env (retryTx env job at msg) w1 = (Inr u, w')" "w_db w1 = w_db w"
      using assms cause by (auto simp: Retry_def fail_eq andThen_Inr goNow_Inr split: if_splits)
    then have tx: "withSystemTx env (retryTx env job at msg) w1 = (Inr u, w')" and w1: "w_db w1 = w_db w" by auto
    obtain now where new: "outbox (w_db w') = updateWhere (leasedJob job now) (retryJob at msg now) (outbox (w_db w))"
      by (rule finishing_tx[OF tx[unfolded retryTx_def] sameOutbox_rest(1)]) (use w1 in auto)
    have "backlog (w_db w') \<le> backlog (w_db w)" unfolding backlog_def new
      by (rule sum_updateWhere_le) (simp add: jobBudget_finish(3))
    then show ?thesis using False by simp
  qed
qed

lemma Complete_not_lost:
  assumes "Complete env job w = (Inl err, w')" and "r \<in> set (outbox (w_db w))" and "leasedRow job r"
  shows "\<not> lost err"
proof (cases "withSystemTx env (completeTx env job) w = (Inl err, w')")
  case True
  then show ?thesis unfolding completeTx_def
    by (rule leased_never_lost) (use assms leasedRow_leasedJob neverLost_steps in auto)
next
  case False
  then show ?thesis using assms(1) by (auto simp: Complete_def fail_eq split: if_splits)
qed

lemma Retry_not_lost:
  assumes "Retry env job cause w = (Inl err, w')" and "r \<in> set (outbox (w_db w))" and "leasedRow job r"
  shows "\<not> lost err"
proof -
  consider "\<not> lost err" | msg where "deadLetter env job msg w = (Inl err, w')"
    | at msg where "withSystemTx env (retryTx env job at msg) (tick w) = (Inl err, w')"
    using assms(1) by (auto simp: Retry_def fail_eq andThen_Inl goNow_Inr goNow_Inl split: option.splits if_splits)
  then show ?thesis
  proof cases
    case 2
    then show ?thesis unfolding deadLetter_def
      by (rule leased_never_lost) (use assms leasedRow_leasedJob in \<open>auto intro!: neverLost_rules\<close>)
  next
    case 3
    then show ?thesis unfolding retryTx_def
      by (rule leased_never_lost) (use assms leasedRow_leasedJob neverLost_steps in auto)
  qed
qed


subsection \<open>One run\<close>

text \<open>The mailer of a worker hands a message over at most once, and mailer and message catalog leave the database alone,
  as those of the program do.\<close>

definition quietWorker :: "worker \<Rightarrow> bool" where
  "quietWorker wk \<longleftrightarrow>
     (\<forall>message w r w'. workerMailer wk message w = (r, w') \<longrightarrow>
         w_db w' = w_db w \<and> (w_mail w' = w_mail w \<or> w_mail w' = w_mail w @ [message]))
     \<and> keeps (\<lambda>_. True) untouched (mcDefaultLocale (workerMessages wk))
     \<and> (\<forall>loc key. keeps (\<lambda>_. True) untouched (mcMessage (workerMessages wk) loc key))"

lemma initializeWorker_quiet:
  assumes "initializeWorker env p srv mailConfig tokenSecret inviteBaseURL = Inr wk"
  shows "quietWorker wk \<and> workerTokenSecret wk = tokenSecret \<and> newInvitationLinkBuilder p inviteBaseURL = Inr (workerLinks wk)
    \<and> workerMessages wk = productMessages env"
proof -
  obtain mailer where "workerMailer wk = Mailer_Send env p srv mailer" "workerMessages wk = productMessages env"
    "workerTokenSecret wk = tokenSecret" "newInvitationLinkBuilder p inviteBaseURL = Inr (workerLinks wk)"
    using assms by (auto simp: initializeWorker_def NewInvitationWorker_def NewInvitationTokenSigner_def split: sum.splits if_splits)
  moreover have "keeps (\<lambda>_. True) untouched (ret x)" for x :: string by (intro untouched_rules)
  ultimately show ?thesis
    using Mailer_Send_effect untouched_Message unfolding quietWorker_def productMessages_def by auto
qed

lemma untouched_invitationMessage:
  assumes "quietWorker wk"
  shows "keeps (\<lambda>_. True) untouched (Worker_invitationMessage wk i)"
  using assms unfolding Worker_invitationMessage_def Worker_localizedMessage_def quietWorker_def
  by (auto intro!: untouched_rules)

lemma ignoreLeaseLost_Inr:
  assumes "ignoreLeaseLost wrap m w = (Inr u, w')"
  obtains "m w = (Inr (), w')" | err where "m w = (Inl err, w')" "lost err"
  using assms by (cases "fst (m w)") (auto simp: ignoreLeaseLost_def andThen_def attempt_def ret_def fail_def
      split: prod.splits if_splits)

text \<open>What the second half of a run does with a leased job: it gets smaller than before its claim.\<close>

lemma retry_after_claim:
  assumes "Worker_retry env rt job cause w2 = (Inr u, w')" and "r \<in> set (outbox (w_db w2))" and "leasedRow job r"
    and "backlog (w_db w2) \<le> n" and "jobAttempts job < outboxMaximumAttempts \<longrightarrow> backlog (w_db w2) < n"
  shows "backlog (w_db w') < n"
  using assms(1) unfolding Worker_retry_def
proof (cases rule: ignoreLeaseLost_Inr)
  case 1
  then show ?thesis using Retry_backlog[OF 1] assms(4,5) by linarith
next
  case 2
  then show ?thesis using Retry_not_lost[OF 2(1) assms(2,3)] by simp
qed

lemma complete_after_claim:
  assumes "Worker_complete env job w2 = (Inr u, w')" and "r \<in> set (outbox (w_db w2))" and "leasedRow job r"
    and "backlog (w_db w2) \<le> n"
  shows "backlog (w_db w') < n"
  using assms(1) unfolding Worker_complete_def
proof (cases rule: ignoreLeaseLost_Inr)
  case 1
  then show ?thesis using Complete_backlog[OF 1] assms(4) by linarith
next
  case 2
  then show ?thesis using Complete_not_lost[OF 2(1) assms(2,3)] by simp
qed

lemma Worker_RunOnce_claimed:
  assumes "Worker_RunOnce env rt wk w = (Inr True, w')"
  obtains job i w1 where "ClaimInvitationEmail env w = (Inr (job, i), w1)" "jobID job \<noteq> []"
    "Worker_deliver env rt wk job i w1 = (Inr (), w')"
  using assms unfolding Worker_RunOnce_def
  by (auto simp: andThen_Inr mapError_Inr ret_eq split: if_splits)

lemma Worker_deliver_shrinks:
  assumes run: "Worker_deliver env rt wk job i w1 = (Inr u, w')" and quiet: "quietWorker wk"
    and leased: "r \<in> set (outbox (w_db w1))" "leasedRow job r"
    and n: "backlog (w_db w1) \<le> n" "jobAttempts job < outboxMaximumAttempts \<longrightarrow> backlog (w_db w1) < n"
  shows "backlog (w_db w') < n"
proof (cases "invitationToken (workerTokenSecret wk) i")
  case (Inl err)
  then show ?thesis using run retry_after_claim[OF _ leased n] by (auto simp: Worker_deliver_def)
next
  case (Inr token)
  let ?i = "i\<lparr>acceptanceURL := invitationURL (workerLinks wk) token\<rparr>"
  obtain rendered w2 where msg: "Worker_invitationMessage wk ?i w1 = (rendered, w2)" by fastforce
  have db2: "w_db w2 = w_db w1" using untouchedD[OF untouched_invitationMessage[OF quiet] msg] .
  show ?thesis
  proof (cases rendered)
    case (Inl err)
    then have "Worker_retry env rt job err w2 = (Inr u, w')"
      using run Inr msg by (simp add: Worker_deliver_def andThen_def attempt_def)
    then show ?thesis by (rule retry_after_claim) (use leased n db2 in auto)
  next
    case (Inr message)
    obtain sent w3 where send: "workerMailer wk message w2 = (sent, w3)" by fastforce
    have db3: "w_db w3 = w_db w1"
      using send quiet db2 unfolding quietWorker_def by metis
    show ?thesis
    proof (cases sent)
      case (Inl err)
      then have "Worker_retry env rt job (Wrapped ''send invitation email'' err) w3 = (Inr u, w')"
        using run \<open>invitationToken _ _ = _\<close> msg Inr send by (simp add: Worker_deliver_def andThen_def attempt_def)
      then show ?thesis by (rule retry_after_claim) (use leased n db3 in auto)
    next
      case (Inr v)
      then have "Worker_complete env job w3 = (Inr u, w')"
        using run \<open>invitationToken _ _ = _\<close> msg \<open>rendered = _\<close> send by (simp add: Worker_deliver_def andThen_def attempt_def)
      then show ?thesis by (rule complete_after_claim) (use leased n db3 in auto)
    qed
  qed
qed

lemma Worker_RunOnce_shrinks:
  assumes "Worker_RunOnce env rt wk w = (Inr True, w')" and "keysDistinct (w_db w)" and "quietWorker wk"
  shows "backlog (w_db w') < backlog (w_db w)"
  using assms(1)
proof (cases rule: Worker_RunOnce_claimed)
  case (1 job i w1)
  note claimed = claim_Inr[OF 1(1) assms(2) 1(2)]
  obtain r where "r \<in> set (outbox (w_db w1))" "leasedRow job r" using claimed_leasedRow[OF claimed] by blast
  then show ?thesis using Worker_deliver_shrinks[OF 1(3) assms(3)] claimed_backlog[OF claimed assms(2)] by blast
qed


subsection \<open>Draining ends\<close>

lemma quiet_outTx: "keeps (\<lambda>_. True) untouched m \<Longrightarrow> keeps outCtx (outTx env s) m"
  by (auto simp: keeps_def untouched_def outTx_def)

lemma Worker_finish_steps:
  "keeps outCtx (outTx env System) (Worker_retry env rt job cause)" "keeps outCtx (outTx env System) (Worker_complete env job)"
  unfolding Worker_retry_def Worker_complete_def ignoreLeaseLost_def
  by (intro keeps_rules Retry_steps Complete_steps)+

lemma Worker_RunOnce_steps:
  assumes "quietWorker wk"
  shows "keeps outCtx (outTx env System) (Worker_RunOnce env rt wk)"
proof -
  have mailer: "keeps outCtx (outTx env System) (workerMailer wk message)" for message
    using assms unfolding quietWorker_def keeps_def outTx_def by (metis rtranclp.rtrancl_refl)
  show ?thesis unfolding Worker_RunOnce_def Worker_deliver_def
    by (intro keeps_rules ClaimInvitationEmail_steps Worker_finish_steps mailer
        quiet_outTx[OF untouched_invitationMessage[OF assms]])
qed

lemma Worker_RunOnce_keysDistinct:
  assumes "Worker_RunOnce env rt wk w = (r, w')" and "keysDistinct (w_db w)" and "quietWorker wk"
  shows "keysDistinct (w_db w')"
  using keepsD[OF Worker_RunOnce_steps[OF assms(3)] _ assms(1)] assms(2)
  by (auto simp: outCtx_def outTx_def dest: keysDistinct_steps)

lemma Worker_drain_returns:
  assumes "keysDistinct (w_db w)" and "quietWorker wk"
  shows "\<exists>r w'. Worker_drain env rt wk w = Some (r, w') \<and> keysDistinct (w_db w')"
  using assms(1)
proof (induction "backlog (w_db w)" arbitrary: w rule: less_induct)
  case less
  obtain q w1 where run: "Worker_RunOnce env rt wk w = (q, w1)" by fastforce
  note kept = Worker_RunOnce_keysDistinct[OF run less.prems assms(2)]
  show ?case
  proof (cases "runtimeContext rt (w_tick w) = None \<and> q = Inr True")
    case True
    then have "\<exists>r w'. Worker_drain env rt wk w1 = Some (r, w') \<and> keysDistinct (w_db w')"
      using less.hyps[OF Worker_RunOnce_shrinks[of env rt wk w w1] kept] run less.prems assms(2) by simp
    then show ?thesis using True run by (subst Worker_drain.simps) simp
  next
    case False
    then show ?thesis using run kept less.prems
      by (subst Worker_drain.simps) (auto split: option.splits sum.splits)
  qed
qed

lemma Worker_cleanup_keysDistinct:
  assumes "Worker_cleanupExpired env w = (r, w')" and "keysDistinct (w_db w)"
  shows "keysDistinct (w_db w')"
proof -
  have "keeps outCtx (outTx env System) (Worker_cleanupExpired env)"
    unfolding Worker_cleanupExpired_def by (intro keeps_rules AnonymizeExpiredInvitations_steps)
  then show ?thesis using assms by (auto simp: keeps_def outCtx_def outTx_def dest: keysDistinct_steps)
qed

lemma Worker_loop_returns:
  assumes "keysDistinct (w_db w)" and "quietWorker wk"
  shows "\<exists>r w'. Worker_loop env rt wk events w = Some (r, w')"
  using assms(1)
proof (induction events arbitrary: w)
  case Nil
  then show ?case by simp
next
  case (Cons event events)
  show ?case
  proof (cases event)
    case PollTick
    obtain r w' where drain: "Worker_drain env rt wk w = Some (r, w')" "keysDistinct (w_db w')"
      using Worker_drain_returns[OF Cons.prems assms(2)] by blast
    then show ?thesis using Cons.IH[of w'] PollTick by (cases r) auto
  next
    case CleanupTick
    obtain r w' where clean: "Worker_cleanupExpired env w = (r, w')" by fastforce
    then show ?thesis using Cons.IH[OF Worker_cleanup_keysDistinct[OF clean Cons.prems]] CleanupTick by (cases r) auto
  next
    case (ContextDone err)
    then show ?thesis by simp
  qed
qed

text \<open>C25: The worker always comes back: for every database with distinct keys, every clock, every commit, fault and mail server, and every
  sequence of timer ticks, each drain of the outbox ends, and with it each run of the worker; every round uses up an attempt of a job or
  finishes it, also when leases expire and are claimed again.\<close>

theorem worker_always_returns:
  assumes "initializeWorker env p srv mailConfig tokenSecret inviteBaseURL = Inr wk" and "keysDistinct (w_db w)"
  shows "(\<exists>r w'. Worker_drain env rt wk w = Some (r, w')) \<and> (\<exists>r w'. Worker_Run env rt wk events w = Some (r, w'))"
  using initializeWorker_quiet[OF assms(1)] Worker_drain_returns[OF assms(2)] Worker_loop_returns[OF assms(2)]
  unfolding Worker_Run_def by blast


lemma product_catalog_ready: "NewProductCatalog = Inr ()"
proof -
  have "locale_isValid productDefaultLocale" by code_simp
  moreover have "\<exists>e \<in> set catalogErrors. fst e = internalErrorMessageKey"
    by (simp add: catalogErrors_def internalErrorMessageKey_def)
  then have "productMessage ''de-CH'' ScopeShared internalErrorMessageKey \<noteq> None"
    using productMessage_catalog by (metis prod.collapse)
  ultimately show ?thesis by (auto simp: NewProductCatalog_def productDefaultLocale_def split: option.splits)
qed

definition sampleMailConfig :: smtp_config where
  "sampleMailConfig =
     \<lparr>smtpHost = ''mail'', smtpPort = ''587'', smtpUsername = ''u'', smtpPassword = ''p'', smtpFrom = ''x@y'',
      smtpRequireTLS = True, smtpTimeout = 0\<rparr>"

definition sampleSecret :: string where "sampleSecret = replicate 32 (CHR ''s'')"

definition sampleRuntime :: runtime where
  "sampleRuntime = \<lparr>runtimePgText = (\<lambda>code c. code), runtimeContext = (\<lambda>n. None)\<rparr>"

lemma sample_worker:
  obtains wk where "initializeWorker serviceEnv samplePorts sampleServer sampleMailConfig sampleSecret ''https://clinks.ch/app/'' = Inr wk"
    "workerMailer wk = Mailer_Send serviceEnv samplePorts sampleServer sampleMailer"
proof -
  have "NewSMTPMailer samplePorts sampleMailConfig = Inr sampleMailer" by code_simp
  moreover have "NewInvitationTokenSigner sampleSecret = Inr sampleSecret" by code_simp
  moreover have "newInvitationLinkBuilder samplePorts ''https://clinks.ch/app/'' = Inr sampleURL" by code_simp
  ultimately show ?thesis using that by (auto simp: initializeWorker_def product_catalog_ready NewInvitationWorker_def)
qed

theorem worker_always_returns_witness:
  "\<exists>wk. initializeWorker serviceEnv samplePorts sampleServer sampleMailConfig sampleSecret ''https://clinks.ch/app/'' = Inr wk
     \<and> (\<exists>r w'. Worker_Run serviceEnv sampleRuntime wk [PollTick, CleanupTick] serviceWorld = Some (r, w'))"
proof -
  obtain wk where wk: "initializeWorker serviceEnv samplePorts sampleServer sampleMailConfig sampleSecret ''https://clinks.ch/app/'' = Inr wk"
    by (rule sample_worker)
  then show ?thesis using worker_always_returns[OF wk sample_services(4)] by blast
qed

subsection \<open>What is mailed\<close>

lemma sameMail_statements:
  "keeps (\<lambda>_. True) sameMail (insertInto env tbl mk)" "keeps (\<lambda>_. True) sameMail (updateTable env tbl P f)"
  by (rule sameMail.insertInto sameMail.updateTable, simp add: sameMail_def)+

lemma sameMail_systemTx: "keeps (\<lambda>_. True) sameMail m \<Longrightarrow> keeps (\<lambda>_. True) sameMail (withSystemTx env m)"
  unfolding withSystemTx_def withSettingTx_def
  by (intro sameMail_beginFunc sameMail.andThen sameMail.mapError sameMail_setConfig) auto

lemmas sameMail_rules =
  sameMail.control keeps_if keeps_let keeps_case_option keeps_case_sum keeps_case_prod sameMail_statements
  sameMail_systemTx

lemma sameMail_claim: "keeps (\<lambda>_. True) sameMail (claimJob env token)"
proof (rule keepsI)
  fix w r w'
  assume "claimJob env token w = (r, w')"
  then show "sameMail w w'" unfolding claimJob_def
    by (rule keepsD[OF sameMail.updateReturning[OF sameMail_statements(2)] TrueI])
qed

lemma sameMail_store:
  "keeps (\<lambda>_. True) sameMail (ClaimInvitationEmail env)" "keeps (\<lambda>_. True) sameMail (Worker_retry env rt job cause)"
  "keeps (\<lambda>_. True) sameMail (Worker_complete env job)"
  unfolding ClaimInvitationEmail_def claimInvitationTx_def Worker_retry_def Worker_complete_def ignoreLeaseLost_def
    Complete_def completeTx_def Retry_def deadLetter_def retryTx_def updateDelivery_def insertAuditEvent_def
  by (intro sameMail_rules sameMail_claim)+


text \<open>The text of the message catalog in a locale: a stored override wins over the shipped text.\<close>

definition catalogText :: "env \<Rightarrow> db \<Rightarrow> string \<Rightarrow> string \<Rightarrow> string option" where
  "catalogText env d loc key =
     (case translationMessage (storedFor env loc ScopeShared d) key of
        Some text \<Rightarrow> Some text
      | None \<Rightarrow> productMessage loc ScopeShared key)"

lemma Catalog_Message_text:
  assumes "Catalog_Message env loc key w = (Inr text, w')"
  shows "catalogText env (w_db w) loc key = Some text"
proof -
  obtain ts w1 where "StoredTranslations env loc ScopeShared w = (Inr ts, w1)"
    and "(case translationMessage ts key of Some m \<Rightarrow> ret m
       | None \<Rightarrow> (case productMessage loc ScopeShared key of Some m \<Rightarrow> ret m | None \<Rightarrow> fail translationNotFound)) w1 = (Inr text, w')"
    using assms by (auto simp: Catalog_Message_def run_simps)
  then show ?thesis using StoredTranslations_Inr unfolding catalogText_def
    by (auto simp: run_simps split: option.splits)
qed

lemma quiet_Catalog_text:
  assumes "quiet env" and "catalogText env (w_db w) loc key = Some text"
  shows "\<exists>w'. Catalog_Message env loc key w = (Inr text, w')"
proof -
  obtain w' where "StoredTranslations env loc ScopeShared w = (Inr (storedFor env loc ScopeShared (w_db w)), w')"
    using quiet_StoredTranslations[OF assms(1)] by blast
  then show ?thesis using assms(2)
    by (auto simp: Catalog_Message_def catalogText_def mapError_def andThen_def ret_def split: option.splits)
qed

text \<open>The text a mail in a locale is written with: that of the locale, and that of the default locale when the catalog has none
  or could not be read.\<close>

definition mailText :: "env \<Rightarrow> db \<Rightarrow> string \<Rightarrow> string \<Rightarrow> string \<Rightarrow> bool" where
  "mailText env d loc0 key text \<longleftrightarrow>
     (let loc = if locale_isValid loc0 then loc0 else Catalog_DefaultLocale in
      catalogText env d loc key = Some text
      \<or> (catalogText env d loc key = None \<or> \<not> quiet env) \<and> catalogText env d Catalog_DefaultLocale key = Some text)"

lemma Worker_localizedMessage_text:
  assumes "Worker_localizedMessage wk loc key w = (Inr text, w')" and "workerMessages wk = productMessages env"
  shows "w_db w' = w_db w" "catalogText env (w_db w) loc key = Some text
    \<or> (catalogText env (w_db w) loc key = None \<or> \<not> quiet env) \<and> catalogText env (w_db w) Catalog_DefaultLocale key = Some text"
proof -
  obtain q w1 where first: "Catalog_Message env loc key w = (q, w1)" by fastforce
  have w1: "w_db w1 = w_db w" by (rule untouchedD[OF untouched_Message first])
  have "w_db w' = w_db w \<and> (catalogText env (w_db w) loc key = Some text
    \<or> (catalogText env (w_db w) loc key = None \<or> \<not> quiet env) \<and> catalogText env (w_db w) Catalog_DefaultLocale key = Some text)"
  proof (cases q)
    case (Inr m)
    then show ?thesis using assms first w1 Catalog_Message_text
      by (auto simp: Worker_localizedMessage_def productMessages_def andThen_def attempt_def ret_def)
  next
    case (Inl err)
    then have second: "Catalog_Message env Catalog_DefaultLocale key w1 = (Inr text, w')"
      using assms first
      by (auto simp: Worker_localizedMessage_def productMessages_def andThen_def attempt_def ret_def mapError_def split: prod.splits sum.splits)
    moreover have "catalogText env (w_db w) loc key = None \<or> \<not> quiet env"
      using quiet_Catalog_text[of env w loc key] first Inl by (cases "catalogText env (w_db w) loc key") auto
    ultimately show ?thesis using Catalog_Message_text[OF second] untouchedD[OF untouched_Message second] w1 by simp
  qed
  then show "w_db w' = w_db w" "catalogText env (w_db w) loc key = Some text
    \<or> (catalogText env (w_db w) loc key = None \<or> \<not> quiet env) \<and> catalogText env (w_db w) Catalog_DefaultLocale key = Some text"
    by blast+
qed

lemma Worker_invitationMessage_Inr:
  assumes "Worker_invitationMessage wk i w = (Inr message, w')" and "workerMessages wk = productMessages env"
  obtains template where "messageRecipient message = invitationEmail i"
    "mailText env (w_db w) (invitationLocale i) ''mail.invitation.subject'' (messageSubject message)"
    "mailText env (w_db w) (invitationLocale i) ''mail.invitation.body'' template"
    "messageBody message = replaceAll ''{url}'' (trimSpace (acceptanceURL i)) template"
proof -
  let ?loc = "if locale_isValid (invitationLocale i) then invitationLocale i else Catalog_DefaultLocale"
  obtain subject w1 body where subject: "Worker_localizedMessage wk ?loc ''mail.invitation.subject'' w = (Inr subject, w1)"
    and body: "Worker_localizedMessage wk ?loc ''mail.invitation.body'' w1 = (Inr body, w')"
    and message: "message = \<lparr>messageRecipient = invitationEmail i, messageSubject = subject,
          messageBody = replaceAll ''{url}'' (trimSpace (acceptanceURL i)) body\<rparr>"
    using assms unfolding Worker_invitationMessage_def
    by (cases "locale_isValid (invitationLocale i)") (auto simp: andThen_Inr mapError_Inr ret_eq productMessages_def)
  note texts = Worker_localizedMessage_text[OF subject assms(2)] Worker_localizedMessage_text[OF body assms(2)]
  show thesis
    by (rule that[of body]) (use message texts in \<open>simp_all add: mailText_def Let_def\<close>)
qed

text \<open>A mail for an invitation: to its address, with the subject and the body of the catalog, in which the link with the token of the
  invitation stands for \<^verbatim>\<open>{url}\<close>.\<close>

definition mailedFor :: "env \<Rightarrow> db \<Rightarrow> string \<Rightarrow> url \<Rightarrow> invitation \<Rightarrow> invitation_message \<Rightarrow> bool" where
  "mailedFor env d secret links i m \<longleftrightarrow>
     messageRecipient m = invitationEmail i
     \<and> mailText env d (invitationLocale i) ''mail.invitation.subject'' (messageSubject m)
     \<and> (\<exists>token template. invitationToken secret i = Inr token
          \<and> mailText env d (invitationLocale i) ''mail.invitation.body'' template
          \<and> messageBody m = replaceAll ''{url}'' (trimSpace (invitationURL links token)) template)"

text \<open>The body contains the link.\<close>

definition carriesLink :: "string \<Rightarrow> url \<Rightarrow> invitation \<Rightarrow> invitation_message \<Rightarrow> bool" where
  "carriesLink secret links i m \<longleftrightarrow>
     (\<exists>token before after. invitationToken secret i = Inr token
        \<and> messageBody m = before @ trimSpace (invitationURL links token) @ after)"

lemma hasPrefix_self: "hasPrefix (p @ s) p"
  by (induction p) simp_all

lemma replaceAll_occurs:
  "old \<noteq> [] \<Longrightarrow> \<exists>before after. replaceAll old new (pre @ old @ post) = before @ new @ after"
proof (induction pre rule: length_induct)
  case (1 pre)
  show ?case
  proof (cases "pre @ old @ post")
    case Nil
    then show ?thesis using 1(2) by simp
  next
    case (Cons c s)
    show ?thesis
    proof (cases "hasPrefix (c # s) old")
      case True
      then show ?thesis using 1(2) Cons by (auto intro: exI[of _ "[]"])
    next
      case False
      then have "pre \<noteq> []" using Cons hasPrefix_self[of old post] by auto
      then obtain pre' where pre: "pre = c # pre'" "s = pre' @ old @ post" using Cons by (cases pre) auto
      obtain before after where "replaceAll old new (pre' @ old @ post) = before @ new @ after" using 1 pre(1) by force
      then have "replaceAll old new (c # s) = (c # before) @ new @ after" using False pre(2) by simp
      then show ?thesis using Cons by metis
    qed
  qed
qed

lemma shipped_bodies:
  "list_all (\<lambda>t. if translationKey t = ''mail.invitation.body''
      then let s = translationValue t in drop (length s - 5) s = ''{url}'' else True) productTranslationEntries"
  by code_simp

lemma shipped_body:
  assumes "productMessage loc ScopeShared ''mail.invitation.body'' = Some template"
  shows "\<exists>pre. template = pre @ ''{url}''"
proof -
  obtain t where "t \<in> set productTranslationEntries" "translationKey t = ''mail.invitation.body''" "translationValue t = template"
    using productMessageLoop_value[OF assms[unfolded productMessage_def]] by auto
  then have "drop (length template - 5) template = ''{url}''" using shipped_bodies by (auto simp: list_all_iff Let_def)
  then show ?thesis by (metis append_take_drop_id)
qed

lemma mailedFor_carriesLink:
  assumes "mailedFor env d secret links i m" and "\<forall>t \<in> set (overrides d). translationKey t \<noteq> ''mail.invitation.body''"
  shows "carriesLink secret links i m"
proof -
  have shipped: "catalogText env d loc ''mail.invitation.body'' = productMessage loc ScopeShared ''mail.invitation.body''" for loc
  proof -
    have "\<forall>t \<in> set (storedFor env loc ScopeShared d). translationKey t \<noteq> ''mail.invitation.body''"
      using in_storedFor assms(2) by (fastforce simp: scanTranslation_def)
    then have "translationMessage (storedFor env loc ScopeShared d) ''mail.invitation.body'' = None"
      by (simp add: translationMessage_def find_None_iff)
    then show ?thesis by (simp add: catalogText_def)
  qed
  from assms(1) obtain token template where token: "invitationToken secret i = Inr token"
    and "mailText env d (invitationLocale i) ''mail.invitation.body'' template"
    and body: "messageBody m = replaceAll ''{url}'' (trimSpace (invitationURL links token)) template"
    unfolding mailedFor_def by blast
  then obtain pre where template: "template = pre @ ''{url}'' @ []"
    using shipped_body unfolding mailText_def Let_def shipped by fastforce
  have "\<exists>before after. messageBody m = before @ trimSpace (invitationURL links token) @ after"
    unfolding body template by (rule replaceAll_occurs) simp
  then show ?thesis using token unfolding carriesLink_def by blast
qed

lemma Worker_deliver_mails:
  assumes run: "Worker_deliver env rt wk job i w1 = (r, w')" and quiet: "quietWorker wk"
    and catalog: "workerMessages wk = productMessages env"
  shows "w_mail w' = w_mail w1
    \<or> (\<exists>m. w_mail w' = w_mail w1 @ [m] \<and> mailedFor env (w_db w1) (workerTokenSecret wk) (workerLinks wk) i m)"
proof (cases "invitationToken (workerTokenSecret wk) i")
  case (Inl err)
  then show ?thesis using run keepsD[OF sameMail_store(2)] by (auto simp: Worker_deliver_def sameMail_def)
next
  case token: (Inr token)
  let ?i = "i\<lparr>acceptanceURL := invitationURL (workerLinks wk) token\<rparr>"
  obtain rendered w2 where msg: "Worker_invitationMessage wk ?i w1 = (rendered, w2)" by fastforce
  have mail2: "w_mail w2 = w_mail w1"
    using keepsD[OF untouched_invitationMessage[OF quiet] TrueI msg] by (simp add: untouched_def)
  show ?thesis
  proof (cases rendered)
    case (Inl err)
    then have "Worker_retry env rt job err w2 = (r, w')"
      using run token msg by (simp add: Worker_deliver_def andThen_def attempt_def)
    then show ?thesis using keepsD[OF sameMail_store(2) TrueI] mail2 by (auto simp: sameMail_def)
  next
    case (Inr message)
    have mailed: "mailedFor env (w_db w1) (workerTokenSecret wk) (workerLinks wk) i message"
      by (rule Worker_invitationMessage_Inr[OF msg[unfolded Inr] catalog]) (use token in \<open>auto simp: mailedFor_def\<close>)
    obtain sent w3 where send: "workerMailer wk message w2 = (sent, w3)" by fastforce
    have mail3: "w_mail w3 = w_mail w1 \<or> w_mail w3 = w_mail w1 @ [message]"
      using send quiet mail2 unfolding quietWorker_def by metis
    have rest: "(case sent of Inl err \<Rightarrow> Worker_retry env rt job (Wrapped ''send invitation email'' err)
        | Inr _ \<Rightarrow> Worker_complete env job) w3 = (r, w')"
      using run token msg Inr send by (simp add: Worker_deliver_def andThen_def attempt_def)
    have "w_mail w' = w_mail w3"
      using rest keepsD[OF sameMail_store(2) TrueI] keepsD[OF sameMail_store(3) TrueI]
      by (cases sent) (auto simp: sameMail_def)
    then show ?thesis using mail3 mailed by auto
  qed
qed

lemma mailedFor_outbox: "mailedFor env (d\<lparr>outbox := jobs\<rparr>) secret links i m \<longleftrightarrow> mailedFor env d secret links i m"
  by (simp add: mailedFor_def mailText_def catalogText_def storedFor_def)

lemma Worker_RunOnce_mails:
  assumes "initializeWorker env p srv mailConfig tokenSecret inviteBaseURL = Inr wk" and "keysDistinct (w_db w)"
    and "Worker_RunOnce env rt wk w = (r, w')"
  shows "w_mail w' = w_mail w \<or> (\<exists>m. \<exists>job \<in> set (outbox (w_db w)). \<exists>row \<in> set (invitations (w_db w)).
     w_mail w' = w_mail w @ [m] \<and> claimable (pgTime (e_clock env (w_tick w))) job \<and> i_id row = o_invitation job
     \<and> mailedFor env (w_db w) tokenSecret (workerLinks wk) (scanInvitation row) m)"
proof -
  note wk = initializeWorker_quiet[OF assms(1)]
  obtain q w1 where claim: "ClaimInvitationEmail env w = (q, w1)" by fastforce
  have mail1: "w_mail w1 = w_mail w" using keepsD[OF sameMail_store(1) TrueI claim] by (simp add: sameMail_def)
  show ?thesis
  proof (cases "\<exists>job i. q = Inr (job, i) \<and> jobID job \<noteq> []")
    case False
    then show ?thesis using assms(3) claim mail1
      by (cases q) (auto simp: Worker_RunOnce_def andThen_def mapError_def ret_def)
  next
    case True
    then obtain job i where q: "q = Inr (job, i)" "jobID job \<noteq> []" by blast
    obtain r1 where "Worker_deliver env rt wk job i w1 = (r1, w')"
      using assms(3) claim q by (auto simp: Worker_RunOnce_def andThen_def mapError_def ret_def split: prod.splits sum.splits)
    then have mails: "w_mail w' = w_mail w1
        \<or> (\<exists>m. w_mail w' = w_mail w1 @ [m] \<and> mailedFor env (w_db w1) tokenSecret (workerLinks wk) i m)"
      using Worker_deliver_mails wk by blast
    obtain row oldJob jobs where "oldJob \<in> set (outbox (w_db w))" "row \<in> set (invitations (w_db w))"
      "claimable (pgTime (e_clock env (w_tick w))) oldJob" "i_id row = o_invitation oldJob" "i = scanInvitation row"
      and "w_db w1 = (w_db w)\<lparr>outbox := jobs\<rparr>"
      using claim_Inr[OF claim[unfolded q(1)] assms(2) q(2)] unfolding claimed_def by blast
    then show ?thesis using mails mail1 by (auto simp: mailedFor_outbox)
  qed
qed

text \<open>C26: A mail goes to the invited address with the link of its invitation. One run of the worker hands over at most one mail, and that for a job of
  the outbox that was due or whose lease had expired. The mail goes to the address of the job's invitation; its subject and body are the
  texts of the catalog in the locale of the invitation, or in the default locale when there are none or they cannot be read, with the
  link that carries the token of this invitation in place of \<^verbatim>\<open>{url}\<close>. Unless an administrator has stored a text of its own for the
  body, the body contains that link.\<close>

theorem worker_mails_the_invitation:
  assumes "initializeWorker env p srv mailConfig tokenSecret inviteBaseURL = Inr wk" and "keysDistinct (w_db w)"
    and "Worker_RunOnce env rt wk w = (r, w')"
  shows "w_mail w' = w_mail w \<or> (\<exists>m. \<exists>job \<in> set (outbox (w_db w)). \<exists>row \<in> set (invitations (w_db w)).
     w_mail w' = w_mail w @ [m] \<and> claimable (pgTime (e_clock env (w_tick w))) job \<and> i_id row = o_invitation job
     \<and> mailedFor env (w_db w) tokenSecret (workerLinks wk) (scanInvitation row) m
     \<and> ((\<forall>t \<in> set (overrides (w_db w)). translationKey t \<noteq> ''mail.invitation.body'')
          \<longrightarrow> carriesLink tokenSecret (workerLinks wk) (scanInvitation row) m))"
  using Worker_RunOnce_mails[OF assms] mailedFor_carriesLink by meson

text \<open>A world with one invitation and its mail job.\<close>

definition mailRow :: invitation_row where
  "mailRow =
     \<lparr>i_id = idFresh, i_tenant = idTenant, i_email = ''a@b'', i_role = idRoleUuid, i_token_hash = Some ''h'', i_expires_at = 2000000,
      i_used_at = None, i_revoked_at = None, i_created_by = idPerson, i_delivery_status = DeliveryQueued,
      i_delivery_locale = ''en-US'', i_anonymized_at = None, i_created_at = 0\<rparr>"

definition mailJob :: outbox_row where
  "mailJob =
     \<lparr>o_id = idFresh, o_tenant = idTenant, o_kind = outboxJobInvitationEmail, o_invitation = idFresh, o_status = OutboxPending,
      o_attempts = 0, o_available_at = 0, o_locked_at = None, o_lease_token = None, o_completed_at = None,
      o_dead_lettered_at = None, o_last_error = None, o_created_at = 0, o_updated_at = 0\<rparr>"

definition mailWorld :: world where
  "mailWorld = serviceWorld\<lparr>w_db := (w_db serviceWorld)\<lparr>invitations := [mailRow], outbox := [mailJob]\<rparr>\<rparr>"

lemma mailWorld_keys: "keysDistinct (w_db mailWorld)"
  using sample_services(4) by (simp add: mailWorld_def keysDistinct_def)

lemma mail_claim:
  "fst (ClaimInvitationEmail serviceEnv mailWorld) = Inr (scanJob (leaseJob idFresh 1000000 mailJob), scanInvitation mailRow)"
  by code_simp

text \<open>The shipped texts of the mail can be sent.\<close>

lemma shipped_mails:
  "list_all (\<lambda>t. if translationKey t = ''mail.invitation.subject''
      then trimSpace (translationValue t) \<noteq> [] \<and> \<not> lineBreak (translationValue t) else True) productTranslationEntries"
  "list_all (\<lambda>t. if translationKey t = ''mail.invitation.body''
      then (case translationValue t of [] \<Rightarrow> False | c # s \<Rightarrow> asciiLetter c) else True) productTranslationEntries"
  by code_simp+

lemma shipped_entries:
  "\<exists>t \<in> set productTranslationEntries. translationLocale t = ''en-US'' \<and> translationKey t = ''mail.invitation.subject''"
  "\<exists>t \<in> set productTranslationEntries. translationLocale t = ''en-US'' \<and> translationKey t = ''mail.invitation.body''"
  unfolding productTranslationEntries_def set_concat set_map set_append by (auto simp: catalogMail_def catalogEntry_def)

lemma shipped_mail:
  assumes "key \<in> {''mail.invitation.subject'', ''mail.invitation.body''}"
  obtains m t where "productMessage ''en-US'' ScopeShared key = Some m"
    "t \<in> set productTranslationEntries" "translationKey t = key" "translationValue t = m"
proof -
  obtain t where "t \<in> set productTranslationEntries" "translationLocale t = ''en-US''" "translationKey t = key"
    using shipped_entries assms by blast
  then obtain m where "productMessage ''en-US'' ScopeShared key = Some m"
    using productMessageLoop_shared[OF _ _ _ product_entry_shared] unfolding productMessage_def by blast
  then show thesis using productMessageLoop_value that unfolding productMessage_def by fastforce
qed

lemma trimSpace_nonempty: "byte c < 128 \<Longrightarrow> \<not> isSpace (byte c) \<Longrightarrow> trimSpace (c # s) \<noteq> []"
proof -
  assume c: "byte c < 128" "\<not> isSpace (byte c)"
  have "runes (c # s) = (Some (byte c), [c]) # runes s" using c(1) by (simp add: nextRune.simps(2) Let_def)
  then have "(Some (byte c), [c]) \<in> set (trimList spacePiece (runes (c # s)))"
    using c(2) by (auto simp: trimList_def spacePiece_def dropWhile_append)
  then show ?thesis unfolding trimSpace_def by force
qed

lemma sample_mail:
  assumes "initializeWorker serviceEnv samplePorts sampleServer sampleMailConfig sampleSecret ''https://clinks.ch/app/'' = Inr wk"
    and "workerMailer wk = Mailer_Send serviceEnv samplePorts sampleServer sampleMailer"
  shows "w_mail (snd (Worker_RunOnce serviceEnv sampleRuntime wk mailWorld)) \<noteq> []"
proof -
  note wk = initializeWorker_quiet[OF assms(1)]
  let ?job = "scanJob (leaseJob idFresh 1000000 mailJob)" and ?i = "scanInvitation mailRow"
  obtain w1 where claim: "ClaimInvitationEmail serviceEnv mailWorld = (Inr (?job, ?i), w1)"
    using mail_claim by (metis prod.collapse)
  have job: "jobID ?job \<noteq> []" by (simp add: scanJob_def leaseJob_def mailJob_def)
  have "overrides (w_db mailWorld) = []" by (simp add: mailWorld_def serviceWorld_def sampleWorld_def sampleDb_def)
  then have none: "overrides (w_db w1) = []"
    using claim_Inr[OF claim mailWorld_keys job] unfolding claimed_def by auto
  obtain token where token: "invitationToken sampleSecret ?i = Inr token"
    by (simp add: invitationToken_def scanInvitation_def mailRow_def Let_def zeroTime_def)
  let ?i' = "?i\<lparr>acceptanceURL := invitationURL (workerLinks wk) token\<rparr>"
  have localized: "\<exists>v'. Worker_localizedMessage wk ''en-US'' key v = (Inr m, v') \<and> w_db v' = w_db v"
    if m: "productMessage ''en-US'' ScopeShared key = Some m" and none': "overrides (w_db v) = []" for key m v
  proof -
    obtain v' where "w_db v' = w_db v" "Catalog_Message serviceEnv ''en-US'' key v = (Inr m, v')"
      using quiet_Catalog_Message[OF sample_services(1), of v key "''en-US''"] m none' by auto
    then show ?thesis using wk by (simp add: Worker_localizedMessage_def productMessages_def andThen_def attempt_def ret_def)
  qed
  obtain subject t where subject: "productMessage ''en-US'' ScopeShared ''mail.invitation.subject'' = Some subject"
    and t: "t \<in> set productTranslationEntries" "translationKey t = ''mail.invitation.subject''" "translationValue t = subject"
    by (rule shipped_mail[of "''mail.invitation.subject''"]) simp
  obtain body u where body: "productMessage ''en-US'' ScopeShared ''mail.invitation.body'' = Some body"
    and u: "u \<in> set productTranslationEntries" "translationKey u = ''mail.invitation.body''" "translationValue u = body"
    by (rule shipped_mail[of "''mail.invitation.body''"]) simp
  let ?message = "\<lparr>messageRecipient = ''a@b'', messageSubject = subject,
      messageBody = replaceAll ''{url}'' (trimSpace (invitationURL (workerLinks wk) token)) body\<rparr>"
  obtain w2 w3 where "Worker_localizedMessage wk ''en-US'' ''mail.invitation.subject'' w1 = (Inr subject, w2)"
    "Worker_localizedMessage wk ''en-US'' ''mail.invitation.body'' w2 = (Inr body, w3)"
    using localized[OF subject none] localized[OF body] none by metis
  moreover have "locale_isValid ''en-US''" by code_simp
  ultimately have message: "Worker_invitationMessage wk ?i' w1 = (Inr ?message, w3)"
    by (simp add: Worker_invitationMessage_def scanInvitation_def mailRow_def andThen_def ret_def)
  obtain c s where "body = c # s" "asciiLetter c" using shipped_mails(2) u by (cases body) (auto simp: list_all_iff)
  then have "byte c < 128" "\<not> isSpace (byte c)" "body = c # s" "c \<noteq> CHR ''{''"
    by (auto simp: asciiLetter_def isSpace_def byte_def)
  then have "trimSpace (messageBody ?message) \<noteq> []" using trimSpace_nonempty by simp
  moreover have "trimSpace subject \<noteq> [] \<and> \<not> lineBreak subject" using shipped_mails(1) t by (auto simp: list_all_iff)
  moreover have "ParseEmail serviceEnv samplePorts ''a@b'' = Inr ''a@b''" by code_simp
  ultimately have "mailable ?message" by (simp add: mailable_def)
  then obtain w4 where send: "workerMailer wk ?message w3 = (Inr (), w4)"
    using sample_send[of ?message w3] assms(2) by (metis invitation_message.select_convs(1) prod.collapse)
  then have mail: "w_mail w4 \<noteq> []" using Mailer_Send_effect unfolding assms(2) by fastforce
  obtain q w' where complete: "Worker_complete serviceEnv ?job w4 = (q, w')" by fastforce
  then have "w_mail w' \<noteq> []" using keepsD[OF sameMail_store(3) TrueI complete] mail by (simp add: sameMail_def)
  moreover have "snd (Worker_RunOnce serviceEnv sampleRuntime wk mailWorld) = w'"
    using claim job token message send complete wk
    by (cases q) (simp_all add: Worker_RunOnce_def Worker_deliver_def andThen_def mapError_def attempt_def ret_def)
  ultimately show ?thesis by simp
qed

theorem worker_mails_the_invitation_witness:
  "\<exists>wk m. initializeWorker serviceEnv samplePorts sampleServer sampleMailConfig sampleSecret ''https://clinks.ch/app/'' = Inr wk
     \<and> w_mail (snd (Worker_RunOnce serviceEnv sampleRuntime wk mailWorld)) = [m] \<and> messageRecipient m = ''a@b''
     \<and> carriesLink sampleSecret (workerLinks wk) (scanInvitation mailRow) m"
proof -
  obtain wk where wk: "initializeWorker serviceEnv samplePorts sampleServer sampleMailConfig sampleSecret ''https://clinks.ch/app/'' = Inr wk"
    and mailer: "workerMailer wk = Mailer_Send serviceEnv samplePorts sampleServer sampleMailer"
    by (rule sample_worker)
  have "w_mail mailWorld = []" "overrides (w_db mailWorld) = []" "invitations (w_db mailWorld) = [mailRow]"
    by (simp_all add: mailWorld_def serviceWorld_def sampleWorld_def sampleDb_def)
  then show ?thesis
    using wk sample_mail[OF wk mailer] worker_mails_the_invitation[OF wk mailWorld_keys surjective_pairing, of sampleRuntime]
    by (auto simp: mailedFor_def scanInvitation_def mailRow_def)
qed

subsection \<open>The link that was issued\<close>

text \<open>C27: The mailed link is the issued link: when an invitation is created, its answer carries a link whose token hashes to what the database
  keeps, and the worker, which only reads the stored row, computes the same token and hence the same link from it.\<close>

theorem worker_recomputes_issued_link:
  assumes "Auth_CreateInvitation env p a s rawEmail rid w = (Inr i, w')"
    and "\<forall>n. 1000 \<le> e_clock env n" and "0 \<le> authInviteTTL a"
  shows "\<exists>row token. invitations (w_db w') = invitations (w_db w) @ [row]
    \<and> acceptanceURL i = invitationURL (authLinks a) token \<and> i_token_hash row = Some (invitationHash token)
    \<and> invitationToken (authTokenSecret a) (scanInvitation row) = Inr token"
proof -
  from Auth_CreateInvitation_Inr[OF assms(1)] obtain raw now n where
    row: "invitations (w_db w') = invitations (w_db w) @ [invitationRecord i (invitationHash raw) now]"
    and expiry: "expiresAt i = e_clock env n + authInviteTTL a"
    and token: "invitationToken (authTokenSecret a) i = Inr raw" "acceptanceURL i = invitationURL (authLinks a) raw"
    by (elim exE conjE) simp
  have "1000 \<le> expiresAt i" using expiry assms(2,3) by (metis add_increasing2)
  then have "invitationToken (authTokenSecret a) (scanInvitation (invitationRecord i (invitationHash raw) now)) = Inr raw"
    by (intro invitationToken_stored[OF token(1)]) (simp_all add: scanInvitation_def invitationRecord_def)
  then show ?thesis using row token(2) by (auto simp: invitationRecord_def)
qed

theorem worker_recomputes_issued_link_witness:
  "\<exists>i w' row token. Auth_CreateInvitation serviceEnv samplePorts sampleAuth personSession ''a@b'' idRoleUuid serviceWorld = (Inr i, w')
     \<and> invitations (w_db w') = [row] \<and> acceptanceURL i = invitationURL sampleURL token
     \<and> invitationToken ''s'' (scanInvitation row) = Inr token"
proof -
  obtain i w' where run:
    "Auth_CreateInvitation serviceEnv samplePorts sampleAuth personSession ''a@b'' idRoleUuid serviceWorld = (Inr i, w')"
    by (rule succeededE[OF sample_invitation])
  have "invitations (w_db serviceWorld) = []" by (simp add: serviceWorld_def)
  then show ?thesis using run worker_recomputes_issued_link[OF run] by (auto simp: sampleAuth_def)
qed

text \<open>C28: An invitation link is well formed: for every base URL the link builder accepts, the link is that address with the path
  \<^verbatim>\<open>/invite\<close> and the token as its query, and reading the query gives the token back, whatever characters it has.\<close>

theorem invitation_link_carries_token:
  assumes "newInvitationLinkBuilder p raw = Inr base" and "urlParseRooted p"
  shows "invitationURL base token
      = urlScheme base @ ''://'' @ escape EncodeHost (urlHost base) @ escape EncodePath (urlPath base) @ ''/invite?token=''
        @ escape EncodeQueryComponent token
    \<and> (urlScheme base = ''http'' \<or> urlScheme base = ''https'')
    \<and> queryGet (parseQuery (''token='' @ escape EncodeQueryComponent token)) ''token'' = token"
proof -
  have "queryPair (''token'', token) = ''token='' @ escape EncodeQueryComponent token"
    by (simp add: queryPair_def escape_words)
  then have "parseQuery (''token='' @ escape EncodeQueryComponent token) = [(''token'', token)]"
    using parseQuery_join[of "[(''token'', token)]"] by simp
  then show ?thesis using invitationURL_text[OF assms] newInvitationLinkBuilder_Inr[OF assms(1)] by (simp add: queryGet_def)
qed

theorem invitation_link_carries_token_witness:
  "invitationURL sampleURL ''a b&c'' = ''https://clinks.ch/app/invite?token=a+b%26c''
   \<and> queryGet (parseQuery ''token=a+b%26c'') ''token'' = ''a b&c''"
proof -
  have "newInvitationLinkBuilder samplePorts ''https://clinks.ch/app/'' = Inr sampleURL" by code_simp
  moreover have "urlParseRooted samplePorts"
    by (auto simp: urlParseRooted_def samplePorts_def sampleUrlParse_def sampleURL_def split: if_splits)
  moreover have "escape EncodeQueryComponent ''a b&c'' = ''a+b%26c''" "escape EncodeHost ''clinks.ch'' = ''clinks.ch''"
    "escape EncodePath ''/app'' = ''/app''" by code_simp+
  ultimately show ?thesis
    using invitation_link_carries_token[of samplePorts "''https://clinks.ch/app/''" sampleURL "''a b&c''"] by (simp add: sampleURL_def)
qed

subsection \<open>Retention\<close>

lemma anonymize_rows:
  assumes "andThen (mapError (Wrapped msg) (updateTable env invitationsTable (\<lambda>now r. P r) anonymizeRow)) (\<lambda>changed. ret (length changed)) w1 = (Inr n, w2)"
  shows "\<exists>now hit. (\<forall>row. hit row \<longrightarrow> P row) \<and> w_db w2 = (w_db w1)\<lparr>invitations := updateWhere hit (anonymizeRow now) (invitations (w_db w1))\<rparr>"
proof -
  obtain rs where "updateTable env invitationsTable (\<lambda>now r. P r) anonymizeRow w1 = (Inr rs, w2)"
    using assms by (auto simp: andThen_Inr mapError_Inr ret_eq)
  from conjunct2[OF updated_rows[OF this]] show ?thesis
    by (intro exI[of _ "w_now w1"] exI[of _ "\<lambda>r. tenantVisible w1 (i_tenant r) \<and> P r"]) simp
qed

text \<open>C29: The cleanup forgets only what is old: an invitation that neither expired nor was used more than thirty days before the cleanup is
  kept as it is, with its address and its token, and no other table is changed.\<close>

theorem cleanup_keeps_recent_invitations:
  assumes "Worker_cleanupExpired env w = (r, w')"
  shows "(\<forall>row \<in> set (invitations (w_db w)). e_clock env (w_tick w) - 30 * 86400 * 1000000000 \<le> i_expires_at row
        \<and> (\<forall>t. i_used_at row = Some t \<longrightarrow> e_clock env (w_tick w) - 30 * 86400 * 1000000000 \<le> t)
        \<longrightarrow> row \<in> set (invitations (w_db w')))
    \<and> w_db w' = (w_db w)\<lparr>invitations := invitations (w_db w')\<rparr>"
proof -
  let ?cut = "subtractDays (e_clock env (w_tick w)) invitationRetentionDays"
  have cut: "?cut = e_clock env (w_tick w) - 30 * 86400 * 1000000000"
    by (simp add: subtractDays_def invitationRetentionDays_def nanosecondsPerSecond_def)
  have below: "pgTime t \<le> t" for t unfolding pgTime_def by presburger
  obtain q where run: "AnonymizeExpiredInvitations env ?cut (tick w) = (q, w')"
    using assms by (cases "fst (AnonymizeExpiredInvitations env ?cut (tick w))")
      (auto simp: Worker_cleanupExpired_def goNow_def andThen_def mapError_def ret_def split: prod.splits sum.splits)
  from run have "w_db w' = w_db w \<or> (\<exists>now hit. (\<forall>row. hit row \<longrightarrow> anonymizable (pgTime ?cut) row)
      \<and> w_db w' = (w_db w)\<lparr>invitations := updateWhere hit (anonymizeRow now) (invitations (w_db w))\<rparr>)"
    unfolding AnonymizeExpiredInvitations_def
  proof (cases rule: systemTx_cases)
    case failed
    then show ?thesis by simp
  next
    case (committed x w1 w2)
    then show ?thesis using anonymize_rows[OF committed(2)] by (simp add: enteredTx_def)
  next
    case (unacknowledged x msg w1 w2)
    then show ?thesis using anonymize_rows[OF unacknowledged(2)] by (simp add: enteredTx_def)
  qed
  then show ?thesis
  proof
    assume "w_db w' = w_db w"
    then show ?thesis by simp
  next
    assume "\<exists>now hit. (\<forall>row. hit row \<longrightarrow> anonymizable (pgTime ?cut) row)
      \<and> w_db w' = (w_db w)\<lparr>invitations := updateWhere hit (anonymizeRow now) (invitations (w_db w))\<rparr>"
    then obtain now hit where hit: "\<And>row. hit row \<Longrightarrow> anonymizable (pgTime ?cut) row"
      and new: "w_db w' = (w_db w)\<lparr>invitations := updateWhere hit (anonymizeRow now) (invitations (w_db w))\<rparr>" by blast
    have "\<not> hit row" if "?cut \<le> i_expires_at row" "\<forall>t. i_used_at row = Some t \<longrightarrow> ?cut \<le> t" for row
      using hit[of row] that below[of ?cut] by (force simp: anonymizable_def split: option.splits)
    then show ?thesis unfolding new cut[symmetric] by (auto simp: set_updateWhere)
  qed
qed

theorem cleanup_keeps_recent_invitations_witness:
  "sampleInvitation \<in> set (invitations (w_db (snd (Worker_cleanupExpired sampleEnv sampleWorld))))"
proof -
  have "sampleInvitation \<in> set (invitations (w_db sampleWorld))" "i_used_at sampleInvitation = None"
    "e_clock sampleEnv (w_tick sampleWorld) - 30 * 86400 * 1000000000 \<le> i_expires_at sampleInvitation"
    by (simp_all add: sampleWorld_def sampleDb_def sampleInvitation_def sampleEnv_def)
  then show ?thesis using cleanup_keeps_recent_invitations[OF surjective_pairing, where env = sampleEnv and w = sampleWorld] by auto
qed

end
