(* ===== verification/ConfigProperties.thy ===== *)
theory ConfigProperties imports Config WebProperties WorkerProperties begin

text \<open>
  What the composition of the server guarantees about the application that it builds.
\<close>

subsection \<open>Parts of an application\<close>

definition soundSessions :: "session_issuer \<Rightarrow> bool" where
  "soundSessions issuer \<longleftrightarrow> minimumSessionSecretBytes \<le> length (issuerSecret issuer) \<and> issuerName issuer \<noteq> []
     \<and> issuerAudience issuer \<noteq> [] \<and> 0 < issuerTTL issuer"

definition soundLinks :: "url \<Rightarrow> bool" where
  "soundLinks u \<longleftrightarrow> (urlScheme u = ''http'' \<or> urlScheme u = ''https'') \<and> urlHost u \<noteq> [] \<and> urlUser u = None
     \<and> urlRawQuery u = [] \<and> urlFragment u = []"

definition soundPolicy :: "env \<Rightarrow> ports \<Rightarrow> string list \<Rightarrow> browser_policy \<Rightarrow> bool" where
  "soundPolicy env p raws bp \<longleftrightarrow>
     (\<forall>origin \<in> set (policyOrigins bp). \<exists>raw \<in> set raws. canonicalOrigin env p raw = Inr origin)"

definition soundProvider :: "ports \<Rightarrow> server \<Rightarrow> google_oidc \<Rightarrow> oidc_config option \<Rightarrow> bool" where
  "soundProvider p srv client oidc \<longleftrightarrow>
     (case oidc of
        None \<Rightarrow> \<not> oidcEnabled client \<and> serverOIDCSecret srv = []
      | Some c \<Rightarrow> oidcEnabled client \<and> clientSecret client \<noteq> [] \<and> validateOIDCConfig p c = Inr ()
          \<and> serverOIDCSecret srv = stateSecret c \<and> 32 \<le> length (stateSecret c))"

definition soundApplication :: "env \<Rightarrow> ports \<Rightarrow> config \<Rightarrow> application \<Rightarrow> bool" where
  "soundApplication env p c app \<longleftrightarrow>
     (let srv = appServer app; a = serverAuth srv in
      soundSessions (authSessions a) \<and> minimumInvitationTokenSecretBytes \<le> length (authTokenSecret a)
      \<and> 0 < authInviteTTL a \<and> soundLinks (authLinks a)
      \<and> configCookieName (serverCookie srv) \<noteq> [] \<and> 0 < serverReadinessTimeout srv
      \<and> locale_isValid (serverDefaultLocale srv) \<and> soundPolicy env p (corsOrigins (configHTTP c)) (serverPolicy srv)
      \<and> appLimiter app = newRateLimiter 5 (10 * nanosecondsPerMinute)
      \<and> soundProvider p srv (appClient app) (appOIDC app))"

lemma NewSessionIssuer_sound: "NewSessionIssuer config = Inr issuer \<Longrightarrow> soundSessions issuer"
  by (auto simp: NewSessionIssuer_def soundSessions_def Let_def defaultSessionTTL_def nanosecondsPerSecond_def
      split: if_splits)

lemma newInvitationLinkBuilder_sound: "newInvitationLinkBuilder p raw = Inr u \<Longrightarrow> soundLinks u"
  by (auto simp: newInvitationLinkBuilder_def soundLinks_def split: if_splits option.splits)

lemma addOrigins_sound:
  "addOrigins env p raws bp = Inr bp' \<Longrightarrow>
     \<forall>origin \<in> set (policyOrigins bp'). origin \<in> set (policyOrigins bp) \<or> (\<exists>raw \<in> set raws. canonicalOrigin env p raw = Inr origin)"
proof (induction raws arbitrary: bp)
  case Nil
  then show ?case by simp
next
  case (Cons raw raws)
  from Cons.prems obtain origin where origin: "canonicalOrigin env p raw = Inr origin"
    and rest: "addOrigins env p raws (bp\<lparr>policyOrigins := policyOrigins bp @ [origin]\<rparr>) = Inr bp'"
    by (auto split: sum.splits)
  show ?case using Cons.IH[OF rest] origin by auto
qed

lemma newBrowserPolicy_sound: "newBrowserPolicy env p raws = Inr bp \<Longrightarrow> soundPolicy env p raws bp"
  unfolding newBrowserPolicy_def soundPolicy_def by (drule addOrigins_sound) simp

lemma NewAuth_Inr:
  assumes "NewAuth p passwords sessions tokens base ttl = Inr a"
  shows "0 < authInviteTTL a \<and> soundLinks (authLinks a) \<and> authSessions a = sessions \<and> authTokenSecret a = tokens"
  using assms newInvitationLinkBuilder_sound by (auto simp: NewAuth_def split: if_splits sum.splits)

lemma NewServer_Inr:
  assumes "NewServer env p a config = Inr (srv, limiter)"
  shows "serverAuth srv = a \<and> serverOIDCSecret srv = [] \<and> configCookieName (serverCookie srv) \<noteq> []
    \<and> 0 < serverReadinessTimeout srv \<and> locale_isValid (serverDefaultLocale srv)
    \<and> soundPolicy env p (configCORSOrigins config) (serverPolicy srv)
    \<and> limiter = newRateLimiter 5 (10 * nanosecondsPerMinute)"
  using assms newBrowserPolicy_sound
  by (auto simp: NewServer_def Let_def sessionCookieName_def defaultReadinessTimeout_def nanosecondsPerSecond_def
      split: if_splits sum.splits)

lemma NewGoogleOIDC_secret: "NewGoogleOIDC p config = Inr client \<Longrightarrow> oidcEnabled client \<Longrightarrow> clientSecret client \<noteq> []"
  by (auto simp: NewGoogleOIDC_def validateGoogleOIDCConfig_def Let_def oidcEnabled_def split: if_splits sum.splits)

lemma HandlerWithOIDC_Inr:
  assumes "HandlerWithOIDC p srv (Some client) config = Inr (srv', oidc)" and "serverOIDCSecret srv = []"
    and "oidcEnabled client \<Longrightarrow> clientSecret client \<noteq> []"
  shows "soundProvider p srv' client oidc \<and> serverAuth srv' = serverAuth srv \<and> serverCookie srv' = serverCookie srv
    \<and> serverReadinessTimeout srv' = serverReadinessTimeout srv \<and> serverDefaultLocale srv' = serverDefaultLocale srv
    \<and> serverPolicy srv' = serverPolicy srv"
  using assms
  by (auto simp: HandlerWithOIDC_def soundProvider_def validateOIDCConfig_def split: if_splits sum.splits option.splits)

lemma liftSum_Inr: "liftSum s w = (Inr x, w') \<longleftrightarrow> s = Inr x \<and> w' = w"
  by (auto simp: liftSum_def)

text \<open>C39: The server only ever runs well-formed: an application that the composition builds has secrets of at least 32 bytes
  for sessions and invitations and lifetimes above zero, invitation links with a host and no query, trusted origins
  that are the canonical forms of configured ones, a named cookie, a valid default language and the limiter of five
  attempts in ten minutes; the provider's login is wired exactly if its client is configured, and then its secret has
  32 bytes too.\<close>

theorem application_well_formed:
  assumes "initializeApplication env p c w = (Inr app, w')"
  shows "soundApplication env p c app \<and> w_db w' = w_db w"
proof -
  obtain sessions tokens passwords w1 a srv limiter client srv' oidc where
    sessions: "NewSessionIssuer (sessionConfig c) = Inr sessions"
    and tokens: "NewInvitationTokenSigner (tokenSecret (configInvites c)) = Inr tokens"
    and passwords: "NewPasswordHasher p w = (Inr passwords, w1)"
    and auth: "NewAuth p passwords sessions tokens (publicBaseURL (configInvites c)) (inviteTTL (configInvites c)) = Inr a"
    and server: "NewServer env p a (httpServerConfig c Catalog_DefaultLocale) = Inr (srv, limiter)"
    and client: "NewGoogleOIDC p (googleOIDCConfig c) = Inr client"
    and handler: "HandlerWithOIDC p srv (Some client) (httpOIDCConfig c) = Inr (srv', oidc)"
    and app: "app = \<lparr>appServer = srv', appLimiter = limiter, appClient = client, appOIDC = oidc\<rparr>" "w' = w1"
    using assms
    by (auto simp: initializeApplication_def andThen_Inr liftSum_Inr mapError_Inr ret_eq)
  have "minimumInvitationTokenSecretBytes \<le> length tokens"
    using tokens by (auto simp: NewInvitationTokenSigner_def split: if_splits)
  moreover have "w_db w1 = w_db w"
    using passwords
    by (auto simp: NewPasswordHasher_def NewPasswordHasherWithConfig_def Let_def run_simps tick_def split: if_splits)
  moreover note NewSessionIssuer_sound[OF sessions] NewAuth_Inr[OF auth] NewServer_Inr[OF server]
  moreover note HandlerWithOIDC_Inr[OF handler _ NewGoogleOIDC_secret[OF client]]
  ultimately show ?thesis
    unfolding app by (simp add: soundApplication_def Let_def httpServerConfig_def)
qed

definition sampleConfig :: config where
  "sampleConfig =
     \<lparr>configHTTP = \<lparr>serverPort = ''8080'', corsOrigins = [''https://clinks.ch''], sessionCookieNameSetting = [],
        sessionCookieSecure = True, sessionCookieDomain = []\<rparr>,
      configDatabase = \<lparr>databaseURL = ''postgres'', maxConns = 20, minConns = 2, connMaxLifetime = 1, connMaxIdleTime = 1,
        healthCheckPeriod = 1\<rparr>,
      configAuth = \<lparr>jwtSecret = replicate 32 (CHR ''j''), jwtIssuer = ''clinks'', jwtAudience = ''clinks-web'', jwtTTL = 900\<rparr>,
      configInvites = \<lparr>publicBaseURL = ''https://clinks.ch/app/'', inviteTTL = 1000, tokenSecret = replicate 32 (CHR ''i'')\<rparr>,
      configSMTP = \<lparr>settingHost = [], settingPort = [], settingUsername = [], settingPassword = [], settingFrom = [],
        settingRequireTLS = True\<rparr>,
      configOIDC = \<lparr>settingClientID = ''id'', settingClientSecret = ''secret'', settingCallbackURL = ''https://clinks.ch'',
        settingStateSecret = replicate 32 (CHR ''s''), settingSuccessURL = ''https://clinks.ch''\<rparr>,
      configBootstrap = \<lparr>adminEmail = [], adminPassword = [], adminLocale = []\<rparr>\<rparr>"

lemma sample_loads: "Load serviceEnv (Inr sampleConfig) ProfileAPI = Inr sampleConfig"
  by code_simp

lemma sample_parts:
  "\<not> isl (NewSessionIssuer (sessionConfig sampleConfig))"
  "NewInvitationTokenSigner (tokenSecret (configInvites sampleConfig)) = Inr (tokenSecret (configInvites sampleConfig))"
  "\<not> isl (fst (NewPasswordHasher samplePorts serviceWorld))"
  "\<not> isl (newInvitationLinkBuilder samplePorts (publicBaseURL (configInvites sampleConfig)))"
  "\<not> isl (newBrowserPolicy serviceEnv samplePorts (configCORSOrigins (httpServerConfig sampleConfig l)))"
  "\<not> isl (NewGoogleOIDC samplePorts (googleOIDCConfig sampleConfig))"
  "validateOIDCConfig samplePorts (httpOIDCConfig sampleConfig) = Inr ()"
  "locale_isValid Catalog_DefaultLocale" "0 < inviteTTL (configInvites sampleConfig)"
  unfolding httpServerConfig_def server_config.simps by code_simp+

lemma right_of: "\<not> isl r \<Longrightarrow> \<exists>x. r = Inr x"
  by (cases r) auto

theorem application_well_formed_witness:
  "Load serviceEnv (Inr sampleConfig) ProfileAPI = Inr sampleConfig
   \<and> (\<exists>app w. initializeApplication serviceEnv samplePorts sampleConfig serviceWorld = (Inr app, w)
        \<and> soundApplication serviceEnv samplePorts sampleConfig app)"
proof -
  let ?c = sampleConfig
  obtain sessions where sessions: "NewSessionIssuer (sessionConfig ?c) = Inr sessions" using right_of[OF sample_parts(1)] by blast
  obtain passwords w where passwords: "NewPasswordHasher samplePorts serviceWorld = (Inr passwords, w)"
    using right_of[OF sample_parts(3)] by (metis prod.collapse)
  obtain links where "newInvitationLinkBuilder samplePorts (publicBaseURL (configInvites ?c)) = Inr links"
    using right_of[OF sample_parts(4)] by blast
  then obtain a where auth: "NewAuth samplePorts passwords sessions (tokenSecret (configInvites ?c))
      (publicBaseURL (configInvites ?c)) (inviteTTL (configInvites ?c)) = Inr a"
    using sample_parts(9) by (simp add: NewAuth_def)
  obtain bp where "newBrowserPolicy serviceEnv samplePorts
      (configCORSOrigins (httpServerConfig ?c Catalog_DefaultLocale)) = Inr bp"
    using right_of[OF sample_parts(5)] by blast
  then obtain srv limiter where server:
    "NewServer serviceEnv samplePorts a (httpServerConfig ?c Catalog_DefaultLocale) = Inr (srv, limiter)"
    using sample_parts(8) by (simp add: NewServer_def Let_def httpServerConfig_def)
  obtain client where client: "NewGoogleOIDC samplePorts (googleOIDCConfig ?c) = Inr client"
    using right_of[OF sample_parts(6)] by blast
  obtain srv' oidc where "HandlerWithOIDC samplePorts srv (Some client) (httpOIDCConfig ?c) = Inr (srv', oidc)"
    using sample_parts(7) by (cases "oidcEnabled client") (simp_all add: HandlerWithOIDC_def)
  then have run: "\<exists>app w. initializeApplication serviceEnv samplePorts ?c serviceWorld = (Inr app, w)"
    using sessions sample_parts(2) passwords auth server client
    by (simp add: initializeApplication_def andThen_def liftSum_def mapError_def ret_def product_catalog_ready)
  then show ?thesis using application_well_formed sample_loads by blast
qed

end
