(* ===== verification/BrowserProperties.thy ===== *)
theory BrowserProperties imports BrowserPolicy ConfigProperties begin

text \<open>
  What the policy for browsers guarantees: which answers a page of another origin may read, and which of its requests
  reach a handler at all.
\<close>

fun verdictHeader :: "verdict \<Rightarrow> header" where
  "verdictHeader (Forward h) = h"
| "verdictHeader (Answer status h) = h"

lemma cors_shares:
  assumes "(''Access-Control-Allow-Origin'', val) \<in> set (verdictHeader (cors env p bp r))"
  shows "canonicalOrigin env p (headerGet (requestHeader r) ''Origin'') = Inr val \<and> val \<in> set (policyOrigins bp)"
  using assms
  by (auto simp: cors_def Let_def varyHeaders_def allowHeaders_def policyAllows_def split: if_splits sum.splits)

lemma protect_header: "verdictHeader (protect env p bp r) = verdictHeader (cors env p bp r)"
  by (auto simp: protect_def split: verdict.splits)

lemma protect_forwards:
  "protect env p bp r = Forward h \<Longrightarrow> csrfAllows p (policyOrigins bp) r"
  by (auto simp: protect_def split: verdict.splits if_splits)

text \<open>C37: A page of an origin that is not configured can neither read an answer nor cause a change: the header that lets a
  browser share an answer names an origin only if it is the canonical form of a configured one and of the request's own;
  and a request by another method than \<^verbatim>\<open>GET\<close>, \<^verbatim>\<open>HEAD\<close> and \<^verbatim>\<open>OPTIONS\<close> that the browser marks as coming from
  elsewhere reaches a handler only with a configured origin.\<close>

theorem foreign_origin_kept_out:
  assumes "newBrowserPolicy env p raws = Inr bp"
  shows "(\<forall>val. (''Access-Control-Allow-Origin'', val) \<in> set (verdictHeader (protect env p bp r)) \<longrightarrow>
            canonicalOrigin env p (headerGet (requestHeader r) ''Origin'') = Inr val
            \<and> (\<exists>raw \<in> set raws. canonicalOrigin env p raw = Inr val))
    \<and> (requestMethod r \<notin> {''GET'', ''HEAD'', ''OPTIONS''}
         \<and> headerGet (requestHeader r) ''Sec-Fetch-Site'' \<notin> {[], ''same-origin'', ''none''}
         \<and> (\<exists>h. protect env p bp r = Forward h) \<longrightarrow>
            (\<exists>raw \<in> set raws. canonicalOrigin env p raw = Inr (headerGet (requestHeader r) ''Origin'')))"
proof -
  have configured: "\<exists>raw \<in> set raws. canonicalOrigin env p raw = Inr origin" if "origin \<in> set (policyOrigins bp)" for origin
    using that newBrowserPolicy_sound[OF assms] by (simp add: soundPolicy_def)
  have "headerGet (requestHeader r) ''Origin'' \<in> set (policyOrigins bp)"
    if "requestMethod r \<notin> {''GET'', ''HEAD'', ''OPTIONS''}" and "protect env p bp r = Forward h"
      and "headerGet (requestHeader r) ''Sec-Fetch-Site'' \<notin> {[], ''same-origin'', ''none''}" for h
    using protect_forwards[OF that(2)] that(1,3) by (auto simp: csrfAllows_def Let_def split: if_splits)
  then show ?thesis using configured cors_shares unfolding protect_header by blast
qed

text \<open>A policy for one origin, and a page elsewhere that posts.\<close>

definition foreignRequest :: http_request where
  "foreignRequest =
     \<lparr>requestMethod = ''POST'', requestHost = ''api.clinks.ch'', requestPath = ''/'', requestQuery = [],
      requestHeader = [(''Sec-Fetch-Site'', ''cross-site''), (''Origin'', ''https://evil.example'')]\<rparr>"

lemma sample_policy:
  "newBrowserPolicy serviceEnv samplePorts [''https://clinks.ch''] = Inr \<lparr>policyOrigins = [''https://clinks.ch'']\<rparr>"
  "canonicalOrigin serviceEnv samplePorts ''https://clinks.ch'' = Inr ''https://clinks.ch''"
  by code_simp+

theorem foreign_origin_kept_out_witness:
  "\<nexists>h. protect serviceEnv samplePorts \<lparr>policyOrigins = [''https://clinks.ch'']\<rparr> foreignRequest = Forward h"
  using foreign_origin_kept_out[OF sample_policy(1), of foreignRequest] sample_policy(2)
  by (simp add: foreignRequest_def headerGet_def)

end
