(* ===== verification/WireFormats.thy ===== *)
theory WireFormats imports OidcHandlers begin

text \<open>
  Texts that go to the browser and come back: decimal numbers, the JSON object of an attempt and the header
  \<^verbatim>\<open>Cookie\<close>. Each is read back as what was written.
\<close>

subsection \<open>Numbers\<close>

lemma digit_isDigit: "digit = isDigit"
  by (simp add: fun_eq_iff digit_def isDigit_def)

lemma decimal_digits: "list_all isDigit (decimal n) \<and> decimal n \<noteq> [] \<and> numberOf (decimal n) = n
    \<and> (0 < n \<longrightarrow> byte (hd (decimal n)) \<noteq> 48)"
proof (induction n rule: decimal.induct)
  case (1 n)
  show ?case
  proof (cases "n < 10")
    case True
    then have "decimal n = [chr (48 + n)]" by (subst decimal.simps) simp
    then show ?thesis using True by (simp add: isDigit_def byte_chr numberOf_def digitValue_def)
  next
    case False
    have d: "decimal n = decimal (n div 10) @ [chr (48 + n mod 10)]" using False by (subst decimal.simps) simp
    have "byte (chr (48 + n mod 10)) = 48 + n mod 10" by (rule byte_chr) (simp add: less_imp_le_nat trans_less_add2)
    moreover have "n div 10 * 10 + n mod 10 = n" by simp
    moreover have "0 < n div 10" using False by (simp add: div_greater_zero_iff)
    ultimately show ?thesis using 1[OF False] by (simp add: d numberOf_snoc isDigit_def)
  qed
qed

lemma formatInt_nat: "0 \<le> i \<Longrightarrow> formatInt i = decimal (nat i)"
  by (simp add: formatInt_def)

lemma isDigit_char: "isDigit c \<Longrightarrow> c \<noteq> CHR ''+'' \<and> c \<noteq> CHR ''-'' \<and> c \<noteq> CHR ''.'' \<and> c \<noteq> CHR ''e'' \<and> c \<noteq> CHR ''E''"
  by (auto simp: isDigit_def byte_def)

lemma decimal_shape: "\<exists>c s. decimal n = c # s \<and> isDigit c \<and> list_all isDigit s"
  using decimal_digits[of n] by (cases "decimal n") auto

lemma parseInt_formatInt:
  assumes "0 \<le> i" and "i < 2 ^ 63"
  shows "parseInt (formatInt i) = Some i" "parseInt64 (formatInt i) = Some i"
proof -
  obtain c s where d: "decimal (nat i) = c # s" "isDigit c" "list_all isDigit s" using decimal_shape by blast
  have n: "numberOf (c # s) = nat i" using decimal_digits[of "nat i"] d(1) by simp
  show "parseInt (formatInt i) = Some i" "parseInt64 (formatInt i) = Some i"
    using assms d n isDigit_char[OF d(2)] by (simp_all add: formatInt_nat parseInt_def parseInt64_def Let_def)
qed

lemma takeWhile_digits: "list_all isDigit s \<Longrightarrow> \<not> isDigit c \<Longrightarrow> takeWhile digit (s @ c # r) = s \<and> dropWhile digit (s @ c # r) = c # r"
  by (induction s) (simp_all add: digit_isDigit)

lemma readNumber_decimal:
  assumes "c = CHR '','' \<or> c = CHR ''}''"
  shows "readNumber (decimal n @ c # r) = Some (decimal n, c # r)"
proof -
  have c: "\<not> isDigit c" "c \<noteq> CHR ''.''" "c \<noteq> CHR ''e''" "c \<noteq> CHR ''E''" using assms by (auto simp: isDigit_def byte_def)
  have rest: "readFraction (c # r) = Some ([], c # r)" "readExponent (c # r) = Some ([], c # r)"
    using c by (simp_all add: readFraction_def readExponent_def)
  obtain d ds where d: "decimal n = d # ds" "isDigit d" "list_all isDigit ds" using decimal_shape by blast
  show ?thesis
  proof (cases "n = 0")
    case True
    have "decimal n = [chr 48]" using True by (subst decimal.simps) simp
    moreover have "chr 48 = CHR ''0''" by (rule byte_inject[THEN iffD1]) (simp add: byte_chr, simp add: byte_def)
    ultimately show ?thesis by (simp add: readNumber_def Let_def rest)
  next
    case False
    then have "byte d \<noteq> 48" using decimal_digits[of n] d(1) by simp
    then have "d \<noteq> CHR ''0''" by (auto simp: byte_def)
    moreover have "d \<noteq> CHR ''-''" using isDigit_char[OF d(2)] by simp
    moreover have "readDigits (d # ds @ c # r) = Some (d # ds, c # r)"
      using takeWhile_digits[of "d # ds" c r] d c(1) by (simp add: readDigits_def Let_def)
    ultimately show ?thesis using d(1) by (simp add: readNumber_def Let_def rest)
  qed
qed

subsection \<open>JSON objects\<close>

text \<open>A member whose value is a string or a natural number.\<close>

definition flatMember :: "string \<times> json \<Rightarrow> bool" where
  "flatMember m \<longleftrightarrow> validUtf8 (fst m)
     \<and> ((\<exists>s. snd m = JString s \<and> validUtf8 s) \<or> (\<exists>n. snd m = JNumber (decimal n)))"

lemma readValue_flat:
  assumes "flatMember (k, v)" and "c = CHR '','' \<or> c = CHR ''}''"
  shows "readValue (Suc f) d (writeJson v @ c # r) = Some (v, c # r)"
proof -
  consider s where "v = JString s" "validUtf8 s" | n where "v = JNumber (decimal n)" using assms(1) by (auto simp: flatMember_def)
  then show ?thesis
  proof cases
    case (1 s)
    obtain u where "jsonText s @ c # r = quote # u" "unquote u = Some (s, c # r)"
      using unquote_jsonText[OF 1(2), of "c # r"] by blast
    then show ?thesis using 1 by simp
  next
    case (2 n)
    obtain e ds where e: "decimal n = e # ds" "isDigit e" using decimal_shape by blast
    have stop: "skipSpace (e # ds @ c # r) = e # ds @ c # r"
      using e(2) by (auto simp: skipSpace_def isDigit_def)
    have plain: "e \<noteq> quote" "e \<noteq> CHR ''[''" "e \<noteq> CHR ''{''" "e \<noteq> CHR ''n''" "e \<noteq> CHR ''t''" "e \<noteq> CHR ''f''"
      using e(2) bytes_quote by (auto simp: isDigit_def byte_def)
    show ?thesis using 2 e(1) readNumber_decimal[OF assms(2), of n r] plain
      by (simp add: stop)
  qed
qed

definition memberText :: "string \<times> json \<Rightarrow> string" where
  "memberText m = jsonText (fst m) @ '':'' @ writeJson (snd m)"

lemma readMembers_flat:
  "ms \<noteq> [] \<Longrightarrow> list_all flatMember ms \<Longrightarrow>
     readMembers (Suc (length ms) + f) d (joinWith '','' (map memberText ms) @ ''}'' @ r) = Some (ms, r)"
proof (induction ms)
  case Nil
  then show ?case by simp
next
  case (Cons m ms)
  obtain k v where m: "m = (k, v)" by (cases m)
  have flat: "flatMember (k, v)" using Cons.prems m by simp
  have k: "validUtf8 k" using flat by (simp add: flatMember_def)
  have fuel: "Suc (length (m # ms)) + f = Suc (Suc (length ms + f))" by simp
  show ?case
  proof (cases "ms = []")
    case True
    obtain u where u: "jsonText k @ '':'' @ writeJson v @ ''}'' @ r = quote # u"
      "unquote u = Some (k, '':'' @ writeJson v @ ''}'' @ r)" using unquote_jsonText[OF k] by blast
    have shown: "joinWith '','' (map memberText (m # ms)) @ ''}'' @ r = quote # u"
      using u(1) m True by (simp add: memberText_def)
    have val: "readValue (Suc (length ms + f)) d (writeJson v @ CHR ''}'' # r) = Some (v, CHR ''}'' # r)"
      by (rule readValue_flat[OF flat]) simp
    show ?thesis unfolding shown fuel using u(2) val m True by (simp add: Let_def del: readValue.simps)
  next
    case False
    then obtain m' ms' where ms: "ms = m' # ms'" by (cases ms) auto
    let ?more = "joinWith '','' (map memberText ms) @ ''}'' @ r"
    obtain u where u: "jsonText k @ '':'' @ writeJson v @ '','' @ ?more = quote # u"
      "unquote u = Some (k, '':'' @ writeJson v @ '','' @ ?more)" using unquote_jsonText[OF k] by blast
    have shown: "joinWith '','' (map memberText (m # ms)) @ ''}'' @ r = quote # u"
      using u(1) m ms by (simp add: memberText_def)
    have val: "readValue (Suc (length ms + f)) d (writeJson v @ CHR '','' # ?more) = Some (v, CHR '','' # ?more)"
      by (rule readValue_flat[OF flat]) simp
    have more: "readMembers (Suc (length ms + f)) d ?more = Some (ms, r)"
      using Cons.IH[OF False] Cons.prems(2) by simp
    show ?thesis unfolding shown fuel using u(2) val more m by (simp add: Let_def del: readValue.simps)
  qed
qed

lemma length_joinWith: "length ms \<le> length (joinWith '','' (map memberText ms))"
  by (induction ms rule: induct_list012) (simp_all add: memberText_def jsonText_def)

lemma parse_written_object:
  assumes "ms \<noteq> []" and "list_all flatMember ms"
  shows "parseJson (writeJson (JObject ms)) = Some (JObject ms)"
proof -
  let ?body = "joinWith '','' (map memberText ms)"
  have printed: "writeJson (JObject ms) = CHR ''{'' # ?body @ ''}'' @ []"
    by (simp add: memberText_def[abs_def] case_prod_unfold)
  have "length ms \<le> length ?body" by (rule length_joinWith)
  then have "\<exists>f. 2 * length (writeJson (JObject ms)) + 2 = Suc (Suc (length ms) + f)"
    unfolding printed by (intro exI[of _ "2 * length ?body + 4 - length ms"]) simp
  then obtain f where fuel: "2 * length (writeJson (JObject ms)) + 2 = Suc (Suc (length ms) + f)" ..
  have first: "take 1 (skipSpace (?body @ ''}'' @ [])) \<noteq> ''}''"
    using assms(1) by (cases ms; cases "tl ms") (simp_all add: memberText_def jsonText_def)
  show ?thesis unfolding parseJson_def fuel unfolding printed
    using readValue_object[OF first _ readMembers_flat[OF assms, of f], of maxNestingDepth]
    by (simp add: maxNestingDepth_def del: readValue.simps)
qed

subsection \<open>The JSON of an attempt\<close>

definition writableAttempt :: "oidc_attempt \<Rightarrow> bool" where
  "writableAttempt a \<longleftrightarrow> validUtf8 (attemptState a) \<and> validUtf8 (attemptNonce a) \<and> validUtf8 (attemptVerifier a)
     \<and> validUtf8 (attemptMode a) \<and> validUtf8 (attemptInvitationToken a)
     \<and> 0 \<le> attemptExpiresAt a \<and> attemptExpiresAt a < 2 ^ 63"

lemma unmarshal_marshalAttempt:
  assumes "writableAttempt a"
  shows "unmarshalAttempt (marshalAttempt a) = Some a"
proof -
  let ?ms = "[(''state'', JString (attemptState a)), (''nonce'', JString (attemptNonce a)),
         (''verifier'', JString (attemptVerifier a)), (''mode'', JString (attemptMode a))]
        @ (if attemptInvitationToken a = [] then [] else [(''invitation_token'', JString (attemptInvitationToken a))])
        @ [(''expires_at'', JNumber (formatInt (attemptExpiresAt a)))]"
  have names: "validUtf8 ''state''" "validUtf8 ''nonce''" "validUtf8 ''verifier''" "validUtf8 ''mode''"
    "validUtf8 ''invitation_token''" "validUtf8 ''expires_at''"
    by (simp_all add: validUtf8_ascii byte_def)
  have "list_all flatMember ?ms" using assms names 
    by (auto simp: writableAttempt_def flatMember_def formatInt_nat)
  then have parsed: "parseJson (marshalAttempt a) = Some (JObject ?ms)"
    unfolding marshalAttempt_def by (intro parse_written_object) simp_all
  have known: "matchField attemptFields ''state'' = Some ''state''" "matchField attemptFields ''nonce'' = Some ''nonce''"
    "matchField attemptFields ''verifier'' = Some ''verifier''" "matchField attemptFields ''mode'' = Some ''mode''"
    "matchField attemptFields ''invitation_token'' = Some ''invitation_token''"
    "matchField attemptFields ''expires_at'' = Some ''expires_at''"
    by (simp_all add: matchField_def attemptFields_def)
  have "parseInt64 (formatInt (attemptExpiresAt a)) = Some (attemptExpiresAt a)"
    using assms by (intro parseInt_formatInt) (simp_all add: writableAttempt_def)
  then show ?thesis unfolding unmarshalAttempt_def parsed
    by (simp add: known setAttemptField_def zeroAttempt_def)
qed

subsection \<open>Cookies\<close>

text \<open>A value that a cookie can have without being quoted.\<close>

definition safeValue :: "string \<Rightarrow> bool" where
  "safeValue s \<longleftrightarrow> list_all (\<lambda>c. 33 \<le> byte c \<and> byte c < 127 \<and> byte c \<notin> {34, 59, 92}) s"

definition cookiePair :: "string \<times> string \<Rightarrow> string" where
  "cookiePair c = fst c @ ''='' @ snd c"

definition cookieHeader :: "(string \<times> string) list \<Rightarrow> header" where
  "cookieHeader cs = [(''Cookie'', joinPieces ''; '' (map cookiePair cs))]"

definition safeCookie :: "string \<times> string \<Rightarrow> bool" where
  "safeCookie c \<longleftrightarrow> isToken (fst c) \<and> safeValue (snd c)"

lemma tokenChar_plain: "tokenChar c \<Longrightarrow> 33 \<le> byte c \<and> byte c < 127 \<and> byte c \<notin> {34, 59, 61, 92}"
  by (auto simp: tokenChar_def asciiLetter_def asciiDigit_def byte_def)

lemma trimList_id:
  assumes "xs \<noteq> []" and "\<not> P (hd xs)" and "\<not> P (last xs)"
  shows "trimList P xs = xs"
  using assms dropWhile_id_hd[of xs P] dropWhile_id_hd[of "rev xs" P] by (simp add: trimList_def hd_rev)

definition solid :: "string \<Rightarrow> bool" where
  "solid s \<longleftrightarrow> s \<noteq> [] \<and> byte (hd s) \<notin> {32, 9, 10, 13} \<and> byte (last s) \<notin> {32, 9, 10, 13}"

lemma trimASCII_solid: "solid s \<Longrightarrow> trimASCII s = s" "solid s \<Longrightarrow> trimASCII (CHR '' '' # s) = s"
proof -
  assume s: "solid s"
  let ?P = "\<lambda>c. byte c \<in> {32, 9, 10, 13}"
  have id: "trimList ?P s = s" using s by (intro trimList_id) (simp_all add: solid_def)
  moreover have "trimList ?P (CHR '' '' # s) = trimList ?P s" by (simp add: trimList_def byte_def)
  ultimately show "trimASCII s = s" "trimASCII (CHR '' '' # s) = s" by (simp_all only: trimASCII_def)
qed

lemma safeCookie_chars:
  assumes "safeCookie c"
  shows "fst c \<noteq> []" "\<forall>d \<in> set (fst c). 33 \<le> byte d \<and> byte d < 127 \<and> byte d \<notin> {34, 59, 61, 92}"
    "\<forall>d \<in> set (snd c). 33 \<le> byte d \<and> byte d < 127 \<and> byte d \<notin> {34, 59, 92}"
  using assms tokenChar_plain by (auto simp: safeCookie_def isToken_def safeValue_def list_all_iff)

lemma solid_pair:
  assumes "safeCookie c"
  shows "solid (cookiePair c)" "solid (fst c)"
proof -
  note chars = safeCookie_chars[OF assms]
  have pair: "33 \<le> byte d" if "d \<in> set (cookiePair c)" for d
  proof -
    have "byte (CHR ''='') = 61" by (simp add: byte_def)
    then show ?thesis using that chars(2,3) by (auto simp: cookiePair_def)
  qed
  have solid: "solid s" if "s \<noteq> []" and "\<And>d. d \<in> set s \<Longrightarrow> 33 \<le> byte d" for s
    using that(2)[of "hd s"] that(2)[of "last s"] that(1) by (simp add: solid_def)
  show "solid (cookiePair c)" by (rule solid) (simp_all add: pair, simp add: cookiePair_def)
  show "solid (fst c)" by (rule solid) (use chars(1,2) in simp_all)
qed

lemma cookiePiece_pair:
  assumes "safeCookie c"
  shows "cookiePiece (cookiePair c) = [c]" "cookiePiece (CHR '' '' # cookiePair c) = [c]"
proof -
  note chars = safeCookie_chars[OF assms]
  have "CHR ''='' \<notin> set (fst c)" using chars(2) by (auto simp: byte_def)
  then have "cut (CHR ''='') (cookiePair c) = (fst c, snd c, True)" by (simp add: cookiePair_def cut_append)
  moreover have "isToken (fst c)" using assms by (simp add: safeCookie_def)
  moreover have "cookieValue (snd c) = Some (snd c)"
  proof -
    have "snd c = [] \<or> byte (hd (snd c)) \<noteq> 34" using chars(3) by (cases "snd c") auto
    moreover have "list_all cookieValueChar (snd c)" using chars(3) by (auto simp: list_all_iff cookieValueChar_def)
    ultimately show ?thesis by (auto simp: cookieValue_def)
  qed
  ultimately show "cookiePiece (cookiePair c) = [c]" "cookiePiece (CHR '' '' # cookiePair c) = [c]"
    by (simp_all add: cookiePiece_def trimASCII_solid solid_pair[OF assms])
qed

lemma pieces_read:
  "list_all safeCookie cs \<Longrightarrow> cs \<noteq> [] \<Longrightarrow> pre = [] \<or> pre = '' '' \<Longrightarrow>
     concat (map cookiePiece (splitOn (CHR '';'') (pre @ joinPieces ''; '' (map cookiePair cs)))) = cs"
proof (induction cs arbitrary: pre)
  case Nil
  then show ?case by simp
next
  case (Cons c cs)
  have c: "safeCookie c" using Cons.prems by simp
  have semi: "CHR '';'' \<notin> set (pre @ cookiePair c)"
    using safeCookie_chars[OF c] Cons.prems(3) by (auto simp: cookiePair_def byte_def)
  have first: "cookiePiece (pre @ cookiePair c) = [c]" using cookiePiece_pair[OF c] Cons.prems(3) by auto
  show ?case
  proof (cases "cs = []")
    case True
    then show ?thesis using first splitOn_none[OF semi] by simp
  next
    case False
    then obtain c' cs' where cs: "cs = c' # cs'" by (cases cs) auto
    let ?more = "'' '' @ joinPieces ''; '' (map cookiePair cs)"
    have "pre @ joinPieces ''; '' (map cookiePair (c # cs)) = (pre @ cookiePair c) @ CHR '';'' # ?more" using cs by simp
    then show ?thesis using Cons.IH[OF _ False, of "'' ''"] Cons.prems(1) splitOn_append[OF semi, of ?more] first by simp
  qed
qed

lemma solid_line: "list_all safeCookie cs \<Longrightarrow> cs \<noteq> [] \<Longrightarrow> solid (joinPieces ''; '' (map cookiePair cs))"
proof (induction cs rule: induct_list012)
  case (3 c c' cs)
  then have "solid (cookiePair c)" "solid (joinPieces ''; '' (map cookiePair (c' # cs)))" by (simp_all add: solid_pair)
  then show ?case by (auto simp: solid_def)
qed (simp_all add: solid_pair)

lemma readCookies_header:
  assumes "list_all safeCookie cs"
  shows "readCookies (cookieHeader cs) = cs"
proof (cases "cs = []")
  case True
  then show ?thesis
    by (simp add: readCookies_def cookieHeader_def headerValues_def trimASCII_def trimList_def cookiePiece_def isToken_def)
next
  case False
  then show ?thesis using pieces_read[OF assms False, of "[]"] solid_line[OF assms False]
    by (simp add: readCookies_def cookieHeader_def headerValues_def trimASCII_solid)
qed

end
