(* ===== verification/GuessingProperties.thy ===== *)
theory GuessingProperties imports WebProperties begin

text \<open>
  How many passwords can be tried: the handlers of logins, the rate limiter they share, and the runs of requests that a
  server answers.
\<close>

subsection \<open>One login\<close>

definition limited :: "connect_error + 'a \<Rightarrow> bool" where
  "limited r \<longleftrightarrow> (case r of Inl e \<Rightarrow> errorRetryAfter e \<noteq> None | Inr _ \<Rightarrow> False)"

definition callInstant :: "env \<Rightarrow> served \<Rightarrow> time" where
  "callInstant env s = e_clock env (w_tick (servedWorld s))"

definition callKey :: "env \<Rightarrow> rpc \<Rightarrow> string option" where
  "callKey env call = map_option (\<lambda>(scope, m). passwordRateLimitKey env scope (crEmail m)) (loginOf call)"

lemma sessionCookie_total: "\<exists>c w'. sessionCookie env srv token w = (Inr c, w')"
  by (simp add: sessionCookie_def Let_def andThen_def goNow_def ret_def)

lemma passwordVerifiedCookie_total: "\<exists>c w'. passwordVerifiedCookie env srv token w = (Inr c, w')"
  by (simp add: passwordVerifiedCookie_def Let_def andThen_def goNow_def ret_def)

lemma serviceCall_total:
  assumes "\<And>w. \<exists>x w'. m w = (Inr x, w')"
  shows "\<exists>x s'. serviceCall env srv h m s = (Inr x, s') \<and> servedLimiter s' = servedLimiter s"
proof -
  obtain x w' where "m (servedWorld s) = (Inr x, w')" using assms by blast
  then show ?thesis by (simp add: serviceCall_def localized_def onWorld_def)
qed

lemma serviceCall_Inl:
  "serviceCall env srv h m s = (Inl e, s') \<Longrightarrow> errorRetryAfter e = None \<and> servedLimiter s' = servedLimiter s"
  by (auto simp: serviceCall_def localized_def localizedError_def onWorld_def Let_def split: prod.splits sum.splits)

lemma serviceCall_limiter: "serviceCall env srv h m s = (r, s') \<Longrightarrow> servedLimiter s' = servedLimiter s"
  using limiter_serviceCall[of env srv h m] withinD[of sameLimiter] by (fastforce simp: sameLimiter_def)

lemma sessionResponse_total:
  "\<exists>x s'. sessionResponse env srv h (ret session) s = (Inr x, s') \<and> servedLimiter s' = servedLimiter s"
proof -
  have "\<exists>x s'. serviceCall env srv h (sessionCookie env srv (sessionToken session)) s = (Inr x, s')
      \<and> servedLimiter s' = servedLimiter s"
    by (rule serviceCall_total) (rule sessionCookie_total)
  then show ?thesis
    by (auto simp: sessionResponse_def serviceCall_def andThen_def localized_def onWorld_def ret_def)
qed

text \<open>After the service has accepted the password nothing fails any more.\<close>

lemma login_finish_total:
  "\<exists>x s'. andThen (sessionResponse env srv h (ret session)) (\<lambda>resp.
        if setVerifiedCookie \<and> serverOIDCSecret srv \<noteq> []
        then andThen (serviceCall env srv h (passwordVerifiedCookie env srv (sessionToken session))) (\<lambda>c.
             ret (resp\<lparr>responseCookies := responseCookies resp @ [c]\<rparr>))
        else ret resp) s = (Inr x, s') \<and> servedLimiter s' = servedLimiter s"
proof -
  obtain x s1 where first: "sessionResponse env srv h (ret session) s = (Inr x, s1)" "servedLimiter s1 = servedLimiter s"
    using sessionResponse_total by blast
  obtain c s2 where "serviceCall env srv h (passwordVerifiedCookie env srv (sessionToken session)) s1 = (Inr c, s2)"
    "servedLimiter s2 = servedLimiter s1"
    using serviceCall_total[of "passwordVerifiedCookie env srv (sessionToken session)"] passwordVerifiedCookie_total by blast
  then show ?thesis using first by (simp add: ret_def)
qed

lemma rateLimitError_run:
  assumes "rateLimitError env srv h retry s = (r, s')"
  shows "\<exists>e. r = Inl e \<and> (errorRetryAfter e \<noteq> None \<longleftrightarrow> 0 < retry) \<and> servedLimiter s' = servedLimiter s"
proof -
  obtain t w where "plainText (Translator_ErrorMessage env (requestLocale env srv h) (Some (newError ErrorRateLimited)))
      (servedWorld s) = (t, w)" by fastforce
  then show ?thesis using assms by (auto simp: rateLimitError_def Let_def)
qed

lemma loginWithCredentials_cases:
  assumes "loginWithCredentials env srv h msg scope login setVerifiedCookie s = (r, s')"
  defines "key \<equiv> passwordRateLimitKey env scope (crEmail msg)"
  obtains (refused) retry l e where "allow (servedLimiter s) (callInstant env s) key = ((False, retry), l)"
      "r = Inl e" "errorRetryAfter e \<noteq> None \<longleftrightarrow> 0 < retry" "servedLimiter s' = l"
  | (failed) retry l e where "allow (servedLimiter s) (callInstant env s) key = ((True, retry), l)"
      "r = Inl e" "errorRetryAfter e = None" "servedLimiter s' = l"
  | (granted) retry l x where "allow (servedLimiter s) (callInstant env s) key = ((True, retry), l)"
      "r = Inr x" "servedLimiter s' = reset l key"
proof -
  obtain ok retry l where allow: "allow (servedLimiter s) (callInstant env s) key = ((ok, retry), l)"
    by (metis prod.exhaust)
  let ?s1 = "s\<lparr>servedLimiter := l, servedWorld := tick (servedWorld s)\<rparr>"
  have step: "limiterAllow env key s = (Inr (ok, retry), ?s1)"
    using allow by (simp add: limiterAllow_def callInstant_def)
  show thesis
  proof (cases ok)
    case False
    then have "rateLimitError env srv h retry ?s1 = (r, s')"
      using assms(1) step by (simp add: loginWithCredentials_def Let_def key_def)
    then obtain e where "r = Inl e" "errorRetryAfter e \<noteq> None \<longleftrightarrow> 0 < retry" "servedLimiter s' = l"
      using rateLimitError_run by fastforce
    then show thesis using allow False by (intro refused) simp_all
  next
    case True
    let ?call = "serviceCall env srv h (login (crEmail msg) (crPassword msg))"
    obtain q s2 where call: "?call ?s1 = (q, s2)" by fastforce
    have s2: "servedLimiter s2 = l" using serviceCall_limiter[OF call] by simp
    show thesis
    proof (cases q)
      case (Inl e)
      then have "r = Inl e" "s' = s2"
        using assms(1) step True call by (simp_all add: loginWithCredentials_def Let_def key_def)
      moreover have "errorRetryAfter e = None" using serviceCall_Inl[OF call[unfolded Inl]] by (rule conjunct1)
      ultimately show thesis using allow True s2 by (intro failed) simp_all
    next
      case (Inr session)
      have "limiterReset key s2 = (Inr (), s2\<lparr>servedLimiter := reset l key\<rparr>)" using s2 by (simp add: limiterReset_def)
      moreover obtain x s3 where "andThen (sessionResponse env srv h (ret session)) (\<lambda>resp.
            if setVerifiedCookie \<and> serverOIDCSecret srv \<noteq> []
            then andThen (serviceCall env srv h (passwordVerifiedCookie env srv (sessionToken session))) (\<lambda>c.
                 ret (resp\<lparr>responseCookies := responseCookies resp @ [c]\<rparr>))
            else ret resp) (s2\<lparr>servedLimiter := reset l key\<rparr>) = (Inr x, s3)" "servedLimiter s3 = reset l key"
        using login_finish_total by force
      ultimately have "r = Inr x \<and> s' = s3"
        using assms(1) step True call Inr by (simp add: loginWithCredentials_def Let_def key_def)
      then show thesis using allow True \<open>servedLimiter s3 = _\<close> by (intro granted) simp_all
    qed
  qed
qed

lemma replyWith_run:
  assumes "replyWith kind m s = (r, s')"
  obtains r0 where "m s = (r0, s')" "isl r \<longleftrightarrow> isl r0" "limited r \<longleftrightarrow> limited r0"
proof -
  obtain r0 s1 where m: "m s = (r0, s1)" by fastforce
  show thesis
    using assms m by (intro that[of r0]) (cases r0; auto simp: replyWith_def ret_def limited_def)+
qed

lemma loginOf_handler:
  assumes "loginOf call = Some (scope, m)"
  shows "\<exists>loginFn verified. handleCall env p srv h call
     = replyWith SessionReply (loginWithCredentials env srv h m scope loginFn verified)"
proof -
  consider "call = CallLogin m" "scope = ''user''" | "call = CallLoginSuperAdmin m" "scope = ''superadmin''"
    using assms by (cases call) simp_all
  then show ?thesis by cases (simp_all only: handleCall.simps Login_def LoginSuperAdmin_def, blast+)
qed

lemma serveRPC_login_cases:
  assumes "serveRPC env p srv h call s = (r, s')" and "callKey env call = Some key"
  obtains (refused) retry l where "allow (servedLimiter s) (callInstant env s) key = ((False, retry), l)"
      "isl r" "limited r \<longleftrightarrow> 0 < retry" "servedLimiter s' = l"
  | (failed) retry l where "allow (servedLimiter s) (callInstant env s) key = ((True, retry), l)"
      "isl r" "\<not> limited r" "servedLimiter s' = l"
  | (granted) retry l where "allow (servedLimiter s) (callInstant env s) key = ((True, retry), l)"
      "\<not> isl r" "\<not> limited r" "servedLimiter s' = reset l key"
proof -
  obtain scope m where login: "loginOf call = Some (scope, m)" and key: "key = passwordRateLimitKey env scope (crEmail m)"
    using assms(2) by (auto simp: callKey_def)
  obtain loginFn verified where handler: "handleCall env p srv h call = replyWith SessionReply (loginWithCredentials env srv h m scope loginFn verified)"
    using loginOf_handler[OF login] by blast
  obtain r0 where run: "loginWithCredentials env srv h m scope loginFn verified (s\<lparr>servedSession := None\<rparr>) = (r0, s')"
    and r0: "isl r \<longleftrightarrow> isl r0" "limited r \<longleftrightarrow> limited r0"
    by (rule replyWith_run[OF assms(1)[unfolded serveRPC_def handler]])
  have same: "callInstant env (s\<lparr>servedSession := None\<rparr>) = callInstant env s" by (simp add: callInstant_def)
  from run show thesis
  proof (cases rule: loginWithCredentials_cases)
    case (refused retry l e)
    then show thesis using that(1) r0 key same by (simp add: limited_def)
  next
    case (failed retry l e)
    then show thesis using that(2) r0 key same by (simp add: limited_def)
  next
    case (granted retry l x)
    then show thesis using that(3) r0 key same by (simp add: limited_def)
  qed
qed

lemma serveRPC_other:
  assumes "serveRPC env p srv h call s = (r, s')" and "callKey env call = None"
  shows "servedLimiter s' = servedLimiter s"
proof -
  have "loginOf call = None" using assms(2) by (simp add: callKey_def)
  then show ?thesis using withinD[OF sameLimiter_others assms(1)[unfolded serveRPC_def]] by (simp add: sameLimiter_def)
qed

subsection \<open>A run of requests\<close>

type_synonym requests = "(header \<times> rpc) list"

text \<open>
  The requests are answered one after the other, in any order of their kinds and for any accounts. \<open>callInstants\<close> are the
  instants at which they are begun, \<open>guesses\<close> those of the logins for a key that were not turned away by the
  rate limiter, \<open>loggedIn\<close> the keys of the logins that succeeded, and \<open>callEvents\<close> what the rate limiter sees.
\<close>

fun callInstants :: "env \<Rightarrow> ports \<Rightarrow> server \<Rightarrow> requests \<Rightarrow> served \<Rightarrow> time list" where
  "callInstants env p srv [] s = []"
| "callInstants env p srv ((h, call) # calls) s =
     callInstant env s # callInstants env p srv calls (snd (serveRPC env p srv h call s))"

fun guesses :: "env \<Rightarrow> ports \<Rightarrow> server \<Rightarrow> string \<Rightarrow> requests \<Rightarrow> served \<Rightarrow> time list" where
  "guesses env p srv key [] s = []"
| "guesses env p srv key ((h, call) # calls) s =
     (case serveRPC env p srv h call s of
        (r, s') \<Rightarrow> (if callKey env call = Some key \<and> \<not> limited r then [callInstant env s] else [])
                  @ guesses env p srv key calls s')"

fun loggedIn :: "env \<Rightarrow> ports \<Rightarrow> server \<Rightarrow> requests \<Rightarrow> served \<Rightarrow> string list" where
  "loggedIn env p srv [] s = []"
| "loggedIn env p srv ((h, call) # calls) s =
     (case serveRPC env p srv h call s of
        (r, s') \<Rightarrow> (case callKey env call of Some key \<Rightarrow> if isl r then [] else [key] | None \<Rightarrow> [])
                  @ loggedIn env p srv calls s')"

fun callEvents :: "env \<Rightarrow> ports \<Rightarrow> server \<Rightarrow> requests \<Rightarrow> served \<Rightarrow> event list" where
  "callEvents env p srv [] s = []"
| "callEvents env p srv ((h, call) # calls) s =
     (case serveRPC env p srv h call s of
        (r, s') \<Rightarrow> (case callKey env call of
                     Some key \<Rightarrow> Attempt (callInstant env s) key # (if isl r then [] else [ResetKey key])
                   | None \<Rightarrow> []) @ callEvents env p srv calls s')"

lemma monotoneFrom_mono: "monotoneFrom t evs \<Longrightarrow> t' \<le> t \<Longrightarrow> monotoneFrom t' evs"
  by (induction t evs rule: monotoneFrom.induct) auto

lemma callEvents_monotone:
  "sorted (t # callInstants env p srv calls s) \<Longrightarrow> monotoneFrom t (callEvents env p srv calls s)"
proof (induction calls arbitrary: t s)
  case Nil
  then show ?case by simp
next
  case (Cons c calls)
  obtain h call r s' where c: "c = (h, call)" and run: "serveRPC env p srv h call s = (r, s')" by (metis prod.exhaust)
  have "t \<le> callInstant env s" "sorted (callInstant env s # callInstants env p srv calls s')"
    using Cons.prems c run by simp_all
  then show ?case
    using Cons.IH[of "callInstant env s" s'] c run by (auto split: option.split elim: monotoneFrom_mono)
qed

lemma resets_are_logins: "ResetKey key \<in> set (callEvents env p srv calls s) \<Longrightarrow> key \<in> set (loggedIn env p srv calls s)"
  by (induction calls arbitrary: s) (force split: option.splits if_splits prod.splits)+

lemma stateAfter_append: "stateAfter l (xs @ ys) = stateAfter (stateAfter l xs) ys"
  by (induction l xs rule: stateAfter.induct) simp_all

text \<open>The guesses are the attempts that the rate limiter allows.\<close>

lemma guesses_allowed:
  assumes "servedLimiter s = stateAfter (newRateLimiter lim win) evs"
    and "monotoneFrom t (evs @ callEvents env p srv calls s)"
  shows "guesses env p srv key calls s = allowedTimes key (servedLimiter s) (callEvents env p srv calls s)"
  using assms
proof (induction calls arbitrary: s evs)
  case Nil
  then show ?case by simp
next
  case (Cons c calls)
  obtain h call r s' where c: "c = (h, call)" and run: "serveRPC env p srv h call s = (r, s')" by (metis prod.exhaust)
  show ?case
  proof (cases "callKey env call")
    case None
    then show ?thesis using Cons c run serveRPC_other[OF run] by simp
  next
    case (Some k)
    let ?now = "callInstant env s"
    have next_step: "guesses env p srv key calls s' = allowedTimes key (servedLimiter s') (callEvents env p srv calls s')"
      if "servedLimiter s' = stateAfter (servedLimiter s) new"
        "callEvents env p srv (c # calls) s = new @ callEvents env p srv calls s'" for new
      using that Cons.prems by (intro Cons.IH[of s' "evs @ new"]) (simp_all add: stateAfter_append)
    from run Some show ?thesis
    proof (cases rule: serveRPC_login_cases)
      case (refused retry l)
      have "monotoneFrom t (evs @ [Attempt ?now k])"
        using Cons.prems(2) c run Some monotone_prefix[of t "evs @ [Attempt ?now k]"] by simp
      then have "limited r"
        using limiter_retry_after_suffices[OF _ Cons.prems(1) refused(1)] refused(3) by blast
      then show ?thesis using refused c run Some next_step[of "[Attempt ?now k]"] by simp
    next
      case (failed retry l)
      then show ?thesis using c run Some next_step[of "[Attempt ?now k]"] by simp
    next
      case (granted retry l)
      then show ?thesis using c run Some next_step[of "[Attempt ?now k, ResetKey k]"] by simp
    qed
  qed
qed

text \<open>What a request is with another password.\<close>

fun withPassword :: "string \<Rightarrow> rpc \<Rightarrow> rpc" where
  "withPassword pw (CallLogin m) = CallLogin (m\<lparr>crPassword := pw\<rparr>)"
| "withPassword pw (CallLoginSuperAdmin m) = CallLoginSuperAdmin (m\<lparr>crPassword := pw\<rparr>)"
| "withPassword pw call = call"

lemma refused_password_unread:
  assumes "fst (fst (allow (servedLimiter s) (callInstant env s) (passwordRateLimitKey env scope (crEmail msg)))) = False"
  shows "loginWithCredentials env srv h (msg\<lparr>crPassword := pw\<rparr>) scope login verified s
    = loginWithCredentials env srv h msg scope login verified s"
proof -
  obtain retry l where "allow (servedLimiter s) (callInstant env s) (passwordRateLimitKey env scope (crEmail msg)) = ((False, retry), l)"
    using assms by (metis prod.exhaust fst_conv)
  then show ?thesis
    by (simp add: loginWithCredentials_def Let_def limiterAllow_def callInstant_def)
qed

lemma limited_password_unread:
  assumes "limited (fst (serveRPC env p srv h call s))"
  shows "serveRPC env p srv h (withPassword pw call) s = serveRPC env p srv h call s"
proof (cases "loginOf call")
  case None
  then show ?thesis by (cases call) simp_all
next
  case (Some login)
  obtain scope m where login: "loginOf call = Some (scope, m)" using Some by (cases login) simp
  obtain r s' where run: "serveRPC env p srv h call s = (r, s')" by fastforce
  have key: "callKey env call = Some (passwordRateLimitKey env scope (crEmail m))" using login by (simp add: callKey_def)
  have refused: "fst (fst (allow (servedLimiter s) (callInstant env s) (passwordRateLimitKey env scope (crEmail m)))) = False"
    using run key by (cases rule: serveRPC_login_cases) (use assms run in simp_all)
  consider "call = CallLogin m" "scope = ''user''" | "call = CallLoginSuperAdmin m" "scope = ''superadmin''"
    using login by (cases call) simp_all
  then show ?thesis
    by cases (use refused in \<open>simp_all add: serveRPC_def Login_def LoginSuperAdmin_def replyWith_def andThen_def
      refused_password_unread callInstant_def\<close>)
qed

text \<open>C8: Passwords cannot be tried without limit. However the requests of all clients are interleaved, a server answers at most
  five logins for a scope and an e-mail address in any ten minutes, as long as none of them succeeds; a login
  beyond that is turned away with a time to wait, and its password is not even looked at: with any other password the answer
  and the state after it are the same.\<close>

theorem password_guessing_limited:
  assumes "NewServer env p a config = Inr (srv, servedLimiter s)"
    and "sorted (callInstants env p srv calls s)"
    and "key \<notin> set (loggedIn env p srv calls s)"
  shows "length (filter (\<lambda>t. t0 < t \<and> t \<le> t0 + 10 * nanosecondsPerMinute) (guesses env p srv key calls s)) \<le> 5
    \<and> (\<forall>h call st pw. limited (fst (serveRPC env p srv h call st)) \<longrightarrow>
         serveRPC env p srv h (withPassword pw call) st = serveRPC env p srv h call st)"
proof -
  let ?n = "newRateLimiter 5 (10 * nanosecondsPerMinute)" and ?evs = "callEvents env p srv calls s"
  have limiter: "servedLimiter s = ?n"
    using assms(1) by (simp add: NewServer_def Let_def split: sum.splits if_splits)
  have "\<exists>t. sorted (t # callInstants env p srv calls s)"
    using assms(2) by (cases "callInstants env p srv calls s") auto
  then obtain t where mono: "monotoneFrom t ?evs" using callEvents_monotone by blast
  have "guesses env p srv key calls s = allowedTimes key ?n ?evs"
    using guesses_allowed[of s 5 "10 * nanosecondsPerMinute" "[]"] limiter mono by simp
  moreover have "ResetKey key \<notin> set ?evs" using assms(3) resets_are_logins by blast
  ultimately have "inWindow (window ?n) (guesses env p srv key calls s) (t0 + 10 * nanosecondsPerMinute) \<le> limit ?n"
    using limiter_bounds_every_window[OF mono] by simp
  moreover have "window ?n = 10 * nanosecondsPerMinute" "limit ?n = 5"
    by (simp_all add: newRateLimiter_def nanosecondsPerMinute_def nanosecondsPerSecond_def)
  ultimately show ?thesis using limited_password_unread by (simp add: inWindow_def)
qed

definition webConfig :: server_config where
  "webConfig =
     \<lparr>configCORSOrigins = [], configReadinessTimeout = 1,
      configCookie = \<lparr>configCookieName = ''c'', configCookieSecure = True, configCookieMaxAge = 0, configCookieDomain = []\<rparr>,
      configDefaultLocale = ''en''\<rparr>"

lemma webConfig_server:
  "NewServer serviceEnv samplePorts sampleAuth webConfig = Inr (webServer\<lparr>serverOIDCSecret := []\<rparr>, servedLimiter webServed)"
proof -
  have "locale_isValid ''en''" by code_simp
  then show ?thesis
    by (simp add: NewServer_def Let_def webConfig_def webServer_def webServed_def newBrowserPolicy_def)
qed

lemma rateLimitError_isl: "isl (fst (rateLimitError env srv h retry s))"
  by (simp add: rateLimitError_def Let_def split: prod.split)

lemma failing_login:
  assumes "\<And>w. \<exists>e w'. login (crEmail msg) (crPassword msg) w = (Inl e, w')"
  shows "isl (fst (loginWithCredentials env srv h msg scope login verified s))"
proof -
  obtain ok retry l where allow: "allow (servedLimiter s) (e_clock env (w_tick (servedWorld s)))
      (passwordRateLimitKey env scope (crEmail msg)) = ((ok, retry), l)" by (metis prod.exhaust)
  have "\<exists>e s2. serviceCall env srv h (login (crEmail msg) (crPassword msg)) s1 = (Inl e, s2)" for s1
    using assms[of "servedWorld s1"]
    by (auto simp: serviceCall_def localized_def localizedError_def onWorld_def Let_def split: prod.splits)
  then obtain e s2 where call: "serviceCall env srv h (login (crEmail msg) (crPassword msg))
      (s\<lparr>servedLimiter := l, servedWorld := tick (servedWorld s)\<rparr>) = (Inl e, s2)" by blast
  then show ?thesis
    using allow rateLimitError_isl by (cases ok) (simp_all add: loginWithCredentials_def Let_def limiterAllow_def)
qed

lemma blank_login_fails: "isl (fst (serveRPC serviceEnv samplePorts srv h (CallLogin \<lparr>crEmail = [], crPassword = pw\<rparr>) s))"
proof -
  have "\<exists>e w'. Auth_Login serviceEnv samplePorts (serverAuth srv) [] pw w = (Inl e, w')" for w
    by (auto simp: Auth_Login_def Auth_login_def ParseEmail_def toLower_def fail_def)
  then have login: "isl (fst (loginWithCredentials serviceEnv srv h \<lparr>crEmail = [], crPassword = pw\<rparr> ''user''
      (Auth_Login serviceEnv samplePorts (serverAuth srv)) True (s\<lparr>servedSession := None\<rparr>)))"
    by (intro failing_login) simp
  obtain r s' where run: "serveRPC serviceEnv samplePorts srv h (CallLogin \<lparr>crEmail = [], crPassword = pw\<rparr>) s = (r, s')"
    by fastforce
  show ?thesis
    using login by (rule_tac replyWith_run[OF run[unfolded serveRPC_def handleCall.simps Login_def]]) (simp add: run)
qed

theorem password_guessing_limited_witness:
  "length (filter (\<lambda>t. 0 < t \<and> t \<le> 10 * nanosecondsPerMinute)
     (guesses serviceEnv samplePorts (webServer\<lparr>serverOIDCSecret := []\<rparr>) ''password:user:''
        [([], CallLogin \<lparr>crEmail = [], crPassword = ''p''\<rparr>)] webServed)) \<le> 5"
proof -
  have "isl (fst (serveRPC serviceEnv samplePorts (webServer\<lparr>serverOIDCSecret := []\<rparr>) []
      (CallLogin \<lparr>crEmail = [], crPassword = ''p''\<rparr>) webServed))" by (rule blank_login_fails)
  then have "''password:user:'' \<notin> set (loggedIn serviceEnv samplePorts (webServer\<lparr>serverOIDCSecret := []\<rparr>)
      [([], CallLogin \<lparr>crEmail = [], crPassword = ''p''\<rparr>)] webServed)"
    by (auto split: prod.splits option.splits dest!: arg_cong[where f = fst])
  then show ?thesis
    using password_guessing_limited[OF webConfig_server, of "[([], CallLogin \<lparr>crEmail = [], crPassword = ''p''\<rparr>)]" _ 0]
    by simp
qed

end
