(* ===== verification/OidcProperties.thy ===== *)
theory OidcProperties imports WireFormats GuessingProperties begin

text \<open>
  What the authentication with an external provider guarantees: the proof of a password and the sealed attempt come
  back from the browser as they were issued, and a callback acts only on an attempt that the server sealed itself.
\<close>

subsection \<open>Values for cookies\<close>

lemma safeValue_simps [simp]:
  "safeValue []" "safeValue (s @ t) \<longleftrightarrow> safeValue s \<and> safeValue t"
  "safeValue (c # s) \<longleftrightarrow> 33 \<le> byte c \<and> byte c < 127 \<and> byte c \<notin> {34, 59, 92} \<and> safeValue s"
  by (auto simp: safeValue_def)

lemma safeValue_base64 [simp]: "safeValue (base64Encode s)"
proof -
  have "\<forall>v \<in> set (sextets (map byte s)). v < 64" by (rule sextets_less) (auto simp: byte_less)
  then have "\<forall>v \<in> set (sextets (map byte s)). 33 \<le> byte (base64Digit v) \<and> byte (base64Digit v) < 127
      \<and> byte (base64Digit v) \<notin> {34, 59, 92}"
    using byte_base64Digit by auto
  then show ?thesis by (auto simp: safeValue_def base64Encode_def list_all_iff)
qed

lemma safeValue_decimal [simp]: "safeValue (decimal n)"
  using decimal_digits[of n] by (auto simp: safeValue_def list_all_iff isDigit_def)

lemma trimSpace_safe [simp]:
  assumes "safeValue s" shows "trimSpace s = s"
proof (rule trimSpace_ascii)
  show "ascii s" using assms by (auto simp: ascii_def safeValue_def list_all_iff)
  have "\<not> isSpace (byte d)" if "d \<in> set s" for d
    using that assms by (auto simp: safeValue_def list_all_iff isSpace_def)
  then show "s = [] \<or> \<not> isSpace (byte (hd s))" "s = [] \<or> \<not> isSpace (byte (last s))" by auto
qed

lemma requestCookie_header:
  "list_all safeCookie cs \<Longrightarrow> name \<noteq> [] \<Longrightarrow> requestCookie (cookieHeader cs) name = map_of cs name"
  by (simp add: requestCookie_def readCookies_header)

subsection \<open>The proof of a password\<close>

definition afterEpoch :: "time \<Rightarrow> bool" where
  "afterEpoch t \<longleftrightarrow> 0 \<le> unixSeconds t \<and> unixSeconds t < 2 ^ 63"

definition modernEnv :: env where
  "modernEnv = serviceEnv\<lparr>e_clock := \<lambda>n. 63871632000 * nanosecondsPerSecond\<rparr>"

lemma names_of_cookies:
  "isToken passwordVerifiedCookieName" "isToken oidcCookieName" "passwordVerifiedCookieName \<noteq> []" "oidcCookieName \<noteq> []"
  by (simp_all add: passwordVerifiedCookieName_def oidcCookieName_def isToken_def tokenChar_def asciiLetter_def byte_def)

text \<open>C36: The cookie that a login with a password sets proves the password for ten minutes and for its own session only: sent
  back by the browser together with a session token, it is accepted exactly until it expires, and only if the token has
  the code of authentication of the token that it was issued for.\<close>

theorem password_proof_round_trip:
  assumes "32 \<le> length (serverOIDCSecret srv)"
    and "isToken (configCookieName (serverCookie srv))"
    and "configCookieName (serverCookie srv) \<noteq> passwordVerifiedCookieName"
    and "token \<noteq> []" and "token' \<noteq> []" and "safeValue token'"
    and "passwordVerifiedCookie env srv token w = (Inr c, w1)"
  defines "expires \<equiv> e_clock env (w_tick w) + passwordVerificationTTL"
  assumes "afterEpoch expires"
  shows "cookieExpires c = Some expires
    \<and> hasPasswordVerified env srv
        (cookieHeader [(configCookieName (serverCookie srv), token'), (cookieName c, cookieText c)]) w2
      = (Inr (unixSeconds (e_clock env (w_tick w2)) < unixSeconds expires
              \<and> passwordVerificationMAC srv token' (formatInt (unixSeconds expires))
                = passwordVerificationMAC srv token (formatInt (unixSeconds expires))), tick w2)"
proof -
  let ?e = "formatInt (unixSeconds expires)" and ?name = "configCookieName (serverCookie srv)"
  let ?signature = "passwordVerificationMAC srv token ?e"
  have c: "cookieName c = passwordVerifiedCookieName" "cookieText c = ?e @ ''.'' @ base64Encode ?signature"
    "cookieExpires c = Some expires"
    using assms(4,7)
    by (auto simp: passwordVerifiedCookie_def Let_def plainCookie_def andThen_def goNow_def ret_def expires_def)
  have number: "parseInt ?e = Some (unixSeconds expires)"
    using assms(9) by (intro parseInt_formatInt) (simp_all add: afterEpoch_def)
  have e: "?e = decimal (nat (unixSeconds expires))" using assms(9) by (simp add: afterEpoch_def formatInt_nat)
  have "CHR ''.'' \<notin> set ?e"
    unfolding e using decimal_digits isDigit_char by (auto simp: list_all_iff)
  then have parts: "cut (CHR ''.'') (cookieText c) = (?e, base64Encode ?signature, True)" by (simp add: c(2) cut_append)
  have "safeValue (cookieText c)" by (simp add: c(2) e byte_def)
  then have safe: "list_all safeCookie [(?name, token'), (cookieName c, cookieText c)]"
    using assms(2,6) names_of_cookies(1) by (simp add: safeCookie_def c(1))
  define h where "h = cookieHeader [(?name, token'), (cookieName c, cookieText c)]"
  have "?name \<noteq> []" using assms(2) by (auto simp: isToken_def)
  then have token: "cookieToken srv h = token'"
    by (simp add: cookieToken_def h_def requestCookie_header[OF safe])
  have proved: "requestCookie h passwordVerifiedCookieName = Some (cookieText c)"
    using assms(3) requestCookie_header[OF safe names_of_cookies(3)] by (simp add: h_def c(1))
  have "hasPasswordVerified env srv h w2
      = (Inr (unixSeconds (e_clock env (w_tick w2)) < unixSeconds expires
              \<and> passwordVerificationMAC srv token' ?e = ?signature), tick w2)"
    using assms(1,5) parts number token proved
    by (auto simp: hasPasswordVerified_def andThen_def goNow_def ret_def Let_def)
  then show ?thesis using c(3) unfolding h_def by blast
qed

theorem password_proof_round_trip_witness:
  "\<exists>c w. passwordVerifiedCookie modernEnv webServer ''t'' serviceWorld = (Inr c, w)
     \<and> fst (hasPasswordVerified modernEnv webServer (cookieHeader [(''c'', ''t''), (cookieName c, cookieText c)]) w) = Inr True"
proof -
  obtain c w where run: "passwordVerifiedCookie modernEnv webServer ''t'' serviceWorld = (Inr c, w)"
    using passwordVerifiedCookie_total by blast
  have "isToken ''c''" "''c'' \<noteq> passwordVerifiedCookieName" "safeValue ''t''" "32 \<le> length (serverOIDCSecret webServer)"
    "configCookieName (serverCookie webServer) = ''c''"
    by (simp_all add: isToken_def tokenChar_def asciiLetter_def byte_def passwordVerifiedCookieName_def webServer_def)
  moreover have "afterEpoch (e_clock modernEnv n + passwordVerificationTTL)"
    "unixSeconds (e_clock modernEnv m) < unixSeconds (e_clock modernEnv n + passwordVerificationTTL)" for n m
    by (simp_all add: afterEpoch_def modernEnv_def passwordVerificationTTL_def unixSeconds_def nanosecondsPerSecond_def
        nanosecondsPerMinute_def)
  ultimately show ?thesis
    using password_proof_round_trip[where srv = webServer and token = "''t''" and token' = "''t''", OF _ _ _ _ _ _ run] run
    by (intro exI[of _ c] exI[of _ w]) simp
qed

subsection \<open>The sealed attempt\<close>

text \<open>A source of randomness that gives as many bytes as it is asked for, or none.\<close>

definition properEntropy :: "entropy \<Rightarrow> bool" where
  "properEntropy rnd \<longleftrightarrow> (\<forall>i n bytes. rnd i n = Some bytes \<longrightarrow> length bytes = n)"

lemma length_oidcKey [simp]: "length (oidcAttemptEncryptionKey secret) = 32"
  by (simp add: oidcAttemptEncryptionKey_def)

lemma sealOIDCAttempt_Inr:
  assumes "sealOIDCAttempt rnd secret a w = (Inr sealed, w')"
  obtains nonce where "rnd (w_tick w) gcmNonceSize = Some nonce" "32 \<le> length secret"
    "sealed = base64Encode (nonce @ gcmSeal (oidcAttemptEncryptionKey secret) nonce (marshalAttempt a))"
  using assms
  by (auto simp: sealOIDCAttempt_def readRandom_def mapError_def andThen_def ret_def fail_def split: if_splits option.splits)

lemma open_sealed:
  assumes "properEntropy rnd" and "writableAttempt a"
    and "sealOIDCAttempt rnd secret a w = (Inr sealed, w1)"
  shows "requestCookie (cookieHeader [(oidcCookieName, sealed)]) oidcCookieName = Some sealed"
    and "openOIDCAttempt env secret sealed w2
      = ((if validOIDCAttempt a (e_clock env (w_tick w2)) then Inr a else Inl errInvalidOIDCAttempt), tick w2)"
proof -
  obtain nonce where nonce: "rnd (w_tick w) gcmNonceSize = Some nonce" "32 \<le> length secret"
    "sealed = base64Encode (nonce @ gcmSeal (oidcAttemptEncryptionKey secret) nonce (marshalAttempt a))"
    by (rule sealOIDCAttempt_Inr[OF assms(3)])
  have length: "length nonce = gcmNonceSize" using assms(1) nonce(1) by (simp add: properEntropy_def)
  have "list_all safeCookie [(oidcCookieName, sealed)]" by (simp add: safeCookie_def names_of_cookies nonce(3))
  then show "requestCookie (cookieHeader [(oidcCookieName, sealed)]) oidcCookieName = Some sealed"
    using requestCookie_header names_of_cookies(4) by fastforce
  show "openOIDCAttempt env secret sealed w2
      = ((if validOIDCAttempt a (e_clock env (w_tick w2)) then Inr a else Inl errInvalidOIDCAttempt), tick w2)"
    using nonce length
    by (simp add: openOIDCAttempt_def gcmOpen_gcmSeal unmarshal_marshalAttempt[OF assms(2)] andThen_def goNow_def
        ret_def fail_def)
qed

text \<open>C35: An attempt comes back as it was started: what \<^verbatim>\<open>sealOIDCAttempt\<close> puts into the cookie is read out of the header of
  the next request and opened under the same secret to the same attempt, as long as it is valid; after its expiry it is
  refused.\<close>

theorem sealed_attempt_opens:
  assumes "properEntropy rnd" and "writableAttempt a"
    and "sealOIDCAttempt rnd secret a w = (Inr sealed, w1)"
  shows "requestCookie (cookieHeader [(oidcCookieName, sealed)]) oidcCookieName = Some sealed
    \<and> openOIDCAttempt env secret sealed w2
      = ((if validOIDCAttempt a (e_clock env (w_tick w2)) then Inr a else Inl errInvalidOIDCAttempt), tick w2)"
  using open_sealed[OF assms] by blast

definition sampleEntropy :: entropy where
  "sampleEntropy i n = Some (replicate n (CHR ''r''))"

definition sampleAttempt :: oidc_attempt where
  "sampleAttempt =
     \<lparr>attemptState = ''s'', attemptNonce = ''n'', attemptVerifier = ''v'', attemptMode = ''login'',
      attemptInvitationToken = [], attemptExpiresAt = 1736035300\<rparr>"

lemma sampleAttempt_fields:
  "attemptState sampleAttempt = ''s''" "attemptNonce sampleAttempt = ''n''" "attemptVerifier sampleAttempt = ''v''"
  by (simp_all add: sampleAttempt_def)

lemma sampleAttempt_writable: "writableAttempt sampleAttempt"
  by (simp add: writableAttempt_def sampleAttempt_def validUtf8_ascii byte_def)

lemma sampleAttempt_valid: "validOIDCAttempt sampleAttempt (e_clock modernEnv n)"
  by (simp add: validOIDCAttempt_def sampleAttempt_def modernEnv_def unixSeconds_def nanosecondsPerSecond_def)

lemma sampleEntropy_proper: "properEntropy sampleEntropy"
  by (simp add: properEntropy_def sampleEntropy_def)

theorem sealed_attempt_opens_witness:
  "\<exists>sealed w. sealOIDCAttempt sampleEntropy (replicate 32 (CHR ''s'')) sampleAttempt serviceWorld = (Inr sealed, w)
     \<and> fst (openOIDCAttempt modernEnv (replicate 32 (CHR ''s'')) sealed w) = Inr sampleAttempt"
proof -
  obtain sealed w where run: "sealOIDCAttempt sampleEntropy (replicate 32 (CHR ''s'')) sampleAttempt serviceWorld = (Inr sealed, w)"
    by (simp add: sealOIDCAttempt_def readRandom_def mapError_def andThen_def ret_def sampleEntropy_def)
  then show ?thesis
    using sealed_attempt_opens[OF sampleEntropy_proper sampleAttempt_writable run, of modernEnv w] sampleAttempt_valid
    by simp
qed

subsection \<open>The callback\<close>

text \<open>Steps of the client and the world that leave database and mails as they are.\<close>

definition peaceful :: "'a exchange \<Rightarrow> bool" where
  "peaceful m \<longleftrightarrow> (\<forall>s. untouched (snd s) (snd (snd (m s))))"

lemma peacefulD: "peaceful m \<Longrightarrow> m s = (r, s') \<Longrightarrow> untouched (snd s) (snd s')"
  by (metis peaceful_def snd_conv)

lemma peaceful_plain:
  "peaceful (ret x)" "peaceful (fail err)" "peaceful (liftSum q)" "peaceful (libraryCall f)" "peaceful (getVerifier gp)"
  by (auto simp: peaceful_def ret_def fail_def liftSum_def libraryCall_def getVerifier_def untouched_def tick_def
      split: option.splits)

lemma peaceful_mapError: "peaceful m \<Longrightarrow> peaceful (mapError h m)"
  by (auto simp: peaceful_def mapError_def split: prod.splits sum.splits) (metis snd_conv)+

lemma peaceful_andThen:
  assumes "peaceful m" and "\<And>x. peaceful (f x)" shows "peaceful (andThen m f)"
  unfolding peaceful_def
proof
  fix s
  obtain q s1 where m: "m s = (q, s1)" by (metis surj_pair)
  have "untouched (snd s) (snd s1)" using assms(1) m by (rule peacefulD)
  moreover have "untouched (snd s1) (snd (snd (f x s1)))" for x
    using assms(2)[unfolded peaceful_def] by blast
  ultimately show "untouched (snd s) (snd (snd (andThen m f s)))"
    using m by (cases q) (auto simp: andThen_def intro: untouched.trans)
qed

lemma peaceful_onWorldOf: "keeps (\<lambda>_. True) untouched m \<Longrightarrow> peaceful (onWorldOf m)"
  by (auto simp: peaceful_def onWorldOf_def keeps_def split: prod.splits)

lemma untouched_openOIDCAttempt [untouched_rules]: "keeps (\<lambda>_. True) untouched (openOIDCAttempt env secret content)"
  unfolding openOIDCAttempt_def by (intro untouched_rules)

lemma peaceful_Exchange: "peaceful (Exchange env p gp code verifier nonce)"
proof -
  have "peaceful (\<lambda>s. if \<not> oidcEnabled (fst s) then (Inl ErrOIDCDisabled, s) else m (fst s) s)"
    if "\<And>c. peaceful (m c)" for m :: "google_oidc \<Rightarrow> external_identity exchange"
    using that by (auto simp: peaceful_def untouched_def)
  note gate = this
  show ?thesis unfolding Exchange_def
    by (intro gate peaceful_andThen peaceful_mapError peaceful_plain)
      (auto intro!: peaceful_plain split: option.splits sum.splits)
qed

text \<open>
  An attempt that this server sealed: the cookie of the request is its text encrypted and authenticated under the secret
  of the server, it has not expired, and the request repeats its state.
\<close>

definition ownAttempt :: "env \<Rightarrow> oidc_config \<Rightarrow> http_request \<Rightarrow> world \<Rightarrow> oidc_attempt \<Rightarrow> bool" where
  "ownAttempt env config r w a \<longleftrightarrow>
     (\<exists>sealed nonce payload. requestCookie (requestHeader r) oidcCookieName = Some sealed
        \<and> base64Decode (trimSpace sealed)
          = Some (nonce @ gcmSeal (oidcAttemptEncryptionKey (stateSecret config)) nonce payload)
        \<and> length nonce = gcmNonceSize \<and> unmarshalAttempt payload = Some a)
     \<and> unixSeconds (e_clock env (w_tick w)) < attemptExpiresAt a
     \<and> attemptState a \<noteq> [] \<and> queryGet (parseQuery (requestQuery r)) ''state'' = attemptState a"

text \<open>An identity that the provider attests for an attempt.\<close>

definition attestedIdentity ::
  "env \<Rightarrow> ports \<Rightarrow> google_ports \<Rightarrow> google_oidc \<Rightarrow> oidc_attempt \<Rightarrow> external_identity \<Rightarrow> bool" where
  "attestedIdentity env p gp client a identity \<longleftrightarrow>
     (\<exists>n raw token email. verifyIDToken gp n (clientID client) raw = Inr token \<and> idNonce token = attemptNonce a
        \<and> idSubject token = identitySubject identity \<and> idClaims token = Some (email, True)
        \<and> ParseEmail env p email = Inr (identityEmail identity))
     \<and> identitySubject identity \<noteq> [] \<and> identityIssuer identity = googleIssuer"

lemma openOIDCAttempt_Inr:
  assumes "openOIDCAttempt env secret content w = (Inr a, w')"
  obtains nonce payload where
    "base64Decode (trimSpace content) = Some (nonce @ gcmSeal (oidcAttemptEncryptionKey secret) nonce payload)"
    "length nonce = gcmNonceSize" "unmarshalAttempt payload = Some a"
    "validOIDCAttempt a (e_clock env (w_tick w))"
proof -
  obtain encoded payload where encoded: "base64Decode (trimSpace content) = Some encoded" "gcmNonceSize \<le> length encoded"
    "gcmOpen (oidcAttemptEncryptionKey secret) (take gcmNonceSize encoded) (drop gcmNonceSize encoded) = Some payload"
    "unmarshalAttempt payload = Some a" "validOIDCAttempt a (e_clock env (w_tick w))"
    using assms
    by (auto simp: openOIDCAttempt_def fail_def ret_def andThen_def goNow_def split: if_splits option.splits)
  have "drop gcmNonceSize encoded = gcmSeal (oidcAttemptEncryptionKey secret) (take gcmNonceSize encoded) payload"
    by (rule gcmOpen_tag[OF encoded(3)]) simp
  then have "encoded = take gcmNonceSize encoded @ gcmSeal (oidcAttemptEncryptionKey secret) (take gcmNonceSize encoded) payload"
    by (metis append_take_drop_id)
  then show thesis using that[of "take gcmNonceSize encoded" payload] encoded by simp
qed

lemma validOIDCAttempt_fields:
  "validOIDCAttempt a now \<Longrightarrow> attemptState a \<noteq> [] \<and> unixSeconds now < attemptExpiresAt a"
  by (auto simp: validOIDCAttempt_def split: if_splits)

lemma Exchange_attests:
  assumes "Exchange env p gp code (attemptVerifier a) (attemptNonce a) (client, w) = (Inr identity, s')"
  shows "attestedIdentity env p gp client a identity"
proof -
  obtain n raw token email where "verifyIDToken gp n (clientID client) raw = Inr token" "idNonce token = attemptNonce a"
    "idSubject token \<noteq> []" "idClaims token = Some (email, True)" "ParseEmail env p email = Inr (identityEmail identity)"
    "identitySubject identity = idSubject token" "identityIssuer identity = googleIssuer"
    using assms
    by (auto simp: Exchange_def andThen_Inr mapError_Inr liftSum_eq libraryCall_def ret_eq fail_eq
        split: if_splits option.splits sum.splits)
  then show ?thesis unfolding attestedIdentity_def by metis
qed

lemma completeAttempt_cases:
  assumes "completeAttempt env p gp srv config r sealed (client, w) = (q, (client', w'))"
  obtains (refused) err where "q = Inl err" "untouched w w'"
  | (acted) a identity w1 w2 where "openOIDCAttempt env (stateSecret config) sealed w = (Inr a, w1)"
      "attemptState a = queryGet (parseQuery (requestQuery r)) ''state''" "attestedIdentity env p gp client a identity"
      "untouched w w2" "finishAttempt env p srv (requestHeader r) a identity w2 = (q, w')"
proof -
  let ?q = "parseQuery (requestQuery r)" let ?code = "trimSpace (queryGet ?q ''code'')"
  note run = assms[unfolded completeAttempt_def Let_def]
  show thesis
  proof (cases "queryGet ?q ''error'' \<noteq> []")
    case True
    then show thesis using run refused by (auto simp: fail_def untouched_def)
  next
    case False
    note noError = False
    obtain t w1 where opened: "openOIDCAttempt env (stateSecret config) sealed w = (t, w1)" by (metis surj_pair)
    then have w1: "untouched w w1" by (rule keepsD[OF untouched_openOIDCAttempt, rotated]) simp
    have start: "onWorldOf (openOIDCAttempt env (stateSecret config) sealed) (client, w) = (t, (client, w1))"
      using opened by (simp add: onWorldOf_def)
    show thesis
    proof (cases t)
      case (Inl err)
      then show thesis using run noError start w1 refused by (auto simp: andThen_def)
    next
      case (Inr a)
      show thesis
      proof (cases "attemptState a = queryGet ?q ''state'' \<and> ?code \<noteq> []")
        case False
        then show thesis using run noError start Inr w1 refused by (auto simp: andThen_def fail_def split: if_splits)
      next
        case True
        obtain x client2 w2 where exchanged:
          "Exchange env p gp ?code (attemptVerifier a) (attemptNonce a) (client, w1) = (x, (client2, w2))"
          by (metis surj_pair)
        have w2: "untouched w w2" using peacefulD[OF peaceful_Exchange exchanged] w1 by (auto intro: untouched.trans)
        show thesis
        proof (cases x)
          case (Inl err)
          then show thesis using run noError start Inr True exchanged w2 refused by (auto simp: andThen_def)
        next
          case identity: (Inr identity)
          then have "finishAttempt env p srv (requestHeader r) a identity w2 = (q, w')"
            using run noError start Inr True exchanged
            by (auto simp: andThen_def onWorldOf_def split: prod.splits)
          then show thesis using acted opened Inr True Exchange_attests exchanged identity w2 by metis
        qed
      qed
    qed
  qed
qed

text \<open>C7: The callback of the provider acts only for an attempt that the server itself sealed, that has not expired and whose
  state the request repeats, and only with an identity that the provider attests for the nonce of that attempt with a
  verified address; anything else fails, changes neither the database nor the mails and signs nobody in: the only
  cookie it sets clears the attempt.\<close>

theorem callback_needs_own_attempt:
  assumes "googleOIDCCallback env p gp srv config r (client, w) = (ans, (client', w'))"
  shows "untouched w w'
      \<and> (ans = oidcFailure p config [] \<or> ans = oidcFailure p config [clearOIDCAttemptCookie srv])
    \<or> (\<exists>a identity w1 q. ownAttempt env config r w a \<and> attestedIdentity env p gp client a identity \<and> untouched w w1
         \<and> finishAttempt env p srv (requestHeader r) a identity w1 = (q, w')
         \<and> ans = (case q of
                   Inl err \<Rightarrow> oidcFailure p config [clearOIDCAttemptCookie srv]
                 | Inr cookies \<Rightarrow> redirect (successURL config) (clearOIDCAttemptCookie srv # cookies)))"
proof (cases "requestCookie (requestHeader r) oidcCookieName")
  case None
  then show ?thesis using assms by (simp add: googleOIDCCallback_def untouched_def)
next
  case (Some sealed)
  obtain q where run: "completeAttempt env p gp srv config r sealed (client, w) = (q, (client', w'))"
    and ans: "ans = (case q of
                   Inl err \<Rightarrow> oidcFailure p config [clearOIDCAttemptCookie srv]
                 | Inr cookies \<Rightarrow> redirect (successURL config) (clearOIDCAttemptCookie srv # cookies))"
    using assms Some by (auto simp: googleOIDCCallback_def Let_def split: prod.splits sum.splits)
  from run show ?thesis
  proof (cases rule: completeAttempt_cases)
    case (refused err)
    then show ?thesis using ans by simp
  next
    case (acted a identity w1 w2)
    obtain nonce payload where
      "base64Decode (trimSpace sealed) = Some (nonce @ gcmSeal (oidcAttemptEncryptionKey (stateSecret config)) nonce payload)"
      "length nonce = gcmNonceSize" "unmarshalAttempt payload = Some a" "validOIDCAttempt a (e_clock env (w_tick w))"
      by (rule openOIDCAttempt_Inr[OF acted(1)])
    then have "ownAttempt env config r w a"
      using Some acted(2) validOIDCAttempt_fields unfolding ownAttempt_def by metis
    then show ?thesis using acted(3-5) ans by blast
  qed
qed

definition samplePortsOf :: ports where
  "samplePortsOf = samplePorts\<lparr>jwtSign := \<lambda>secret c. Some ''t''\<rparr>"

definition sampleGoogle :: google_ports where
  "sampleGoogle =
     \<lparr>authCodeURL = (\<lambda>i callback state nonce verifier. []),
      oauthExchange = (\<lambda>n code verifier. Inr (Some \<lparr>accessToken = [], extraIDToken = Some ''id''\<rparr>)),
      discoverProvider = (\<lambda>n issuer. None),
      verifyIDToken = (\<lambda>n i raw. Inr \<lparr>idNonce = ''n'', idSubject = ''sub'', idAccessTokenHash = [],
        idClaims = Some (''boss@x'', True)\<rparr>),
      verifyAccessToken = (\<lambda>token access. None)\<rparr>"

definition sampleClient :: google_oidc where
  "sampleClient =
     \<lparr>clientID = ''id'', clientSecret = ''secret'', clientRedirectURL = [], clientTimeout = 1, clientVerifier = False\<rparr>"

definition sampleOidcConfig :: oidc_config where
  "sampleOidcConfig = \<lparr>stateSecret = replicate 32 (CHR ''s''), successURL = ''https://clinks.ch''\<rparr>"

definition externalWorld :: world where
  "externalWorld = serviceWorld\<lparr>w_db := (w_db serviceWorld)
     \<lparr>identities := [\<lparr>x_issuer = googleIssuer, x_subject = ''sub'', x_user = idPerson, x_email = ''boss@x'',
                       x_created_at = 0\<rparr>]\<rparr>\<rparr>"

definition sampleReturn :: "string \<Rightarrow> http_request" where
  "sampleReturn sealed =
     \<lparr>requestMethod = ''GET'', requestHost = [], requestPath = ''/auth/oidc/google/callback'',
      requestQuery = ''state=s&code=c'', requestHeader = cookieHeader [(oidcCookieName, sealed)]\<rparr>"

lemma sample_exchange:
  "isl (fst (andThen (Exchange modernEnv samplePortsOf sampleGoogle ''c'' ''v'' ''n'') (\<lambda>identity.
     onWorldOf (finishAttempt modernEnv samplePortsOf webServer [] sampleAttempt identity))
     (sampleClient, tick externalWorld))) = False"
  by code_simp

lemma sample_query:
  "queryGet (parseQuery ''state=s&code=c'') ''state'' = ''s''" "trimSpace (queryGet (parseQuery ''state=s&code=c'') ''code'') = ''c''"
  "queryGet (parseQuery ''state=s&code=c'') ''error'' = []"
  by code_simp+

lemma sample_failure: "answerLocation (oidcFailure samplePortsOf sampleOidcConfig cs) \<noteq> successURL sampleOidcConfig"
proof -
  have "answerLocation (oidcFailure samplePortsOf sampleOidcConfig cs)
      = answerLocation (oidcFailure samplePortsOf sampleOidcConfig [])"
    by (simp add: oidcFailure_def redirect_def split: option.splits)
  moreover have "answerLocation (oidcFailure samplePortsOf sampleOidcConfig []) \<noteq> successURL sampleOidcConfig" by code_simp
  ultimately show ?thesis by simp
qed

lemma sample_callback:
  obtains sealed cookies client w where
    "googleOIDCCallback modernEnv samplePortsOf sampleGoogle webServer sampleOidcConfig (sampleReturn sealed)
       (sampleClient, externalWorld)
     = (redirect (successURL sampleOidcConfig) (clearOIDCAttemptCookie webServer # cookies), (client, w))"
proof -
  obtain sealed w0 where sealed: "sealOIDCAttempt sampleEntropy (stateSecret sampleOidcConfig) sampleAttempt externalWorld = (Inr sealed, w0)"
    by (simp add: sealOIDCAttempt_def readRandom_def mapError_def andThen_def ret_def sampleEntropy_def sampleOidcConfig_def)
  note opens = open_sealed[OF sampleEntropy_proper sampleAttempt_writable sealed]
  obtain cookies client w where acted: "andThen (Exchange modernEnv samplePortsOf sampleGoogle ''c'' ''v'' ''n'') (\<lambda>identity.
     onWorldOf (finishAttempt modernEnv samplePortsOf webServer [] sampleAttempt identity))
     (sampleClient, tick externalWorld) = (Inr cookies, (client, w))"
    using sample_exchange by (metis (no_types, lifting) isl_def old.sum.exhaust prod.collapse)
  have anywhere: "finishAttempt modernEnv samplePortsOf webServer h sampleAttempt identity
      = finishAttempt modernEnv samplePortsOf webServer [] sampleAttempt identity" for h identity
    by (simp add: finishAttempt_def sampleAttempt_def)
  have "onWorldOf (openOIDCAttempt modernEnv (stateSecret sampleOidcConfig) sealed) (sampleClient, externalWorld)
      = (Inr sampleAttempt, (sampleClient, tick externalWorld))"
    using opens(2)[of modernEnv externalWorld] sampleAttempt_valid by (simp add: onWorldOf_def)
  then have "completeAttempt modernEnv samplePortsOf sampleGoogle webServer sampleOidcConfig (sampleReturn sealed) sealed
      (sampleClient, externalWorld) = (Inr cookies, (client, w))"
    using acted anywhere[of "cookieHeader [(oidcCookieName, sealed)]"]
    by (simp add: completeAttempt_def Let_def sampleReturn_def sample_query sampleAttempt_fields)
  then have "googleOIDCCallback modernEnv samplePortsOf sampleGoogle webServer sampleOidcConfig (sampleReturn sealed)
       (sampleClient, externalWorld)
     = (redirect (successURL sampleOidcConfig) (clearOIDCAttemptCookie webServer # cookies), (client, w))"
    using opens(1) by (simp add: googleOIDCCallback_def Let_def sampleReturn_def)
  then show thesis by (rule that)
qed

theorem callback_needs_own_attempt_witness:
  "\<exists>sealed ans s a identity.
     googleOIDCCallback modernEnv samplePortsOf sampleGoogle webServer sampleOidcConfig (sampleReturn sealed)
       (sampleClient, externalWorld) = (ans, s)
     \<and> answerLocation ans = successURL sampleOidcConfig
     \<and> ownAttempt modernEnv sampleOidcConfig (sampleReturn sealed) externalWorld a
     \<and> attestedIdentity modernEnv samplePortsOf sampleGoogle sampleClient a identity"
proof -
  obtain sealed cookies client w where run:
    "googleOIDCCallback modernEnv samplePortsOf sampleGoogle webServer sampleOidcConfig (sampleReturn sealed)
       (sampleClient, externalWorld)
     = (redirect (successURL sampleOidcConfig) (clearOIDCAttemptCookie webServer # cookies), (client, w))"
    by (rule sample_callback)
  let ?ans = "redirect (successURL sampleOidcConfig) (clearOIDCAttemptCookie webServer # cookies)"
  have location: "answerLocation ?ans = successURL sampleOidcConfig" by (simp add: redirect_def)
  then have "?ans \<noteq> oidcFailure samplePortsOf sampleOidcConfig cs" for cs using sample_failure by metis
  then show ?thesis using callback_needs_own_attempt[OF run] run location by blast
qed

end
