(* ===== verification/DatabaseSetup.thy ===== *)
theory DatabaseSetup imports Config "HOL-Library.Sublist" begin

text \<open>
  Opening and preparing the database: \<^verbatim>\<open>NewPool\<close> of \<^verbatim>\<open>server/postgres/pool.go\<close>, \<^verbatim>\<open>server/postgres/migrations.go\<close> and
  the commands built from them in \<^verbatim>\<open>server/cmd/server/composition.go\<close>. What PostgreSQL makes of an SQL script is the
  parameter \<open>exec\<close>, what pgx makes of a connection string the parameter \<open>parseConfig\<close>.
\<close>

subsection \<open>The pool\<close>

record pool_config =
  pcDatabaseURL :: string
  pcMaxConns :: int
  pcMinConns :: int
  pcMaxConnLifetime :: duration
  pcMaxConnIdleTime :: duration
  pcHealthCheckPeriod :: duration
  pcPingTimeout :: duration

record pool_settings =
  poolMaxConns :: int
  poolMinConns :: int
  poolMaxConnLifetime :: duration
  poolMaxConnIdleTime :: duration
  poolHealthCheckPeriod :: duration
  poolPingTimeout :: duration

definition defaultPoolPingTimeout :: duration where "defaultPoolPingTimeout = 5 * nanosecondsPerSecond"

definition configuredPool :: "pool_config \<Rightarrow> pool_settings \<Rightarrow> pool_settings" where
  "configuredPool c base =
     \<lparr>poolMaxConns = (if 0 < pcMaxConns c then pcMaxConns c else poolMaxConns base),
      poolMinConns = (if 0 \<le> pcMinConns c then pcMinConns c else poolMinConns base),
      poolMaxConnLifetime = (if 0 < pcMaxConnLifetime c then pcMaxConnLifetime c else poolMaxConnLifetime base),
      poolMaxConnIdleTime = (if 0 < pcMaxConnIdleTime c then pcMaxConnIdleTime c else poolMaxConnIdleTime base),
      poolHealthCheckPeriod = (if 0 < pcHealthCheckPeriod c then pcHealthCheckPeriod c else poolHealthCheckPeriod base),
      poolPingTimeout = (if pcPingTimeout c \<le> 0 then defaultPoolPingTimeout else pcPingTimeout c)\<rparr>"

text \<open>The row of \<^verbatim>\<open>pg_roles\<close> for the role that the program runs as.\<close>

record runtime_role =
  roleIsSuperuser :: bool
  roleBypassesRLS :: bool

definition NewPool ::
  "env \<Rightarrow> (string \<Rightarrow> pool_settings option) \<Rightarrow> runtime_role \<Rightarrow> pool_config \<Rightarrow> (world, go_error, pool_settings) eff" where
  "NewPool env parseConfig role c =
     (case parseConfig (pcDatabaseURL c) of
        None \<Rightarrow> fail (Wrapped ''parse database URL'' (OpaqueError ''pgxpool''))
      | Some base \<Rightarrow>
          andThen (mapError (Wrapped ''open postgres pool'') (statement env (\<lambda>w. Inr ((), w_db w)))) (\<lambda>_.
          andThen (mapError (Wrapped ''ping postgres'') (statement env (\<lambda>w. Inr ((), w_db w)))) (\<lambda>_.
          andThen (mapError (Wrapped ''inspect postgres runtime role'') (statement env (\<lambda>w. Inr (role, w_db w)))) (\<lambda>found.
          if roleIsSuperuser found \<or> roleBypassesRLS found
          then fail (OpaqueError ''postgres runtime role must not be superuser or BYPASSRLS'')
          else ret (configuredPool c base)))))"

subsection \<open>Migrations\<close>

text \<open>The state of a database that is being prepared: the world, the table \<^verbatim>\<open>schema_migrations\<close> once it exists, and whether
  this session holds the advisory lock.\<close>

record db_setup =
  setupWorld :: world
  ledger :: "(string \<times> string) list option"
  lockHeld :: bool

record migration_entry =
  entryName :: string
  entryIsDir :: bool
  entryContent :: "string option"

type_synonym script_runner = "string \<Rightarrow> db \<Rightarrow> go_error + db"

definition setupTick :: "db_setup \<Rightarrow> db_setup" where
  "setupTick s = s\<lparr>setupWorld := tick (setupWorld s)\<rparr>"

definition setupStatement :: "env \<Rightarrow> (db_setup \<Rightarrow> go_error + ('a \<times> db_setup)) \<Rightarrow> (db_setup, go_error, 'a) eff" where
  "setupStatement env f = (\<lambda>s.
     case e_fault env (w_tick (setupWorld s)) of
       Some flt \<Rightarrow> (Inl (faultError flt), setupTick s)
     | None \<Rightarrow>
         (case f (setupTick s) of Inl err \<Rightarrow> (Inl err, setupTick s) | Inr (x, s') \<Rightarrow> (Inr x, s')))"

definition onSetup :: "(world, go_error, 'a) eff \<Rightarrow> (db_setup, go_error, 'a) eff" where
  "onSetup m = (\<lambda>s. case m (setupWorld s) of (r, w) \<Rightarrow> (r, s\<lparr>setupWorld := w\<rparr>))"

definition migrationChecksum :: "string \<Rightarrow> string" where "migrationChecksum sql = hexEncode (sha256 sql)"

definition undefinedTable :: go_error where "undefinedTable = PgError ''42P01'' []"

definition readLedger :: "env \<Rightarrow> string \<Rightarrow> (db_setup, go_error, string) eff" where
  "readLedger env version = setupStatement env (\<lambda>s.
     case ledger s of
       None \<Rightarrow> Inl undefinedTable
     | Some rows \<Rightarrow> (case map_of rows version of None \<Rightarrow> Inl NoRows | Some c \<Rightarrow> Inr (c, s)))"

definition insertLedger :: "env \<Rightarrow> string \<Rightarrow> string \<Rightarrow> (db_setup, go_error, unit) eff" where
  "insertLedger env version checksum = setupStatement env (\<lambda>s.
     case ledger s of
       None \<Rightarrow> Inl undefinedTable
     | Some rows \<Rightarrow>
         if version \<in> fst ` set rows then Inl (uniqueViolation ''schema_migrations_pkey'')
         else Inr ((), s\<lparr>ledger := Some (rows @ [(version, checksum)])\<rparr>))"

definition runScript :: "env \<Rightarrow> script_runner \<Rightarrow> string \<Rightarrow> (db_setup, go_error, unit) eff" where
  "runScript env exec sql = setupStatement env (\<lambda>s.
     case exec sql (w_db (setupWorld s)) of
       Inl err \<Rightarrow> Inl err
     | Inr d \<Rightarrow> Inr ((), s\<lparr>setupWorld := (setupWorld s)\<lparr>w_db := d\<rparr>\<rparr>))"

text \<open>The transaction of one migration; what is rolled back are the rows and the ledger, not the passing of time.\<close>

definition rolledBack :: "db_setup \<Rightarrow> db_setup \<Rightarrow> db_setup" where
  "rolledBack s0 s = s0\<lparr>setupWorld := (setupWorld s0)\<lparr>w_tick := Suc (w_tick (setupWorld s))\<rparr>\<rparr>"

definition migrationTx :: "env \<Rightarrow> (db_setup, go_error, unit) eff \<Rightarrow> (db_setup, go_error, unit) eff" where
  "migrationTx env operation = (\<lambda>s0.
     case e_fault env (w_tick (setupWorld s0)) of
       Some flt \<Rightarrow> (Inl (Wrapped ''begin migration'' (faultError flt)), setupTick s0)
     | None \<Rightarrow>
         (case operation (setupTick s0) of
            (Inl err, s) \<Rightarrow> (Inl err, rolledBack s0 s)
          | (Inr _, s) \<Rightarrow>
              (case e_commit env (w_tick (setupWorld s)) of
                 Committed \<Rightarrow> (Inr (), setupTick s)
               | CommitRefused msg \<Rightarrow> (Inl (Wrapped ''commit migration'' (OpaqueError msg)), rolledBack s0 s)
               | CommitUnacknowledged msg \<Rightarrow> (Inl (Wrapped ''commit migration'' (OpaqueError msg)), setupTick s))))"

definition applyMigration :: "env \<Rightarrow> script_runner \<Rightarrow> migration_entry \<Rightarrow> (db_setup, go_error, unit) eff" where
  "applyMigration env exec entry =
     (let version = entryName entry in
      case entryContent entry of
        None \<Rightarrow> fail (Wrapped ''read migration'' (OpaqueError ''fs''))
      | Some sql \<Rightarrow>
          let checksum = migrationChecksum sql in
          andThen (attempt (readLedger env version)) (\<lambda>found.
          case found of
            Inr recorded \<Rightarrow>
              if recorded = checksum then ret ()
              else fail (OpaqueError ''migration checksum does not match the applied migration'')
          | Inl err \<Rightarrow>
              if \<not> isNoRows err then fail (Wrapped ''check migration'' err)
              else
                migrationTx env
                  (andThen (mapError (Wrapped ''execute migration'') (runScript env exec sql)) (\<lambda>_.
                   mapError (Wrapped ''record migration'') (insertLedger env version checksum)))))"

text \<open>A failing unlock is only logged: the lock then stays with the session.\<close>

definition unlockMigrations :: "env \<Rightarrow> db_setup \<Rightarrow> db_setup" where
  "unlockMigrations env s =
     (case e_fault env (w_tick (setupWorld s)) of
        Some flt \<Rightarrow> setupTick s
      | None \<Rightarrow> (setupTick s)\<lparr>lockHeld := False\<rparr>)"

definition migrationFiles :: "migration_entry list \<Rightarrow> migration_entry list" where
  "migrationFiles found =
     filter (\<lambda>e. \<not> entryIsDir e) (orderBy (\<lambda>a b. bytesLess (entryName a) (entryName b)) found)"

definition lockedMigrations ::
  "env \<Rightarrow> script_runner \<Rightarrow> migration_entry list result \<Rightarrow> (db_setup, go_error, unit) eff" where
  "lockedMigrations env exec files =
     andThen (mapError (Wrapped ''create migration ledger'') (setupStatement env (\<lambda>s.
       Inr ((), if ledger s = None then s\<lparr>ledger := Some []\<rparr> else s)))) (\<lambda>_.
     andThen (mapError (Wrapped ''list migrations'') (liftSum files)) (\<lambda>found.
     forEach (applyMigration env exec) (migrationFiles found)))"

definition Migrate ::
  "env \<Rightarrow> script_runner \<Rightarrow> migration_entry list result \<Rightarrow> (db_setup, go_error, unit) eff" where
  "Migrate env exec files = (\<lambda>s.
     case mapError (Wrapped ''lock migrations'') (setupStatement env (\<lambda>s. Inr ((), s\<lparr>lockHeld := True\<rparr>))) s of
       (Inl err, s1) \<Rightarrow> (Inl err, s1)
     | (Inr _, s1) \<Rightarrow> (case lockedMigrations env exec files s1 of (r, s2) \<Rightarrow> (r, unlockMigrations env s2)))"

subsection \<open>The commands\<close>

definition poolConfig :: "config \<Rightarrow> pool_config" where
  "poolConfig c =
     (let d = configDatabase c in
      \<lparr>pcDatabaseURL = databaseURL d, pcMaxConns = maxConns d, pcMinConns = minConns d,
       pcMaxConnLifetime = connMaxLifetime d, pcMaxConnIdleTime = connMaxIdleTime d,
       pcHealthCheckPeriod = healthCheckPeriod d, pcPingTimeout = 0\<rparr>)"

definition runMigration ::
  "env \<Rightarrow> ports \<Rightarrow> (string \<Rightarrow> pool_settings option) \<Rightarrow> runtime_role \<Rightarrow> script_runner \<Rightarrow> migration_entry list result \<Rightarrow> config
    \<Rightarrow> (db_setup, go_error, unit) eff" where
  "runMigration env p parseConfig role exec files c =
     andThen (mapError (Wrapped ''build migration'') (onSetup (NewPool env parseConfig role (poolConfig c)))) (\<lambda>_.
     andThen (mapError (Wrapped ''apply migrations'') (Migrate env exec files)) (\<lambda>_.
     onSetup (bootstrapAdministrator env p c)))"

definition runHealthcheck ::
  "env \<Rightarrow> (string \<Rightarrow> pool_settings option) \<Rightarrow> runtime_role \<Rightarrow> config \<Rightarrow> (world, go_error, unit) eff" where
  "runHealthcheck env parseConfig role c =
     andThen (mapError (Wrapped ''build healthcheck'') (NewPool env parseConfig role (poolConfig c))) (\<lambda>_.
     mapError (Wrapped ''ping database'') (statement env (\<lambda>w. Inr ((), w_db w))))"

text \<open>\<^verbatim>\<open>runServer\<close> up to the point where it listens: the pool is opened, then the application is composed.\<close>

definition buildServer ::
  "env \<Rightarrow> ports \<Rightarrow> (string \<Rightarrow> pool_settings option) \<Rightarrow> runtime_role \<Rightarrow> config \<Rightarrow> (world, go_error, application) eff" where
  "buildServer env p parseConfig role c =
     mapError (Wrapped ''build application'')
       (andThen (NewPool env parseConfig role (poolConfig c)) (\<lambda>_. initializeApplication env p c))"

end
