(* ===== verification/SetupProperties.thy ===== *)
theory SetupProperties imports DatabaseSetup GuessingProperties begin

text \<open>
  What the preparation of the database guarantees: the ledger of migrations and the database always agree, and the
  programs only run under a role that the row-level security binds.
\<close>

subsection \<open>The ledger and the database\<close>

fun runScripts :: "script_runner \<Rightarrow> string list \<Rightarrow> db \<Rightarrow> go_error + db" where
  "runScripts exec [] d = Inr d"
| "runScripts exec (sql # sqls) d = (case exec sql d of Inl err \<Rightarrow> Inl err | Inr d' \<Rightarrow> runScripts exec sqls d')"

lemma runScripts_snoc:
  "runScripts exec sqls d = Inr d1 \<Longrightarrow> exec sql d1 = Inr d2 \<Longrightarrow> runScripts exec (sqls @ [sql]) d = Inr d2"
  by (induction sqls arbitrary: d) (auto split: sum.splits)

definition ledgerRow :: "string \<times> string \<Rightarrow> string \<times> string" where
  "ledgerRow m = (fst m, migrationChecksum (snd m))"

text \<open>The rows of the database are those that the scripts of the ledger make of \<open>d0\<close>, run once each in its order.\<close>

definition agrees :: "script_runner \<Rightarrow> db \<Rightarrow> db_setup \<Rightarrow> bool" where
  "agrees exec d0 s \<longleftrightarrow>
     (\<exists>scripts. (case ledger s of None \<Rightarrow> scripts = [] | Some rows \<Rightarrow> rows = map ledgerRow scripts)
        \<and> distinct (map fst scripts) \<and> runScripts exec (map snd scripts) d0 = Inr (w_db (setupWorld s)))"

definition ledgerRows :: "db_setup \<Rightarrow> (string \<times> string) list" where
  "ledgerRows s = (case ledger s of None \<Rightarrow> [] | Some rows \<Rightarrow> rows)"

text \<open>A run keeps the agreement and only appends to the ledger.\<close>

definition grows :: "script_runner \<Rightarrow> db \<Rightarrow> db_setup \<Rightarrow> db_setup \<Rightarrow> bool" where
  "grows exec d0 s s' \<longleftrightarrow> (agrees exec d0 s \<longrightarrow> agrees exec d0 s')
     \<and> prefix (ledgerRows s) (ledgerRows s') \<and> (ledger s \<noteq> None \<longrightarrow> ledger s' \<noteq> None)"

lemma grows_refl [simp]: "grows exec d0 s s"
  by (simp add: grows_def)

lemma grows_trans: "grows exec d0 s s1 \<Longrightarrow> grows exec d0 s1 s2 \<Longrightarrow> grows exec d0 s s2"
  by (auto simp: grows_def intro: prefix_order.trans)

lemma setupTick_simps [simp]:
  "ledger (setupTick s) = ledger s" "w_db (setupWorld (setupTick s)) = w_db (setupWorld s)"
  "lockHeld (setupTick s) = lockHeld s"
  by (simp_all add: setupTick_def)

lemma agrees_same:
  "ledger s' = ledger s \<Longrightarrow> w_db (setupWorld s') = w_db (setupWorld s) \<Longrightarrow> agrees exec d0 s' = agrees exec d0 s"
  by (simp add: agrees_def)

lemma grows_same:
  "ledger s' = ledger s \<Longrightarrow> w_db (setupWorld s') = w_db (setupWorld s) \<Longrightarrow> grows exec d0 s s'"
  using agrees_same[of s' s exec d0] by (simp add: grows_def ledgerRows_def)

lemma rolledBack_same [simp]:
  "ledger (rolledBack s0 s) = ledger s0" "w_db (setupWorld (rolledBack s0 s)) = w_db (setupWorld s0)"
  by (simp_all add: rolledBack_def)

lemma setupStatement_cases:
  assumes "setupStatement env f s = (r, s')"
  obtains err where "r = Inl err" "s' = setupTick s"
  | x where "r = Inr x" "f (setupTick s) = Inr (x, s')"
  using assms by (auto simp: setupStatement_def split: option.splits sum.splits)

lemma recordScript:
  assumes "andThen (mapError h1 (runScript env exec sql)) (\<lambda>_. mapError h2 (insertLedger env version (migrationChecksum sql))) s
      = (Inr u, s')"
  shows "grows exec d0 s s' \<and> (version, migrationChecksum sql) \<in> set (ledgerRows s')"
proof -
  obtain u1 s1 where script: "runScript env exec sql s = (Inr u1, s1)"
    and insert: "insertLedger env version (migrationChecksum sql) s1 = (Inr u, s')"
    using assms by (auto simp: andThen_Inr mapError_Inr)
  have s1: "exec sql (w_db (setupWorld s)) = Inr (w_db (setupWorld s1))" "ledger s1 = ledger s"
    using script unfolding runScript_def
    by (auto elim!: setupStatement_cases split: sum.splits)
  obtain rows where rows: "ledger s = Some rows" "version \<notin> fst ` set rows"
    "ledger s' = Some (rows @ [(version, migrationChecksum sql)])" "w_db (setupWorld s') = w_db (setupWorld s1)"
    using insert s1(2) unfolding insertLedger_def
    by (auto elim!: setupStatement_cases split: option.splits if_splits)
  have "agrees exec d0 s'" if "agrees exec d0 s"
  proof -
    obtain scripts where scripts: "rows = map ledgerRow scripts" "distinct (map fst scripts)"
      "runScripts exec (map snd scripts) d0 = Inr (w_db (setupWorld s))"
      using \<open>agrees exec d0 s\<close> rows(1) by (auto simp: agrees_def)
    have "fst ` set rows = set (map fst scripts)" by (simp add: scripts(1) ledgerRow_def image_image)
    then have "distinct (map fst (scripts @ [(version, sql)]))" using scripts(2) rows(2) by simp
    moreover have "runScripts exec (map snd (scripts @ [(version, sql)])) d0 = Inr (w_db (setupWorld s'))"
      using runScripts_snoc[OF scripts(3) s1(1)] rows(4) by simp
    moreover have "rows @ [(version, migrationChecksum sql)] = map ledgerRow (scripts @ [(version, sql)])"
      by (simp add: scripts(1) ledgerRow_def)
    ultimately show ?thesis unfolding agrees_def rows(3) by (intro exI[of _ "scripts @ [(version, sql)]"]) simp
  qed
  then show ?thesis using rows by (simp add: grows_def ledgerRows_def)
qed

definition recordedFile :: "migration_entry \<Rightarrow> db_setup \<Rightarrow> bool" where
  "recordedFile e s \<longleftrightarrow>
     (\<exists>sql. entryContent e = Some sql \<and> (entryName e, migrationChecksum sql) \<in> set (ledgerRows s))"

lemma migrationTx_cases:
  assumes "migrationTx env operation s = (r, s')"
  obtains err where "r = Inl err" "ledger s' = ledger s" "w_db (setupWorld s') = w_db (setupWorld s)"
  | u s1 where "operation (setupTick s) = (Inr u, s1)" "s' = setupTick s1"
  using assms by (auto simp: migrationTx_def split: option.splits sum.splits prod.splits commit_outcome.splits)

lemma applyMigration_grows:
  assumes "applyMigration env exec e s = (r, s')"
  shows "grows exec d0 s s' \<and> (r = Inr () \<longrightarrow> recordedFile e s')"
proof (cases "entryContent e")
  case None
  then show ?thesis using assms by (auto simp: applyMigration_def fail_def)
next
  case (Some sql)
  obtain found s1 where read: "readLedger env (entryName e) s = (found, s1)" by (metis surj_pair)
  have s1: "s1 = setupTick s" "\<And>c. found = Inr c \<Longrightarrow> (entryName e, c) \<in> set (ledgerRows s)"
    using read unfolding readLedger_def
    by (auto elim!: setupStatement_cases split: option.splits simp: ledgerRows_def map_of_SomeD)
  note run = assms[unfolded applyMigration_def Let_def Some option.case]
  show ?thesis
  proof (cases found)
    case (Inr c)
    then show ?thesis using run read s1 Some
      by (auto simp: attempt_def andThen_def ret_def fail_def recordedFile_def ledgerRows_def grows_same split: if_splits)
  next
    case (Inl err)
    let ?work = "andThen (mapError (Wrapped ''execute migration'') (runScript env exec sql)) (\<lambda>_.
                   mapError (Wrapped ''record migration'') (insertLedger env (entryName e) (migrationChecksum sql)))"
    consider (failed) err' where "r = Inl err'" "s' = s1" | (tx) "migrationTx env ?work s1 = (r, s')"
      using run read Inl by (auto simp: attempt_def andThen_def fail_def split: if_splits)
    then show ?thesis
    proof cases
      case (failed err')
      then show ?thesis using s1(1) by (simp add: grows_same)
    next
      case tx
      then show ?thesis
      proof (cases rule: migrationTx_cases)
        case (1 err')
        then show ?thesis using s1(1) by (simp add: grows_same)
      next
        case (2 u s2)
        note written = recordScript[OF 2(1), of d0]
        have "grows exec d0 s (setupTick s1)" "grows exec d0 s2 s'" using s1(1) 2(2) by (simp_all add: grows_same)
        then show ?thesis using written 2(2) Some
          by (auto simp: recordedFile_def ledgerRows_def intro: grows_trans)
      qed
    qed
  qed
qed

subsection \<open>A whole run\<close>

lemma recordedFile_mono: "recordedFile e s \<Longrightarrow> grows exec d0 s s' \<Longrightarrow> recordedFile e s'"
  by (auto simp: recordedFile_def grows_def dest: set_mono_prefix)

lemma applyMigrations_grow:
  "forEach (applyMigration env exec) es s = (r, s') \<Longrightarrow>
     grows exec d0 s s' \<and> (r = Inr () \<longrightarrow> (\<forall>e \<in> set es. recordedFile e s'))"
proof (induction es arbitrary: s)
  case Nil
  then show ?case by (simp add: ret_def)
next
  case (Cons e es)
  obtain q s1 where first: "applyMigration env exec e s = (q, s1)" by (metis surj_pair)
  note e = applyMigration_grows[OF first, of d0]
  show ?case
  proof (cases q)
    case (Inl err)
    then show ?thesis using Cons.prems first e by (auto simp: andThen_def)
  next
    case (Inr u)
    then have "forEach (applyMigration env exec) es s1 = (r, s')" using Cons.prems first by (simp add: andThen_def)
    note more = Cons.IH[OF this]
    then show ?thesis using e Inr recordedFile_mono[of e s1 exec d0 s'] grows_trans[of exec d0 s s1 s'] by auto
  qed
qed

lemma lockedMigrations_grow:
  assumes "lockedMigrations env exec files s = (r, s')"
  shows "grows exec d0 s s' \<and> (r = Inr () \<longrightarrow> (\<exists>found. files = Inr found \<and> (\<forall>e \<in> set found. \<not> entryIsDir e \<longrightarrow> recordedFile e s')))"
proof -
  let ?create = "setupStatement env (\<lambda>s. Inr ((), if ledger s = None then s\<lparr>ledger := Some []\<rparr> else s))
    :: (db_setup, go_error, unit) eff"
  obtain q s1 where create: "?create s = (q, s1)" using surj_pair[of "?create s"] by blast
  have s1: "grows exec d0 s s1"
  proof (rule setupStatement_cases[OF create])
    fix err
    assume "s1 = setupTick s"
    then show ?thesis by (simp add: grows_same)
  next
    fix x :: unit
    assume "Inr ((), if ledger (setupTick s) = None then (setupTick s)\<lparr>ledger := Some []\<rparr> else setupTick s) = Inr (x, s1)"
    then have s1: "s1 = (if ledger s = None then (setupTick s)\<lparr>ledger := Some []\<rparr> else setupTick s)" by simp
    show ?thesis
    proof (cases "ledger s")
      case None
      then show ?thesis unfolding s1 by (simp add: grows_def agrees_def ledgerRows_def)
    next
      case (Some rows)
      then show ?thesis unfolding s1 by (simp add: grows_same)
    qed
  qed
  show ?thesis
  proof (cases q)
    case (Inl err)
    then show ?thesis using assms create s1 by (auto simp: lockedMigrations_def andThen_def mapError_def)
  next
    case (Inr u)
    show ?thesis
    proof (cases files)
      case (Inl err)
      then show ?thesis using assms create s1 Inr by (auto simp: lockedMigrations_def andThen_def mapError_def liftSum_def)
    next
      case files: (Inr found)
      then have "forEach (applyMigration env exec) (migrationFiles found) s1 = (r, s')"
        using assms create Inr by (simp add: lockedMigrations_def andThen_def mapError_def liftSum_def)
      note more = applyMigrations_grow[OF this, of d0]
      then show ?thesis using s1 files grows_trans[of exec d0 s s1 s'] by (auto simp: migrationFiles_def)
    qed
  qed
qed

text \<open>C38: The ledger of migrations and the database never part: whatever statement or commit fails, and however often the
  migrations are run, the database is what the scripts recorded in the ledger make of the original one, each run exactly once
  and in the order of the ledger; a run only appends to the ledger, and it succeeds only if every file is recorded
  with its own checksum.\<close>

theorem migrations_match_ledger:
  assumes "Migrate env exec files s = (r, s')" and "agrees exec d0 s"
  shows "agrees exec d0 s' \<and> prefix (ledgerRows s) (ledgerRows s')
    \<and> (r = Inr () \<longrightarrow>
        (\<exists>found. files = Inr found \<and> (\<forall>e \<in> set found. \<not> entryIsDir e \<longrightarrow> recordedFile e s')))"
proof -
  let ?lock = "setupStatement env (\<lambda>s. Inr ((), s\<lparr>lockHeld := True\<rparr>)) :: (db_setup, go_error, unit) eff"
  obtain q s1 where lock: "?lock s = (q, s1)" using surj_pair[of "?lock s"] by blast
  have "ledger s1 = ledger s \<and> w_db (setupWorld s1) = w_db (setupWorld s)"
    by (rule setupStatement_cases[OF lock]) auto
  then have s1: "grows exec d0 s s1" by (simp add: grows_same)
  have unlocked: "ledger (unlockMigrations env t) = ledger t" "w_db (setupWorld (unlockMigrations env t)) = w_db (setupWorld t)" for t
    by (simp_all add: unlockMigrations_def split: option.splits)
  show ?thesis
  proof (cases q)
    case (Inl err)
    then have "s' = s1" "r \<noteq> Inr ()" using assms(1) lock by (auto simp: Migrate_def mapError_def)
    then show ?thesis using s1 assms(2) by (simp add: grows_def)
  next
    case (Inr u)
    obtain s2 where run: "lockedMigrations env exec files s1 = (r, s2)" "s' = unlockMigrations env s2"
      using assms(1) lock Inr by (auto simp: Migrate_def mapError_def split: prod.splits)
    have "grows exec d0 s2 s'" unfolding run(2) by (rule grows_same) (simp_all add: unlocked)
    moreover note lockedMigrations_grow[OF run(1), of d0]
    moreover have "recordedFile e s2 = recordedFile e s'" for e
      by (simp add: recordedFile_def ledgerRows_def run(2) unlocked)
    ultimately have "grows exec d0 s s'"
        "r = Inr () \<longrightarrow> (\<exists>found. files = Inr found \<and> (\<forall>e \<in> set found. \<not> entryIsDir e \<longrightarrow> recordedFile e s'))"
      using s1 grows_trans by blast+
    then show ?thesis using assms(2) by (simp add: grows_def)
  qed
qed

text \<open>A script that adds a language, run on a database without a ledger.\<close>

definition addsLanguage :: script_runner where
  "addsLanguage sql d = (if sql = ''fail'' then Inl (PgError ''42601'' []) else Inr (d\<lparr>languages := []\<rparr>))"

definition freshSetup :: db_setup where
  "freshSetup = \<lparr>setupWorld = serviceWorld, ledger = None, lockHeld = False\<rparr>"

definition sampleFiles :: "migration_entry list" where
  "sampleFiles =
     [\<lparr>entryName = ''2.sql'', entryIsDir = False, entryContent = Some ''b''\<rparr>,
      \<lparr>entryName = ''1.sql'', entryIsDir = False, entryContent = Some ''a''\<rparr>]"

theorem migrations_match_ledger_witness:
  "\<exists>s. Migrate serviceEnv addsLanguage (Inr sampleFiles) freshSetup = (Inr (), s)
     \<and> agrees addsLanguage (w_db serviceWorld) s \<and> (\<forall>e \<in> set sampleFiles. recordedFile e s)"
proof -
  have quiet: "e_fault serviceEnv n = None" "e_commit serviceEnv n = Committed" for n
    using sample_services(1) by simp_all
  have order: "migrationFiles sampleFiles = rev sampleFiles" by code_simp
  obtain s where run: "Migrate serviceEnv addsLanguage (Inr sampleFiles) freshSetup = (Inr (), s)"
    by (simp add: Migrate_def mapError_def setupStatement_def quiet lockedMigrations_def andThen_def liftSum_def order
        freshSetup_def setupTick_def)
      (simp add: sampleFiles_def applyMigration_def Let_def attempt_def readLedger_def insertLedger_def runScript_def
        migrationTx_def mapError_def setupStatement_def quiet andThen_def addsLanguage_def setupTick_def ret_def)
  have "agrees addsLanguage (w_db serviceWorld) freshSetup" by (simp add: agrees_def freshSetup_def)
  then show ?thesis using migrations_match_ledger[OF run] run by (auto simp: sampleFiles_def)
qed

subsection \<open>The role of the programs\<close>

lemma NewPool_role:
  assumes "NewPool env parseConfig role c w = (Inr settings, w')"
  shows "\<not> roleIsSuperuser role \<and> \<not> roleBypassesRLS role \<and> w_db w' = w_db w"
  using assms
  by (auto simp: NewPool_def run_simps statement_Inr split: option.splits if_splits)

lemma server_role:
  assumes "buildServer env p parseConfig role c w = (Inr app, w')"
  shows "\<not> roleIsSuperuser role \<and> \<not> roleBypassesRLS role"
proof -
  obtain settings w1 where "NewPool env parseConfig role (poolConfig c) w = (Inr settings, w1)"
    using assms by (auto simp: buildServer_def run_simps)
  then show ?thesis using NewPool_role by blast
qed

end
