(* ===== verification/Spec2Isabelle.thy ===== *)
theory Spec2Isabelle imports BrowserProperties OidcProperties SetupProperties begin

text \<open>
  A verification of the clinks server, the Go module \<^verbatim>\<open>server/\<close>: a multi-tenant service with users, roles,
  memberships and invitations on PostgreSQL, a Connect RPC interface and a login through Google for the browser, and a
  worker that sends the invitation mails. Names of files are relative to \<^verbatim>\<open>src/server/\<close>.

  \<^bold>\<open>How the program is put together.\<close> A request comes in over HTTP, passes the policy for browsers, and is either one
  of the 34 remote procedures or a step of the external login. A handler resolves the session of the request, reads the
  message, calls one service of package \<^verbatim>\<open>clinks\<close> and maps its result or its error. The services check rights and
  validate, and call the store of package \<^verbatim>\<open>postgres\<close>, every operation of which is one transaction; row-level security
  in the schema confines a transaction to its tenant. An invitation leaves a job in an outbox table, which the worker
  leases, mails and completes.

  \<^bold>\<open>How it is modelled.\<close> A computation that may fail is an \<open>eff\<close> of theory \<open>Prelude\<close>: a function of the state to an error
  or a value and the new state, composed by \<open>andThen\<close> as the Go code returns early on \<^verbatim>\<open>err != nil\<close>. The state of the
  store is \<open>world\<close> (theory \<open>Schema\<close>): the tables, the session variables of the connection, the transaction's time, a
  counter of calls and the mails sent. What the surroundings decide is the record \<open>env\<close>, a function of that counter: the
  clock, new UUIDs, whether a statement fails (\<open>e_fault\<close>), what a commit comes to (\<open>e_commit\<close>: committed, refused, or
  committed without the acknowledgement arriving), and which rows are locked elsewhere, together with the collation and
  the Unicode tables. Theorems hold for every \<open>env\<close> unless they assume \<open>quiet\<close>, under which no statement fails. The
  handlers' state \<open>served\<close> adds the rate limiter and the session of the request. Transactions are steps: PostgreSQL's
  isolation is taken to make each atomic, and the sequences of requests in the invariants are arbitrary.

  \<^bold>\<open>Parts and theories.\<close>

  \<^item> \<^emph>\<open>Foundations.\<close> \<open>Prelude\<close> (computations, lists); \<open>GoStrings\<close> (bytes, UTF-8, case, trimming), \<open>GoTime\<close> (RFC 3339),
    \<open>GoJson\<close> (\<^verbatim>\<open>encoding/json\<close>), \<open>GoUrl\<close> (\<^verbatim>\<open>net/url\<close>), \<open>Base64\<close>, \<open>Sha256\<close> (with HMAC), \<open>AesGcm\<close>: the parts of Go's library that
    the program's behaviour rests on; \<open>GoErrors\<close> (\<^verbatim>\<open>errors.go\<close>, chains of wrapped errors and their classification).

  \<^item> \<^emph>\<open>Domain.\<close> \<open>Values\<close> (\<^verbatim>\<open>validation.go\<close>, \<^verbatim>\<open>permission.go\<close>, \<^verbatim>\<open>localization.go\<close> and the enumerations), \<open>Domain\<close> (the records
    and the normalisation of filters, one locale \<open>normalizer\<close> for the eight of them).

  \<^item> \<^emph>\<open>Store.\<close> \<open>Schema\<close> (\<^verbatim>\<open>migrations/000001_schema.sql\<close>: tables, constraints, row-level security; locale \<open>stored_table\<close>),
    \<open>Transactions\<close> (\<^verbatim>\<open>postgres/pool.go\<close> and the statements), \<open>AuditStore\<close>, \<open>RoleStore\<close>, \<open>MembershipStore\<close>, \<open>UserStore\<close>,
    \<open>TenantStore\<close>, \<open>InvitationStore\<close>, \<open>OutboxStore\<close>, \<open>LocalizationStore\<close>: the files of \<^verbatim>\<open>postgres/\<close> of these names;
    \<open>Cursors\<close>, \<open>Keyset\<close> (locale \<open>key_order\<close>), \<open>Listings\<close> and \<open>AdminListings\<close>: the paged listings.

  \<^item> \<^emph>\<open>Services.\<close> \<open>Credentials\<close> (package \<^verbatim>\<open>auth\<close>), \<open>AuthService\<close> (\<^verbatim>\<open>auth*.go\<close>), \<open>TenantAccess\<close>, \<open>AdminServices\<close>,
    \<open>ProductMessages\<close> and \<open>ProductCatalog\<close> (package \<^verbatim>\<open>localization\<close>, \<^verbatim>\<open>translations.go\<close>), \<open>InvitationLink\<close>, \<open>SmtpMailer\<close>
    (\<^verbatim>\<open>mail/smtp.go\<close>), \<open>Worker\<close> (\<^verbatim>\<open>worker.go\<close>), \<open>GoogleOidc\<close> (\<^verbatim>\<open>auth/google_oidc.go\<close>).

  \<^item> \<^emph>\<open>Web.\<close> \<open>RateLimiter\<close>, \<open>BrowserPolicy\<close>, \<open>WebMessages\<close> (\<^verbatim>\<open>web/mapping.go\<close>), \<open>WebServer\<close> (\<^verbatim>\<open>web/server.go\<close>, \<^verbatim>\<open>web/helpers.go\<close>,
    \<^verbatim>\<open>web/session_interceptor.go\<close>), \<open>SessionHandlers\<close>, \<open>AdminHandlers\<close>, \<open>RpcService\<close> (the procedures and their dispatch),
    \<open>PasswordProof\<close>, \<open>OidcAttempt\<close> and \<open>OidcHandlers\<close> (\<^verbatim>\<open>web/oidc.go\<close>).

  \<^item> \<^emph>\<open>Programs.\<close> \<open>Config\<close> (\<^verbatim>\<open>config/config.go\<close>, \<^verbatim>\<open>cmd/server\<close>, \<^verbatim>\<open>cmd/worker\<close>), \<open>DatabaseSetup\<close> (\<^verbatim>\<open>NewPool\<close> of
    \<^verbatim>\<open>postgres/pool.go\<close>, \<^verbatim>\<open>postgres/migrations.go\<close> and the commands that use them).

  \<^bold>\<open>What is proved.\<close>

  \<^item> \<open>StoreSteps\<close> gives an abstract specification of the store: the steps by which any table may change within the scope of
    one transaction. \<open>StoreRuns\<close> (locale \<open>world_relation\<close>: relations between worlds that composed computations keep) and
    \<open>StoreOperations\<close> show that every operation takes such steps only; from that \<open>StoreInvariants\<close> and
    \<open>StoreProperties\<close> have, for all reachable worlds and whatever fails: every tenant keeps its administrator, tenants
    are isolated, the audit log only grows, invitations follow their life cycle, protected roles stay, users stay,
    finished jobs stay finished, leases are consistent. \<open>StoreResults\<close>: a failed request changes nothing, a closed
    invitation is never accepted.

  \<^item> \<open>ServiceRuns\<close>, \<open>AuthProperties\<close>, \<open>AccessProperties\<close>: logins need the password and fail alike, a logout ends all
    sessions, sessions round-trip, invitations are created by those with the right only and stored without their token, the control plane of a tenant
    needs the permission, stays within the tenant and records the actor.

  \<^item> \<open>ListingProperties\<close>: following the cursors of a listing yields every row once, cursors round-trip, filters agree with
    the domain. \<open>LocalizationProperties\<close>: every error gets a message, bundles are complete.

  \<^item> \<open>MailProperties\<close> (locale \<open>dialogue_invariant\<close>: what the SMTP dialogue preserves up to the message), \<open>WorkerProperties\<close>: no
    password before the server has accepted \<^verbatim>\<open>STARTTLS\<close>, success exactly when it has accepted the message; the worker
    returns, mails the texts of the catalog with the link that was issued, and its cleanup spares recent invitations.

  \<^item> \<open>RateLimiter\<close>: the limiter refines an abstract sliding window. \<open>RequestRuns\<close> (locale \<open>request_relation\<close>, the same idea as
    \<open>world_relation\<close> for whole requests), \<open>WebProperties\<close>: every procedure that is not public is refused without any change
    unless the request carries a session that is valid in the database now, of a super administrator where needed.
    \<open>GuessingProperties\<close>: over any sequence of requests, of all procedures, at most five logins to one address are answered
    in any ten minutes while none succeeds, and one that is turned away does not look at its password.

  \<^item> \<open>WireFormats\<close>, \<open>OidcProperties\<close>: cookies, numbers and JSON objects read back; the sealed attempt and the proof of a
    password come back as issued; a callback acts only on an attempt that the server sealed and on an identity attested
    for it. \<open>BrowserProperties\<close>: foreign origins are kept out. \<open>ConfigProperties\<close>: the composed application is well formed.
    \<open>SetupProperties\<close>: the ledger of migrations and the database agree whatever fails, and the programs refuse a role that
    row-level security does not bind.

  \<open>Samples\<close> and \<open>ServiceSamples\<close> hold the concrete worlds and libraries at which the witnesses evaluate the model.

  \<^bold>\<open>Bounds and termination.\<close> The JSON reader (\<open>readValue\<close>) recurses with a fuel of twice the length of the text plus two,
  which is enough since every nested call has consumed a character or descends once from a value to its members; the
  round trips prove it for what the program writes, and texts nested deeper than 10000 are refused as in Go. The unbounded
  loop of the worker, \<^verbatim>\<open>drain\<close>, is a \<open>partial_function (option)\<close>, and that it returns is a theorem, not an assumption; the
  outer loop of \<^verbatim>\<open>Run\<close> is over a list of events that the environment gives. Integers of columns and of \<^verbatim>\<open>strconv\<close> are
  checked against their width, counters of messages wrap at \<open>2 ^ 32\<close>, SHA-256 and AES are on words; durations and instants
  are nanoseconds as unbounded integers, which is exact for the years that Go's own arithmetic covers.

  \<^bold>\<open>Parameters.\<close> Libraries outside the repository and the parts of Go's library that are too large to define are the
  fields of \<open>ports\<close>: bcrypt, the JWT library, \<^verbatim>\<open>uuid.Validate\<close>, \<^verbatim>\<open>mail.ParseAddress\<close>, \<^verbatim>\<open>url.Parse\<close>, the lenient
  forms that \<^verbatim>\<open>time.Parse\<close> accepts, PostgreSQL's reading of UUIDs. What a theorem needs of them is a named hypothesis on their documented
  behaviour: \<open>bcryptCorrect\<close> (a hash verifies its password), \<open>jwtCorrect\<close> (a signed token parses to its claims before it
  expires), \<open>uuidsCanonical\<close>. The SMTP server is \<open>smtp_server\<close>, Google and its libraries are \<open>google_ports\<close>, random
  bytes are \<open>entropy\<close>; \<open>modernEnv\<close> and the other samples show that the hypotheses can hold.

  \<^bold>\<open>Not modelled.\<close>

  \<^item> The SQL of the migrations as a program: the schema that results is modelled as data and constraints, and \<open>Migrate\<close> takes
    what PostgreSQL makes of a script as a parameter.

  \<^item> \<^verbatim>\<open>cmd/server/server.go\<close>, \<^verbatim>\<open>loadDotEnv\<close>, the \<^verbatim>\<open>main\<close> functions and logging: sockets, signals and files. The configuration that the environment yields is an argument of \<open>Load\<close>.

  \<^item> The wire encoding of messages by Connect and protobuf, the generated client, getters and descriptors. A call
    is the message that was read; the reply is the message to write.

  \<^item> Time limits of contexts and cancellation, except the time limit of a database call, which is one of the failures of
    \<open>env\<close>; the closing of connections; indexes that only serve speed.

  \<^item> The storage types of some columns: UUID columns hold their text, revisions are natural numbers without the bound of
    \<^verbatim>\<open>bigint\<close>. \<^verbatim>\<open>STARTTLS\<close> with its handshake is one step of the SMTP dialogue, and the check of \<^verbatim>\<open>net/smtp\<close> that the
    server still has the name that was dialled is left out.

  \<^item> The checks of constructors that a dependency is not nil: the model wires the services themselves.

  \<^item> The web clients of the repository, which are not written in Go.
\<close>

end
